(* ===== verification/Sdp_Prelude.thy ===== *)
theory Sdp_Prelude
  imports Complex_Main "HOL-Library.Multiset"
begin

text \<open>
  The shared vocabulary of the development: results and effects as values, the pieces of the
  JavaScript standard library that the modelled sources call (string splitting, trimming,
  padding, decimal printing, \<^verbatim>\<open>BigInt\<close> reading), JSON values, and the generic list lemmas
  that several components use.

  An operation that may throw returns \<open>'e + 'a\<close> (\<open>Inl\<close> the thrown value). An operation that
  also changes state is a function \<open>'s \<Rightarrow> ('e + 'a) \<times> 's\<close>: the state survives a throw, as the
  rows a failed request has already written do.
\<close>

named_theorems effect_simps "unfolding of the result and effect combinators"
named_theorems type_defs "record and enumeration helper definitions"

section \<open>Results\<close>

type_synonym ('e, 'a) result = "'e + 'a"

definition result_bind :: "('e, 'a) result \<Rightarrow> ('a \<Rightarrow> ('e, 'b) result) \<Rightarrow> ('e, 'b) result" where
  "result_bind r f = (case r of Inl e \<Rightarrow> Inl e | Inr a \<Rightarrow> f a)"

lemma result_bind_simps [simp]:
  "result_bind (Inl e) f = Inl e"
  "result_bind (Inr a) f = f a"
  by (simp_all add: result_bind_def)

lemma result_bind_Inr_iff:
  "result_bind r f = Inr b \<longleftrightarrow> (\<exists>a. r = Inr a \<and> f a = Inr b)"
  by (cases r) auto

text \<open>\<open>Array.prototype.map\<close> and \<open>flatMap\<close> with a callback that may throw: the first throw stops
  the traversal.\<close>

fun result_mapM :: "('a \<Rightarrow> ('e, 'b) result) \<Rightarrow> 'a list \<Rightarrow> ('e, 'b list) result" where
  "result_mapM f [] = Inr []"
| "result_mapM f (x # xs) =
     result_bind (f x) (\<lambda>y. result_bind (result_mapM f xs) (\<lambda>ys. Inr (y # ys)))"

definition result_flatMap :: "('a \<Rightarrow> ('e, 'b list) result) \<Rightarrow> 'a list \<Rightarrow> ('e, 'b list) result" where
  "result_flatMap f xs = result_bind (result_mapM f xs) (\<lambda>yss. Inr (concat yss))"

lemma result_mapM_Inr [simp]: "result_mapM (\<lambda>x. Inr (f x)) xs = Inr (map f xs)"
  by (induction xs) auto

lemma result_flatMap_Inr [simp]:
  "result_flatMap (\<lambda>x. Inr (f x)) xs = Inr (concat (map f xs))"
  by (simp add: result_flatMap_def)

section \<open>Effects\<close>

type_synonym ('s, 'e, 'a) io = "'s \<Rightarrow> ('e, 'a) result \<times> 's"

definition io_return :: "'a \<Rightarrow> ('s, 'e, 'a) io" where
  "io_return a = (\<lambda>s. (Inr a, s))"

definition io_throw :: "'e \<Rightarrow> ('s, 'e, 'a) io" where
  "io_throw e = (\<lambda>s. (Inl e, s))"

definition io_bind :: "('s, 'e, 'a) io \<Rightarrow> ('a \<Rightarrow> ('s, 'e, 'b) io) \<Rightarrow> ('s, 'e, 'b) io" where
  "io_bind m f = (\<lambda>s. case m s of (Inl e, s') \<Rightarrow> (Inl e, s') | (Inr a, s') \<Rightarrow> f a s')"

text \<open>\<^verbatim>\<open>try { m } catch (e) { h(e) }\<close>: the handler runs in the state the failure left.\<close>

definition io_catch :: "('s, 'e, 'a) io \<Rightarrow> ('e \<Rightarrow> ('s, 'e, 'a) io) \<Rightarrow> ('s, 'e, 'a) io" where
  "io_catch m h = (\<lambda>s. case m s of (Inl e, s') \<Rightarrow> h e s' | (Inr a, s') \<Rightarrow> (Inr a, s'))"

definition io_get :: "('s \<Rightarrow> 'a) \<Rightarrow> ('s, 'e, 'a) io" where
  "io_get f = (\<lambda>s. (Inr (f s), s))"

definition io_modify :: "('s \<Rightarrow> 's) \<Rightarrow> ('s, 'e, unit) io" where
  "io_modify f = (\<lambda>s. (Inr (), f s))"

definition io_lift :: "('e, 'a) result \<Rightarrow> ('s, 'e, 'a) io" where
  "io_lift r = (\<lambda>s. (r, s))"

lemmas [effect_simps] =
  io_return_def io_throw_def io_bind_def io_catch_def io_get_def io_modify_def io_lift_def

lemma io_bind_Inr_iff:
  "io_bind m f s = (Inr b, s') \<longleftrightarrow> (\<exists>a s1. m s = (Inr a, s1) \<and> f a s1 = (Inr b, s'))"
  by (auto simp: io_bind_def split: prod.splits sum.splits)

lemma io_bind_assoc: "io_bind (io_bind m f) g = io_bind m (\<lambda>a. io_bind (f a) g)"
  by (auto simp: io_bind_def fun_eq_iff split: prod.splits sum.splits)

lemma io_bind_return [simp]: "io_bind (io_return a) f = f a"
  by (simp add: io_bind_def io_return_def)

section \<open>JSON values\<close>

datatype json =
    JNull
  | JBool bool
  | JNum int
  | JStr string
  | JArr "json list"
  | JObj "(string \<times> json) list"

type_synonym json_object = "(string \<times> json) list"

text \<open>Property access on an object: \<open>None\<close> is \<^verbatim>\<open>undefined\<close>.\<close>

definition json_field :: "json_object \<Rightarrow> string \<Rightarrow> json option" where
  "json_field ob k = map_of ob k"

section \<open>Time\<close>

text \<open>Instants are stored and compared as the fixed-width strings of \<^verbatim>\<open>Date.prototype.toISOString\<close>, whose
  lexicographic order is the order of the instants; a timestamp is that instant, in milliseconds.\<close>

type_synonym timestamp = int

section \<open>Strings\<close>

fun js_split :: "char \<Rightarrow> string \<Rightarrow> string list" where
  "js_split d [] = [[]]"
| "js_split d (c # cs) =
     (if c = d then [] # js_split d cs
      else case js_split d cs of [] \<Rightarrow> [[c]] | s # ss \<Rightarrow> (c # s) # ss)"

fun js_join :: "string \<Rightarrow> string list \<Rightarrow> string" where
  "js_join sep [] = []"
| "js_join sep [s] = s"
| "js_join sep (s # ss) = s @ sep @ js_join sep ss"

lemma js_split_not_Nil [simp]: "js_split d s \<noteq> []"
  by (induction s) (auto split: list.splits)

lemma js_split_no_sep: "d \<notin> set s \<Longrightarrow> js_split d s = [s]"
  by (induction s) auto

lemma js_split_append: "d \<notin> set s \<Longrightarrow> js_split d (s @ d # t) = s # js_split d t"
  by (induction s) auto

lemma js_join_split: "js_join [d] (js_split d s) = s"
proof (induction s)
  case Nil
  then show ?case by simp
next
  case (Cons c s)
  obtain x xs where "js_split d s = x # xs" by (cases "js_split d s") auto
  with Cons show ?case by (cases xs) auto
qed

text \<open>The characters \<^verbatim>\<open>String.prototype.trim\<close> removes, among those of the \<open>char\<close> type.\<close>

definition js_space :: "char \<Rightarrow> bool" where
  "js_space c = ((of_char c :: nat) \<in> {9, 10, 11, 12, 13, 32, 160})"

definition js_trim :: "string \<Rightarrow> string" where
  "js_trim s = rev (dropWhile js_space (rev (dropWhile js_space s)))"

lemma js_trim_no_space:
  assumes "\<forall>c\<in>set s. \<not> js_space c"
  shows "js_trim s = s"
proof -
  have "dropWhile js_space t = t" if "set t \<subseteq> set s" for t
    using that assms by (cases t) auto
  then show ?thesis by (simp add: js_trim_def)
qed

section \<open>Decimal digits\<close>

definition is_digit :: "char \<Rightarrow> bool" where
  "is_digit c = (48 \<le> (of_char c :: nat) \<and> (of_char c :: nat) \<le> 57)"

definition digit_char :: "nat \<Rightarrow> char" where
  "digit_char d = char_of (48 + d)"

definition char_digit :: "char \<Rightarrow> nat" where
  "char_digit c = of_char c - 48"

text \<open>\<^verbatim>\<open>BigInt.prototype.toString\<close> and \<^verbatim>\<open>Number.prototype.toString\<close> on non-negative integers.\<close>

fun dec_digits :: "nat \<Rightarrow> string" where
  "dec_digits n = (if n < 10 then [digit_char n] else dec_digits (n div 10) @ [digit_char (n mod 10)])"

declare dec_digits.simps [simp del]

definition int_string :: "int \<Rightarrow> string" where
  "int_string i = (if i < 0 then CHR ''-'' # dec_digits (nat (- i)) else dec_digits (nat i))"

fun digits_acc :: "nat \<Rightarrow> string \<Rightarrow> nat" where
  "digits_acc a [] = a"
| "digits_acc a (c # cs) = digits_acc (10 * a + char_digit c) cs"

abbreviation digits_value :: "string \<Rightarrow> nat" where
  "digits_value s \<equiv> digits_acc 0 s"

lemma of_char_digit_char: "d < 10 \<Longrightarrow> (of_char (digit_char d) :: nat) = 48 + d"
  by (simp add: digit_char_def)

lemma is_digit_digit_char: "d < 10 \<Longrightarrow> is_digit (digit_char d)"
  by (simp add: is_digit_def of_char_digit_char)

lemma char_digit_digit_char: "d < 10 \<Longrightarrow> char_digit (digit_char d) = d"
  by (simp add: char_digit_def of_char_digit_char)

lemma char_digit_less: "is_digit c \<Longrightarrow> char_digit c < 10"
  by (auto simp: is_digit_def char_digit_def)

lemma digits_acc_eq: "digits_acc a s = a * 10 ^ length s + digits_value s"
proof (induction s arbitrary: a)
  case Nil
  show ?case by simp
next
  case (Cons c s)
  have "digits_acc a (c # s) = (10 * a + char_digit c) * 10 ^ length s + digits_value s"
    using Cons[of "10 * a + char_digit c"] by simp
  moreover have "digits_value (c # s) = char_digit c * 10 ^ length s + digits_value s"
    using Cons[of "char_digit c"] by simp
  ultimately show ?case by (simp add: algebra_simps)
qed

lemma digits_value_append:
  "digits_value (s @ t) = digits_value s * 10 ^ length t + digits_value t"
proof (induction s)
  case Nil
  show ?case by simp
next
  case (Cons c s)
  have "digits_value ((c # s) @ t) = char_digit c * 10 ^ length (s @ t) + digits_value (s @ t)"
    using digits_acc_eq[of "char_digit c" "s @ t"] by simp
  moreover have "digits_value (c # s) = char_digit c * 10 ^ length s + digits_value s"
    using digits_acc_eq[of "char_digit c" s] by simp
  ultimately show ?case using Cons by (simp add: algebra_simps power_add)
qed

lemma digits_value_zeros [simp]: "digits_value (replicate n (CHR ''0'')) = 0"
  by (induction n) (auto simp: char_digit_def)

lemma digits_value_drop_zeros: "digits_value (dropWhile ((=) (CHR ''0'')) s) = digits_value s"
  by (induction s) (auto simp: char_digit_def)

lemma digits_value_bound: "\<forall>c\<in>set s. is_digit c \<Longrightarrow> digits_value s < 10 ^ length s"
proof (induction s)
  case Nil
  show ?case by simp
next
  case (Cons c s)
  have "char_digit c * 10 ^ length s + digits_value s < (char_digit c + 1) * 10 ^ length s"
    using Cons by simp
  also have "\<dots> \<le> 10 * 10 ^ length s"
    using Cons.prems char_digit_less[of c] by (intro mult_right_mono) auto
  finally show ?case
    using digits_acc_eq[of "char_digit c" s] by simp
qed

lemma dec_digits_not_Nil [simp]: "dec_digits n \<noteq> []"
  by (subst dec_digits.simps) simp

lemma digits_value_dec_digits [simp]: "digits_value (dec_digits n) = n"
proof (induction n rule: dec_digits.induct)
  case (1 n)
  show ?case
  proof (cases "n < 10")
    case True
    then show ?thesis by (simp add: dec_digits.simps[of n] char_digit_digit_char)
  next
    case False
    have "digits_value (dec_digits n) = n div 10 * 10 + n mod 10"
      using False 1 by (simp add: dec_digits.simps[of n] digits_value_append char_digit_digit_char)
    then show ?thesis by (metis div_mult_mod_eq)
  qed
qed

lemma dec_digits_is_digit: "\<forall>c\<in>set (dec_digits n). is_digit c"
proof (induction n rule: dec_digits.induct)
  case (1 n)
  then show ?case
    by (cases "n < 10") (auto simp: dec_digits.simps[of n] is_digit_digit_char)
qed

lemma dec_digits_inj: "dec_digits m = dec_digits n \<longleftrightarrow> m = n"
  by (metis digits_value_dec_digits)

lemma is_digit_not_space: "is_digit c \<Longrightarrow> \<not> js_space c"
  by (auto simp: is_digit_def js_space_def)

lemma is_digit_not_dot [simp]: "\<not> is_digit (CHR ''.'')"
  by (simp add: is_digit_def)

lemma is_digit_zero [simp]: "is_digit (CHR ''0'')"
  by (simp add: is_digit_def)

section \<open>Lists\<close>

text \<open>\<^verbatim>\<open>[...new Set(values)]\<close>: one copy of each element, in the order of first occurrence.\<close>

definition js_unique :: "'a list \<Rightarrow> 'a list" where
  "js_unique xs = rev (remdups (rev xs))"

lemma set_js_unique [simp]: "set (js_unique xs) = set xs"
  by (simp add: js_unique_def)

lemma js_unique_Nil [simp]: "js_unique xs = [] \<longleftrightarrow> xs = []"
  by (simp add: js_unique_def)

lemma distinct_js_unique [simp]: "distinct (js_unique xs)"
  by (simp add: js_unique_def)

section \<open>Strictest-first selection\<close>

text \<open>
  Both the rule combinator and the scope combinator keep the first element of strictly larger
  rank. \<open>pick_max\<close> is that fold from a given start.
\<close>

fun pick_max :: "('a \<Rightarrow> nat) \<Rightarrow> 'a \<Rightarrow> 'a list \<Rightarrow> 'a" where
  "pick_max r b [] = b"
| "pick_max r b (x # xs) = pick_max r (if r x > r b then x else b) xs"

lemma pick_max_in: "pick_max r b xs \<in> insert b (set xs)"
proof (induction xs arbitrary: b)
  case Nil
  show ?case by simp
next
  case (Cons x xs)
  then show ?case using Cons.IH[of x] Cons.IH[of b] by auto
qed

lemma pick_max_ge: "y \<in> insert b (set xs) \<Longrightarrow> r y \<le> r (pick_max r b xs)"
proof (induction xs arbitrary: b y)
  case Nil
  then show ?case by simp
next
  case (Cons x xs)
  let ?b = "if r x > r b then x else b"
  have *: "r ?b \<le> r (pick_max r ?b xs)" using Cons.IH[of ?b ?b] by simp
  show ?case
  proof (cases "y \<in> set xs")
    case True
    then show ?thesis using Cons.IH[of y ?b] by simp
  next
    case False
    then have "r y \<le> r ?b" using Cons.prems by auto
    with * show ?thesis by (metis pick_max.simps(2) order_trans)
  qed
qed

lemma pick_max_rank: "r (pick_max r b xs) = Max (r ` insert b (set xs))"
proof (rule Max_eqI[symmetric])
  show "finite (r ` insert b (set xs))" by simp
  show "\<And>y. y \<in> r ` insert b (set xs) \<Longrightarrow> y \<le> r (pick_max r b xs)"
    using pick_max_ge[of _ b xs r] by blast
  show "r (pick_max r b xs) \<in> r ` insert b (set xs)"
    using pick_max_in[of r b xs] by blast
qed

end
