(* ===== verification/Policy_Types.thy ===== *)
theory Policy_Types
  imports Sdp_Prelude
begin

text \<open>
  The data model of wallet policies (\<^verbatim>\<open>packages/sdp-types/src/policy.ts\<close>): operation vocabulary,
  decisions, the seven rule kinds, control profiles and their revisions, candidates and operation
  envelopes, and the records an evaluation returns. A TypeScript interface is a record, a string
  union an enumeration, an optional property or a nullable one an option, and an interface that
  extends another a record extension. Field names carry a prefix for their record, since Isabelle
  shares one name space between records.
\<close>

section \<open>Vocabulary\<close>

datatype PolicyProfileStatus = ProfileDraft | ProfileActive | ProfileDisabled | ProfileArchived

datatype PolicyDefaultAction = DefAllow | DefDeny | DefApprovalRequired | DefReview

datatype EffectivePolicySource = implicit_default_allow | customer_profile

datatype WalletOperationType =
    earn_vault_deposit
  | earn_vault_withdrawal
  | issuance_burn_execute
  | issuance_force_burn_execute
  | issuance_mint_execute
  | issuance_seize_execute
  | issuance_update_authority_execute
  | payment_transfer_batch_execute
  | payment_transfer_execute
  | ramp_offramp_quote
  | ramp_onramp_quote
  | recurring_payment_collection
  | recurring_payment_create
  | recurring_payment_update
  | rings_shield
  | rings_transfer_registered
  | rings_transfer_anonymous
  | rings_withdraw
  | rings_merge
  | rings_timelock_create
  | rings_timelock_settle
  | rings_zone_create

datatype WalletOperationFamily = FamTransfer | FamPayment | FamRamp | FamIssuance | FamProgram

datatype WalletOperationStatus =
  OpCreated | OpEvaluated | OpPendingApproval | OpExecuting | OpCompleted | OpFailed | OpCanceled

datatype PolicyDecision =
  Allow | Deny | ApprovalRequired | ProviderApprovalRequired | Review | NotEvaluated

datatype PolicyEvaluationReasonCode =
    RcImplicitDefaultAllow
  | RcWalletPolicyMatch
  | RcApiKeyPolicyMatch
  | RcWalletPolicyMissing
  | RcApiKeyPolicyMissing
  | RcManualReview
  | RcProviderMappingPending
  | RcProviderMappingPartial
  | RcProviderMappingFailed
  | RcOther string

text \<open>\<^verbatim>\<open>Exclude<PolicyDecision, "not_evaluated">\<close>: a rule's action is any decision but the last.\<close>

datatype PolicyRuleAction =
  ActAllow | ActDeny | ActApprovalRequired | ActProviderApprovalRequired | ActReview

datatype PolicyRuleScope = ScopeWallet | ScopeApiKey

text \<open>Both kinds of action are used where a decision is expected.\<close>

fun action_decision :: "PolicyRuleAction \<Rightarrow> PolicyDecision" where
  "action_decision ActAllow = Allow"
| "action_decision ActDeny = Deny"
| "action_decision ActApprovalRequired = ApprovalRequired"
| "action_decision ActProviderApprovalRequired = ProviderApprovalRequired"
| "action_decision ActReview = Review"

fun default_decision :: "PolicyDefaultAction \<Rightarrow> PolicyDecision" where
  "default_decision DefAllow = Allow"
| "default_decision DefDeny = Deny"
| "default_decision DefApprovalRequired = ApprovalRequired"
| "default_decision DefReview = Review"

text \<open>The strings behind the enumerations, which messages interpolate.\<close>

fun decision_text :: "PolicyDecision \<Rightarrow> string" where
  "decision_text Allow = ''allow''"
| "decision_text Deny = ''deny''"
| "decision_text ApprovalRequired = ''approval_required''"
| "decision_text ProviderApprovalRequired = ''provider_approval_required''"
| "decision_text Review = ''review''"
| "decision_text NotEvaluated = ''not_evaluated''"

fun family_text :: "WalletOperationFamily \<Rightarrow> string" where
  "family_text FamTransfer = ''transfer''"
| "family_text FamPayment = ''payment''"
| "family_text FamRamp = ''ramp''"
| "family_text FamIssuance = ''issuance''"
| "family_text FamProgram = ''program''"

fun operation_type_text :: "WalletOperationType \<Rightarrow> string" where
  "operation_type_text earn_vault_deposit = ''earn_vault_deposit''"
| "operation_type_text earn_vault_withdrawal = ''earn_vault_withdrawal''"
| "operation_type_text issuance_burn_execute = ''issuance_burn_execute''"
| "operation_type_text issuance_force_burn_execute = ''issuance_force_burn_execute''"
| "operation_type_text issuance_mint_execute = ''issuance_mint_execute''"
| "operation_type_text issuance_seize_execute = ''issuance_seize_execute''"
| "operation_type_text issuance_update_authority_execute = ''issuance_update_authority_execute''"
| "operation_type_text payment_transfer_batch_execute = ''payment_transfer_batch_execute''"
| "operation_type_text payment_transfer_execute = ''payment_transfer_execute''"
| "operation_type_text ramp_offramp_quote = ''ramp_offramp_quote''"
| "operation_type_text ramp_onramp_quote = ''ramp_onramp_quote''"
| "operation_type_text recurring_payment_collection = ''recurring_payment_collection''"
| "operation_type_text recurring_payment_create = ''recurring_payment_create''"
| "operation_type_text recurring_payment_update = ''recurring_payment_update''"
| "operation_type_text rings_shield = ''rings_shield''"
| "operation_type_text rings_transfer_registered = ''rings_transfer_registered''"
| "operation_type_text rings_transfer_anonymous = ''rings_transfer_anonymous''"
| "operation_type_text rings_withdraw = ''rings_withdraw''"
| "operation_type_text rings_merge = ''rings_merge''"
| "operation_type_text rings_timelock_create = ''rings_timelock_create''"
| "operation_type_text rings_timelock_settle = ''rings_timelock_settle''"
| "operation_type_text rings_zone_create = ''rings_zone_create''"

section \<open>Rules\<close>

record PolicyRuleBase =
  pr_id :: "string option"
  pr_name :: "string option"
  pr_action :: "PolicyRuleAction option"
  pr_description :: "string option"

record OperationFamilyPolicyRule = PolicyRuleBase +
  ofr_family :: "WalletOperationFamily option"
  ofr_families :: "WalletOperationFamily list option"

record OperationTypePolicyRule = PolicyRuleBase +
  otr_operationType :: "WalletOperationType option"
  otr_operationTypes :: "WalletOperationType list option"

record AssetPolicyRule = PolicyRuleBase +
  asr_asset :: "string option"
  asr_assets :: "string list option"

record DestinationPolicyRule = PolicyRuleBase +
  dsr_allowlist :: "string list option"
  dsr_blocklist :: "string list option"
  dsr_destination :: "string option"
  dsr_destinations :: "string list option"

record AmountPolicyRule = PolicyRuleBase +
  amr_min :: "string option"
  amr_max :: "string option"
  amr_asset :: "string option"
  amr_assets :: "string list option"

record ApprovalPolicyRule = PolicyRuleBase +
  apr_families :: "WalletOperationFamily list option"
  apr_operationTypes :: "WalletOperationType list option"
  apr_assets :: "string list option"
  apr_approvalGroupId :: "string option"

type_synonym AlwaysPolicyRule = PolicyRuleBase

datatype PolicyRule =
    RuleOperationFamily OperationFamilyPolicyRule
  | RuleOperationType OperationTypePolicyRule
  | RuleAsset AssetPolicyRule
  | RuleDestination DestinationPolicyRule
  | RuleAmount AmountPolicyRule
  | RuleApproval ApprovalPolicyRule
  | RuleAlways AlwaysPolicyRule

text \<open>The discriminant \<^verbatim>\<open>kind\<close> and the base fields every member of the union shares.\<close>

datatype PolicyRuleKind =
    KindOperationFamily | KindOperationType | KindAsset | KindDestination | KindAmount
  | KindApproval | KindAlways

fun rule_kind :: "PolicyRule \<Rightarrow> PolicyRuleKind" where
  "rule_kind (RuleOperationFamily r) = KindOperationFamily"
| "rule_kind (RuleOperationType r) = KindOperationType"
| "rule_kind (RuleAsset r) = KindAsset"
| "rule_kind (RuleDestination r) = KindDestination"
| "rule_kind (RuleAmount r) = KindAmount"
| "rule_kind (RuleApproval r) = KindApproval"
| "rule_kind (RuleAlways r) = KindAlways"

fun rule_base :: "PolicyRule \<Rightarrow> PolicyRuleBase" where
  "rule_base (RuleOperationFamily r) = PolicyRuleBase.truncate r"
| "rule_base (RuleOperationType r) = PolicyRuleBase.truncate r"
| "rule_base (RuleAsset r) = PolicyRuleBase.truncate r"
| "rule_base (RuleDestination r) = PolicyRuleBase.truncate r"
| "rule_base (RuleAmount r) = PolicyRuleBase.truncate r"
| "rule_base (RuleApproval r) = PolicyRuleBase.truncate r"
| "rule_base (RuleAlways r) = r"

section \<open>Approval requests, profiles and revisions\<close>

datatype ApprovalRequestStatus =
  ArPending | ArApproved | ArRejected | ArCanceled | ArExpired | ArFailed

record WalletControlProfile =
  wcp_id :: string
  wcp_organizationId :: string
  wcp_projectId :: "string option"
  wcp_custodyWalletId :: string
  wcp_name :: string
  wcp_status :: PolicyProfileStatus
  wcp_activeRevisionId :: "string option"
  wcp_createdBy :: "string option"
  wcp_createdAt :: timestamp
  wcp_updatedAt :: timestamp
  wcp_activatedAt :: "timestamp option"
  wcp_archivedAt :: "timestamp option"

record WalletControlProfileRevision =
  wcr_id :: string
  wcr_profileId :: string
  wcr_revisionNumber :: int
  wcr_rules :: "PolicyRule list"
  wcr_defaultAction :: PolicyDefaultAction
  wcr_commitMessage :: "string option"
  wcr_createdBy :: "string option"
  wcr_createdAt :: timestamp
  wcr_activatedAt :: "timestamp option"

record ApiKeyControlProfile =
  akp_id :: string
  akp_organizationId :: string
  akp_projectId :: "string option"
  akp_apiKeyId :: string
  akp_name :: string
  akp_status :: PolicyProfileStatus
  akp_activeRevisionId :: "string option"
  akp_createdBy :: "string option"
  akp_createdAt :: timestamp
  akp_updatedAt :: timestamp
  akp_activatedAt :: "timestamp option"
  akp_archivedAt :: "timestamp option"

record ApiKeyControlProfileRevision =
  akr_id :: string
  akr_profileId :: string
  akr_revisionNumber :: int
  akr_rules :: "PolicyRule list"
  akr_defaultAction :: PolicyDefaultAction
  akr_createdBy :: "string option"
  akr_createdAt :: timestamp
  akr_activatedAt :: "timestamp option"

section \<open>Candidates and operations\<close>

text \<open>\<^verbatim>\<open>WalletOperationActor\<close> is an open object (two named fields and an index signature) that is stored
  as JSON and read back by a cast, so it stays a JSON object.\<close>

type_synonym WalletOperationActor = json_object

record PolicyCandidate =
  pc_organizationId :: string
  pc_projectId :: "string option"
  pc_custodyWalletId :: "string option"
  pc_walletId :: string
  pc_apiKeyId :: "string option"
  pc_actor :: "WalletOperationActor option"
  pc_source :: string
  pc_operationFamily :: WalletOperationFamily
  pc_operationType :: WalletOperationType
  pc_asset :: "string option"
  pc_amount :: "string option"
  pc_destination :: "string option"
  pc_context :: json_object
  pc_providerExtensions :: json_object

record WalletOperationEnvelope = PolicyCandidate +
  woe_id :: string
  woe_rawPayload :: json_object
  woe_idempotencyKey :: "string option"
  woe_status :: WalletOperationStatus
  woe_createdAt :: timestamp
  woe_updatedAt :: timestamp

section \<open>Evaluations\<close>

record MatchedPolicyRule =
  mr_scope :: PolicyRuleScope
  mr_ruleId :: "string option"
  mr_kind :: PolicyRuleKind
  mr_decision :: PolicyDecision
  mr_reason :: string
  mr_rule :: PolicyRule
  mr_leg :: "nat option"

record PolicyDryRunCriterion =
  drc_scope :: PolicyRuleScope
  drc_ruleId :: "string option"
  drc_kind :: PolicyRuleKind
  drc_name :: "string option"
  drc_matched :: bool
  drc_action :: "PolicyDecision option"
  drc_reason :: "string option"
  drc_leg :: "nat option"

record PolicyScopeEvaluation =
  pse_scope :: PolicyRuleScope
  pse_source :: EffectivePolicySource
  pse_profileId :: "string option"
  pse_revisionId :: "string option"
  pse_defaultAction :: PolicyDefaultAction
  pse_decision :: PolicyDecision
  pse_reasonCode :: PolicyEvaluationReasonCode
  pse_reason :: string
  pse_matchedRules :: "MatchedPolicyRule list"
  pse_requiresApproval :: bool

record PolicyEvaluationPolicyContext =
  pepc_source :: EffectivePolicySource
  pepc_profileId :: "string option"
  pepc_revisionId :: "string option"
  pepc_defaultAction :: PolicyDefaultAction
  pepc_decision :: PolicyDecision
  pepc_requiresApproval :: bool

text \<open>\<^verbatim>\<open>Omit<WalletOperationEnvelope, "status" | "updatedAt">\<close>.\<close>

record OperationSnapshot = PolicyCandidate +
  snap_id :: string
  snap_rawPayload :: json_object
  snap_idempotencyKey :: "string option"
  snap_createdAt :: timestamp

record PolicyEvaluationContext =
  pec_operation :: OperationSnapshot
  pec_walletPolicy :: PolicyEvaluationPolicyContext
  pec_apiKeyPolicy :: "PolicyEvaluationPolicyContext option"

record CandidatePolicyEvaluation =
  cpe_wallet :: PolicyScopeEvaluation
  cpe_apiKey :: "PolicyScopeEvaluation option"
  cpe_decision :: PolicyDecision
  cpe_reasonCode :: PolicyEvaluationReasonCode
  cpe_reason :: string
  cpe_matchedRules :: "MatchedPolicyRule list"
  cpe_requiresApproval :: bool
  cpe_walletPolicyRevisionId :: "string option"
  cpe_apiKeyPolicyRevisionId :: "string option"

record WalletOperationPolicyEvaluation = CandidatePolicyEvaluation +
  wope_operation :: WalletOperationEnvelope
  wope_evaluationContext :: PolicyEvaluationContext

record PolicyEvaluation =
  pe_id :: string
  pe_walletOperationId :: string
  pe_walletPolicyRevisionId :: "string option"
  pe_apiKeyPolicyRevisionId :: "string option"
  pe_decision :: PolicyDecision
  pe_reasonCode :: PolicyEvaluationReasonCode
  pe_reason :: "string option"
  pe_matchedRules :: "MatchedPolicyRule list"
  pe_evaluationContext :: "PolicyEvaluationContext option"
  pe_requiresApproval :: bool
  pe_approvalRequestId :: "string option"
  pe_createdAt :: timestamp

section \<open>Effective policies\<close>

record ('profile, 'revision) EffectivePolicy =
  ep_source :: EffectivePolicySource
  ep_profile :: "'profile option"
  ep_revision :: "'revision option"
  ep_defaultAction :: PolicyDefaultAction

type_synonym EffectiveWalletPolicy =
  "(WalletControlProfile, WalletControlProfileRevision) EffectivePolicy"

type_synonym EffectiveApiKeyPolicy =
  "(ApiKeyControlProfile, ApiKeyControlProfileRevision) EffectivePolicy"

text \<open>
  \<^verbatim>\<open>EffectiveWalletPolicy | EffectiveApiKeyPolicy\<close>, the argument of the scope evaluator, with the
  fields both members of the union have.
\<close>

datatype ScopePolicy = WalletScopePolicy EffectiveWalletPolicy | ApiKeyScopePolicy EffectiveApiKeyPolicy

fun scope_source :: "ScopePolicy \<Rightarrow> EffectivePolicySource" where
  "scope_source (WalletScopePolicy p) = ep_source p"
| "scope_source (ApiKeyScopePolicy p) = ep_source p"

fun scope_profile_id :: "ScopePolicy \<Rightarrow> string option" where
  "scope_profile_id (WalletScopePolicy p) = map_option wcp_id (ep_profile p)"
| "scope_profile_id (ApiKeyScopePolicy p) = map_option akp_id (ep_profile p)"

text \<open>The revision, as the pair of its id and its rules.\<close>

fun scope_revision :: "ScopePolicy \<Rightarrow> (string \<times> PolicyRule list) option" where
  "scope_revision (WalletScopePolicy p) = map_option (\<lambda>r. (wcr_id r, wcr_rules r)) (ep_revision p)"
| "scope_revision (ApiKeyScopePolicy p) = map_option (\<lambda>r. (akr_id r, akr_rules r)) (ep_revision p)"

fun scope_default :: "ScopePolicy \<Rightarrow> PolicyDefaultAction" where
  "scope_default (WalletScopePolicy p) = ep_defaultAction p"
| "scope_default (ApiKeyScopePolicy p) = ep_defaultAction p"

section \<open>Lemmas\<close>

lemma action_decision_not_NotEvaluated [simp]: "action_decision a \<noteq> NotEvaluated"
  by (cases a) auto

lemma default_decision_not_NotEvaluated [simp]: "default_decision a \<noteq> NotEvaluated"
  by (cases a) auto

lemma action_decision_Allow [simp]: "action_decision a = Allow \<longleftrightarrow> a = ActAllow"
  by (cases a) auto

lemma decision_text_inj: "decision_text d = decision_text d' \<longleftrightarrow> d = d'"
  by (cases d; cases d') auto

end
