(* ===== verification/Decimal_Amount.thy ===== *)
theory Decimal_Amount
  imports Sdp_Prelude
begin

text \<open>
  Decimal amounts (\<^verbatim>\<open>packages/sdp-solana/src/amount.ts\<close>): recognising a decimal string, reading
  it as an integer number of base units, comparing two amounts at a common scale and printing
  base units back. The token's \<open>decimals\<close> is a JavaScript number; the model has the integers, so
  the source's \<^verbatim>\<open>Number.isInteger\<close> test is the sign test that remains. The two functions that go
  through floating point (\<^verbatim>\<open>toNumberAmount\<close>, \<^verbatim>\<open>toMosaicAmount\<close>) are not modelled.

  The lemmas show that reading is exact (the result is the string's rational value times
  \<open>10 ^ decimals\<close>), that comparison is comparison of the rational values and never throws on
  decimal strings, and that printing followed by reading is the identity.
\<close>

section \<open>Definitions\<close>

datatype amount_error = AmountError string | SyntaxError

definition MAX_SAFE_BASE_UNITS :: int where
  "MAX_SAFE_BASE_UNITS = 2 ^ 53 - 1"

definition isDigit :: "char \<Rightarrow> bool" where
  "isDigit c = (48 \<le> (of_char c :: nat) \<and> (of_char c :: nat) \<le> 57)"

text \<open>The \<^verbatim>\<open>for\<close> loop over the characters, with its two flags.\<close>

fun isDecimalString_loop :: "string \<Rightarrow> bool \<Rightarrow> bool \<Rightarrow> bool" where
  "isDecimalString_loop [] hasDigit seenDot = hasDigit"
| "isDecimalString_loop (c # cs) hasDigit seenDot =
     (if c = CHR ''.'' then
        (if seenDot then False else isDecimalString_loop cs hasDigit True)
      else if \<not> isDigit c then False
      else isDecimalString_loop cs True seenDot)"

definition isDecimalString :: "string \<Rightarrow> bool" where
  "isDecimalString value = (if value = [] then False else isDecimalString_loop value False False)"

definition normalizeDecimalParts :: "string \<Rightarrow> string \<times> string" where
  "normalizeDecimalParts value =
     (let parts = js_split (CHR ''.'') value;
          wholeRaw = (case parts of w # _ \<Rightarrow> w | _ \<Rightarrow> []);
          fractionRaw = (case parts of _ # f # _ \<Rightarrow> f | _ \<Rightarrow> [])
      in (if wholeRaw \<noteq> [] then wholeRaw else ''0'', fractionRaw))"

definition decimalScale :: "string \<Rightarrow> nat" where
  "decimalScale value = length (snd (normalizeDecimalParts (js_trim value)))"

definition padEnd :: "string \<Rightarrow> nat \<Rightarrow> char \<Rightarrow> string" where
  "padEnd s n c = s @ replicate (n - length s) c"

definition padStart :: "string \<Rightarrow> nat \<Rightarrow> char \<Rightarrow> string" where
  "padStart s n c = replicate (n - length s) c @ s"

text \<open>\<^verbatim>\<open>BigInt(string)\<close>: surrounding white space, then nothing, a signed decimal integer, or an
  unsigned literal with a radix prefix.\<close>

definition radix_digit :: "char \<Rightarrow> nat option" where
  "radix_digit c =
     (let n = (of_char c :: nat) in
      if 48 \<le> n \<and> n \<le> 57 then Some (n - 48)
      else if 97 \<le> n \<and> n \<le> 102 then Some (n - 87)
      else if 65 \<le> n \<and> n \<le> 70 then Some (n - 55)
      else None)"

fun radix_value :: "nat \<Rightarrow> nat \<Rightarrow> string \<Rightarrow> nat option" where
  "radix_value base acc [] = Some acc"
| "radix_value base acc (c # cs) =
     (case radix_digit c of
        None \<Rightarrow> None
      | Some d \<Rightarrow> if d < base then radix_value base (base * acc + d) cs else None)"

definition bigint_literal :: "nat \<Rightarrow> string \<Rightarrow> (amount_error, int) result" where
  "bigint_literal base ds =
     (if ds = [] then Inl SyntaxError
      else case radix_value base 0 ds of None \<Rightarrow> Inl SyntaxError | Some n \<Rightarrow> Inr (int n))"

definition js_BigInt :: "string \<Rightarrow> (amount_error, int) result" where
  "js_BigInt s =
     (let t = js_trim s
      in if t = [] then Inr 0
         else if take 2 t \<in> {''0x'', ''0X''} then bigint_literal 16 (drop 2 t)
         else if take 2 t \<in> {''0o'', ''0O''} then bigint_literal 8 (drop 2 t)
         else if take 2 t \<in> {''0b'', ''0B''} then bigint_literal 2 (drop 2 t)
         else if hd t = CHR ''-'' then result_bind (bigint_literal 10 (tl t)) (\<lambda>n. Inr (- n))
         else if hd t = CHR ''+'' then bigint_literal 10 (tl t)
         else bigint_literal 10 t)"

definition parseDecimalAmount :: "string \<Rightarrow> int \<Rightarrow> (amount_error, int) result" where
  "parseDecimalAmount value decimals =
     (let normalized = js_trim value in
      if \<not> isDecimalString normalized then Inl (AmountError ''Invalid decimal amount'')
      else if decimals < 0 then Inl (AmountError ''Invalid decimals configuration'')
      else
        let (whole, fraction) = normalizeDecimalParts normalized in
        if int (length fraction) > decimals
        then Inl (AmountError ''Amount has too many decimal places'')
        else
          let paddedFraction = padEnd fraction (nat decimals) (CHR ''0'');
              combined = whole @ paddedFraction;
              rest = dropWhile ((=) (CHR ''0'')) combined;
              sanitized = (if rest = [] then ''0'' else rest)
          in js_BigInt sanitized)"

definition compareDecimalAmounts :: "string \<Rightarrow> string \<Rightarrow> (amount_error, int) result" where
  "compareDecimalAmounts left right =
     (let decimals = int (max (decimalScale left) (decimalScale right)) in
      result_bind (parseDecimalAmount left decimals) (\<lambda>leftAmount.
      result_bind (parseDecimalAmount right decimals) (\<lambda>rightAmount.
        if leftAmount = rightAmount then Inr 0
        else Inr (if leftAmount < rightAmount then - 1 else 1))))"

datatype amount_input = AmountText string | AmountBigInt int

definition formatDecimalAmount :: "amount_input \<Rightarrow> int \<Rightarrow> (amount_error, string) result" where
  "formatDecimalAmount value decimals =
     (if decimals < 0 then Inl (AmountError ''Invalid decimals configuration'')
      else result_bind
        (case value of
           AmountBigInt b \<Rightarrow> Inr b
         | AmountText s \<Rightarrow> js_BigInt (if s = [] then ''0'' else s))
        (\<lambda>bigintValue.
          let negative = bigintValue < 0;
              absolute = (if negative then - bigintValue else bigintValue);
              sign = (if negative then ''-'' else []);
              digits0 = dec_digits (nat absolute);
              d = nat decimals
          in if d = 0 then Inr (sign @ digits0)
             else
               let digits = (if length digits0 \<le> d then padStart digits0 (d + 1) (CHR ''0'')
                             else digits0);
                   whole = take (length digits - d) digits;
                   fraction0 = drop (length digits - d) digits;
                   fraction = rev (dropWhile ((=) (CHR ''0'')) (rev fraction0));
                   formatted = (if fraction \<noteq> [] then whole @ ''.'' @ fraction else whole)
               in Inr (sign @ formatted)))"

section \<open>Decimal strings\<close>

lemma isDigit_is_digit [simp]: "isDigit = is_digit"
  by (simp add: fun_eq_iff isDigit_def is_digit_def)

lemma isDecimalString_loop_seen:
  "isDecimalString_loop v h True \<longleftrightarrow> (\<forall>c\<in>set v. is_digit c) \<and> (h \<or> v \<noteq> [])"
  by (induction v arbitrary: h) auto

text \<open>A decimal string is a whole part and, after at most one dot, a fraction.\<close>

definition decimal_parts :: "string \<Rightarrow> string \<Rightarrow> string \<Rightarrow> bool" where
  "decimal_parts v w f \<longleftrightarrow>
     (\<forall>c\<in>set (w @ f). is_digit c) \<and> w @ f \<noteq> [] \<and> (v = w @ ''.'' @ f \<or> v = w \<and> f = [])"

lemma isDecimalString_loop_parts:
  "isDecimalString_loop v h False \<Longrightarrow>
     \<exists>w f. (\<forall>c\<in>set (w @ f). is_digit c) \<and> (h \<or> w @ f \<noteq> []) \<and> (v = w @ ''.'' @ f \<or> v = w \<and> f = [])"
proof (induction v arbitrary: h)
  case Nil
  then show ?case by auto
next
  case (Cons c v)
  show ?case
  proof (cases "c = CHR ''.''")
    case True
    with Cons.prems have "(\<forall>c\<in>set v. is_digit c) \<and> (h \<or> v \<noteq> [])"
      by (simp add: isDecimalString_loop_seen)
    with True show ?thesis by (intro exI[of _ "[]"] exI[of _ v]) auto
  next
    case False
    with Cons.prems have c: "is_digit c" and "isDecimalString_loop v True False"
      by (auto split: if_splits)
    from Cons.IH[OF this(2)] obtain w f where
      "\<forall>c\<in>set (w @ f). is_digit c" "v = w @ ''.'' @ f \<or> v = w \<and> f = []" by blast
    with c show ?thesis by (intro exI[of _ "c # w"] exI[of _ f]) auto
  qed
qed

lemma isDecimalString_parts:
  assumes "isDecimalString v"
  obtains w f where "decimal_parts v w f"
  using assms isDecimalString_loop_parts[of v False]
  by (auto simp: isDecimalString_def decimal_parts_def split: if_splits)

lemma isDecimalString_chars:
  "isDecimalString v \<Longrightarrow> c \<in> set v \<Longrightarrow> is_digit c \<or> c = CHR ''.''"
  by (elim isDecimalString_parts) (auto simp: decimal_parts_def)

lemma dot_not_space: "\<not> js_space (CHR ''.'')"
  by (simp add: js_space_def)

lemma isDecimalString_trim [simp]: "isDecimalString v \<Longrightarrow> js_trim v = v"
  by (rule js_trim_no_space) (use isDecimalString_chars is_digit_not_space dot_not_space in blast)

lemma isDecimalString_digits:
  "\<lbrakk>\<forall>c\<in>set w. is_digit c; w \<noteq> []\<rbrakk> \<Longrightarrow> isDecimalString_loop w h False"
proof (induction w arbitrary: h)
  case (Cons c w)
  then show ?case by (cases w) auto
qed simp

lemma isDecimalString_loop_dotted:
  "\<lbrakk>\<forall>c\<in>set w. is_digit c; w \<noteq> []; \<forall>c\<in>set f. is_digit c\<rbrakk> \<Longrightarrow>
     isDecimalString_loop (w @ ''.'' @ f) h False"
proof (induction w arbitrary: h)
  case (Cons c w)
  then have c: "is_digit c" "c \<noteq> CHR ''.''" by auto
  show ?case
  proof (cases "w = []")
    case True
    with c Cons.prems show ?thesis by (auto simp: isDecimalString_loop_seen)
  next
    case False
    with c Cons show ?thesis by auto
  qed
qed simp

lemma normalizeDecimalParts_parts:
  assumes "decimal_parts v w f"
  shows "normalizeDecimalParts v = (if w \<noteq> [] then w else ''0'', f)"
proof -
  from assms have "\<forall>c\<in>set (w @ f). is_digit c" by (simp add: decimal_parts_def)
  then have "CHR ''.'' \<notin> set (w @ f)" using is_digit_not_dot by blast
  then have "CHR ''.'' \<notin> set w" "CHR ''.'' \<notin> set f" by simp_all
  with assms show ?thesis
    by (auto simp: decimal_parts_def normalizeDecimalParts_def js_split_append js_split_no_sep)
qed

section \<open>Reading is exact\<close>

text \<open>The rational number a decimal string denotes.\<close>

definition decimal_value :: "string \<Rightarrow> rat" where
  "decimal_value v =
     (let (w, f) = normalizeDecimalParts (js_trim v)
      in of_nat (digits_value w) + of_nat (digits_value f) / 10 ^ length f)"

lemma radix_value_digits:
  "\<forall>c\<in>set ds. is_digit c \<Longrightarrow> radix_value 10 acc ds = Some (digits_acc acc ds)"
  by (induction ds arbitrary: acc)
     (auto simp: radix_digit_def is_digit_def char_digit_def Let_def)

lemma js_BigInt_digits:
  assumes "\<forall>c\<in>set ds. is_digit c" "ds \<noteq> []"
  shows "js_BigInt ds = Inr (int (digits_value ds))"
proof -
  have trim: "js_trim ds = ds"
    using assms is_digit_not_space by (intro js_trim_no_space) blast
  have "is_digit (hd ds)" using assms by simp
  then have "hd ds \<noteq> CHR ''-''" "hd ds \<noteq> CHR ''+''"
    by (auto simp: is_digit_def)
  moreover have "take 2 ds \<noteq> [a, b]" if "\<not> is_digit b" for a b
    using assms that in_set_takeD[of b 2 ds] by fastforce
  then have "take 2 ds \<notin> {''0x'', ''0X''}" "take 2 ds \<notin> {''0o'', ''0O''}"
    "take 2 ds \<notin> {''0b'', ''0B''}"
    by (simp_all add: is_digit_def)
  ultimately show ?thesis
    using trim assms by (simp add: js_BigInt_def bigint_literal_def radix_value_digits)
qed

lemma parseDecimalAmount_parts:
  assumes parts: "decimal_parts (js_trim v) w f" and dec: "isDecimalString (js_trim v)"
    and d: "length f \<le> d"
  shows "parseDecimalAmount v (int d) =
           Inr (int (digits_value w * 10 ^ d + digits_value f * 10 ^ (d - length f)))"
proof -
  let ?w = "if w \<noteq> [] then w else ''0''"
  let ?c = "?w @ padEnd f d (CHR ''0'')"
  let ?r = "dropWhile ((=) (CHR ''0'')) ?c"
  let ?s = "if ?r = [] then ''0'' else ?r"
  have dig: "\<forall>c\<in>set ?c. is_digit c"
    using parts by (auto simp: decimal_parts_def padEnd_def)
  then have "\<forall>c\<in>set ?r. is_digit c" by (meson set_dropWhileD)
  then have s: "js_BigInt ?s = Inr (int (digits_value ?s))"
    by (intro js_BigInt_digits) auto
  have "digits_value ?s = digits_value ?c"
  proof (cases "?r = []")
    case True
    then have "digits_value ?c = digits_value []" by (metis digits_value_drop_zeros)
    with True show ?thesis by (simp add: char_digit_def)
  next
    case False
    then show ?thesis by (simp only: if_False digits_value_drop_zeros)
  qed
  also have "\<dots> = digits_value ?w * 10 ^ d + digits_value f * 10 ^ (d - length f)"
    using d by (simp add: digits_value_append padEnd_def)
  also have "digits_value ?w = digits_value w" by (simp add: char_digit_def)
  finally have "js_BigInt ?s =
      Inr (int (digits_value w * 10 ^ d + digits_value f * 10 ^ (d - length f)))"
    using s by simp
  with dec d show ?thesis
    by (simp add: parseDecimalAmount_def normalizeDecimalParts_parts[OF parts] Let_def)
qed

lemma decimal_value_parts:
  assumes "decimal_parts (js_trim v) w f"
  shows "decimal_value v = of_nat (digits_value w) + of_nat (digits_value f) / 10 ^ length f"
  using assms by (simp add: decimal_value_def normalizeDecimalParts_parts char_digit_def)

lemma decimalScale_parts: "decimal_parts (js_trim v) w f \<Longrightarrow> decimalScale v = length f"
  by (simp add: decimalScale_def normalizeDecimalParts_parts)

lemma parseDecimalAmount_value:
  assumes dec: "isDecimalString (js_trim v)" and d: "decimalScale v \<le> d"
  obtains n where "parseDecimalAmount v (int d) = Inr n"
    and "rat_of_int n = decimal_value v * 10 ^ d"
proof -
  from dec obtain w f where parts: "decimal_parts (js_trim v) w f"
    by (rule isDecimalString_parts)
  have len: "length f \<le> d" using d decimalScale_parts[OF parts] by simp
  let ?n = "int (digits_value w * 10 ^ d + digits_value f * 10 ^ (d - length f))"
  have "(10::rat) ^ d = 10 ^ length f * 10 ^ (d - length f)"
    using len by (simp flip: power_add)
  then have "rat_of_int ?n = decimal_value v * 10 ^ d"
    by (simp add: decimal_value_parts[OF parts] field_simps)
  with parseDecimalAmount_parts[OF parts dec len] show thesis by (rule that)
qed


text \<open>C35. Reading a decimal amount is exact: when \<^verbatim>\<open>parseDecimalAmount\<close> returns, its result is the
  rational value of the text times \<open>10 ^ decimals\<close>, with no rounding and no truncation.\<close>

theorem parseDecimalAmount_exact:
  assumes "parseDecimalAmount v d = Inr n"
  shows "0 \<le> d \<and> 0 \<le> n \<and> rat_of_int n = decimal_value v * 10 ^ nat d"
proof -
  from assms have dec: "isDecimalString (js_trim v)" and d: "0 \<le> d"
    and len: "length (snd (normalizeDecimalParts (js_trim v))) \<le> nat d"
    by (auto simp: parseDecimalAmount_def Let_def split: if_splits prod.splits)
  have "decimalScale v \<le> nat d" using len by (simp add: decimalScale_def)
  with dec obtain m where m: "parseDecimalAmount v (int (nat d)) = Inr m"
    "rat_of_int m = decimal_value v * 10 ^ nat d"
    by (rule parseDecimalAmount_value)
  have "n = m" using m(1) assms d by simp
  moreover have "0 \<le> decimal_value v" by (simp add: decimal_value_def split: prod.splits)
  then have "0 \<le> rat_of_int m" using m(2) by simp
  ultimately show ?thesis using m(2) d by simp
qed

theorem parseDecimalAmount_exact_witness:
  "parseDecimalAmount ''12.050'' 4 = Inr 120500 \<and>
   rat_of_int 120500 = decimal_value ''12.050'' * 10 ^ nat 4"
proof -
  have h: "parseDecimalAmount ''12.050'' 4 = Inr 120500"
    by (simp add: parseDecimalAmount_def js_trim_def js_space_def isDecimalString_def is_digit_def
        normalizeDecimalParts_def padEnd_def js_BigInt_def bigint_literal_def radix_digit_def
        Let_def)
  show ?thesis using h parseDecimalAmount_exact[OF h] by simp
qed

section \<open>Comparison is comparison of values\<close>

lemma compareDecimalAmounts_values:
  assumes l: "isDecimalString (js_trim l)" and r: "isDecimalString (js_trim r)"
  shows "compareDecimalAmounts l r =
           Inr (if decimal_value l = decimal_value r then 0
                else if decimal_value l < decimal_value r then - 1 else 1)"
proof -
  let ?d = "max (decimalScale l) (decimalScale r)"
  obtain a where a: "parseDecimalAmount l (int ?d) = Inr a"
    "rat_of_int a = decimal_value l * 10 ^ ?d"
    by (rule parseDecimalAmount_value[OF l, of ?d]) auto
  obtain b where b: "parseDecimalAmount r (int ?d) = Inr b"
    "rat_of_int b = decimal_value r * 10 ^ ?d"
    by (rule parseDecimalAmount_value[OF r, of ?d]) auto
  have "a = b \<longleftrightarrow> rat_of_int a = rat_of_int b" by simp
  also have "\<dots> \<longleftrightarrow> decimal_value l = decimal_value r" unfolding a b by simp
  finally have eq: "a = b \<longleftrightarrow> decimal_value l = decimal_value r" .
  have "a < b \<longleftrightarrow> rat_of_int a < rat_of_int b" by simp
  also have "\<dots> \<longleftrightarrow> decimal_value l < decimal_value r" unfolding a b by simp
  finally have less: "a < b \<longleftrightarrow> decimal_value l < decimal_value r" .
  show ?thesis using a(1) b(1) eq less by (simp add: compareDecimalAmounts_def)
qed

text \<open>On decimal strings \<^verbatim>\<open>compareDecimalAmounts\<close> never throws, and its sign is the order of the
  two rational values, whatever the number of decimal places each side writes.\<close>

theorem compareDecimalAmounts_order:
  assumes "isDecimalString l" and "isDecimalString r"
  shows "\<exists>c. compareDecimalAmounts l r = Inr c \<and>
           (c < 0 \<longleftrightarrow> decimal_value l < decimal_value r) \<and>
           (c = 0 \<longleftrightarrow> decimal_value l = decimal_value r) \<and>
           (c > 0 \<longleftrightarrow> decimal_value l > decimal_value r)"
  using assms by (auto simp: compareDecimalAmounts_values)

theorem compareDecimalAmounts_order_witness:
  "isDecimalString ''1.50'' \<and> isDecimalString ''1.5'' \<and>
   (\<exists>c. compareDecimalAmounts ''1.50'' ''1.5'' = Inr c \<and>
      (c = 0 \<longleftrightarrow> decimal_value ''1.50'' = decimal_value ''1.5''))"
proof -
  have h: "isDecimalString ''1.50''" "isDecimalString ''1.5''" by code_simp+
  show ?thesis using h compareDecimalAmounts_order[OF h] by blast
qed

section \<open>Printing and reading back\<close>

lemma rev_dropWhile_zeros:
  "\<exists>k. s = rev (dropWhile ((=) (CHR ''0'')) (rev s)) @ replicate k (CHR ''0'')"
proof (induction s rule: rev_induct)
  case Nil
  show ?case by simp
next
  case (snoc c s)
  then obtain k where k: "s = rev (dropWhile ((=) (CHR ''0'')) (rev s)) @ replicate k (CHR ''0'')"
    by blast
  show ?case
  proof (cases "c = CHR ''0''")
    case True
    then have "s @ [c] = rev (dropWhile ((=) (CHR ''0'')) (rev (s @ [c]))) @ replicate (Suc k) (CHR ''0'')"
      using k by (simp add: replicate_append_same[symmetric])
    then show ?thesis by blast
  next
    case False
    then show ?thesis by (intro exI[of _ 0]) auto
  qed
qed

lemma formatDecimalAmount_parts:
  assumes "0 < d"
  obtains w f where "formatDecimalAmount (AmountBigInt (int n)) (int d) =
      Inr (if f \<noteq> [] then w @ ''.'' @ f else w)"
    "w \<noteq> []" "\<forall>c\<in>set (w @ f). is_digit c" "length f \<le> d"
    "digits_value w * 10 ^ d + digits_value f * 10 ^ (d - length f) = n"
proof -
  let ?ds = "dec_digits n"
  let ?D = "if length ?ds \<le> d then padStart ?ds (d + 1) (CHR ''0'') else ?ds"
  let ?w = "take (length ?D - d) ?D"
  let ?frac = "drop (length ?D - d) ?D"
  let ?f = "rev (dropWhile ((=) (CHR ''0'')) (rev ?frac))"
  have lenD: "d < length ?D" by (auto simp: padStart_def)
  have digD: "\<forall>c\<in>set ?D. is_digit c"
    using dec_digits_is_digit by (auto simp: padStart_def)
  have valD: "digits_value ?D = n" by (simp add: padStart_def digits_value_append)
  have lenfrac: "length ?frac = d" using lenD by simp
  obtain k where k: "?frac = ?f @ replicate k (CHR ''0'')" using rev_dropWhile_zeros by blast
  then have lenf: "length ?frac = length ?f + k" by (metis length_append length_replicate)
  show thesis
  proof (rule that[of ?f ?w])
    show "formatDecimalAmount (AmountBigInt (int n)) (int d) =
        Inr (if ?f \<noteq> [] then ?w @ ''.'' @ ?f else ?w)"
      using assms by (simp add: formatDecimalAmount_def Let_def)
    have "0 < length ?w" using lenD by simp
    then show "?w \<noteq> []" by blast
    have "set ?f \<subseteq> set ?frac" by (auto dest: set_dropWhileD)
    then have "set (?w @ ?f) \<subseteq> set ?D"
      using set_take_subset[of "length ?D - d" ?D] set_drop_subset[of "length ?D - d" ?D]
      unfolding set_append by blast
    then show "\<forall>c\<in>set (?w @ ?f). is_digit c" using digD by blast
    show "length ?f \<le> d" using lenf lenfrac by simp
    have "n = digits_value (?w @ ?frac)" using valD by simp
    also have "\<dots> = digits_value ?w * 10 ^ d + digits_value ?frac"
      using lenfrac by (simp only: digits_value_append)
    also have "digits_value ?frac = digits_value ?f * 10 ^ (d - length ?f)"
      using k lenf lenfrac by (metis add_diff_cancel_left' add.right_neutral digits_value_append
          digits_value_zeros length_replicate)
    finally show "digits_value ?w * 10 ^ d + digits_value ?f * 10 ^ (d - length ?f) = n" ..
  qed
qed

lemma parseDecimalAmount_digits:
  assumes "w \<noteq> []" "\<forall>c\<in>set (w @ f). is_digit c" "length f \<le> d"
  shows "parseDecimalAmount (if f \<noteq> [] then w @ ''.'' @ f else w) (int d) =
           Inr (int (digits_value w * 10 ^ d + digits_value f * 10 ^ (d - length f)))"
proof -
  let ?v = "if f \<noteq> [] then w @ ''.'' @ f else w"
  have dec: "isDecimalString ?v"
    using assms isDecimalString_digits[of w False] isDecimalString_loop_dotted[of w f False]
    by (auto simp: isDecimalString_def)
  have parts: "decimal_parts ?v w f" using assms by (auto simp: decimal_parts_def)
  show ?thesis using parseDecimalAmount_parts[of ?v w f d] parts dec assms(3) by simp
qed

text \<open>Round trip: base units printed with \<^verbatim>\<open>formatDecimalAmount\<close> and read back with
  \<^verbatim>\<open>parseDecimalAmount\<close> at the same number of decimals give the same base units.\<close>

theorem format_parse_roundtrip:
  assumes "0 \<le> n" and "0 \<le> d"
  shows "\<exists>s. formatDecimalAmount (AmountBigInt n) d = Inr s \<and> parseDecimalAmount s d = Inr n"
proof (cases "d = 0")
  case True
  have "formatDecimalAmount (AmountBigInt n) 0 = Inr (dec_digits (nat n))"
    using assms by (simp add: formatDecimalAmount_def Let_def)
  moreover have "parseDecimalAmount (dec_digits (nat n)) 0 = Inr n"
    using parseDecimalAmount_digits[of "dec_digits (nat n)" "[]" 0] dec_digits_is_digit assms
    by simp
  ultimately show ?thesis using True by blast
next
  case False
  with assms have "0 < nat d" by simp
  then obtain w f where fmt: "formatDecimalAmount (AmountBigInt (int (nat n))) (int (nat d)) =
      Inr (if f \<noteq> [] then w @ ''.'' @ f else w)"
    and wf: "w \<noteq> []" "\<forall>c\<in>set (w @ f). is_digit c" "length f \<le> nat d"
    and val: "digits_value w * 10 ^ nat d + digits_value f * 10 ^ (nat d - length f) = nat n"
    by (rule formatDecimalAmount_parts)
  show ?thesis
    using fmt parseDecimalAmount_digits[OF wf] assms unfolding val by simp
qed

theorem format_parse_roundtrip_witness:
  "(0::int) \<le> 1000500 \<and> (0::int) \<le> 6 \<and>
   (\<exists>s. formatDecimalAmount (AmountBigInt 1000500) 6 = Inr s \<and> parseDecimalAmount s 6 = Inr 1000500)"
  using format_parse_roundtrip[of 1000500 6] by simp

end
