(* ===== verification/Policy_Rules.thy ===== *)
theory Policy_Rules
  imports Policy_Types Decimal_Amount
begin

text \<open>
  The rule evaluators (\<^verbatim>\<open>packages/sdp-policy/src/rules/\<close>): one per rule kind, the dispatcher
  \<^verbatim>\<open>evaluatePolicyRule\<close>, and the classifier \<^verbatim>\<open>policyRuleRestricts\<close> that the dashboard uses. A rule
  that does not apply returns \<^verbatim>\<open>null\<close> (here \<open>None\<close>). Only the amount rule calls code that can throw
  (\<^verbatim>\<open>compareDecimalAmounts\<close>), so it and the dispatcher return a result; the lemmas show that no
  rule evaluation throws, that a matched rule always names a live decision, and what each
  restriction guarantees.
\<close>

section \<open>Definitions\<close>

record RuleEvaluation =
  re_decision :: PolicyDecision
  re_reason :: string
  re_rule :: PolicyRule

definition ruleValues :: "'a option \<Rightarrow> 'a list option \<Rightarrow> 'a list" where
  "ruleValues single many =
     (let values = (case single of None \<Rightarrow> [] | Some v \<Rightarrow> [v]) @
                   (case many of None \<Rightarrow> [] | Some vs \<Rightarrow> vs)
      in js_unique values)"

text \<open>\<^verbatim>\<open>rule.action === undefined ? fallback : rule.action\<close>, written out in every evaluator.\<close>

definition action_or :: "PolicyDecision \<Rightarrow> PolicyRuleAction option \<Rightarrow> PolicyDecision" where
  "action_or fallback act = (case act of None \<Rightarrow> fallback | Some a \<Rightarrow> action_decision a)"

definition evaluateAlwaysRule :: "AlwaysPolicyRule \<Rightarrow> RuleEvaluation" where
  "evaluateAlwaysRule rule =
     \<lparr>re_decision = action_or Allow (pr_action rule),
      re_reason = ''Always rule matched.'',
      re_rule = RuleAlways rule\<rparr>"

definition evaluateOperationFamilyRule ::
  "OperationFamilyPolicyRule \<Rightarrow> PolicyCandidate \<Rightarrow> RuleEvaluation option" where
  "evaluateOperationFamilyRule rule operation =
     (let families = ruleValues (ofr_family rule) (ofr_families rule);
          ev = (\<lambda>d r. Some \<lparr>re_decision = d, re_reason = r, re_rule = RuleOperationFamily rule\<rparr>)
      in if families = [] then ev Review ''Operation family rule has no families.''
         else if pc_operationFamily operation \<notin> set families then None
         else ev (action_or Allow (pr_action rule))
                (''Operation family '' @ family_text (pc_operationFamily operation) @
                 '' matched policy.''))"

definition evaluateOperationTypeRule ::
  "OperationTypePolicyRule \<Rightarrow> PolicyCandidate \<Rightarrow> RuleEvaluation option" where
  "evaluateOperationTypeRule rule operation =
     (let operationTypes = ruleValues (otr_operationType rule) (otr_operationTypes rule);
          ev = (\<lambda>d r. Some \<lparr>re_decision = d, re_reason = r, re_rule = RuleOperationType rule\<rparr>)
      in if operationTypes = [] then ev Review ''Operation type rule has no operation types.''
         else if pc_operationType operation \<notin> set operationTypes then None
         else ev (action_or Allow (pr_action rule))
                (''Operation type '' @ operation_type_text (pc_operationType operation) @
                 '' matched policy.''))"

definition evaluateAssetRule :: "AssetPolicyRule \<Rightarrow> PolicyCandidate \<Rightarrow> RuleEvaluation option" where
  "evaluateAssetRule rule operation =
     (let assets = ruleValues (asr_asset rule) (asr_assets rule);
          ev = (\<lambda>d r. Some \<lparr>re_decision = d, re_reason = r, re_rule = RuleAsset rule\<rparr>)
      in if assets = [] then ev Review ''Asset rule has no assets.''
         else case pc_asset operation of
             None \<Rightarrow> None
           | Some asset \<Rightarrow>
               if asset \<notin> set assets then None
               else ev (action_or Allow (pr_action rule)) (''Asset '' @ asset @ '' matched policy.''))"

definition evaluateDestinationRule ::
  "DestinationPolicyRule \<Rightarrow> PolicyCandidate \<Rightarrow> RuleEvaluation option" where
  "evaluateDestinationRule rule operation =
     (let blocklist = ruleValues None (dsr_blocklist rule);
          allowlist = ruleValues (dsr_destination rule) (dsr_destinations rule) @
                      ruleValues None (dsr_allowlist rule);
          ev = (\<lambda>d r. Some \<lparr>re_decision = d, re_reason = r, re_rule = RuleDestination rule\<rparr>)
      in if blocklist = [] \<and> allowlist = []
         then ev Review ''Destination rule has no allowlist or blocklist.''
         else case pc_destination operation of
             Some destination \<Rightarrow>
               if destination \<in> set blocklist
               then ev Deny (''Destination '' @ destination @ '' is blocked by policy.'')
               else if allowlist \<noteq> [] then
                 (if destination \<notin> set allowlist
                  then ev Deny (''Destination '' @ destination @ '' is not allowed by policy.'')
                  else ev (action_or Allow (pr_action rule))
                         (''Destination '' @ destination @ '' matched policy.''))
               else None
           | None \<Rightarrow>
               if allowlist \<noteq> []
               then ev Deny ''Operation has no destination for destination policy evaluation.''
               else None)"

text \<open>One bound of the amount rule: absent bounds never trip, present ones compare.\<close>

definition bound_trips ::
  "string \<Rightarrow> string option \<Rightarrow> (int \<Rightarrow> bool) \<Rightarrow> (amount_error, bool) result" where
  "bound_trips amount bound trips =
     (case bound of
        None \<Rightarrow> Inr False
      | Some b \<Rightarrow> result_bind (compareDecimalAmounts amount b) (\<lambda>c. Inr (trips c)))"

definition invalid_bound :: "string option \<Rightarrow> bool" where
  "invalid_bound b = (case b of None \<Rightarrow> False | Some x \<Rightarrow> \<not> isDecimalString x)"

text \<open>The second half of the evaluator, from the first look at the bounds on.\<close>

definition evaluateAmountBounds ::
  "AmountPolicyRule \<Rightarrow> string \<Rightarrow> (amount_error, RuleEvaluation option) result" where
  "evaluateAmountBounds rule amount =
     (let ev = (\<lambda>d r. Inr (Some \<lparr>re_decision = d, re_reason = r, re_rule = RuleAmount rule\<rparr>))
      in if amr_min rule = None \<and> amr_max rule = None
         then ev Review ''Amount rule has no min or max.''
         else if invalid_bound (amr_min rule) \<or> invalid_bound (amr_max rule)
         then ev Review ''Amount rule has an invalid decimal bound.''
         else
           result_bind (bound_trips amount (amr_min rule) (\<lambda>c. c < 0)) (\<lambda>below.
           if below then
             ev Deny (''Operation amount '' @ amount @ '' is below policy minimum '' @
                      the (amr_min rule) @ ''.'')
           else result_bind (bound_trips amount (amr_max rule) (\<lambda>c. c > 0)) (\<lambda>above.
           if above then
             ev Deny (''Operation amount '' @ amount @ '' exceeds policy maximum '' @
                      the (amr_max rule) @ ''.'')
           else ev (action_or Allow (pr_action rule))
                  (''Operation amount '' @ amount @ '' matched policy.''))))"

definition evaluateAmountRule ::
  "AmountPolicyRule \<Rightarrow> PolicyCandidate \<Rightarrow> (amount_error, RuleEvaluation option) result" where
  "evaluateAmountRule rule operation =
     (let assets = ruleValues (amr_asset rule) (amr_assets rule);
          ev = (\<lambda>d r. Inr (Some \<lparr>re_decision = d, re_reason = r, re_rule = RuleAmount rule\<rparr>))
      in if assets = [] then ev Review ''Amount rule has no assets.''
         else case pc_asset operation of
           None \<Rightarrow> Inr None
         | Some asset \<Rightarrow>
           if asset \<notin> set assets then Inr None
           else case pc_amount operation of
             None \<Rightarrow> Inr None
           | Some amount \<Rightarrow>
             if \<not> isDecimalString amount
             then ev Review ''Operation amount is invalid for amount policy evaluation.''
             else evaluateAmountBounds rule amount)"

definition evaluateApprovalRule ::
  "ApprovalPolicyRule \<Rightarrow> PolicyCandidate \<Rightarrow> RuleEvaluation option" where
  "evaluateApprovalRule rule operation =
     (let families = ruleValues None (apr_families rule);
          operationTypes = ruleValues None (apr_operationTypes rule);
          assets = ruleValues None (apr_assets rule)
      in if families \<noteq> [] \<and> pc_operationFamily operation \<notin> set families then None
         else if operationTypes \<noteq> [] \<and> pc_operationType operation \<notin> set operationTypes then None
         else if assets \<noteq> [] \<and>
                 (case pc_asset operation of None \<Rightarrow> True | Some a \<Rightarrow> a \<notin> set assets) then None
         else Some \<lparr>re_decision = action_or ApprovalRequired (pr_action rule),
                    re_reason = ''Approval policy matched operation.'',
                    re_rule = RuleApproval rule\<rparr>)"

fun evaluatePolicyRule ::
  "PolicyRule \<Rightarrow> PolicyCandidate \<Rightarrow> (amount_error, RuleEvaluation option) result" where
  "evaluatePolicyRule (RuleAlways rule) operation = Inr (Some (evaluateAlwaysRule rule))"
| "evaluatePolicyRule (RuleOperationFamily rule) operation =
     Inr (evaluateOperationFamilyRule rule operation)"
| "evaluatePolicyRule (RuleOperationType rule) operation =
     Inr (evaluateOperationTypeRule rule operation)"
| "evaluatePolicyRule (RuleAsset rule) operation = Inr (evaluateAssetRule rule operation)"
| "evaluatePolicyRule (RuleDestination rule) operation =
     Inr (evaluateDestinationRule rule operation)"
| "evaluatePolicyRule (RuleAmount rule) operation = evaluateAmountRule rule operation"
| "evaluatePolicyRule (RuleApproval rule) operation = Inr (evaluateApprovalRule rule operation)"

definition policyRuleRestricts :: "PolicyRule \<Rightarrow> bool" where
  "policyRuleRestricts rule =
     (case pr_action (rule_base rule) of
        Some a \<Rightarrow> a \<noteq> ActAllow
      | None \<Rightarrow>
          (case rule of
             RuleApproval r \<Rightarrow> True
           | RuleAmount r \<Rightarrow> True
           | RuleDestination r \<Rightarrow> True
           | RuleAsset r \<Rightarrow> ruleValues (asr_asset r) (asr_assets r) = []
           | RuleOperationFamily r \<Rightarrow> ruleValues (ofr_family r) (ofr_families r) = []
           | RuleOperationType r \<Rightarrow> ruleValues (otr_operationType r) (otr_operationTypes r) = []
           | RuleAlways r \<Rightarrow> False))"

lemmas rule_evaluator_defs =
  evaluateAlwaysRule_def evaluateOperationFamilyRule_def evaluateOperationTypeRule_def
  evaluateAssetRule_def evaluateDestinationRule_def evaluateApprovalRule_def

section \<open>Rule evaluation never throws\<close>

lemma set_ruleValues [simp]:
  "set (ruleValues s m) = set_option s \<union> (case m of None \<Rightarrow> {} | Some vs \<Rightarrow> set vs)"
  by (cases s; cases m) (auto simp: ruleValues_def Let_def)

lemma bound_trips_below:
  assumes "isDecimalString amount" "\<not> invalid_bound bound"
  shows "bound_trips amount bound (\<lambda>c. c < 0) =
           Inr (\<exists>b. bound = Some b \<and> decimal_value amount < decimal_value b)"
  using assms
  by (cases bound) (auto simp: bound_trips_def invalid_bound_def compareDecimalAmounts_values)

lemma bound_trips_above:
  assumes "isDecimalString amount" "\<not> invalid_bound bound"
  shows "bound_trips amount bound (\<lambda>c. c > 0) =
           Inr (\<exists>b. bound = Some b \<and> decimal_value amount > decimal_value b)"
  using assms
  by (cases bound) (auto simp: bound_trips_def invalid_bound_def compareDecimalAmounts_values)

lemma evaluateAmountBounds_decision:
  assumes "isDecimalString amount"
  shows "\<exists>ev. evaluateAmountBounds rule amount = Inr (Some ev) \<and> re_rule ev = RuleAmount rule \<and>
           re_decision ev =
             (if amr_min rule = None \<and> amr_max rule = None \<or>
                 invalid_bound (amr_min rule) \<or> invalid_bound (amr_max rule) then Review
              else if (\<exists>b. amr_min rule = Some b \<and> decimal_value amount < decimal_value b) \<or>
                      (\<exists>b. amr_max rule = Some b \<and> decimal_value amount > decimal_value b) then Deny
              else action_or Allow (pr_action rule))"
  using assms
  by (auto simp: evaluateAmountBounds_def Let_def bound_trips_below bound_trips_above)

lemma evaluateAmountRule_total: "\<exists>ev. evaluateAmountRule rule operation = Inr ev"
  using evaluateAmountBounds_decision[of _ rule]
  by (fastforce simp: evaluateAmountRule_def Let_def split: option.splits)

text \<open>The outcome of a rule as a pure function, which the combinators above it are about.\<close>

definition rule_outcome :: "PolicyRule \<Rightarrow> PolicyCandidate \<Rightarrow> RuleEvaluation option" where
  "rule_outcome rule operation =
     (case evaluatePolicyRule rule operation of Inl _ \<Rightarrow> None | Inr ev \<Rightarrow> ev)"

lemma evaluatePolicyRule_outcome:
  "evaluatePolicyRule rule operation = Inr (rule_outcome rule operation)"
proof (cases rule)
  case (RuleAmount r)
  then show ?thesis
    using evaluateAmountRule_total[of r operation] by (auto simp: rule_outcome_def)
qed (simp_all add: rule_outcome_def)

section \<open>What a matched rule guarantees\<close>

lemma action_or_live [simp]: "fallback \<noteq> NotEvaluated \<Longrightarrow> action_or fallback act \<noteq> NotEvaluated"
  by (cases act) (auto simp: action_or_def)

lemma amount_outcome:
  assumes "rule_outcome (RuleAmount r) c = Some ev"
  shows "re_rule ev = RuleAmount r \<and>
     re_decision ev \<in> {Review, Deny, action_or Allow (pr_action r)}"
proof -
  from assms consider "re_decision ev = Review \<and> re_rule ev = RuleAmount r"
    | amount where "isDecimalString amount" "evaluateAmountBounds r amount = Inr (Some ev)"
    by (auto simp: rule_outcome_def evaluateAmountRule_def Let_def simp del: set_ruleValues
        split: option.splits if_splits sum.splits)
  then show ?thesis
  proof cases
    case (2 amount)
    then show ?thesis using evaluateAmountBounds_decision[of amount r] by auto
  qed simp
qed

lemma rule_outcome_rule: "rule_outcome rule c = Some ev \<Longrightarrow> re_rule ev = rule"
proof (cases rule)
  case (RuleAmount r)
  then show "rule_outcome rule c = Some ev \<Longrightarrow> re_rule ev = rule" using amount_outcome by blast
qed (auto simp: rule_outcome_def rule_evaluator_defs Let_def split: option.splits if_splits)

lemma rule_outcome_live: "rule_outcome rule c = Some ev \<Longrightarrow> re_decision ev \<noteq> NotEvaluated"
proof (cases rule)
  case (RuleAmount r)
  then show "rule_outcome rule c = Some ev \<Longrightarrow> re_decision ev \<noteq> NotEvaluated"
    using amount_outcome[of r c ev] by auto
qed (auto simp: rule_outcome_def rule_evaluator_defs Let_def split: option.splits if_splits)

text \<open>The destinations an allowlist rule names, in any of its three spellings.\<close>

definition allowed_destinations :: "DestinationPolicyRule \<Rightarrow> string set" where
  "allowed_destinations r =
     set (ruleValues (dsr_destination r) (dsr_destinations r)) \<union> set (ruleValues None (dsr_allowlist r))"

lemma destination_not_allowed_denies:
  assumes "allowed_destinations r \<noteq> {}"
    and "\<And>d. pc_destination c = Some d \<Longrightarrow> d \<notin> allowed_destinations r"
  shows "\<exists>ev. rule_outcome (RuleDestination r) c = Some ev \<and> re_decision ev = Deny"
proof -
  let ?al = "ruleValues (dsr_destination r) (dsr_destinations r) @ ruleValues None (dsr_allowlist r)"
  have set: "set ?al = allowed_destinations r" by (simp only: set_append allowed_destinations_def)
  then have "?al \<noteq> []" using assms(1) by (metis empty_set)
  moreover have "d \<notin> set ?al" if "pc_destination c = Some d" for d
    using assms(2)[OF that] unfolding set .
  ultimately show ?thesis
    by (auto simp: rule_outcome_def evaluateDestinationRule_def Let_def
        simp del: set_ruleValues set_append split: option.splits)
qed

lemma destination_blocked_denies:
  assumes "pc_destination c = Some d" "dsr_blocklist r = Some bs" "d \<in> set bs"
  shows "\<exists>ev. rule_outcome (RuleDestination r) c = Some ev \<and> re_decision ev = Deny"
proof -
  have "d \<in> set (ruleValues None (dsr_blocklist r))" using assms by simp
  moreover from this have "ruleValues None (dsr_blocklist r) \<noteq> []" by force
  ultimately show ?thesis
    using assms(1) by (simp add: rule_outcome_def evaluateDestinationRule_def Let_def
        del: set_ruleValues)
qed

lemma amount_out_of_bounds_denies:
  assumes "pc_asset c = Some asset" "asset \<in> set (ruleValues (amr_asset r) (amr_assets r))"
    and "pc_amount c = Some amount" "isDecimalString amount"
    and "\<not> invalid_bound (amr_min r)" "\<not> invalid_bound (amr_max r)"
    and "(\<exists>b. amr_min r = Some b \<and> decimal_value amount < decimal_value b) \<or>
         (\<exists>b. amr_max r = Some b \<and> decimal_value amount > decimal_value b)"
  shows "\<exists>ev. rule_outcome (RuleAmount r) c = Some ev \<and> re_decision ev = Deny"
proof -
  have "ruleValues (amr_asset r) (amr_assets r) \<noteq> []" using assms(2) by force
  then show ?thesis
    using evaluateAmountBounds_decision[OF assms(4), of r] assms
    by (auto simp: rule_outcome_def evaluateAmountRule_def Let_def simp del: set_ruleValues)
qed

section \<open>The dashboard's restriction flag\<close>

text \<open>For a rule with no explicit action \<^verbatim>\<open>policyRuleRestricts\<close> is right: when it answers false the
  rule never contributes anything but \<open>allow\<close>, on any operation.\<close>

theorem policyRuleRestricts_sound_without_action:
  assumes "pr_action (rule_base rule) = None" and "\<not> policyRuleRestricts rule"
    and "rule_outcome rule c = Some ev"
  shows "re_decision ev = Allow"
  using assms
  by (cases rule)
     (auto simp: policyRuleRestricts_def rule_outcome_def rule_evaluator_defs action_or_def Let_def
       PolicyRuleBase.defs split: if_splits option.splits)

definition example_candidate :: PolicyCandidate where
  "example_candidate =
     \<lparr>pc_organizationId = ''org'', pc_projectId = None, pc_custodyWalletId = None,
      pc_walletId = ''wallet'', pc_apiKeyId = None, pc_actor = None, pc_source = ''api'',
      pc_operationFamily = FamTransfer, pc_operationType = payment_transfer_execute,
      pc_asset = Some ''USDC'', pc_amount = Some ''5'', pc_destination = Some ''mallory'',
      pc_context = [], pc_providerExtensions = []\<rparr>"

theorem policyRuleRestricts_sound_without_action_witness:
  "re_decision (the (rule_outcome (RuleAsset \<lparr>pr_id = None, pr_name = None, pr_action = None,
      pr_description = None, asr_asset = Some ''USDC'', asr_assets = None\<rparr>) example_candidate)) = Allow"
  (is "re_decision (the (rule_outcome ?r _)) = Allow")
proof -
  have h: "pr_action (rule_base ?r) = None" "\<not> policyRuleRestricts ?r"
    by (simp_all add: policyRuleRestricts_def ruleValues_def PolicyRuleBase.defs)
  obtain ev where ev: "rule_outcome ?r example_candidate = Some ev"
    by (simp add: rule_outcome_def evaluateAssetRule_def ruleValues_def example_candidate_def
        js_unique_def)
  show ?thesis using policyRuleRestricts_sound_without_action[OF h ev] ev by simp
qed

text \<open>With an explicit \<open>allow\<close> action the flag is wrong: its documentation says it is true when the
  rule can deny, review or require approval, and that an explicit action is authoritative for every
  kind, yet a destination allowlist with action \<open>allow\<close> is classified as not restricting and denies
  every destination outside the list.\<close>

theorem policyRuleRestricts_misses_allowlist:
  "\<exists>rule c ev. \<not> policyRuleRestricts rule \<and> evaluatePolicyRule rule c = Inr (Some ev) \<and>
     re_decision ev = Deny"
proof -
  let ?r = "\<lparr>pr_id = None, pr_name = None, pr_action = Some ActAllow, pr_description = None,
      dsr_allowlist = Some [''alice''], dsr_blocklist = None, dsr_destination = None,
      dsr_destinations = None\<rparr>"
  have "\<not> policyRuleRestricts (RuleDestination ?r)"
    by (simp add: policyRuleRestricts_def PolicyRuleBase.defs)
  moreover have "\<exists>ev. rule_outcome (RuleDestination ?r) example_candidate = Some ev \<and>
      re_decision ev = Deny"
    by (rule destination_not_allowed_denies)
       (simp_all add: allowed_destinations_def example_candidate_def)
  ultimately show ?thesis using evaluatePolicyRule_outcome by metis
qed

end
