(* ===== verification/Policy_Evaluate.thy ===== *)
theory Policy_Evaluate
  imports Policy_Rules
begin

text \<open>
  The policy engine (\<^verbatim>\<open>packages/sdp-policy/src/decisions.ts\<close> and \<^verbatim>\<open>evaluate.ts\<close>): every rule of a scope's
  active revision runs against every view of the operation (the aggregate candidate and its legs),
  the strictest match decides the scope, and the strictest scope decides the operation. The same
  code answers dry runs.

  The lemmas state the engine's contract over sets of matched decisions, not over the loops: the
  decision is the maximum of the ranks, whatever the order of the rules; the API-key scope can
  only tighten the wallet scope; destination and amount limits cannot be bypassed by another rule;
  and the dry-run criteria are exactly the rules enforcement matched.
\<close>

section \<open>Decisions\<close>

fun DECISION_RANK :: "PolicyDecision \<Rightarrow> nat" where
  "DECISION_RANK NotEvaluated = 0"
| "DECISION_RANK Allow = 1"
| "DECISION_RANK Review = 2"
| "DECISION_RANK ProviderApprovalRequired = 3"
| "DECISION_RANK ApprovalRequired = 4"
| "DECISION_RANK Deny = 5"

definition isApprovalDecision :: "PolicyDecision \<Rightarrow> bool" where
  "isApprovalDecision d = (d = ApprovalRequired \<or> d = ProviderApprovalRequired)"

fun walletOperationStatusForDecision :: "PolicyDecision \<Rightarrow> WalletOperationStatus" where
  "walletOperationStatusForDecision Allow = OpEvaluated"
| "walletOperationStatusForDecision ApprovalRequired = OpPendingApproval"
| "walletOperationStatusForDecision ProviderApprovalRequired = OpPendingApproval"
| "walletOperationStatusForDecision Review = OpPendingApproval"
| "walletOperationStatusForDecision Deny = OpFailed"
| "walletOperationStatusForDecision NotEvaluated = OpFailed"

section \<open>Evaluation\<close>

record CandidateView =
  cv_candidate :: PolicyCandidate
  cv_leg :: "nat option"

record ViewRuleEvaluation = RuleEvaluation +
  vre_leg :: "nat option"

definition IMPLICIT_DEFAULT_ALLOW_POLICY :: "('p, 'r) EffectivePolicy" where
  "IMPLICIT_DEFAULT_ALLOW_POLICY =
     \<lparr>ep_source = implicit_default_allow, ep_profile = None, ep_revision = None,
      ep_defaultAction = DefAllow\<rparr>"

record EvaluateCandidatePoliciesInput =
  ecp_candidate :: PolicyCandidate
  ecp_legs :: "PolicyCandidate list"
  ecp_walletPolicy :: EffectiveWalletPolicy
  ecp_apiKeyPolicy :: "EffectiveApiKeyPolicy option"

record EvaluateWalletOperationPoliciesInput =
  ewp_operation :: WalletOperationEnvelope
  ewp_legs :: "PolicyCandidate list"
  ewp_walletPolicy :: EffectiveWalletPolicy
  ewp_apiKeyPolicy :: "EffectiveApiKeyPolicy option"

definition candidateViews :: "PolicyCandidate \<Rightarrow> PolicyCandidate list \<Rightarrow> CandidateView list" where
  "candidateViews candidate legs =
     \<lparr>cv_candidate = candidate, cv_leg = None\<rparr> #
     map (\<lambda>(index, leg). \<lparr>cv_candidate = leg, cv_leg = Some index\<rparr>) (enumerate 0 legs)"

definition viewRules :: "PolicyRule list \<Rightarrow> CandidateView \<Rightarrow> bool \<Rightarrow> PolicyRule list" where
  "viewRules rules view hasLegs =
     (if \<not> hasLegs \<or> cv_leg view \<noteq> None then rules
      else filter (\<lambda>rule. rule_kind rule \<noteq> KindDestination) rules)"

definition missingPolicyReasonCode :: "PolicyRuleScope \<Rightarrow> PolicyEvaluationReasonCode" where
  "missingPolicyReasonCode scope =
     (if scope = ScopeWallet then RcWalletPolicyMissing else RcApiKeyPolicyMissing)"

definition matchedPolicyReasonCode :: "PolicyRuleScope \<Rightarrow> PolicyEvaluationReasonCode" where
  "matchedPolicyReasonCode scope =
     (if scope = ScopeWallet then RcWalletPolicyMatch else RcApiKeyPolicyMatch)"

definition scopeLabel :: "PolicyRuleScope \<Rightarrow> string" where
  "scopeLabel scope = (if scope = ScopeWallet then ''wallet'' else ''API key'')"

fun selectStrictestRule_loop ::
  "ViewRuleEvaluation option \<Rightarrow> ViewRuleEvaluation list \<Rightarrow> ViewRuleEvaluation option" where
  "selectStrictestRule_loop selected [] = selected"
| "selectStrictestRule_loop selected (evaluation # rest) =
     selectStrictestRule_loop
       (case selected of
          None \<Rightarrow> Some evaluation
        | Some s \<Rightarrow> if DECISION_RANK (re_decision evaluation) > DECISION_RANK (re_decision s)
                    then Some evaluation else selected)
       rest"

definition selectStrictestRule :: "ViewRuleEvaluation list \<Rightarrow> ViewRuleEvaluation option" where
  "selectStrictestRule evaluations = selectStrictestRule_loop None evaluations"

definition toMatchedRule :: "PolicyRuleScope \<Rightarrow> ViewRuleEvaluation \<Rightarrow> MatchedPolicyRule" where
  "toMatchedRule scope evaluation =
     \<lparr>mr_scope = scope,
      mr_ruleId = pr_id (rule_base (re_rule evaluation)),
      mr_kind = rule_kind (re_rule evaluation),
      mr_decision = re_decision evaluation,
      mr_reason = re_reason evaluation,
      mr_rule = re_rule evaluation,
      mr_leg = vre_leg evaluation\<rparr>"

definition viewReason :: "ViewRuleEvaluation \<Rightarrow> string" where
  "viewReason evaluation =
     (case vre_leg evaluation of
        None \<Rightarrow> re_reason evaluation
      | Some leg \<Rightarrow> ''Leg '' @ dec_digits (leg + 1) @ '': '' @ re_reason evaluation)"

definition with_leg :: "RuleEvaluation \<Rightarrow> nat option \<Rightarrow> ViewRuleEvaluation" where
  "with_leg ev leg = RuleEvaluation.extend ev \<lparr>vre_leg = leg\<rparr>"

definition evaluatePolicyScope ::
  "PolicyRuleScope \<Rightarrow> ScopePolicy \<Rightarrow> CandidateView list \<Rightarrow> (amount_error, PolicyScopeEvaluation) result"
where
  "evaluatePolicyScope scope policy views =
     (case scope_revision policy of
        None \<Rightarrow> Inr
          \<lparr>pse_scope = scope, pse_source = implicit_default_allow, pse_profileId = None,
           pse_revisionId = None, pse_defaultAction = scope_default policy, pse_decision = Allow,
           pse_reasonCode = missingPolicyReasonCode scope,
           pse_reason = scopeLabel scope @ '' policy is not active; implicit default allow applies.'',
           pse_matchedRules = [], pse_requiresApproval = False\<rparr>
      | Some (revisionId, rules) \<Rightarrow>
          (let profileId = scope_profile_id policy;
               hasLegs = list_ex (\<lambda>view. cv_leg view \<noteq> None) views
           in result_bind
             (result_flatMap
               (\<lambda>view. result_flatMap
                  (\<lambda>rule. result_bind (evaluatePolicyRule rule (cv_candidate view))
                     (\<lambda>evaluation. Inr (case evaluation of
                        None \<Rightarrow> []
                      | Some ev \<Rightarrow> [with_leg ev (cv_leg view)])))
                  (viewRules rules view hasLegs))
               views)
             (\<lambda>ruleEvaluations.
               case selectStrictestRule ruleEvaluations of
                 Some selectedRule \<Rightarrow> Inr
                   \<lparr>pse_scope = scope, pse_source = scope_source policy, pse_profileId = profileId,
                    pse_revisionId = Some revisionId, pse_defaultAction = scope_default policy,
                    pse_decision = re_decision selectedRule,
                    pse_reasonCode = matchedPolicyReasonCode scope,
                    pse_reason = viewReason selectedRule,
                    pse_matchedRules = map (toMatchedRule scope) ruleEvaluations,
                    pse_requiresApproval = isApprovalDecision (re_decision selectedRule)\<rparr>
               | None \<Rightarrow> Inr
                   \<lparr>pse_scope = scope, pse_source = scope_source policy, pse_profileId = profileId,
                    pse_revisionId = Some revisionId, pse_defaultAction = scope_default policy,
                    pse_decision = default_decision (scope_default policy),
                    pse_reasonCode = matchedPolicyReasonCode scope,
                    pse_reason = ''No '' @ scopeLabel scope @
                      '' policy rules matched; default action '' @
                      decision_text (default_decision (scope_default policy)) @ '' applies.'',
                    pse_matchedRules = [],
                    pse_requiresApproval =
                      isApprovalDecision (default_decision (scope_default policy))\<rparr>)))"

definition resolveApiKeyScopeEvaluation ::
  "EvaluateCandidatePoliciesInput \<Rightarrow> (amount_error, PolicyScopeEvaluation option) result" where
  "resolveApiKeyScopeEvaluation input =
     (case ecp_apiKeyPolicy input of
        Some policy \<Rightarrow>
          result_bind (evaluatePolicyScope ScopeApiKey (ApiKeyScopePolicy policy)
            (candidateViews (ecp_candidate input) (ecp_legs input))) (\<lambda>e. Inr (Some e))
      | None \<Rightarrow>
          if pc_apiKeyId (ecp_candidate input) \<noteq> None then
            result_bind (evaluatePolicyScope ScopeApiKey
              (ApiKeyScopePolicy IMPLICIT_DEFAULT_ALLOW_POLICY)
              (candidateViews (ecp_candidate input) (ecp_legs input))) (\<lambda>e. Inr (Some e))
          else Inr None)"

definition summarizeScopeDecisions ::
  "PolicyScopeEvaluation list \<Rightarrow> PolicyScopeEvaluation \<Rightarrow> string" where
  "summarizeScopeDecisions scopes selected =
     (if list_all (\<lambda>scope. pse_source scope = implicit_default_allow) scopes
      then ''No active wallet or API key policy exists; implicit default allow applies.''
      else
        let decisions = js_join '', ''
              (map (\<lambda>scope. scopeLabel (pse_scope scope) @ ''='' @ decision_text (pse_decision scope))
                 scopes)
        in pse_reason selected @ '' Combined policy decision: '' @ decisions @ ''.'')"

text \<open>\<^verbatim>\<open>scopes.reduce\<close> without an initial value starts from the first scope, the wallet's.\<close>

definition strictest_scope :: "PolicyScopeEvaluation \<Rightarrow> PolicyScopeEvaluation list \<Rightarrow> PolicyScopeEvaluation" where
  "strictest_scope first rest =
     foldl (\<lambda>strictest scope.
        if DECISION_RANK (pse_decision scope) > DECISION_RANK (pse_decision strictest)
        then scope else strictest) first rest"

definition evaluateCandidatePolicies ::
  "EvaluateCandidatePoliciesInput \<Rightarrow> (amount_error, CandidatePolicyEvaluation) result" where
  "evaluateCandidatePolicies input =
     result_bind (evaluatePolicyScope ScopeWallet (WalletScopePolicy (ecp_walletPolicy input))
       (candidateViews (ecp_candidate input) (ecp_legs input))) (\<lambda>wallet.
     result_bind (resolveApiKeyScopeEvaluation input) (\<lambda>apiKey.
       let scopes = (case apiKey of None \<Rightarrow> [wallet] | Some a \<Rightarrow> [wallet, a]);
           selected = strictest_scope (hd scopes) (tl scopes);
           allScopesUseImplicitAllow =
             list_all (\<lambda>scope. pse_source scope = implicit_default_allow \<and> pse_decision scope = Allow)
               scopes
       in Inr
         \<lparr>cpe_wallet = wallet,
          cpe_apiKey = apiKey,
          cpe_decision = pse_decision selected,
          cpe_reasonCode =
            (if allScopesUseImplicitAllow then RcImplicitDefaultAllow else pse_reasonCode selected),
          cpe_reason = summarizeScopeDecisions scopes selected,
          cpe_matchedRules = concat (map pse_matchedRules scopes),
          cpe_requiresApproval = isApprovalDecision (pse_decision selected),
          cpe_walletPolicyRevisionId = pse_revisionId wallet,
          cpe_apiKeyPolicyRevisionId =
            (case apiKey of None \<Rightarrow> None | Some a \<Rightarrow> pse_revisionId a)\<rparr>))"

definition describeCandidateRuleCriteria ::
  "PolicyRuleScope \<Rightarrow> ScopePolicy \<Rightarrow> PolicyCandidate \<Rightarrow> PolicyCandidate list \<Rightarrow>
     (amount_error, PolicyDryRunCriterion list) result" where
  "describeCandidateRuleCriteria scope policy candidate legs =
     (case scope_revision policy of
        None \<Rightarrow> Inr []
      | Some (_, rules) \<Rightarrow>
          result_flatMap
            (\<lambda>view. result_mapM
               (\<lambda>rule. result_bind (evaluatePolicyRule rule (cv_candidate view)) (\<lambda>evaluation. Inr
                  \<lparr>drc_scope = scope,
                   drc_ruleId = pr_id (rule_base rule),
                   drc_kind = rule_kind rule,
                   drc_name = pr_name (rule_base rule),
                   drc_matched = (evaluation \<noteq> None),
                   drc_action = map_option re_decision evaluation,
                   drc_reason = map_option re_reason evaluation,
                   drc_leg = cv_leg view\<rparr>))
               (viewRules rules view (legs \<noteq> [])))
            (candidateViews candidate legs))"

definition createPolicyContext :: "PolicyScopeEvaluation \<Rightarrow> PolicyEvaluationPolicyContext" where
  "createPolicyContext scope =
     \<lparr>pepc_source = pse_source scope,
      pepc_profileId = pse_profileId scope,
      pepc_revisionId = pse_revisionId scope,
      pepc_defaultAction = pse_defaultAction scope,
      pepc_decision = pse_decision scope,
      pepc_requiresApproval = pse_requiresApproval scope\<rparr>"

definition createPolicyEvaluationContext ::
  "WalletOperationEnvelope \<Rightarrow> PolicyScopeEvaluation \<Rightarrow> PolicyScopeEvaluation option \<Rightarrow>
     PolicyEvaluationContext" where
  "createPolicyEvaluationContext operation wallet apiKey =
     \<lparr>pec_operation = PolicyCandidate.extend (PolicyCandidate.truncate operation)
        \<lparr>snap_id = woe_id operation,
         snap_rawPayload = woe_rawPayload operation,
         snap_idempotencyKey = woe_idempotencyKey operation,
         snap_createdAt = woe_createdAt operation\<rparr>,
      pec_walletPolicy = createPolicyContext wallet,
      pec_apiKeyPolicy = map_option createPolicyContext apiKey\<rparr>"

definition evaluateWalletOperationPolicies ::
  "EvaluateWalletOperationPoliciesInput \<Rightarrow> (amount_error, WalletOperationPolicyEvaluation) result" where
  "evaluateWalletOperationPolicies input =
     result_bind (evaluateCandidatePolicies
       \<lparr>ecp_candidate = PolicyCandidate.truncate (ewp_operation input),
        ecp_legs = ewp_legs input,
        ecp_walletPolicy = ewp_walletPolicy input,
        ecp_apiKeyPolicy = ewp_apiKeyPolicy input\<rparr>) (\<lambda>evaluation. Inr
     (CandidatePolicyEvaluation.extend evaluation
       \<lparr>wope_operation = ewp_operation input,
        wope_evaluationContext = createPolicyEvaluationContext (ewp_operation input)
          (cpe_wallet evaluation) (cpe_apiKey evaluation)\<rparr>))"

section \<open>The engine as a function of matched decisions\<close>

lemma DECISION_RANK_inj: "DECISION_RANK d = DECISION_RANK d' \<longleftrightarrow> d = d'"
  by (cases d; cases d') auto

lemma DECISION_RANK_Deny: "DECISION_RANK d \<le> DECISION_RANK Deny"
  by (cases d) auto

lemma DECISION_RANK_ge_Deny: "DECISION_RANK Deny \<le> DECISION_RANK d \<longleftrightarrow> d = Deny"
  by (cases d) auto

text \<open>The specification of combining decisions: a strictest member, unique when it exists.\<close>

definition is_strictest :: "PolicyDecision \<Rightarrow> PolicyDecision set \<Rightarrow> bool" where
  "is_strictest d D \<longleftrightarrow> d \<in> D \<and> (\<forall>d'\<in>D. DECISION_RANK d' \<le> DECISION_RANK d)"

lemma is_strictest_unique: "is_strictest d D \<Longrightarrow> is_strictest d' D \<Longrightarrow> d = d'"
  by (metis DECISION_RANK_inj dual_order.antisym is_strictest_def)

lemma is_strictest_Deny: "is_strictest d D \<Longrightarrow> Deny \<in> D \<Longrightarrow> d = Deny"
  by (metis DECISION_RANK_ge_Deny is_strictest_def)

definition view_matches :: "PolicyRule list \<Rightarrow> bool \<Rightarrow> CandidateView \<Rightarrow> ViewRuleEvaluation list" where
  "view_matches rules hasLegs view =
     concat (map (\<lambda>rule. case rule_outcome rule (cv_candidate view) of
        None \<Rightarrow> [] | Some ev \<Rightarrow> [with_leg ev (cv_leg view)]) (viewRules rules view hasLegs))"

abbreviation views_have_legs :: "CandidateView list \<Rightarrow> bool" where
  "views_have_legs views \<equiv> list_ex (\<lambda>view. cv_leg view \<noteq> None) views"

definition scope_matches :: "PolicyRule list \<Rightarrow> CandidateView list \<Rightarrow> ViewRuleEvaluation list" where
  "scope_matches rules views = concat (map (view_matches rules (views_have_legs views)) views)"

definition matched_decisions :: "PolicyRule list \<Rightarrow> CandidateView list \<Rightarrow> PolicyDecision set" where
  "matched_decisions rules views =
     {re_decision ev | view rule ev. view \<in> set views \<and>
        rule \<in> set (viewRules rules view (views_have_legs views)) \<and>
        rule_outcome rule (cv_candidate view) = Some ev}"

lemma with_leg_simps [simp]:
  "re_decision (with_leg ev l) = re_decision ev"
  "re_reason (with_leg ev l) = re_reason ev"
  "re_rule (with_leg ev l) = re_rule ev"
  "vre_leg (with_leg ev l) = l"
  by (simp_all add: with_leg_def RuleEvaluation.defs)

lemma set_scope_matches:
  "m \<in> set (scope_matches rules views) \<longleftrightarrow>
     (\<exists>view\<in>set views. \<exists>rule\<in>set (viewRules rules view (views_have_legs views)). \<exists>ev.
        rule_outcome rule (cv_candidate view) = Some ev \<and> m = with_leg ev (cv_leg view))"
  by (auto simp: scope_matches_def view_matches_def split: option.splits) (metis option.simps(5) list.set_intros(1))+

lemma scope_matches_decisions:
  "re_decision ` set (scope_matches rules views) = matched_decisions rules views"
proof (intro subset_antisym subsetI)
  fix d
  assume "d \<in> re_decision ` set (scope_matches rules views)"
  then obtain m where "m \<in> set (scope_matches rules views)" "d = re_decision m" by blast
  then show "d \<in> matched_decisions rules views"
    unfolding set_scope_matches matched_decisions_def by force
next
  fix d
  assume "d \<in> matched_decisions rules views"
  then obtain view rule ev where h: "view \<in> set views"
      "rule \<in> set (viewRules rules view (views_have_legs views))"
      "rule_outcome rule (cv_candidate view) = Some ev" and d: "d = re_decision ev"
    unfolding matched_decisions_def by blast
  from h have "with_leg ev (cv_leg view) \<in> set (scope_matches rules views)"
    unfolding set_scope_matches by blast
  then show "d \<in> re_decision ` set (scope_matches rules views)" unfolding d by force
qed

lemma evaluatePolicyScope_revision:
  assumes "scope_revision policy = Some (rid, rules)"
  shows "evaluatePolicyScope scope policy views =
     (let ms = scope_matches rules views;
          d = (case selectStrictestRule ms of
                 None \<Rightarrow> default_decision (scope_default policy) | Some m \<Rightarrow> re_decision m)
      in Inr \<lparr>pse_scope = scope, pse_source = scope_source policy,
              pse_profileId = scope_profile_id policy, pse_revisionId = Some rid,
              pse_defaultAction = scope_default policy, pse_decision = d,
              pse_reasonCode = matchedPolicyReasonCode scope,
              pse_reason = (case selectStrictestRule ms of
                 None \<Rightarrow> ''No '' @ scopeLabel scope @ '' policy rules matched; default action '' @
                   decision_text (default_decision (scope_default policy)) @ '' applies.''
               | Some m \<Rightarrow> viewReason m),
              pse_matchedRules = (if selectStrictestRule ms = None then []
                                  else map (toMatchedRule scope) ms),
              pse_requiresApproval = isApprovalDecision d\<rparr>)"
proof -
  have "result_flatMap
      (\<lambda>view. result_flatMap
         (\<lambda>rule. result_bind (evaluatePolicyRule rule (cv_candidate view))
            (\<lambda>evaluation. Inr (case evaluation of
               None \<Rightarrow> [] | Some ev \<Rightarrow> [with_leg ev (cv_leg view)])))
         (viewRules rules view (views_have_legs views))) views = Inr (scope_matches rules views)"
    by (simp add: evaluatePolicyRule_outcome scope_matches_def view_matches_def [abs_def])
  then show ?thesis
    unfolding evaluatePolicyScope_def assms option.case prod.case Let_def
    by (auto split: option.splits)
qed

lemma selectStrictestRule_loop_Some:
  "selectStrictestRule_loop (Some b) xs = Some (pick_max (\<lambda>e. DECISION_RANK (re_decision e)) b xs)"
  by (induction xs arbitrary: b) auto

lemma selectStrictestRule_eq:
  "selectStrictestRule xs =
     (case xs of [] \<Rightarrow> None
      | x # rest \<Rightarrow> Some (pick_max (\<lambda>e. DECISION_RANK (re_decision e)) x rest))"
  by (cases xs) (auto simp: selectStrictestRule_def selectStrictestRule_loop_Some)

lemma selectStrictestRule_None [simp]: "selectStrictestRule xs = None \<longleftrightarrow> xs = []"
  by (auto simp: selectStrictestRule_eq split: list.splits)

lemma selectStrictestRule_strictest:
  assumes "selectStrictestRule xs = Some m"
  shows "is_strictest (re_decision m) (re_decision ` set xs)"
proof -
  let ?r = "\<lambda>e. DECISION_RANK (re_decision e)"
  obtain x rest where xs: "xs = x # rest" and m: "m = pick_max ?r x rest"
    using assms by (auto simp: selectStrictestRule_eq split: list.splits)
  have "m \<in> set xs" unfolding xs m using pick_max_in[of ?r x rest] by auto
  moreover have "?r y \<le> ?r m" if "y \<in> set xs" for y
    using that pick_max_ge[of y x rest ?r] unfolding xs m by auto
  ultimately show ?thesis by (auto simp: is_strictest_def)
qed

lemma evaluatePolicyScope_decision:
  assumes rev: "scope_revision policy = Some (rid, rules)"
    and ev: "evaluatePolicyScope scope policy views = Inr ev"
  shows "if matched_decisions rules views = {} then pse_decision ev = default_decision (scope_default policy)
         else is_strictest (pse_decision ev) (matched_decisions rules views)"
proof (cases "selectStrictestRule (scope_matches rules views)")
  case None
  then have "matched_decisions rules views = {}"
    using scope_matches_decisions[of rules views] by simp
  then show ?thesis using ev None by (auto simp: evaluatePolicyScope_revision[OF rev] Let_def)
next
  case (Some m)
  have "is_strictest (re_decision m) (matched_decisions rules views)"
    using selectStrictestRule_strictest[OF Some] by (simp add: scope_matches_decisions)
  then show ?thesis
    using ev Some by (auto simp: evaluatePolicyScope_revision[OF rev] Let_def is_strictest_def)
qed

lemma evaluatePolicyScope_total: "\<exists>ev. evaluatePolicyScope scope policy views = Inr ev"
proof (cases "scope_revision policy")
  case None
  then show ?thesis by (simp add: evaluatePolicyScope_def)
next
  case (Some p)
  then show ?thesis using evaluatePolicyScope_revision by (cases p) (auto simp: Let_def)
qed

lemma resolveApiKeyScopeEvaluation_total: "\<exists>ev. resolveApiKeyScopeEvaluation input = Inr ev"
  using evaluatePolicyScope_total
  by (fastforce simp: resolveApiKeyScopeEvaluation_def result_bind_Inr_iff split: option.splits)

lemma strictest_scope_eq:
  "strictest_scope b xs = pick_max (\<lambda>e. DECISION_RANK (pse_decision e)) b xs"
proof -
  have "foldl (\<lambda>a x. if r x > r a then x else a) b xs = pick_max r b xs" for r :: "'a \<Rightarrow> nat" and b xs
    by (induction xs arbitrary: b) auto
  then show ?thesis by (simp add: strictest_scope_def)
qed

lemma evaluateCandidatePolicies_returns: "\<exists>ev. evaluateCandidatePolicies input = Inr ev"
proof -
  obtain w where "evaluatePolicyScope ScopeWallet (WalletScopePolicy (ecp_walletPolicy input))
      (candidateViews (ecp_candidate input) (ecp_legs input)) = Inr w"
    using evaluatePolicyScope_total by blast
  moreover obtain a where "resolveApiKeyScopeEvaluation input = Inr a"
    using resolveApiKeyScopeEvaluation_total by blast
  ultimately show ?thesis by (simp add: evaluateCandidatePolicies_def Let_def)
qed

text \<open>C34. Policy evaluation is total: for every candidate, legs and pair of effective policies,
  \<^verbatim>\<open>evaluateCandidatePolicies\<close> returns an evaluation; malformed amounts and bounds are decided by the
  rules and never throw.\<close>

theorem evaluateCandidatePolicies_total:
  "(\<exists>ev. evaluateCandidatePolicies input = Inr ev) \<and>
   (\<exists>ev. evaluateWalletOperationPolicies operation_input = Inr ev)"
  using evaluateCandidatePolicies_returns
  by (auto simp: evaluateWalletOperationPolicies_def result_bind_Inr_iff)

lemma evaluateCandidatePolicies_scopes:
  assumes "evaluateCandidatePolicies input = Inr ev"
  shows "evaluatePolicyScope ScopeWallet (WalletScopePolicy (ecp_walletPolicy input))
           (candidateViews (ecp_candidate input) (ecp_legs input)) = Inr (cpe_wallet ev)"
    and "resolveApiKeyScopeEvaluation input = Inr (cpe_apiKey ev)"
    and "is_strictest (cpe_decision ev)
           (insert (pse_decision (cpe_wallet ev)) (pse_decision ` set_option (cpe_apiKey ev)))"
    and "cpe_requiresApproval ev = isApprovalDecision (cpe_decision ev)"
  using assms
  by (auto simp: evaluateCandidatePolicies_def result_bind_Inr_iff Let_def is_strictest_def
      strictest_scope_eq split: option.splits)

text \<open>C6. The combined decision is the strictest of the wallet scope's and the API-key scope's, so an
  API-key policy never expands past the wallet policy: whatever it says, the operation's decision is
  at least as strict as the wallet policy's, and a wallet denial is final.\<close>

theorem api_key_policy_cannot_expand:
  assumes "evaluateCandidatePolicies input = Inr ev"
  shows "is_strictest (cpe_decision ev)
           (insert (pse_decision (cpe_wallet ev)) (pse_decision ` set_option (cpe_apiKey ev))) \<and>
         DECISION_RANK (pse_decision (cpe_wallet ev)) \<le> DECISION_RANK (cpe_decision ev) \<and>
         (pse_decision (cpe_wallet ev) = Deny \<longrightarrow> cpe_decision ev = Deny)"
  using evaluateCandidatePolicies_scopes(3)[OF assms]
    is_strictest_Deny[OF evaluateCandidatePolicies_scopes(3)[OF assms]]
  by (simp add: is_strictest_def)

text \<open>Within a scope the decision does not depend on the order or the repetition of the rules: two
  revisions with the same rules and default decide every operation alike.\<close>

theorem rule_order_irrelevant:
  assumes "scope_revision p = Some (i, rules)" and "scope_revision q = Some (j, rules')"
    and "set rules = set rules'" and "scope_default p = scope_default q"
    and "evaluatePolicyScope s p views = Inr ev" and "evaluatePolicyScope s' q views = Inr ev'"
  shows "pse_decision ev = pse_decision ev'"
proof -
  have "matched_decisions rules views = matched_decisions rules' views"
    using assms(3) by (simp add: matched_decisions_def viewRules_def)
  then show ?thesis
    using evaluatePolicyScope_decision[OF assms(1,5)] evaluatePolicyScope_decision[OF assms(2,6)]
      assms(4) is_strictest_unique by (auto split: if_splits)
qed

section \<open>A concrete wallet policy\<close>

text \<open>A wallet whose active revision lets money go to \<open>alice\<close> only and caps USDC at 3, with an API key
  that allows everything: the inputs the witnesses below are evaluated at.\<close>

definition example_allowlist :: DestinationPolicyRule where
  "example_allowlist =
     \<lparr>pr_id = Some ''r1'', pr_name = None, pr_action = None, pr_description = None,
      dsr_allowlist = Some [''alice''], dsr_blocklist = None, dsr_destination = None,
      dsr_destinations = None\<rparr>"

definition example_cap :: AmountPolicyRule where
  "example_cap =
     \<lparr>pr_id = Some ''r2'', pr_name = None, pr_action = None, pr_description = None,
      amr_min = None, amr_max = Some ''3'', amr_asset = Some ''USDC'', amr_assets = None\<rparr>"

definition example_wallet_policy :: "PolicyRule list \<Rightarrow> EffectiveWalletPolicy" where
  "example_wallet_policy rules =
     \<lparr>ep_source = customer_profile, ep_profile = None,
      ep_revision = Some \<lparr>wcr_id = ''rev'', wcr_profileId = ''p'', wcr_revisionNumber = 1,
        wcr_rules = rules, wcr_defaultAction = DefAllow, wcr_commitMessage = None,
        wcr_createdBy = None, wcr_createdAt = 0, wcr_activatedAt = None\<rparr>,
      ep_defaultAction = DefAllow\<rparr>"

definition example_input :: "EvaluateCandidatePoliciesInput" where
  "example_input =
     \<lparr>ecp_candidate = example_candidate, ecp_legs = [],
      ecp_walletPolicy = example_wallet_policy [RuleDestination example_allowlist, RuleAmount example_cap],
      ecp_apiKeyPolicy = Some IMPLICIT_DEFAULT_ALLOW_POLICY\<rparr>"

theorem api_key_policy_cannot_expand_witness:
  "\<exists>ev. evaluateCandidatePolicies example_input = Inr ev \<and>
     DECISION_RANK (pse_decision (cpe_wallet ev)) \<le> DECISION_RANK (cpe_decision ev)"
  using evaluateCandidatePolicies_returns[of example_input] api_key_policy_cannot_expand by blast

theorem rule_order_irrelevant_witness:
  "\<exists>ev ev'. evaluatePolicyScope ScopeWallet (WalletScopePolicy (example_wallet_policy
        [RuleDestination example_allowlist, RuleAmount example_cap]))
        (candidateViews example_candidate []) = Inr ev \<and>
      evaluatePolicyScope ScopeWallet (WalletScopePolicy (example_wallet_policy
        [RuleAmount example_cap, RuleDestination example_allowlist]))
        (candidateViews example_candidate []) = Inr ev' \<and> pse_decision ev = pse_decision ev'"
proof -
  let ?p = "\<lambda>rs. WalletScopePolicy (example_wallet_policy rs)"
  let ?a = "[RuleDestination example_allowlist, RuleAmount example_cap]"
  let ?b = "[RuleAmount example_cap, RuleDestination example_allowlist]"
  let ?vs = "candidateViews example_candidate []"
  obtain ev where ev: "evaluatePolicyScope ScopeWallet (?p ?a) ?vs = Inr ev"
    using evaluatePolicyScope_total by metis
  obtain ev' where ev': "evaluatePolicyScope ScopeWallet (?p ?b) ?vs = Inr ev'"
    using evaluatePolicyScope_total by metis
  have rules: "scope_revision (?p rs) = Some (''rev'', rs)" for rs
    by (simp add: example_wallet_policy_def)
  have "scope_default (?p ?a) = scope_default (?p ?b)" by (simp add: example_wallet_policy_def)
  then have "pse_decision ev = pse_decision ev'"
    by (intro rule_order_irrelevant[OF rules rules _ _ ev ev']) auto
  with ev ev' show ?thesis by blast
qed

section \<open>Limits cannot be bypassed\<close>

text \<open>The parts of an operation that name a destination: the operation itself, or its legs.\<close>

definition payees :: "PolicyCandidate \<Rightarrow> PolicyCandidate list \<Rightarrow> PolicyCandidate set" where
  "payees candidate legs = (if legs = [] then {candidate} else set legs)"

lemma views_have_legs_candidateViews [simp]:
  "views_have_legs (candidateViews candidate legs) \<longleftrightarrow> legs \<noteq> []"
  by (cases legs) (auto simp: candidateViews_def list_ex_iff enumerate_simps(2))

lemma candidateViews_leg:
  assumes "c \<in> set legs"
  obtains v where "v \<in> set (candidateViews candidate legs)" "cv_candidate v = c" "cv_leg v \<noteq> None"
proof -
  obtain i where "i < length legs" "legs ! i = c" using assms by (auto simp: in_set_conv_nth)
  then have "(i, c) \<in> set (enumerate 0 legs)" by (auto simp: in_set_enumerate_eq)
  then have "\<lparr>cv_candidate = c, cv_leg = Some i\<rparr> \<in> set (candidateViews candidate legs)"
    by (force simp: candidateViews_def)
  then show thesis using that by force
qed

lemma matched_decisions_payee:
  assumes "c \<in> payees candidate legs" "rule \<in> set rules" "rule_outcome rule c = Some ev"
  shows "re_decision ev \<in> matched_decisions rules (candidateViews candidate legs)"
proof (cases "legs = []")
  case True
  with assms show ?thesis
    by (auto simp: payees_def matched_decisions_def candidateViews_def viewRules_def)
next
  case False
  with assms(1) have "c \<in> set legs" by (simp add: payees_def)
  then obtain v where "v \<in> set (candidateViews candidate legs)" "cv_candidate v = c" "cv_leg v \<noteq> None"
    by (rule candidateViews_leg)
  with assms(2,3) False show ?thesis
    unfolding matched_decisions_def views_have_legs_candidateViews
    by (auto simp: viewRules_def intro!: exI[of _ v] exI[of _ rule] exI[of _ ev])
qed

lemma wallet_rule_denies:
  assumes ev: "evaluateCandidatePolicies input = Inr ev"
    and rev: "ep_revision (ecp_walletPolicy input) = Some revn" and rule: "rule \<in> set (wcr_rules revn)"
    and c: "c \<in> payees (ecp_candidate input) (ecp_legs input)"
    and deny: "\<exists>m. rule_outcome rule c = Some m \<and> re_decision m = Deny"
  shows "cpe_decision ev = Deny"
proof -
  let ?vs = "candidateViews (ecp_candidate input) (ecp_legs input)"
  have sr: "scope_revision (WalletScopePolicy (ecp_walletPolicy input)) = Some (wcr_id revn, wcr_rules revn)"
    using rev by simp
  have "Deny \<in> matched_decisions (wcr_rules revn) ?vs"
    using deny matched_decisions_payee[OF c rule] by metis
  then have "pse_decision (cpe_wallet ev) = Deny"
    using evaluatePolicyScope_decision[OF sr evaluateCandidatePolicies_scopes(1)[OF ev]]
      is_strictest_Deny by (auto split: if_splits)
  then show ?thesis using evaluateCandidatePolicies_scopes(3)[OF ev] is_strictest_Deny by auto
qed

text \<open>C33. A destination allowlist in the active wallet revision cannot be bypassed: if the operation, or
  any leg of a batch, has no destination or one outside the list, the decision is a denial whatever
  the other rules, the default action and the API-key policy say.\<close>

theorem destination_allowlist_enforced:
  assumes "evaluateCandidatePolicies input = Inr ev"
    and "ep_revision (ecp_walletPolicy input) = Some revn"
    and "RuleDestination r \<in> set (wcr_rules revn)" and "allowed_destinations r \<noteq> {}"
    and "c \<in> payees (ecp_candidate input) (ecp_legs input)"
    and "\<And>d. pc_destination c = Some d \<Longrightarrow> d \<notin> allowed_destinations r"
  shows "cpe_decision ev = Deny"
  using assms by (intro wallet_rule_denies[OF assms(1-3,5)] destination_not_allowed_denies)

theorem destination_allowlist_enforced_witness:
  "\<exists>ev. evaluateCandidatePolicies example_input = Inr ev \<and> cpe_decision ev = Deny"
proof -
  obtain ev where ev: "evaluateCandidatePolicies example_input = Inr ev"
    using evaluateCandidatePolicies_returns by blast
  obtain revn where r: "ep_revision (ecp_walletPolicy example_input) = Some revn"
    "wcr_rules revn = [RuleDestination example_allowlist, RuleAmount example_cap]"
    by (simp add: example_input_def example_wallet_policy_def)
  have "cpe_decision ev = Deny"
    by (rule destination_allowlist_enforced[OF ev r(1), of example_allowlist example_candidate])
       (use r(2) in \<open>simp_all add: allowed_destinations_def example_allowlist_def payees_def
          example_input_def example_candidate_def\<close>)
  with ev show ?thesis by blast
qed

text \<open>An amount limit in the active wallet revision cannot be bypassed: an operation (or a leg) in
  a token the rule names whose amount, as a number, lies outside the rule's bounds is denied.\<close>

theorem amount_limit_enforced:
  assumes "evaluateCandidatePolicies input = Inr ev"
    and "ep_revision (ecp_walletPolicy input) = Some revn"
    and "RuleAmount r \<in> set (wcr_rules revn)"
    and "c \<in> payees (ecp_candidate input) (ecp_legs input)"
    and "pc_asset c = Some asset" and "asset \<in> set (ruleValues (amr_asset r) (amr_assets r))"
    and "pc_amount c = Some amount" and "isDecimalString amount"
    and "\<not> invalid_bound (amr_min r)" and "\<not> invalid_bound (amr_max r)"
    and "(\<exists>b. amr_min r = Some b \<and> decimal_value amount < decimal_value b) \<or>
         (\<exists>b. amr_max r = Some b \<and> decimal_value amount > decimal_value b)"
  shows "cpe_decision ev = Deny"
  by (rule wallet_rule_denies[OF assms(1-4)], rule amount_out_of_bounds_denies[OF assms(5-11)])

theorem amount_limit_enforced_witness:
  "\<exists>ev. evaluateCandidatePolicies example_input = Inr ev \<and> cpe_decision ev = Deny"
proof -
  obtain ev where ev: "evaluateCandidatePolicies example_input = Inr ev"
    using evaluateCandidatePolicies_returns by blast
  obtain revn where r: "ep_revision (ecp_walletPolicy example_input) = Some revn"
    "wcr_rules revn = [RuleDestination example_allowlist, RuleAmount example_cap]"
    by (simp add: example_input_def example_wallet_policy_def)
  have dec: "isDecimalString ''5''" "isDecimalString ''3''" by code_simp+
  have val: "decimal_value ''3'' < decimal_value ''5''"
    by (simp add: decimal_value_def normalizeDecimalParts_def js_trim_def js_space_def char_digit_def)
  have "cpe_decision ev = Deny"
    by (rule amount_limit_enforced[OF ev r(1), of example_cap example_candidate "''USDC''" "''5''"])
       (use r(2) dec val in \<open>simp_all add: example_cap_def payees_def invalid_bound_def
          example_input_def example_candidate_def\<close>)
  with ev show ?thesis by blast
qed

section \<open>Dry runs agree with enforcement\<close>

lemma view_criteria_matches:
  "map (\<lambda>c. (drc_ruleId c, drc_kind c, drc_action c, drc_reason c, drc_leg c))
     (filter drc_matched (map (\<lambda>rule.
        \<lparr>drc_scope = scope, drc_ruleId = pr_id (rule_base rule), drc_kind = rule_kind rule,
         drc_name = pr_name (rule_base rule), drc_matched = (rule_outcome rule cand \<noteq> None),
         drc_action = map_option re_decision (rule_outcome rule cand),
         drc_reason = map_option re_reason (rule_outcome rule cand), drc_leg = leg\<rparr>) rules)) =
   map (\<lambda>m. (mr_ruleId m, mr_kind m, Some (mr_decision m), Some (mr_reason m), mr_leg m))
     (map (toMatchedRule scope) (concat (map (\<lambda>rule. case rule_outcome rule cand of
        None \<Rightarrow> [] | Some ev \<Rightarrow> [with_leg ev leg]) rules)))"
proof (induction rules)
  case Nil
  show ?case by simp
next
  case (Cons rule rules)
  show ?case
  proof (cases "rule_outcome rule cand")
    case None
    with Cons show ?thesis by simp
  next
    case (Some ev)
    with Cons rule_outcome_rule[OF Some] show ?thesis by (simp add: toMatchedRule_def)
  qed
qed

text \<open>Dry runs and enforcement share one decision path: the matched criteria a dry run reports for
  a scope are, one for one and in order, the rules the scope evaluation of the same candidate and
  legs records as matched, with the same rule, action, reason and leg.\<close>

theorem dry_run_criteria_are_matched_rules:
  assumes "describeCandidateRuleCriteria scope policy candidate legs = Inr criteria"
    and "evaluatePolicyScope scope policy (candidateViews candidate legs) = Inr ev"
  shows "map (\<lambda>c. (drc_ruleId c, drc_kind c, drc_action c, drc_reason c, drc_leg c))
           (filter drc_matched criteria) =
         map (\<lambda>m. (mr_ruleId m, mr_kind m, Some (mr_decision m), Some (mr_reason m), mr_leg m))
           (pse_matchedRules ev)"
proof (cases "scope_revision policy")
  case None
  with assms show ?thesis
    by (auto simp: describeCandidateRuleCriteria_def evaluatePolicyScope_def)
next
  case (Some p)
  obtain rid rules where p: "p = (rid, rules)" by (cases p)
  let ?vs = "candidateViews candidate legs"
  have m: "pse_matchedRules ev = map (toMatchedRule scope) (scope_matches rules ?vs)"
    using assms(2) Some p by (auto simp: evaluatePolicyScope_revision Let_def)
  let ?crit = "\<lambda>c. (drc_ruleId c, drc_kind c, drc_action c, drc_reason c, drc_leg c)"
  let ?mat = "\<lambda>m. (mr_ruleId m, mr_kind m, Some (mr_decision m), Some (mr_reason m), mr_leg m)"
  let ?row = "\<lambda>view rule.
        \<lparr>drc_scope = scope, drc_ruleId = pr_id (rule_base rule), drc_kind = rule_kind rule,
         drc_name = pr_name (rule_base rule), drc_matched = (rule_outcome rule (cv_candidate view) \<noteq> None),
         drc_action = map_option re_decision (rule_outcome rule (cv_candidate view)),
         drc_reason = map_option re_reason (rule_outcome rule (cv_candidate view)), drc_leg = cv_leg view\<rparr>"
  have c: "criteria = concat (map (\<lambda>view. map (?row view) (viewRules rules view (legs \<noteq> []))) ?vs)"
    using assms(1) Some p by (simp add: describeCandidateRuleCriteria_def evaluatePolicyRule_outcome)
  have "map ?crit (filter drc_matched (map (?row view) (viewRules rules view (legs \<noteq> [])))) =
      map ?mat (map (toMatchedRule scope) (view_matches rules (legs \<noteq> []) view))" for view
    unfolding view_matches_def by (rule view_criteria_matches)
  then show ?thesis
    unfolding m c scope_matches_def views_have_legs_candidateViews filter_concat map_concat map_map
    by (simp add: o_def cong: map_cong)
qed

theorem dry_run_criteria_are_matched_rules_witness:
  "\<exists>criteria ev.
     describeCandidateRuleCriteria ScopeWallet (WalletScopePolicy (ecp_walletPolicy example_input))
       example_candidate [] = Inr criteria \<and>
     evaluatePolicyScope ScopeWallet (WalletScopePolicy (ecp_walletPolicy example_input))
       (candidateViews example_candidate []) = Inr ev \<and>
     map drc_ruleId (filter drc_matched criteria) = map mr_ruleId (pse_matchedRules ev)"
  (is "\<exists>criteria ev. ?d = Inr criteria \<and> ?e = Inr ev \<and> _")
proof -
  obtain ev where ev: "?e = Inr ev" using evaluatePolicyScope_total by blast
  obtain criteria where c: "?d = Inr criteria"
    by (simp add: describeCandidateRuleCriteria_def evaluatePolicyRule_outcome example_input_def
        example_wallet_policy_def)
  have "map fst (map (\<lambda>c. (drc_ruleId c, drc_kind c, drc_action c, drc_reason c, drc_leg c))
           (filter drc_matched criteria)) =
        map fst (map (\<lambda>m. (mr_ruleId m, mr_kind m, Some (mr_decision m), Some (mr_reason m), mr_leg m))
           (pse_matchedRules ev))"
    using dry_run_criteria_are_matched_rules[OF c ev] by (rule arg_cong)
  with c ev show ?thesis by (simp add: o_def)
qed

end
