(* ===== verification/Runtime.thy ===== *)
theory Runtime
  imports Decimal_Amount
begin

text \<open>
  What every service of the API runs on: the errors it throws (\<^verbatim>\<open>apps/sdp-api/src/lib/errors.ts\<close>), the
  clock, \<^verbatim>\<open>crypto.randomUUID\<close>, and SQL statements against Postgres. A table is a list of rows, a
  statement a function on the state that may also fail: the session carries a schedule of
  connection faults (one entry per statement; \<open>True\<close> fails that statement without effect), so
  that the theorems quantify over every point at which a flow can be cut short. A transaction is
  undone by an exception of its body or by a failing \<^verbatim>\<open>COMMIT\<close>.
\<close>

section \<open>Errors\<close>

datatype ErrorCode =
    BAD_REQUEST | UNAUTHORIZED | FORBIDDEN | NOT_FOUND | CONFLICT | RATE_LIMITED
  | SERVICE_UNAVAILABLE | INTERNAL_ERROR | NOT_ALLOWLISTED | INVALID_API_KEY | EXPIRED_API_KEY
  | REVOKED_API_KEY | INSUFFICIENT_PERMISSIONS | INVALID_INVITATION | EXPIRED_INVITATION
  | INVALID_TOKEN | EXPIRED_SESSION | TOKEN_NOT_FOUND | TOKEN_NOT_ACTIVE | TOKEN_NOT_MINTABLE
  | TOKEN_NOT_DEPLOYED | TOKEN_PAUSED | INVALID_TOKEN_AMOUNT | NOT_ON_TOKEN_ALLOWLIST
  | DESTINATION_REVOKED | ON_TOKEN_BLOCKLIST | TOKEN_ACCOUNT_NOT_FOUND | INVALID_BURN_SOURCE
  | INSUFFICIENT_TOKEN_BALANCE | ACCOUNT_FROZEN | ACCOUNT_NOT_FROZEN | MAX_SUPPLY_EXCEEDED
  | SOLANA_RPC_ERROR | CUSTODY_ERROR | TRANSACTION_FAILED | SIGNING_FAILED | SIGNING_PENDING
  | PROVIDER_NOT_CONFIGURED | PROVIDER_UNAVAILABLE | ESTIMATE_NOT_AVAILABLE
  | UNSUPPORTED_CORRIDOR

fun ERROR_STATUS_CODES :: "ErrorCode \<Rightarrow> nat" where
  "ERROR_STATUS_CODES BAD_REQUEST = 400"
| "ERROR_STATUS_CODES UNAUTHORIZED = 401"
| "ERROR_STATUS_CODES FORBIDDEN = 403"
| "ERROR_STATUS_CODES NOT_FOUND = 404"
| "ERROR_STATUS_CODES CONFLICT = 409"
| "ERROR_STATUS_CODES RATE_LIMITED = 429"
| "ERROR_STATUS_CODES SERVICE_UNAVAILABLE = 503"
| "ERROR_STATUS_CODES INTERNAL_ERROR = 500"
| "ERROR_STATUS_CODES NOT_ALLOWLISTED = 403"
| "ERROR_STATUS_CODES INVALID_API_KEY = 401"
| "ERROR_STATUS_CODES EXPIRED_API_KEY = 401"
| "ERROR_STATUS_CODES REVOKED_API_KEY = 401"
| "ERROR_STATUS_CODES INSUFFICIENT_PERMISSIONS = 403"
| "ERROR_STATUS_CODES INVALID_INVITATION = 400"
| "ERROR_STATUS_CODES EXPIRED_INVITATION = 400"
| "ERROR_STATUS_CODES INVALID_TOKEN = 401"
| "ERROR_STATUS_CODES EXPIRED_SESSION = 401"
| "ERROR_STATUS_CODES TOKEN_NOT_FOUND = 404"
| "ERROR_STATUS_CODES TOKEN_NOT_ACTIVE = 400"
| "ERROR_STATUS_CODES TOKEN_NOT_MINTABLE = 400"
| "ERROR_STATUS_CODES TOKEN_NOT_DEPLOYED = 400"
| "ERROR_STATUS_CODES TOKEN_PAUSED = 400"
| "ERROR_STATUS_CODES INVALID_TOKEN_AMOUNT = 400"
| "ERROR_STATUS_CODES NOT_ON_TOKEN_ALLOWLIST = 403"
| "ERROR_STATUS_CODES DESTINATION_REVOKED = 403"
| "ERROR_STATUS_CODES ON_TOKEN_BLOCKLIST = 403"
| "ERROR_STATUS_CODES TOKEN_ACCOUNT_NOT_FOUND = 400"
| "ERROR_STATUS_CODES INVALID_BURN_SOURCE = 400"
| "ERROR_STATUS_CODES INSUFFICIENT_TOKEN_BALANCE = 400"
| "ERROR_STATUS_CODES ACCOUNT_FROZEN = 400"
| "ERROR_STATUS_CODES ACCOUNT_NOT_FROZEN = 400"
| "ERROR_STATUS_CODES MAX_SUPPLY_EXCEEDED = 400"
| "ERROR_STATUS_CODES SOLANA_RPC_ERROR = 502"
| "ERROR_STATUS_CODES CUSTODY_ERROR = 502"
| "ERROR_STATUS_CODES TRANSACTION_FAILED = 400"
| "ERROR_STATUS_CODES SIGNING_FAILED = 400"
| "ERROR_STATUS_CODES SIGNING_PENDING = 202"
| "ERROR_STATUS_CODES PROVIDER_NOT_CONFIGURED = 503"
| "ERROR_STATUS_CODES PROVIDER_UNAVAILABLE = 503"
| "ERROR_STATUS_CODES ESTIMATE_NOT_AVAILABLE = 503"
| "ERROR_STATUS_CODES UNSUPPORTED_CORRIDOR = 400"

text \<open>The errors of fee-payment providers (\<^verbatim>\<open>packages/sdp-payments/src/fee-payment/port.ts\<close>).\<close>

datatype FeePaymentErrorCode =
    PROVIDER_NOT_AVAILABLE | INSUFFICIENT_BALANCE | TRANSACTION_TOO_LARGE | FEE_SIGNING_FAILED
  | SUBMISSION_FAILED | NETWORK_ERROR | FEE_RATE_LIMITED

text \<open>The errors of the Earn package (\<^verbatim>\<open>packages/sdp-earn/src/errors.ts\<close>).\<close>

datatype SdpEarnErrorCode =
    EARN_BAD_REQUEST | EARN_CONFLICT | EARN_RATE_LIMITED | EARN_INTERNAL_ERROR | EARN_NOT_IMPLEMENTED
  | EARN_PROVIDER_NOT_CONFIGURED | EARN_PROVIDER_UNAVAILABLE

datatype api_error =
    AppError ErrorCode string json_object
  | TenantScopeViolationError string
  | PlainError string
  | AggregateError "api_error list" string
  | AmountThrown amount_error
  | SqlError string
  | UniqueViolation
  | FeePaymentError string FeePaymentErrorCode
  | SdpEarnError SdpEarnErrorCode string

definition forbidden :: "string \<Rightarrow> api_error" where
  "forbidden message = AppError FORBIDDEN message []"

definition badRequest :: "string \<Rightarrow> api_error" where
  "badRequest message = AppError BAD_REQUEST message []"

definition notFound :: "string \<Rightarrow> api_error" where
  "notFound resource = AppError NOT_FOUND (resource @ '' not found'') []"

definition conflict :: "string \<Rightarrow> api_error" where
  "conflict message = AppError CONFLICT message []"

definition internalError :: "string \<Rightarrow> api_error" where
  "internalError message = AppError INTERNAL_ERROR message []"

definition providerNotConfigured :: "string \<Rightarrow> api_error" where
  "providerNotConfigured message = SdpEarnError EARN_PROVIDER_NOT_CONFIGURED message"

definition notImplemented :: "string \<Rightarrow> string \<Rightarrow> api_error" where
  "notImplemented provider operation =
     SdpEarnError EARN_NOT_IMPLEMENTED (provider @ '' '' @ operation @ '' is not implemented yet'')"

text \<open>\<^verbatim>\<open>error instanceof Error ? error.message : String(error)\<close>; every thrown value here is an \<^verbatim>\<open>Error\<close>.\<close>

fun errorMessage :: "api_error \<Rightarrow> string" where
  "errorMessage (AppError c m d) = m"
| "errorMessage (TenantScopeViolationError m) = m"
| "errorMessage (PlainError m) = m"
| "errorMessage (AggregateError es m) = m"
| "errorMessage (AmountThrown (AmountError m)) = m"
| "errorMessage (AmountThrown SyntaxError) = ''Cannot convert to a BigInt''"
| "errorMessage (SqlError m) = m"
| "errorMessage UniqueViolation = ''duplicate key value violates unique constraint''"
| "errorMessage (FeePaymentError m c) = m"
| "errorMessage (SdpEarnError c m) = m"

section \<open>The session\<close>

record session =
  sess_faults :: "bool list"
  sess_clock :: timestamp
  sess_uuid :: "nat \<Rightarrow> string"
  sess_uuid_next :: nat

definition now :: "('z session_scheme, 'e, timestamp) io" where
  "now = io_get sess_clock"

definition randomUUID :: "('z session_scheme, 'e, string) io" where
  "randomUUID = (\<lambda>s. (Inr (sess_uuid s (sess_uuid_next s)), s\<lparr>sess_uuid_next := Suc (sess_uuid_next s)\<rparr>))"

definition sql :: "('z session_scheme, api_error, 'a) io \<Rightarrow> ('z session_scheme, api_error, 'a) io" where
  "sql stmt = (\<lambda>s. case sess_faults s of
      [] \<Rightarrow> stmt s
    | fault # faults \<Rightarrow>
        if fault then (Inl (SqlError ''connection terminated''), s\<lparr>sess_faults := faults\<rparr>)
        else stmt (s\<lparr>sess_faults := faults\<rparr>))"

text \<open>What survives of a rolled-back transaction: the statements it has used up and the ids it drew.\<close>

definition rollback :: "'z session_scheme \<Rightarrow> 'z session_scheme \<Rightarrow> 'z session_scheme" where
  "rollback s s' = s\<lparr>sess_faults := sess_faults s', sess_uuid_next := sess_uuid_next s'\<rparr>"

definition transaction ::
  "('z session_scheme, api_error, 'a) io \<Rightarrow> ('z session_scheme, api_error, 'a) io" where
  "transaction body = (\<lambda>s. case body s of
      (Inl e, s') \<Rightarrow> (Inl e, rollback s s')
    | (Inr a, s') \<Rightarrow>
        (case sql (io_return a) s' of
           (Inl e, s'') \<Rightarrow> (Inl e, rollback s s'')
         | (Inr b, s'') \<Rightarrow> (Inr b, s'')))"

definition io_when :: "bool \<Rightarrow> ('s, 'e, unit) io \<Rightarrow> ('s, 'e, unit) io" where
  "io_when b m = (if b then m else io_return ())"

section \<open>Tables\<close>

definition table_update :: "('r \<Rightarrow> bool) \<Rightarrow> ('r \<Rightarrow> 'r) \<Rightarrow> 'r list \<Rightarrow> 'r list" where
  "table_update P f rows = map (\<lambda>r. if P r then f r else r) rows"

lemma table_update_Nil [simp]: "table_update P f [] = []"
  by (simp add: table_update_def)

lemma set_table_update: "set (table_update P f rows) = f ` {r \<in> set rows. P r} \<union> {r \<in> set rows. \<not> P r}"
  by (auto simp: table_update_def)

lemma table_update_key:
  assumes "\<And>r. P r \<Longrightarrow> key (f r) = key r"
  shows "map key (table_update P f rows) = map key rows"
  using assms by (simp add: table_update_def)

lemma table_update_keys:
  assumes "\<And>r. P r \<Longrightarrow> key (f r) = key r"
  shows "key ` set (table_update P f rows) = key ` set rows"
  by (metis assms list.set_map table_update_key)

lemma find_key_unique:
  assumes "distinct (map key rows)" "r \<in> set rows" "key r = k"
  shows "find (\<lambda>x. key x = k) rows = Some r"
  using assms by (induction rows) (auto simp: image_iff)

lemma find_table_update:
  assumes "\<And>r. P r \<Longrightarrow> key (f r) = key r"
  shows "find (\<lambda>x. key x = k) (table_update P f rows) =
           map_option (\<lambda>r. if P r then f r else r) (find (\<lambda>x. key x = k) rows)"
  using assms by (induction rows) (auto simp: table_update_def)

lemma find_append: "find P (xs @ ys) = (case find P xs of None \<Rightarrow> find P ys | Some x \<Rightarrow> Some x)"
  by (induction xs) auto

lemma find_Some_in: "find P xs = Some x \<Longrightarrow> x \<in> set xs \<and> P x"
  by (auto simp: find_Some_iff)

section \<open>Statements that only read\<close>

lemma sql_cases:
  obtains (fault) faults where "sess_faults s = True # faults"
      "sql stmt s = (Inl (SqlError ''connection terminated''), s\<lparr>sess_faults := faults\<rparr>)"
  | (run) faults where "sql stmt s = stmt (s\<lparr>sess_faults := faults\<rparr>)"
proof (cases "sess_faults s")
  case Nil
  then have eq: "s\<lparr>sess_faults := []\<rparr> = s" by (cases s) simp
  have "sql stmt s = stmt s" using Nil by (simp add: sql_def)
  then show ?thesis using run[of "[]"] unfolding eq by blast
next
  case (Cons b bs)
  then show ?thesis using fault run by (cases b) (auto simp: sql_def)
qed

lemma sql_Inr:
  assumes "sql stmt s = (Inr a, s')"
  shows "\<exists>faults. stmt (s\<lparr>sess_faults := faults\<rparr>) = (Inr a, s')"
  using assms by (cases rule: sql_cases[of s stmt]) auto

text \<open>A computation that only reads changes nothing but the statements it has used up.\<close>

named_theorems reads_intros "introduction rules for read-only computations"

definition only_session :: "'z session_scheme \<Rightarrow> 'z session_scheme \<Rightarrow> bool" where
  "only_session s s' \<longleftrightarrow> s' = rollback s s'"

definition io_reads :: "('z session_scheme, 'e, 'a) io \<Rightarrow> bool" where
  "io_reads m \<longleftrightarrow> (\<forall>s. only_session s (snd (m s)))"

lemma only_session_refl [simp]: "only_session s s"
  by (cases s) (simp add: only_session_def rollback_def)

lemma rollback_rollback [simp]: "rollback (rollback s t) u = rollback s u"
  by (simp add: rollback_def)

lemma only_session_trans: "only_session s t \<Longrightarrow> only_session t u \<Longrightarrow> only_session s u"
  by (metis only_session_def rollback_rollback)

lemma only_session_rollback [simp]: "only_session s (rollback s t)"
  by (simp add: only_session_def rollback_def)

lemma only_session_faults [simp]: "only_session s (s\<lparr>sess_faults := fs\<rparr>)"
  by (cases s) (simp add: only_session_def rollback_def)

lemma only_session_uuid [simp]: "only_session s (s\<lparr>sess_uuid_next := n\<rparr>)"
  by (cases s) (simp add: only_session_def rollback_def)

lemma io_readsD: "io_reads m \<Longrightarrow> m s = (r, s') \<Longrightarrow> only_session s s'"
  by (metis io_reads_def snd_conv)

lemma io_reads_return [reads_intros]: "io_reads (io_return a)"
  by (simp add: io_reads_def io_return_def)

lemma io_reads_throw [reads_intros]: "io_reads (io_throw e)"
  by (simp add: io_reads_def io_throw_def)

lemma io_reads_lift [reads_intros]: "io_reads (io_lift r)"
  by (simp add: io_reads_def io_lift_def)

lemma io_reads_get [reads_intros]: "io_reads (io_get f)"
  by (simp add: io_reads_def io_get_def)

lemma io_reads_now [reads_intros]: "io_reads now"
  by (simp add: now_def io_reads_get)

lemma io_reads_uuid [reads_intros]: "io_reads randomUUID"
  by (simp add: io_reads_def randomUUID_def)

lemma io_reads_sql [reads_intros]: "io_reads m \<Longrightarrow> io_reads (sql m)"
  by (auto simp: io_reads_def sql_def split: list.splits
      intro: only_session_trans[OF only_session_faults])

lemma io_reads_bind [reads_intros]:
  assumes "io_reads m" "\<And>a. io_reads (f a)"
  shows "io_reads (io_bind m f)"
  unfolding io_reads_def
proof
  fix s
  show "only_session s (snd (io_bind m f s))"
    using assms only_session_trans[of s]
    by (auto simp: io_bind_def io_reads_def split: prod.splits sum.splits) (metis snd_conv)+
qed

lemma io_reads_if [reads_intros]: "(c \<Longrightarrow> io_reads m) \<Longrightarrow> (\<not> c \<Longrightarrow> io_reads n) \<Longrightarrow> io_reads (if c then m else n)"
  by simp

lemma io_reads_option [reads_intros]:
  "(v = None \<Longrightarrow> io_reads m) \<Longrightarrow> (\<And>x. v = Some x \<Longrightarrow> io_reads (f x)) \<Longrightarrow>
     io_reads (case v of None \<Rightarrow> m | Some x \<Rightarrow> f x)"
  by (cases v) auto

section \<open>Inversion of statements and transactions\<close>

lemma sql_get_cases:
  obtains (fault) fs where "sql (io_get f) s = (Inl (SqlError ''connection terminated''), s\<lparr>sess_faults := fs\<rparr>)"
  | (run) fs where "sql (io_get f) s = (Inr (f (s\<lparr>sess_faults := fs\<rparr>)), s\<lparr>sess_faults := fs\<rparr>)"
proof (cases rule: sql_cases[of s "io_get f"])
  case (fault fs)
  then show ?thesis using that(1) by blast
next
  case (run fs)
  then show ?thesis using that(2) by (simp add: io_get_def)
qed

lemma transaction_cases:
  obtains (fail) e s1 where "transaction m s = (Inl e, rollback s s1)"
  | (ok) a s1 fs where "m s = (Inr a, s1)" "transaction m s = (Inr a, s1\<lparr>sess_faults := fs\<rparr>)"
proof -
  obtain r s1 where m: "m s = (r, s1)" by (cases "m s")
  show thesis
  proof (cases r)
    case (Inl e)
    with m show ?thesis using fail by (auto simp: transaction_def)
  next
    case (Inr a)
    show ?thesis
    proof (cases rule: sql_cases[of s1 "io_return a"])
      case (fault fs)
      with m Inr show ?thesis using fail by (auto simp: transaction_def)
    next
      case (run fs)
      with m Inr show ?thesis using ok[of a s1 fs] by (auto simp: transaction_def io_return_def)
    qed
  qed
qed

lemma io_bind_cases:
  obtains (throws) e s1 where "m s = (Inl e, s1)" "io_bind m f s = (Inl e, s1)"
  | (continues) a s1 where "m s = (Inr a, s1)" "io_bind m f s = f a s1"
  by (cases "m s"; cases "fst (m s)") (auto simp: io_bind_def split: sum.splits)

section \<open>Weakest preconditions\<close>

text \<open>\<open>wp m Q s\<close>: running \<open>m\<close> from \<open>s\<close> ends in a result and a state that satisfy \<open>Q\<close>. One rule per
  combinator; for SQL and transactions the rule quantifies over the fault schedule.\<close>

named_theorems wp_intros "weakest-precondition rules of the effect combinators"

definition wp :: "('s, 'e, 'a) io \<Rightarrow> (('e, 'a) result \<Rightarrow> 's \<Rightarrow> bool) \<Rightarrow> 's \<Rightarrow> bool" where
  "wp m Q s \<longleftrightarrow> Q (fst (m s)) (snd (m s))"

lemma wpD: "wp m Q s \<Longrightarrow> m s = (r, s') \<Longrightarrow> Q r s'"
  by (simp add: wp_def)

lemma wpI: "(\<And>r s'. m s = (r, s') \<Longrightarrow> Q r s') \<Longrightarrow> wp m Q s"
  by (simp add: wp_def)

lemma wp_mono: "wp m Q s \<Longrightarrow> (\<And>r s'. Q r s' \<Longrightarrow> Q' r s') \<Longrightarrow> wp m Q' s"
  by (simp add: wp_def)

lemma wp_return [wp_intros]: "Q (Inr a) s \<Longrightarrow> wp (io_return a) Q s"
  by (simp add: wp_def io_return_def)

lemma wp_throw [wp_intros]: "Q (Inl e) s \<Longrightarrow> wp (io_throw e) Q s"
  by (simp add: wp_def io_throw_def)

lemma wp_get [wp_intros]: "Q (Inr (f s)) s \<Longrightarrow> wp (io_get f) Q s"
  by (simp add: wp_def io_get_def)

lemma wp_modify [wp_intros]: "Q (Inr ()) (f s) \<Longrightarrow> wp (io_modify f) Q s"
  by (simp add: wp_def io_modify_def)

lemma wp_lift [wp_intros]: "Q r s \<Longrightarrow> wp (io_lift r) Q s"
  by (simp add: wp_def io_lift_def)

lemma wp_now [wp_intros]: "Q (Inr (sess_clock s)) s \<Longrightarrow> wp now Q s"
  by (simp add: wp_def now_def io_get_def)

lemma wp_uuid [wp_intros]:
  "Q (Inr (sess_uuid s (sess_uuid_next s))) (s\<lparr>sess_uuid_next := Suc (sess_uuid_next s)\<rparr>) \<Longrightarrow>
     wp randomUUID Q s"
  by (simp add: wp_def randomUUID_def)

lemma wp_bind [wp_intros]:
  "wp m (\<lambda>r s'. case r of Inl e \<Rightarrow> Q (Inl e) s' | Inr a \<Rightarrow> wp (f a) Q s') s \<Longrightarrow> wp (io_bind m f) Q s"
  by (auto simp: wp_def io_bind_def split: prod.splits sum.splits)

lemma wp_if [wp_intros]:
  "(c \<Longrightarrow> wp m Q s) \<Longrightarrow> (\<not> c \<Longrightarrow> wp n Q s) \<Longrightarrow> wp (if c then m else n) Q s"
  by simp

lemma wp_option [wp_intros]:
  "(v = None \<Longrightarrow> wp m Q s) \<Longrightarrow> (\<And>x. v = Some x \<Longrightarrow> wp (f x) Q s) \<Longrightarrow>
     wp (case v of None \<Rightarrow> m | Some x \<Rightarrow> f x) Q s"
  by (cases v) auto

lemma wp_sql [wp_intros]:
  assumes "\<And>fs. wp m Q (s\<lparr>sess_faults := fs\<rparr>)" "\<And>e fs. Q (Inl e) (s\<lparr>sess_faults := fs\<rparr>)"
  shows "wp (sql m) Q s"
  using assms by (cases rule: sql_cases[of s m]) (auto simp: wp_def)

lemma wp_transaction [wp_intros]:
  assumes "wp m (\<lambda>r s1. case r of Inl e \<Rightarrow> True | Inr a \<Rightarrow> \<forall>fs. Q (Inr a) (s1\<lparr>sess_faults := fs\<rparr>)) s"
    and "\<And>e s1. Q (Inl e) (rollback s s1)"
  shows "wp (transaction m) Q s"
  using assms by (cases rule: transaction_cases[of m s]) (auto simp: wp_def)

lemma wp_reads:
  assumes "io_reads m" "\<And>r s'. only_session s s' \<Longrightarrow> Q r s'"
  shows "wp m Q s"
  using assms by (auto simp: wp_def io_reads_def)

lemma result_case_I [wp_intros]:
  "(\<And>e. r = Inl e \<Longrightarrow> P e) \<Longrightarrow> (\<And>a. r = Inr a \<Longrightarrow> Q a) \<Longrightarrow> (case r of Inl e \<Rightarrow> P e | Inr a \<Rightarrow> Q a)"
  by (cases r) auto

end
