(* ===== verification/Policy_Enforce.thy ===== *)
theory Policy_Enforce
  imports Policy_Evaluate Runtime
begin

text \<open>
  The enforcement flow (\<^verbatim>\<open>packages/sdp-policy/src/enforce.ts\<close>) and the persistence port it is written
  against (\<^verbatim>\<open>ports.ts\<close>). The port is a record of effectful functions, as in the source; the laws
  its providers promise are the locale \<open>enforcement_store\<close>, in which the flow's guarantees are
  proved once: what a returned decision means for the stored rows, and that a failure in the middle
  of the flow leaves a failed operation behind and never one that could run.
\<close>

section \<open>The port\<close>

text \<open>\<^verbatim>\<open>actor\<close> distinguishes an absent value from \<^verbatim>\<open>null\<close>; the other optional fields do not.\<close>

record CreateWalletOperationInput =
  cwo_organizationId :: string
  cwo_projectId :: "string option"
  cwo_custodyWalletId :: "string option"
  cwo_walletId :: string
  cwo_apiKeyId :: "string option"
  cwo_actor :: "WalletOperationActor option option"
  cwo_source :: "string option"
  cwo_operationFamily :: WalletOperationFamily
  cwo_operationType :: WalletOperationType
  cwo_asset :: "string option"
  cwo_amount :: "string option"
  cwo_destination :: "string option"
  cwo_legs :: "PolicyCandidate list"
  cwo_context :: "json_object option"
  cwo_providerExtensions :: "json_object option"
  cwo_rawPayload :: "json_object option"
  cwo_idempotencyKey :: "string option"
  cwo_status :: "WalletOperationStatus option"

record EffectiveOperationPolicies =
  eop_walletPolicy :: EffectiveWalletPolicy
  eop_apiKeyPolicy :: "EffectiveApiKeyPolicy option"

record CreateApprovalRequestInput =
  car_organizationId :: string
  car_projectId :: "string option"
  car_walletOperationId :: string
  car_approvalGroupId :: "string option"
  car_provider :: "string option"
  car_providerReference :: "string option"
  car_providerPayload :: json_object
  car_requestedBy :: "string option"

record RecordPolicyEvaluationInput =
  rpe_walletOperationId :: string
  rpe_walletPolicyRevisionId :: "string option"
  rpe_apiKeyPolicyRevisionId :: "string option"
  rpe_decision :: PolicyDecision
  rpe_reasonCode :: PolicyEvaluationReasonCode
  rpe_reason :: string
  rpe_matchedRules :: "MatchedPolicyRule list"
  rpe_evaluationContext :: PolicyEvaluationContext
  rpe_requiresApproval :: bool
  rpe_approvalRequestId :: "string option"

record 's PolicyEnforcementStore =
  st_createWalletOperation ::
    "CreateWalletOperationInput \<Rightarrow> ('s, api_error, WalletOperationEnvelope) io"
  st_loadEffectivePolicies ::
    "PolicyCandidate \<Rightarrow> ('s, api_error, EffectiveOperationPolicies) io"
  st_createApprovalRequest ::
    "CreateApprovalRequestInput \<Rightarrow> ('s, api_error, string \<times> ApprovalRequestStatus) io"
  st_recordPolicyEvaluation ::
    "RecordPolicyEvaluationInput \<Rightarrow> ('s, api_error, PolicyEvaluation) io"
  st_updateWalletOperationStatus ::
    "string \<Rightarrow> WalletOperationStatus \<Rightarrow> ('s, api_error, WalletOperationStatus \<times> timestamp) io"
  st_failApprovalRequest ::
    "WalletOperationEnvelope \<Rightarrow> string \<Rightarrow> ('s, api_error, unit) io"

section \<open>The flow\<close>

record WalletOperationPolicyEnforcement =
  wpe_operation :: WalletOperationEnvelope
  wpe_evaluation :: PolicyEvaluation

definition createPolicyEvaluationInput ::
  "WalletOperationPolicyEvaluation \<Rightarrow> string option \<Rightarrow> RecordPolicyEvaluationInput" where
  "createPolicyEvaluationInput result approvalRequestId =
     \<lparr>rpe_walletOperationId = woe_id (wope_operation result),
      rpe_walletPolicyRevisionId = cpe_walletPolicyRevisionId result,
      rpe_apiKeyPolicyRevisionId = cpe_apiKeyPolicyRevisionId result,
      rpe_decision = cpe_decision result,
      rpe_reasonCode = cpe_reasonCode result,
      rpe_reason = cpe_reason result,
      rpe_matchedRules = cpe_matchedRules result,
      rpe_evaluationContext = wope_evaluationContext result,
      rpe_requiresApproval = cpe_requiresApproval result,
      rpe_approvalRequestId = approvalRequestId\<rparr>"

fun stringValue :: "json option \<Rightarrow> string option" where
  "stringValue (Some (JStr v)) = (if v \<noteq> [] then Some v else None)"
| "stringValue _ = None"

fun firstStringValue :: "json option list \<Rightarrow> string option" where
  "firstStringValue [] = None"
| "firstStringValue (v # vs) = (case stringValue v of Some s \<Rightarrow> Some s | None \<Rightarrow> firstStringValue vs)"

fun getApprovalGroupId_loop :: "MatchedPolicyRule list \<Rightarrow> string option" where
  "getApprovalGroupId_loop [] = None"
| "getApprovalGroupId_loop (m # ms) =
     (case mr_rule m of
        RuleApproval r \<Rightarrow>
          (case apr_approvalGroupId r of Some g \<Rightarrow> Some g | None \<Rightarrow> getApprovalGroupId_loop ms)
      | _ \<Rightarrow> getApprovalGroupId_loop ms)"

definition getApprovalGroupId :: "WalletOperationPolicyEvaluation \<Rightarrow> string option" where
  "getApprovalGroupId evaluation = getApprovalGroupId_loop (cpe_matchedRules evaluation)"

definition createApprovalRequestInput ::
  "WalletOperationEnvelope \<Rightarrow> WalletOperationPolicyEvaluation \<Rightarrow> CreateApprovalRequestInput" where
  "createApprovalRequestInput operation evaluation =
     (let ext = pc_providerExtensions operation in
      \<lparr>car_organizationId = pc_organizationId operation,
       car_projectId = pc_projectId operation,
       car_walletOperationId = woe_id operation,
       car_approvalGroupId = getApprovalGroupId evaluation,
       car_provider = stringValue (json_field ext ''provider''),
       car_providerReference = firstStringValue
         [json_field ext ''providerReference'', json_field ext ''approvalId'',
          json_field ext ''approvalRequestId''],
       car_providerPayload = ext,
       car_requestedBy =
         (case pc_actor operation of None \<Rightarrow> None | Some actor \<Rightarrow> stringValue (json_field actor ''id''))\<rparr>)"

definition enforcementCleanup ::
  "'s PolicyEnforcementStore \<Rightarrow> WalletOperationEnvelope \<Rightarrow> string option \<Rightarrow> ('s, api_error, unit) io"
where
  "enforcementCleanup store operation approvalRequestId =
     (case approvalRequestId of
        Some rid \<Rightarrow> st_failApprovalRequest store operation rid
      | None \<Rightarrow> io_bind (st_updateWalletOperationStatus store (woe_id operation) OpFailed)
                  (\<lambda>_. io_return ()))"

definition compensateEnforcementFailure ::
  "'s PolicyEnforcementStore \<Rightarrow> WalletOperationEnvelope \<Rightarrow> string option \<Rightarrow> api_error \<Rightarrow>
     ('s, api_error, unit) io" where
  "compensateEnforcementFailure store operation approvalRequestId error =
     io_catch (enforcementCleanup store operation approvalRequestId)
       (\<lambda>cleanupError. io_throw (AggregateError [error, cleanupError]
          (''Wallet operation policy enforcement failed ('' @ errorMessage error @
           '') and cleanup failed ('' @ errorMessage cleanupError @ '')'')))"

text \<open>The \<^verbatim>\<open>catch\<close> block: compensate, then rethrow. The two halves of the \<^verbatim>\<open>try\<close> block differ in the value
  \<^verbatim>\<open>approvalRequestId\<close> has when they throw, so each carries the handler.\<close>

definition compensated ::
  "'s PolicyEnforcementStore \<Rightarrow> WalletOperationEnvelope \<Rightarrow> string option \<Rightarrow>
     ('s, api_error, 'a) io \<Rightarrow> ('s, api_error, 'a) io" where
  "compensated store operation approvalRequestId body =
     io_catch body (\<lambda>error.
       io_bind (compensateEnforcementFailure store operation approvalRequestId error)
         (\<lambda>_. io_throw error))"

definition requestApproval ::
  "'s PolicyEnforcementStore \<Rightarrow> WalletOperationEnvelope \<Rightarrow> WalletOperationPolicyEvaluation \<Rightarrow>
     ('s, api_error, string option) io" where
  "requestApproval store operation result =
     (if walletOperationStatusForDecision (cpe_decision result) = OpPendingApproval then
        io_bind (st_createApprovalRequest store (createApprovalRequestInput operation result))
          (\<lambda>(rid, status).
             if status \<noteq> ArPending
             then io_throw (PlainError ''Wallet operation approval request is no longer pending'')
             else io_return (Some rid))
      else io_return None)"

definition evaluateOperation ::
  "'s PolicyEnforcementStore \<Rightarrow> CreateWalletOperationInput \<Rightarrow> WalletOperationEnvelope \<Rightarrow>
     ('s, api_error, WalletOperationPolicyEvaluation) io" where
  "evaluateOperation store input operation =
     io_bind (st_loadEffectivePolicies store (PolicyCandidate.truncate operation)) (\<lambda>policies.
     io_lift (case evaluateWalletOperationPolicies
        \<lparr>ewp_operation = operation, ewp_legs = cwo_legs input,
         ewp_walletPolicy = eop_walletPolicy policies,
         ewp_apiKeyPolicy = eop_apiKeyPolicy policies\<rparr> of
          Inl e \<Rightarrow> Inl (AmountThrown e) | Inr r \<Rightarrow> Inr r))"

definition recordOutcome ::
  "'s PolicyEnforcementStore \<Rightarrow> WalletOperationEnvelope \<Rightarrow> WalletOperationPolicyEvaluation \<Rightarrow>
     string option \<Rightarrow> ('s, api_error, WalletOperationPolicyEnforcement) io" where
  "recordOutcome store operation result approvalRequestId =
     io_bind (st_recordPolicyEvaluation store (createPolicyEvaluationInput result approvalRequestId))
       (\<lambda>evaluation.
     io_bind (st_updateWalletOperationStatus store (woe_id operation)
         (walletOperationStatusForDecision (cpe_decision result))) (\<lambda>(status, updatedAt).
     io_return
       \<lparr>wpe_operation = operation\<lparr>woe_status := status, woe_updatedAt := updatedAt\<rparr>,
        wpe_evaluation = evaluation\<rparr>))"

definition initialStatus :: "CreateWalletOperationInput \<Rightarrow> WalletOperationStatus" where
  "initialStatus input = (case cwo_status input of None \<Rightarrow> OpCreated | Some st \<Rightarrow> st)"

definition enforceWalletOperationPolicy ::
  "'s PolicyEnforcementStore \<Rightarrow> CreateWalletOperationInput \<Rightarrow>
     ('s, api_error, WalletOperationPolicyEnforcement) io" where
  "enforceWalletOperationPolicy store input =
     io_bind (st_createWalletOperation store (input\<lparr>cwo_status := Some (initialStatus input)\<rparr>))
       (\<lambda>operation.
     io_bind (compensated store operation None
       (io_bind (evaluateOperation store input operation) (\<lambda>result.
        io_bind (requestApproval store operation result) (\<lambda>approvalRequestId.
        io_return (result, approvalRequestId)))))
       (\<lambda>(result, approvalRequestId).
     compensated store operation approvalRequestId
       (recordOutcome store operation result approvalRequestId)))"

section \<open>Effects of the combinators\<close>

lemma io_catch_throwing:
  assumes "\<And>e s a s'. h e s \<noteq> (Inr a, s')"
  shows "io_catch m h s = (Inr a, s') \<longleftrightarrow> m s = (Inr a, s')"
  using assms by (auto simp: io_catch_def split: prod.splits sum.splits)

lemma compensated_Inr [simp]:
  "compensated store op rid body s = (Inr a, s') \<longleftrightarrow> body s = (Inr a, s')"
  unfolding compensated_def
  by (rule io_catch_throwing) (auto simp: io_bind_def io_throw_def split: prod.splits sum.splits)

lemma compensated_Inl:
  assumes "compensated store op rid body s = (Inl e, s')"
  obtains (cleaned) s1 where "body s = (Inl e, s1)" "enforcementCleanup store op rid s1 = (Inr (), s')"
  | (aggregate) es m e0 ce s1 where "body s = (Inl e0, s1)"
      "enforcementCleanup store op rid s1 = (Inl ce, s')" "e = AggregateError es m"
  using assms
  by (auto simp: compensated_def compensateEnforcementFailure_def effect_simps
      split: prod.splits sum.splits)

lemma io_bind_Inl:
  assumes "io_bind m f s = (Inl e, s')"
  obtains (first) "m s = (Inl e, s')" | (second) a s1 where "m s = (Inr a, s1)" "f a s1 = (Inl e, s')"
  using assms by (auto simp: io_bind_def split: prod.splits sum.splits)

lemma evaluateOperation_Inr:
  assumes "evaluateOperation store input op s = (Inr result, s')"
  shows "\<exists>policies. st_loadEffectivePolicies store (PolicyCandidate.truncate op) s = (Inr policies, s') \<and>
    evaluateWalletOperationPolicies
       \<lparr>ewp_operation = op, ewp_legs = cwo_legs input, ewp_walletPolicy = eop_walletPolicy policies,
        ewp_apiKeyPolicy = eop_apiKeyPolicy policies\<rparr> = Inr result"
proof -
  let ?in = "\<lambda>policies. \<lparr>ewp_operation = op, ewp_legs = cwo_legs input,
      ewp_walletPolicy = eop_walletPolicy policies, ewp_apiKeyPolicy = eop_apiKeyPolicy policies\<rparr>"
  obtain policies s1 where
      load: "st_loadEffectivePolicies store (PolicyCandidate.truncate op) s = (Inr policies, s1)"
    and ev: "(case evaluateWalletOperationPolicies (?in policies) of
        Inl e \<Rightarrow> Inl (AmountThrown e) | Inr r \<Rightarrow> Inr r) = Inr result" "s1 = s'"
    using assms by (auto simp: evaluateOperation_def io_bind_Inr_iff io_lift_def)
  then show ?thesis by (cases "evaluateWalletOperationPolicies (?in policies)") auto
qed

section \<open>What the flow guarantees over any lawful store\<close>

text \<open>The recorded operation is the one the caller described.\<close>

definition records_input :: "CreateWalletOperationInput \<Rightarrow> WalletOperationEnvelope \<Rightarrow> bool" where
  "records_input i op \<longleftrightarrow>
     pc_organizationId op = cwo_organizationId i \<and> pc_projectId op = cwo_projectId i \<and>
     pc_custodyWalletId op = cwo_custodyWalletId i \<and> pc_walletId op = cwo_walletId i \<and>
     pc_apiKeyId op = cwo_apiKeyId i \<and> pc_operationFamily op = cwo_operationFamily i \<and>
     pc_operationType op = cwo_operationType i \<and> pc_asset op = cwo_asset i \<and>
     pc_amount op = cwo_amount i \<and> pc_destination op = cwo_destination i"

locale enforcement_store =
  fixes store :: "'s PolicyEnforcementStore"
    and inv :: "'s \<Rightarrow> bool"
    and status_of :: "'s \<Rightarrow> string \<Rightarrow> WalletOperationStatus option"
    and request_of :: "'s \<Rightarrow> string \<Rightarrow> (string \<times> ApprovalRequestStatus) option"
    and mine :: "'s \<Rightarrow> WalletOperationEnvelope \<Rightarrow> bool"
  assumes create_ok: "inv s \<Longrightarrow> st_createWalletOperation store i s = (Inr op, s') \<Longrightarrow>
      inv s' \<and> mine s' op \<and> records_input i op \<and> status_of s (woe_id op) = None \<and> request_of s (woe_id op) = None \<and>
      woe_status op = initialStatus i \<and> status_of s' = (status_of s)(woe_id op \<mapsto> initialStatus i) \<and>
      request_of s' = request_of s"
    and create_err: "inv s \<Longrightarrow> st_createWalletOperation store i s = (Inl e, s') \<Longrightarrow>
      inv s' \<and> request_of s' = request_of s \<and>
      (status_of s' = status_of s \<or> (\<exists>k. status_of s k = None \<and> request_of s k = None \<and>
         status_of s' = (status_of s)(k \<mapsto> initialStatus i)))"
    and load_reads: "inv s \<Longrightarrow> st_loadEffectivePolicies store c s = (r, s') \<Longrightarrow>
      inv s' \<and> status_of s' = status_of s \<and> request_of s' = request_of s \<and> (mine s op \<longrightarrow> mine s' op)"
    and approve_ok: "inv s \<Longrightarrow> st_createApprovalRequest store a s = (Inr (rid, ast), s') \<Longrightarrow>
      inv s' \<and> status_of s' = status_of s \<and>
      request_of s' = (request_of s)(car_walletOperationId a \<mapsto> (rid, ast)) \<and> (mine s op \<longrightarrow> mine s' op)"
    and approve_err: "inv s \<Longrightarrow> st_createApprovalRequest store a s = (Inl e, s') \<Longrightarrow>
      inv s' \<and> status_of s' = status_of s \<and> request_of s' = request_of s \<and> (mine s op \<longrightarrow> mine s' op)"
    and record_ok: "inv s \<Longrightarrow> st_recordPolicyEvaluation store p s = (Inr ev, s') \<Longrightarrow>
      pe_walletOperationId ev = rpe_walletOperationId p \<and> pe_decision ev = rpe_decision p \<and>
      pe_requiresApproval ev = rpe_requiresApproval p \<and>
      pe_approvalRequestId ev = rpe_approvalRequestId p"
    and record_keeps: "inv s \<Longrightarrow> st_recordPolicyEvaluation store p s = (q, s') \<Longrightarrow>
      inv s' \<and> status_of s' = status_of s \<and> request_of s' = request_of s \<and> (mine s op \<longrightarrow> mine s' op)"
    and update_ok: "inv s \<Longrightarrow> st_updateWalletOperationStatus store k st s = (Inr (st', t), s') \<Longrightarrow>
      inv s' \<and> st' = st \<and> status_of s' = (status_of s)(k \<mapsto> st) \<and> request_of s' = request_of s"
    and update_err: "inv s \<Longrightarrow> st_updateWalletOperationStatus store k st s = (Inl e, s') \<Longrightarrow>
      inv s' \<and> status_of s' = status_of s \<and> request_of s' = request_of s \<and> (mine s op \<longrightarrow> mine s' op)"
    and fail_ok: "inv s \<Longrightarrow> mine s op \<Longrightarrow> request_of s (woe_id op) = Some (rid, ArPending) \<Longrightarrow>
      status_of s (woe_id op) \<in> {Some OpCreated, Some OpPendingApproval} \<Longrightarrow>
      st_failApprovalRequest store op rid s = (Inr (), s') \<Longrightarrow>
      inv s' \<and> status_of s' = (status_of s)(woe_id op \<mapsto> OpFailed) \<and>
      request_of s' = (request_of s)(woe_id op \<mapsto> (rid, ArFailed))"
    and fail_err: "inv s \<Longrightarrow> st_failApprovalRequest store op rid s = (Inl e, s') \<Longrightarrow>
      inv s' \<and> status_of s' = status_of s \<and> request_of s' = request_of s"
begin

lemma requestApproval_ok:
  assumes "inv s" "mine s op" "requestApproval store op result s = (Inr rid, s')"
  shows "inv s' \<and> mine s' op \<and> status_of s' = status_of s \<and>
    (if walletOperationStatusForDecision (cpe_decision result) = OpPendingApproval
     then \<exists>r. rid = Some r \<and> request_of s' = (request_of s)(woe_id op \<mapsto> (r, ArPending))
     else rid = None \<and> request_of s' = request_of s)"
  using assms approve_ok[OF assms(1), of "createApprovalRequestInput op result" _ _ s' op]
  by (auto simp: requestApproval_def createApprovalRequestInput_def Let_def effect_simps
      split: if_splits prod.splits sum.splits)

lemma requestApproval_err:
  assumes "inv s" "mine s op" "requestApproval store op result s = (Inl e, s')"
  shows "inv s' \<and> mine s' op \<and> status_of s' = status_of s"
  using assms approve_ok[OF assms(1), of "createApprovalRequestInput op result" _ _ s' op]
    approve_err[OF assms(1), of "createApprovalRequestInput op result" e s' op]
  by (auto simp: requestApproval_def effect_simps split: if_splits prod.splits sum.splits)

lemma evaluateOperation_reads:
  assumes "inv s" "evaluateOperation store input op s = (r, s')"
  shows "inv s' \<and> status_of s' = status_of s \<and> request_of s' = request_of s \<and> (mine s o' \<longrightarrow> mine s' o')"
  using assms load_reads[OF assms(1), of "PolicyCandidate.truncate op" _ s' o']
  by (auto simp: evaluateOperation_def effect_simps split: prod.splits sum.splits)

text \<open>A returned enforcement: the operation is new, its decision is the engine's on the policies the
  store loaded for it, and the stored rows say what the decision asks for.\<close>

lemma enforce_returns:
  assumes inv: "inv s" and run: "enforceWalletOperationPolicy store input s = (Inr enf, s')"
  obtains op policies result s1 s2 where
    "st_loadEffectivePolicies store (PolicyCandidate.truncate op) s1 = (Inr policies, s2)"
    "evaluateWalletOperationPolicies
       \<lparr>ewp_operation = op, ewp_legs = cwo_legs input, ewp_walletPolicy = eop_walletPolicy policies,
        ewp_apiKeyPolicy = eop_apiKeyPolicy policies\<rparr> = Inr result"
    "inv s'" "records_input input op"
    "PolicyCandidate.truncate (wpe_operation enf) = PolicyCandidate.truncate op"
    "woe_id (wpe_operation enf) = woe_id op" "status_of s (woe_id op) = None"
    "pe_decision (wpe_evaluation enf) = cpe_decision result"
    "pe_requiresApproval (wpe_evaluation enf) = cpe_requiresApproval result"
    "woe_status (wpe_operation enf) = walletOperationStatusForDecision (cpe_decision result)"
    "status_of s' = (status_of s)(woe_id op \<mapsto> walletOperationStatusForDecision (cpe_decision result))"
    "if walletOperationStatusForDecision (cpe_decision result) = OpPendingApproval
     then \<exists>rid. pe_approvalRequestId (wpe_evaluation enf) = Some rid \<and>
            request_of s' = (request_of s)(woe_id op \<mapsto> (rid, ArPending))
     else request_of s' = request_of s"
proof -
  from run obtain op s1 result rid s2 s3 where
      create: "st_createWalletOperation store (input\<lparr>cwo_status := Some (initialStatus input)\<rparr>) s = (Inr op, s1)"
    and eval: "evaluateOperation store input op s1 = (Inr result, s2)"
    and ask: "requestApproval store op result s2 = (Inr rid, s3)"
    and rec: "recordOutcome store op result rid s3 = (Inr enf, s')"
    unfolding enforceWalletOperationPolicy_def io_bind_Inr_iff
    by (auto simp: io_bind_Inr_iff io_return_def)
  from rec obtain ev st t s4 where
      recd: "st_recordPolicyEvaluation store (createPolicyEvaluationInput result rid) s3 = (Inr ev, s4)"
    and update: "st_updateWalletOperationStatus store (woe_id op)
        (walletOperationStatusForDecision (cpe_decision result)) s4 = (Inr (st, t), s')"
    and enf: "enf = \<lparr>wpe_operation = op\<lparr>woe_status := st, woe_updatedAt := t\<rparr>, wpe_evaluation = ev\<rparr>"
    by (auto simp: recordOutcome_def io_bind_Inr_iff io_return_def)
  obtain policies where
      load: "st_loadEffectivePolicies store (PolicyCandidate.truncate op) s1 = (Inr policies, s2)"
    and result: "evaluateWalletOperationPolicies
       \<lparr>ewp_operation = op, ewp_legs = cwo_legs input, ewp_walletPolicy = eop_walletPolicy policies,
        ewp_apiKeyPolicy = eop_apiKeyPolicy policies\<rparr> = Inr result"
    using evaluateOperation_Inr[OF eval] by auto
  note c = create_ok[OF inv create]
  note l = load_reads[OF _ load, of op]
  note a = requestApproval_ok[OF _ _ ask]
  note r = record_ok[OF _ recd] record_keeps[OF _ recd, of op]
  note u = update_ok[OF _ update]
  show thesis
    by (rule that[OF load result])
       (use c l a r u in \<open>auto simp: enf createPolicyEvaluationInput_def records_input_def PolicyCandidate.truncate_def split: if_splits\<close>)
qed

text \<open>A thrown enforcement, whatever failed: at most one operation is new, and it is failed or still
  in the status it was created with. It is failed, or has no approval request to approve, unless
  the cleanup failed too and the error says so.\<close>

lemma cleanup_ok:
  assumes "inv s" "mine s op" "enforcementCleanup store op rid s = (Inr (), s')"
    and "status_of s (woe_id op) \<in> {Some OpCreated, Some OpPendingApproval}"
    and "\<And>r. rid = Some r \<Longrightarrow> request_of s (woe_id op) = Some (r, ArPending)"
  shows "status_of s' = (status_of s)(woe_id op \<mapsto> OpFailed)"
proof (cases rid)
  case None
  then obtain st t where "st_updateWalletOperationStatus store (woe_id op) OpFailed s = (Inr (st, t), s')"
    using assms(3) by (auto simp: enforcementCleanup_def io_bind_Inr_iff io_return_def)
  then show ?thesis using update_ok[OF assms(1)] by blast
next
  case (Some r)
  then show ?thesis
    using fail_ok[OF assms(1,2) _ assms(4), of r s'] assms(3,5) by (auto simp: enforcementCleanup_def)
qed

lemma cleanup_err:
  assumes "inv s" "enforcementCleanup store op rid s = (Inl e, s')"
  shows "status_of s' = status_of s"
proof (cases rid)
  case None
  then have "st_updateWalletOperationStatus store (woe_id op) OpFailed s = (Inl e, s')"
    using assms(2) by (auto simp: enforcementCleanup_def io_return_def elim: io_bind_Inl)
  then show ?thesis using update_err[OF assms(1)] by blast
next
  case (Some r)
  then show ?thesis using fail_err[OF assms(1)] assms(2) by (auto simp: enforcementCleanup_def)
qed

lemma compensated_throws:
  assumes run: "compensated store op rid body s = (Inl e, s')"
    and body: "\<And>e0 s1. body s = (Inl e0, s1) \<Longrightarrow> inv s1 \<and> mine s1 op \<and> status_of s1 = status_of s \<and>
      (\<forall>r. rid = Some r \<longrightarrow> request_of s1 (woe_id op) = Some (r, ArPending))"
    and st: "status_of s (woe_id op) \<in> {Some OpCreated, Some OpPendingApproval}"
  shows "status_of s' = (status_of s)(woe_id op \<mapsto> OpFailed) \<or>
    status_of s' = status_of s \<and> (\<exists>es m. e = AggregateError es m)"
  using run
proof (cases rule: compensated_Inl)
  case (cleaned s1)
  then show ?thesis using cleanup_ok[of s1 op rid s'] body[of e s1] st by auto
next
  case (aggregate es m e0 ce s1)
  then show ?thesis using cleanup_err[of s1 op rid ce s'] body[of e0 s1] by auto
qed

lemma recordOutcome_throws:
  assumes "inv s" "mine s op" "recordOutcome store op result rid s = (Inl e, s')"
  shows "inv s' \<and> mine s' op \<and> status_of s' = status_of s \<and> request_of s' = request_of s"
  using assms(3) unfolding recordOutcome_def
proof (cases rule: io_bind_Inl)
  case first
  then show ?thesis using record_keeps[OF assms(1) first, of op] assms(2) by simp
next
  case (second ev s1)
  note keeps = record_keeps[OF assms(1) second(1), of op]
  have "st_updateWalletOperationStatus store (woe_id op)
      (walletOperationStatusForDecision (cpe_decision result)) s1 = (Inl e, s')"
    using second(2) by (auto simp: io_return_def elim!: io_bind_Inl)
  then show ?thesis using update_err[of s1 _ _ e s' op] keeps assms(2) by auto
qed

lemma enforce_throws:
  assumes inv: "inv s" and run: "enforceWalletOperationPolicy store input s = (Inl e, s')"
    and init: "initialStatus input \<in> {OpCreated, OpPendingApproval}"
  shows "status_of s' = status_of s \<or>
    (\<exists>k. status_of s k = None \<and>
       (status_of s' = (status_of s)(k \<mapsto> OpFailed) \<or>
        status_of s' = (status_of s)(k \<mapsto> initialStatus input) \<and>
          (request_of s' = request_of s \<and> request_of s k = None \<or> (\<exists>es m. e = AggregateError es m))))"
  using run unfolding enforceWalletOperationPolicy_def
proof (cases rule: io_bind_Inl)
  case first
  then show ?thesis using create_err[OF inv first] by (auto simp: initialStatus_def)
next
  case (second op s1)
  have c: "inv s1" "mine s1 op" "status_of s (woe_id op) = None"
      "status_of s1 = (status_of s)(woe_id op \<mapsto> initialStatus input)"
    using create_ok[OF inv second(1)] by (auto simp: initialStatus_def)
  have st: "status_of s1 (woe_id op) \<in> {Some OpCreated, Some OpPendingApproval}" using c(4) init by auto
  have "status_of s' = (status_of s1)(woe_id op \<mapsto> OpFailed) \<or>
      status_of s' = status_of s1 \<and> (\<exists>es m. e = AggregateError es m)"
    using second(2)
  proof (cases rule: io_bind_Inl)
    case first
    show ?thesis
    proof (rule compensated_throws[OF first _ st])
      fix e0 s2
      assume "io_bind (evaluateOperation store input op) (\<lambda>result.
          io_bind (requestApproval store op result) (\<lambda>rid. io_return (result, rid))) s1 = (Inl e0, s2)"
      then show "inv s2 \<and> mine s2 op \<and> status_of s2 = status_of s1 \<and>
          (\<forall>r. None = Some r \<longrightarrow> request_of s2 (woe_id op) = Some (r, ArPending))"
      proof (cases rule: io_bind_Inl)
        case first
        then show ?thesis using evaluateOperation_reads[OF c(1) first, of op] c(2) by simp
      next
        case (second result s3)
        have "requestApproval store op result s3 = (Inl e0, s2)"
          using second(2) by (auto simp: io_return_def elim!: io_bind_Inl)
        then show ?thesis
          using requestApproval_err[of s3 op result e0 s2] evaluateOperation_reads[OF c(1) second(1), of op] c(2)
          by simp
      qed
    qed
  next
    case (second p s2)
    obtain result rid where p: "p = (result, rid)" by (cases p)
    obtain s3 where ev: "evaluateOperation store input op s1 = (Inr result, s3)"
        and ask: "requestApproval store op result s3 = (Inr rid, s2)"
      using second(1) p by (auto simp: io_bind_Inr_iff io_return_def)
    note reads = evaluateOperation_reads[OF c(1) ev, of op]
    note asked = requestApproval_ok[OF _ _ ask]
    have run2: "compensated store op rid (recordOutcome store op result rid) s2 = (Inl e, s')"
      using second(2) p by simp
    have same: "status_of s2 = status_of s1" using reads asked c(2) by simp
    have "status_of s' = (status_of s2)(woe_id op \<mapsto> OpFailed) \<or>
      status_of s' = status_of s2 \<and> (\<exists>es m. e = AggregateError es m)"
    proof (rule compensated_throws[OF run2])
      fix e0 s4
      assume "recordOutcome store op result rid s2 = (Inl e0, s4)"
      then have "inv s4 \<and> mine s4 op \<and> status_of s4 = status_of s2 \<and> request_of s4 = request_of s2"
        using recordOutcome_throws reads asked c(2) by blast
      then show "inv s4 \<and> mine s4 op \<and> status_of s4 = status_of s2 \<and>
          (\<forall>r. rid = Some r \<longrightarrow> request_of s4 (woe_id op) = Some (r, ArPending))"
        using reads asked c(2) by (auto split: if_splits)
    next
      show "status_of s2 (woe_id op) \<in> {Some OpCreated, Some OpPendingApproval}"
        using st same by simp
    qed
    then show ?thesis using same by simp
  qed
  then show ?thesis using c(3,4) by auto
qed

end

end
