(* ===== verification/Tenant_Scope.thy ===== *)
theory Tenant_Scope
  imports Runtime
begin

text \<open>
  Tenant scoping (\<^verbatim>\<open>apps/sdp-api/src/lib/tenant-scope.ts\<close>): the trusted scope of a request, and the check
  that a repository call does not claim another tenant's identity.
\<close>

record TenantScope =
  ts_organizationId :: string
  ts_projectId :: "string option"

definition createTenantScope ::
  "string \<Rightarrow> string option \<Rightarrow> (api_error, TenantScope) result" where
  "createTenantScope inputOrganizationId inputProjectId =
     (let organizationId = js_trim inputOrganizationId;
          projectId = map_option js_trim inputProjectId
      in if organizationId = []
         then Inl (TenantScopeViolationError ''Tenant organizationId is required'')
         else if inputProjectId \<noteq> None \<and> projectId = Some []
         then Inl (TenantScopeViolationError ''Tenant projectId cannot be empty'')
         else Inr \<lparr>ts_organizationId = organizationId, ts_projectId = projectId\<rparr>)"

definition assertTenantClaim ::
  "TenantScope \<Rightarrow> string \<Rightarrow> string option \<Rightarrow> string \<Rightarrow> (api_error, unit) result" where
  "assertTenantClaim scope claimOrganizationId claimProjectId operation =
     (if claimOrganizationId \<noteq> ts_organizationId scope
      then Inl (TenantScopeViolationError
        (operation @ '' cannot override the repository organization scope''))
      else if claimProjectId \<noteq> ts_projectId scope
      then Inl (TenantScopeViolationError
        (operation @ '' cannot override the repository project scope''))
      else Inr ())"

lemma assertTenantClaim_Inr [simp]:
  "assertTenantClaim scope org proj operation = Inr u \<longleftrightarrow>
     org = ts_organizationId scope \<and> proj = ts_projectId scope"
  by (auto simp: assertTenantClaim_def)

end
