(* ===== verification/Policy_Repository.thy ===== *)
theory Policy_Repository
  imports Policy_Enforce Tenant_Scope "HOL-Library.Product_Lexorder"
begin

text \<open>
  The tables and the tenant-scoped queries behind policy resolution
  (\<^verbatim>\<open>apps/sdp-api/src/db/repositories/policy.repository.ts\<close> and \<^verbatim>\<open>policy.repository.postgres.ts\<close>): control
  profiles and their numbered revisions for wallets and API keys, the bindings of API keys to
  wallets, and the ownership checks every method starts with. JSON columns hold the value that was
  stored; the partial unique indexes of the schema are part of the statements that can violate
  them. Rows that tie on every column of an \<^verbatim>\<open>ORDER BY\<close> are taken in table order.
\<close>

section \<open>Rows\<close>

record WalletControlProfileRow =
  wcpr_id :: string
  wcpr_organization_id :: string
  wcpr_project_id :: "string option"
  wcpr_custody_wallet_id :: string
  wcpr_name :: string
  wcpr_status :: PolicyProfileStatus
  wcpr_active_revision_id :: "string option"
  wcpr_created_by :: "string option"
  wcpr_created_at :: timestamp
  wcpr_updated_at :: timestamp
  wcpr_activated_at :: "timestamp option"
  wcpr_archived_at :: "timestamp option"

record WalletControlProfileRevisionRow =
  wcrr_id :: string
  wcrr_profile_id :: string
  wcrr_revision_number :: int
  wcrr_rules :: "PolicyRule list"
  wcrr_default_action :: PolicyDefaultAction
  wcrr_commit_message :: "string option"
  wcrr_created_by :: "string option"
  wcrr_created_at :: timestamp
  wcrr_activated_at :: "timestamp option"

record ApiKeyControlProfileRow =
  akpr_id :: string
  akpr_organization_id :: string
  akpr_project_id :: "string option"
  akpr_api_key_id :: string
  akpr_name :: string
  akpr_status :: PolicyProfileStatus
  akpr_active_revision_id :: "string option"
  akpr_created_by :: "string option"
  akpr_created_at :: timestamp
  akpr_updated_at :: timestamp
  akpr_activated_at :: "timestamp option"
  akpr_archived_at :: "timestamp option"

record ApiKeyControlProfileRevisionRow =
  akrr_id :: string
  akrr_profile_id :: string
  akrr_revision_number :: int
  akrr_rules :: "PolicyRule list"
  akrr_default_action :: PolicyDefaultAction
  akrr_created_by :: "string option"
  akrr_created_at :: timestamp
  akrr_activated_at :: "timestamp option"

datatype ApiKeyWalletPolicyBindingScope = BindAll | BindSelected

record ApiKeyWalletPolicyBindingRow =
  bnd_id :: string
  bnd_api_key_id :: string
  bnd_binding_scope :: ApiKeyWalletPolicyBindingScope
  bnd_wallet_id :: "string option"
  bnd_custody_wallet_id :: "string option"
  bnd_wallet_control_profile_id :: "string option"
  bnd_api_key_control_profile_id :: "string option"
  bnd_created_at :: timestamp
  bnd_updated_at :: timestamp

record WalletOperationRow =
  wo_id :: string
  wo_organization_id :: string
  wo_project_id :: "string option"
  wo_custody_wallet_id :: "string option"
  wo_wallet_id :: string
  wo_api_key_id :: "string option"
  wo_source :: string
  wo_operation_family :: WalletOperationFamily
  wo_operation_type :: WalletOperationType
  wo_asset :: "string option"
  wo_amount :: "string option"
  wo_destination :: "string option"
  wo_raw_payload :: json_object
  wo_idempotency_key :: "string option"
  wo_status :: WalletOperationStatus
  wo_execution_started_at :: "timestamp option"
  wo_execution_completed_at :: "timestamp option"
  wo_execution_error :: "string option"
  wo_execution_result :: "json_object option"
  wo_execution_attempt_id :: "string option"
  wo_execution_lease_expires_at :: "timestamp option"
  wo_execution_effect_started_at :: "timestamp option"
  wo_execution_attempts :: nat
  wo_created_at :: timestamp
  wo_updated_at :: timestamp

record PolicyEvaluationRow =
  per_id :: string
  per_wallet_operation_id :: string
  per_wallet_policy_revision_id :: "string option"
  per_api_key_policy_revision_id :: "string option"
  per_decision :: PolicyDecision
  per_reason_code :: PolicyEvaluationReasonCode
  per_reason :: "string option"
  per_matched_rules :: "MatchedPolicyRule list"
  per_evaluation_context :: "PolicyEvaluationContext option"
  per_requires_approval :: bool
  per_approval_request_id :: "string option"
  per_created_at :: timestamp

record ApprovalRequestRow =
  ar_id :: string
  ar_organization_id :: string
  ar_project_id :: "string option"
  ar_wallet_operation_id :: string
  ar_approval_group_id :: "string option"
  ar_status :: ApprovalRequestStatus
  ar_provider :: "string option"
  ar_provider_reference :: "string option"
  ar_provider_payload :: json_object
  ar_requested_by :: "string option"
  ar_resolved_by :: "string option"
  ar_expires_at :: "timestamp option"
  ar_resolved_at :: "timestamp option"
  ar_created_at :: timestamp
  ar_updated_at :: timestamp

record ApiKeyPolicySubjectRow =
  aks_api_key_id :: string
  aks_organization_id :: string
  aks_project_id :: "string option"

record ApiKeyWalletPolicyTargetRow = ApiKeyPolicySubjectRow +
  akt_wallet_id :: string
  akt_custody_wallet_id :: string
  akt_wallet_project_id :: "string option"
  akt_endpoint_binding_count :: nat
  akt_endpoint_wallet_binding_id :: "string option"

record ApiKeyWalletPolicyBindingResolutionRow =
  abr_total_binding_count :: nat
  abr_binding :: "ApiKeyWalletPolicyBindingRow option"

record ActiveWalletControlProfileResult =
  awp_profile :: WalletControlProfileRow
  awp_revision :: "WalletControlProfileRevisionRow option"

record ActiveApiKeyControlProfileResult =
  aap_profile :: ApiKeyControlProfileRow
  aap_revision :: "ApiKeyControlProfileRevisionRow option"

text \<open>The columns of the tables owned by other services that the queries here read.\<close>

record ApiKeyRow =
  ak_id :: string
  ak_organization_id :: string
  ak_project_id :: "string option"
  ak_status :: string
  ak_signing_wallet_id :: "string option"
  ak_created_by :: "string option"

record ApiKeyWalletPermissionRow =
  akw_id :: string
  akw_api_key_id :: string
  akw_wallet_id :: string

record CustodyScopeRow =
  cs_id :: string
  cs_organization_id :: string
  cs_project_id :: "string option"
  cs_status :: string

record CustodyWalletRow =
  cw_id :: string
  cw_wallet_id :: string
  cw_custody_config_id :: "string option"
  cw_custody_connection_id :: "string option"
  cw_status :: string

record policy_db = session +
  t_wallet_control_profiles :: "WalletControlProfileRow list"
  t_wallet_control_profile_revisions :: "WalletControlProfileRevisionRow list"
  t_api_key_control_profiles :: "ApiKeyControlProfileRow list"
  t_api_key_control_profile_revisions :: "ApiKeyControlProfileRevisionRow list"
  t_api_key_wallet_policy_bindings :: "ApiKeyWalletPolicyBindingRow list"
  t_wallet_operations :: "WalletOperationRow list"
  t_policy_evaluations :: "PolicyEvaluationRow list"
  t_approval_requests :: "ApprovalRequestRow list"
  t_api_keys :: "ApiKeyRow list"
  t_api_key_wallet_permissions :: "ApiKeyWalletPermissionRow list"
  t_custody_configs :: "CustodyScopeRow list"
  t_custody_connections :: "CustodyScopeRow list"
  t_custody_wallets :: "CustodyWalletRow list"

type_synonym 'a policy_io = "(policy_db, api_error, 'a) io"

section \<open>Ownership\<close>

datatype tenant_table =
  T_api_key_control_profiles | T_api_keys | T_approval_requests | T_wallet_control_profiles
  | T_wallet_operations

fun tenant_rows :: "tenant_table \<Rightarrow> policy_db \<Rightarrow> (string \<times> string \<times> string option) list" where
  "tenant_rows T_api_key_control_profiles db =
     map (\<lambda>r. (akpr_id r, akpr_organization_id r, akpr_project_id r)) (t_api_key_control_profiles db)"
| "tenant_rows T_api_keys db =
     map (\<lambda>r. (ak_id r, ak_organization_id r, ak_project_id r)) (t_api_keys db)"
| "tenant_rows T_approval_requests db =
     map (\<lambda>r. (ar_id r, ar_organization_id r, ar_project_id r)) (t_approval_requests db)"
| "tenant_rows T_wallet_control_profiles db =
     map (\<lambda>r. (wcpr_id r, wcpr_organization_id r, wcpr_project_id r)) (t_wallet_control_profiles db)"
| "tenant_rows T_wallet_operations db =
     map (\<lambda>r. (wo_id r, wo_organization_id r, wo_project_id r)) (t_wallet_operations db)"

definition owns_row :: "TenantScope \<Rightarrow> tenant_table \<Rightarrow> string \<Rightarrow> policy_db \<Rightarrow> bool" where
  "owns_row scope table i db \<longleftrightarrow>
     (i, ts_organizationId scope, ts_projectId scope) \<in> set (tenant_rows table db)"

definition tenantOwnsRow :: "TenantScope \<Rightarrow> tenant_table \<Rightarrow> string \<Rightarrow> bool policy_io" where
  "tenantOwnsRow scope table i = sql (io_get (owns_row scope table i))"

text \<open>The two arms of the wallet predicate: an active custody configuration of the organization, of the
  project or organization-wide, or an active connection of exactly the project.\<close>

definition custody_config_serves :: "TenantScope \<Rightarrow> policy_db \<Rightarrow> CustodyWalletRow \<Rightarrow> bool" where
  "custody_config_serves scope db w \<longleftrightarrow>
     (\<exists>c\<in>set (t_custody_configs db). Some (cs_id c) = cw_custody_config_id w \<and>
        cs_organization_id c = ts_organizationId scope \<and>
        (cs_project_id c = ts_projectId scope \<or> cs_project_id c = None) \<and> cs_status c = ''active'')"

definition custody_connection_serves :: "TenantScope \<Rightarrow> policy_db \<Rightarrow> CustodyWalletRow \<Rightarrow> bool" where
  "custody_connection_serves scope db w \<longleftrightarrow>
     (\<exists>c\<in>set (t_custody_connections db). Some (cs_id c) = cw_custody_connection_id w \<and>
        cs_organization_id c = ts_organizationId scope \<and>
        cs_project_id c = ts_projectId scope \<and> cs_status c = ''active'')"

definition wallet_in_scope :: "TenantScope \<Rightarrow> policy_db \<Rightarrow> CustodyWalletRow \<Rightarrow> bool" where
  "wallet_in_scope scope db w \<longleftrightarrow> cw_status w = ''active'' \<and>
     (custody_config_serves scope db w \<or> custody_connection_serves scope db w)"

definition owns_wallet :: "TenantScope \<Rightarrow> string \<Rightarrow> policy_db \<Rightarrow> bool" where
  "owns_wallet scope walletId db \<longleftrightarrow>
     (\<exists>w\<in>set (t_custody_wallets db).
        (cw_id w = walletId \<or> cw_wallet_id w = walletId) \<and> wallet_in_scope scope db w)"

definition tenantOwnsWallet :: "TenantScope \<Rightarrow> string \<Rightarrow> bool policy_io" where
  "tenantOwnsWallet scope walletId = sql (io_get (owns_wallet scope walletId))"

definition owns_wallet_target :: "TenantScope \<Rightarrow> string \<Rightarrow> string option \<Rightarrow> policy_db \<Rightarrow> bool" where
  "owns_wallet_target scope walletId custodyWalletId db \<longleftrightarrow>
     (\<exists>w\<in>set (t_custody_wallets db).
        cw_wallet_id w = walletId \<and> (\<forall>c\<in>set_option custodyWalletId. cw_id w = c) \<and>
        wallet_in_scope scope db w)"

definition tenantOwnsWalletTarget :: "TenantScope \<Rightarrow> string \<Rightarrow> string option \<Rightarrow> bool policy_io" where
  "tenantOwnsWalletTarget scope walletId custodyWalletId =
     sql (io_get (owns_wallet_target scope walletId custodyWalletId))"

text \<open>\<^verbatim>\<open>tenantOwnsPolicyRevision\<close> for each of the two pairs of tables it is called with.\<close>

definition owns_wallet_revision :: "TenantScope \<Rightarrow> string \<Rightarrow> policy_db \<Rightarrow> bool" where
  "owns_wallet_revision scope i db \<longleftrightarrow>
     (\<exists>r\<in>set (t_wallet_control_profile_revisions db). wcrr_id r = i \<and>
        owns_row scope T_wallet_control_profiles (wcrr_profile_id r) db)"

definition owns_api_key_revision :: "TenantScope \<Rightarrow> string \<Rightarrow> policy_db \<Rightarrow> bool" where
  "owns_api_key_revision scope i db \<longleftrightarrow>
     (\<exists>r\<in>set (t_api_key_control_profile_revisions db). akrr_id r = i \<and>
        owns_row scope T_api_key_control_profiles (akrr_profile_id r) db)"

definition tenantOwnsPolicyRevision ::
  "(TenantScope \<Rightarrow> string \<Rightarrow> policy_db \<Rightarrow> bool) \<Rightarrow> TenantScope \<Rightarrow> string \<Rightarrow> bool policy_io" where
  "tenantOwnsPolicyRevision owns scope revisionId = sql (io_get (owns scope revisionId))"

text \<open>\<^verbatim>\<open>if (value && !(await check(value))) return null\<close>: an absent or empty string is not checked.\<close>

definition check_optional :: "string option \<Rightarrow> (string \<Rightarrow> bool policy_io) \<Rightarrow> bool policy_io" where
  "check_optional v check = (case v of None \<Rightarrow> io_return True
     | Some x \<Rightarrow> if x = [] then io_return True else check x)"

text \<open>\<^verbatim>\<open>if (!(await check)) return null\<close>.\<close>

definition or_null :: "bool policy_io \<Rightarrow> 'a option policy_io \<Rightarrow> 'a option policy_io" where
  "or_null check body = io_bind check (\<lambda>ok. if ok then body else io_return None)"

section \<open>Wallet control profiles\<close>

definition wallet_profile_by_id :: "policy_db \<Rightarrow> string \<Rightarrow> WalletControlProfileRow option" where
  "wallet_profile_by_id db i = find (\<lambda>r. wcpr_id r = i) (t_wallet_control_profiles db)"

definition getWalletControlProfileById :: "string \<Rightarrow> WalletControlProfileRow option policy_io" where
  "getWalletControlProfileById profileId = sql (io_get (\<lambda>db. wallet_profile_by_id db profileId))"

definition wallet_revision_by_id :: "policy_db \<Rightarrow> string \<Rightarrow> WalletControlProfileRevisionRow option" where
  "wallet_revision_by_id db i = find (\<lambda>r. wcrr_id r = i) (t_wallet_control_profile_revisions db)"

definition getWalletControlProfileRevisionById ::
  "string \<Rightarrow> WalletControlProfileRevisionRow option policy_io" where
  "getWalletControlProfileRevisionById revisionId =
     sql (io_get (\<lambda>db. wallet_revision_by_id db revisionId))"

record CreateWalletControlProfileInput =
  cwp_organizationId :: string
  cwp_projectId :: "string option"
  cwp_custodyWalletId :: string
  cwp_name :: string
  cwp_status :: "PolicyProfileStatus option"
  cwp_createdBy :: "string option"

text \<open>The primary key and the partial unique index \<^verbatim>\<open>idx_wallet_control_profiles_active_wallet\<close>: one
  active profile per custody wallet.\<close>

definition wallet_profiles_ok :: "WalletControlProfileRow list \<Rightarrow> bool" where
  "wallet_profiles_ok rows \<longleftrightarrow> distinct (map wcpr_id rows) \<and>
     distinct (map wcpr_custody_wallet_id (filter (\<lambda>r. wcpr_status r = ProfileActive) rows))"

definition write_wallet_profiles :: "(WalletControlProfileRow list \<Rightarrow> WalletControlProfileRow list) \<Rightarrow> unit policy_io"
where
  "write_wallet_profiles f = (\<lambda>db.
     let rows = f (t_wallet_control_profiles db) in
     if wallet_profiles_ok rows then (Inr (), db\<lparr>t_wallet_control_profiles := rows\<rparr>)
     else (Inl UniqueViolation, db))"

definition createWalletControlProfile ::
  "TenantScope \<Rightarrow> CreateWalletControlProfileInput \<Rightarrow> WalletControlProfileRow option policy_io" where
  "createWalletControlProfile scope input =
     io_bind (io_lift (assertTenantClaim scope (cwp_organizationId input) (cwp_projectId input)
       ''PolicyRepository.createWalletControlProfile'')) (\<lambda>_.
     or_null (tenantOwnsWallet scope (cwp_custodyWalletId input))
       (io_bind randomUUID (\<lambda>uuid.
        let i = ''wcp_'' @ uuid in
        io_bind (sql (io_bind now (\<lambda>t. write_wallet_profiles (\<lambda>rows. rows @
          [\<lparr>wcpr_id = i, wcpr_organization_id = ts_organizationId scope,
            wcpr_project_id = ts_projectId scope, wcpr_custody_wallet_id = cwp_custodyWalletId input,
            wcpr_name = cwp_name input,
            wcpr_status = (case cwp_status input of None \<Rightarrow> ProfileDraft | Some st \<Rightarrow> st),
            wcpr_active_revision_id = None, wcpr_created_by = cwp_createdBy input,
            wcpr_created_at = t, wcpr_updated_at = t, wcpr_activated_at = None,
            wcpr_archived_at = None\<rparr>])))) (\<lambda>_.
        getWalletControlProfileById i))))"

record CreateWalletControlProfileRevisionInput =
  cwr_profileId :: string
  cwr_rules :: "PolicyRule list option"
  cwr_defaultAction :: "PolicyDefaultAction option"
  cwr_commitMessage :: "string option"
  cwr_createdBy :: "string option"

text \<open>\<^verbatim>\<open>COALESCE(MAX(revision_number), 0) + 1\<close> over the revisions of the profile.\<close>

definition next_revision_number :: "int list \<Rightarrow> int" where
  "next_revision_number numbers = (if numbers = [] then 0 else Max (set numbers)) + 1"

definition wallet_revisions_ok :: "WalletControlProfileRevisionRow list \<Rightarrow> bool" where
  "wallet_revisions_ok rows \<longleftrightarrow> distinct (map wcrr_id rows) \<and>
     distinct (map (\<lambda>r. (wcrr_profile_id r, wcrr_revision_number r)) rows)"

definition insert_wallet_revision ::
  "WalletControlProfileRevisionRow \<Rightarrow> WalletControlProfileRevisionRow option policy_io" where
  "insert_wallet_revision row = (\<lambda>db.
     let rows = t_wallet_control_profile_revisions db @ [row] in
     if wallet_revisions_ok rows
     then (Inr (Some row), db\<lparr>t_wallet_control_profile_revisions := rows\<rparr>)
     else (Inl UniqueViolation, db))"

definition createWalletControlProfileRevision ::
  "TenantScope \<Rightarrow> CreateWalletControlProfileRevisionInput \<Rightarrow>
     WalletControlProfileRevisionRow option policy_io" where
  "createWalletControlProfileRevision scope input =
     or_null (tenantOwnsRow scope T_wallet_control_profiles (cwr_profileId input))
       (io_bind randomUUID (\<lambda>uuid. transaction
         (io_bind (getWalletControlProfileById (cwr_profileId input)) (\<lambda>profile.
          case profile of
            None \<Rightarrow> io_return None
          | Some _ \<Rightarrow> sql (io_bind now (\<lambda>t. io_bind (io_get (\<lambda>db. map wcrr_revision_number
                (filter (\<lambda>r. wcrr_profile_id r = cwr_profileId input)
                   (t_wallet_control_profile_revisions db)))) (\<lambda>numbers.
              insert_wallet_revision
                \<lparr>wcrr_id = ''wcpr_'' @ uuid, wcrr_profile_id = cwr_profileId input,
                 wcrr_revision_number = next_revision_number numbers,
                 wcrr_rules = (case cwr_rules input of None \<Rightarrow> [] | Some rs \<Rightarrow> rs),
                 wcrr_default_action =
                   (case cwr_defaultAction input of None \<Rightarrow> DefAllow | Some d \<Rightarrow> d),
                 wcrr_commit_message = cwr_commitMessage input,
                 wcrr_created_by = cwr_createdBy input, wcrr_created_at = t,
                 wcrr_activated_at = None\<rparr>)))))))"

text \<open>\<^verbatim>\<open>COALESCE(activated_at, ?)\<close>.\<close>

definition coalesce :: "'a option \<Rightarrow> 'a \<Rightarrow> 'a option" where
  "coalesce x y = (case x of None \<Rightarrow> Some y | Some v \<Rightarrow> Some v)"

definition stamp_wallet_revision ::
  "string \<Rightarrow> string \<Rightarrow> timestamp \<Rightarrow> bool policy_io" where
  "stamp_wallet_revision revisionId profileId t = (\<lambda>db.
     let hit = (\<lambda>r. wcrr_id r = revisionId \<and> wcrr_profile_id r = profileId);
         rows = table_update hit
           (\<lambda>r. r\<lparr>wcrr_activated_at := coalesce (wcrr_activated_at r) t\<rparr>)
           (t_wallet_control_profile_revisions db)
     in (Inr (list_ex hit rows), db\<lparr>t_wallet_control_profile_revisions := rows\<rparr>))"

definition activateWalletControlProfileRevision ::
  "TenantScope \<Rightarrow> string \<Rightarrow> string \<Rightarrow> timestamp option \<Rightarrow> ActiveWalletControlProfileResult option policy_io"
where
  "activateWalletControlProfileRevision scope profileId revisionId activatedAtInput =
     or_null (tenantOwnsRow scope T_wallet_control_profiles profileId)
     (or_null (tenantOwnsPolicyRevision owns_wallet_revision scope revisionId)
       (io_bind now (\<lambda>t. let activatedAt = (case activatedAtInput of None \<Rightarrow> t | Some a \<Rightarrow> a) in
        io_bind (transaction
          (io_bind (sql (stamp_wallet_revision revisionId profileId activatedAt)) (\<lambda>found.
           if \<not> found then io_return None
           else sql (io_bind (write_wallet_profiles (table_update (\<lambda>r. wcpr_id r = profileId)
                  (\<lambda>r. r\<lparr>wcpr_status := ProfileActive, wcpr_active_revision_id := Some revisionId,
                         wcpr_activated_at := coalesce (wcpr_activated_at r) activatedAt,
                         wcpr_updated_at := activatedAt\<rparr>))) (\<lambda>_.
                io_get (\<lambda>db. wallet_profile_by_id db profileId)))))) (\<lambda>profile.
        case profile of
          None \<Rightarrow> io_return None
        | Some p \<Rightarrow> io_bind (getWalletControlProfileRevisionById revisionId) (\<lambda>revision.
            io_return (Some \<lparr>awp_profile = p, awp_revision = revision\<rparr>))))))"

text \<open>\<^verbatim>\<open>ORDER BY CASE ... END, activated_at DESC NULLS LAST, created_at DESC\<close>, as an ascending key.\<close>

definition newest_first :: "timestamp option \<Rightarrow> nat \<times> int" where
  "newest_first t = (case t of None \<Rightarrow> (1, 0) | Some x \<Rightarrow> (0, - x))"

definition active_profile_order ::
  "TenantScope \<Rightarrow> string option \<Rightarrow> timestamp option \<Rightarrow> timestamp \<Rightarrow> nat \<times> (nat \<times> int) \<times> int" where
  "active_profile_order scope projectId activatedAt createdAt =
     (if projectId = ts_projectId scope then 0 else 1, newest_first activatedAt, - createdAt)"

definition first_row :: "('r \<Rightarrow> 'k::linorder) \<Rightarrow> 'r list \<Rightarrow> 'r option" where
  "first_row key rows = (case sort_key key rows of [] \<Rightarrow> None | r # _ \<Rightarrow> Some r)"

definition active_wallet_profile :: "TenantScope \<Rightarrow> string \<Rightarrow> policy_db \<Rightarrow> WalletControlProfileRow option" where
  "active_wallet_profile scope custodyWalletId db =
     first_row (\<lambda>r. active_profile_order scope (wcpr_project_id r) (wcpr_activated_at r) (wcpr_created_at r))
       (filter (\<lambda>r. wcpr_custody_wallet_id r = custodyWalletId \<and>
                  wcpr_organization_id r = ts_organizationId scope \<and>
                  (wcpr_project_id r = ts_projectId scope \<or> wcpr_project_id r = None) \<and>
                  wcpr_status r = ProfileActive)
          (t_wallet_control_profiles db))"

text \<open>The common tail of the four lookups: the profile with its active revision, when it names one.
  \<^verbatim>\<open>active_revision_id\<close> is tested for truth, so an empty string counts as none.\<close>

definition with_wallet_revision ::
  "WalletControlProfileRow option \<Rightarrow> ActiveWalletControlProfileResult option policy_io" where
  "with_wallet_revision profile =
     (case profile of
        None \<Rightarrow> io_return None
      | Some p \<Rightarrow>
          io_bind (case wcpr_active_revision_id p of
                     None \<Rightarrow> io_return None
                   | Some i \<Rightarrow> if i = [] then io_return None else getWalletControlProfileRevisionById i)
            (\<lambda>revision. io_return (Some \<lparr>awp_profile = p, awp_revision = revision\<rparr>)))"

definition getActiveWalletControlProfileByCustodyWalletId ::
  "TenantScope \<Rightarrow> string \<Rightarrow> ActiveWalletControlProfileResult option policy_io" where
  "getActiveWalletControlProfileByCustodyWalletId scope custodyWalletId =
     or_null (tenantOwnsWallet scope custodyWalletId)
       (io_bind (sql (io_get (active_wallet_profile scope custodyWalletId))) with_wallet_revision)"

definition getActiveWalletControlProfileByProfileId ::
  "TenantScope \<Rightarrow> string \<Rightarrow> ActiveWalletControlProfileResult option policy_io" where
  "getActiveWalletControlProfileByProfileId scope profileId =
     or_null (tenantOwnsRow scope T_wallet_control_profiles profileId)
       (io_bind (sql (io_get (\<lambda>db. find (\<lambda>r. wcpr_id r = profileId \<and> wcpr_status r = ProfileActive)
          (t_wallet_control_profiles db)))) with_wallet_revision)"

section \<open>API-key control profiles\<close>

definition api_key_profile_by_id :: "policy_db \<Rightarrow> string \<Rightarrow> ApiKeyControlProfileRow option" where
  "api_key_profile_by_id db i = find (\<lambda>r. akpr_id r = i) (t_api_key_control_profiles db)"

definition getApiKeyControlProfileById_internal :: "string \<Rightarrow> ApiKeyControlProfileRow option policy_io" where
  "getApiKeyControlProfileById_internal profileId =
     sql (io_get (\<lambda>db. api_key_profile_by_id db profileId))"

definition getApiKeyControlProfileRevisionById_internal ::
  "string \<Rightarrow> ApiKeyControlProfileRevisionRow option policy_io" where
  "getApiKeyControlProfileRevisionById_internal revisionId =
     sql (io_get (\<lambda>db. find (\<lambda>r. akrr_id r = revisionId) (t_api_key_control_profile_revisions db)))"

record CreateApiKeyControlProfileInput =
  cap_organizationId :: string
  cap_projectId :: "string option"
  cap_apiKeyId :: string
  cap_name :: string
  cap_status :: "PolicyProfileStatus option"
  cap_createdBy :: "string option"

definition write_api_key_profiles ::
  "(ApiKeyControlProfileRow list \<Rightarrow> ApiKeyControlProfileRow list) \<Rightarrow> unit policy_io" where
  "write_api_key_profiles f = (\<lambda>db.
     let rows = f (t_api_key_control_profiles db) in
     if distinct (map akpr_id rows) then (Inr (), db\<lparr>t_api_key_control_profiles := rows\<rparr>)
     else (Inl UniqueViolation, db))"

definition createApiKeyControlProfile ::
  "TenantScope \<Rightarrow> CreateApiKeyControlProfileInput \<Rightarrow> ApiKeyControlProfileRow option policy_io" where
  "createApiKeyControlProfile scope input =
     io_bind (io_lift (assertTenantClaim scope (cap_organizationId input) (cap_projectId input)
       ''PolicyRepository.createApiKeyControlProfile'')) (\<lambda>_.
     or_null (tenantOwnsRow scope T_api_keys (cap_apiKeyId input))
       (io_bind randomUUID (\<lambda>uuid.
        let i = ''akcp_'' @ uuid in
        io_bind (sql (io_bind now (\<lambda>t. write_api_key_profiles (\<lambda>rows. rows @
          [\<lparr>akpr_id = i, akpr_organization_id = ts_organizationId scope,
            akpr_project_id = ts_projectId scope, akpr_api_key_id = cap_apiKeyId input,
            akpr_name = cap_name input,
            akpr_status = (case cap_status input of None \<Rightarrow> ProfileDraft | Some st \<Rightarrow> st),
            akpr_active_revision_id = None, akpr_created_by = cap_createdBy input,
            akpr_created_at = t, akpr_updated_at = t, akpr_activated_at = None,
            akpr_archived_at = None\<rparr>])))) (\<lambda>_.
        getApiKeyControlProfileById_internal i))))"

definition getApiKeyControlProfileById ::
  "TenantScope \<Rightarrow> string \<Rightarrow> ApiKeyControlProfileRow option policy_io" where
  "getApiKeyControlProfileById scope profileId =
     or_null (tenantOwnsRow scope T_api_key_control_profiles profileId)
       (getApiKeyControlProfileById_internal profileId)"

record CreateApiKeyControlProfileRevisionInput =
  cakr_profileId :: string
  cakr_rules :: "PolicyRule list option"
  cakr_defaultAction :: "PolicyDefaultAction option"
  cakr_createdBy :: "string option"

definition insert_api_key_revision ::
  "ApiKeyControlProfileRevisionRow \<Rightarrow> ApiKeyControlProfileRevisionRow option policy_io" where
  "insert_api_key_revision row = (\<lambda>db.
     let rows = t_api_key_control_profile_revisions db @ [row] in
     if distinct (map akrr_id rows) \<and>
        distinct (map (\<lambda>r. (akrr_profile_id r, akrr_revision_number r)) rows)
     then (Inr (Some row), db\<lparr>t_api_key_control_profile_revisions := rows\<rparr>)
     else (Inl UniqueViolation, db))"

definition createApiKeyControlProfileRevision ::
  "TenantScope \<Rightarrow> CreateApiKeyControlProfileRevisionInput \<Rightarrow>
     ApiKeyControlProfileRevisionRow option policy_io" where
  "createApiKeyControlProfileRevision scope input =
     or_null (tenantOwnsRow scope T_api_key_control_profiles (cakr_profileId input))
       (io_bind randomUUID (\<lambda>uuid. transaction
         (io_bind (getApiKeyControlProfileById_internal (cakr_profileId input)) (\<lambda>profile.
          case profile of
            None \<Rightarrow> io_return None
          | Some _ \<Rightarrow> sql (io_bind now (\<lambda>t. io_bind (io_get (\<lambda>db. map akrr_revision_number
                (filter (\<lambda>r. akrr_profile_id r = cakr_profileId input)
                   (t_api_key_control_profile_revisions db)))) (\<lambda>numbers.
              insert_api_key_revision
                \<lparr>akrr_id = ''akcpr_'' @ uuid, akrr_profile_id = cakr_profileId input,
                 akrr_revision_number = next_revision_number numbers,
                 akrr_rules = (case cakr_rules input of None \<Rightarrow> [] | Some rs \<Rightarrow> rs),
                 akrr_default_action =
                   (case cakr_defaultAction input of None \<Rightarrow> DefAllow | Some d \<Rightarrow> d),
                 akrr_created_by = cakr_createdBy input, akrr_created_at = t,
                 akrr_activated_at = None\<rparr>)))))))"

definition getApiKeyControlProfileRevisionById ::
  "TenantScope \<Rightarrow> string \<Rightarrow> ApiKeyControlProfileRevisionRow option policy_io" where
  "getApiKeyControlProfileRevisionById scope revisionId =
     or_null (tenantOwnsPolicyRevision owns_api_key_revision scope revisionId)
       (getApiKeyControlProfileRevisionById_internal revisionId)"

definition stamp_api_key_revision :: "string \<Rightarrow> string \<Rightarrow> timestamp \<Rightarrow> bool policy_io" where
  "stamp_api_key_revision revisionId profileId t = (\<lambda>db.
     let hit = (\<lambda>r. akrr_id r = revisionId \<and> akrr_profile_id r = profileId);
         rows = table_update hit
           (\<lambda>r. r\<lparr>akrr_activated_at := coalesce (akrr_activated_at r) t\<rparr>)
           (t_api_key_control_profile_revisions db)
     in (Inr (list_ex hit rows), db\<lparr>t_api_key_control_profile_revisions := rows\<rparr>))"

definition activateApiKeyControlProfileRevision ::
  "TenantScope \<Rightarrow> string \<Rightarrow> string \<Rightarrow> timestamp option \<Rightarrow> ActiveApiKeyControlProfileResult option policy_io"
where
  "activateApiKeyControlProfileRevision scope profileId revisionId activatedAtInput =
     or_null (tenantOwnsRow scope T_api_key_control_profiles profileId)
     (or_null (tenantOwnsPolicyRevision owns_api_key_revision scope revisionId)
       (io_bind now (\<lambda>t. let activatedAt = (case activatedAtInput of None \<Rightarrow> t | Some a \<Rightarrow> a) in
        io_bind (transaction
          (io_bind (sql (stamp_api_key_revision revisionId profileId activatedAt)) (\<lambda>found.
           if \<not> found then io_return None
           else sql (io_bind (write_api_key_profiles (table_update (\<lambda>r. akpr_id r = profileId)
                  (\<lambda>r. r\<lparr>akpr_status := ProfileActive, akpr_active_revision_id := Some revisionId,
                         akpr_activated_at := coalesce (akpr_activated_at r) activatedAt,
                         akpr_updated_at := activatedAt\<rparr>))) (\<lambda>_.
                io_get (\<lambda>db. api_key_profile_by_id db profileId)))))) (\<lambda>profile.
        case profile of
          None \<Rightarrow> io_return None
        | Some p \<Rightarrow> io_bind (getApiKeyControlProfileRevisionById_internal revisionId) (\<lambda>revision.
            io_return (Some \<lparr>aap_profile = p, aap_revision = revision\<rparr>))))))"

definition with_api_key_revision ::
  "ApiKeyControlProfileRow option \<Rightarrow> ActiveApiKeyControlProfileResult option policy_io" where
  "with_api_key_revision profile =
     (case profile of
        None \<Rightarrow> io_return None
      | Some p \<Rightarrow>
          io_bind (case akpr_active_revision_id p of
                     None \<Rightarrow> io_return None
                   | Some i \<Rightarrow> if i = [] then io_return None
                              else getApiKeyControlProfileRevisionById_internal i)
            (\<lambda>revision. io_return (Some \<lparr>aap_profile = p, aap_revision = revision\<rparr>)))"

definition getActiveApiKeyControlProfileByApiKeyId ::
  "TenantScope \<Rightarrow> string \<Rightarrow> ActiveApiKeyControlProfileResult option policy_io" where
  "getActiveApiKeyControlProfileByApiKeyId scope apiKeyId =
     or_null (tenantOwnsRow scope T_api_keys apiKeyId)
       (io_bind (sql (io_get (\<lambda>db.
          first_row (\<lambda>r. active_profile_order scope (akpr_project_id r) (akpr_activated_at r) (akpr_created_at r))
            (filter (\<lambda>r. akpr_api_key_id r = apiKeyId \<and>
                akpr_organization_id r = ts_organizationId scope \<and>
                (akpr_project_id r = ts_projectId scope \<or> akpr_project_id r = None) \<and>
                akpr_status r = ProfileActive) (t_api_key_control_profiles db)))))
        with_api_key_revision)"

definition getActiveApiKeyControlProfileByProfileId ::
  "TenantScope \<Rightarrow> string \<Rightarrow> ActiveApiKeyControlProfileResult option policy_io" where
  "getActiveApiKeyControlProfileByProfileId scope profileId =
     or_null (tenantOwnsRow scope T_api_key_control_profiles profileId)
       (io_bind (sql (io_get (\<lambda>db. find (\<lambda>r. akpr_id r = profileId \<and> akpr_status r = ProfileActive)
          (t_api_key_control_profiles db)))) with_api_key_revision)"

definition getApiKeyPolicySubject :: "TenantScope \<Rightarrow> string \<Rightarrow> ApiKeyPolicySubjectRow option policy_io" where
  "getApiKeyPolicySubject scope apiKeyId =
     or_null (tenantOwnsRow scope T_api_keys apiKeyId)
       (sql (io_get (\<lambda>db. map_option
          (\<lambda>r. \<lparr>aks_api_key_id = ak_id r, aks_organization_id = ak_organization_id r,
                aks_project_id = ak_project_id r\<rparr>)
          (find (\<lambda>r. ak_id r = apiKeyId \<and> ak_status r = ''active'') (t_api_keys db)))))"

section \<open>Bindings of API keys to wallets\<close>

record UpsertApiKeyWalletPolicyBindingInput =
  ub_apiKeyId :: string
  ub_bindingScope :: ApiKeyWalletPolicyBindingScope
  ub_walletId :: "string option"
  ub_custodyWalletId :: "string option"
  ub_walletControlProfileId :: "string option"
  ub_apiKeyControlProfileId :: "string option"

text \<open>The truth value of an optional string: absent, \<^verbatim>\<open>null\<close> and empty strings are false.\<close>

definition truthy :: "string option \<Rightarrow> bool" where
  "truthy v \<longleftrightarrow> v \<noteq> None \<and> v \<noteq> Some []"

definition validateApiKeyWalletPolicyBindingInput ::
  "UpsertApiKeyWalletPolicyBindingInput \<Rightarrow> (api_error, unit) result" where
  "validateApiKeyWalletPolicyBindingInput input =
     (if ub_bindingScope input = BindSelected \<and> \<not> truthy (ub_walletId input)
      then Inl (badRequest ''walletId is required for selected API key wallet policy bindings'')
      else if ub_bindingScope input = BindSelected \<and> \<not> truthy (ub_custodyWalletId input)
      then Inl (badRequest ''custodyWalletId is required for selected API key wallet policy bindings'')
      else if ub_bindingScope input = BindAll \<and>
        (truthy (ub_walletId input) \<or> truthy (ub_custodyWalletId input))
      then Inl (badRequest ''walletId and custodyWalletId must be omitted for all-wallet policy bindings'')
      else Inr ())"

text \<open>\<^verbatim>\<open>ON CONFLICT\<close> against the partial unique index the binding's scope selects.\<close>

definition binding_conflict ::
  "UpsertApiKeyWalletPolicyBindingInput \<Rightarrow> ApiKeyWalletPolicyBindingRow \<Rightarrow> bool" where
  "binding_conflict input r \<longleftrightarrow> bnd_api_key_id r = ub_apiKeyId input \<and>
     bnd_binding_scope r = ub_bindingScope input \<and>
     (ub_bindingScope input = BindAll \<or>
      bnd_custody_wallet_id r \<noteq> None \<and> bnd_custody_wallet_id r = ub_custodyWalletId input)"

definition upsertApiKeyWalletPolicyBindingInternal ::
  "UpsertApiKeyWalletPolicyBindingInput \<Rightarrow> ApiKeyWalletPolicyBindingRow option policy_io" where
  "upsertApiKeyWalletPolicyBindingInternal input =
     io_bind randomUUID (\<lambda>uuid. sql (\<lambda>db.
       let rows = t_api_key_wallet_policy_bindings db;
           t = sess_clock db;
           selected = ub_bindingScope input = BindSelected;
           fresh = \<lparr>bnd_id = ''akwpol_'' @ uuid, bnd_api_key_id = ub_apiKeyId input,
             bnd_binding_scope = ub_bindingScope input,
             bnd_wallet_id = (if selected then ub_walletId input else None),
             bnd_custody_wallet_id = (if selected then ub_custodyWalletId input else None),
             bnd_wallet_control_profile_id = ub_walletControlProfileId input,
             bnd_api_key_control_profile_id = ub_apiKeyControlProfileId input,
             bnd_created_at = t, bnd_updated_at = t\<rparr>;
           merge = (\<lambda>r. r\<lparr>bnd_custody_wallet_id := bnd_custody_wallet_id fresh,
             bnd_wallet_control_profile_id := bnd_wallet_control_profile_id fresh,
             bnd_api_key_control_profile_id := bnd_api_key_control_profile_id fresh,
             bnd_updated_at := t\<rparr>)
       in case find (binding_conflict input) rows of
            Some old \<Rightarrow> (Inr (Some (merge old)),
              db\<lparr>t_api_key_wallet_policy_bindings := table_update (binding_conflict input) merge rows\<rparr>)
          | None \<Rightarrow>
              if bnd_id fresh \<in> bnd_id ` set rows then (Inl UniqueViolation, db)
              else (Inr (Some fresh), db\<lparr>t_api_key_wallet_policy_bindings := rows @ [fresh]\<rparr>)))"

text \<open>The ownership checks of a binding's references, in the order the code makes them.\<close>

definition binding_owned ::
  "TenantScope \<Rightarrow> UpsertApiKeyWalletPolicyBindingInput \<Rightarrow> bool policy_io" where
  "binding_owned scope input =
     io_bind (check_optional (ub_walletControlProfileId input)
       (tenantOwnsRow scope T_wallet_control_profiles)) (\<lambda>okWallet.
     if \<not> okWallet then io_return False else
     io_bind (check_optional (ub_apiKeyControlProfileId input)
       (tenantOwnsRow scope T_api_key_control_profiles)) (\<lambda>okKey.
     if \<not> okKey then io_return False else
     if ub_bindingScope input = BindSelected
     then tenantOwnsWalletTarget scope (the (ub_walletId input)) (ub_custodyWalletId input)
     else io_return True))"

definition upsertApiKeyWalletPolicyBinding ::
  "TenantScope \<Rightarrow> UpsertApiKeyWalletPolicyBindingInput \<Rightarrow> ApiKeyWalletPolicyBindingRow option policy_io"
where
  "upsertApiKeyWalletPolicyBinding scope input =
     io_bind (io_lift (validateApiKeyWalletPolicyBindingInput input)) (\<lambda>_.
     or_null (tenantOwnsRow scope T_api_keys (ub_apiKeyId input))
     (or_null (binding_owned scope input)
       (upsertApiKeyWalletPolicyBindingInternal input)))"

fun all_owned :: "TenantScope \<Rightarrow> UpsertApiKeyWalletPolicyBindingInput list \<Rightarrow> bool policy_io" where
  "all_owned scope [] = io_return True"
| "all_owned scope (b # bs) =
     io_bind (binding_owned scope b) (\<lambda>ok. if ok then all_owned scope bs else io_return False)"

fun upsert_all ::
  "UpsertApiKeyWalletPolicyBindingInput list \<Rightarrow> ApiKeyWalletPolicyBindingRow list policy_io" where
  "upsert_all [] = io_return []"
| "upsert_all (b # bs) =
     io_bind (upsertApiKeyWalletPolicyBindingInternal b) (\<lambda>row.
     case row of
       None \<Rightarrow> io_throw (PlainError ''Failed to upsert API key wallet policy binding'')
     | Some r \<Rightarrow> io_bind (upsert_all bs) (\<lambda>rs. io_return (r # rs)))"

definition replaceApiKeyWalletPolicyBindings ::
  "TenantScope \<Rightarrow> string \<Rightarrow> UpsertApiKeyWalletPolicyBindingInput list \<Rightarrow>
     ApiKeyWalletPolicyBindingRow list policy_io" where
  "replaceApiKeyWalletPolicyBindings scope apiKeyId bindings =
     (if list_ex (\<lambda>b. ub_apiKeyId b \<noteq> apiKeyId) bindings
      then io_throw (badRequest ''Policy bindings must target the requested API key'')
      else
        io_bind (io_lift (result_mapM validateApiKeyWalletPolicyBindingInput bindings)) (\<lambda>_.
        io_bind (tenantOwnsRow scope T_api_keys apiKeyId) (\<lambda>ownsKey.
        if \<not> ownsKey then io_return [] else
        io_bind (all_owned scope bindings) (\<lambda>owned.
        if \<not> owned then io_return [] else
        transaction
          (io_bind (sql (io_modify (\<lambda>db. db\<lparr>t_api_key_wallet_policy_bindings :=
              filter (\<lambda>r. bnd_api_key_id r \<noteq> apiKeyId) (t_api_key_wallet_policy_bindings db)\<rparr>))) (\<lambda>_.
           upsert_all bindings))))))"

definition listApiKeyWalletPolicyBindings ::
  "TenantScope \<Rightarrow> string \<Rightarrow> ApiKeyWalletPolicyBindingRow list policy_io" where
  "listApiKeyWalletPolicyBindings scope apiKeyId =
     io_bind (tenantOwnsRow scope T_api_keys apiKeyId) (\<lambda>ok.
     if \<not> ok then io_return []
     else sql (io_get (\<lambda>db. sort_key bnd_created_at
       (filter (\<lambda>r. bnd_api_key_id r = apiKeyId) (t_api_key_wallet_policy_bindings db)))))"

definition applicable_binding ::
  "string \<Rightarrow> string \<Rightarrow> policy_db \<Rightarrow> ApiKeyWalletPolicyBindingRow option" where
  "applicable_binding apiKeyId custodyWalletId db =
     first_row (\<lambda>r. (if bnd_binding_scope r = BindSelected then 0 else 1 :: nat,
                    - bnd_updated_at r, - bnd_created_at r))
       (filter (\<lambda>r. bnd_api_key_id r = apiKeyId \<and>
           (bnd_binding_scope r = BindAll \<or>
            bnd_binding_scope r = BindSelected \<and> bnd_custody_wallet_id r = Some custodyWalletId))
          (t_api_key_wallet_policy_bindings db))"

definition getApiKeyWalletPolicyBindingResolution ::
  "TenantScope \<Rightarrow> string \<Rightarrow> string \<Rightarrow> ApiKeyWalletPolicyBindingResolutionRow policy_io" where
  "getApiKeyWalletPolicyBindingResolution scope apiKeyId custodyWalletId =
     io_bind (tenantOwnsRow scope T_api_keys apiKeyId) (\<lambda>ownsKey.
     io_bind (if ownsKey then tenantOwnsWallet scope custodyWalletId else io_return False) (\<lambda>owns.
     if \<not> owns then io_return \<lparr>abr_total_binding_count = 0, abr_binding = None\<rparr>
     else sql (io_get (\<lambda>db.
       \<lparr>abr_total_binding_count =
          length (filter (\<lambda>r. bnd_api_key_id r = apiKeyId) (t_api_key_wallet_policy_bindings db)),
        abr_binding = applicable_binding apiKeyId custodyWalletId db\<rparr>))))"

text \<open>The common table expressions of \<^verbatim>\<open>getApiKeyWalletPolicyTarget\<close>: the wallets the key's organization
  and project reach, first through configurations, then through connections.\<close>

definition wallet_candidates :: "policy_db \<Rightarrow> ApiKeyRow \<Rightarrow> (CustodyWalletRow \<times> string option) list" where
  "wallet_candidates db ak =
     concat (map (\<lambda>c. map (\<lambda>w. (w, cs_project_id c))
         (filter (\<lambda>w. cw_custody_config_id w = Some (cs_id c) \<and> cw_status w = ''active'')
            (t_custody_wallets db)))
       (filter (\<lambda>c. cs_organization_id c = ak_organization_id ak \<and>
            (cs_project_id c = ak_project_id ak \<or> cs_project_id c = None) \<and> cs_status c = ''active'')
          (t_custody_configs db))) @
     concat (map (\<lambda>c. map (\<lambda>w. (w, cs_project_id c))
         (filter (\<lambda>w. cw_custody_connection_id w = Some (cs_id c) \<and> cw_status w = ''active'')
            (t_custody_wallets db)))
       (filter (\<lambda>c. cs_organization_id c = ak_organization_id ak \<and>
            cs_project_id c = ak_project_id ak \<and> cs_status c = ''active'')
          (t_custody_connections db)))"

definition policy_target ::
  "policy_db \<Rightarrow> ApiKeyRow \<Rightarrow> CustodyWalletRow \<times> string option \<Rightarrow> ApiKeyWalletPolicyTargetRow" where
  "policy_target db ak candidate =
     (let (w, walletProject) = candidate;
          permissions = filter (\<lambda>p. akw_api_key_id p = ak_id ak) (t_api_key_wallet_permissions db);
          permissionCount = length permissions;
          matchCount = length (filter (\<lambda>(w', _). cw_wallet_id w' = cw_wallet_id w) (wallet_candidates db ak));
          perm = find (\<lambda>p. akw_wallet_id p = cw_wallet_id w) permissions
      in \<lparr>aks_api_key_id = ak_id ak, aks_organization_id = ak_organization_id ak,
          aks_project_id = ak_project_id ak, akt_wallet_id = cw_wallet_id w,
          akt_custody_wallet_id = cw_id w, akt_wallet_project_id = walletProject,
          akt_endpoint_binding_count =
            (if permissionCount = 0 \<and> ak_signing_wallet_id ak \<noteq> None then 1 else permissionCount),
          akt_endpoint_wallet_binding_id =
            (if matchCount = 1 then
               (case perm of
                  Some p \<Rightarrow> Some (akw_id p)
                | None \<Rightarrow> if permissionCount = 0 \<and> ak_signing_wallet_id ak = Some (cw_wallet_id w)
                          then Some ''legacy_signing_wallet'' else None)
             else None)\<rparr>)"

definition getApiKeyWalletPolicyTarget ::
  "TenantScope \<Rightarrow> string \<Rightarrow> string \<Rightarrow> ApiKeyWalletPolicyTargetRow option policy_io" where
  "getApiKeyWalletPolicyTarget scope apiKeyId custodyWalletId =
     or_null (tenantOwnsRow scope T_api_keys apiKeyId)
     (or_null (tenantOwnsWallet scope custodyWalletId)
       (sql (io_get (\<lambda>db.
          case find (\<lambda>r. ak_id r = apiKeyId \<and> ak_status r = ''active'') (t_api_keys db) of
            None \<Rightarrow> None
          | Some ak \<Rightarrow> map_option (policy_target db ak)
              (find (\<lambda>(w, _). cw_id w = custodyWalletId) (wallet_candidates db ak))))))"

section \<open>What the queries leave alone\<close>

lemma io_reads_owns [reads_intros]:
  "io_reads (tenantOwnsRow scope table i)"
  "io_reads (tenantOwnsWallet scope w)"
  "io_reads (tenantOwnsWalletTarget scope w c)"
  "io_reads (tenantOwnsPolicyRevision owns scope i)"
  by (auto simp: tenantOwnsRow_def tenantOwnsWallet_def tenantOwnsWalletTarget_def
      tenantOwnsPolicyRevision_def intro!: reads_intros)

lemma io_reads_or_null [reads_intros]: "io_reads c \<Longrightarrow> io_reads m \<Longrightarrow> io_reads (or_null c m)"
  unfolding or_null_def by (intro reads_intros)

lemma io_reads_with_revision [reads_intros]:
  "io_reads (with_wallet_revision p)" "io_reads (with_api_key_revision q)"
  unfolding with_wallet_revision_def with_api_key_revision_def getWalletControlProfileRevisionById_def
    getApiKeyControlProfileRevisionById_internal_def
  by (intro reads_intros)+

lemma io_reads_lookups [reads_intros]:
  "io_reads (getWalletControlProfileById i)"
  "io_reads (getWalletControlProfileRevisionById i)"
  "io_reads (getActiveWalletControlProfileByCustodyWalletId scope w)"
  "io_reads (getActiveWalletControlProfileByProfileId scope i)"
  "io_reads (getApiKeyControlProfileById scope i)"
  "io_reads (getApiKeyControlProfileRevisionById scope i)"
  "io_reads (getActiveApiKeyControlProfileByApiKeyId scope i)"
  "io_reads (getActiveApiKeyControlProfileByProfileId scope i)"
  "io_reads (getApiKeyPolicySubject scope i)"
  "io_reads (listApiKeyWalletPolicyBindings scope i)"
  "io_reads (getApiKeyWalletPolicyBindingResolution scope i w)"
  "io_reads (getApiKeyWalletPolicyTarget scope i w)"
  unfolding getWalletControlProfileById_def getWalletControlProfileRevisionById_def
    getActiveWalletControlProfileByCustodyWalletId_def getActiveWalletControlProfileByProfileId_def
    getApiKeyControlProfileById_def getApiKeyControlProfileById_internal_def
    getApiKeyControlProfileRevisionById_def getApiKeyControlProfileRevisionById_internal_def
    getActiveApiKeyControlProfileByApiKeyId_def getActiveApiKeyControlProfileByProfileId_def
    getApiKeyPolicySubject_def listApiKeyWalletPolicyBindings_def
    getApiKeyWalletPolicyBindingResolution_def getApiKeyWalletPolicyTarget_def
  by (intro reads_intros)+

section \<open>Revisions are numbered upwards and never rewritten\<close>

lemma next_revision_number_greater: "n \<in> set ns \<Longrightarrow> n < next_revision_number ns"
proof -
  assume n: "n \<in> set ns"
  then have "n \<le> Max (set ns)" by simp
  with n show ?thesis by (auto simp: next_revision_number_def)
qed

lemma only_session_tables:
  assumes "only_session db (db' :: policy_db)"
  shows "t_wallet_control_profile_revisions db' = t_wallet_control_profile_revisions db"
    "t_wallet_control_profiles db' = t_wallet_control_profiles db"
    "t_wallet_operations db' = t_wallet_operations db"
    "t_approval_requests db' = t_approval_requests db"
    "t_policy_evaluations db' = t_policy_evaluations db"
    "t_api_key_wallet_policy_bindings db' = t_api_key_wallet_policy_bindings db"
    "t_custody_wallets db' = t_custody_wallets db"
    "t_custody_configs db' = t_custody_configs db"
    "t_custody_connections db' = t_custody_connections db"
    "t_api_keys db' = t_api_keys db" "sess_clock db' = sess_clock db"
proof -
  have db': "db' = rollback db db'" using assms by (simp add: only_session_def)
  show "t_wallet_control_profile_revisions db' = t_wallet_control_profile_revisions db"
    "t_wallet_control_profiles db' = t_wallet_control_profiles db"
    "t_wallet_operations db' = t_wallet_operations db"
    "t_approval_requests db' = t_approval_requests db"
    "t_policy_evaluations db' = t_policy_evaluations db"
    "t_api_key_wallet_policy_bindings db' = t_api_key_wallet_policy_bindings db"
    "t_custody_wallets db' = t_custody_wallets db"
    "t_custody_configs db' = t_custody_configs db"
    "t_custody_connections db' = t_custody_connections db"
    "t_api_keys db' = t_api_keys db" "sess_clock db' = sess_clock db"
    by (subst db', simp add: rollback_def)+
qed

lemma insert_wallet_revision_wp [wp_intros]:
  assumes "Q (Inl UniqueViolation) db"
    and "Q (Inr (Some row)) (db\<lparr>t_wallet_control_profile_revisions := t_wallet_control_profile_revisions db @ [row]\<rparr>)"
  shows "wp (insert_wallet_revision row) Q db"
  using assms by (simp add: wp_def insert_wallet_revision_def Let_def)

lemma wp_or_null [wp_intros]:
  "wp c (\<lambda>r s'. case r of Inl e \<Rightarrow> Q (Inl e) s'
       | Inr ok \<Rightarrow> if ok then wp m Q s' else Q (Inr None) s') s \<Longrightarrow> wp (or_null c m) Q s"
  by (auto simp: or_null_def wp_def io_bind_def io_return_def split: prod.splits sum.splits)

lemma wp_write_wallet_profiles [wp_intros]:
  assumes "\<not> wallet_profiles_ok (f (t_wallet_control_profiles db)) \<Longrightarrow> Q (Inl UniqueViolation) db"
    and "wallet_profiles_ok (f (t_wallet_control_profiles db)) \<Longrightarrow>
      Q (Inr ()) (db\<lparr>t_wallet_control_profiles := f (t_wallet_control_profiles db)\<rparr>)"
  shows "wp (write_wallet_profiles f) Q db"
  using assms by (simp add: wp_def write_wallet_profiles_def Let_def)

lemma wp_stamp_wallet_revision [wp_intros]:
  assumes "Q (Inr (list_ex (\<lambda>r. wcrr_id r = rid \<and> wcrr_profile_id r = pid)
        (t_wallet_control_profile_revisions db)))
      (db\<lparr>t_wallet_control_profile_revisions := table_update (\<lambda>r. wcrr_id r = rid \<and> wcrr_profile_id r = pid)
        (\<lambda>r. r\<lparr>wcrr_activated_at := coalesce (wcrr_activated_at r) t\<rparr>)
        (t_wallet_control_profile_revisions db)\<rparr>)"
  shows "wp (stamp_wallet_revision rid pid t) Q db"
proof -
  have "list_ex (\<lambda>r. wcrr_id r = rid \<and> wcrr_profile_id r = pid)
      (table_update (\<lambda>r. wcrr_id r = rid \<and> wcrr_profile_id r = pid)
        (\<lambda>r. r\<lparr>wcrr_activated_at := coalesce (wcrr_activated_at r) t\<rparr>) rows) =
      list_ex (\<lambda>r. wcrr_id r = rid \<and> wcrr_profile_id r = pid) rows" for rows
    by (induction rows) (auto simp: table_update_def)
  note eq = this
  show ?thesis using assms by (simp add: wp_def stamp_wallet_revision_def Let_def eq)
qed

text \<open>What a successful activation leaves in the tables.\<close>

definition activated :: "TenantScope \<Rightarrow> string \<Rightarrow> string \<Rightarrow> ActiveWalletControlProfileResult \<Rightarrow> policy_db \<Rightarrow> bool" where
  "activated scope profileId revisionId a db \<longleftrightarrow>
     wallet_profiles_ok (t_wallet_control_profiles db) \<and>
     awp_profile a \<in> set (t_wallet_control_profiles db) \<and> wcpr_id (awp_profile a) = profileId \<and>
     wcpr_status (awp_profile a) = ProfileActive \<and>
     wcpr_active_revision_id (awp_profile a) = Some revisionId \<and>
     wcpr_organization_id (awp_profile a) = ts_organizationId scope \<and>
     wcpr_project_id (awp_profile a) = ts_projectId scope \<and>
     awp_revision a = wallet_revision_by_id db revisionId \<and> awp_revision a \<noteq> None"

lemma owns_row_session [simp]:
  "owns_row scope table i (db\<lparr>sess_faults := fs\<rparr>) = owns_row scope table i db"
  by (cases table) (simp_all add: owns_row_def)

lemma owns_wallet_session [simp]:
  "owns_wallet scope w (db\<lparr>sess_faults := fs\<rparr>) = owns_wallet scope w db"
  "owns_wallet_target scope v c (db\<lparr>sess_faults := fs\<rparr>) = owns_wallet_target scope v c db"
  "applicable_binding k w (db\<lparr>sess_faults := fs\<rparr>) = applicable_binding k w db"
  by (simp_all add: owns_wallet_def owns_wallet_target_def wallet_in_scope_def
      custody_config_serves_def custody_connection_serves_def applicable_binding_def)

lemma owned_profile_unique:
  assumes "distinct (map wcpr_id (t_wallet_control_profiles db))"
    and "owns_row scope T_wallet_control_profiles pid db"
    and "find (\<lambda>r. wcpr_id r = pid) (t_wallet_control_profiles db) = Some p"
  shows "wcpr_organization_id p = ts_organizationId scope \<and> wcpr_project_id p = ts_projectId scope"
proof -
  obtain q where q: "q \<in> set (t_wallet_control_profiles db)" "wcpr_id q = pid"
      "wcpr_organization_id q = ts_organizationId scope" "wcpr_project_id q = ts_projectId scope"
    using assms(2) by (auto simp: owns_row_def)
  with find_key_unique[OF assms(1) q(1,2)] assms(3) show ?thesis by simp
qed

lemma activatedI:
  assumes p: "find (\<lambda>r. wcpr_id r = pid) (table_update (\<lambda>r. wcpr_id r = pid) u (t_wallet_control_profiles db0)) = Some p"
    and own: "owns_row scope T_wallet_control_profiles pid db0"
    and ok: "wallet_profiles_ok (t_wallet_control_profiles db)"
    and rows: "t_wallet_control_profiles db = table_update (\<lambda>r. wcpr_id r = pid) u (t_wallet_control_profiles db0)"
    and u: "\<And>r. wcpr_id (u r) = wcpr_id r \<and> wcpr_status (u r) = ProfileActive \<and>
      wcpr_active_revision_id (u r) = Some rid \<and> wcpr_organization_id (u r) = wcpr_organization_id r \<and>
      wcpr_project_id (u r) = wcpr_project_id r"
    and rv: "rv = wallet_revision_by_id db rid" "rid \<in> wcrr_id ` set (t_wallet_control_profile_revisions db)"
  shows "activated scope pid rid \<lparr>awp_profile = p, awp_revision = rv\<rparr> db"
proof -
  have "map_option (\<lambda>r. if wcpr_id r = pid then u r else r)
      (find (\<lambda>r. wcpr_id r = pid) (t_wallet_control_profiles db0)) = Some p"
    using p find_table_update[of "\<lambda>r. wcpr_id r = pid" wcpr_id u pid] u by simp
  then obtain r where "find (\<lambda>r. wcpr_id r = pid) (t_wallet_control_profiles db0) = Some r"
      "p = (if wcpr_id r = pid then u r else r)" by auto
  then have r: "find (\<lambda>r. wcpr_id r = pid) (t_wallet_control_profiles db0) = Some r" "p = u r"
    using find_Some_in by fastforce+
  have "distinct (map wcpr_id (t_wallet_control_profiles db0))"
    using ok table_update_key[of "\<lambda>r. wcpr_id r = pid" wcpr_id u] u
    by (simp add: wallet_profiles_ok_def rows)
  from owned_profile_unique[OF this own r(1)] u r(2)
  have "wcpr_organization_id p = ts_organizationId scope \<and> wcpr_project_id p = ts_projectId scope"
    by simp
  moreover have "rv \<noteq> None"
    using rv by (auto simp: wallet_revision_by_id_def find_None_iff)
  ultimately show ?thesis using find_Some_in[OF p] ok rows r(2) u rv(1) by (simp add: activated_def)
qed

lemma activateWalletControlProfileRevision_wp:
  "wp (activateWalletControlProfileRevision scope profileId revisionId stamp)
     (\<lambda>r db'. \<forall>a. r = Inr (Some a) \<longrightarrow> activated scope profileId revisionId a db') db"
  unfolding activateWalletControlProfileRevision_def tenantOwnsRow_def tenantOwnsPolicyRevision_def
    getWalletControlProfileRevisionById_def Let_def
  by (intro wp_intros)
     (auto simp: wallet_profile_by_id_def list_ex_iff table_update_keys
       intro!: wp_intros elim!: activatedI)

lemma createWalletControlProfileRevision_wp:
  "wp (createWalletControlProfileRevision scope input) (\<lambda>r db'.
     t_wallet_control_profile_revisions db' = t_wallet_control_profile_revisions db \<or>
    (\<exists>row. r = Inr (Some row) \<and> wcrr_profile_id row = cwr_profileId input \<and>
       t_wallet_control_profile_revisions db' = t_wallet_control_profile_revisions db @ [row] \<and>
       (\<forall>old\<in>set (t_wallet_control_profile_revisions db). wcrr_profile_id old = cwr_profileId input \<longrightarrow>
          wcrr_revision_number old < wcrr_revision_number row))) db"
  unfolding createWalletControlProfileRevision_def tenantOwnsRow_def getWalletControlProfileById_def
  by (intro wp_intros)
     (auto simp: rollback_def intro!: wp_intros next_revision_number_greater)

text \<open>Wallet policy revisions are an append-only history: creating a revision, whatever its outcome,
  changes no existing revision, and a created one carries a number above every other of its
  profile.\<close>

theorem wallet_revisions_append_only:
  assumes "createWalletControlProfileRevision scope input db = (r, db')"
  shows "t_wallet_control_profile_revisions db' = t_wallet_control_profile_revisions db \<or>
    (\<exists>row. r = Inr (Some row) \<and> wcrr_profile_id row = cwr_profileId input \<and>
       t_wallet_control_profile_revisions db' = t_wallet_control_profile_revisions db @ [row] \<and>
       (\<forall>old\<in>set (t_wallet_control_profile_revisions db). wcrr_profile_id old = cwr_profileId input \<longrightarrow>
          wcrr_revision_number old < wcrr_revision_number row))"
  using wpD[OF createWalletControlProfileRevision_wp assms] .

section \<open>A small database\<close>

text \<open>One project with a custody configuration and its wallet, an API key, a draft wallet profile and an
  API-key binding to the wallet: the state the witnesses start from.\<close>

definition example_scope :: TenantScope where
  "example_scope = \<lparr>ts_organizationId = ''org'', ts_projectId = Some ''prj''\<rparr>"

definition empty_db :: policy_db where
  "empty_db = \<lparr>sess_faults = [], sess_clock = 7, sess_uuid = (\<lambda>n. replicate n (CHR ''a'')),
     sess_uuid_next = 0, t_wallet_control_profiles = [], t_wallet_control_profile_revisions = [],
     t_api_key_control_profiles = [], t_api_key_control_profile_revisions = [],
     t_api_key_wallet_policy_bindings = [], t_wallet_operations = [], t_policy_evaluations = [],
     t_approval_requests = [], t_api_keys = [], t_api_key_wallet_permissions = [],
     t_custody_configs = [], t_custody_connections = [], t_custody_wallets = []\<rparr>"

definition example_profile :: WalletControlProfileRow where
  "example_profile = \<lparr>wcpr_id = ''p1'', wcpr_organization_id = ''org'', wcpr_project_id = Some ''prj'',
     wcpr_custody_wallet_id = ''cw1'', wcpr_name = ''main'', wcpr_status = ProfileDraft,
     wcpr_active_revision_id = None, wcpr_created_by = None, wcpr_created_at = 1,
     wcpr_updated_at = 1, wcpr_activated_at = None, wcpr_archived_at = None\<rparr>"

definition example_revision :: WalletControlProfileRevisionRow where
  "example_revision = \<lparr>wcrr_id = ''r1'', wcrr_profile_id = ''p1'', wcrr_revision_number = 1,
     wcrr_rules = [RuleDestination example_allowlist], wcrr_default_action = DefAllow,
     wcrr_commit_message = None, wcrr_created_by = None, wcrr_created_at = 2,
     wcrr_activated_at = None\<rparr>"

definition example_wallet :: "string \<Rightarrow> CustodyWalletRow" where
  "example_wallet st = \<lparr>cw_id = ''cw1'', cw_wallet_id = ''w1'', cw_custody_config_id = Some ''cfg'',
     cw_custody_connection_id = None, cw_status = st\<rparr>"

definition example_binding :: ApiKeyWalletPolicyBindingRow where
  "example_binding = \<lparr>bnd_id = ''b1'', bnd_api_key_id = ''key'', bnd_binding_scope = BindSelected,
     bnd_wallet_id = Some ''w1'', bnd_custody_wallet_id = Some ''cw1'',
     bnd_wallet_control_profile_id = Some ''p1'', bnd_api_key_control_profile_id = None,
     bnd_created_at = 3, bnd_updated_at = 3\<rparr>"

definition example_db :: "string \<Rightarrow> policy_db" where
  "example_db walletStatus = empty_db
     \<lparr>t_wallet_control_profiles := [example_profile],
      t_wallet_control_profile_revisions := [example_revision],
      t_api_key_wallet_policy_bindings := [example_binding],
      t_api_keys := [\<lparr>ak_id = ''key'', ak_organization_id = ''org'', ak_project_id = Some ''prj'',
        ak_status = ''active'', ak_signing_wallet_id = None, ak_created_by = None\<rparr>],
      t_custody_configs := [\<lparr>cs_id = ''cfg'', cs_organization_id = ''org'', cs_project_id = Some ''prj'',
        cs_status = ''active''\<rparr>],
      t_custody_wallets := [example_wallet walletStatus]\<rparr>"

lemmas example_db_defs = example_db_def empty_db_def example_scope_def example_profile_def
  example_revision_def example_wallet_def example_binding_def

theorem wallet_revisions_append_only_witness:
  "\<exists>r db'. createWalletControlProfileRevision example_scope \<lparr>cwr_profileId = ''p1'', cwr_rules = None,
       cwr_defaultAction = None, cwr_commitMessage = None, cwr_createdBy = None\<rparr> (example_db ''active'') =
       (r, db') \<and>
     (t_wallet_control_profile_revisions db' = [example_revision] \<or>
      (\<exists>row. t_wallet_control_profile_revisions db' = [example_revision, row] \<and>
         1 < wcrr_revision_number row))"
  (is "\<exists>r db'. ?run = _ \<and> _")
proof -
  obtain r db' where run: "?run = (r, db')" by (cases ?run)
  have "t_wallet_control_profile_revisions (example_db ''active'') = [example_revision]"
    by (simp add: example_db_def)
  with wallet_revisions_append_only[OF run] run show ?thesis
    by (auto simp: example_revision_def)
qed

end
