(* ===== verification/Policy_Resolution.thy ===== *)
theory Policy_Resolution
  imports Policy_Repository
begin

text \<open>
  Policy resolution (\<^verbatim>\<open>apps/sdp-api/src/services/policy/wallet-policy.store.ts\<close> and
  \<^verbatim>\<open>api-key-policy.store.ts\<close>): from a custody wallet and an API key to the effective policies of both
  scopes, and the authoring operations of API-key profiles and wallet bindings with their checks.
\<close>

section \<open>Wallet scope\<close>

definition mapWalletControlProfile :: "WalletControlProfileRow \<Rightarrow> WalletControlProfile" where
  "mapWalletControlProfile row =
     \<lparr>wcp_id = wcpr_id row, wcp_organizationId = wcpr_organization_id row,
      wcp_projectId = wcpr_project_id row, wcp_custodyWalletId = wcpr_custody_wallet_id row,
      wcp_name = wcpr_name row, wcp_status = wcpr_status row,
      wcp_activeRevisionId = wcpr_active_revision_id row, wcp_createdBy = wcpr_created_by row,
      wcp_createdAt = wcpr_created_at row, wcp_updatedAt = wcpr_updated_at row,
      wcp_activatedAt = wcpr_activated_at row, wcp_archivedAt = wcpr_archived_at row\<rparr>"

definition mapWalletControlProfileRevision ::
  "WalletControlProfileRevisionRow \<Rightarrow> WalletControlProfileRevision" where
  "mapWalletControlProfileRevision row =
     \<lparr>wcr_id = wcrr_id row, wcr_profileId = wcrr_profile_id row,
      wcr_revisionNumber = wcrr_revision_number row, wcr_rules = wcrr_rules row,
      wcr_defaultAction = wcrr_default_action row, wcr_commitMessage = wcrr_commit_message row,
      wcr_createdBy = wcrr_created_by row, wcr_createdAt = wcrr_created_at row,
      wcr_activatedAt = wcrr_activated_at row\<rparr>"

definition wallet_customer_policy ::
  "WalletControlProfileRow \<Rightarrow> WalletControlProfileRevisionRow \<Rightarrow> EffectiveWalletPolicy" where
  "wallet_customer_policy profile revision =
     \<lparr>ep_source = customer_profile, ep_profile = Some (mapWalletControlProfile profile),
      ep_revision = Some (mapWalletControlProfileRevision revision),
      ep_defaultAction = wcrr_default_action revision\<rparr>"

definition resolveEffectiveWalletPolicy :: "TenantScope \<Rightarrow> string \<Rightarrow> EffectiveWalletPolicy policy_io" where
  "resolveEffectiveWalletPolicy scope custodyWalletId =
     io_bind (getActiveWalletControlProfileByCustodyWalletId scope custodyWalletId) (\<lambda>active.
     case active of
       None \<Rightarrow> io_return IMPLICIT_DEFAULT_ALLOW_POLICY
     | Some a \<Rightarrow> (case awp_revision a of
           None \<Rightarrow> io_return IMPLICIT_DEFAULT_ALLOW_POLICY
         | Some revision \<Rightarrow> io_return (wallet_customer_policy (awp_profile a) revision)))"

definition resolveWalletPolicyProfileForBinding ::
  "TenantScope \<Rightarrow> string \<Rightarrow> ApiKeyWalletPolicyTargetRow \<Rightarrow> EffectiveWalletPolicy policy_io" where
  "resolveWalletPolicyProfileForBinding scope profileId target =
     io_bind (getActiveWalletControlProfileByProfileId scope profileId) (\<lambda>active.
     let inactive = io_throw (forbidden
           ''Wallet policy profile is not active for the requested wallet binding'')
     in case active of
          None \<Rightarrow> inactive
        | Some a \<Rightarrow> (case awp_revision a of
              None \<Rightarrow> inactive
            | Some revision \<Rightarrow>
                let p = awp_profile a in
                if wcpr_custody_wallet_id p \<noteq> akt_custody_wallet_id target \<or>
                   wcpr_organization_id p \<noteq> aks_organization_id target \<or>
                   (wcpr_project_id p \<noteq> None \<and> wcpr_project_id p \<noteq> akt_wallet_project_id target)
                then io_throw (forbidden ''Wallet policy profile is not scoped to the requested wallet'')
                else io_return (wallet_customer_policy p revision)))"

section \<open>API-key scope\<close>

definition mapApiKeyControlProfile :: "ApiKeyControlProfileRow \<Rightarrow> ApiKeyControlProfile" where
  "mapApiKeyControlProfile row =
     \<lparr>akp_id = akpr_id row, akp_organizationId = akpr_organization_id row,
      akp_projectId = akpr_project_id row, akp_apiKeyId = akpr_api_key_id row,
      akp_name = akpr_name row, akp_status = akpr_status row,
      akp_activeRevisionId = akpr_active_revision_id row, akp_createdBy = akpr_created_by row,
      akp_createdAt = akpr_created_at row, akp_updatedAt = akpr_updated_at row,
      akp_activatedAt = akpr_activated_at row, akp_archivedAt = akpr_archived_at row\<rparr>"

definition mapApiKeyControlProfileRevision ::
  "ApiKeyControlProfileRevisionRow \<Rightarrow> ApiKeyControlProfileRevision" where
  "mapApiKeyControlProfileRevision row =
     \<lparr>akr_id = akrr_id row, akr_profileId = akrr_profile_id row,
      akr_revisionNumber = akrr_revision_number row, akr_rules = akrr_rules row,
      akr_defaultAction = akrr_default_action row, akr_createdBy = akrr_created_by row,
      akr_createdAt = akrr_created_at row, akr_activatedAt = akrr_activated_at row\<rparr>"

definition api_key_customer_policy ::
  "ApiKeyControlProfileRow \<Rightarrow> ApiKeyControlProfileRevisionRow \<Rightarrow> EffectiveApiKeyPolicy" where
  "api_key_customer_policy profile revision =
     \<lparr>ep_source = customer_profile, ep_profile = Some (mapApiKeyControlProfile profile),
      ep_revision = Some (mapApiKeyControlProfileRevision revision),
      ep_defaultAction = akrr_default_action revision\<rparr>"

definition resolveEffectiveApiKeyPolicy :: "TenantScope \<Rightarrow> string \<Rightarrow> EffectiveApiKeyPolicy policy_io" where
  "resolveEffectiveApiKeyPolicy scope apiKeyId =
     io_bind (getActiveApiKeyControlProfileByApiKeyId scope apiKeyId) (\<lambda>active.
     case active of
       None \<Rightarrow> io_return IMPLICIT_DEFAULT_ALLOW_POLICY
     | Some a \<Rightarrow> (case aap_revision a of
           None \<Rightarrow> io_return IMPLICIT_DEFAULT_ALLOW_POLICY
         | Some revision \<Rightarrow> io_return (api_key_customer_policy (aap_profile a) revision)))"

definition resolveOperationPolicyWithoutCustodyWallet ::
  "TenantScope \<Rightarrow> string \<Rightarrow> EffectiveApiKeyPolicy policy_io" where
  "resolveOperationPolicyWithoutCustodyWallet scope apiKeyId =
     io_bind (listApiKeyWalletPolicyBindings scope apiKeyId) (\<lambda>bindings.
     if bindings \<noteq> []
     then io_throw (forbidden ''API key policy binding is not configured for the requested wallet'')
     else resolveEffectiveApiKeyPolicy scope apiKeyId)"

definition assertApplicablePolicyBindingExists ::
  "ApiKeyWalletPolicyBindingResolutionRow \<Rightarrow> (api_error, unit) result" where
  "assertApplicablePolicyBindingExists resolution =
     (if abr_total_binding_count resolution > 0 \<and> abr_binding resolution = None
      then Inl (forbidden ''API key policy binding is not configured for the requested wallet'')
      else Inr ())"

definition assertApiKeyWalletPolicyTarget ::
  "TenantScope \<Rightarrow> string \<Rightarrow> string \<Rightarrow> ApiKeyWalletPolicyTargetRow policy_io" where
  "assertApiKeyWalletPolicyTarget scope apiKeyId custodyWalletId =
     io_bind (getApiKeyWalletPolicyTarget scope apiKeyId custodyWalletId) (\<lambda>found.
     case found of
       None \<Rightarrow> io_throw (forbidden ''API key is not authorized for the requested wallet'')
     | Some target \<Rightarrow>
         if aks_project_id target \<noteq> None \<and> akt_wallet_project_id target \<noteq> None \<and>
            akt_wallet_project_id target \<noteq> aks_project_id target
         then io_throw (forbidden ''Project API keys cannot use wallets from other projects'')
         else if akt_endpoint_binding_count target > 0 \<and>
                 \<not> truthy (akt_endpoint_wallet_binding_id target)
         then io_throw (forbidden ''API key is not authorized for the requested wallet'')
         else io_return target)"

definition assertPolicyBindingMatchesTarget ::
  "ApiKeyWalletPolicyBindingRow \<Rightarrow> ApiKeyWalletPolicyTargetRow \<Rightarrow> (api_error, unit) result" where
  "assertPolicyBindingMatchesTarget binding target =
     (if bnd_binding_scope binding = BindSelected \<and>
         bnd_custody_wallet_id binding \<noteq> Some (akt_custody_wallet_id target)
      then Inl (forbidden ''API key policy binding does not match the requested custody wallet'')
      else Inr ())"

text \<open>The subject is an \<^verbatim>\<open>ApiKeyPolicySubjectRow\<close> or a target, which extends it.\<close>

definition resolveApiKeyPolicyProfileForBinding ::
  "TenantScope \<Rightarrow> string \<Rightarrow> 'z ApiKeyPolicySubjectRow_scheme \<Rightarrow> string \<Rightarrow> EffectiveApiKeyPolicy policy_io"
where
  "resolveApiKeyPolicyProfileForBinding scope profileId subject apiKeyId =
     io_bind (getActiveApiKeyControlProfileByProfileId scope profileId) (\<lambda>active.
     let inactive = io_throw (forbidden
           ''API key policy profile is not active for the requested wallet binding'')
     in case active of
          None \<Rightarrow> inactive
        | Some a \<Rightarrow> (case aap_revision a of
              None \<Rightarrow> inactive
            | Some revision \<Rightarrow>
                let p = aap_profile a in
                if akpr_api_key_id p \<noteq> apiKeyId \<or>
                   akpr_organization_id p \<noteq> aks_organization_id subject \<or>
                   (akpr_project_id p \<noteq> None \<and> akpr_project_id p \<noteq> aks_project_id subject)
                then io_throw (forbidden ''API key policy profile is not scoped to the requested API key'')
                else io_return (api_key_customer_policy p revision)))"

record ResolvedApiKeyWalletPolicyScope =
  ras_target :: ApiKeyWalletPolicyTargetRow
  ras_binding :: "ApiKeyWalletPolicyBindingRow option"
  ras_walletPolicy :: "EffectiveWalletPolicy option"
  ras_apiKeyPolicy :: EffectiveApiKeyPolicy

definition io_map :: "('a \<Rightarrow> 'b) \<Rightarrow> ('s, 'e, 'a) io \<Rightarrow> ('s, 'e, 'b) io" where
  "io_map f m = io_bind m (\<lambda>a. io_return (f a))"

definition resolveApiKeyWalletPolicyScopeForTarget ::
  "TenantScope \<Rightarrow> string \<Rightarrow> ApiKeyWalletPolicyTargetRow \<Rightarrow> ApiKeyWalletPolicyBindingResolutionRow \<Rightarrow>
     ResolvedApiKeyWalletPolicyScope policy_io" where
  "resolveApiKeyWalletPolicyScopeForTarget scope apiKeyId target resolution =
     (case abr_binding resolution of
        None \<Rightarrow>
          if abr_total_binding_count resolution > 0
          then io_throw (forbidden ''API key policy binding is not configured for the requested wallet'')
          else io_map (\<lambda>policy. \<lparr>ras_target = target, ras_binding = None, ras_walletPolicy = None,
                 ras_apiKeyPolicy = policy\<rparr>) (resolveEffectiveApiKeyPolicy scope apiKeyId)
      | Some binding \<Rightarrow>
          io_bind (io_lift (assertPolicyBindingMatchesTarget binding target)) (\<lambda>_.
          io_bind (if truthy (bnd_wallet_control_profile_id binding)
                   then io_map Some (resolveWalletPolicyProfileForBinding scope
                          (the (bnd_wallet_control_profile_id binding)) target)
                   else io_return None) (\<lambda>walletPolicy.
          io_bind (if truthy (bnd_api_key_control_profile_id binding)
                   then resolveApiKeyPolicyProfileForBinding scope
                          (the (bnd_api_key_control_profile_id binding)) target apiKeyId
                   else resolveEffectiveApiKeyPolicy scope apiKeyId) (\<lambda>apiKeyPolicy.
          io_return \<lparr>ras_target = target, ras_binding = Some binding,
            ras_walletPolicy = walletPolicy, ras_apiKeyPolicy = apiKeyPolicy\<rparr>))))"

definition resolveApiKeyWalletPolicyScope ::
  "TenantScope \<Rightarrow> string \<Rightarrow> string \<Rightarrow> ResolvedApiKeyWalletPolicyScope policy_io" where
  "resolveApiKeyWalletPolicyScope scope apiKeyId custodyWalletId =
     io_bind (getApiKeyWalletPolicyBindingResolution scope apiKeyId custodyWalletId) (\<lambda>resolution.
     io_bind (io_lift (assertApplicablePolicyBindingExists resolution)) (\<lambda>_.
     io_bind (assertApiKeyWalletPolicyTarget scope apiKeyId custodyWalletId) (\<lambda>target.
     resolveApiKeyWalletPolicyScopeForTarget scope apiKeyId target resolution)))"

record ApiKeyOperationScope =
  aos_apiKeyPolicy :: EffectiveApiKeyPolicy
  aos_walletPolicy :: "EffectiveWalletPolicy option"
  aos_custodyWalletId :: "string option"

definition resolveOperationScope :: "TenantScope \<Rightarrow> string \<Rightarrow> string \<Rightarrow> ApiKeyOperationScope policy_io" where
  "resolveOperationScope scope apiKeyId custodyWalletId =
     io_bind (getApiKeyWalletPolicyBindingResolution scope apiKeyId custodyWalletId) (\<lambda>resolution.
     if abr_total_binding_count resolution = 0
     then io_map (\<lambda>policy. \<lparr>aos_apiKeyPolicy = policy, aos_walletPolicy = None,
            aos_custodyWalletId = None\<rparr>) (resolveEffectiveApiKeyPolicy scope apiKeyId)
     else
       io_bind (io_lift (assertApplicablePolicyBindingExists resolution)) (\<lambda>_.
       io_bind (assertApiKeyWalletPolicyTarget scope apiKeyId custodyWalletId) (\<lambda>target.
       io_map (\<lambda>r. \<lparr>aos_apiKeyPolicy = ras_apiKeyPolicy r, aos_walletPolicy = ras_walletPolicy r,
            aos_custodyWalletId = Some (akt_custody_wallet_id (ras_target r))\<rparr>)
         (resolveApiKeyWalletPolicyScopeForTarget scope apiKeyId target resolution))))"

section \<open>Authoring\<close>

definition assertApiKeyPolicySubject :: "TenantScope \<Rightarrow> string \<Rightarrow> ApiKeyPolicySubjectRow policy_io" where
  "assertApiKeyPolicySubject scope apiKeyId =
     io_bind (getApiKeyPolicySubject scope apiKeyId) (\<lambda>subject.
     case subject of
       None \<Rightarrow> io_throw (forbidden ''API key is not active for policy binding'')
     | Some s \<Rightarrow> io_return s)"

definition assertScopedApiKeyPolicySubject ::
  "TenantScope \<Rightarrow> string \<Rightarrow> string option \<Rightarrow> string \<Rightarrow> ApiKeyPolicySubjectRow policy_io" where
  "assertScopedApiKeyPolicySubject scope organizationId projectId apiKeyId =
     io_bind (getApiKeyPolicySubject scope apiKeyId) (\<lambda>subject.
     case subject of
       None \<Rightarrow> io_throw (notFound ''API key'')
     | Some s \<Rightarrow>
         if aks_organization_id s \<noteq> organizationId \<or> aks_project_id s \<noteq> projectId
         then io_throw (notFound ''API key'') else io_return s)"

definition assertScopedApiKeyControlProfile ::
  "TenantScope \<Rightarrow> string \<Rightarrow> ApiKeyPolicySubjectRow \<Rightarrow> ApiKeyControlProfileRow policy_io" where
  "assertScopedApiKeyControlProfile scope profileId subject =
     io_bind (getApiKeyControlProfileById scope profileId) (\<lambda>profile.
     case profile of
       None \<Rightarrow> io_throw (notFound ''API key control profile'')
     | Some p \<Rightarrow>
         if akpr_api_key_id p \<noteq> aks_api_key_id subject \<or>
            akpr_organization_id p \<noteq> aks_organization_id subject \<or>
            akpr_project_id p \<noteq> aks_project_id subject \<or> akpr_status p = ProfileArchived
         then io_throw (notFound ''API key control profile'') else io_return p)"

definition bindingTarget :: "UpsertApiKeyWalletPolicyBindingInput \<Rightarrow> string" where
  "bindingTarget b = (if ub_bindingScope b = BindAll then ''all''
     else ''selected:'' @ the (ub_custodyWalletId b))"

fun assertUniquePolicyBindingTargets_loop ::
  "string list \<Rightarrow> UpsertApiKeyWalletPolicyBindingInput list \<Rightarrow> (api_error, unit) result" where
  "assertUniquePolicyBindingTargets_loop targets [] = Inr ()"
| "assertUniquePolicyBindingTargets_loop targets (b # bs) =
     (if bindingTarget b \<in> set targets then Inl (badRequest ''Policy binding targets must be unique'')
      else assertUniquePolicyBindingTargets_loop (bindingTarget b # targets) bs)"

definition assertUniquePolicyBindingTargets ::
  "UpsertApiKeyWalletPolicyBindingInput list \<Rightarrow> (api_error, unit) result" where
  "assertUniquePolicyBindingTargets bindings = assertUniquePolicyBindingTargets_loop [] bindings"

definition validateApiKeyWalletPolicyBinding ::
  "TenantScope \<Rightarrow> UpsertApiKeyWalletPolicyBindingInput \<Rightarrow> UpsertApiKeyWalletPolicyBindingInput policy_io"
where
  "validateApiKeyWalletPolicyBinding scope input =
     (if \<not> truthy (ub_apiKeyControlProfileId input) \<and> \<not> truthy (ub_walletControlProfileId input)
      then io_throw (badRequest ''Policy bindings must reference at least one control profile'')
      else if ub_bindingScope input = BindSelected then
        io_bind (assertApiKeyWalletPolicyTarget scope (ub_apiKeyId input) (the (ub_custodyWalletId input)))
          (\<lambda>target.
        io_bind (if truthy (ub_apiKeyControlProfileId input)
                 then io_map (\<lambda>_. ()) (resolveApiKeyPolicyProfileForBinding scope
                        (the (ub_apiKeyControlProfileId input)) target (ub_apiKeyId input))
                 else io_return ()) (\<lambda>_.
        io_bind (if truthy (ub_walletControlProfileId input)
                 then io_map (\<lambda>_. ()) (resolveWalletPolicyProfileForBinding scope
                        (the (ub_walletControlProfileId input)) target)
                 else io_return ()) (\<lambda>_.
        io_return (input\<lparr>ub_custodyWalletId := Some (akt_custody_wallet_id target)\<rparr>))))
      else
        io_bind (assertApiKeyPolicySubject scope (ub_apiKeyId input)) (\<lambda>subject.
        if truthy (ub_walletControlProfileId input)
        then io_throw (badRequest
               ''walletControlProfileId cannot be used with all-wallet policy bindings'')
        else
          io_bind (if truthy (ub_apiKeyControlProfileId input)
                   then io_map (\<lambda>_. ()) (resolveApiKeyPolicyProfileForBinding scope
                          (the (ub_apiKeyControlProfileId input)) subject (ub_apiKeyId input))
                   else io_return ()) (\<lambda>_.
          io_return input)))"

definition service_createApiKeyControlProfile ::
  "TenantScope \<Rightarrow> string \<Rightarrow> string \<Rightarrow> string \<Rightarrow> string \<Rightarrow> string option \<Rightarrow> ApiKeyControlProfile policy_io"
where
  "service_createApiKeyControlProfile scope organizationId projectId apiKeyId name createdBy =
     io_bind (assertScopedApiKeyPolicySubject scope organizationId (Some projectId) apiKeyId) (\<lambda>_.
     io_bind (createApiKeyControlProfile scope
       \<lparr>cap_organizationId = organizationId, cap_projectId = Some projectId, cap_apiKeyId = apiKeyId,
        cap_name = name, cap_status = None, cap_createdBy = createdBy\<rparr>) (\<lambda>row.
     case row of
       None \<Rightarrow> io_throw (internalError ''Failed to create API key control profile'')
     | Some r \<Rightarrow> io_return (mapApiKeyControlProfile r)))"

definition service_createApiKeyControlProfileRevision ::
  "TenantScope \<Rightarrow> string \<Rightarrow> string \<Rightarrow> string \<Rightarrow> string \<Rightarrow> PolicyRule list \<Rightarrow> PolicyDefaultAction \<Rightarrow>
     string option \<Rightarrow> ApiKeyControlProfileRevision policy_io" where
  "service_createApiKeyControlProfileRevision scope organizationId projectId apiKeyId profileId rules
     defaultAction createdBy =
     io_bind (assertScopedApiKeyPolicySubject scope organizationId (Some projectId) apiKeyId) (\<lambda>subject.
     io_bind (assertScopedApiKeyControlProfile scope profileId subject) (\<lambda>_.
     io_bind (createApiKeyControlProfileRevision scope
       \<lparr>cakr_profileId = profileId, cakr_rules = Some rules, cakr_defaultAction = Some defaultAction,
        cakr_createdBy = createdBy\<rparr>) (\<lambda>row.
     case row of
       None \<Rightarrow> io_throw (notFound ''API key control profile'')
     | Some r \<Rightarrow> io_return (mapApiKeyControlProfileRevision r))))"

definition service_activateApiKeyControlProfileRevision ::
  "TenantScope \<Rightarrow> string \<Rightarrow> string \<Rightarrow> string \<Rightarrow> string \<Rightarrow> string \<Rightarrow>
     (ApiKeyControlProfile \<times> ApiKeyControlProfileRevision) policy_io" where
  "service_activateApiKeyControlProfileRevision scope organizationId projectId apiKeyId profileId revisionId =
     io_bind (assertScopedApiKeyPolicySubject scope organizationId (Some projectId) apiKeyId) (\<lambda>subject.
     io_bind (assertScopedApiKeyControlProfile scope profileId subject) (\<lambda>_.
     io_bind (getApiKeyControlProfileRevisionById scope revisionId) (\<lambda>revision.
     let missing = io_throw (notFound ''API key control profile revision'') in
     case revision of
       None \<Rightarrow> missing
     | Some rv \<Rightarrow>
         if akrr_profile_id rv \<noteq> profileId then missing
         else io_bind (activateApiKeyControlProfileRevision scope profileId revisionId None) (\<lambda>active.
           case active of
             None \<Rightarrow> missing
           | Some a \<Rightarrow> (case aap_revision a of
                 None \<Rightarrow> missing
               | Some r \<Rightarrow> io_return (mapApiKeyControlProfile (aap_profile a),
                                   mapApiKeyControlProfileRevision r))))))"

definition service_upsertApiKeyWalletPolicyBinding ::
  "TenantScope \<Rightarrow> UpsertApiKeyWalletPolicyBindingInput \<Rightarrow> ApiKeyWalletPolicyBindingRow policy_io" where
  "service_upsertApiKeyWalletPolicyBinding scope input =
     io_bind (validateApiKeyWalletPolicyBinding scope input) (\<lambda>normalized.
     io_bind (upsertApiKeyWalletPolicyBinding scope normalized) (\<lambda>row.
     case row of
       None \<Rightarrow> io_throw (internalError ''Failed to upsert API key wallet policy binding'')
     | Some r \<Rightarrow> io_return r))"

fun validate_bindings ::
  "TenantScope \<Rightarrow> string \<Rightarrow> UpsertApiKeyWalletPolicyBindingInput list \<Rightarrow>
     UpsertApiKeyWalletPolicyBindingInput list policy_io" where
  "validate_bindings scope apiKeyId [] = io_return []"
| "validate_bindings scope apiKeyId (b # bs) =
     (if ub_apiKeyId b \<noteq> apiKeyId
      then io_throw (badRequest ''Policy bindings must target the requested API key'')
      else io_bind (validateApiKeyWalletPolicyBinding scope b) (\<lambda>v.
           io_bind (validate_bindings scope apiKeyId bs) (\<lambda>vs. io_return (v # vs))))"

definition service_replaceApiKeyWalletPolicyBindings ::
  "TenantScope \<Rightarrow> string \<Rightarrow> string \<Rightarrow> string \<Rightarrow> UpsertApiKeyWalletPolicyBindingInput list \<Rightarrow>
     ApiKeyWalletPolicyBindingRow list policy_io" where
  "service_replaceApiKeyWalletPolicyBindings scope organizationId projectId apiKeyId inputs =
     io_bind (assertScopedApiKeyPolicySubject scope organizationId (Some projectId) apiKeyId) (\<lambda>_.
     io_bind (io_lift (assertUniquePolicyBindingTargets inputs)) (\<lambda>_.
     io_bind (validate_bindings scope apiKeyId inputs) (\<lambda>bindings.
     replaceApiKeyWalletPolicyBindings scope apiKeyId bindings)))"

section \<open>Resolution only reads\<close>

lemma io_reads_map [reads_intros]: "io_reads m \<Longrightarrow> io_reads (io_map f m)"
  unfolding io_map_def by (intro reads_intros)

lemma io_reads_resolve_wallet [reads_intros]:
  "io_reads (resolveEffectiveWalletPolicy scope w)"
  "io_reads (resolveWalletPolicyProfileForBinding scope i target)"
  unfolding resolveEffectiveWalletPolicy_def resolveWalletPolicyProfileForBinding_def Let_def
  by (intro reads_intros)+

lemma io_reads_resolve_api_key [reads_intros]:
  "io_reads (resolveEffectiveApiKeyPolicy scope k)"
  "io_reads (resolveApiKeyPolicyProfileForBinding scope i subject k)"
  "io_reads (assertApiKeyWalletPolicyTarget scope k w)"
  unfolding resolveEffectiveApiKeyPolicy_def resolveApiKeyPolicyProfileForBinding_def
    assertApiKeyWalletPolicyTarget_def Let_def
  by (intro reads_intros)+

lemma io_reads_resolve_scope [reads_intros]:
  "io_reads (resolveOperationPolicyWithoutCustodyWallet scope k)"
  "io_reads (resolveApiKeyWalletPolicyScopeForTarget scope k target res)"
  "io_reads (resolveApiKeyWalletPolicyScope scope k w)"
  "io_reads (resolveOperationScope scope k w)"
  unfolding resolveOperationPolicyWithoutCustodyWallet_def resolveApiKeyWalletPolicyScopeForTarget_def
    resolveApiKeyWalletPolicyScope_def resolveOperationScope_def
  by (intro reads_intros)+

section \<open>An activated revision is the one enforced\<close>

lemma filter_unique_key:
  assumes "distinct (map f ys)" "p \<in> set ys" "R p"
  shows "filter (\<lambda>r. f r = f p \<and> R r) ys = [p]"
  using assms
proof (induction ys)
  case (Cons y ys)
  show ?case
  proof (cases "y = p")
    case True
    then have "f x \<noteq> f p" if "x \<in> set ys" for x using Cons.prems that by (auto simp: image_iff)
    then have "filter (\<lambda>r. f r = f p \<and> R r) ys = []" by (auto simp: filter_empty_conv)
    then show ?thesis using True Cons.prems by simp
  next
    case False
    then have "f y \<noteq> f p" using Cons.prems by auto
    then show ?thesis using False Cons by simp
  qed
qed simp

lemma activated_profile_found:
  assumes "activated scope pid rid a db"
  shows "active_wallet_profile scope (wcpr_custody_wallet_id (awp_profile a)) db = Some (awp_profile a)"
proof -
  let ?p = "awp_profile a"
  let ?R = "\<lambda>r. wcpr_organization_id r = ts_organizationId scope \<and>
      (wcpr_project_id r = ts_projectId scope \<or> wcpr_project_id r = None)"
  let ?act = "filter (\<lambda>r. wcpr_status r = ProfileActive) (t_wallet_control_profiles db)"
  have one: "filter (\<lambda>r. wcpr_custody_wallet_id r = wcpr_custody_wallet_id ?p \<and> ?R r) ?act = [?p]"
    by (rule filter_unique_key) (use assms in \<open>auto simp: activated_def wallet_profiles_ok_def\<close>)
  have "filter (\<lambda>r. wcpr_custody_wallet_id r = wcpr_custody_wallet_id ?p \<and> ?R r) ?act =
      filter (\<lambda>r. wcpr_custody_wallet_id r = wcpr_custody_wallet_id ?p \<and>
        wcpr_organization_id r = ts_organizationId scope \<and>
        (wcpr_project_id r = ts_projectId scope \<or> wcpr_project_id r = None) \<and>
        wcpr_status r = ProfileActive) (t_wallet_control_profiles db)"
    by (auto simp: filter_filter intro!: filter_cong)
  from this[symmetric] show ?thesis unfolding one by (simp add: active_wallet_profile_def first_row_def)
qed

lemma sql_get_no_faults: "sess_faults s = [] \<Longrightarrow> sql (io_get f) s = (Inr (f s), s)"
  by (simp add: sql_def io_get_def)

text \<open>Activating a revision puts it in force: once \<^verbatim>\<open>activateWalletControlProfileRevision\<close> has
  returned, resolving the policy of the profile's wallet yields that profile and that revision's
  rules and default action, and not the implicit allow.\<close>

theorem activation_takes_effect:
  assumes "activateWalletControlProfileRevision scope profileId revisionId stamp db = (Inr (Some a), db')"
    and "sess_faults db' = []" and "revisionId \<noteq> []"
    and "owns_wallet scope (wcpr_custody_wallet_id (awp_profile a)) db'"
  shows "\<exists>revision. wcrr_id revision = revisionId \<and>
    resolveEffectiveWalletPolicy scope (wcpr_custody_wallet_id (awp_profile a)) db' =
      (Inr (wallet_customer_policy (awp_profile a) revision), db')"
proof -
  have act: "activated scope profileId revisionId a db'"
    using wpD[OF activateWalletControlProfileRevision_wp assms(1)] by simp
  then have "wallet_revision_by_id db' revisionId \<noteq> None" unfolding activated_def by metis
  then obtain revision where rv: "wallet_revision_by_id db' revisionId = Some revision" by blast
  then have "wcrr_id revision = revisionId"
    using find_Some_in by (fastforce simp: wallet_revision_by_id_def)
  moreover have "resolveEffectiveWalletPolicy scope (wcpr_custody_wallet_id (awp_profile a)) db' =
      (Inr (wallet_customer_policy (awp_profile a) revision), db')"
    using act rv assms(2-4) activated_profile_found[OF act]
    by (simp add: resolveEffectiveWalletPolicy_def getActiveWalletControlProfileByCustodyWalletId_def
        or_null_def tenantOwnsWallet_def with_wallet_revision_def getWalletControlProfileRevisionById_def
        sql_get_no_faults io_bind_def io_return_def activated_def)
  ultimately show ?thesis by blast
qed

theorem activation_takes_effect_witness:
  "\<exists>a db' revision.
     activateWalletControlProfileRevision example_scope ''p1'' ''r1'' None (example_db ''active'') =
       (Inr (Some a), db') \<and> wcrr_id revision = ''r1'' \<and>
     resolveEffectiveWalletPolicy example_scope (wcpr_custody_wallet_id (awp_profile a)) db' =
       (Inr (wallet_customer_policy (awp_profile a) revision), db')"
proof -
  obtain a db' where run:
      "activateWalletControlProfileRevision example_scope ''p1'' ''r1'' None (example_db ''active'') =
        (Inr (Some a), db')"
    and db': "sess_faults db' = []" "owns_wallet example_scope (wcpr_custody_wallet_id (awp_profile a)) db'"
    by (simp add: activateWalletControlProfileRevision_def tenantOwnsRow_def owns_row_def or_null_def
        tenantOwnsPolicyRevision_def owns_wallet_revision_def getWalletControlProfileRevisionById_def
        wallet_revision_by_id_def wallet_profile_by_id_def stamp_wallet_revision_def
        write_wallet_profiles_def wallet_profiles_ok_def transaction_def sql_def effect_simps now_def
        table_update_def owns_wallet_def wallet_in_scope_def custody_config_serves_def Let_def
        example_db_defs)
  show ?thesis using activation_takes_effect[OF run db'(1) _ db'(2)] run by auto
qed

section \<open>Keys with bindings\<close>

lemma bindingResolution_owned:
  assumes "owns_row scope T_api_keys apiKeyId db" "owns_wallet scope custodyWalletId db"
  shows "wp (getApiKeyWalletPolicyBindingResolution scope apiKeyId custodyWalletId) (\<lambda>r db'. \<forall>res. r = Inr res \<longrightarrow>
     res = \<lparr>abr_total_binding_count =
          length (filter (\<lambda>r. bnd_api_key_id r = apiKeyId) (t_api_key_wallet_policy_bindings db)),
        abr_binding = applicable_binding apiKeyId custodyWalletId db\<rparr>) db"
  unfolding getApiKeyWalletPolicyBindingResolution_def tenantOwnsRow_def tenantOwnsWallet_def
  using assms
  by (simp add: wp_def io_bind_def io_get_def io_return_def sql_def split: list.split)

text \<open>A key that has wallet bindings is held to them on a wallet of its tenant: the scope of an
  operation resolves only through a binding that applies to the requested wallet, and is refused
  when there is none.\<close>

theorem bound_key_needs_applicable_binding:
  assumes "resolveOperationScope scope apiKeyId custodyWalletId db = (Inr r, db')"
    and "owns_row scope T_api_keys apiKeyId db" and "owns_wallet scope custodyWalletId db"
    and "b \<in> set (t_api_key_wallet_policy_bindings db)" and "bnd_api_key_id b = apiKeyId"
  shows "applicable_binding apiKeyId custodyWalletId db \<noteq> None"
proof
  assume none: "applicable_binding apiKeyId custodyWalletId db = None"
  obtain res s1 where m: "getApiKeyWalletPolicyBindingResolution scope apiKeyId custodyWalletId db = (Inr res, s1)"
    and rest: "(if abr_total_binding_count res = 0
       then io_map (\<lambda>policy. \<lparr>aos_apiKeyPolicy = policy, aos_walletPolicy = None,
              aos_custodyWalletId = None\<rparr>) (resolveEffectiveApiKeyPolicy scope apiKeyId)
       else io_bind (io_lift (assertApplicablePolicyBindingExists res)) (\<lambda>_.
         io_bind (assertApiKeyWalletPolicyTarget scope apiKeyId custodyWalletId) (\<lambda>target.
         io_map (\<lambda>r. \<lparr>aos_apiKeyPolicy = ras_apiKeyPolicy r, aos_walletPolicy = ras_walletPolicy r,
            aos_custodyWalletId = Some (akt_custody_wallet_id (ras_target r))\<rparr>)
           (resolveApiKeyWalletPolicyScopeForTarget scope apiKeyId target res)))) s1 = (Inr r, db')"
    using assms(1) unfolding resolveOperationScope_def io_bind_Inr_iff by blast
  have res: "res = \<lparr>abr_total_binding_count =
          length (filter (\<lambda>r. bnd_api_key_id r = apiKeyId) (t_api_key_wallet_policy_bindings db)),
        abr_binding = None\<rparr>"
    using wpD[OF bindingResolution_owned[OF assms(2,3)] m] none by simp
  have "filter (\<lambda>r. bnd_api_key_id r = apiKeyId) (t_api_key_wallet_policy_bindings db) \<noteq> []"
    using assms(4,5) by (auto simp: filter_empty_conv)
  then have "abr_total_binding_count res > 0" "abr_binding res = None" by (simp_all add: res)
  with rest show False
    by (simp add: io_bind_def io_lift_def assertApplicablePolicyBindingExists_def)
qed

theorem bound_key_needs_applicable_binding_witness:
  "applicable_binding ''key'' ''cw1'' ((example_db ''active'')\<lparr>t_api_key_wallet_policy_bindings :=
     [example_binding\<lparr>bnd_wallet_control_profile_id := None\<rparr>]\<rparr>) \<noteq> None"
  (is "applicable_binding _ _ ?db \<noteq> None")
proof -
  obtain r db' where run: "resolveOperationScope example_scope ''key'' ''cw1'' ?db = (Inr r, db')"
    by (simp add: resolveOperationScope_def getApiKeyWalletPolicyBindingResolution_def tenantOwnsRow_def
        owns_row_def tenantOwnsWallet_def owns_wallet_def wallet_in_scope_def custody_config_serves_def
        applicable_binding_def first_row_def assertApplicablePolicyBindingExists_def
        assertApiKeyWalletPolicyTarget_def getApiKeyWalletPolicyTarget_def wallet_candidates_def
        policy_target_def resolveApiKeyWalletPolicyScopeForTarget_def assertPolicyBindingMatchesTarget_def
        truthy_def resolveEffectiveApiKeyPolicy_def getActiveApiKeyControlProfileByApiKeyId_def or_null_def
        with_api_key_revision_def io_map_def sql_def effect_simps example_db_defs)
  show ?thesis
    by (rule bound_key_needs_applicable_binding[OF run, of "example_binding\<lparr>bnd_wallet_control_profile_id := None\<rparr>"])
       (simp_all add: owns_row_def owns_wallet_def wallet_in_scope_def custody_config_serves_def
         example_db_defs)
qed

text \<open>On a wallet that is not active the same resolution does not fail closed: the binding lookup
  reports no bindings at all, and the key's plain policy, here the implicit allow, is returned.\<close>

theorem bound_key_falls_back_on_inactive_wallet:
  "example_binding \<in> set (t_api_key_wallet_policy_bindings (example_db ''inactive'')) \<and>
   bnd_api_key_id example_binding = ''key'' \<and> bnd_custody_wallet_id example_binding = Some ''cw1'' \<and>
   resolveOperationScope example_scope ''key'' ''cw1'' (example_db ''inactive'') =
     (Inr \<lparr>aos_apiKeyPolicy = IMPLICIT_DEFAULT_ALLOW_POLICY, aos_walletPolicy = None,
           aos_custodyWalletId = None\<rparr>, example_db ''inactive'')"
  by (simp add: resolveOperationScope_def getApiKeyWalletPolicyBindingResolution_def tenantOwnsRow_def
      owns_row_def tenantOwnsWallet_def owns_wallet_def wallet_in_scope_def
      resolveEffectiveApiKeyPolicy_def getActiveApiKeyControlProfileByApiKeyId_def or_null_def
      with_api_key_revision_def first_row_def io_map_def sql_def effect_simps example_db_defs)

end
