(* ===== verification/Wallet_Operations.thy ===== *)
theory Wallet_Operations
  imports Policy_Repository "HOL-Library.List_Lexorder" "HOL-Library.Char_ord"
begin

text \<open>
  The life of a wallet operation in the database (\<^verbatim>\<open>policy.repository.postgres.ts\<close>): it is recorded,
  evaluated, possibly held for approval, claimed for execution under a ten-minute lease, fenced when
  its external effect begins, and completed. Each repository method is a function on the database;
  the interleavings of all of them, across tenants and with time passing and statements failing, are
  the relation \<open>wo_step\<close>, over which the safety properties are proved by induction on runs.
\<close>

section \<open>Recording operations and evaluations\<close>

text \<open>\<^verbatim>\<open>object.key = value\<close> and the spread of one property: an existing key keeps its place.\<close>

fun json_put :: "string \<Rightarrow> json \<Rightarrow> json_object \<Rightarrow> json_object" where
  "json_put k v [] = [(k, v)]"
| "json_put k v ((k', v') # ob) = (if k = k' then (k, v) # ob else (k', v') # json_put k v ob)"

definition createWalletOperationRawPayload :: "CreateWalletOperationInput \<Rightarrow> json_object" where
  "createWalletOperationRawPayload input =
     (let rawPayload = (case cwo_rawPayload input of None \<Rightarrow> [] | Some p \<Rightarrow> p);
          rawPayload = (case cwo_actor input of
             None \<Rightarrow> rawPayload
           | Some None \<Rightarrow> json_put ''actor'' JNull rawPayload
           | Some (Some actor) \<Rightarrow> json_put ''actor'' (JObj actor) rawPayload);
          rawPayload = (case cwo_context input of
             None \<Rightarrow> rawPayload | Some c \<Rightarrow> json_put ''context'' (JObj c) rawPayload)
      in case cwo_providerExtensions input of
           None \<Rightarrow> rawPayload | Some e \<Rightarrow> json_put ''providerExtensions'' (JObj e) rawPayload)"

definition operation_by_id :: "policy_db \<Rightarrow> string \<Rightarrow> WalletOperationRow option" where
  "operation_by_id db i = find (\<lambda>r. wo_id r = i) (t_wallet_operations db)"

definition getWalletOperationByIdInternal :: "string \<Rightarrow> WalletOperationRow option policy_io" where
  "getWalletOperationByIdInternal walletOperationId =
     sql (io_get (\<lambda>db. operation_by_id db walletOperationId))"

definition getWalletOperationById :: "TenantScope \<Rightarrow> string \<Rightarrow> WalletOperationRow option policy_io" where
  "getWalletOperationById scope walletOperationId =
     or_null (tenantOwnsRow scope T_wallet_operations walletOperationId)
       (getWalletOperationByIdInternal walletOperationId)"

definition insert_operation :: "WalletOperationRow \<Rightarrow> unit policy_io" where
  "insert_operation row = (\<lambda>db.
     if wo_id row \<in> wo_id ` set (t_wallet_operations db) then (Inl UniqueViolation, db)
     else (Inr (), db\<lparr>t_wallet_operations := t_wallet_operations db @ [row]\<rparr>))"

definition new_operation_row ::
  "TenantScope \<Rightarrow> CreateWalletOperationInput \<Rightarrow> string \<Rightarrow> timestamp \<Rightarrow> WalletOperationRow" where
  "new_operation_row scope input i t =
     \<lparr>wo_id = i, wo_organization_id = ts_organizationId scope, wo_project_id = ts_projectId scope,
      wo_custody_wallet_id = cwo_custodyWalletId input, wo_wallet_id = cwo_walletId input,
      wo_api_key_id = cwo_apiKeyId input,
      wo_source = (case cwo_source input of None \<Rightarrow> ''api'' | Some src \<Rightarrow> src),
      wo_operation_family = cwo_operationFamily input, wo_operation_type = cwo_operationType input,
      wo_asset = cwo_asset input, wo_amount = cwo_amount input,
      wo_destination = cwo_destination input,
      wo_raw_payload = createWalletOperationRawPayload input,
      wo_idempotency_key = cwo_idempotencyKey input, wo_status = initialStatus input,
      wo_execution_started_at = None, wo_execution_completed_at = None, wo_execution_error = None,
      wo_execution_result = None, wo_execution_attempt_id = None,
      wo_execution_lease_expires_at = None, wo_execution_effect_started_at = None,
      wo_execution_attempts = 0, wo_created_at = t, wo_updated_at = t\<rparr>"

definition repo_createWalletOperation ::
  "TenantScope \<Rightarrow> CreateWalletOperationInput \<Rightarrow> WalletOperationRow option policy_io" where
  "repo_createWalletOperation scope input =
     io_bind (io_lift (assertTenantClaim scope (cwo_organizationId input) (cwo_projectId input)
       ''PolicyRepository.createWalletOperation'')) (\<lambda>_.
     or_null (tenantOwnsWalletTarget scope (cwo_walletId input) (cwo_custodyWalletId input))
     (or_null (check_optional (cwo_apiKeyId input) (tenantOwnsRow scope T_api_keys))
       (io_bind randomUUID (\<lambda>uuid.
        io_bind (sql (io_bind now (\<lambda>t.
          insert_operation (new_operation_row scope input (''wop_'' @ uuid) t)))) (\<lambda>_.
        getWalletOperationByIdInternal (''wop_'' @ uuid))))))"

text \<open>\<^verbatim>\<open>UPDATE wallet_operations SET ... WHERE id = ? AND ... RETURNING *\<close>.\<close>

definition update_operation ::
  "string \<Rightarrow> (policy_db \<Rightarrow> WalletOperationRow \<Rightarrow> bool) \<Rightarrow> (WalletOperationRow \<Rightarrow> WalletOperationRow) \<Rightarrow>
     WalletOperationRow option policy_io" where
  "update_operation i cond upd = (\<lambda>db.
     let hit = (\<lambda>r. wo_id r = i \<and> cond db r);
         rows = t_wallet_operations db
     in (Inr (map_option upd (find hit rows)), db\<lparr>t_wallet_operations := table_update hit upd rows\<rparr>))"

definition repo_updateWalletOperationStatus ::
  "TenantScope \<Rightarrow> string \<Rightarrow> WalletOperationStatus \<Rightarrow> WalletOperationRow option policy_io" where
  "repo_updateWalletOperationStatus scope walletOperationId status =
     or_null (tenantOwnsRow scope T_wallet_operations walletOperationId)
       (sql (io_bind now (\<lambda>t. update_operation walletOperationId (\<lambda>_ _. True)
          (\<lambda>r. r\<lparr>wo_status := status, wo_updated_at := t\<rparr>))))"

definition insert_evaluation :: "PolicyEvaluationRow \<Rightarrow> unit policy_io" where
  "insert_evaluation row = (\<lambda>db.
     if per_id row \<in> per_id ` set (t_policy_evaluations db) then (Inl UniqueViolation, db)
     else (Inr (), db\<lparr>t_policy_evaluations := t_policy_evaluations db @ [row]\<rparr>))"

definition getPolicyEvaluationByIdInternal :: "string \<Rightarrow> PolicyEvaluationRow option policy_io" where
  "getPolicyEvaluationByIdInternal i =
     sql (io_get (\<lambda>db. find (\<lambda>r. per_id r = i) (t_policy_evaluations db)))"

definition new_evaluation_row :: "RecordPolicyEvaluationInput \<Rightarrow> string \<Rightarrow> timestamp \<Rightarrow> PolicyEvaluationRow" where
  "new_evaluation_row input i t =
     \<lparr>per_id = i, per_wallet_operation_id = rpe_walletOperationId input,
      per_wallet_policy_revision_id = rpe_walletPolicyRevisionId input,
      per_api_key_policy_revision_id = rpe_apiKeyPolicyRevisionId input,
      per_decision = rpe_decision input, per_reason_code = rpe_reasonCode input,
      per_reason = Some (rpe_reason input), per_matched_rules = rpe_matchedRules input,
      per_evaluation_context = Some (rpe_evaluationContext input),
      per_requires_approval = rpe_requiresApproval input,
      per_approval_request_id = rpe_approvalRequestId input, per_created_at = t\<rparr>"

definition createPolicyEvaluation ::
  "TenantScope \<Rightarrow> RecordPolicyEvaluationInput \<Rightarrow> PolicyEvaluationRow option policy_io" where
  "createPolicyEvaluation scope input =
     or_null (tenantOwnsRow scope T_wallet_operations (rpe_walletOperationId input))
     (or_null (check_optional (rpe_walletPolicyRevisionId input)
        (tenantOwnsPolicyRevision owns_wallet_revision scope))
     (or_null (check_optional (rpe_apiKeyPolicyRevisionId input)
        (tenantOwnsPolicyRevision owns_api_key_revision scope))
       (io_bind randomUUID (\<lambda>uuid.
        io_bind (sql (io_bind now (\<lambda>t.
          insert_evaluation (new_evaluation_row input (''peval_'' @ uuid) t)))) (\<lambda>_.
        getPolicyEvaluationByIdInternal (''peval_'' @ uuid))))))"

definition listPolicyEvaluationsForOperationInternal :: "string \<Rightarrow> PolicyEvaluationRow list policy_io" where
  "listPolicyEvaluationsForOperationInternal i =
     sql (io_get (\<lambda>db. sort_key per_created_at
       (filter (\<lambda>r. per_wallet_operation_id r = i) (t_policy_evaluations db))))"

definition listPolicyEvaluationsForOperation :: "TenantScope \<Rightarrow> string \<Rightarrow> PolicyEvaluationRow list policy_io"
where
  "listPolicyEvaluationsForOperation scope walletOperationId =
     io_bind (tenantOwnsRow scope T_wallet_operations walletOperationId) (\<lambda>ok.
     if \<not> ok then io_return []
     else listPolicyEvaluationsForOperationInternal walletOperationId)"

section \<open>Approval requests\<close>

definition new_approval_row ::
  "TenantScope \<Rightarrow> CreateApprovalRequestInput \<Rightarrow> string \<Rightarrow> timestamp \<Rightarrow> ApprovalRequestRow" where
  "new_approval_row scope input i t =
     \<lparr>ar_id = i, ar_organization_id = ts_organizationId scope, ar_project_id = ts_projectId scope,
      ar_wallet_operation_id = car_walletOperationId input,
      ar_approval_group_id = car_approvalGroupId input, ar_status = ArPending,
      ar_provider = car_provider input, ar_provider_reference = car_providerReference input,
      ar_provider_payload = car_providerPayload input, ar_requested_by = car_requestedBy input,
      ar_resolved_by = None, ar_expires_at = None, ar_resolved_at = None,
      ar_created_at = t, ar_updated_at = t\<rparr>"

text \<open>\<^verbatim>\<open>INSERT ... ON CONFLICT (wallet_operation_id) DO UPDATE SET updated_at = updated_at RETURNING *\<close>:
  the existing request of the operation is returned unchanged.\<close>

definition insert_approval_request :: "ApprovalRequestRow \<Rightarrow> ApprovalRequestRow option policy_io" where
  "insert_approval_request row = (\<lambda>db.
     case find (\<lambda>r. ar_wallet_operation_id r = ar_wallet_operation_id row) (t_approval_requests db) of
       Some old \<Rightarrow> (Inr (Some old), db)
     | None \<Rightarrow>
         if ar_id row \<in> ar_id ` set (t_approval_requests db) then (Inl UniqueViolation, db)
         else (Inr (Some row), db\<lparr>t_approval_requests := t_approval_requests db @ [row]\<rparr>))"

definition repo_createApprovalRequest ::
  "TenantScope \<Rightarrow> CreateApprovalRequestInput \<Rightarrow> ApprovalRequestRow option policy_io" where
  "repo_createApprovalRequest scope input =
     io_bind (io_lift (assertTenantClaim scope (car_organizationId input) (car_projectId input)
       ''PolicyRepository.createApprovalRequest'')) (\<lambda>_.
     or_null (tenantOwnsRow scope T_wallet_operations (car_walletOperationId input))
       (io_bind randomUUID (\<lambda>uuid.
        sql (io_bind now (\<lambda>t. insert_approval_request (new_approval_row scope input (''appr_'' @ uuid) t))))))"

record UpdateApprovalRequestStatusInput =
  uar_organizationId :: string
  uar_projectId :: "string option"
  uar_approvalRequestId :: string
  uar_status :: ApprovalRequestStatus
  uar_operationStatus :: "WalletOperationStatus option"
  uar_resolvedBy :: "string option"
  uar_resolvedAt :: "timestamp option"

definition request_in_scope :: "TenantScope \<Rightarrow> string \<Rightarrow> ApprovalRequestRow \<Rightarrow> bool" where
  "request_in_scope scope i r \<longleftrightarrow> ar_id r = i \<and>
     ar_organization_id r = ts_organizationId scope \<and> ar_project_id r = ts_projectId scope"

definition resolve_request :: "TenantScope \<Rightarrow> UpdateApprovalRequestStatusInput \<Rightarrow> timestamp \<Rightarrow>
     ApprovalRequestRow option policy_io" where
  "resolve_request scope input t = (\<lambda>db.
     let hit = request_in_scope scope (uar_approvalRequestId input);
         upd = (\<lambda>r. r\<lparr>ar_status := uar_status input, ar_resolved_by := uar_resolvedBy input,
                     ar_resolved_at := Some t, ar_updated_at := t\<rparr>)
     in (Inr (map_option upd (find hit (t_approval_requests db))),
         db\<lparr>t_approval_requests := table_update hit upd (t_approval_requests db)\<rparr>))"

definition resolve_operation :: "TenantScope \<Rightarrow> string \<Rightarrow> WalletOperationStatus \<Rightarrow> timestamp \<Rightarrow>
     WalletOperationRow option policy_io" where
  "resolve_operation scope walletOperationId operationStatus t =
     update_operation walletOperationId
       (\<lambda>_ r. wo_organization_id r = ts_organizationId scope \<and> wo_project_id r = ts_projectId scope \<and>
          (if operationStatus = OpFailed then wo_status r \<in> {OpCreated, OpPendingApproval}
           else wo_status r = OpPendingApproval))
       (\<lambda>r. r\<lparr>wo_status := operationStatus, wo_updated_at := t\<rparr>)"

definition updateApprovalRequestStatus ::
  "TenantScope \<Rightarrow> UpdateApprovalRequestStatusInput \<Rightarrow> ApprovalRequestRow option policy_io" where
  "updateApprovalRequestStatus scope input =
     io_bind (io_lift (assertTenantClaim scope (uar_organizationId input) (uar_projectId input)
       ''PolicyRepository.updateApprovalRequestStatus'')) (\<lambda>_.
     or_null (tenantOwnsRow scope T_approval_requests (uar_approvalRequestId input))
       (io_bind now (\<lambda>t. let resolvedAt = (case uar_resolvedAt input of None \<Rightarrow> t | Some u \<Rightarrow> u) in
        transaction
          (io_bind (sql (io_get (\<lambda>db.
              find (request_in_scope scope (uar_approvalRequestId input)) (t_approval_requests db))))
            (\<lambda>current.
           case current of
             None \<Rightarrow> io_return None
           | Some c \<Rightarrow>
               if ar_status c \<noteq> ArPending then io_return (Some c)
               else
                 io_bind (sql (resolve_request scope input resolvedAt)) (\<lambda>updated.
                 case updated of
                   None \<Rightarrow> io_return None
                 | Some u \<Rightarrow>
                     io_bind (case uar_operationStatus input of
                                None \<Rightarrow> io_return None
                              | Some st \<Rightarrow> sql (resolve_operation scope (ar_wallet_operation_id c) st resolvedAt))
                       (\<lambda>_. io_return (Some u))))))))"

section \<open>Execution under a lease\<close>

definition EXECUTION_LEASE_MS :: int where
  "EXECUTION_LEASE_MS = 10 * 60000"

definition approved_request_exists :: "policy_db \<Rightarrow> string \<Rightarrow> bool" where
  "approved_request_exists db i \<longleftrightarrow>
     (\<exists>a\<in>set (t_approval_requests db). ar_wallet_operation_id a = i \<and> ar_status a = ArApproved)"

definition op_in_scope :: "TenantScope \<Rightarrow> WalletOperationRow \<Rightarrow> bool" where
  "op_in_scope scope r \<longleftrightarrow>
     wo_organization_id r = ts_organizationId scope \<and> wo_project_id r = ts_projectId scope"

definition claimable :: "timestamp \<Rightarrow> WalletOperationRow \<Rightarrow> bool" where
  "claimable t r \<longleftrightarrow> wo_status r = OpExecuting \<and> wo_execution_effect_started_at r = None \<and>
     (wo_execution_started_at r = None \<or>
      (case wo_execution_lease_expires_at r of None \<Rightarrow> True | Some expires \<Rightarrow> expires \<le> t))"

definition claimWalletOperationExecution ::
  "TenantScope \<Rightarrow> string \<Rightarrow> string \<Rightarrow> WalletOperationRow option policy_io" where
  "claimWalletOperationExecution scope walletOperationId executionAttemptId =
     or_null (tenantOwnsRow scope T_wallet_operations walletOperationId)
       (io_bind now (\<lambda>t. sql (update_operation walletOperationId
          (\<lambda>db r. op_in_scope scope r \<and> claimable t r \<and> approved_request_exists db (wo_id r))
          (\<lambda>r. r\<lparr>wo_execution_started_at := Some t,
                 wo_execution_attempt_id := Some executionAttemptId,
                 wo_execution_lease_expires_at := Some (t + EXECUTION_LEASE_MS),
                 wo_execution_attempts := wo_execution_attempts r + 1,
                 wo_execution_completed_at := None, wo_execution_result := None,
                 wo_execution_effect_started_at := None, wo_execution_error := None,
                 wo_updated_at := t\<rparr>))))"

text \<open>\<^verbatim>\<open>status = 'executing' AND execution_attempt_id = ? AND execution_lease_expires_at > ?\<close>: the attempt holds
  the lease now. A comparison with \<^verbatim>\<open>NULL\<close> is not true.\<close>

definition holds_lease :: "string \<Rightarrow> timestamp \<Rightarrow> WalletOperationRow \<Rightarrow> bool" where
  "holds_lease executionAttemptId t r \<longleftrightarrow> wo_status r = OpExecuting \<and>
     wo_execution_attempt_id r = Some executionAttemptId \<and>
     (case wo_execution_lease_expires_at r of None \<Rightarrow> False | Some expires \<Rightarrow> expires > t)"

definition renewWalletOperationExecutionLease :: "TenantScope \<Rightarrow> string \<Rightarrow> string \<Rightarrow> bool policy_io" where
  "renewWalletOperationExecutionLease scope walletOperationId executionAttemptId =
     io_bind now (\<lambda>t. io_bind (sql (update_operation walletOperationId
       (\<lambda>_ r. op_in_scope scope r \<and> holds_lease executionAttemptId t r)
       (\<lambda>r. r\<lparr>wo_execution_lease_expires_at := Some (t + EXECUTION_LEASE_MS), wo_updated_at := t\<rparr>)))
       (\<lambda>row. io_return (row \<noteq> None)))"

definition beginWalletOperationExecutionEffect :: "TenantScope \<Rightarrow> string \<Rightarrow> string \<Rightarrow> bool policy_io" where
  "beginWalletOperationExecutionEffect scope walletOperationId executionAttemptId =
     io_bind now (\<lambda>t. io_bind (sql (update_operation walletOperationId
       (\<lambda>_ r. op_in_scope scope r \<and> holds_lease executionAttemptId t r)
       (\<lambda>r. r\<lparr>wo_execution_effect_started_at := coalesce (wo_execution_effect_started_at r) t,
              wo_updated_at := t\<rparr>)))
       (\<lambda>row. io_return (row \<noteq> None)))"

record CompleteWalletOperationExecutionInput =
  cwe_walletOperationId :: string
  cwe_executionAttemptId :: string
  cwe_completed :: bool
  cwe_result :: "json_object option"
  cwe_error :: "string option"

definition completeWalletOperationExecution ::
  "TenantScope \<Rightarrow> CompleteWalletOperationExecutionInput \<Rightarrow> WalletOperationRow option policy_io" where
  "completeWalletOperationExecution scope input =
     io_bind now (\<lambda>t. sql (update_operation (cwe_walletOperationId input)
       (\<lambda>_ r. op_in_scope scope r \<and> holds_lease (cwe_executionAttemptId input) t r \<and>
          wo_execution_started_at r \<noteq> None)
       (\<lambda>r. r\<lparr>wo_status := (if cwe_completed input then OpCompleted else OpFailed),
              wo_execution_completed_at := Some t, wo_execution_result := cwe_result input,
              wo_execution_error := cwe_error input, wo_execution_lease_expires_at := None,
              wo_updated_at := t\<rparr>)))"

text \<open>The first statement of \<^verbatim>\<open>recoverApprovedWalletOperations\<close>: executions interrupted after their effect
  began are failed, for every tenant.\<close>

definition lease_lapsed :: "timestamp \<Rightarrow> WalletOperationRow \<Rightarrow> bool" where
  "lease_lapsed t r \<longleftrightarrow>
     (case wo_execution_lease_expires_at r of None \<Rightarrow> True | Some expires \<Rightarrow> expires \<le> t)"

definition fail_interrupted_effects :: "unit policy_io" where
  "fail_interrupted_effects =
     io_bind now (\<lambda>t. sql (io_modify (\<lambda>db. db\<lparr>t_wallet_operations := table_update
       (\<lambda>r. wo_status r = OpExecuting \<and> wo_execution_effect_started_at r \<noteq> None \<and> lease_lapsed t r \<and>
          approved_request_exists db (wo_id r))
       (\<lambda>r. r\<lparr>wo_status := OpFailed, wo_execution_completed_at := Some t,
          wo_execution_error := Some (''Approved execution was interrupted after its external effect '' @
            ''began; manual reconciliation is required''),
          wo_execution_lease_expires_at := None, wo_updated_at := t\<rparr>)
       (t_wallet_operations db)\<rparr>)))"

text \<open>Its second statement: the operations whose lease lapsed before any effect, oldest first.\<close>

definition recoverable_operations :: "nat \<Rightarrow> WalletOperationRow list policy_io" where
  "recoverable_operations limit =
     io_bind now (\<lambda>t. sql (io_get (\<lambda>db. take limit (sort_key (\<lambda>r. (wo_updated_at r, wo_id r))
       (filter (\<lambda>r. wo_status r = OpExecuting \<and> wo_execution_effect_started_at r = None \<and>
          lease_lapsed t r \<and> approved_request_exists db (wo_id r)) (t_wallet_operations db))))))"

section \<open>Every interleaving\<close>

definition resolution :: "TenantScope \<Rightarrow> string \<Rightarrow> ApprovalRequestStatus \<Rightarrow> WalletOperationStatus \<Rightarrow>
     string option \<Rightarrow> UpdateApprovalRequestStatusInput" where
  "resolution scope i st operationStatus resolvedBy =
     \<lparr>uar_organizationId = ts_organizationId scope, uar_projectId = ts_projectId scope,
      uar_approvalRequestId = i, uar_status = st, uar_operationStatus = Some operationStatus,
      uar_resolvedBy = resolvedBy, uar_resolvedAt = None\<rparr>"

text \<open>The pairs of statuses the services resolve a request with: \<^verbatim>\<open>approveApprovalRequest\<close>,
  \<^verbatim>\<open>cancelApprovalRequest\<close>, \<^verbatim>\<open>rejectApprovalRequest\<close> and the enforcement flow's \<^verbatim>\<open>failApprovalRequest\<close>.\<close>

definition service_resolution :: "ApprovalRequestStatus \<Rightarrow> WalletOperationStatus \<Rightarrow> bool" where
  "service_resolution st operationStatus \<longleftrightarrow>
     (st, operationStatus) \<in> {(ArApproved, OpExecuting), (ArCanceled, OpCanceled),
        (ArRejected, OpCanceled), (ArFailed, OpFailed)}"

text \<open>One step of the running system: time passes, the connection's fortune changes, or some request of
  some tenant runs one repository method, to whatever end.\<close>

inductive wo_step :: "policy_db \<Rightarrow> policy_db \<Rightarrow> bool" where
  tick: "d \<ge> 0 \<Longrightarrow> wo_step db (db\<lparr>sess_clock := sess_clock db + d\<rparr>)"
| fortune: "wo_step db (db\<lparr>sess_faults := fs\<rparr>)"
| create: "initialStatus input = OpCreated \<Longrightarrow> wo_step db (snd (repo_createWalletOperation scope input db))"
| evaluate: "wo_step db (snd (createPolicyEvaluation scope evaluation db))"
| request: "wo_step db (snd (repo_createApprovalRequest scope approval db))"
| decide: "st \<in> {OpEvaluated, OpPendingApproval, OpFailed} \<Longrightarrow>
    wo_step db (snd (repo_updateWalletOperationStatus scope i st db))"
| resolve: "service_resolution st operationStatus \<Longrightarrow>
    wo_step db (snd (updateApprovalRequestStatus scope (resolution scope i st operationStatus by_user) db))"
| claim: "wo_step db (snd (claimWalletOperationExecution scope i attempt db))"
| renew: "wo_step db (snd (renewWalletOperationExecutionLease scope i attempt db))"
| effect: "wo_step db (snd (beginWalletOperationExecutionEffect scope i attempt db))"
| complete: "wo_step db (snd (completeWalletOperationExecution scope outcome db))"
| recover: "wo_step db (snd (fail_interrupted_effects db))"

inductive_cases wo_stepE: "wo_step db db'"

text \<open>What any step can do to the rows, stated once: resolved requests stay as they are, an operation
  keeps its attempt once an effect has begun, and it starts executing only when it is approved.\<close>

definition row_step :: "policy_db \<Rightarrow> WalletOperationRow \<Rightarrow> WalletOperationRow \<Rightarrow> bool" where
  "row_step db' r r' \<longleftrightarrow> wo_id r' = wo_id r \<and>
     (wo_execution_effect_started_at r \<noteq> None \<longrightarrow>
        wo_execution_effect_started_at r' = wo_execution_effect_started_at r \<and>
        wo_execution_attempt_id r' = wo_execution_attempt_id r) \<and>
     (wo_status r' = OpExecuting \<longrightarrow>
        wo_status r = OpExecuting \<or> approved_request_exists db' (wo_id r))"

definition step_rel :: "policy_db \<Rightarrow> policy_db \<Rightarrow> bool" where
  "step_rel db db' \<longleftrightarrow>
     distinct (map ar_id (t_approval_requests db')) \<and>
     (distinct (map wo_id (t_wallet_operations db)) \<longrightarrow> distinct (map wo_id (t_wallet_operations db'))) \<and>
     (\<forall>a\<in>set (t_approval_requests db). ar_status a \<noteq> ArPending \<longrightarrow> a \<in> set (t_approval_requests db')) \<and>
     (\<forall>k r. operation_by_id db k = Some r \<longrightarrow>
        (\<exists>r'. operation_by_id db' k = Some r' \<and> row_step db' r r')) \<and>
     (\<forall>k r'. operation_by_id db k = None \<longrightarrow> operation_by_id db' k = Some r' \<longrightarrow> wo_status r' = OpCreated)"

lemma row_step_refl: "row_step db' r r"
  by (simp add: row_step_def)

lemma step_rel_same:
  assumes "distinct (map ar_id (t_approval_requests db))"
    and "t_approval_requests db' = t_approval_requests db" "t_wallet_operations db' = t_wallet_operations db"
  shows "step_rel db db'"
  using assms by (auto simp: step_rel_def operation_by_id_def row_step_refl)

lemma step_rel_reads:
  "distinct (map ar_id (t_approval_requests db)) \<Longrightarrow> only_session db db' \<Longrightarrow> step_rel db db'"
  by (rule step_rel_same) (simp_all add: only_session_tables)

text \<open>An \<^verbatim>\<open>UPDATE\<close> of operations whose row change is allowed is an allowed step.\<close>

lemma step_rel_update:
  assumes "distinct (map ar_id (t_approval_requests db))"
    and "t_approval_requests db' = t_approval_requests db"
    and "t_wallet_operations db' = table_update hit upd (t_wallet_operations db)"
    and "\<And>r. hit r \<Longrightarrow> row_step db' r (upd r)"
  shows "step_rel db db'"
proof -
  have "operation_by_id db' k = map_option (\<lambda>r. if hit r then upd r else r) (operation_by_id db k)" for k
    unfolding operation_by_id_def assms(3)
    by (rule find_table_update) (use assms(4) in \<open>auto simp: row_step_def\<close>)
  moreover have "map wo_id (t_wallet_operations db') = map wo_id (t_wallet_operations db)"
    unfolding assms(3) by (rule table_update_key) (use assms(4) in \<open>auto simp: row_step_def\<close>)
  ultimately show ?thesis using assms by (auto simp: step_rel_def row_step_refl)
qed

lemma wp_update_operation [wp_intros]:
  assumes "Q (Inr (map_option upd (find (\<lambda>r. wo_id r = i \<and> cond db r) (t_wallet_operations db))))
    (db\<lparr>t_wallet_operations := table_update (\<lambda>r. wo_id r = i \<and> cond db r) upd (t_wallet_operations db)\<rparr>)"
  shows "wp (update_operation i cond upd) Q db"
  using assms by (simp add: wp_def update_operation_def Let_def)

lemma wp_sql_update_operation:
  assumes "distinct (map ar_id (t_approval_requests db))"
    and "\<And>fs r. wo_id r = i \<Longrightarrow> cond (db\<lparr>sess_faults := fs\<rparr>) r \<Longrightarrow> row_step db r (upd r)"
  shows "wp (sql (update_operation i cond upd)) (\<lambda>_. step_rel db) db"
proof (intro wp_intros)
  fix fs
  let ?hit = "\<lambda>r. wo_id r = i \<and> cond (db\<lparr>sess_faults := fs\<rparr>) r"
  show "step_rel db (db\<lparr>sess_faults := fs, t_wallet_operations :=
      table_update ?hit upd (t_wallet_operations (db\<lparr>sess_faults := fs\<rparr>))\<rparr>)"
    by (rule step_rel_update[where hit = ?hit and upd = upd])
       (use assms in \<open>auto simp: row_step_def approved_request_exists_def\<close>)
next
  fix e fs
  show "step_rel db (db\<lparr>sess_faults := fs\<rparr>)" using assms(1) by (simp add: step_rel_same)
qed

definition requests_distinct :: "policy_db \<Rightarrow> bool" where
  "requests_distinct db \<longleftrightarrow> distinct (map ar_id (t_approval_requests db))"

lemma step_rel_faults: "requests_distinct db \<Longrightarrow> step_rel db (db\<lparr>sess_faults := fs\<rparr>)"
  by (rule step_rel_same) (simp_all add: requests_distinct_def)

lemma step_rel_after_reads:
  "only_session db db1 \<Longrightarrow> step_rel db1 db' \<Longrightarrow> step_rel db db'"
  by (simp add: step_rel_def operation_by_id_def only_session_tables)

definition steps_ok :: "'a policy_io \<Rightarrow> bool" where
  "steps_ok m \<longleftrightarrow> (\<forall>db. requests_distinct db \<longrightarrow> wp m (\<lambda>_. step_rel db) db)"

lemma steps_ok_reads: "io_reads m \<Longrightarrow> steps_ok m"
  by (auto simp: steps_ok_def requests_distinct_def intro!: wp_reads step_rel_reads)

lemma steps_ok_bind:
  assumes "io_reads m" "\<And>a. steps_ok (f a)"
  shows "steps_ok (io_bind m f)"
  unfolding steps_ok_def
proof (intro allI impI)
  fix db
  assume d: "requests_distinct db"
  obtain r db1 where m: "m db = (r, db1)" by (cases "m db")
  then have only: "only_session db db1" using io_readsD[OF assms(1)] by blast
  then have d1: "requests_distinct db1" using d by (simp add: requests_distinct_def only_session_tables)
  show "wp (io_bind m f) (\<lambda>_. step_rel db) db"
  proof (cases r)
    case (Inl e)
    then show ?thesis using m only d by (simp add: wp_def io_bind_def step_rel_reads requests_distinct_def)
  next
    case (Inr a)
    have "wp (f a) (\<lambda>_. step_rel db1) db1" using assms(2) d1 by (simp add: steps_ok_def)
    then show ?thesis using m Inr only by (auto simp: wp_def io_bind_def intro: step_rel_after_reads)
  qed
qed

lemma steps_ok_or_null: "io_reads c \<Longrightarrow> steps_ok m \<Longrightarrow> steps_ok (or_null c m)"
  unfolding or_null_def by (rule steps_ok_bind) (auto intro: steps_ok_reads reads_intros)

text \<open>Reads may also follow the write.\<close>

lemma steps_ok_then_reads:
  assumes "steps_ok m" "\<And>a. io_reads (f a)"
  shows "steps_ok (io_bind m f)"
  unfolding steps_ok_def
proof (intro allI impI)
  fix db
  assume "requests_distinct db"
  then have m: "wp m (\<lambda>_. step_rel db) db" using assms(1) by (simp add: steps_ok_def)
  have "step_rel db db2" if "step_rel db db1" "only_session db1 db2" for db1 db2
    using that by (simp add: step_rel_def operation_by_id_def row_step_def approved_request_exists_def
        only_session_tables)
  then show "wp (io_bind m f) (\<lambda>_. step_rel db) db"
    using m io_readsD[OF assms(2)]
    by (intro wp_bind, elim wp_mono) (auto split: sum.split intro!: wpI)
qed

lemma steps_ok_update_operation:
  assumes "\<And>db r. wo_id r = i \<Longrightarrow> cond db r \<Longrightarrow> row_step db r (upd r)"
  shows "steps_ok (sql (update_operation i cond upd))"
  unfolding steps_ok_def requests_distinct_def
proof (intro allI impI wp_sql_update_operation)
  fix db fs r
  assume "wo_id r = i" "cond (db\<lparr>sess_faults := fs\<rparr>) r"
  from assms[OF this] show "row_step db r (upd r)"
    by (simp add: row_step_def approved_request_exists_def)
qed

lemma check_optional_reads [reads_intros]: "(\<And>x. io_reads (check x)) \<Longrightarrow> io_reads (check_optional v check)"
  unfolding check_optional_def by (intro reads_intros)

lemma io_reads_operation_lookups [reads_intros]:
  "io_reads (getWalletOperationByIdInternal i)" "io_reads (getPolicyEvaluationByIdInternal i)"
  "io_reads (getWalletOperationById scope i)" "io_reads (listPolicyEvaluationsForOperation scope i)"
  unfolding getWalletOperationByIdInternal_def getPolicyEvaluationByIdInternal_def
    getWalletOperationById_def listPolicyEvaluationsForOperation_def
    listPolicyEvaluationsForOperationInternal_def
  by (intro reads_intros)+

section \<open>Each method is an allowed step\<close>

lemma wp_insert [wp_intros]:
  "(wo_id row \<in> wo_id ` set (t_wallet_operations db) \<Longrightarrow> Q (Inl UniqueViolation) db) \<Longrightarrow>
   (wo_id row \<notin> wo_id ` set (t_wallet_operations db) \<Longrightarrow>
      Q (Inr ()) (db\<lparr>t_wallet_operations := t_wallet_operations db @ [row]\<rparr>)) \<Longrightarrow>
   wp (insert_operation row) Q db"
  "(per_id ev \<in> per_id ` set (t_policy_evaluations db) \<Longrightarrow> Q (Inl UniqueViolation) db) \<Longrightarrow>
   (per_id ev \<notin> per_id ` set (t_policy_evaluations db) \<Longrightarrow>
      Q (Inr ()) (db\<lparr>t_policy_evaluations := t_policy_evaluations db @ [ev]\<rparr>)) \<Longrightarrow>
   wp (insert_evaluation ev) Q db"
  by (simp_all add: wp_def insert_operation_def insert_evaluation_def)

lemma wp_insert_approval_request [wp_intros]:
  assumes "\<And>old. find (\<lambda>r. ar_wallet_operation_id r = ar_wallet_operation_id row) (t_approval_requests db) = Some old \<Longrightarrow>
      Q (Inr (Some old)) db"
    and "Q (Inl UniqueViolation) db"
    and "find (\<lambda>r. ar_wallet_operation_id r = ar_wallet_operation_id row) (t_approval_requests db) = None \<Longrightarrow>
      ar_id row \<notin> ar_id ` set (t_approval_requests db) \<Longrightarrow>
      Q (Inr (Some row)) (db\<lparr>t_approval_requests := t_approval_requests db @ [row]\<rparr>)"
  shows "wp (insert_approval_request row) Q db"
  using assms by (auto simp: wp_def insert_approval_request_def split: option.splits)

lemma steps_ok_sql_now:
  assumes "\<And>t. steps_ok (sql (f t))"
  shows "steps_ok (sql (io_bind now f))"
proof -
  have "sql (io_bind now f) db = sql (f (sess_clock db)) db" for db
    by (simp add: sql_def io_bind_def now_def io_get_def split: list.split)
  then show ?thesis using assms by (simp add: steps_ok_def wp_def)
qed

lemma steps_ok_insert_operation:
  assumes "wo_status row = OpCreated"
  shows "steps_ok (sql (insert_operation row))"
proof -
  have "step_rel db (db\<lparr>sess_faults := fs, t_wallet_operations := t_wallet_operations db @ [row]\<rparr>)"
    if "requests_distinct db" "wo_id row \<notin> wo_id ` set (t_wallet_operations db)" for db fs
    using that assms by (auto simp: step_rel_def requests_distinct_def operation_by_id_def find_append
        row_step_def split: option.splits if_splits)
  then show ?thesis
    unfolding steps_ok_def
    by (auto simp: step_rel_faults intro!: wp_intros)
qed

lemma steps_ok_create:
  "initialStatus input = OpCreated \<Longrightarrow> steps_ok (repo_createWalletOperation scope input)"
  unfolding repo_createWalletOperation_def
  by (intro steps_ok_bind steps_ok_or_null reads_intros
      steps_ok_then_reads[OF steps_ok_sql_now[OF steps_ok_insert_operation]])
     (simp add: new_operation_row_def)

lemma steps_ok_evaluation: "steps_ok (createPolicyEvaluation scope input)"
proof -
  have "steps_ok (sql (insert_evaluation ev))" for ev
    unfolding steps_ok_def requests_distinct_def
    by (auto intro!: wp_intros step_rel_same)
  then show ?thesis
    unfolding createPolicyEvaluation_def
    by (intro steps_ok_bind steps_ok_or_null reads_intros steps_ok_then_reads[OF steps_ok_sql_now])
qed

lemma steps_ok_request: "steps_ok (repo_createApprovalRequest scope input)"
proof -
  have "step_rel db (db\<lparr>sess_faults := fs, t_approval_requests := t_approval_requests db @ [row]\<rparr>)"
    if "requests_distinct db" "ar_id row \<notin> ar_id ` set (t_approval_requests db)" for db fs row
    using that by (auto simp: step_rel_def requests_distinct_def operation_by_id_def row_step_def)
  then have "steps_ok (sql (insert_approval_request row))" for row
    unfolding steps_ok_def
    by (auto simp: step_rel_faults intro!: wp_intros)
  then show ?thesis
    unfolding repo_createApprovalRequest_def
    by (intro steps_ok_bind steps_ok_or_null reads_intros steps_ok_sql_now)
qed

lemma steps_ok_status:
  assumes "st \<noteq> OpExecuting"
  shows "steps_ok (repo_updateWalletOperationStatus scope i st)"
  unfolding repo_updateWalletOperationStatus_def
  by (intro steps_ok_or_null reads_intros steps_ok_sql_now steps_ok_update_operation)
     (use assms in \<open>simp add: row_step_def\<close>)

lemma steps_ok_claim: "steps_ok (claimWalletOperationExecution scope i attempt)"
  unfolding claimWalletOperationExecution_def
  by (intro steps_ok_bind steps_ok_or_null reads_intros steps_ok_update_operation)
     (simp add: row_step_def claimable_def)

lemma steps_ok_lease:
  "steps_ok (renewWalletOperationExecutionLease scope i attempt)"
  "steps_ok (beginWalletOperationExecutionEffect scope i attempt)"
  "steps_ok (completeWalletOperationExecution scope input)"
proof -
  show "steps_ok (renewWalletOperationExecutionLease scope i attempt)"
    unfolding renewWalletOperationExecutionLease_def
    by (intro steps_ok_bind[OF io_reads_now] steps_ok_then_reads steps_ok_update_operation reads_intros)
       (simp add: row_step_def)
  show "steps_ok (beginWalletOperationExecutionEffect scope i attempt)"
    unfolding beginWalletOperationExecutionEffect_def
    by (intro steps_ok_bind[OF io_reads_now] steps_ok_then_reads steps_ok_update_operation reads_intros)
       (auto simp: row_step_def holds_lease_def coalesce_def)
  show "steps_ok (completeWalletOperationExecution scope input)"
    unfolding completeWalletOperationExecution_def
    by (intro steps_ok_bind[OF io_reads_now] steps_ok_update_operation) (simp add: row_step_def)
qed

lemma steps_ok_recover: "steps_ok fail_interrupted_effects"
proof -
  have "steps_ok (sql (io_modify (\<lambda>db. db\<lparr>t_wallet_operations :=
      table_update (hit db) upd (t_wallet_operations db)\<rparr>)))"
    if "\<And>db' r. row_step db' r (upd r)" for hit upd
    unfolding steps_ok_def requests_distinct_def
    using that by (intro allI impI wp_intros) (auto intro: step_rel_same step_rel_update)
  then show ?thesis
    unfolding fail_interrupted_effects_def
    by (intro steps_ok_bind[OF io_reads_now]) (simp add: row_step_def)
qed

text \<open>Resolving a request: the one step that changes a request, and the one that starts execution.\<close>

lemma step_rel_resolve:
  assumes d: "requests_distinct db"
    and c: "find (request_in_scope scope i) (t_approval_requests db) = Some c" "ar_status c = ArPending"
    and res: "service_resolution st ost"
    and upd: "\<And>a. ar_id (upd a) = ar_id a \<and> ar_wallet_operation_id (upd a) = ar_wallet_operation_id a \<and>
      ar_status (upd a) = st"
    and reqs: "t_approval_requests db' = table_update (request_in_scope scope i) upd (t_approval_requests db)"
    and ops: "t_wallet_operations db' = table_update (\<lambda>r. wo_id r = ar_wallet_operation_id c \<and> C r)
      (\<lambda>r. r\<lparr>wo_status := ost, wo_updated_at := t\<rparr>) (t_wallet_operations db)"
  shows "step_rel db db'"
proof -
  have cin: "c \<in> set (t_approval_requests db)" "request_in_scope scope i c" using find_Some_in[OF c(1)] by auto
  have dist: "distinct (map ar_id (t_approval_requests db'))"
    unfolding reqs using d upd by (simp add: requests_distinct_def table_update_key)
  have keep: "a \<in> set (t_approval_requests db')"
    if a: "a \<in> set (t_approval_requests db)" "ar_status a \<noteq> ArPending" for a
  proof -
    have "\<not> request_in_scope scope i a"
    proof
      assume "request_in_scope scope i a"
      then have "ar_id a = ar_id c" using cin by (simp add: request_in_scope_def)
      then have "a = c"
        using d a(1) cin(1) by (auto simp: requests_distinct_def distinct_map dest: inj_onD)
      then show False using a(2) c(2) by simp
    qed
    then show ?thesis using a(1) by (simp add: reqs set_table_update)
  qed
  have approved: "approved_request_exists db' (ar_wallet_operation_id c)" if "ost = OpExecuting"
    using that res upd cin
    by (auto simp: approved_request_exists_def reqs set_table_update service_resolution_def)
  have "operation_by_id db' k = map_option (\<lambda>r. if wo_id r = ar_wallet_operation_id c \<and> C r
      then r\<lparr>wo_status := ost, wo_updated_at := t\<rparr> else r) (operation_by_id db k)" for k
    unfolding operation_by_id_def ops by (rule find_table_update) simp
  moreover have "map wo_id (t_wallet_operations db') = map wo_id (t_wallet_operations db)"
    unfolding ops by (rule table_update_key) simp
  ultimately show ?thesis
    using dist keep approved by (auto simp: step_rel_def row_step_def)
qed

lemma wp_resolve_request [wp_intros]:
  assumes "Q (Inr (map_option (\<lambda>r. r\<lparr>ar_status := uar_status input, ar_resolved_by := uar_resolvedBy input,
        ar_resolved_at := Some t, ar_updated_at := t\<rparr>)
        (find (request_in_scope scope (uar_approvalRequestId input)) (t_approval_requests db))))
      (db\<lparr>t_approval_requests := table_update (request_in_scope scope (uar_approvalRequestId input))
        (\<lambda>r. r\<lparr>ar_status := uar_status input, ar_resolved_by := uar_resolvedBy input,
           ar_resolved_at := Some t, ar_updated_at := t\<rparr>) (t_approval_requests db)\<rparr>)"
  shows "wp (resolve_request scope input t) Q db"
  using assms by (simp add: wp_def resolve_request_def Let_def)

lemma steps_ok_transaction:
  assumes "\<And>db. requests_distinct db \<Longrightarrow>
    wp m (\<lambda>r s1. case r of Inl e \<Rightarrow> True | Inr a \<Rightarrow> \<forall>fs. step_rel db (s1\<lparr>sess_faults := fs\<rparr>)) db"
  shows "steps_ok (transaction m)"
  unfolding steps_ok_def
  by (intro allI impI wp_transaction assms) (auto simp: requests_distinct_def intro!: step_rel_reads)

lemma steps_ok_resolve:
  assumes res: "service_resolution st ost"
  shows "steps_ok (updateApprovalRequestStatus scope (resolution scope i st ost user))"
proof -
  have body: "step_rel db (db\<lparr>t_approval_requests := table_update (request_in_scope scope i)
        (\<lambda>r. r\<lparr>ar_status := st, ar_resolved_by := u, ar_resolved_at := v, ar_updated_at := w\<rparr>)
        (t_approval_requests db),
      t_wallet_operations := table_update (\<lambda>r. wo_id r = ar_wallet_operation_id c \<and> C r)
        (\<lambda>r. r\<lparr>wo_status := ost, wo_updated_at := t\<rparr>) (t_wallet_operations db),
      sess_faults := fs\<rparr>)"
    if "requests_distinct db" "find (request_in_scope scope i) (t_approval_requests db) = Some c"
      "ar_status c = ArPending" for db fs u v w c C t
    by (rule step_rel_resolve[OF that res]) simp_all
  show ?thesis
    unfolding updateApprovalRequestStatus_def resolution_def Let_def resolve_operation_def
    by (intro steps_ok_bind steps_ok_or_null steps_ok_transaction reads_intros)
       (auto simp: step_rel_faults body intro!: wp_intros)
qed

lemma steps_okD: "steps_ok m \<Longrightarrow> requests_distinct db \<Longrightarrow> step_rel db (snd (m db))"
  by (simp add: steps_ok_def wp_def)

lemmas steps_ok_methods = steps_ok_create steps_ok_evaluation steps_ok_request steps_ok_status
  steps_ok_resolve steps_ok_claim steps_ok_lease steps_ok_recover

lemma wo_step_rel:
  assumes "wo_step db db'" "requests_distinct db"
  shows "step_rel db db'"
  using assms
proof (induction rule: wo_step.induct)
  case (tick d db)
  then show ?case by (auto simp: requests_distinct_def intro: step_rel_same)
next
  case (fortune db fs)
  then show ?case by (rule step_rel_faults)
qed (auto intro: steps_okD steps_ok_methods)

section \<open>Safety of every run\<close>

lemma wo_run_distinct: "wo_step\<^sup>*\<^sup>* db db' \<Longrightarrow> requests_distinct db \<Longrightarrow> requests_distinct db'"
  by (induction rule: rtranclp_induct) (auto simp: step_rel_def requests_distinct_def dest!: wo_step_rel)

text \<open>Every operation that is executing has an approved request.\<close>

definition executing_approved :: "policy_db \<Rightarrow> bool" where
  "executing_approved db \<longleftrightarrow> (\<forall>k r. operation_by_id db k = Some r \<longrightarrow> wo_status r = OpExecuting \<longrightarrow>
     approved_request_exists db k)"

section \<open>An executing operation\<close>

definition example_operation :: "timestamp option \<Rightarrow> WalletOperationRow" where
  "example_operation effect = \<lparr>wo_id = ''op'', wo_organization_id = ''org'', wo_project_id = Some ''prj'',
     wo_custody_wallet_id = Some ''cw1'', wo_wallet_id = ''w1'', wo_api_key_id = None, wo_source = ''api'',
     wo_operation_family = FamIssuance, wo_operation_type = issuance_mint_execute, wo_asset = None,
     wo_amount = None, wo_destination = None, wo_raw_payload = [], wo_idempotency_key = None,
     wo_status = OpExecuting, wo_execution_started_at = Some 0, wo_execution_completed_at = None,
     wo_execution_error = None, wo_execution_result = None, wo_execution_attempt_id = Some ''att'',
     wo_execution_lease_expires_at = Some 600000, wo_execution_effect_started_at = effect,
     wo_execution_attempts = 1, wo_created_at = 0, wo_updated_at = 7\<rparr>"

definition example_request :: ApprovalRequestRow where
  "example_request = \<lparr>ar_id = ''appr'', ar_organization_id = ''org'', ar_project_id = Some ''prj'',
     ar_wallet_operation_id = ''op'', ar_approval_group_id = None, ar_status = ArApproved,
     ar_provider = None, ar_provider_reference = None, ar_provider_payload = [], ar_requested_by = None,
     ar_resolved_by = Some ''user'', ar_expires_at = None, ar_resolved_at = Some 0, ar_created_at = 0,
     ar_updated_at = 0\<rparr>"

definition executing_db :: "timestamp option \<Rightarrow> policy_db" where
  "executing_db effect = example_db ''active''
     \<lparr>t_wallet_operations := [example_operation effect], t_approval_requests := [example_request]\<rparr>"

lemmas executing_db_defs = executing_db_def example_operation_def example_request_def example_db_defs

lemma executing_db_ok:
  "requests_distinct (executing_db e)" "distinct (map wo_id (t_wallet_operations (executing_db e)))"
  "executing_approved (executing_db e)"
  by (auto simp: executing_db_defs requests_distinct_def executing_approved_def operation_by_id_def
      approved_request_exists_def split: if_splits)

lemma executing_db_effect:
  "beginWalletOperationExecutionEffect example_scope ''op'' ''att'' (executing_db e) =
     (Inr True, executing_db (Some (case e of None \<Rightarrow> 7 | Some t \<Rightarrow> t)))"
  by (simp add: beginWalletOperationExecutionEffect_def effect_simps now_def sql_def update_operation_def
      table_update_def op_in_scope_def holds_lease_def coalesce_def executing_db_defs split: option.split)

lemma executing_db_recovers: "wo_step (executing_db None) (executing_db None)"
proof -
  have "snd (fail_interrupted_effects (executing_db None)) = executing_db None"
    by (simp add: fail_interrupted_effects_def effect_simps now_def sql_def table_update_def executing_db_defs)
  then show ?thesis using wo_step.recover[of "executing_db None"] by simp
qed

text \<open>Approval decisions are final: whatever happens afterwards, in any interleaving and with any
  failures, a request that has been approved, rejected, cancelled or failed is never changed again.\<close>

theorem approval_decisions_are_final:
  assumes "wo_step\<^sup>*\<^sup>* db db'" and "requests_distinct db"
    and "a \<in> set (t_approval_requests db)" and "ar_status a \<noteq> ArPending"
  shows "a \<in> set (t_approval_requests db')"
  using assms
proof (induction rule: rtranclp_induct)
  case (step y z)
  then show ?case using wo_step_rel wo_run_distinct by (fastforce simp: step_rel_def)
qed simp

theorem approval_decisions_are_final_witness:
  "example_request \<in> set (t_approval_requests (snd (fail_interrupted_effects (executing_db None))))"
proof -
  have "wo_step\<^sup>*\<^sup>* (executing_db None) (snd (fail_interrupted_effects (executing_db None)))"
    using wo_step.recover by blast
  then show ?thesis
    by (rule approval_decisions_are_final)
       (simp_all add: executing_db_ok, simp_all add: executing_db_defs)
qed

lemma operation_by_id_id: "operation_by_id db k = Some r \<Longrightarrow> wo_id r = k"
  using find_Some_in by (fastforce simp: operation_by_id_def)

lemma executing_approved_step:
  assumes "step_rel db db'" "executing_approved db"
  shows "executing_approved db'"
  unfolding executing_approved_def
proof (intro allI impI)
  fix k r'
  assume r': "operation_by_id db' k = Some r'" "wo_status r' = OpExecuting"
  have app: "approved_request_exists db k \<Longrightarrow> approved_request_exists db' k"
    using assms(1) by (force simp: step_rel_def approved_request_exists_def)
  show "approved_request_exists db' k"
  proof (cases "operation_by_id db k")
    case None
    then show ?thesis using assms(1) r' by (auto simp: step_rel_def)
  next
    case (Some r)
    then have "row_step db' r r'" using assms(1) r'(1) by (force simp: step_rel_def)
    then consider "wo_status r = OpExecuting" | "approved_request_exists db' (wo_id r)"
      using r'(2) by (auto simp: row_step_def)
    then show ?thesis
      using Some assms(2) app operation_by_id_id[OF Some] by cases (auto simp: executing_approved_def)
  qed
qed

text \<open>C21. No wallet operation executes without an approval: from a database in which that is so, no
  interleaving of requests, resolutions, claims, recoveries and failures reaches one in which an
  operation is executing and has no approved request.\<close>

theorem executing_operations_are_approved:
  assumes "wo_step\<^sup>*\<^sup>* db db'" and "requests_distinct db" and "executing_approved db"
  shows "executing_approved db'"
  using assms
proof (induction rule: rtranclp_induct)
  case (step y z)
  then show ?case using wo_step_rel wo_run_distinct executing_approved_step by blast
qed simp

theorem executing_operations_are_approved_witness:
  "executing_approved (snd (fail_interrupted_effects (executing_db None))) \<and>
   (\<exists>r. operation_by_id (executing_db None) ''op'' = Some r \<and> wo_status r = OpExecuting)"
proof
  have "wo_step\<^sup>*\<^sup>* (executing_db None) (snd (fail_interrupted_effects (executing_db None)))"
    using wo_step.recover by blast
  then show "executing_approved (snd (fail_interrupted_effects (executing_db None)))"
    by (rule executing_operations_are_approved) (rule executing_db_ok)+
  show "\<exists>r. operation_by_id (executing_db None) ''op'' = Some r \<and> wo_status r = OpExecuting"
    by (simp add: operation_by_id_def executing_db_defs)
qed

section \<open>The effect fence\<close>

definition fenced :: "policy_db \<Rightarrow> string \<Rightarrow> string \<Rightarrow> bool" where
  "fenced db k attempt \<longleftrightarrow> (\<exists>r. operation_by_id db k = Some r \<and>
     wo_execution_effect_started_at r \<noteq> None \<and> wo_execution_attempt_id r = Some attempt)"

lemma fenced_step: "step_rel db db' \<Longrightarrow> fenced db k attempt \<Longrightarrow> fenced db' k attempt"
  by (fastforce simp: step_rel_def fenced_def row_step_def)

lemma fenced_run:
  assumes "wo_step\<^sup>*\<^sup>* db db'" "requests_distinct db" "fenced db k attempt"
  shows "fenced db' k attempt"
  using assms
proof (induction rule: rtranclp_induct)
  case (step y z)
  then show ?case using wo_step_rel wo_run_distinct fenced_step by blast
qed simp

lemma find_unique_and:
  assumes "distinct (map key rows)" "find (\<lambda>r. key r = k \<and> P r) rows = Some x"
  shows "find (\<lambda>r. key r = k) rows = Some x"
  using find_key_unique[OF assms(1)] find_Some_in[OF assms(2)] by blast

lemma begin_effect_wp:
  assumes "distinct (map wo_id (t_wallet_operations db))"
  shows "wp (beginWalletOperationExecutionEffect scope k attempt)
    (\<lambda>r db'. r = Inr True \<longrightarrow> fenced db' k attempt \<and>
       (\<exists>row. operation_by_id db k = Some row \<and> wo_execution_attempt_id row = Some attempt)) db"
proof -
  let ?hit = "\<lambda>r. wo_id r = k \<and> op_in_scope scope r \<and> holds_lease attempt (sess_clock db) r"
  let ?upd = "\<lambda>r. r\<lparr>wo_execution_effect_started_at :=
      coalesce (wo_execution_effect_started_at r) (sess_clock db), wo_updated_at := sess_clock db\<rparr>"
  have holder: "operation_by_id db k = Some r \<and> ?hit r \<and> wo_execution_attempt_id r = Some attempt"
    if "find ?hit (t_wallet_operations db) = Some r" for r
    using find_Some_in[OF that] find_unique_and[OF assms that]
    by (simp add: operation_by_id_def holds_lease_def)
  have fence: "fenced db' k attempt"
    if hit: "find ?hit (t_wallet_operations db) = Some r"
      and db': "t_wallet_operations db' = table_update ?hit ?upd (t_wallet_operations db)" for r db'
  proof -
    have "operation_by_id db' k = map_option (\<lambda>r. if ?hit r then ?upd r else r) (operation_by_id db k)"
      unfolding operation_by_id_def db' by (rule find_table_update) simp
    with holder[OF hit] have "operation_by_id db' k = Some (?upd r)" by simp
    then show ?thesis using holder[OF hit] by (auto simp: fenced_def coalesce_def split: option.split)
  qed
  have "\<exists>r. find ?hit (t_wallet_operations db) = Some r \<and>
      t_wallet_operations db' = table_update ?hit ?upd (t_wallet_operations db)"
    if run: "beginWalletOperationExecutionEffect scope k attempt db = (Inr True, db')" for db'
  proof -
    obtain row where sq: "sql (update_operation k (\<lambda>_ r. op_in_scope scope r \<and>
        holds_lease attempt (sess_clock db) r) ?upd) db = (Inr row, db')" and row: "row \<noteq> None"
      using run unfolding beginWalletOperationExecutionEffect_def now_def
      by (auto simp: io_bind_Inr_iff io_get_def io_return_def)
    obtain fs where "update_operation k (\<lambda>_ r. op_in_scope scope r \<and>
        holds_lease attempt (sess_clock db) r) ?upd (db\<lparr>sess_faults := fs\<rparr>) = (Inr row, db')"
      using sql_Inr[OF sq] by blast
    then show ?thesis using row by (auto simp: update_operation_def Let_def)
  qed
  then show ?thesis using fence holder by (intro wpI impI) blast
qed

lemma wo_run_distinct_operations:
  assumes "wo_step\<^sup>*\<^sup>* db db'" "requests_distinct db" "distinct (map wo_id (t_wallet_operations db))"
  shows "distinct (map wo_id (t_wallet_operations db'))"
  using assms
proof (induction rule: rtranclp_induct)
  case (step y z)
  then show ?case using wo_step_rel[OF step(2)] wo_run_distinct[OF step(1)] by (simp add: step_rel_def)
qed simp

text \<open>C4. At most one execution attempt ever crosses the boundary to an external effect: if the fence of
  an operation is entered by one attempt, and later, after any run of the system, by another call,
  that call belongs to the same attempt. An attempt that lost its lease cannot submit a second time
  beside the one that took over, and none takes over once the fence is set.\<close>

theorem effect_fence_is_exclusive:
  assumes "beginWalletOperationExecutionEffect scope k attempt db = (Inr True, db1)"
    and "wo_step\<^sup>*\<^sup>* db1 db2"
    and "beginWalletOperationExecutionEffect scope' k attempt' db2 = (Inr True, db3)"
    and "requests_distinct db" and "distinct (map wo_id (t_wallet_operations db))"
  shows "attempt' = attempt"
proof -
  have one: "fenced db1 k attempt" using wpD[OF begin_effect_wp[OF assms(5)] assms(1)] by simp
  have "wo_step db db1" using assms(1) wo_step.effect[of db scope k attempt] by simp
  then have s1: "wo_step\<^sup>*\<^sup>* db db1" and d1: "requests_distinct db1"
    using wo_run_distinct assms(4) by blast+
  have "wo_step\<^sup>*\<^sup>* db db2" using s1 assms(2) by (rule rtranclp_trans)
  then have "distinct (map wo_id (t_wallet_operations db2))"
    using wo_run_distinct_operations assms(4,5) by blast
  then obtain row where "operation_by_id db2 k = Some row" "wo_execution_attempt_id row = Some attempt'"
    using wpD[OF begin_effect_wp assms(3)] by blast
  then show ?thesis using fenced_run[OF assms(2) d1 one] by (auto simp: fenced_def)
qed

theorem effect_fence_is_exclusive_witness:
  "beginWalletOperationExecutionEffect example_scope ''op'' ''att'' (executing_db None) =
     (Inr True, executing_db (Some 7)) \<and>
   beginWalletOperationExecutionEffect example_scope ''op'' ''att'' (executing_db (Some 7)) =
     (Inr True, executing_db (Some 7)) \<and>
   fst (beginWalletOperationExecutionEffect example_scope ''op'' ''other'' (executing_db (Some 7))) \<noteq> Inr True"
proof (intro conjI)
  have eff: "beginWalletOperationExecutionEffect example_scope ''op'' ''att'' (executing_db None) =
     (Inr True, executing_db (Some 7))"
    using executing_db_effect[of None] by simp
  show "beginWalletOperationExecutionEffect example_scope ''op'' ''att'' (executing_db None) =
     (Inr True, executing_db (Some 7))" by (rule eff)
  show "beginWalletOperationExecutionEffect example_scope ''op'' ''att'' (executing_db (Some 7)) =
     (Inr True, executing_db (Some 7))"
    using executing_db_effect[of "Some 7"] by simp
  have "False" if "beginWalletOperationExecutionEffect example_scope ''op'' ''other''
      (executing_db (Some 7)) = (Inr True, db3)" for db3
    using effect_fence_is_exclusive[OF eff rtranclp.rtrancl_refl that executing_db_ok(1,2)] by simp
  then show "fst (beginWalletOperationExecutionEffect example_scope ''op'' ''other''
      (executing_db (Some 7))) \<noteq> Inr True"
    by (metis prod.collapse)
qed

end
