(* ===== verification/Enforcement_Store.thy ===== *)
theory Enforcement_Store
  imports Policy_Resolution Wallet_Operations
begin

text \<open>
  The Postgres-backed enforcement store (\<^verbatim>\<open>services/policy/enforcement.store.ts\<close>): the port of the
  enforcement flow implemented on the repository, and its proof that it keeps the port's laws. The
  interpretation \<open>pg\<close> of \<open>enforcement_store\<close> is what carries the flow's guarantees to the database.
\<close>

section \<open>Rows to domain values\<close>

definition isJsonObject :: "json option \<Rightarrow> bool" where
  "isJsonObject v = (case v of Some (JObj _) \<Rightarrow> True | _ \<Rightarrow> False)"

fun getJsonObject :: "json option \<Rightarrow> json_object" where
  "getJsonObject (Some (JObj ob)) = ob"
| "getJsonObject _ = []"

definition api_key_actor :: "string \<Rightarrow> WalletOperationActor" where
  "api_key_actor i = [(''type'', JStr ''api_key''), (''id'', JStr i), (''apiKeyId'', JStr i)]"

definition getWalletOperationActor :: "WalletOperationRow \<Rightarrow> WalletOperationActor option" where
  "getWalletOperationActor row =
     (case json_field (wo_raw_payload row) ''actor'' of
        Some actor \<Rightarrow> if isJsonObject (Some actor) then Some (getJsonObject (Some actor)) else None
      | None \<Rightarrow>
          (case wo_api_key_id row of
             Some k \<Rightarrow> if k \<noteq> [] then Some (api_key_actor k) else None
           | None \<Rightarrow> None))"

definition getWalletOperationProviderExtensions :: "json_object \<Rightarrow> json_object" where
  "getWalletOperationProviderExtensions rawPayload =
     (if isJsonObject (json_field rawPayload ''providerExtensions'')
      then getJsonObject (json_field rawPayload ''providerExtensions'')
      else case json_field rawPayload ''provider'' of
             Some (JStr p) \<Rightarrow> [(''provider'', JStr p)]
           | _ \<Rightarrow> [])"

text \<open>The two \<^verbatim>\<open>zod\<close> parses hold by typing: the rows of the model carry live families and types.\<close>

definition mapWalletOperation :: "WalletOperationRow \<Rightarrow> WalletOperationEnvelope" where
  "mapWalletOperation row =
     \<lparr>pc_organizationId = wo_organization_id row, pc_projectId = wo_project_id row,
      pc_custodyWalletId = wo_custody_wallet_id row, pc_walletId = wo_wallet_id row,
      pc_apiKeyId = wo_api_key_id row, pc_actor = getWalletOperationActor row,
      pc_source = wo_source row, pc_operationFamily = wo_operation_family row,
      pc_operationType = wo_operation_type row, pc_asset = wo_asset row, pc_amount = wo_amount row,
      pc_destination = wo_destination row,
      pc_context = getJsonObject (json_field (wo_raw_payload row) ''context''),
      pc_providerExtensions = getWalletOperationProviderExtensions (wo_raw_payload row),
      woe_id = wo_id row, woe_rawPayload = wo_raw_payload row,
      woe_idempotencyKey = wo_idempotency_key row, woe_status = wo_status row,
      woe_createdAt = wo_created_at row, woe_updatedAt = wo_updated_at row\<rparr>"

definition mapPolicyEvaluation :: "PolicyEvaluationRow \<Rightarrow> PolicyEvaluation" where
  "mapPolicyEvaluation row =
     \<lparr>pe_id = per_id row, pe_walletOperationId = per_wallet_operation_id row,
      pe_walletPolicyRevisionId = per_wallet_policy_revision_id row,
      pe_apiKeyPolicyRevisionId = per_api_key_policy_revision_id row,
      pe_decision = per_decision row, pe_reasonCode = per_reason_code row,
      pe_reason = per_reason row, pe_matchedRules = per_matched_rules row,
      pe_evaluationContext = per_evaluation_context row,
      pe_requiresApproval = per_requires_approval row,
      pe_approvalRequestId = per_approval_request_id row, pe_createdAt = per_created_at row\<rparr>"

section \<open>The store\<close>

text \<open>\<^verbatim>\<open>if (!row) throw internalError(message)\<close>.\<close>

definition require_row :: "string \<Rightarrow> 'a option policy_io \<Rightarrow> 'a policy_io" where
  "require_row message m = io_bind m (\<lambda>row. case row of
     None \<Rightarrow> io_throw (internalError message) | Some r \<Rightarrow> io_return r)"

definition store_createWalletOperation ::
  "TenantScope \<Rightarrow> CreateWalletOperationInput \<Rightarrow> WalletOperationEnvelope policy_io" where
  "store_createWalletOperation scope input =
     io_map mapWalletOperation
       (require_row ''Failed to record wallet operation'' (repo_createWalletOperation scope input))"

definition resolveCandidateApiKeyScope ::
  "TenantScope \<Rightarrow> PolicyCandidate \<Rightarrow> ApiKeyOperationScope option policy_io" where
  "resolveCandidateApiKeyScope scope candidate =
     (case (pc_apiKeyId candidate, pc_custodyWalletId candidate) of
        (Some k, Some w) \<Rightarrow> io_map Some (resolveOperationScope scope k w)
      | _ \<Rightarrow> io_return None)"

definition loadEffectivePolicies ::
  "TenantScope \<Rightarrow> PolicyCandidate \<Rightarrow> EffectiveOperationPolicies policy_io" where
  "loadEffectivePolicies scope candidate =
     io_bind (io_lift (assertTenantClaim scope (pc_organizationId candidate) (pc_projectId candidate)
       ''PolicyEnforcementStore.loadEffectivePolicies'')) (\<lambda>_.
     io_bind (resolveCandidateApiKeyScope scope candidate) (\<lambda>apiKeyScope.
     io_bind (case apiKeyScope of
         Some sc \<Rightarrow> io_return (Some (aos_apiKeyPolicy sc))
       | None \<Rightarrow>
           (case pc_apiKeyId candidate of
              Some k \<Rightarrow> io_map Some (resolveOperationPolicyWithoutCustodyWallet scope k)
            | None \<Rightarrow> io_return None)) (\<lambda>apiKeyPolicy.
     case Option.bind apiKeyScope aos_walletPolicy of
       Some walletPolicy \<Rightarrow>
         io_return \<lparr>eop_walletPolicy = walletPolicy, eop_apiKeyPolicy = apiKeyPolicy\<rparr>
     | None \<Rightarrow>
         let custodyWalletId = (case Option.bind apiKeyScope aos_custodyWalletId of
               Some w \<Rightarrow> Some w | None \<Rightarrow> pc_custodyWalletId candidate)
         in io_bind (case custodyWalletId of
              Some w \<Rightarrow> resolveEffectiveWalletPolicy scope w
            | None \<Rightarrow> io_return IMPLICIT_DEFAULT_ALLOW_POLICY) (\<lambda>walletPolicy.
            io_return \<lparr>eop_walletPolicy = walletPolicy, eop_apiKeyPolicy = apiKeyPolicy\<rparr>))))"

definition store_createApprovalRequest ::
  "TenantScope \<Rightarrow> CreateApprovalRequestInput \<Rightarrow> (string \<times> ApprovalRequestStatus) policy_io" where
  "store_createApprovalRequest scope input =
     io_map (\<lambda>row. (ar_id row, ar_status row))
       (require_row ''Failed to create wallet operation approval request''
         (repo_createApprovalRequest scope input))"

definition store_recordPolicyEvaluation ::
  "TenantScope \<Rightarrow> RecordPolicyEvaluationInput \<Rightarrow> PolicyEvaluation policy_io" where
  "store_recordPolicyEvaluation scope input =
     io_map mapPolicyEvaluation
       (require_row ''Failed to record wallet operation policy evaluation''
         (createPolicyEvaluation scope input))"

definition store_updateWalletOperationStatus ::
  "TenantScope \<Rightarrow> string \<Rightarrow> WalletOperationStatus \<Rightarrow> (WalletOperationStatus \<times> timestamp) policy_io" where
  "store_updateWalletOperationStatus scope walletOperationId status =
     io_map (\<lambda>row. (wo_status row, wo_updated_at row))
       (require_row ''Failed to update wallet operation policy status''
         (repo_updateWalletOperationStatus scope walletOperationId status))"

definition store_failApprovalRequest ::
  "TenantScope \<Rightarrow> WalletOperationEnvelope \<Rightarrow> string \<Rightarrow> unit policy_io" where
  "store_failApprovalRequest scope operation approvalRequestId =
     io_bind (updateApprovalRequestStatus scope
       \<lparr>uar_organizationId = pc_organizationId operation, uar_projectId = pc_projectId operation,
        uar_approvalRequestId = approvalRequestId, uar_status = ArFailed,
        uar_operationStatus = Some OpFailed, uar_resolvedBy = None, uar_resolvedAt = None\<rparr>)
       (\<lambda>_. io_return ())"

definition PostgresPolicyEnforcementStore :: "TenantScope \<Rightarrow> policy_db PolicyEnforcementStore" where
  "PostgresPolicyEnforcementStore scope =
     \<lparr>st_createWalletOperation = store_createWalletOperation scope,
      st_loadEffectivePolicies = loadEffectivePolicies scope,
      st_createApprovalRequest = store_createApprovalRequest scope,
      st_recordPolicyEvaluation = store_recordPolicyEvaluation scope,
      st_updateWalletOperationStatus = store_updateWalletOperationStatus scope,
      st_failApprovalRequest = store_failApprovalRequest scope\<rparr>"

section \<open>What the database says of an operation\<close>

definition status_of :: "policy_db \<Rightarrow> string \<Rightarrow> WalletOperationStatus option" where
  "status_of db k = map_option wo_status (operation_by_id db k)"

definition request_for :: "policy_db \<Rightarrow> string \<Rightarrow> ApprovalRequestRow option" where
  "request_for db k = find (\<lambda>r. ar_wallet_operation_id r = k) (t_approval_requests db)"

definition request_of :: "policy_db \<Rightarrow> string \<Rightarrow> (string \<times> ApprovalRequestStatus) option" where
  "request_of db k = map_option (\<lambda>r. (ar_id r, ar_status r)) (request_for db k)"

definition request_owner_ok :: "policy_db \<Rightarrow> ApprovalRequestRow \<Rightarrow> bool" where
  "request_owner_ok db a \<longleftrightarrow> (\<exists>r. operation_by_id db (ar_wallet_operation_id a) = Some r \<and>
     wo_organization_id r = ar_organization_id a \<and> wo_project_id r = ar_project_id a)"

text \<open>Primary keys, the unique index of requests by operation, and that a request belongs to the tenant
  of its operation.\<close>

definition operations_ok :: "policy_db \<Rightarrow> bool" where
  "operations_ok db \<longleftrightarrow> distinct (map wo_id (t_wallet_operations db)) \<and>
     distinct (map ar_id (t_approval_requests db)) \<and>
     distinct (map ar_wallet_operation_id (t_approval_requests db)) \<and>
     (\<forall>a\<in>set (t_approval_requests db). request_owner_ok db a)"

definition owned_operation :: "TenantScope \<Rightarrow> policy_db \<Rightarrow> WalletOperationEnvelope \<Rightarrow> bool" where
  "owned_operation scope db op \<longleftrightarrow>
     pc_organizationId op = ts_organizationId scope \<and> pc_projectId op = ts_projectId scope \<and>
     (\<exists>r. operation_by_id db (woe_id op) = Some r \<and> op_in_scope scope r)"

lemmas operation_state_defs = status_of_def request_of_def request_for_def operations_ok_def
  request_owner_ok_def owned_operation_def operation_by_id_def

lemma same_rows:
  assumes "t_wallet_operations db' = t_wallet_operations db" "t_approval_requests db' = t_approval_requests db"
  shows "status_of db' = status_of db" "request_of db' = request_of db"
    "operations_ok db' = operations_ok db" "owned_operation scope db' = owned_operation scope db"
    "operation_by_id db' = operation_by_id db"
  using assms by (simp_all add: operation_state_defs fun_eq_iff)

lemmas same_rows_session = same_rows[OF only_session_tables(3,4)]

lemma io_reads_load: "io_reads (loadEffectivePolicies scope candidate)"
  unfolding loadEffectivePolicies_def resolveCandidateApiKeyScope_def Let_def
  by (intro reads_intros) (auto split: option.splits intro!: reads_intros)

section \<open>Reads before a write\<close>

lemma wp_reads_bind:
  assumes "io_reads m" "\<And>e s'. only_session s s' \<Longrightarrow> Q (Inl e) s'"
    and "\<And>a s'. only_session s s' \<Longrightarrow> wp (f a) Q s'"
  shows "wp (io_bind m f) Q s"
  by (intro wp_bind wp_reads[OF assms(1)]) (auto split: sum.split intro: assms)

lemma wp_reads_or_null:
  assumes "io_reads c" "\<And>e s'. only_session s s' \<Longrightarrow> Q (Inl e) s'"
    and "\<And>s'. only_session s s' \<Longrightarrow> Q (Inr None) s'" "\<And>s'. only_session s s' \<Longrightarrow> wp m Q s'"
  shows "wp (or_null c m) Q s"
  unfolding or_null_def by (intro wp_reads_bind wp_intros) (use assms in auto)

lemma wp_owns_or_null:
  assumes "\<And>e s'. only_session s s' \<Longrightarrow> Q (Inl e) s'" "\<And>s'. only_session s s' \<Longrightarrow> Q (Inr None) s'"
    and "\<And>s'. only_session s s' \<Longrightarrow> owns_row scope table i s \<Longrightarrow> wp m Q s'"
  shows "wp (or_null (tenantOwnsRow scope table i) m) Q s"
proof -
  have "owns_row scope table i (s\<lparr>sess_faults := fs\<rparr>) = owns_row scope table i s" for fs
    by (cases table) (simp_all add: owns_row_def)
  then show ?thesis
    unfolding or_null_def tenantOwnsRow_def by (intro wp_intros) (auto intro: assms)
qed

lemma wp_map:
  "wp m (\<lambda>r s'. case r of Inl e \<Rightarrow> Q (Inl e) s' | Inr a \<Rightarrow> Q (Inr (f a)) s') s \<Longrightarrow> wp (io_map f m) Q s"
  unfolding io_map_def by (intro wp_bind, elim wp_mono) (auto split: sum.splits intro: wp_return)

lemma wp_require_row:
  "wp m (\<lambda>r s'. case r of Inl e \<Rightarrow> Q (Inl e) s' | Inr None \<Rightarrow> Q (Inl (internalError message)) s'
      | Inr (Some a) \<Rightarrow> Q (Inr a) s') s \<Longrightarrow> wp (require_row message m) Q s"
  unfolding require_row_def
  by (intro wp_bind, elim wp_mono) (auto split: sum.splits option.splits intro: wp_return wp_throw)

lemma wp_sql_now:
  assumes "\<And>fs. wp (f (sess_clock s)) Q (s\<lparr>sess_faults := fs\<rparr>)" "\<And>e fs. Q (Inl e) (s\<lparr>sess_faults := fs\<rparr>)"
  shows "wp (sql (io_bind now f)) Q s"
  by (intro wp_intros result_case_I) (use assms in auto)

section \<open>The store keeps the port's laws\<close>

definition recorded_as :: "TenantScope \<Rightarrow> CreateWalletOperationInput \<Rightarrow> WalletOperationRow \<Rightarrow> bool" where
  "recorded_as scope i row \<longleftrightarrow> (\<exists>k t. row = new_operation_row scope i k t) \<and>
     cwo_organizationId i = ts_organizationId scope \<and> cwo_projectId i = ts_projectId scope"

lemma recorded_asD:
  assumes "recorded_as scope i row"
  shows "wo_status row = initialStatus i" "op_in_scope scope row" "records_input i (mapWalletOperation row)"
  using assms by (auto simp: recorded_as_def new_operation_row_def op_in_scope_def records_input_def
      mapWalletOperation_def)

definition created_rel :: "TenantScope \<Rightarrow> CreateWalletOperationInput \<Rightarrow> policy_db \<Rightarrow>
     (api_error, WalletOperationRow option) result \<Rightarrow> policy_db \<Rightarrow> bool" where
  "created_rel scope i db r db' \<longleftrightarrow> t_approval_requests db' = t_approval_requests db \<and>
     (t_wallet_operations db' = t_wallet_operations db \<and> (\<forall>row. r \<noteq> Inr (Some row)) \<or>
      (\<exists>row. t_wallet_operations db' = t_wallet_operations db @ [row] \<and>
         wo_id row \<notin> wo_id ` set (t_wallet_operations db) \<and> recorded_as scope i row \<and>
         (\<forall>row'. r = Inr (Some row') \<longrightarrow> row' = row)))"

lemma created_rel_session:
  "created_rel scope i db1 r db2 \<Longrightarrow> only_session db db1 \<Longrightarrow> created_rel scope i db r db2"
  by (simp add: created_rel_def only_session_tables)

lemma created_rel_unchanged:
  "only_session db db' \<Longrightarrow> \<forall>row. r \<noteq> Inr (Some row) \<Longrightarrow> created_rel scope i db r db'"
  by (simp add: created_rel_def only_session_tables)

lemma insert_and_read_back:
  assumes "recorded_as scope i row"
  shows "wp (io_bind (sql (insert_operation row)) (\<lambda>_. getWalletOperationByIdInternal (wo_id row)))
    (created_rel scope i db) db"
proof -
  let ?db = "\<lambda>fs. db\<lparr>t_wallet_operations := t_wallet_operations db @ [row], sess_faults := fs\<rparr>"
  have "created_rel scope i db (Inr (operation_by_id (?db fs) (wo_id row))) (?db fs)"
    "created_rel scope i db (Inl e) (?db fs)"
    if fresh: "wo_id row \<notin> wo_id ` set (t_wallet_operations db)" for fs e
  proof -
    have "find (\<lambda>r. wo_id r = wo_id row) (t_wallet_operations db) = None"
      using fresh by (auto simp: find_None_iff image_iff)
    then show "created_rel scope i db (Inr (operation_by_id (?db fs) (wo_id row))) (?db fs)"
      "created_rel scope i db (Inl e) (?db fs)"
      using fresh assms by (simp_all add: created_rel_def operation_by_id_def find_append)
  qed
  then show ?thesis
    unfolding getWalletOperationByIdInternal_def
    by (intro wp_intros) (auto simp: created_rel_unchanged)
qed

lemma repo_create_wp: "wp (repo_createWalletOperation scope i) (created_rel scope i db) db"
proof -
  have body: "wp (io_bind (sql (io_bind now (\<lambda>t. insert_operation (new_operation_row scope i (''wop_'' @ uuid) t))))
      (\<lambda>_. getWalletOperationByIdInternal (''wop_'' @ uuid)))
    (created_rel scope i db1) db1"
    if claim: "cwo_organizationId i = ts_organizationId scope" "cwo_projectId i = ts_projectId scope" for uuid db1
  proof -
    have "sql (io_bind now f) db = sql (f (sess_clock db)) db" for db and f :: "timestamp \<Rightarrow> unit policy_io"
      by (simp add: sql_def io_bind_def now_def io_get_def split: list.split)
    moreover have "recorded_as scope i (new_operation_row scope i (''wop_'' @ uuid) (sess_clock db1))"
      using claim by (auto simp: recorded_as_def)
    ultimately show ?thesis
      using insert_and_read_back[of scope i "new_operation_row scope i (''wop_'' @ uuid) (sess_clock db1)" db1]
      by (simp add: wp_def io_bind_def new_operation_row_def)
  qed
  show ?thesis
    unfolding repo_createWalletOperation_def
  proof (rule wp_bind, rule wp_lift, rule result_case_I)
    fix u
    assume "assertTenantClaim scope (cwo_organizationId i) (cwo_projectId i)
        ''PolicyRepository.createWalletOperation'' = Inr u"
    then have claim: "cwo_organizationId i = ts_organizationId scope" "cwo_projectId i = ts_projectId scope"
      by simp_all
    show "wp (or_null (tenantOwnsWalletTarget scope (cwo_walletId i) (cwo_custodyWalletId i))
     (or_null (check_optional (cwo_apiKeyId i) (tenantOwnsRow scope T_api_keys))
       (io_bind randomUUID (\<lambda>uuid.
        io_bind (sql (io_bind now (\<lambda>t.
          insert_operation (new_operation_row scope i (''wop_'' @ uuid) t)))) (\<lambda>_.
        getWalletOperationByIdInternal (''wop_'' @ uuid)))))) (created_rel scope i db) db"
      by (intro wp_reads_bind wp_reads_or_null reads_intros wp_mono[OF body[OF claim]])
         (auto intro: created_rel_unchanged created_rel_session only_session_trans)
  qed (simp add: created_rel_unchanged)
qed

lemma append_operation:
  assumes "operations_ok db" "wo_id row \<notin> wo_id ` set (t_wallet_operations db)"
    and "t_wallet_operations db' = t_wallet_operations db @ [row]"
    and "t_approval_requests db' = t_approval_requests db"
  shows "operations_ok db'" "status_of db' = (status_of db)(wo_id row \<mapsto> wo_status row)"
    "request_of db' = request_of db" "status_of db (wo_id row) = None" "request_of db (wo_id row) = None"
    "operation_by_id db' (wo_id row) = Some row"
proof -
  have none: "find (\<lambda>r. wo_id r = wo_id row) (t_wallet_operations db) = None"
    using assms(2) by (auto simp: find_None_iff image_iff)
  have by_id: "operation_by_id db' k = (if k = wo_id row then Some row else operation_by_id db k)" for k
    using none assms(3) by (auto simp: operation_by_id_def find_append split: option.split)
  show "status_of db' = (status_of db)(wo_id row \<mapsto> wo_status row)" "operation_by_id db' (wo_id row) = Some row"
    by (auto simp: status_of_def by_id fun_eq_iff)
  show "request_of db' = request_of db" using assms(4) by (simp add: request_of_def request_for_def fun_eq_iff)
  show st: "status_of db (wo_id row) = None" using none by (simp add: status_of_def operation_by_id_def)
  have "ar_wallet_operation_id a \<noteq> wo_id row" if "a \<in> set (t_approval_requests db)" for a
    using that assms(1) none by (auto simp: operations_ok_def request_owner_ok_def operation_by_id_def)
  then show "request_of db (wo_id row) = None"
    by (auto simp: request_of_def request_for_def find_None_iff)
  have "request_owner_ok db' a" if "request_owner_ok db a" for a
    using that st by (auto simp: request_owner_ok_def by_id status_of_def)
  then show "operations_ok db'" using assms by (auto simp: operations_ok_def)
qed

lemma mapped_row_cases:
  assumes "io_map f (require_row message m) s = (r, s')"
  obtains (row) x where "m s = (Inr (Some x), s')" "r = Inr (f x)"
  | (none) q e where "m s = (q, s')" "\<forall>x. q \<noteq> Inr (Some x)" "r = Inl e"
  using assms by (auto simp: io_map_def require_row_def effect_simps split: prod.splits sum.splits option.splits)

lemma store_create_ok:
  assumes "operations_ok db" "store_createWalletOperation scope i db = (Inr op, db')"
  shows "operations_ok db' \<and> owned_operation scope db' op \<and> records_input i op \<and> status_of db (woe_id op) = None \<and>
    request_of db (woe_id op) = None \<and> woe_status op = initialStatus i \<and>
    status_of db' = (status_of db)(woe_id op \<mapsto> initialStatus i) \<and> request_of db' = request_of db"
  using assms(2) unfolding store_createWalletOperation_def
proof (cases rule: mapped_row_cases)
  case (row x)
  then have new: "wo_id x \<notin> wo_id ` set (t_wallet_operations db)"
      "t_wallet_operations db' = t_wallet_operations db @ [x]"
      "t_approval_requests db' = t_approval_requests db" "recorded_as scope i x"
    using wpD[OF repo_create_wp row(1)] by (auto simp: created_rel_def)
  have op: "op = mapWalletOperation x" using row(2) by simp
  show ?thesis
    using append_operation[OF assms(1) new(1-3)] recorded_asD[OF new(4)]
    by (simp add: op mapWalletOperation_def owned_operation_def op_in_scope_def)
qed auto

lemma store_create_err:
  assumes "operations_ok db" "store_createWalletOperation scope i db = (Inl e, db')"
  shows "operations_ok db' \<and> request_of db' = request_of db \<and>
    (status_of db' = status_of db \<or> (\<exists>k. status_of db k = None \<and> request_of db k = None \<and>
       status_of db' = (status_of db)(k \<mapsto> initialStatus i)))"
  using assms(2) unfolding store_createWalletOperation_def
proof (cases rule: mapped_row_cases)
  case (none q e')
  have "created_rel scope i db q db'" by (rule wpD[OF repo_create_wp none(1)])
  then consider (same) "t_wallet_operations db' = t_wallet_operations db"
      "t_approval_requests db' = t_approval_requests db"
    | (new) row where "wo_id row \<notin> wo_id ` set (t_wallet_operations db)"
      "t_wallet_operations db' = t_wallet_operations db @ [row]"
      "t_approval_requests db' = t_approval_requests db" "recorded_as scope i row"
    unfolding created_rel_def by blast
  then show ?thesis
  proof cases
    case same
    then show ?thesis using same_rows[OF same] assms(1) by simp
  next
    case (new row)
    then show ?thesis using append_operation[OF assms(1) new(1-3)] recorded_asD[OF new(4)] by auto
  qed
qed auto

lemma owns_operation_row:
  assumes "operations_ok db" "owns_row scope T_wallet_operations k db"
  shows "\<exists>r. operation_by_id db k = Some r \<and> op_in_scope scope r"
proof -
  obtain r where "r \<in> set (t_wallet_operations db)" "wo_id r = k" "op_in_scope scope r"
    using assms(2) by (auto simp: owns_row_def op_in_scope_def)
  moreover have "distinct (map wo_id (t_wallet_operations db))"
    using assms(1) by (simp add: operations_ok_def)
  ultimately have "find (\<lambda>x. wo_id x = k) (t_wallet_operations db) = Some r"
    by (simp add: find_key_unique)
  then show ?thesis using \<open>op_in_scope scope r\<close> by (simp add: operation_by_id_def)
qed

text \<open>Creating an approval request adds one for the operation, or finds the one it has.\<close>

definition requested_rel :: "string \<Rightarrow> policy_db \<Rightarrow> (api_error, ApprovalRequestRow option) result \<Rightarrow>
     policy_db \<Rightarrow> bool" where
  "requested_rel k db r db' \<longleftrightarrow> t_wallet_operations db' = t_wallet_operations db \<and>
     (case r of
        Inr (Some row) \<Rightarrow> request_for db' k = Some row \<and> operations_ok db' \<and>
          (\<forall>k'. k' \<noteq> k \<longrightarrow> request_for db' k' = request_for db k')
      | _ \<Rightarrow> t_approval_requests db' = t_approval_requests db)"

lemma insert_request_rel:
  assumes "operations_ok db" "owns_row scope T_wallet_operations (ar_wallet_operation_id row) db"
    and "ar_organization_id row = ts_organizationId scope" "ar_project_id row = ts_projectId scope"
  shows "wp (insert_approval_request row) (requested_rel (ar_wallet_operation_id row) db) db"
proof (intro wp_insert_approval_request)
  fix old
  assume "find (\<lambda>r. ar_wallet_operation_id r = ar_wallet_operation_id row) (t_approval_requests db) = Some old"
  then show "requested_rel (ar_wallet_operation_id row) db (Inr (Some old)) db"
    using assms(1) by (simp add: requested_rel_def request_for_def)
next
  show "requested_rel (ar_wallet_operation_id row) db (Inl UniqueViolation) db" by (simp add: requested_rel_def)
next
  let ?db = "db\<lparr>t_approval_requests := t_approval_requests db @ [row]\<rparr>"
  assume none: "find (\<lambda>r. ar_wallet_operation_id r = ar_wallet_operation_id row) (t_approval_requests db) = None"
    and fresh: "ar_id row \<notin> ar_id ` set (t_approval_requests db)"
  have "request_owner_ok ?db row"
    using owns_operation_row[OF assms(1,2)] assms(3,4)
    by (auto simp: request_owner_ok_def operation_by_id_def op_in_scope_def)
  moreover have "request_owner_ok ?db a = request_owner_ok db a" for a
    by (simp add: request_owner_ok_def operation_by_id_def)
  ultimately have "operations_ok ?db"
    using assms(1) none fresh by (auto simp: operations_ok_def find_None_iff)
  then show "requested_rel (ar_wallet_operation_id row) db (Inr (Some row)) ?db"
    using none by (auto simp: requested_rel_def request_for_def find_append split: option.split)
qed

lemma requested_rel_session:
  "only_session db db1 \<Longrightarrow> requested_rel k db1 r db2 \<Longrightarrow> requested_rel k db r db2"
  unfolding requested_rel_def request_for_def
  by (auto simp: only_session_tables split: sum.splits option.splits)

lemma requested_rel_unchanged:
  "only_session db db' \<Longrightarrow> \<forall>row. r \<noteq> Inr (Some row) \<Longrightarrow> requested_rel k db r db'"
  unfolding requested_rel_def by (auto simp: only_session_tables split: sum.split option.split)

lemma repo_request_wp:
  assumes "operations_ok db"
  shows "wp (repo_createApprovalRequest scope a) (requested_rel (car_walletOperationId a) db) db"
proof -
  have body: "wp (sql (io_bind now (\<lambda>t. insert_approval_request (new_approval_row scope a i t))))
      (requested_rel (car_walletOperationId a) db1) db1"
    if ok: "operations_ok db1" and own: "owns_row scope T_wallet_operations (car_walletOperationId a) db1" for i db1
  proof (rule wp_sql_now)
    fix fs
    let ?db = "db1\<lparr>sess_faults := fs\<rparr>"
    have "operations_ok ?db" using same_rows(3)[of ?db db1] ok by simp
    moreover have "owns_row scope T_wallet_operations (car_walletOperationId a) ?db"
      using own by (simp add: owns_row_def)
    ultimately have "wp (insert_approval_request (new_approval_row scope a i (sess_clock db1)))
        (requested_rel (car_walletOperationId a) ?db) ?db"
      using insert_request_rel[of ?db scope "new_approval_row scope a i (sess_clock db1)"]
      by (simp add: new_approval_row_def)
    then show "wp (insert_approval_request (new_approval_row scope a i (sess_clock db1)))
        (requested_rel (car_walletOperationId a) db1) ?db"
      by (rule wp_mono) (rule requested_rel_session[OF only_session_faults])
  next
    show "requested_rel (car_walletOperationId a) db1 (Inl e) (db1\<lparr>sess_faults := fs\<rparr>)" for e fs
      by (simp add: requested_rel_unchanged)
  qed
  have owned: "owns_row scope T_wallet_operations k db2" if "owns_row scope T_wallet_operations k db1"
      "only_session db1 db2" for k db1 db2
    using that by (simp add: owns_row_def only_session_tables)
  show ?thesis
    unfolding repo_createApprovalRequest_def
    by (intro wp_reads_bind wp_owns_or_null reads_intros wp_mono[OF body])
       (auto intro: requested_rel_unchanged requested_rel_session only_session_trans owned
         simp: same_rows_session assms)
qed

lemma store_approve_ok:
  assumes "operations_ok db" "store_createApprovalRequest scope a db = (Inr (rid, ast), db')"
  shows "operations_ok db' \<and> status_of db' = status_of db \<and>
    request_of db' = (request_of db)(car_walletOperationId a \<mapsto> (rid, ast)) \<and>
    (owned_operation scope db op \<longrightarrow> owned_operation scope db' op)"
  using assms(2) unfolding store_createApprovalRequest_def
proof (cases rule: mapped_row_cases)
  case (row x)
  have "requested_rel (car_walletOperationId a) db (Inr (Some x)) db'"
    by (rule wpD[OF repo_request_wp[OF assms(1)] row(1)])
  then show ?thesis
    using row(2) by (auto simp: requested_rel_def request_of_def status_of_def owned_operation_def
        operation_by_id_def fun_eq_iff)
qed auto

lemma store_approve_err:
  assumes "operations_ok db" "store_createApprovalRequest scope a db = (Inl e, db')"
  shows "operations_ok db' \<and> status_of db' = status_of db \<and> request_of db' = request_of db \<and>
    (owned_operation scope db op \<longrightarrow> owned_operation scope db' op)"
  using assms(2) unfolding store_createApprovalRequest_def
proof (cases rule: mapped_row_cases)
  case (none q e')
  have "requested_rel (car_walletOperationId a) db q db'"
    by (rule wpD[OF repo_request_wp[OF assms(1)] none(1)])
  then have "t_wallet_operations db' = t_wallet_operations db" "t_approval_requests db' = t_approval_requests db"
    using none(2) by (auto simp: requested_rel_def split: sum.splits option.splits)
  from same_rows[OF this] show ?thesis using assms(1) by simp
qed auto

text \<open>Recording an evaluation touches neither table, and returns what it was given.\<close>

definition recorded_rel :: "RecordPolicyEvaluationInput \<Rightarrow> policy_db \<Rightarrow>
     (api_error, PolicyEvaluationRow option) result \<Rightarrow> policy_db \<Rightarrow> bool" where
  "recorded_rel p db r db' \<longleftrightarrow> t_wallet_operations db' = t_wallet_operations db \<and>
     t_approval_requests db' = t_approval_requests db \<and>
     (\<forall>row. r = Inr (Some row) \<longrightarrow> (\<exists>i t. row = new_evaluation_row p i t))"

lemma recorded_rel_session:
  "only_session db db1 \<Longrightarrow> recorded_rel p db1 r db2 \<Longrightarrow> recorded_rel p db r db2"
  by (simp add: recorded_rel_def only_session_tables)

lemma recorded_rel_unchanged: "only_session db db' \<Longrightarrow> \<forall>row. r \<noteq> Inr (Some row) \<Longrightarrow> recorded_rel p db r db'"
  by (simp add: recorded_rel_def only_session_tables)

lemma insert_evaluation_and_read_back:
  assumes "row = new_evaluation_row p (per_id row) t"
  shows "wp (io_bind (sql (insert_evaluation row)) (\<lambda>_. getPolicyEvaluationByIdInternal (per_id row)))
    (recorded_rel p db) db"
proof -
  let ?db = "\<lambda>fs. db\<lparr>t_policy_evaluations := t_policy_evaluations db @ [row], sess_faults := fs\<rparr>"
  have "recorded_rel p db (Inr (find (\<lambda>r. per_id r = per_id row) (t_policy_evaluations db @ [row]))) (?db fs)"
    if "per_id row \<notin> per_id ` set (t_policy_evaluations db)" for fs
  proof -
    have "find (\<lambda>r. per_id r = per_id row) (t_policy_evaluations db) = None"
      using that by (auto simp: find_None_iff image_iff)
    then show ?thesis using assms by (auto simp: recorded_rel_def find_append)
  qed
  moreover have "recorded_rel p db (Inl e) (?db fs)" for e fs by (simp add: recorded_rel_def)
  ultimately show ?thesis
    unfolding getPolicyEvaluationByIdInternal_def
    by (intro wp_intros) (auto simp: recorded_rel_unchanged)
qed

lemma repo_record_wp: "wp (createPolicyEvaluation scope p) (recorded_rel p db) db"
proof -
  have body: "wp (io_bind (sql (io_bind now (\<lambda>t. insert_evaluation (new_evaluation_row p (''peval_'' @ uuid) t))))
      (\<lambda>_. getPolicyEvaluationByIdInternal (''peval_'' @ uuid))) (recorded_rel p db1) db1" for uuid db1
  proof -
    have "sql (io_bind now f) db = sql (f (sess_clock db)) db" for db and f :: "timestamp \<Rightarrow> unit policy_io"
      by (simp add: sql_def io_bind_def now_def io_get_def split: list.split)
    then show ?thesis
      using insert_evaluation_and_read_back[of "new_evaluation_row p (''peval_'' @ uuid) (sess_clock db1)"
          p "sess_clock db1" db1]
      by (simp add: wp_def io_bind_def new_evaluation_row_def)
  qed
  show ?thesis
    unfolding createPolicyEvaluation_def
    by (intro wp_reads_bind wp_reads_or_null reads_intros wp_mono[OF body])
       (auto intro: recorded_rel_unchanged recorded_rel_session only_session_trans)
qed

lemma store_record_ok:
  assumes "store_recordPolicyEvaluation scope p db = (Inr ev, db')"
  shows "pe_walletOperationId ev = rpe_walletOperationId p \<and> pe_decision ev = rpe_decision p \<and>
    pe_requiresApproval ev = rpe_requiresApproval p \<and> pe_approvalRequestId ev = rpe_approvalRequestId p"
  using assms unfolding store_recordPolicyEvaluation_def
proof (cases rule: mapped_row_cases)
  case (row x)
  then show ?thesis
    using wpD[OF repo_record_wp row(1)]
    by (auto simp: recorded_rel_def mapPolicyEvaluation_def new_evaluation_row_def)
qed auto

lemma store_record_keeps:
  assumes "operations_ok db" "store_recordPolicyEvaluation scope p db = (q, db')"
  shows "operations_ok db' \<and> status_of db' = status_of db \<and> request_of db' = request_of db \<and>
    (owned_operation scope db op \<longrightarrow> owned_operation scope db' op)"
proof -
  have "t_wallet_operations db' = t_wallet_operations db \<and> t_approval_requests db' = t_approval_requests db"
    using assms(2) unfolding store_recordPolicyEvaluation_def
  proof (cases rule: mapped_row_cases)
    case (row x)
    then show ?thesis using wpD[OF repo_record_wp row(1)] by (simp add: recorded_rel_def)
  next
    case (none q e)
    then show ?thesis using wpD[OF repo_record_wp none(1)] by (simp add: recorded_rel_def)
  qed
  then show ?thesis using same_rows[of db' db] assms(1) by auto
qed

text \<open>Setting the status of the operation \<open>k\<close>.\<close>

lemma table_update_none: "find P rows = None \<Longrightarrow> table_update P f rows = rows"
  by (induction rows) (auto simp: table_update_def split: if_splits)

lemma set_status:
  assumes "operations_ok db"
    and ops: "t_wallet_operations db' = table_update (\<lambda>r. wo_id r = k \<and> C r)
      (\<lambda>r. r\<lparr>wo_status := st, wo_updated_at := t\<rparr>) (t_wallet_operations db)"
    and hit: "operation_by_id db k = Some row" "C row"
  shows "status_of db' = (status_of db)(k \<mapsto> st)"
    "\<And>a. request_owner_ok db' a = request_owner_ok db a"
    "distinct (map wo_id (t_wallet_operations db'))"
    "owned_operation scope db' op = owned_operation scope db op"
proof -
  have by_id: "operation_by_id db' k' = (if k' = k then Some (row\<lparr>wo_status := st, wo_updated_at := t\<rparr>)
      else operation_by_id db k')" for k'
  proof -
    have "operation_by_id db' k' = map_option (\<lambda>r. if wo_id r = k \<and> C r
        then r\<lparr>wo_status := st, wo_updated_at := t\<rparr> else r) (operation_by_id db k')"
      unfolding operation_by_id_def ops by (rule find_table_update) simp
    then show ?thesis
      using hit operation_by_id_id[of db k'] by (cases "operation_by_id db k'") auto
  qed
  show "status_of db' = (status_of db)(k \<mapsto> st)" by (auto simp: status_of_def by_id fun_eq_iff)
  show "request_owner_ok db' a = request_owner_ok db a" for a
    using hit(1) by (auto simp: request_owner_ok_def by_id)
  show "owned_operation scope db' op = owned_operation scope db op"
    using hit(1) by (auto simp: owned_operation_def by_id op_in_scope_def)
  have "map wo_id (t_wallet_operations db') = map wo_id (t_wallet_operations db)"
    unfolding ops by (rule table_update_key) simp
  then show "distinct (map wo_id (t_wallet_operations db'))" using assms(1) by (simp add: operations_ok_def)
qed

definition updated_rel :: "string \<Rightarrow> WalletOperationStatus \<Rightarrow> policy_db \<Rightarrow>
     (api_error, WalletOperationRow option) result \<Rightarrow> policy_db \<Rightarrow> bool" where
  "updated_rel k st db r db' \<longleftrightarrow> t_approval_requests db' = t_approval_requests db \<and>
     (case r of
        Inr (Some row) \<Rightarrow> wo_status row = st \<and>
          (\<exists>old t. operation_by_id db k = Some old \<and> t_wallet_operations db' = table_update (\<lambda>r. wo_id r = k)
             (\<lambda>r. r\<lparr>wo_status := st, wo_updated_at := t\<rparr>) (t_wallet_operations db))
      | _ \<Rightarrow> t_wallet_operations db' = t_wallet_operations db)"

lemma updated_rel_session:
  "only_session db db1 \<Longrightarrow> updated_rel k st db1 r db2 \<Longrightarrow> updated_rel k st db r db2"
  unfolding updated_rel_def operation_by_id_def
  by (auto simp: only_session_tables split: sum.splits option.splits)

lemma updated_rel_unchanged: "only_session db db' \<Longrightarrow> \<forall>row. r \<noteq> Inr (Some row) \<Longrightarrow> updated_rel k st db r db'"
  unfolding updated_rel_def by (auto simp: only_session_tables split: sum.split option.split)

lemma repo_update_wp: "wp (repo_updateWalletOperationStatus scope k st) (updated_rel k st db) db"
proof -
  have body: "wp (sql (io_bind now (\<lambda>t. update_operation k (\<lambda>_ _. True)
      (\<lambda>r. r\<lparr>wo_status := st, wo_updated_at := t\<rparr>)))) (updated_rel k st db1) db1" for db1
  proof (intro wp_sql_now wp_update_operation)
    fix fs
    let ?rows = "t_wallet_operations (db1\<lparr>sess_faults := fs\<rparr>)"
    show "updated_rel k st db1 (Inr (map_option (\<lambda>r. r\<lparr>wo_status := st, wo_updated_at := sess_clock db1\<rparr>)
          (find (\<lambda>r. wo_id r = k \<and> True) ?rows)))
        (db1\<lparr>sess_faults := fs, t_wallet_operations := table_update (\<lambda>r. wo_id r = k \<and> True)
          (\<lambda>r. r\<lparr>wo_status := st, wo_updated_at := sess_clock db1\<rparr>) ?rows\<rparr>)"
      by (cases "find (\<lambda>r. wo_id r = k) (t_wallet_operations db1)")
         (auto simp: updated_rel_def operation_by_id_def table_update_none)
  next
    show "updated_rel k st db1 (Inl e) (db1\<lparr>sess_faults := fs\<rparr>)" for e fs
      by (simp add: updated_rel_unchanged)
  qed
  show ?thesis
    unfolding repo_updateWalletOperationStatus_def
    by (intro wp_reads_or_null reads_intros wp_mono[OF body])
       (auto intro: updated_rel_unchanged updated_rel_session)
qed

lemma store_update_ok:
  assumes "operations_ok db" "store_updateWalletOperationStatus scope k st db = (Inr (st', t), db')"
  shows "operations_ok db' \<and> st' = st \<and> status_of db' = (status_of db)(k \<mapsto> st) \<and>
    request_of db' = request_of db"
  using assms(2) unfolding store_updateWalletOperationStatus_def
proof (cases rule: mapped_row_cases)
  case (row x)
  then obtain old u where x: "wo_status x = st" "operation_by_id db k = Some old"
      "t_wallet_operations db' = table_update (\<lambda>r. wo_id r = k) (\<lambda>r. r\<lparr>wo_status := st, wo_updated_at := u\<rparr>)
         (t_wallet_operations db)" "t_approval_requests db' = t_approval_requests db"
    using wpD[OF repo_update_wp row(1)] by (auto simp: updated_rel_def)
  have reqs: "request_of db' = request_of db" using x(4) by (simp add: request_of_def request_for_def fun_eq_iff)
  show ?thesis
    using set_status[OF assms(1), where db' = db' and k = k and C = "\<lambda>_. True" and st = st and t = u and row = old] x row(2) assms(1) reqs
    by (simp add: operations_ok_def)
qed auto

lemma store_update_err:
  assumes "operations_ok db" "store_updateWalletOperationStatus scope k st db = (Inl e, db')"
  shows "operations_ok db' \<and> status_of db' = status_of db \<and> request_of db' = request_of db \<and>
    (owned_operation scope db op \<longrightarrow> owned_operation scope db' op)"
  using assms(2) unfolding store_updateWalletOperationStatus_def
proof (cases rule: mapped_row_cases)
  case (none q e')
  have "updated_rel k st db q db'" by (rule wpD[OF repo_update_wp none(1)])
  then have "t_wallet_operations db' = t_wallet_operations db" "t_approval_requests db' = t_approval_requests db"
    using none(2) by (auto simp: updated_rel_def split: sum.splits option.splits)
  from same_rows[OF this] show ?thesis using assms(1) by simp
qed auto

text \<open>Failing a pending request fails its operation with it, in one transaction.\<close>

lemma find_unique_pred:
  assumes "distinct (map key rows)" "x \<in> set rows" "P x" "\<And>y. P y \<Longrightarrow> key y = key x"
  shows "find P rows = Some x"
proof -
  obtain y where y: "find P rows = Some y" using assms(2,3) by (cases "find P rows") (auto simp: find_None_iff)
  then have "y \<in> set rows" "key y = key x" using find_Some_in[OF y] assms(4) by auto
  then have "y = x" using assms(1,2) by (auto simp: distinct_map dest: inj_onD)
  then show ?thesis using y by simp
qed

lemma pending_request:
  assumes ok: "operations_ok db" and own: "owned_operation scope db op"
    and req: "request_of db (woe_id op) = Some (rid, ArPending)"
  obtains c r where "find (request_in_scope scope rid) (t_approval_requests db) = Some c"
    "ar_status c = ArPending" "ar_wallet_operation_id c = woe_id op" "ar_id c = rid"
    "request_for db (woe_id op) = Some c"
    "owns_row scope T_approval_requests rid db"
    "operation_by_id db (woe_id op) = Some r" "op_in_scope scope r"
proof -
  obtain c where c: "request_for db (woe_id op) = Some c" "ar_id c = rid" "ar_status c = ArPending"
    using req by (auto simp: request_of_def)
  then have cin: "c \<in> set (t_approval_requests db)" "ar_wallet_operation_id c = woe_id op"
    by (auto simp: request_for_def dest: find_Some_in)
  obtain r where r: "operation_by_id db (woe_id op) = Some r" "op_in_scope scope r"
    using own by (auto simp: owned_operation_def)
  have "request_owner_ok db c" using ok cin by (simp add: operations_ok_def)
  then have "request_in_scope scope rid c"
    using r c cin by (auto simp: request_owner_ok_def request_in_scope_def op_in_scope_def)
  moreover from this have "find (request_in_scope scope rid) (t_approval_requests db) = Some c"
    using ok cin c(2) find_unique_pred[of ar_id "t_approval_requests db" c "request_in_scope scope rid"]
    by (auto simp: operations_ok_def request_in_scope_def)
  ultimately show thesis
    using that[of c r] c cin r by (force simp: owns_row_def request_in_scope_def)
qed

definition failed_rel :: "string \<Rightarrow> string \<Rightarrow> policy_db \<Rightarrow> (api_error, 'a) result \<Rightarrow> policy_db \<Rightarrow> bool" where
  "failed_rel k rid db r db' \<longleftrightarrow> operations_ok db' \<and>
     (case r of
        Inl e \<Rightarrow> status_of db' = status_of db \<and> request_of db' = request_of db
      | Inr _ \<Rightarrow> status_of db' = (status_of db)(k \<mapsto> OpFailed) \<and>
          request_of db' = (request_of db)(k \<mapsto> (rid, ArFailed)))"

lemma failed_rel_unchanged: "operations_ok db \<Longrightarrow> only_session db db' \<Longrightarrow> failed_rel k rid db (Inl e) db'"
  by (simp add: failed_rel_def same_rows_session)

lemma resolve_both:
  assumes ok: "operations_ok db" and req: "request_for db k = Some c" "ar_id c = rid"
    and hit: "\<And>a. request_in_scope scope rid a \<Longrightarrow> ar_id a = rid" "request_in_scope scope rid c"
    and op: "operation_by_id db k = Some row" "C row"
    and reqs: "t_approval_requests db' = table_update (request_in_scope scope rid)
      (\<lambda>a. a\<lparr>ar_status := st, ar_resolved_by := u, ar_resolved_at := v, ar_updated_at := w\<rparr>) (t_approval_requests db)"
    and ops: "t_wallet_operations db' = table_update (\<lambda>r. wo_id r = k \<and> C r)
      (\<lambda>r. r\<lparr>wo_status := ost, wo_updated_at := t\<rparr>) (t_wallet_operations db)"
  shows "operations_ok db'" "status_of db' = (status_of db)(k \<mapsto> ost)"
    "request_of db' = (request_of db)(k \<mapsto> (rid, st))"
proof -
  let ?upd = "\<lambda>a. a\<lparr>ar_status := st, ar_resolved_by := u, ar_resolved_at := v, ar_updated_at := w\<rparr>"
  note set = set_status[OF ok ops op]
  show "status_of db' = (status_of db)(k \<mapsto> ost)" by (rule set(1))
  have keys: "map ar_id (t_approval_requests db') = map ar_id (t_approval_requests db)"
    "map ar_wallet_operation_id (t_approval_requests db') = map ar_wallet_operation_id (t_approval_requests db)"
    unfolding reqs by (rule table_update_key, simp)+
  have "request_owner_ok db' a" if a: "a \<in> set (t_approval_requests db')" for a
  proof -
    obtain b where "b \<in> set (t_approval_requests db)" "a = b \<or> a = ?upd b"
      using a unfolding reqs set_table_update by blast
    then show ?thesis using ok set(2) by (auto simp: operations_ok_def request_owner_ok_def)
  qed
  then show "operations_ok db'" using ok set(3) keys by (simp add: operations_ok_def)
  have inj: "a = c" if "a \<in> set (t_approval_requests db)" "request_in_scope scope rid a" for a
    using that hit(1) req ok by (auto simp: operations_ok_def request_for_def distinct_map
        dest!: find_Some_in dest: inj_onD)
  have by_op: "request_for db' k' = map_option (\<lambda>a. if request_in_scope scope rid a then ?upd a else a)
      (request_for db k')" for k'
    unfolding request_for_def reqs by (rule find_table_update) simp
  have "request_of db' k' = ((request_of db)(k \<mapsto> (rid, st))) k'" for k'
  proof (cases "request_for db k'")
    case None
    then show ?thesis using by_op[of k'] req by (auto simp: request_of_def)
  next
    case (Some a)
    then have a: "a \<in> set (t_approval_requests db)" "ar_wallet_operation_id a = k'"
      by (auto simp: request_for_def dest: find_Some_in)
    have ck: "ar_wallet_operation_id c = k" using req(1) by (auto simp: request_for_def dest: find_Some_in)
    have "request_in_scope scope rid a \<longleftrightarrow> k' = k"
    proof
      assume "request_in_scope scope rid a"
      then show "k' = k" using inj[OF a(1)] a(2) ck by blast
    next
      assume "k' = k"
      then have "a = c" using Some req(1) by simp
      then show "request_in_scope scope rid a" using hit(2) by simp
    qed
    then show ?thesis using by_op[of k'] Some req by (cases "k' = k") (simp_all add: request_of_def)
  qed
  then show "request_of db' = (request_of db)(k \<mapsto> (rid, st))" by (simp add: fun_eq_iff)
qed

lemma wp_owns_true:
  assumes "owns_row scope table i s" "\<And>e s'. only_session s s' \<Longrightarrow> Q (Inl e) s'"
    and "\<And>s'. only_session s s' \<Longrightarrow> wp m Q s'"
  shows "wp (or_null (tenantOwnsRow scope table i) m) Q s"
proof -
  have "owns_row scope table i (s\<lparr>sess_faults := fs\<rparr>)" for fs
    using assms(1) by (cases table) (simp_all add: owns_row_def)
  then show ?thesis
    unfolding or_null_def tenantOwnsRow_def by (intro wp_intros) (auto intro: assms)
qed

lemma resolution_rel:
  assumes ok: "operations_ok db" and req: "request_for db k = Some c" "ar_id c = rid"
    and scope: "request_in_scope scope rid c"
    and op: "operation_by_id db k = Some row" "op_in_scope scope row"
      "wo_status row \<in> {OpCreated, OpPendingApproval}"
    and reqs: "t_approval_requests db' = table_update (request_in_scope scope rid)
      (\<lambda>a. a\<lparr>ar_status := ArFailed, ar_resolved_by := u, ar_resolved_at := v, ar_updated_at := w\<rparr>) (t_approval_requests db)"
    and ops: "t_wallet_operations db' = table_update (\<lambda>r. wo_id r = k \<and>
        wo_organization_id r = ts_organizationId scope \<and> wo_project_id r = ts_projectId scope \<and>
        wo_status r \<in> {OpCreated, OpPendingApproval})
      (\<lambda>r. r\<lparr>wo_status := OpFailed, wo_updated_at := t\<rparr>) (t_wallet_operations db)"
  shows "failed_rel k rid db (Inr x) db'"
  using resolve_both[OF ok req _ scope op(1) _ reqs ops] op(2,3)
  by (auto simp: failed_rel_def request_in_scope_def op_in_scope_def)

lemma store_fail_wp:
  assumes ok: "operations_ok db" and own: "owned_operation scope db op"
    and req: "request_of db (woe_id op) = Some (rid, ArPending)"
    and st: "status_of db (woe_id op) \<in> {Some OpCreated, Some OpPendingApproval}"
  shows "wp (store_failApprovalRequest scope op rid) (failed_rel (woe_id op) rid db) db"
proof -
  obtain c r where c: "find (request_in_scope scope rid) (t_approval_requests db) = Some c"
    "ar_status c = ArPending" "ar_wallet_operation_id c = woe_id op" "ar_id c = rid"
    "request_for db (woe_id op) = Some c" "owns_row scope T_approval_requests rid db"
    and r: "operation_by_id db (woe_id op) = Some r" "op_in_scope scope r"
    by (rule pending_request[OF ok own req])
  have rst: "wo_status r \<in> {OpCreated, OpPendingApproval}" using st r by (simp add: status_of_def)
  have cin: "request_in_scope scope rid c" using find_Some_in[OF c(1)] by simp
  have tenant: "assertTenantClaim scope (pc_organizationId op) (pc_projectId op) m = Inr ()" for m
    using own by (simp add: owned_operation_def)
  have body: "failed_rel (woe_id op) rid db (Inr x)
      (db1\<lparr>t_approval_requests := table_update (request_in_scope scope rid)
        (\<lambda>a. a\<lparr>ar_status := ArFailed, ar_resolved_by := None, ar_resolved_at := Some w, ar_updated_at := w\<rparr>)
        (t_approval_requests db),
      t_wallet_operations := table_update (\<lambda>r. wo_id r = woe_id op \<and>
        wo_organization_id r = ts_organizationId scope \<and> wo_project_id r = ts_projectId scope \<and>
        (wo_status r = OpCreated \<or> wo_status r = OpPendingApproval))
        (\<lambda>r. r\<lparr>wo_status := OpFailed, wo_updated_at := t\<rparr>) (t_wallet_operations db), sess_faults := fs\<rparr>)"
    for x db1 w t fs
    by (rule resolution_rel[OF ok c(5,4) cin r rst]) simp_all
  have tx: "wp (transaction
      (io_bind (sql (io_get (\<lambda>db. find (request_in_scope scope (uar_approvalRequestId input))
          (t_approval_requests db)))) (\<lambda>current.
       case current of None \<Rightarrow> io_return None
       | Some c \<Rightarrow> if ar_status c \<noteq> ArPending then io_return (Some c) else
           io_bind (sql (resolve_request scope input resolvedAt)) (\<lambda>updated.
           case updated of None \<Rightarrow> io_return None
           | Some u \<Rightarrow> io_bind (case uar_operationStatus input of None \<Rightarrow> io_return None
               | Some st \<Rightarrow> sql (resolve_operation scope (ar_wallet_operation_id c) st resolvedAt))
               (\<lambda>_. io_return (Some u)))))) (failed_rel (woe_id op) rid db) db1"
    if only: "only_session db db1" and input: "uar_approvalRequestId input = rid" "uar_status input = ArFailed"
      "uar_operationStatus input = Some OpFailed" "uar_resolvedBy input = None" for db1 input resolvedAt
    unfolding resolve_operation_def input
    by (intro wp_transaction wp_bind wp_sql wp_get)
       (auto simp: input c only_session_tables[OF only] body intro!: wp_intros failed_rel_unchanged[OF ok]
          only_session_trans[OF only])
  have upd: "wp (updateApprovalRequestStatus scope input) (failed_rel (woe_id op) rid db) db"
    if input: "uar_approvalRequestId input = rid" "uar_status input = ArFailed"
      "uar_operationStatus input = Some OpFailed" "uar_resolvedBy input = None"
      "uar_organizationId input = pc_organizationId op" "uar_projectId input = pc_projectId op" for input
    unfolding updateApprovalRequestStatus_def Let_def
  proof (rule wp_bind, rule wp_lift, unfold input(5,6) tenant sum.case, rule wp_owns_true)
    show "owns_row scope T_approval_requests (uar_approvalRequestId input) db" unfolding input by (rule c(6))
    show "failed_rel (woe_id op) rid db (Inl e) s'" if "only_session db s'" for e s'
      using failed_rel_unchanged[OF ok that] .
  qed (intro wp_bind wp_now, unfold sum.case, rule tx[OF _ input(1-4)])
  show ?thesis
    unfolding store_failApprovalRequest_def
    by (rule wp_bind, rule wp_mono[OF upd]) (auto simp: failed_rel_def split: sum.splits intro!: wp_return)
qed

lemma store_fail_ok:
  assumes "operations_ok db" "owned_operation scope db op" "request_of db (woe_id op) = Some (rid, ArPending)"
    and "status_of db (woe_id op) \<in> {Some OpCreated, Some OpPendingApproval}"
    and "store_failApprovalRequest scope op rid db = (Inr (), db')"
  shows "operations_ok db' \<and> status_of db' = (status_of db)(woe_id op \<mapsto> OpFailed) \<and>
    request_of db' = (request_of db)(woe_id op \<mapsto> (rid, ArFailed))"
  using wpD[OF store_fail_wp[OF assms(1-4)] assms(5)] by (simp add: failed_rel_def)

text \<open>Methods that write in one transaction only: when they throw, nothing is written.\<close>

definition clean_error :: "('z session_scheme, 'e, 'a) io \<Rightarrow> bool" where
  "clean_error m \<longleftrightarrow> (\<forall>s e s'. m s = (Inl e, s') \<longrightarrow> only_session s s')"

lemma clean_error_return: "clean_error m \<Longrightarrow> clean_error (io_bind m (\<lambda>a. io_return (f a)))"
  by (auto simp: clean_error_def io_return_def elim!: io_bind_Inl)

lemma clean_error_bind: "io_reads m \<Longrightarrow> (\<And>a. clean_error (f a)) \<Longrightarrow> clean_error (io_bind m f)"
  unfolding clean_error_def by (blast elim: io_bind_Inl intro: only_session_trans dest: io_readsD)

lemma clean_error_or_null: "io_reads c \<Longrightarrow> clean_error m \<Longrightarrow> clean_error (or_null c m)"
  unfolding or_null_def by (rule clean_error_bind) (auto simp: clean_error_def io_return_def)

lemma clean_error_transaction: "clean_error (transaction m)"
  unfolding clean_error_def
proof (intro allI impI)
  fix s e s'
  assume "transaction m s = (Inl e, s')"
  then show "only_session s s'" by (cases rule: transaction_cases[of m s]) auto
qed

lemmas clean_error_intros = clean_error_transaction clean_error_or_null clean_error_bind

lemma store_fail_err:
  assumes "operations_ok db" "store_failApprovalRequest scope op rid db = (Inl e, db')"
  shows "operations_ok db' \<and> status_of db' = status_of db \<and> request_of db' = request_of db"
proof -
  have "clean_error (store_failApprovalRequest scope op rid)"
    unfolding store_failApprovalRequest_def updateApprovalRequestStatus_def Let_def
    by (intro clean_error_return clean_error_intros reads_intros)
  then have "only_session db db'" using assms(2) by (simp add: clean_error_def)
  then show ?thesis using assms(1) by (simp add: same_rows_session)
qed

lemma store_load_reads:
  assumes "operations_ok db" "loadEffectivePolicies scope candidate db = (r, db')"
  shows "operations_ok db' \<and> status_of db' = status_of db \<and> request_of db' = request_of db \<and>
    (owned_operation scope db op \<longrightarrow> owned_operation scope db' op)"
  using io_readsD[OF io_reads_load assms(2)] assms(1) by (simp add: same_rows_session)

lemma pg_store_simps:
  "st_createWalletOperation (PostgresPolicyEnforcementStore scope) = store_createWalletOperation scope"
  "st_loadEffectivePolicies (PostgresPolicyEnforcementStore scope) = loadEffectivePolicies scope"
  "st_createApprovalRequest (PostgresPolicyEnforcementStore scope) = store_createApprovalRequest scope"
  "st_recordPolicyEvaluation (PostgresPolicyEnforcementStore scope) = store_recordPolicyEvaluation scope"
  "st_updateWalletOperationStatus (PostgresPolicyEnforcementStore scope) = store_updateWalletOperationStatus scope"
  "st_failApprovalRequest (PostgresPolicyEnforcementStore scope) = store_failApprovalRequest scope"
  by (simp_all add: PostgresPolicyEnforcementStore_def)

interpretation pg: enforcement_store "PostgresPolicyEnforcementStore scope" operations_ok status_of request_of
  "owned_operation scope" for scope
  by (unfold_locales, unfold pg_store_simps)
     ((rule store_create_ok; assumption) | (rule store_create_err; assumption) |
      (rule store_load_reads; assumption) | (rule store_approve_ok; assumption) |
      (rule store_approve_err; assumption) | (rule store_record_ok; assumption) |
      (rule store_record_keeps; assumption) | (rule store_update_ok; assumption) |
      (rule store_update_err; assumption) | (rule store_fail_ok; assumption) |
      (rule store_fail_err; assumption))+

end
