(* ===== verification/Enforcement_Service.thy ===== *)
theory Enforcement_Service
  imports Enforcement_Store
begin

text \<open>
  The enforcement service (\<^verbatim>\<open>services/policy/enforcement.service.ts\<close>): enforcement as routes call it, the
  resumption of an approved operation under its execution lease, and the three ways a request is
  resolved.
\<close>

section \<open>Decisions as route errors\<close>

fun reason_code_text :: "PolicyEvaluationReasonCode \<Rightarrow> string" where
  "reason_code_text RcImplicitDefaultAllow = ''implicit_default_allow''"
| "reason_code_text RcWalletPolicyMatch = ''wallet_policy_match''"
| "reason_code_text RcApiKeyPolicyMatch = ''api_key_policy_match''"
| "reason_code_text RcWalletPolicyMissing = ''wallet_policy_missing''"
| "reason_code_text RcApiKeyPolicyMissing = ''api_key_policy_missing''"
| "reason_code_text RcManualReview = ''manual_review''"
| "reason_code_text RcProviderMappingPending = ''provider_mapping_pending''"
| "reason_code_text RcProviderMappingPartial = ''provider_mapping_partial''"
| "reason_code_text RcProviderMappingFailed = ''provider_mapping_failed''"
| "reason_code_text (RcOther s) = s"

fun json_string_or_null :: "string option \<Rightarrow> json" where
  "json_string_or_null None = JNull"
| "json_string_or_null (Some s) = JStr s"

definition decision_details :: "WalletOperationEnvelope \<Rightarrow> PolicyEvaluation \<Rightarrow> json_object" where
  "decision_details operation evaluation =
     [(''walletOperationId'', JStr (woe_id operation)),
      (''policyEvaluationId'', JStr (pe_id evaluation)),
      (''decision'', JStr (decision_text (pe_decision evaluation))),
      (''reasonCode'', JStr (reason_code_text (pe_reasonCode evaluation))),
      (''reason'', json_string_or_null (pe_reason evaluation)),
      (''requiresApproval'', JBool (pe_requiresApproval evaluation)),
      (''approvalRequestId'', json_string_or_null (pe_approvalRequestId evaluation))]"

definition walletOperationPolicyDecisionError ::
  "WalletOperationEnvelope \<Rightarrow> PolicyEvaluation \<Rightarrow> api_error" where
  "walletOperationPolicyDecisionError operation evaluation =
     (let details = decision_details operation evaluation in
      if pe_decision evaluation = Deny \<or> pe_decision evaluation = NotEvaluated
      then AppError FORBIDDEN
        (if pe_decision evaluation = NotEvaluated then ''Wallet operation was not evaluated by policy''
         else ''Wallet operation denied by policy'') details
      else AppError SIGNING_PENDING ''Wallet operation requires policy approval'' details)"

definition enforce ::
  "TenantScope \<Rightarrow> CreateWalletOperationInput \<Rightarrow> WalletOperationPolicyEnforcement policy_io" where
  "enforce scope input =
     io_bind (enforceWalletOperationPolicy (PostgresPolicyEnforcementStore scope) input) (\<lambda>enforcement.
     if pe_decision (wpe_evaluation enforcement) = Allow then io_return enforcement
     else io_throw (walletOperationPolicyDecisionError (wpe_operation enforcement)
            (wpe_evaluation enforcement)))"

section \<open>Comparing payloads\<close>

text \<open>\<^verbatim>\<open>stableJson\<close> prints a value with the entries of every object ordered by \<^verbatim>\<open>localeCompare\<close>. The collation
  is the host's: \<open>collate\<close> gives the key \<^verbatim>\<open>localeCompare\<close> compares. \<^verbatim>\<open>JSON.stringify\<close> gives different trees
  different texts, so the tree stands for its text.\<close>

primrec stableJson :: "(string \<Rightarrow> nat list) \<Rightarrow> json \<Rightarrow> json" where
  "stableJson collate JNull = JNull"
| "stableJson collate (JBool b) = JBool b"
| "stableJson collate (JNum n) = JNum n"
| "stableJson collate (JStr s) = JStr s"
| "stableJson collate (JArr vs) = JArr (map (stableJson collate) vs)"
| "stableJson collate (JObj entries) =
     JObj (sort_key (\<lambda>entry. collate (fst entry)) (map (map_prod id (stableJson collate)) entries))"

definition jsonValuesEqual :: "(string \<Rightarrow> nat list) \<Rightarrow> json \<Rightarrow> json \<Rightarrow> bool" where
  "jsonValuesEqual collate left right \<longleftrightarrow> stableJson collate left = stableJson collate right"

text \<open>The spreads of \<^verbatim>\<open>walletOperationRawPayload\<close>: a later property replaces an earlier one of the same name.\<close>

definition walletOperationRawPayload :: "CreateWalletOperationInput \<Rightarrow> json_object" where
  "walletOperationRawPayload input =
     (let payload = (case cwo_rawPayload input of None \<Rightarrow> [] | Some p \<Rightarrow> p);
          payload = (case cwo_actor input of
             None \<Rightarrow> payload
           | Some None \<Rightarrow> json_put ''actor'' JNull payload
           | Some (Some actor) \<Rightarrow> json_put ''actor'' (JObj actor) payload);
          payload = (case cwo_context input of
             None \<Rightarrow> payload | Some c \<Rightarrow> json_put ''context'' (JObj c) payload)
      in case cwo_providerExtensions input of
           None \<Rightarrow> payload | Some e \<Rightarrow> json_put ''providerExtensions'' (JObj e) payload)"

section \<open>Resuming an approved operation\<close>

definition storedOperationContext :: "json_object \<Rightarrow> json_object" where
  "storedOperationContext rawPayload = getJsonObject (json_field rawPayload ''context'')"

definition storedOperationActor :: "json_object \<Rightarrow> WalletOperationActor option" where
  "storedOperationActor rawPayload =
     (if isJsonObject (json_field rawPayload ''actor'')
      then Some (getJsonObject (json_field rawPayload ''actor'')) else None)"

definition storedOperationProviderExtensions :: "json_object \<Rightarrow> json_object" where
  "storedOperationProviderExtensions rawPayload =
     (if isJsonObject (json_field rawPayload ''providerExtensions'')
      then getJsonObject (json_field rawPayload ''providerExtensions'')
      else case json_field rawPayload ''provider'' of
             Some (JStr p) \<Rightarrow> [(''provider'', JStr p)]
           | _ \<Rightarrow> [])"

definition lease_executable :: "string \<Rightarrow> timestamp \<Rightarrow> WalletOperationRow \<Rightarrow> bool" where
  "lease_executable executionAttemptId t operation \<longleftrightarrow>
     wo_status operation = OpExecuting \<and> wo_execution_started_at operation \<noteq> None \<and>
     wo_execution_attempt_id operation = Some executionAttemptId \<and>
     (case wo_execution_lease_expires_at operation of None \<Rightarrow> False | Some expires \<Rightarrow> \<not> expires \<le> t)"

definition operation_matches ::
  "(string \<Rightarrow> nat list) \<Rightarrow> WalletOperationRow \<Rightarrow> CreateWalletOperationInput \<Rightarrow> bool" where
  "operation_matches collate operation input \<longleftrightarrow>
     wo_organization_id operation = cwo_organizationId input \<and>
     wo_project_id operation = cwo_projectId input \<and>
     wo_custody_wallet_id operation = cwo_custodyWalletId input \<and>
     wo_wallet_id operation = cwo_walletId input \<and>
     wo_api_key_id operation = cwo_apiKeyId input \<and>
     wo_operation_family operation = cwo_operationFamily input \<and>
     wo_operation_type operation = cwo_operationType input \<and>
     wo_asset operation = cwo_asset input \<and>
     wo_amount operation = cwo_amount input \<and>
     wo_destination operation = cwo_destination input \<and>
     jsonValuesEqual collate (JObj (wo_raw_payload operation)) (JObj (walletOperationRawPayload input))"

definition resumed_enforcement ::
  "WalletOperationRow \<Rightarrow> PolicyEvaluationRow \<Rightarrow> CreateWalletOperationInput \<Rightarrow>
     WalletOperationPolicyEnforcement" where
  "resumed_enforcement operation original input =
     \<lparr>wpe_operation =
        \<lparr>pc_organizationId = wo_organization_id operation, pc_projectId = wo_project_id operation,
         pc_custodyWalletId = wo_custody_wallet_id operation, pc_walletId = wo_wallet_id operation,
         pc_apiKeyId = wo_api_key_id operation,
         pc_actor = storedOperationActor (wo_raw_payload operation),
         pc_source = wo_source operation, pc_operationFamily = cwo_operationFamily input,
         pc_operationType = cwo_operationType input, pc_asset = wo_asset operation,
         pc_amount = wo_amount operation, pc_destination = wo_destination operation,
         pc_context = storedOperationContext (wo_raw_payload operation),
         pc_providerExtensions = storedOperationProviderExtensions (wo_raw_payload operation),
         woe_id = wo_id operation, woe_rawPayload = wo_raw_payload operation,
         woe_idempotencyKey = wo_idempotency_key operation, woe_status = wo_status operation,
         woe_createdAt = wo_created_at operation, woe_updatedAt = wo_updated_at operation\<rparr>,
      wpe_evaluation =
        \<lparr>pe_id = per_id original, pe_walletOperationId = per_wallet_operation_id original,
         pe_walletPolicyRevisionId = per_wallet_policy_revision_id original,
         pe_apiKeyPolicyRevisionId = per_api_key_policy_revision_id original,
         pe_decision = Allow, pe_reasonCode = RcOther ''approval_satisfied'',
         pe_reason = Some ''Required approval was granted'',
         pe_matchedRules = per_matched_rules original,
         pe_evaluationContext = per_evaluation_context original, pe_requiresApproval = False,
         pe_approvalRequestId = per_approval_request_id original,
         pe_createdAt = per_created_at original\<rparr>\<rparr>"

definition approval_gate_satisfied :: "PolicyEvaluationRow \<Rightarrow> bool" where
  "approval_gate_satisfied original \<longleftrightarrow> per_requires_approval original \<and>
     truthy (per_approval_request_id original) \<and> per_evaluation_context original \<noteq> None"

definition resumeApprovedOperation ::
  "(string \<Rightarrow> nat list) \<Rightarrow> TenantScope \<Rightarrow> string \<Rightarrow> string \<Rightarrow> CreateWalletOperationInput \<Rightarrow>
     WalletOperationPolicyEnforcement policy_io" where
  "resumeApprovedOperation collate scope walletOperationId executionAttemptId input =
     io_bind (getWalletOperationById scope walletOperationId) (\<lambda>found.
     io_bind now (\<lambda>t.
     let notExecutable = io_throw (AppError FORBIDDEN ''Wallet operation approval is not executable'' [])
     in case found of
          None \<Rightarrow> notExecutable
        | Some operation \<Rightarrow>
            if \<not> lease_executable executionAttemptId t operation then notExecutable
            else if \<not> operation_matches collate operation input
            then io_throw (AppError FORBIDDEN
                   ''Approved wallet operation does not match replayed action'' [])
            else
              io_bind (listPolicyEvaluationsForOperation scope walletOperationId) (\<lambda>evaluations.
              let gate = io_throw (AppError FORBIDDEN
                    ''Wallet operation has no satisfied approval gate'' [])
              in if evaluations = [] then gate
                 else if \<not> approval_gate_satisfied (last evaluations) then gate
                 else io_return (resumed_enforcement operation (last evaluations) input))))"

definition service_enforceWalletOperationPolicy ::
  "(string \<Rightarrow> nat list) \<Rightarrow> TenantScope \<Rightarrow> CreateWalletOperationInput \<Rightarrow> string option \<Rightarrow> string option \<Rightarrow>
     WalletOperationPolicyEnforcement policy_io" where
  "service_enforceWalletOperationPolicy collate scope input approvedOperationId approvedOperationAttemptId =
     io_bind (io_lift (assertTenantClaim scope (cwo_organizationId input) (cwo_projectId input)
       ''enforceWalletOperationPolicy'')) (\<lambda>_.
     if truthy approvedOperationId
     then if \<not> truthy approvedOperationAttemptId
          then io_throw (AppError FORBIDDEN ''Approved wallet operation attempt is unavailable'' [])
          else resumeApprovedOperation collate scope (the approvedOperationId)
                 (the approvedOperationAttemptId) input
     else enforce scope input)"

section \<open>Resolving requests\<close>

fun request_status_text :: "ApprovalRequestStatus \<Rightarrow> string" where
  "request_status_text ArPending = ''pending''"
| "request_status_text ArApproved = ''approved''"
| "request_status_text ArRejected = ''rejected''"
| "request_status_text ArCanceled = ''canceled''"
| "request_status_text ArExpired = ''expired''"
| "request_status_text ArFailed = ''failed''"

definition requireApprovalRequestStatus ::
  "ApprovalRequestRow option \<Rightarrow> ApprovalRequestStatus \<Rightarrow> (api_error, ApprovalRequestRow option) result" where
  "requireApprovalRequestStatus approvalRequest status =
     (case approvalRequest of
        None \<Rightarrow> Inr None
      | Some r \<Rightarrow>
          if ar_status r \<noteq> status
          then Inl (conflict (''Approval request is already '' @ request_status_text (ar_status r)))
          else Inr (Some r))"

definition resolveApprovalRequest ::
  "TenantScope \<Rightarrow> string \<Rightarrow> string \<Rightarrow> string option \<Rightarrow> string option \<Rightarrow> ApprovalRequestStatus \<Rightarrow>
     WalletOperationStatus \<Rightarrow> ApprovalRequestRow option policy_io" where
  "resolveApprovalRequest scope organizationId approvalRequestId resolvedBy projectId status operationStatus =
     io_bind (updateApprovalRequestStatus scope
       \<lparr>uar_organizationId = organizationId, uar_projectId = projectId,
        uar_approvalRequestId = approvalRequestId, uar_status = status,
        uar_operationStatus = Some operationStatus, uar_resolvedBy = resolvedBy, uar_resolvedAt = None\<rparr>)
       (\<lambda>approvalRequest. io_lift (requireApprovalRequestStatus approvalRequest status))"

definition approveApprovalRequest ::
  "TenantScope \<Rightarrow> string \<Rightarrow> string \<Rightarrow> string option \<Rightarrow> string option \<Rightarrow> ApprovalRequestRow option policy_io"
where
  "approveApprovalRequest scope organizationId approvalRequestId resolvedBy projectId =
     resolveApprovalRequest scope organizationId approvalRequestId resolvedBy projectId ArApproved OpExecuting"

definition cancelApprovalRequest ::
  "TenantScope \<Rightarrow> string \<Rightarrow> string \<Rightarrow> string option \<Rightarrow> string option \<Rightarrow> ApprovalRequestRow option policy_io"
where
  "cancelApprovalRequest scope organizationId approvalRequestId resolvedBy projectId =
     resolveApprovalRequest scope organizationId approvalRequestId resolvedBy projectId ArCanceled OpCanceled"

definition rejectApprovalRequest ::
  "TenantScope \<Rightarrow> string \<Rightarrow> string \<Rightarrow> string option \<Rightarrow> string option \<Rightarrow> ApprovalRequestRow option policy_io"
where
  "rejectApprovalRequest scope organizationId approvalRequestId resolvedBy projectId =
     resolveApprovalRequest scope organizationId approvalRequestId resolvedBy projectId ArRejected OpCanceled"

section \<open>The actor of a request\<close>

record ApiKeyContext =
  auth_id :: string
  auth_apiKeyId :: "string option"
  auth_userId :: "string option"
  auth_authType :: string

definition walletOperationActorFromAuth :: "ApiKeyContext \<Rightarrow> WalletOperationActor option" where
  "walletOperationActorFromAuth auth =
     (if truthy (auth_apiKeyId auth) then
        Some [(''type'', JStr ''api_key''), (''id'', JStr (the (auth_apiKeyId auth))),
              (''apiKeyId'', JStr (the (auth_apiKeyId auth)))]
      else if truthy (auth_userId auth) then
        Some [(''type'', JStr (auth_authType auth)), (''id'', JStr (the (auth_userId auth))),
              (''userId'', JStr (the (auth_userId auth)))]
      else Some [(''type'', JStr (auth_authType auth)), (''id'', JStr (auth_id auth))])"

section \<open>What enforcement guarantees\<close>



lemma sql_get_Inr:
  assumes "sql (io_get f) s = (Inr a, s')"
  obtains fs where "a = f (s\<lparr>sess_faults := fs\<rparr>)" "s' = s\<lparr>sess_faults := fs\<rparr>"
  using assms by (cases rule: sql_get_cases[of f s]) auto

lemma owned_lookup:
  assumes "getWalletOperationById scope k db = (Inr (Some row), db')"
  shows "operation_by_id db k = Some row" "owns_row scope T_wallet_operations k db" "only_session db db'"
proof -
  obtain b db1 where own: "tenantOwnsRow scope T_wallet_operations k db = (Inr b, db1)"
    and rest: "(if b then getWalletOperationByIdInternal k else io_return None) db1 = (Inr (Some row), db')"
    using assms by (auto simp: getWalletOperationById_def or_null_def io_bind_Inr_iff)
  obtain fs where b: "b = owns_row scope T_wallet_operations k (db\<lparr>sess_faults := fs\<rparr>)"
      "db1 = db\<lparr>sess_faults := fs\<rparr>"
    using own unfolding tenantOwnsRow_def by (rule sql_get_Inr)
  have "b" using rest by (cases b) (auto simp: io_return_def)
  then have "sql (io_get (\<lambda>db. operation_by_id db k)) db1 = (Inr (Some row), db')"
    using rest by (simp add: getWalletOperationByIdInternal_def)
  then obtain gs where "Some row = operation_by_id (db1\<lparr>sess_faults := gs\<rparr>) k" by (rule sql_get_Inr)
  then show "operation_by_id db k = Some row" by (simp add: b(2) operation_by_id_def)
  show "owns_row scope T_wallet_operations k db" using \<open>b\<close> b(1) by (simp add: owns_row_def)
  show "only_session db db'" using io_readsD[OF io_reads_operation_lookups(3) assms] .
qed

lemma listed_evaluations:
  assumes "listPolicyEvaluationsForOperation scope k db = (Inr evs, db')" "ev \<in> set evs"
  shows "ev \<in> set (t_policy_evaluations db) \<and> per_wallet_operation_id ev = k"
proof -
  obtain b db1 where own: "tenantOwnsRow scope T_wallet_operations k db = (Inr b, db1)"
    and rest: "(if \<not> b then io_return [] else listPolicyEvaluationsForOperationInternal k) db1 = (Inr evs, db')"
    using assms(1) by (auto simp: listPolicyEvaluationsForOperation_def io_bind_Inr_iff)
  have only: "only_session db db1" using own by (rule io_readsD[rotated]) (intro reads_intros)
  have "b" using rest assms(2) by (cases b) (auto simp: io_return_def)
  then have "sql (io_get (\<lambda>db. sort_key per_created_at
      (filter (\<lambda>r. per_wallet_operation_id r = k) (t_policy_evaluations db)))) db1 = (Inr evs, db')"
    using rest by (simp add: listPolicyEvaluationsForOperationInternal_def)
  then obtain gs where "evs = sort_key per_created_at (filter (\<lambda>r. per_wallet_operation_id r = k)
      (t_policy_evaluations (db1\<lparr>sess_faults := gs\<rparr>)))" by (rule sql_get_Inr)
  then show ?thesis using assms(2) only_session_tables[OF only] by simp
qed


section \<open>A run of the service\<close>

text \<open>One wallet whose active policy has no rules and the given default action, and a mint requested on it.\<close>

definition service_db :: "PolicyDefaultAction \<Rightarrow> policy_db" where
  "service_db action = example_db ''active''
     \<lparr>t_wallet_control_profiles := [example_profile\<lparr>wcpr_status := ProfileActive, wcpr_active_revision_id := Some ''r1''\<rparr>],
      t_wallet_control_profile_revisions := [example_revision\<lparr>wcrr_rules := [], wcrr_default_action := action\<rparr>]\<rparr>"

definition service_input :: CreateWalletOperationInput where
  "service_input = \<lparr>cwo_organizationId = ''org'', cwo_projectId = Some ''prj'', cwo_custodyWalletId = Some ''cw1'',
     cwo_walletId = ''w1'', cwo_apiKeyId = None, cwo_actor = None, cwo_source = None,
     cwo_operationFamily = FamIssuance, cwo_operationType = issuance_mint_execute,
     cwo_asset = None, cwo_amount = None, cwo_destination = None, cwo_legs = [],
     cwo_context = None, cwo_providerExtensions = None, cwo_rawPayload = None,
     cwo_idempotencyKey = None, cwo_status = None\<rparr>"

text \<open>Enforce, approve, claim and resume, each step in the state the previous one left.\<close>

definition approve_and_resume :: "PolicyDefaultAction \<Rightarrow> WalletOperationStatus option \<times>
     WalletOperationStatus option \<times> string option option \<times> (api_error, WalletOperationPolicyEnforcement) result" where
  "approve_and_resume action =
     (let (r1, db1) = enforce example_scope service_input (service_db action);
          (r2, db2) = approveApprovalRequest example_scope ''org'' ''appr_a'' (Some ''user'') (Some ''prj'') db1;
          (r3, db3) = claimWalletOperationExecution example_scope ''wop_'' ''att'' db2;
          (r4, db4) = resumeApprovedOperation (map of_char) example_scope ''wop_'' ''att'' service_input db3
      in (status_of db1 ''wop_'', status_of db2 ''wop_'',
          map_option wo_execution_attempt_id (operation_by_id db3 ''wop_''), r4))"


section \<open>Witnesses of the service properties\<close>

lemma service_db_ok: "operations_ok (service_db action)"
  by (simp add: operations_ok_def service_db_def example_db_defs)

definition resume_db :: policy_db where
  "resume_db = snd (claimWalletOperationExecution example_scope ''wop_'' ''att''
     (snd (approveApprovalRequest example_scope ''org'' ''appr_a'' (Some ''user'') (Some ''prj'')
       (snd (enforce example_scope service_input (service_db DefApprovalRequired))))))"




section \<open>The payload comparison\<close>

text \<open>Two JSON values denote the same data: arrays element by element, objects property by property.\<close>

inductive json_same :: "json \<Rightarrow> json \<Rightarrow> bool" where
  null: "json_same JNull JNull"
| bool: "json_same (JBool b) (JBool b)"
| num: "json_same (JNum n) (JNum n)"
| str: "json_same (JStr s) (JStr s)"
| arr: "list_all2 json_same xs ys \<Longrightarrow> json_same (JArr xs) (JArr ys)"
| obj: "\<forall>k. rel_option json_same (map_of xs k) (map_of ys k) \<Longrightarrow> json_same (JObj xs) (JObj ys)"

inductive_simps json_same_simps:
  "json_same JNull v" "json_same (JBool b) v" "json_same (JNum n) v" "json_same (JStr s) v"
  "json_same (JArr xs) v" "json_same (JObj xs) v"

text \<open>An object of JavaScript has each property once.\<close>

primrec json_wf :: "json \<Rightarrow> bool" where
  "json_wf JNull = True"
| "json_wf (JBool b) = True"
| "json_wf (JNum n) = True"
| "json_wf (JStr s) = True"
| "json_wf (JArr vs) = list_all id (map json_wf vs)"
| "json_wf (JObj entries) = (distinct (map fst entries) \<and> list_all snd (map (map_prod id json_wf) entries))"

lemma map_of_map_prod: "map_of (map (map_prod id f) xs) k = map_option f (map_of xs k)"
  by (induction xs) auto

lemma map_option_eq_iff: "map_option f u = map_option f v \<longleftrightarrow> rel_option (\<lambda>x y. f x = f y) u v"
  by (cases u; cases v) auto

lemma sort_key_eq_iff:
  fixes xs ys :: "(string \<times> json) list"
  assumes "inj collate" "distinct (map fst xs)" "distinct (map fst ys)"
  shows "sort_key (\<lambda>e. collate (fst e)) xs = sort_key (\<lambda>e. collate (fst e)) ys \<longleftrightarrow> map_of xs = map_of ys"
proof
  assume "sort_key (\<lambda>e. collate (fst e)) xs = sort_key (\<lambda>e. collate (fst e)) ys"
  then have "set xs = set ys" by (metis set_sort)
  then show "map_of xs = map_of ys" using assms(2,3) by (metis map_of_inject_set)
next
  assume "map_of xs = map_of ys"
  then have same: "set xs = set ys" using assms(2,3) by (metis map_of_inject_set)
  let ?f = "\<lambda>e :: string \<times> json. collate (fst e)"
  have inj: "inj_on ?f (set zs)" if "distinct (map fst zs)" for zs :: "(string \<times> json) list"
    using that assms(1) by (auto simp: inj_on_def distinct_map dest: injD)
  have sorted: "distinct (map ?f (sort_key ?f zs))" if "distinct (map fst zs)" for zs :: "(string \<times> json) list"
    using inj[OF that] that by (simp add: distinct_map)
  show "sort_key ?f xs = sort_key ?f ys"
    by (rule map_sorted_distinct_set_unique[where f = ?f])
       (use sorted assms same inj[OF assms(2)] in auto)
qed

lemma stableJson_eq_iff:
  assumes "inj collate" "json_wf a" "json_wf b"
  shows "stableJson collate a = stableJson collate b \<longleftrightarrow> json_same a b"
  using assms(2,3)
proof (induction a arbitrary: b)
  case (JArr xs)
  show ?case
  proof (cases b)
    case (JArr ys)
    have "map (stableJson collate) xs = map (stableJson collate) ys \<longleftrightarrow>
        list_all2 (\<lambda>x y. stableJson collate x = stableJson collate y) xs ys"
      by (auto simp: list_all2_conv_all_nth list_eq_iff_nth_eq)
    also have "\<dots> \<longleftrightarrow> list_all2 json_same xs ys"
      using JArr.IH JArr.prems JArr by (intro list.rel_cong) (auto simp: list_all_iff)
    finally show ?thesis using JArr by (simp add: json_same_simps)
  qed (auto simp: json_same_simps)
next
  case (JObj xs)
  show ?case
  proof (cases b)
    case (JObj ys)
    let ?c = "\<lambda>zs. map (map_prod id (stableJson collate)) zs"
    have keys: "distinct (map fst (?c zs)) = distinct (map fst zs)" for zs by (simp add: comp_def)
    have wf: "distinct (map fst xs)" "distinct (map fst ys)" using JObj.prems JObj by auto
    have "stableJson collate (JObj xs) = stableJson collate (JObj ys) \<longleftrightarrow> map_of (?c xs) = map_of (?c ys)"
      using sort_key_eq_iff[OF assms(1), of "?c xs" "?c ys"] wf keys by simp
    also have "\<dots> \<longleftrightarrow> (\<forall>k. rel_option (\<lambda>x y. stableJson collate x = stableJson collate y) (map_of xs k) (map_of ys k))"
      by (simp add: fun_eq_iff map_of_map_prod map_option_eq_iff)
    also have "\<dots> \<longleftrightarrow> (\<forall>k. rel_option json_same (map_of xs k) (map_of ys k))"
    proof (rule all_cong1, rule option.rel_cong[OF refl refl])
      fix k x y
      assume "x \<in> set_option (map_of xs k)" "y \<in> set_option (map_of ys k)"
      then have "(k, x) \<in> set xs" "(k, y) \<in> set ys" by (auto dest: map_of_SomeD)
      moreover from this have "json_wf x" "json_wf y" using JObj.prems JObj by (force simp: list_all_iff)+
      ultimately show "(stableJson collate x = stableJson collate y) = json_same x y"
        using JObj.IH[of "(k, x)" x] by simp
    qed
    finally show ?thesis using JObj by (simp add: json_same_simps)
  qed (auto simp: json_same_simps)
next
  case JNull
  show ?case by (cases b) (auto simp: json_same_simps)
next
  case (JBool x)
  show ?case by (cases b) (auto simp: json_same_simps)
next
  case (JNum x)
  show ?case by (cases b) (auto simp: json_same_simps)
next
  case (JStr x)
  show ?case by (cases b) (auto simp: json_same_simps)
qed



end
