(* ===== verification/Sponsorship_Redis.thy ===== *)
theory Sponsorship_Redis
  imports Runtime
begin

text \<open>
  The atomic admission layer of the sponsorship budget (\<^verbatim>\<open>runtime/sponsorship-budget-redis.ts\<close>): five Lua
  scripts over two hashes per window (one of the hour, one of the day), a key per reservation and a
  key per settlement, and the class that prepares their arguments. A script runs alone, so it is a
  function on the Redis state. Keys and hash fields are constructors instead of the texts with
  prefixes and separators that spell them. Amounts are lamports within the range of safe integers and
  the arithmetic of Lua and \<^verbatim>\<open>HINCRBY\<close> on them is exact.
\<close>

section \<open>Keys, fields and state\<close>

datatype SponsorshipNetwork = Devnet | Mainnet

datatype SponsorshipBudgetScopeType = ScopeTypeGlobal | ScopeTypeOrganization | ScopeTypeProject

datatype scope_field = FGlobal | FOrganization string | FProject string

text \<open>A reservation attempt: its id and attempt number.\<close>

datatype owner = Attempt string nat

datatype hash_field =
    Counter scope_field
  | Initialized scope_field
  | Owned owner
  | OwnedScope owner scope_field

type_synonym hash = "hash_field \<rightharpoonup> int"

datatype window_key = HourWindow SponsorshipNetwork string | DayWindow SponsorshipNetwork string

record SponsorshipBudgetPolicy =
  sbp_id :: string
  sbp_network :: SponsorshipNetwork
  sbp_scopeType :: SponsorshipBudgetScopeType
  sbp_scopeId :: "string option"
  sbp_enabled :: bool
  sbp_perTransactionLamports :: int
  sbp_hourlyLamports :: int
  sbp_dailyLamports :: int
  sbp_version :: int
  sbp_updatedBy :: string
  sbp_updateReason :: string
  sbp_updatedAt :: timestamp

record SponsorshipBudgetUsage =
  sbu_global :: int
  sbu_organization :: int
  sbu_project :: int

record SponsorshipLiveWindowReservation =
  lwr_id :: string
  lwr_attempt :: nat
  lwr_reservedLamports :: int
  lwr_organizationId :: string
  lwr_projectId :: "string option"

text \<open>A control is the text \<^verbatim>\<open>version:enabled\<close>; it is kept as the pair.\<close>

record redis =
  rd_windows :: "window_key \<Rightarrow> hash"
  rd_reservations :: "SponsorshipNetwork \<times> owner \<rightharpoonup> int"
  rd_settlements :: "SponsorshipNetwork \<times> owner \<rightharpoonup> int"
  rd_controls :: "SponsorshipNetwork \<Rightarrow> (SponsorshipBudgetScopeType \<times> string) \<rightharpoonup> int \<times> bool"

definition empty_redis :: redis where
  "empty_redis = \<lparr>rd_windows = (\<lambda>_. Map.empty), rd_reservations = Map.empty, rd_settlements = Map.empty,
     rd_controls = (\<lambda>_. Map.empty)\<rparr>"

record budget_keys =
  bk_network :: SponsorshipNetwork
  bk_hour :: window_key
  bk_day :: window_key
  bk_owner :: owner

definition keys_for :: "SponsorshipNetwork \<Rightarrow> string \<Rightarrow> string \<Rightarrow> string \<Rightarrow> nat \<Rightarrow> budget_keys" where
  "keys_for network hourBucket dayBucket reservationId attempt =
     \<lparr>bk_network = network, bk_hour = HourWindow network hourBucket, bk_day = DayWindow network dayBucket,
      bk_owner = Attempt reservationId attempt\<rparr>"

definition scopeFields :: "string \<Rightarrow> string option \<Rightarrow> scope_field list" where
  "scopeFields organizationId projectId =
     [FGlobal, FOrganization organizationId] @
     (case projectId of None \<Rightarrow> [] | Some p \<Rightarrow> if p = [] then [] else [FProject p])"

definition controlField :: "SponsorshipBudgetPolicy \<Rightarrow> SponsorshipBudgetScopeType \<times> string" where
  "controlField policy =
     (sbp_scopeType policy, case sbp_scopeId policy of None \<Rightarrow> ''default'' | Some i \<Rightarrow> i)"

definition hget :: "hash \<Rightarrow> scope_field \<Rightarrow> int" where
  "hget h f = (case h (Counter f) of None \<Rightarrow> 0 | Some v \<Rightarrow> v)"

definition hincrby :: "scope_field \<Rightarrow> int \<Rightarrow> hash \<Rightarrow> hash" where
  "hincrby f amount h = h(Counter f \<mapsto> hget h f + amount)"

text \<open>Every script works on the hour hash and the day hash of its keys.\<close>

definition put_windows :: "budget_keys \<Rightarrow> hash \<Rightarrow> hash \<Rightarrow> redis \<Rightarrow> redis" where
  "put_windows k hour day r =
     r\<lparr>rd_windows := (rd_windows r)(bk_hour k := hour, bk_day k := day)\<rparr>"

section \<open>INITIALIZE\<close>

definition seed_field :: "scope_field \<Rightarrow> int \<Rightarrow> hash \<Rightarrow> hash" where
  "seed_field f usage h =
     (if h (Initialized f) = None then h(Counter f \<mapsto> usage, Initialized f \<mapsto> 1) else h)"

text \<open>\<^verbatim>\<open>seeded_hour\<close> and \<^verbatim>\<open>seeded_day\<close>: the fields whose marker was absent.\<close>

definition seeded :: "hash \<Rightarrow> scope_field list \<Rightarrow> scope_field set" where
  "seeded h fs = {f \<in> set fs. h (Initialized f) = None}"

fun seed_fields :: "(scope_field \<times> int) list \<Rightarrow> hash \<Rightarrow> hash" where
  "seed_fields [] h = h"
| "seed_fields ((f, usage) # rest) h = seed_fields rest (seed_field f usage h)"

definition live_owner :: "SponsorshipLiveWindowReservation \<Rightarrow> owner" where
  "live_owner live = Attempt (lwr_id live) (lwr_attempt live)"

definition live_fields :: "SponsorshipLiveWindowReservation \<Rightarrow> scope_field list" where
  "live_fields live = scopeFields (lwr_organizationId live) (lwr_projectId live)"

fun reconstruct_fields ::
  "int option \<Rightarrow> int \<Rightarrow> owner \<Rightarrow> scope_field set \<Rightarrow> scope_field list \<Rightarrow> hash \<Rightarrow> hash" where
  "reconstruct_fields settled reserved ownership seed [] h = h"
| "reconstruct_fields settled reserved ownership seed (f # fs) h =
     reconstruct_fields settled reserved ownership seed fs
       (if f \<in> seed then
          (case settled of
             Some actual \<Rightarrow> if actual - reserved \<noteq> 0 then hincrby f (actual - reserved) h else h
           | None \<Rightarrow> h(OwnedScope ownership f \<mapsto> reserved, Owned ownership \<mapsto> reserved))
        else h)"

fun reconstruct ::
  "(owner \<rightharpoonup> int) \<Rightarrow> scope_field set \<Rightarrow> SponsorshipLiveWindowReservation list \<Rightarrow> hash \<Rightarrow> hash" where
  "reconstruct settlements seed [] h = h"
| "reconstruct settlements seed (live # rest) h =
     reconstruct settlements seed rest
       (reconstruct_fields (settlements (live_owner live)) (lwr_reservedLamports live) (live_owner live)
          seed (live_fields live) h)"

definition initialize_window ::
  "(owner \<rightharpoonup> int) \<Rightarrow> (scope_field \<times> int) list \<Rightarrow> SponsorshipLiveWindowReservation list \<Rightarrow> hash \<Rightarrow> hash" where
  "initialize_window settlements seeds live h =
     reconstruct settlements (seeded h (map fst seeds)) live (seed_fields seeds h)"

definition settlements_of :: "SponsorshipNetwork \<Rightarrow> redis \<Rightarrow> owner \<rightharpoonup> int" where
  "settlements_of network r = (\<lambda>ownership. rd_settlements r (network, ownership))"

definition initialize_script ::
  "budget_keys \<Rightarrow> (scope_field \<times> int) list \<Rightarrow> (scope_field \<times> int) list \<Rightarrow>
     SponsorshipLiveWindowReservation list \<Rightarrow> SponsorshipLiveWindowReservation list \<Rightarrow> redis \<Rightarrow> redis" where
  "initialize_script k hourSeeds daySeeds liveHour liveDay r =
     (let settlements = settlements_of (bk_network k) r in
      put_windows k
        (initialize_window settlements hourSeeds liveHour (rd_windows r (bk_hour k)))
        (initialize_window settlements daySeeds liveDay (rd_windows r (bk_day k))) r)"

section \<open>RESERVE\<close>

record scope_limit =
  sl_field :: scope_field
  sl_per_tx :: int
  sl_hour_limit :: int
  sl_day_limit :: int
  sl_control_field :: "SponsorshipBudgetScopeType \<times> string"
  sl_expected_version :: int

datatype reserve_reply =
    ReplyAdmitted int
  | ReplyDuplicate int
  | ReplyDenied nat int int
  | ReplyUninitialized nat
  | ReplyStale nat

fun check_scopes ::
  "hash \<Rightarrow> hash \<Rightarrow> ((SponsorshipBudgetScopeType \<times> string) \<rightharpoonup> int \<times> bool) \<Rightarrow> nat \<Rightarrow> scope_limit list \<Rightarrow>
     reserve_reply option" where
  "check_scopes hour day controls i [] = None"
| "check_scopes hour day controls i (l # ls) =
     (if hour (Initialized (sl_field l)) = None \<or> day (Initialized (sl_field l)) = None
      then Some (ReplyUninitialized i)
      else if controls (sl_control_field l) \<noteq> Some (sl_expected_version l, True)
      then Some (ReplyStale i)
      else check_scopes hour day controls (i + 1) ls)"

text \<open>An attempt is already counted on a field when it carries the field's marker, or when it carries only
  the marker without a field, which earlier versions wrote.\<close>

definition counts :: "owner \<Rightarrow> scope_field list \<Rightarrow> hash \<Rightarrow> scope_field \<Rightarrow> bool" where
  "counts ownership fs h f =
     (if h (OwnedScope ownership f) \<noteq> None then True
      else if h (Owned ownership) = None then False
      else list_all (\<lambda>g. h (OwnedScope ownership g) = None) fs)"

fun check_limits ::
  "owner \<Rightarrow> scope_field list \<Rightarrow> int \<Rightarrow> hash \<Rightarrow> hash \<Rightarrow> nat \<Rightarrow> scope_limit list \<Rightarrow> reserve_reply option" where
  "check_limits ownership fs amount hour day i [] = None"
| "check_limits ownership fs amount hour day i (l # ls) =
     (let f = sl_field l; hour_used = hget hour f; day_used = hget day f in
      if amount > sl_per_tx l then Some (ReplyDenied i (-1) (-1))
      else if (if counts ownership fs hour f then hour_used > sl_hour_limit l
               else hour_used + amount > sl_hour_limit l)
      then Some (ReplyDenied i hour_used day_used)
      else if (if counts ownership fs day f then day_used > sl_day_limit l
               else day_used + amount > sl_day_limit l)
      then Some (ReplyDenied i hour_used day_used)
      else check_limits ownership fs amount hour day (i + 1) ls)"

fun charge_fields :: "owner \<Rightarrow> int \<Rightarrow> (scope_field \<times> bool) list \<Rightarrow> hash \<Rightarrow> hash" where
  "charge_fields ownership amount [] h = h"
| "charge_fields ownership amount ((f, counted) # rest) h =
     charge_fields ownership amount rest
       (if \<not> counted then (hincrby f amount h)(OwnedScope ownership f \<mapsto> amount) else h)"

definition charge_window :: "owner \<Rightarrow> int \<Rightarrow> scope_field list \<Rightarrow> hash \<Rightarrow> hash" where
  "charge_window ownership amount fs h =
     (charge_fields ownership amount (map (\<lambda>f. (f, counts ownership fs h f)) fs) h)
       (Owned ownership \<mapsto> amount)"

definition reserve_script :: "budget_keys \<Rightarrow> int \<Rightarrow> scope_limit list \<Rightarrow> redis \<Rightarrow> reserve_reply \<times> redis" where
  "reserve_script k amount limits r =
     (let hour = rd_windows r (bk_hour k); day = rd_windows r (bk_day k);
          existing = rd_reservations r (bk_network k, bk_owner k);
          fs = map sl_field limits
      in case check_scopes hour day (rd_controls r (bk_network k)) 1 limits of
           Some reply \<Rightarrow> (reply, r)
         | None \<Rightarrow>
             if existing \<noteq> None \<or> rd_settlements r (bk_network k, bk_owner k) \<noteq> None
             then (ReplyDuplicate (case existing of None \<Rightarrow> 0 | Some v \<Rightarrow> v), r)
             else case check_limits (bk_owner k) fs amount hour day 1 limits of
                    Some reply \<Rightarrow> (reply, r)
                  | None \<Rightarrow>
                      (ReplyAdmitted amount,
                       (put_windows k (charge_window (bk_owner k) amount fs hour)
                          (charge_window (bk_owner k) amount fs day) r)
                         \<lparr>rd_reservations := (rd_reservations r)((bk_network k, bk_owner k) \<mapsto> amount)\<rparr>))"

section \<open>SYNC CONTROL, CANCEL and SETTLE\<close>

definition sync_control_script ::
  "SponsorshipNetwork \<Rightarrow> SponsorshipBudgetScopeType \<times> string \<Rightarrow> int \<Rightarrow> bool \<Rightarrow> redis \<Rightarrow> redis" where
  "sync_control_script network field version enabled r =
     (let put = r\<lparr>rd_controls := (rd_controls r)(network := (rd_controls r network)(field \<mapsto> (version, enabled)))\<rparr>
      in case rd_controls r network field of
           Some (current, _) \<Rightarrow> if current > version then r else put
         | None \<Rightarrow> put)"

definition covers :: "owner \<Rightarrow> scope_field list \<Rightarrow> hash \<Rightarrow> scope_field \<Rightarrow> bool" where
  "covers ownership fs h f =
     (if h (OwnedScope ownership f) \<noteq> None then True
      else if h (Owned ownership) = None then False
      else if list_ex (\<lambda>g. h (OwnedScope ownership g) \<noteq> None) fs then False
      else h (Initialized f) \<noteq> None)"

text \<open>The loop that takes an attempt off the fields it covers, decided before the first write. Cancelling
  issues \<^verbatim>\<open>HINCRBY\<close> for a zero amount too, which leaves every reading of the counter as it is.\<close>

fun adjust_fields :: "owner \<Rightarrow> int \<Rightarrow> (scope_field \<times> bool) list \<Rightarrow> hash \<Rightarrow> hash" where
  "adjust_fields ownership delta [] h = h"
| "adjust_fields ownership delta ((f, adjusted) # rest) h =
     adjust_fields ownership delta rest
       (if adjusted then (if delta \<noteq> 0 then hincrby f delta h else h)(OwnedScope ownership f := None) else h)"

definition adjust_window :: "owner \<Rightarrow> int \<Rightarrow> scope_field list \<Rightarrow> hash \<Rightarrow> hash" where
  "adjust_window ownership delta fs h =
     (adjust_fields ownership delta (map (\<lambda>f. (f, covers ownership fs h f)) fs) h)(Owned ownership := None)"

definition underflows :: "owner \<Rightarrow> int \<Rightarrow> scope_field list \<Rightarrow> hash \<Rightarrow> bool" where
  "underflows ownership amount fs h \<longleftrightarrow> list_ex (\<lambda>f. covers ownership fs h f \<and> hget h f < amount) fs"

definition first_value :: "int option \<Rightarrow> int option \<Rightarrow> int option" where
  "first_value u v = (case u of Some x \<Rightarrow> Some x | None \<Rightarrow> v)"

definition cancel_script :: "budget_keys \<Rightarrow> scope_field list \<Rightarrow> redis \<Rightarrow> int \<times> redis" where
  "cancel_script k fs r =
     (let hour = rd_windows r (bk_hour k); day = rd_windows r (bk_day k); ownership = bk_owner k;
          owned_value = rd_reservations r (bk_network k, ownership);
          hour_owned = hour (Owned ownership); day_owned = day (Owned ownership)
      in case first_value owned_value (first_value hour_owned day_owned) of
           None \<Rightarrow> (0, r)
         | Some amount \<Rightarrow>
             if hour_owned \<noteq> None \<and> hour_owned \<noteq> Some amount then (-2, r)
             else if day_owned \<noteq> None \<and> day_owned \<noteq> Some amount then (-2, r)
             else if underflows ownership amount fs hour \<or> underflows ownership amount fs day then (-1, r)
             else (amount,
               (put_windows k (adjust_window ownership (- amount) fs hour)
                  (adjust_window ownership (- amount) fs day) r)
                 \<lparr>rd_reservations := (rd_reservations r)((bk_network k, ownership) := None)\<rparr>))"

text \<open>The check of one window before settling: its marker disagrees, or a counter would go below zero.\<close>

definition settle_rejects :: "owner \<Rightarrow> int \<Rightarrow> int \<Rightarrow> scope_field list \<Rightarrow> hash \<Rightarrow> int option" where
  "settle_rejects ownership reserved delta fs h =
     (if h (Owned ownership) \<noteq> None \<and> h (Owned ownership) \<noteq> Some reserved then Some 2
      else if delta < 0 \<and> underflows ownership (- delta) fs h then Some 1
      else None)"

definition settle_script ::
  "budget_keys \<Rightarrow> int \<Rightarrow> int \<Rightarrow> scope_field list \<Rightarrow> bool \<Rightarrow> redis \<Rightarrow> (int \<times> int) \<times> redis" where
  "settle_script k reserved actual fs detectMissing r =
     (let hour = rd_windows r (bk_hour k); day = rd_windows r (bk_day k); ownership = bk_owner k;
          delta = actual - reserved;
          owned_value = rd_reservations r (bk_network k, ownership)
      in if rd_settlements r (bk_network k, ownership) \<noteq> None then ((1, 0), r)
         else if owned_value = None \<and> \<not> detectMissing then ((0, 2), r)
         else if owned_value \<noteq> None \<and> owned_value \<noteq> Some reserved then ((0, 2), r)
         else case first_value (settle_rejects ownership reserved delta fs hour)
                     (settle_rejects ownership reserved delta fs day) of
                Some reason \<Rightarrow> ((0, reason), r)
              | None \<Rightarrow>
                  ((1, delta),
                   (put_windows k (adjust_window ownership delta fs hour)
                      (adjust_window ownership delta fs day) r)
                     \<lparr>rd_reservations := (rd_reservations r)((bk_network k, ownership) := None),
                      rd_settlements := (rd_settlements r)((bk_network k, ownership) \<mapsto> actual)\<rparr>))"

section \<open>The class\<close>

record BudgetAdmissionInput =
  bai_network :: SponsorshipNetwork
  bai_organizationId :: string
  bai_projectId :: "string option"
  bai_hourBucket :: string
  bai_dayBucket :: string
  bai_reservationId :: string
  bai_attempt :: nat
  bai_amount :: int
  bai_policies :: "SponsorshipBudgetPolicy list"
  bai_hourUsage :: SponsorshipBudgetUsage
  bai_dayUsage :: SponsorshipBudgetUsage
  bai_liveHour :: "SponsorshipLiveWindowReservation list"
  bai_liveDay :: "SponsorshipLiveWindowReservation list"

datatype reserve_result = Admitted | Duplicate | Denied | StalePolicy

definition usage_seeds :: "scope_field list \<Rightarrow> SponsorshipBudgetUsage \<Rightarrow> (scope_field \<times> int) list" where
  "usage_seeds fs usage = zip fs [sbu_global usage, sbu_organization usage, sbu_project usage]"

definition syncPolicy :: "SponsorshipBudgetPolicy \<Rightarrow> redis \<Rightarrow> redis" where
  "syncPolicy policy r =
     sync_control_script (sbp_network policy) (controlField policy) (sbp_version policy) (sbp_enabled policy) r"

text \<open>\<^verbatim>\<open>new Map(policies.map(...)).get(scopeType)\<close>: of several policies of one scope type the last wins.\<close>

definition policyByScope ::
  "SponsorshipBudgetPolicy list \<Rightarrow> SponsorshipBudgetScopeType \<Rightarrow> SponsorshipBudgetPolicy option" where
  "policyByScope policies scopeType = find (\<lambda>p. sbp_scopeType p = scopeType) (rev policies)"

definition scope_type_name :: "SponsorshipBudgetScopeType \<Rightarrow> string" where
  "scope_type_name t = (case t of ScopeTypeGlobal \<Rightarrow> ''global'' | ScopeTypeOrganization \<Rightarrow> ''organization''
     | ScopeTypeProject \<Rightarrow> ''project'')"

definition scope_limit_for :: "SponsorshipBudgetPolicy list \<Rightarrow> scope_field \<times> SponsorshipBudgetScopeType \<Rightarrow>
     (api_error, scope_limit) result" where
  "scope_limit_for policies = (\<lambda>(f, scopeType).
     case policyByScope policies scopeType of
       None \<Rightarrow> Inl (PlainError (''Missing '' @ scope_type_name scopeType @ '' sponsorship budget policy''))
     | Some policy \<Rightarrow> Inr
         \<lparr>sl_field = f, sl_per_tx = sbp_perTransactionLamports policy, sl_hour_limit = sbp_hourlyLamports policy,
          sl_day_limit = sbp_dailyLamports policy, sl_control_field = controlField policy,
          sl_expected_version = sbp_version policy\<rparr>)"

definition admission_keys :: "BudgetAdmissionInput \<Rightarrow> budget_keys" where
  "admission_keys input = keys_for (bai_network input) (bai_hourBucket input) (bai_dayBucket input)
     (bai_reservationId input) (bai_attempt input)"

definition admission_fields :: "BudgetAdmissionInput \<Rightarrow> scope_field list" where
  "admission_fields input = scopeFields (bai_organizationId input) (bai_projectId input)"

definition admission_limits :: "BudgetAdmissionInput \<Rightarrow> (api_error, scope_limit list) result" where
  "admission_limits input = result_mapM (scope_limit_for (bai_policies input))
     (zip (admission_fields input) [ScopeTypeGlobal, ScopeTypeOrganization, ScopeTypeProject])"

fun reserve_outcome :: "reserve_reply \<Rightarrow> reserve_result" where
  "reserve_outcome (ReplyDuplicate _) = Duplicate"
| "reserve_outcome (ReplyAdmitted _) = Admitted"
| "reserve_outcome (ReplyStale _) = StalePolicy"
| "reserve_outcome (ReplyDenied _ _ _) = Denied"
| "reserve_outcome (ReplyUninitialized _) = Denied"

definition prepare_window :: "BudgetAdmissionInput \<Rightarrow> redis \<Rightarrow> redis" where
  "prepare_window input r =
     fold syncPolicy (bai_policies input)
       (initialize_script (admission_keys input)
          (usage_seeds (admission_fields input) (bai_hourUsage input))
          (usage_seeds (admission_fields input) (bai_dayUsage input))
          (bai_liveHour input) (bai_liveDay input) r)"

definition reserve :: "BudgetAdmissionInput \<Rightarrow> redis \<Rightarrow> (api_error, reserve_result) result \<times> redis" where
  "reserve input r =
     (let r1 = prepare_window input r in
      case admission_limits input of
        Inl e \<Rightarrow> (Inl e, r1)
      | Inr limits \<Rightarrow>
          (case reserve_script (admission_keys input) (bai_amount input) limits r1 of
             (reply, r2) \<Rightarrow> (Inr (reserve_outcome reply), r2)))"

definition cancel :: "budget_keys \<Rightarrow> string \<Rightarrow> string option \<Rightarrow> redis \<Rightarrow> (api_error, unit) result \<times> redis" where
  "cancel k organizationId projectId r =
     (case cancel_script k (scopeFields organizationId projectId) r of
        (reply, r') \<Rightarrow>
          (if reply = -1 \<or> reply = -2
           then Inl (PlainError ''Sponsorship budget counter invariant violated during compensation'')
           else Inr (), r'))"

definition settle :: "budget_keys \<Rightarrow> string \<Rightarrow> string option \<Rightarrow> int \<Rightarrow> int \<Rightarrow> bool \<Rightarrow> redis \<Rightarrow>
     (api_error, int) result \<times> redis" where
  "settle k organizationId projectId reservedLamports actualLamports detectMissing r =
     (case settle_script k reservedLamports actualLamports (scopeFields organizationId projectId) detectMissing r of
        ((code, delta), r') \<Rightarrow>
          (if code \<noteq> 1
           then Inl (PlainError ''Sponsorship budget counter invariant violated during settlement'')
           else Inr delta, r'))"

definition getPolicyControl :: "SponsorshipBudgetPolicy \<Rightarrow> redis \<Rightarrow> (int \<times> bool) option" where
  "getPolicyControl policy r = rd_controls r (sbp_network policy) (controlField policy)"

section \<open>What the loops do\<close>

lemma hget_simps [simp]:
  "hget (h(Counter f \<mapsto> v)) g = (if g = f then v else hget h g)"
  "hget (h(Initialized g' \<mapsto> v)) g = hget h g" "hget (h(Owned o1 := w)) g = hget h g"
  "hget (h(OwnedScope o1 g' := w)) g = hget h g"
  by (simp_all add: hget_def)

lemma hincrby_simps [simp]:
  "hget (hincrby f a h) g = (if g = f then hget h f + a else hget h g)"
  "hincrby f a h (Initialized g) = h (Initialized g)" "hincrby f a h (Owned o1) = h (Owned o1)"
  "hincrby f a h (OwnedScope o1 g) = h (OwnedScope o1 g)"
  by (simp_all add: hincrby_def)

lemma charge_fields_simps:
  assumes "distinct (map fst ps)"
  shows "hget (charge_fields o1 a ps h) f = (if (f, False) \<in> set ps then hget h f + a else hget h f)"
    "charge_fields o1 a ps h (OwnedScope o2 f) =
       (if o2 = o1 \<and> (f, False) \<in> set ps then Some a else h (OwnedScope o2 f))"
    "charge_fields o1 a ps h (Initialized f) = h (Initialized f)"
    "charge_fields o1 a ps h (Owned o2) = h (Owned o2)"
  using assms by (induction o1 a ps h rule: charge_fields.induct) (auto simp: rev_image_eqI)

lemma adjust_fields_simps:
  assumes "distinct (map fst ps)"
  shows "hget (adjust_fields o1 d ps h) f = (if (f, True) \<in> set ps then hget h f + d else hget h f)"
    "adjust_fields o1 d ps h (OwnedScope o2 f) =
       (if o2 = o1 \<and> (f, True) \<in> set ps then None else h (OwnedScope o2 f))"
    "adjust_fields o1 d ps h (Initialized f) = h (Initialized f)"
    "adjust_fields o1 d ps h (Owned o2) = h (Owned o2)"
  using assms by (induction o1 d ps h rule: adjust_fields.induct) (auto simp: rev_image_eqI)

lemma reconstruct_settled_simps:
  assumes "distinct fs"
  shows "hget (reconstruct_fields (Some actual) reserved o1 seed fs h) f =
      hget h f + (if f \<in> seed \<and> f \<in> set fs then actual - reserved else 0)"
    "reconstruct_fields (Some actual) reserved o1 seed fs h (OwnedScope o2 f) = h (OwnedScope o2 f)"
    "reconstruct_fields (Some actual) reserved o1 seed fs h (Initialized f) = h (Initialized f)"
    "reconstruct_fields (Some actual) reserved o1 seed fs h (Owned o2) = h (Owned o2)"
  using assms by (induction fs arbitrary: h) auto

lemma reconstruct_live_simps:
  shows "hget (reconstruct_fields None reserved o1 seed fs h) f = hget h f"
    "reconstruct_fields None reserved o1 seed fs h (OwnedScope o2 f) =
       (if o2 = o1 \<and> f \<in> seed \<and> f \<in> set fs then Some reserved else h (OwnedScope o2 f))"
    "reconstruct_fields None reserved o1 seed fs h (Initialized f) = h (Initialized f)"
    "reconstruct_fields None reserved o1 seed fs h (Owned o2) =
       (if o2 = o1 \<and> seed \<inter> set fs \<noteq> {} then Some reserved else h (Owned o2))"
  by (induction fs arbitrary: h) auto

lemma seed_fields_simps:
  assumes "distinct (map fst ss)"
  shows "hget (seed_fields ss h) f =
      (case map_of ss f of Some u \<Rightarrow> if h (Initialized f) = None then u else hget h f | None \<Rightarrow> hget h f)"
    "seed_fields ss h (OwnedScope o2 f) = h (OwnedScope o2 f)"
    "seed_fields ss h (Owned o2) = h (Owned o2)"
    "seed_fields ss h (Initialized f) =
      (if h (Initialized f) = None \<and> f \<in> fst ` set ss then Some 1 else h (Initialized f))"
  using assms by (induction ss h rule: seed_fields.induct) (auto simp: seed_field_def split: option.split)

lemma distinct_scopeFields [simp]: "distinct (scopeFields org proj)"
  by (auto simp: scopeFields_def split: option.split)

section \<open>Admission respects every limit\<close>

lemma check_scopes_None:
  assumes "check_scopes hour day controls i limits = None" "l \<in> set limits"
  shows "hour (Initialized (sl_field l)) \<noteq> None" "day (Initialized (sl_field l)) \<noteq> None"
    "controls (sl_control_field l) = Some (sl_expected_version l, True)"
  using assms by (induction hour day controls i limits rule: check_scopes.induct) (auto split: if_splits)

lemma check_limits_None:
  assumes "check_limits o1 fs amount hour day i limits = None" "l \<in> set limits"
  shows "amount \<le> sl_per_tx l"
    "hget hour (sl_field l) + (if counts o1 fs hour (sl_field l) then 0 else amount) \<le> sl_hour_limit l"
    "hget day (sl_field l) + (if counts o1 fs day (sl_field l) then 0 else amount) \<le> sl_day_limit l"
  using assms by (induction o1 fs amount hour day i limits rule: check_limits.induct)
    (auto simp: Let_def split: if_splits)

lemma hget_charge_window:
  assumes "distinct fs" "f \<in> set fs"
  shows "hget (charge_window o1 amount fs h) f = hget h f + (if counts o1 fs h f then 0 else amount)"
proof -
  have "distinct (map fst (map (\<lambda>f. (f, counts o1 fs h f)) fs))" using assms(1) by (simp add: comp_def)
  note charge = charge_fields_simps(1)[OF this, of o1 amount h f]
  have "(f, False) \<in> set (map (\<lambda>f. (f, counts o1 fs h f)) fs) \<longleftrightarrow> \<not> counts o1 fs h f"
    using assms(2) by auto
  then show ?thesis using charge by (simp add: charge_window_def)
qed

lemma reserve_admitted:
  assumes "reserve_script k amount limits r = (ReplyAdmitted a, r')"
  shows "a = amount" "check_scopes (rd_windows r (bk_hour k)) (rd_windows r (bk_day k))
      (rd_controls r (bk_network k)) 1 limits = None"
    "check_limits (bk_owner k) (map sl_field limits) amount (rd_windows r (bk_hour k))
      (rd_windows r (bk_day k)) 1 limits = None"
    "rd_reservations r (bk_network k, bk_owner k) = None" "rd_settlements r (bk_network k, bk_owner k) = None"
    "r' = (put_windows k (charge_window (bk_owner k) amount (map sl_field limits) (rd_windows r (bk_hour k)))
        (charge_window (bk_owner k) amount (map sl_field limits) (rd_windows r (bk_day k))) r)
      \<lparr>rd_reservations := (rd_reservations r)((bk_network k, bk_owner k) \<mapsto> amount)\<rparr>"
proof -
  have no_scope: "check_scopes hour day c i ls \<noteq> Some (ReplyAdmitted x)" for hour day c i ls x
    by (induction hour day c i ls rule: check_scopes.induct) auto
  have no_limit: "check_limits o1 fs am hour day i ls \<noteq> Some (ReplyAdmitted x)" for o1 fs am hour day i ls x
    by (induction o1 fs am hour day i ls rule: check_limits.induct) (auto simp: Let_def)
  show "a = amount" "check_scopes (rd_windows r (bk_hour k)) (rd_windows r (bk_day k))
      (rd_controls r (bk_network k)) 1 limits = None"
    "check_limits (bk_owner k) (map sl_field limits) amount (rd_windows r (bk_hour k))
      (rd_windows r (bk_day k)) 1 limits = None"
    "rd_reservations r (bk_network k, bk_owner k) = None" "rd_settlements r (bk_network k, bk_owner k) = None"
    "r' = (put_windows k (charge_window (bk_owner k) amount (map sl_field limits) (rd_windows r (bk_hour k)))
        (charge_window (bk_owner k) amount (map sl_field limits) (rd_windows r (bk_day k))) r)
      \<lparr>rd_reservations := (rd_reservations r)((bk_network k, bk_owner k) \<mapsto> amount)\<rparr>"
    using assms no_scope no_limit
    by (auto simp: reserve_script_def Let_def split: option.splits if_splits)
qed

lemma result_mapM_in:
  assumes "result_mapM f xs = Inr ys" "x \<in> set xs"
  shows "\<exists>y\<in>set ys. f x = Inr y"
  using assms by (induction xs arbitrary: ys) (auto simp: result_bind_Inr_iff)

lemma admission_limits_fields:
  assumes "admission_limits input = Inr limits"
  shows "map sl_field limits = admission_fields input"
proof -
  have map_fields: "map sl_field ls = map fst xs" if "result_mapM (scope_limit_for ps) xs = Inr ls" for ps xs ls
    using that by (induction xs arbitrary: ls)
      (auto simp: result_bind_Inr_iff scope_limit_for_def split: option.splits)
  have "length (admission_fields input) \<le> 3"
    by (auto simp: admission_fields_def scopeFields_def split: option.split)
  then have "map fst (zip (admission_fields input) [ScopeTypeGlobal, ScopeTypeOrganization, ScopeTypeProject]) =
      admission_fields input"
    by (simp add: map_fst_zip_take)
  then show ?thesis using map_fields assms unfolding admission_limits_def by metis
qed

lemma admitted_limits:
  assumes "reserve input r = (Inr Admitted, r')"
    and "(f, scopeType) \<in> set (zip (admission_fields input) [ScopeTypeGlobal, ScopeTypeOrganization, ScopeTypeProject])"
  shows "\<exists>policy. policyByScope (bai_policies input) scopeType = Some policy \<and>
    rd_controls r' (bai_network input) (controlField policy) = Some (sbp_version policy, True) \<and>
    bai_amount input \<le> sbp_perTransactionLamports policy \<and>
    hget (rd_windows r' (HourWindow (bai_network input) (bai_hourBucket input))) f \<le> sbp_hourlyLamports policy \<and>
    hget (rd_windows r' (DayWindow (bai_network input) (bai_dayBucket input))) f \<le> sbp_dailyLamports policy"
proof -
  let ?k = "admission_keys input" and ?r = "prepare_window input r"
  obtain limits reply where limits: "admission_limits input = Inr limits"
    and run: "reserve_script ?k (bai_amount input) limits ?r = (reply, r')" "reserve_outcome reply = Admitted"
    using assms(1) by (auto simp: reserve_def Let_def split: sum.splits prod.splits)
  obtain a where "reply = ReplyAdmitted a" using run(2) by (cases reply) auto
  note adm = reserve_admitted[OF run(1)[unfolded this]]
  obtain l where l: "l \<in> set limits" "scope_limit_for (bai_policies input) (f, scopeType) = Inr l"
    using result_mapM_in[OF limits[unfolded admission_limits_def] assms(2)] by blast
  then obtain policy where policy: "policyByScope (bai_policies input) scopeType = Some policy"
      "l = \<lparr>sl_field = f, sl_per_tx = sbp_perTransactionLamports policy, sl_hour_limit = sbp_hourlyLamports policy,
          sl_day_limit = sbp_dailyLamports policy, sl_control_field = controlField policy,
          sl_expected_version = sbp_version policy\<rparr>"
    by (auto simp: scope_limit_for_def split: option.splits)
  have fs: "map sl_field limits = admission_fields input" by (rule admission_limits_fields[OF limits])
  have f: "f \<in> set (admission_fields input)" using assms(2) by (auto dest: set_zip_leftD)
  have dist: "distinct (admission_fields input)" by (simp add: admission_fields_def)
  have keys: "bk_hour ?k = HourWindow (bai_network input) (bai_hourBucket input)"
    "bk_day ?k = DayWindow (bai_network input) (bai_dayBucket input)" "bk_network ?k = bai_network input"
    by (simp_all add: admission_keys_def keys_for_def)
  show ?thesis
    using check_scopes_None(3)[OF adm(2) l(1)] check_limits_None[OF adm(3) l(1)]
      hget_charge_window[OF dist f, of "bk_owner ?k" "bai_amount input"]
    by (simp add: policy adm(6) fs keys put_windows_def)
qed

definition example_policy :: "SponsorshipBudgetScopeType \<Rightarrow> string option \<Rightarrow> SponsorshipBudgetPolicy" where
  "example_policy scopeType scopeId =
     \<lparr>sbp_id = ''sbp_1'', sbp_network = Devnet, sbp_scopeType = scopeType, sbp_scopeId = scopeId,
      sbp_enabled = True, sbp_perTransactionLamports = 50, sbp_hourlyLamports = 100, sbp_dailyLamports = 200,
      sbp_version = 1, sbp_updatedBy = ''operator'', sbp_updateReason = ''launch'', sbp_updatedAt = 0\<rparr>"

definition example_admission :: BudgetAdmissionInput where
  "example_admission =
     \<lparr>bai_network = Devnet, bai_organizationId = ''org'', bai_projectId = Some ''prj'', bai_hourBucket = ''h'',
      bai_dayBucket = ''d'', bai_reservationId = ''res'', bai_attempt = 1, bai_amount = 40,
      bai_policies = [example_policy ScopeTypeGlobal None, example_policy ScopeTypeOrganization (Some ''org''),
        example_policy ScopeTypeProject (Some ''prj'')],
      bai_hourUsage = \<lparr>sbu_global = 60, sbu_organization = 20, sbu_project = 20\<rparr>,
      bai_dayUsage = \<lparr>sbu_global = 60, sbu_organization = 20, sbu_project = 20\<rparr>,
      bai_liveHour = [], bai_liveDay = []\<rparr>"

text \<open>C19. An admitted sponsorship is within every limit of its hierarchy: for the global, the organization
  and the project scope, the policy resolved for the scope is the enabled version Redis knows, the
  amount is at most its limit per transaction, and the hour and day counters, the new amount
  included, are at most its hourly and daily limits.\<close>

theorem admitted_within_limits:
  assumes "reserve input r = (Inr Admitted, r')"
    and "(f, scopeType) \<in> set (zip (admission_fields input) [ScopeTypeGlobal, ScopeTypeOrganization, ScopeTypeProject])"
  shows "\<exists>policy. policyByScope (bai_policies input) scopeType = Some policy \<and>
    rd_controls r' (bai_network input) (controlField policy) = Some (sbp_version policy, True) \<and>
    bai_amount input \<le> sbp_perTransactionLamports policy \<and>
    hget (rd_windows r' (HourWindow (bai_network input) (bai_hourBucket input))) f \<le> sbp_hourlyLamports policy \<and>
    hget (rd_windows r' (DayWindow (bai_network input) (bai_dayBucket input))) f \<le> sbp_dailyLamports policy"
  using assms by (rule admitted_limits)

theorem admitted_within_limits_witness:
  "fst (reserve example_admission empty_redis) = Inr Admitted \<and>
   (\<exists>policy. policyByScope (bai_policies example_admission) ScopeTypeGlobal = Some policy \<and>
     rd_controls (snd (reserve example_admission empty_redis)) (bai_network example_admission)
       (controlField policy) = Some (sbp_version policy, True) \<and>
     bai_amount example_admission \<le> sbp_perTransactionLamports policy \<and>
     hget (rd_windows (snd (reserve example_admission empty_redis))
       (HourWindow (bai_network example_admission) (bai_hourBucket example_admission))) FGlobal \<le> sbp_hourlyLamports policy \<and>
     hget (rd_windows (snd (reserve example_admission empty_redis))
       (DayWindow (bai_network example_admission) (bai_dayBucket example_admission))) FGlobal \<le> sbp_dailyLamports policy)"
proof -
  have run: "fst (reserve example_admission empty_redis) = Inr Admitted" by code_simp
  have zip: "(FGlobal, ScopeTypeGlobal) \<in> set (zip (admission_fields example_admission)
      [ScopeTypeGlobal, ScopeTypeOrganization, ScopeTypeProject])" by code_simp
  show ?thesis
    using run admitted_within_limits[OF prod_eqI zip, of empty_redis "snd (reserve example_admission empty_redis)"]
    by simp
qed

section \<open>The counters account for every attempt\<close>

text \<open>\<open>amt\<close> and \<open>scopes\<close> are what the durable row of an attempt says: the amount reserved and the scopes
  it is charged to. The markers on a field are the attempts still outstanding there.\<close>

definition outstanding :: "(owner \<Rightarrow> int) \<Rightarrow> hash \<Rightarrow> scope_field \<Rightarrow> int" where
  "outstanding amt h f = (\<Sum>o1\<in>{o1. h (OwnedScope o1 f) \<noteq> None}. amt o1)"

definition markers_ok :: "(owner \<Rightarrow> int) \<Rightarrow> (owner \<Rightarrow> scope_field list) \<Rightarrow> hash \<Rightarrow> bool" where
  "markers_ok amt scopes h \<longleftrightarrow>
     (\<forall>f. finite {o1. h (OwnedScope o1 f) \<noteq> None}) \<and>
     (\<forall>o1 f v. h (OwnedScope o1 f) = Some v \<longrightarrow>
        v = amt o1 \<and> h (Owned o1) \<noteq> None \<and> f \<in> set (scopes o1) \<and> h (Initialized f) \<noteq> None) \<and>
     (\<forall>o1 v. h (Owned o1) = Some v \<longrightarrow> v = amt o1 \<and> (\<exists>f\<in>set (scopes o1). h (OwnedScope o1 f) \<noteq> None))"

definition window_ok :: "(owner \<Rightarrow> int) \<Rightarrow> (owner \<Rightarrow> scope_field list) \<Rightarrow> hash \<Rightarrow> bool" where
  "window_ok amt scopes h \<longleftrightarrow> markers_ok amt scopes h \<and>
     (\<forall>f. h (Initialized f) \<noteq> None \<longrightarrow> outstanding amt h f \<le> hget h f)"

lemma markers_okI:
  assumes "\<And>f. finite {o1. h (OwnedScope o1 f) \<noteq> None}"
    and "\<And>o1 f v. h (OwnedScope o1 f) = Some v \<Longrightarrow>
        v = amt o1 \<and> h (Owned o1) \<noteq> None \<and> f \<in> set (scopes o1) \<and> h (Initialized f) \<noteq> None"
    and "\<And>o1 v. h (Owned o1) = Some v \<Longrightarrow> v = amt o1 \<and> (\<exists>f\<in>set (scopes o1). h (OwnedScope o1 f) \<noteq> None)"
  shows "markers_ok amt scopes h"
  unfolding markers_ok_def using assms by blast

lemma markers_okD:
  assumes "markers_ok amt scopes h"
  shows "finite {o1. h (OwnedScope o1 f) \<noteq> None}"
    "h (OwnedScope o1 f) = Some v \<Longrightarrow>
        v = amt o1 \<and> h (Owned o1) \<noteq> None \<and> f \<in> set (scopes o1) \<and> h (Initialized f) \<noteq> None"
    "h (Owned o1) = Some v \<Longrightarrow> v = amt o1 \<and> (\<exists>f\<in>set (scopes o1). h (OwnedScope o1 f) \<noteq> None)"
  using assms unfolding markers_ok_def by blast+

lemma counts_marker:
  assumes "markers_ok amt scopes h" "f \<in> set (scopes o1)"
  shows "counts o1 (scopes o1) h f \<longleftrightarrow> h (OwnedScope o1 f) \<noteq> None"
  using markers_okD(3)[OF assms(1), of o1] assms(2)
  by (cases "h (Owned o1)") (force simp: counts_def list_all_iff)+

lemma covers_marker:
  assumes "markers_ok amt scopes h" "f \<in> set (scopes o1)"
  shows "covers o1 (scopes o1) h f \<longleftrightarrow> h (OwnedScope o1 f) \<noteq> None"
  using markers_okD(3)[OF assms(1), of o1] assms(2)
  by (cases "h (Owned o1)") (force simp: covers_def list_ex_iff)+

lemma outstanding_add:
  assumes "finite {o1. h (OwnedScope o1 f) \<noteq> None}" "h (OwnedScope o2 f) = None"
    and "\<And>o1. h' (OwnedScope o1 f) = (if o1 = o2 then Some v else h (OwnedScope o1 f))"
  shows "outstanding amt h' f = outstanding amt h f + amt o2"
proof -
  have "{o1. h' (OwnedScope o1 f) \<noteq> None} = insert o2 {o1. h (OwnedScope o1 f) \<noteq> None}"
    using assms(2,3) by auto
  then show ?thesis using assms(1,2) by (simp add: outstanding_def)
qed

lemma outstanding_remove:
  assumes "finite {o1. h (OwnedScope o1 f) \<noteq> None}" "h (OwnedScope o2 f) \<noteq> None"
    and "\<And>o1. h' (OwnedScope o1 f) = (if o1 = o2 then None else h (OwnedScope o1 f))"
  shows "outstanding amt h' f = outstanding amt h f - amt o2"
proof -
  have "{o1. h' (OwnedScope o1 f) \<noteq> None} = {o1. h (OwnedScope o1 f) \<noteq> None} - {o2}"
    using assms(2,3) by auto
  then show ?thesis using assms(1,2) by (simp add: outstanding_def sum_diff1)
qed

lemma outstanding_same:
  assumes "\<And>o1. h' (OwnedScope o1 f) = None \<longleftrightarrow> h (OwnedScope o1 f) = None"
  shows "outstanding amt h' f = outstanding amt h f"
  using assms by (simp add: outstanding_def)

text \<open>A hash that differs from a good one only in the markers and counters of one attempt.\<close>

lemma charge_window_simps:
  assumes "markers_ok amt scopes h" "distinct (scopes o1)"
  shows "hget (charge_window o1 (amt o1) (scopes o1) h) f =
      hget h f + (if f \<in> set (scopes o1) \<and> h (OwnedScope o1 f) = None then amt o1 else 0)"
    "charge_window o1 (amt o1) (scopes o1) h (OwnedScope o2 f) =
      (if o2 = o1 \<and> f \<in> set (scopes o1) then Some (amt o1) else h (OwnedScope o2 f))"
    "charge_window o1 (amt o1) (scopes o1) h (Initialized f) = h (Initialized f)"
    "charge_window o1 (amt o1) (scopes o1) h (Owned o2) = (if o2 = o1 then Some (amt o1) else h (Owned o2))"
proof -
  let ?ps = "map (\<lambda>f. (f, counts o1 (scopes o1) h f)) (scopes o1)"
  have dist: "distinct (map fst ?ps)" using assms(2) by (simp add: comp_def)
  have mem: "(f, False) \<in> set ?ps \<longleftrightarrow> f \<in> set (scopes o1) \<and> h (OwnedScope o1 f) = None" for f
    using counts_marker[OF assms(1), of f o1] by (auto simp: image_iff)
  note simps = charge_fields_simps[OF dist, of o1 "amt o1" h]
  show "hget (charge_window o1 (amt o1) (scopes o1) h) f =
      hget h f + (if f \<in> set (scopes o1) \<and> h (OwnedScope o1 f) = None then amt o1 else 0)"
    "charge_window o1 (amt o1) (scopes o1) h (Initialized f) = h (Initialized f)"
    "charge_window o1 (amt o1) (scopes o1) h (Owned o2) = (if o2 = o1 then Some (amt o1) else h (Owned o2))"
    by (simp_all only: charge_window_def hget_simps simps mem fun_upd_apply hash_field.simps) auto
  have "h (OwnedScope o1 f) = Some (amt o1) \<or> h (OwnedScope o1 f) = None"
    using markers_okD(2)[OF assms(1)] by (cases "h (OwnedScope o1 f)") auto
  then show "charge_window o1 (amt o1) (scopes o1) h (OwnedScope o2 f) =
      (if o2 = o1 \<and> f \<in> set (scopes o1) then Some (amt o1) else h (OwnedScope o2 f))"
    by (simp only: charge_window_def simps mem fun_upd_apply hash_field.simps) auto
qed

lemma charge_window_ok:
  assumes ok: "window_ok amt scopes h" and sc: "distinct (scopes o1)" "scopes o1 \<noteq> []"
    and init: "\<And>f. f \<in> set (scopes o1) \<Longrightarrow> h (Initialized f) \<noteq> None"
  shows "window_ok amt scopes (charge_window o1 (amt o1) (scopes o1) h)"
proof -
  have mk: "markers_ok amt scopes h" using ok by (simp add: window_ok_def)
  let ?h = "charge_window o1 (amt o1) (scopes o1) h"
  note simps = charge_window_simps[OF mk sc(1)]
  have "markers_ok amt scopes ?h"
  proof (rule markers_okI)
    show "finite {o2. ?h (OwnedScope o2 f) \<noteq> None}" for f
      by (rule finite_subset[of _ "insert o1 {o2. h (OwnedScope o2 f) \<noteq> None}"])
         (use markers_okD(1)[OF mk, of f] in \<open>auto simp: simps\<close>)
    show "v = amt o2 \<and> ?h (Owned o2) \<noteq> None \<and> f \<in> set (scopes o2) \<and> ?h (Initialized f) \<noteq> None"
      if "?h (OwnedScope o2 f) = Some v" for o2 f v
      using that init markers_okD(2)[OF mk, of o2 f v] by (auto simp: simps split: if_splits)
    show "v = amt o2 \<and> (\<exists>f\<in>set (scopes o2). ?h (OwnedScope o2 f) \<noteq> None)"
      if "?h (Owned o2) = Some v" for o2 v
    proof (cases "o2 = o1")
      case True
      moreover have "hd (scopes o1) \<in> set (scopes o1)" using sc(2) by simp
      ultimately show ?thesis using that by (force simp: simps)
    next
      case False
      then show ?thesis using that markers_okD(3)[OF mk, of o2 v] by (auto simp: simps)
    qed
  qed
  moreover have "outstanding amt ?h f \<le> hget ?h f" if "?h (Initialized f) \<noteq> None" for f
  proof -
    have le: "outstanding amt h f \<le> hget h f" using ok that by (simp add: window_ok_def simps)
    show ?thesis
    proof (cases "f \<in> set (scopes o1) \<and> h (OwnedScope o1 f) = None")
      case True
      then have "outstanding amt ?h f = outstanding amt h f + amt o1"
        by (intro outstanding_add[OF markers_okD(1)[OF mk]]) (auto simp: simps)
      then show ?thesis using le True by (simp add: simps)
    next
      case False
      have "outstanding amt ?h f = outstanding amt h f"
        by (rule outstanding_same) (use False in \<open>auto simp: simps\<close>)
      then show ?thesis using le False by (auto simp: simps)
    qed
  qed
  ultimately show ?thesis by (simp add: window_ok_def)
qed

lemma adjust_window_simps:
  assumes "markers_ok amt scopes h" "distinct (scopes o1)"
  shows "hget (adjust_window o1 delta (scopes o1) h) f =
      hget h f + (if h (OwnedScope o1 f) \<noteq> None then delta else 0)"
    "adjust_window o1 delta (scopes o1) h (OwnedScope o2 f) =
      (if o2 = o1 then None else h (OwnedScope o2 f))"
    "adjust_window o1 delta (scopes o1) h (Initialized f) = h (Initialized f)"
    "adjust_window o1 delta (scopes o1) h (Owned o2) = (if o2 = o1 then None else h (Owned o2))"
proof -
  let ?ps = "map (\<lambda>f. (f, covers o1 (scopes o1) h f)) (scopes o1)"
  have dist: "distinct (map fst ?ps)" using assms(2) by (simp add: comp_def)
  have mem: "(f, True) \<in> set ?ps \<longleftrightarrow> h (OwnedScope o1 f) \<noteq> None" for f
    using covers_marker[OF assms(1), of f o1] markers_okD(2)[OF assms(1), of o1 f] by (auto simp: image_iff)
  note simps = adjust_fields_simps[OF dist, of o1 delta h]
  show "hget (adjust_window o1 delta (scopes o1) h) f =
      hget h f + (if h (OwnedScope o1 f) \<noteq> None then delta else 0)"
    "adjust_window o1 delta (scopes o1) h (OwnedScope o2 f) =
      (if o2 = o1 then None else h (OwnedScope o2 f))"
    "adjust_window o1 delta (scopes o1) h (Initialized f) = h (Initialized f)"
    "adjust_window o1 delta (scopes o1) h (Owned o2) = (if o2 = o1 then None else h (Owned o2))"
    by (simp_all only: adjust_window_def hget_simps simps mem fun_upd_apply hash_field.simps) auto
qed

lemma adjust_window_ok:
  assumes ok: "window_ok amt scopes h" and sc: "distinct (scopes o1)" and delta: "delta \<ge> - amt o1"
  shows "window_ok amt scopes (adjust_window o1 delta (scopes o1) h)"
proof -
  have mk: "markers_ok amt scopes h" using ok by (simp add: window_ok_def)
  let ?h = "adjust_window o1 delta (scopes o1) h"
  note simps = adjust_window_simps[OF mk sc]
  have "markers_ok amt scopes ?h"
  proof (rule markers_okI)
    show "finite {o2. ?h (OwnedScope o2 f) \<noteq> None}" for f
      by (rule finite_subset[of _ "{o2. h (OwnedScope o2 f) \<noteq> None}"])
         (use markers_okD(1)[OF mk, of f] in \<open>auto simp: simps\<close>)
    show "v = amt o2 \<and> ?h (Owned o2) \<noteq> None \<and> f \<in> set (scopes o2) \<and> ?h (Initialized f) \<noteq> None"
      if "?h (OwnedScope o2 f) = Some v" for o2 f v
      using that markers_okD(2)[OF mk, of o2 f v] by (auto simp: simps split: if_splits)
    show "v = amt o2 \<and> (\<exists>f\<in>set (scopes o2). ?h (OwnedScope o2 f) \<noteq> None)"
      if "?h (Owned o2) = Some v" for o2 v
      using that markers_okD(3)[OF mk, of o2 v] by (auto simp: simps split: if_splits)
  qed
  moreover have "outstanding amt ?h f \<le> hget ?h f" if "?h (Initialized f) \<noteq> None" for f
  proof -
    have le: "outstanding amt h f \<le> hget h f" using ok that by (simp add: window_ok_def simps)
    show ?thesis
    proof (cases "h (OwnedScope o1 f) \<noteq> None")
      case True
      then have "outstanding amt ?h f = outstanding amt h f - amt o1"
        by (intro outstanding_remove[OF markers_okD(1)[OF mk]]) (auto simp: simps)
      then show ?thesis using le True delta by (simp add: simps)
    next
      case False
      have "outstanding amt ?h f = outstanding amt h f"
        by (rule outstanding_same) (use False in \<open>auto simp: simps\<close>)
      then show ?thesis using le False by (auto simp: simps)
    qed
  qed
  ultimately show ?thesis by (simp add: window_ok_def)
qed

text \<open>No counter is ever below what one outstanding attempt needs.\<close>

lemma outstanding_member:
  assumes "markers_ok amt scopes h" "\<And>o1. 0 \<le> amt o1" "h (OwnedScope o1 f) \<noteq> None"
  shows "amt o1 \<le> outstanding amt h f"
  unfolding outstanding_def
  by (rule member_le_sum) (use assms markers_okD(1)[OF assms(1), of f] in auto)

lemma no_underflow:
  assumes "window_ok amt scopes h" "\<And>o1. 0 \<le> amt o1" "amount \<le> amt o1"
  shows "\<not> underflows o1 amount (scopes o1) h"
proof -
  have mk: "markers_ok amt scopes h" using assms(1) by (simp add: window_ok_def)
  have "amount \<le> hget h f" if f: "f \<in> set (scopes o1)" "covers o1 (scopes o1) h f" for f
  proof -
    have m: "h (OwnedScope o1 f) \<noteq> None" using covers_marker[OF mk f(1)] f(2) by simp
    then have "h (Initialized f) \<noteq> None" using markers_okD(2)[OF mk, of o1 f] by auto
    then have "outstanding amt h f \<le> hget h f" using assms(1) by (simp add: window_ok_def)
    then show ?thesis using outstanding_member[OF mk assms(2) m] assms(3) by linarith
  qed
  then show ?thesis by (force simp: underflows_def list_ex_iff)
qed

text \<open>Reconstruction: the seeded counters start from the durable usage, which covers every live attempt of
  the window; the attempts still to be visited are the slack.\<close>

definition live_sum :: "SponsorshipLiveWindowReservation list \<Rightarrow> scope_field \<Rightarrow> int" where
  "live_sum live f = (\<Sum>l\<leftarrow>live. if f \<in> set (live_fields l) then lwr_reservedLamports l else 0)"

lemma live_sum_Nil: "live_sum [] f = 0"
  by (simp add: live_sum_def)

definition live_rows_ok ::
  "(owner \<Rightarrow> int) \<Rightarrow> (owner \<Rightarrow> scope_field list) \<Rightarrow> SponsorshipLiveWindowReservation list \<Rightarrow> bool" where
  "live_rows_ok amt scopes live \<longleftrightarrow> distinct (map live_owner live) \<and>
     (\<forall>l\<in>set live. lwr_reservedLamports l = amt (live_owner l) \<and> live_fields l = scopes (live_owner l))"

definition rebuilding :: "(owner \<Rightarrow> int) \<Rightarrow> (owner \<Rightarrow> scope_field list) \<Rightarrow> scope_field set \<Rightarrow>
     SponsorshipLiveWindowReservation list \<Rightarrow> hash \<Rightarrow> bool" where
  "rebuilding amt scopes seed rest h \<longleftrightarrow> markers_ok amt scopes h \<and>
     (\<forall>f. h (Initialized f) \<noteq> None \<longrightarrow>
        outstanding amt h f + (if f \<in> seed then live_sum rest f else 0) \<le> hget h f) \<and>
     (\<forall>l\<in>set rest. \<forall>f\<in>seed. h (OwnedScope (live_owner l) f) = None) \<and>
     (\<forall>f\<in>seed. h (Initialized f) \<noteq> None)"

lemma rebuilding_settled:
  assumes re: "rebuilding amt scopes seed (l # rest) h" and fs: "distinct (live_fields l)"
    and "actual \<ge> 0"
  shows "rebuilding amt scopes seed rest
    (reconstruct_fields (Some actual) (lwr_reservedLamports l) (live_owner l) seed (live_fields l) h)"
proof -
  let ?h = "reconstruct_fields (Some actual) (lwr_reservedLamports l) (live_owner l) seed (live_fields l) h"
  note simps = reconstruct_settled_simps[OF fs]
  have mk: "markers_ok amt scopes h" using re by (simp add: rebuilding_def)
  have "markers_ok amt scopes ?h" using mk by (simp add: markers_ok_def simps)
  moreover have "outstanding amt ?h f = outstanding amt h f" for f by (rule outstanding_same) (simp add: simps)
  moreover have "outstanding amt h f + (if f \<in> seed then live_sum (l # rest) f else 0) \<le> hget h f"
    if "h (Initialized f) \<noteq> None" for f
    using re that by (simp add: rebuilding_def)
  ultimately show ?thesis
    using re assms(3) by (fastforce simp: rebuilding_def simps live_sum_def)
qed

lemma rebuilding_live:
  assumes re: "rebuilding amt scopes seed (l # rest) h"
    and l: "lwr_reservedLamports l = amt (live_owner l)" "live_fields l = scopes (live_owner l)"
    and new: "live_owner l \<notin> live_owner ` set rest"
  shows "rebuilding amt scopes seed rest
    (reconstruct_fields None (lwr_reservedLamports l) (live_owner l) seed (live_fields l) h)"
proof -
  let ?o = "live_owner l"
  let ?h = "reconstruct_fields None (lwr_reservedLamports l) ?o seed (live_fields l) h"
  note simps = reconstruct_live_simps[of "lwr_reservedLamports l" ?o seed "live_fields l" h, unfolded l]
  have mk: "markers_ok amt scopes h" using re by (simp add: rebuilding_def)
  have fresh: "h (OwnedScope ?o f) = None" if "f \<in> seed" for f using re that by (simp add: rebuilding_def)
  have "markers_ok amt scopes ?h" unfolding l
  proof (rule markers_okI)
    show "finite {o2. reconstruct_fields None (amt ?o) ?o seed (scopes ?o) h (OwnedScope o2 f) \<noteq> None}" for f
      by (rule finite_subset[of _ "insert ?o {o2. h (OwnedScope o2 f) \<noteq> None}"])
         (use markers_okD(1)[OF mk, of f] in \<open>auto simp: simps split: if_splits\<close>)
    show "v = amt o2 \<and> reconstruct_fields None (amt ?o) ?o seed (scopes ?o) h (Owned o2) \<noteq> None \<and>
        f \<in> set (scopes o2) \<and> reconstruct_fields None (amt ?o) ?o seed (scopes ?o) h (Initialized f) \<noteq> None"
      if "reconstruct_fields None (amt ?o) ?o seed (scopes ?o) h (OwnedScope o2 f) = Some v" for o2 f v
      using that markers_okD(2)[OF mk, of o2 f v] re by (auto simp: simps rebuilding_def split: if_splits)
    show "v = amt o2 \<and> (\<exists>f\<in>set (scopes o2).
        reconstruct_fields None (amt ?o) ?o seed (scopes ?o) h (OwnedScope o2 f) \<noteq> None)"
      if "reconstruct_fields None (amt ?o) ?o seed (scopes ?o) h (Owned o2) = Some v" for o2 v
      using that markers_okD(3)[OF mk, of o2 v] by (auto simp: simps split: if_splits)
  qed
  moreover have "outstanding amt ?h f + (if f \<in> seed then live_sum rest f else 0) \<le> hget ?h f"
    if i: "?h (Initialized f) \<noteq> None" for f
  proof -
    have le: "outstanding amt h f + (if f \<in> seed then live_sum (l # rest) f else 0) \<le> hget h f"
      using re i by (simp add: rebuilding_def reconstruct_live_simps)
    show ?thesis
    proof (cases "f \<in> seed \<and> f \<in> set (scopes ?o)")
      case True
      then have "outstanding amt ?h f = outstanding amt h f + amt ?o" unfolding l
        by (intro outstanding_add[OF markers_okD(1)[OF mk]]) (auto simp: simps fresh)
      then show ?thesis using le True by (simp add: reconstruct_live_simps live_sum_def l)
    next
      case False
      then have "outstanding amt ?h f = outstanding amt h f" unfolding l
        by (intro outstanding_same) (auto simp: simps)
      then show ?thesis using le False by (auto simp: reconstruct_live_simps live_sum_def l)
    qed
  qed
  moreover have "?h (OwnedScope (live_owner l') f) = None" if "l' \<in> set rest" "f \<in> seed" for l' f
  proof -
    have "live_owner l' \<noteq> ?o" using that(1) new by (metis image_eqI)
    then show ?thesis using that re by (simp add: reconstruct_live_simps rebuilding_def)
  qed
  ultimately show ?thesis using re by (simp add: rebuilding_def reconstruct_live_simps)
qed

lemma reconstruct_ok:
  assumes "rebuilding amt scopes seed live h" "live_rows_ok amt scopes live"
    and "\<And>o1 v. settlements o1 = Some v \<Longrightarrow> 0 \<le> v" "\<And>o1. distinct (scopes o1)"
  shows "rebuilding amt scopes seed [] (reconstruct settlements seed live h)"
  using assms(1,2)
proof (induction live arbitrary: h)
  case (Cons l rest)
  have l: "lwr_reservedLamports l = amt (live_owner l)" "live_fields l = scopes (live_owner l)"
    "live_owner l \<notin> live_owner ` set rest" and rest: "live_rows_ok amt scopes rest"
    using Cons.prems(2) by (auto simp: live_rows_ok_def)
  let ?h = "reconstruct_fields (settlements (live_owner l)) (lwr_reservedLamports l) (live_owner l) seed
      (live_fields l) h"
  have "rebuilding amt scopes seed rest ?h"
  proof (cases "settlements (live_owner l)")
    case None
    then show ?thesis using rebuilding_live[OF Cons.prems(1) l] by simp
  next
    case (Some v)
    then show ?thesis
      using rebuilding_settled[OF Cons.prems(1)] assms(3)[OF Some] assms(4) l(2) by simp
  qed
  then show ?case using Cons.IH rest by simp
qed simp

lemma initialize_window_ok:
  assumes ok: "window_ok amt scopes h" and live: "live_rows_ok amt scopes live"
    and settlements: "\<And>o1 v. settlements o1 = Some v \<Longrightarrow> 0 \<le> v" and sc: "\<And>o1. distinct (scopes o1)"
    and seeds: "distinct (map fst seeds)" "\<And>f u. (f, u) \<in> set seeds \<Longrightarrow> live_sum live f \<le> u"
  shows "window_ok amt scopes (initialize_window settlements seeds live h)"
proof -
  have mk: "markers_ok amt scopes h" using ok by (simp add: window_ok_def)
  let ?seed = "seeded h (map fst seeds)"
  note simps = seed_fields_simps[OF seeds(1)]
  have none: "h (OwnedScope o1 f) = None" if "h (Initialized f) = None" for o1 f
    using markers_okD(2)[OF mk, of o1 f] that by (cases "h (OwnedScope o1 f)") auto
  have "markers_ok amt scopes (seed_fields seeds h)" using mk by (auto simp: markers_ok_def simps)
  moreover have "outstanding amt (seed_fields seeds h) f = outstanding amt h f" for f
    by (rule outstanding_same) (simp add: simps)
  moreover have "outstanding amt h f + (if f \<in> ?seed then live_sum live f else 0) \<le> hget (seed_fields seeds h) f"
    if i: "seed_fields seeds h (Initialized f) \<noteq> None" for f
  proof (cases "h (Initialized f) = None")
    case True
    then have f: "f \<in> fst ` set seeds" using i by (auto simp: simps split: if_splits)
    then obtain u where u: "map_of seeds f = Some u" by (metis map_of_eq_None_iff not_None_eq)
    have "outstanding amt h f = 0" using none[OF True] by (simp add: outstanding_def)
    moreover have "live_sum live f \<le> u" using seeds(2) map_of_SomeD[OF u] by blast
    ultimately show ?thesis using True f u by (auto simp: simps seeded_def)
  next
    case False
    then show ?thesis using ok i by (auto simp: simps seeded_def window_ok_def split: option.split)
  qed
  ultimately have "rebuilding amt scopes ?seed live (seed_fields seeds h)"
    using none by (auto simp: rebuilding_def simps seeded_def)
  then have "rebuilding amt scopes ?seed [] (reconstruct settlements ?seed live (seed_fields seeds h))"
    by (rule reconstruct_ok[OF _ live settlements sc])
  then show ?thesis by (simp add: initialize_window_def rebuilding_def window_ok_def live_sum_Nil cong: if_cong)
qed

section \<open>Every run of the scripts\<close>

definition redis_ok :: "(owner \<Rightarrow> int) \<Rightarrow> (owner \<Rightarrow> scope_field list) \<Rightarrow> redis \<Rightarrow> bool" where
  "redis_ok amt scopes r \<longleftrightarrow> (\<forall>w. window_ok amt scopes (rd_windows r w)) \<and>
     (\<forall>n o1 v. rd_reservations r (n, o1) = Some v \<longrightarrow> v = amt o1) \<and>
     (\<forall>n o1 v. rd_settlements r (n, o1) = Some v \<longrightarrow> 0 \<le> v)"

text \<open>The scripts of all requests and jobs in any order, and the expiry of keys. A window is seeded from a
  usage that covers its live rows; an attempt is reserved, cancelled and settled with the amount and
  the scopes of its durable row.\<close>

inductive budget_step :: "(owner \<Rightarrow> int) \<Rightarrow> (owner \<Rightarrow> scope_field list) \<Rightarrow> redis \<Rightarrow> redis \<Rightarrow> bool"
  for amt :: "owner \<Rightarrow> int" and scopes :: "owner \<Rightarrow> scope_field list" where
  initialize: "live_rows_ok amt scopes liveHour \<Longrightarrow> live_rows_ok amt scopes liveDay \<Longrightarrow>
    distinct (map fst hourSeeds) \<Longrightarrow> distinct (map fst daySeeds) \<Longrightarrow>
    (\<And>f u. (f, u) \<in> set hourSeeds \<Longrightarrow> live_sum liveHour f \<le> u) \<Longrightarrow>
    (\<And>f u. (f, u) \<in> set daySeeds \<Longrightarrow> live_sum liveDay f \<le> u) \<Longrightarrow>
    budget_step amt scopes r (initialize_script k hourSeeds daySeeds liveHour liveDay r)"
| sync: "budget_step amt scopes r (sync_control_script network field version enabled r)"
| reserve: "map sl_field limits = scopes (bk_owner k) \<Longrightarrow>
    budget_step amt scopes r (snd (reserve_script k (amt (bk_owner k)) limits r))"
| cancel: "budget_step amt scopes r (snd (cancel_script k (scopes (bk_owner k)) r))"
| settle: "0 \<le> actual \<Longrightarrow> budget_step amt scopes r
    (snd (settle_script k (amt (bk_owner k)) actual (scopes (bk_owner k)) detectMissing r))"
| expire_window: "budget_step amt scopes r (r\<lparr>rd_windows := (rd_windows r)(w := Map.empty)\<rparr>)"
| expire_reservation: "budget_step amt scopes r (r\<lparr>rd_reservations := (rd_reservations r)(key := None)\<rparr>)"
| expire_settlement: "budget_step amt scopes r (r\<lparr>rd_settlements := (rd_settlements r)(key := None)\<rparr>)"

definition scopes_ok :: "(owner \<Rightarrow> int) \<Rightarrow> (owner \<Rightarrow> scope_field list) \<Rightarrow> bool" where
  "scopes_ok amt scopes \<longleftrightarrow> (\<forall>o1. 0 \<le> amt o1 \<and> distinct (scopes o1) \<and> scopes o1 \<noteq> [])"

lemma window_ok_empty: "window_ok amt scopes Map.empty"
  by (simp add: window_ok_def markers_ok_def)

lemma put_windows_ok:
  assumes "redis_ok amt scopes r" "window_ok amt scopes hour" "window_ok amt scopes day"
  shows "redis_ok amt scopes (put_windows k hour day r)"
  using assms by (simp add: redis_ok_def put_windows_def)

lemma reserve_script_ok:
  assumes ok: "redis_ok amt scopes r" and sc: "scopes_ok amt scopes"
    and fs: "map sl_field limits = scopes (bk_owner k)"
  shows "redis_ok amt scopes (snd (reserve_script k (amt (bk_owner k)) limits r))"
proof (cases "fst (reserve_script k (amt (bk_owner k)) limits r)")
  case (ReplyAdmitted a)
  then obtain r' where run: "reserve_script k (amt (bk_owner k)) limits r = (ReplyAdmitted a, r')"
    by (metis prod.collapse)
  note adm = reserve_admitted[OF run]
  have init: "rd_windows r (bk_hour k) (Initialized f) \<noteq> None" "rd_windows r (bk_day k) (Initialized f) \<noteq> None"
    if "f \<in> set (scopes (bk_owner k))" for f
    using that check_scopes_None(1,2)[OF adm(2)] unfolding fs[symmetric] by auto
  have "redis_ok amt scopes (put_windows k
      (charge_window (bk_owner k) (amt (bk_owner k)) (scopes (bk_owner k)) (rd_windows r (bk_hour k)))
      (charge_window (bk_owner k) (amt (bk_owner k)) (scopes (bk_owner k)) (rd_windows r (bk_day k))) r)"
    by (intro put_windows_ok ok charge_window_ok) (use ok sc init in \<open>auto simp: redis_ok_def scopes_ok_def\<close>)
  then show ?thesis
    using run adm(6) fs ok by (simp add: redis_ok_def put_windows_def)
next
  case (ReplyDuplicate x)
  then show ?thesis using ok by (auto simp: reserve_script_def Let_def split: option.splits if_splits)
next
  case (ReplyDenied x y z)
  then show ?thesis using ok by (auto simp: reserve_script_def Let_def split: option.splits if_splits)
next
  case (ReplyUninitialized x)
  then show ?thesis using ok by (auto simp: reserve_script_def Let_def split: option.splits if_splits)
next
  case (ReplyStale x)
  then show ?thesis using ok by (auto simp: reserve_script_def Let_def split: option.splits if_splits)
qed

lemma adjusted_ok:
  assumes "redis_ok amt scopes r" "scopes_ok amt scopes" "delta \<ge> - amt (bk_owner k)"
  shows "redis_ok amt scopes (put_windows k
    (adjust_window (bk_owner k) delta (scopes (bk_owner k)) (rd_windows r (bk_hour k)))
    (adjust_window (bk_owner k) delta (scopes (bk_owner k)) (rd_windows r (bk_day k))) r)"
  by (intro put_windows_ok adjust_window_ok) (use assms in \<open>auto simp: redis_ok_def scopes_ok_def\<close>)

text \<open>In a good state the amount every reader of an attempt finds is the amount of its row.\<close>

lemma owned_amounts:
  assumes "redis_ok amt scopes r"
  shows "rd_reservations r (n, o1) = Some v \<Longrightarrow> v = amt o1" "rd_windows r w (Owned o1) = Some v \<Longrightarrow> v = amt o1"
  using assms markers_okD(3)[of amt scopes "rd_windows r w" o1 v] by (auto simp: redis_ok_def window_ok_def)

lemma redis_ok_forget:
  assumes "redis_ok amt scopes (put_windows k hour day r)"
  shows "redis_ok amt scopes ((put_windows k hour day r)\<lparr>rd_reservations := (rd_reservations r)(key := None)\<rparr>)"
  using assms by (simp add: redis_ok_def put_windows_def)

lemma redis_ok_settled:
  assumes "redis_ok amt scopes (put_windows k hour day r)" "0 \<le> actual"
  shows "redis_ok amt scopes ((put_windows k hour day r)\<lparr>rd_reservations := (rd_reservations r)(key := None),
    rd_settlements := (rd_settlements r)(key2 \<mapsto> actual)\<rparr>)"
  using assms by (simp add: redis_ok_def put_windows_def)

lemma cancel_script_ok:
  assumes "redis_ok amt scopes r" "scopes_ok amt scopes"
  shows "redis_ok amt scopes (snd (cancel_script k (scopes (bk_owner k)) r))"
    "fst (cancel_script k (scopes (bk_owner k)) r) \<in> {0, amt (bk_owner k)}"
proof -
  let ?o = "bk_owner k"
  have nou: "\<not> underflows ?o (amt ?o) (scopes ?o) (rd_windows r w)" for w
    using no_underflow[of amt scopes "rd_windows r w" "amt ?o" ?o] assms
    by (simp add: redis_ok_def scopes_ok_def)
  have adj: "redis_ok amt scopes (put_windows k
      (adjust_window ?o (- amt ?o) (scopes ?o) (rd_windows r (bk_hour k)))
      (adjust_window ?o (- amt ?o) (scopes ?o) (rd_windows r (bk_day k))) r)"
    by (rule adjusted_ok[OF assms]) simp
  note amounts = owned_amounts[OF assms(1)]
  have same: "rd_windows r w (Owned ?o) = None \<or> rd_windows r w (Owned ?o) = Some (amt ?o)" for w
    using amounts(2)[of w ?o] by (cases "rd_windows r w (Owned ?o)") auto
  let ?v = "first_value (rd_reservations r (bk_network k, ?o))
    (first_value (rd_windows r (bk_hour k) (Owned ?o)) (rd_windows r (bk_day k) (Owned ?o)))"
  have v: "?v = None \<or> ?v = Some (amt ?o)"
    using amounts(1)[of "bk_network k" ?o] same[of "bk_hour k"] same[of "bk_day k"]
    by (auto simp: first_value_def split: option.split)
  have run: "cancel_script k (scopes ?o) r = (case ?v of None \<Rightarrow> (0, r) | Some amount \<Rightarrow>
      (amt ?o, (put_windows k (adjust_window ?o (- amt ?o) (scopes ?o) (rd_windows r (bk_hour k)))
        (adjust_window ?o (- amt ?o) (scopes ?o) (rd_windows r (bk_day k))) r)
        \<lparr>rd_reservations := (rd_reservations r)((bk_network k, ?o) := None)\<rparr>))"
    using v same[of "bk_hour k"] same[of "bk_day k"] nou by (auto simp: cancel_script_def Let_def)
  have "redis_ok amt scopes ((put_windows k (adjust_window ?o (- amt ?o) (scopes ?o) (rd_windows r (bk_hour k)))
      (adjust_window ?o (- amt ?o) (scopes ?o) (rd_windows r (bk_day k))) r)
      \<lparr>rd_reservations := (rd_reservations r)((bk_network k, ?o) := None)\<rparr>)"
    using adj by (rule redis_ok_forget)
  then show "redis_ok amt scopes (snd (cancel_script k (scopes ?o) r))"
    "fst (cancel_script k (scopes ?o) r) \<in> {0, amt ?o}"
    using assms(1) by (simp_all add: run split: option.split)
qed

lemma settle_script_ok:
  assumes "redis_ok amt scopes r" "scopes_ok amt scopes" "0 \<le> actual"
  shows "redis_ok amt scopes (snd (settle_script k (amt (bk_owner k)) actual (scopes (bk_owner k)) detect r))"
    "fst (fst (settle_script k (amt (bk_owner k)) actual (scopes (bk_owner k)) detect r)) = 1 \<or>
       \<not> detect \<and> rd_reservations r (bk_network k, bk_owner k) = None"
proof -
  let ?o = "bk_owner k"
  have nou: "\<not> underflows ?o (amt ?o - actual) (scopes ?o) (rd_windows r w)" for w
    using no_underflow[of amt scopes "rd_windows r w" "amt ?o - actual" ?o] assms
    by (simp add: redis_ok_def scopes_ok_def)
  have adj: "redis_ok amt scopes (put_windows k
      (adjust_window ?o (actual - amt ?o) (scopes ?o) (rd_windows r (bk_hour k)))
      (adjust_window ?o (actual - amt ?o) (scopes ?o) (rd_windows r (bk_day k))) r)"
    by (rule adjusted_ok[OF assms(1,2)]) (use assms(3) in simp)
  note amounts = owned_amounts[OF assms(1)]
  have accepts: "settle_rejects ?o (amt ?o) (actual - amt ?o) (scopes ?o) (rd_windows r w) = None" for w
    using nou[of w] amounts(2)[of w ?o] by (cases "rd_windows r w (Owned ?o)") (auto simp: settle_rejects_def)
  show "redis_ok amt scopes (snd (settle_script k (amt ?o) actual (scopes ?o) detect r))"
    "fst (fst (settle_script k (amt ?o) actual (scopes ?o) detect r)) = 1 \<or>
       \<not> detect \<and> rd_reservations r (bk_network k, ?o) = None"
    using assms(1) redis_ok_settled[OF adj assms(3)] amounts(1)[of "bk_network k" ?o]
    by (cases "rd_reservations r (bk_network k, ?o)";
        simp add: settle_script_def Let_def accepts first_value_def)+
qed

lemma budget_step_ok:
  assumes "budget_step amt scopes r r'" "redis_ok amt scopes r" "scopes_ok amt scopes"
  shows "redis_ok amt scopes r'"
  using assms
proof (induction rule: budget_step.induct)
  case (initialize liveHour liveDay hourSeeds daySeeds r k)
  have "0 \<le> v" if "settlements_of (bk_network k) r o1 = Some v" for o1 v
    using that initialize by (simp add: settlements_of_def redis_ok_def)
  then show ?case
    unfolding initialize_script_def Let_def using initialize
    by (intro put_windows_ok initialize_window_ok) (auto simp: redis_ok_def scopes_ok_def)
next
  case (sync r network field version enabled)
  then show ?case by (auto simp: sync_control_script_def redis_ok_def Let_def split: option.split prod.split)
next
  case (reserve limits k r)
  then show ?case by (simp add: reserve_script_ok)
next
  case (cancel r k)
  then show ?case by (simp add: cancel_script_ok)
next
  case (settle actual r k detectMissing)
  then show ?case by (simp add: settle_script_ok)
next
  case (expire_window r w)
  then show ?case by (simp add: redis_ok_def window_ok_empty)
qed (auto simp: redis_ok_def)

lemma budget_run_ok:
  assumes "(budget_step amt scopes)\<^sup>*\<^sup>* empty_redis r" "scopes_ok amt scopes"
  shows "redis_ok amt scopes r"
  using assms
proof (induction rule: rtranclp_induct)
  case base
  show ?case by (simp add: redis_ok_def empty_redis_def window_ok_empty)
next
  case (step y z)
  then show ?case using budget_step_ok by blast
qed

section \<open>The contract of the scripts\<close>

text \<open>C20. The counters account for every attempt: after any sequence of initializations, policy syncs,
  reservations, cancellations, settlements and key expiries, in any order and from an empty Redis,
  each initialized counter of each window is at least the sum of the attempts still outstanding on
  it, and so never negative.\<close>

theorem counters_cover_outstanding:
  assumes "(budget_step amt scopes)\<^sup>*\<^sup>* empty_redis r" "scopes_ok amt scopes"
    and "rd_windows r w (Initialized f) \<noteq> None"
  shows "0 \<le> outstanding amt (rd_windows r w) f \<and> outstanding amt (rd_windows r w) f \<le> hget (rd_windows r w) f"
proof
  show "outstanding amt (rd_windows r w) f \<le> hget (rd_windows r w) f"
    using budget_run_ok[OF assms(1,2)] assms(3) by (simp add: redis_ok_def window_ok_def)
  show "0 \<le> outstanding amt (rd_windows r w) f"
    using assms(2) by (simp add: outstanding_def scopes_ok_def sum_nonneg)
qed

definition example_seeds :: "(scope_field \<times> int) list" where
  "example_seeds = [(FGlobal, 60), (FOrganization ''org'', 20)]"

definition example_keys :: budget_keys where
  "example_keys = keys_for Devnet ''h'' ''d'' ''res'' 1"

definition example_limit :: "scope_field \<Rightarrow> SponsorshipBudgetScopeType \<Rightarrow> scope_limit" where
  "example_limit f t = \<lparr>sl_field = f, sl_per_tx = 50, sl_hour_limit = 100, sl_day_limit = 200,
     sl_control_field = (t, ''default''), sl_expected_version = 1\<rparr>"

definition example_limits :: "scope_limit list" where
  "example_limits =
     [example_limit FGlobal ScopeTypeGlobal, example_limit (FOrganization ''org'') ScopeTypeOrganization]"

definition example_prepared :: redis where
  "example_prepared =
     sync_control_script Devnet (ScopeTypeOrganization, ''default'') 1 True
      (sync_control_script Devnet (ScopeTypeGlobal, ''default'') 1 True
        (initialize_script example_keys example_seeds example_seeds [] [] empty_redis))"

definition example_run :: redis where
  "example_run = snd (reserve_script example_keys 40 example_limits example_prepared)"

definition example_scopes :: "owner \<Rightarrow> scope_field list" where
  "example_scopes ownership = [FGlobal, FOrganization ''org'']"

lemma example_scopes_ok: "scopes_ok (\<lambda>_. 40) example_scopes"
  by (simp add: scopes_ok_def example_scopes_def)

lemma example_run_reachable: "(budget_step (\<lambda>_. 40) example_scopes)\<^sup>*\<^sup>* empty_redis example_run"
proof -
  let ?step = "budget_step (\<lambda>_. 40) example_scopes"
  have "?step empty_redis (initialize_script example_keys example_seeds example_seeds [] [] empty_redis)"
    by (rule budget_step.initialize) (auto simp: live_rows_ok_def example_seeds_def live_sum_Nil)
  then have "?step\<^sup>*\<^sup>* empty_redis example_prepared"
    unfolding example_prepared_def by (meson budget_step.sync r_into_rtranclp rtranclp.rtrancl_into_rtrancl)
  moreover have "map sl_field example_limits = example_scopes (bk_owner example_keys)"
    by (simp add: example_limits_def example_limit_def example_scopes_def)
  then have "?step example_prepared example_run"
    unfolding example_run_def using budget_step.reserve[where amt = "\<lambda>_. 40"] by metis
  ultimately show ?thesis by (rule rtranclp.rtrancl_into_rtrancl)
qed

theorem counters_cover_outstanding_witness:
  "0 \<le> outstanding (\<lambda>_. 40) (rd_windows example_run (bk_hour example_keys)) FGlobal \<and>
   outstanding (\<lambda>_. 40) (rd_windows example_run (bk_hour example_keys)) FGlobal \<le>
     hget (rd_windows example_run (bk_hour example_keys)) FGlobal \<and>
   hget (rd_windows example_run (bk_hour example_keys)) FGlobal = 100"
proof -
  have "rd_windows example_run (bk_hour example_keys) (Initialized FGlobal) \<noteq> None"
    "hget (rd_windows example_run (bk_hour example_keys)) FGlobal = 100" by code_simp+
  then show ?thesis
    using counters_cover_outstanding[OF example_run_reachable example_scopes_ok, of "bk_hour example_keys" FGlobal]
    by simp
qed

text \<open>The invariant errors of the class are unreachable: in every state a run of the scripts reaches,
  cancelling an attempt and settling it from reconciliation, with the amount and scopes of its row,
  succeed; neither reports that a counter would underflow or that the amounts disagree.\<close>

theorem accounting_errors_unreachable:
  assumes "(budget_step amt scopes)\<^sup>*\<^sup>* empty_redis r" "scopes_ok amt scopes"
    and "scopes (bk_owner k) = scopeFields organizationId projectId" "0 \<le> actual"
  shows "fst (cancel k organizationId projectId r) = Inr () \<and>
    \<not> isl (fst (settle k organizationId projectId (amt (bk_owner k)) actual True r))"
proof -
  have ok: "redis_ok amt scopes r" by (rule budget_run_ok[OF assms(1,2)])
  have "0 \<le> amt (bk_owner k)" using assms(2) by (simp add: scopes_ok_def)
  then have "fst (cancel_script k (scopes (bk_owner k)) r) \<notin> {-1, -2}"
    using cancel_script_ok(2)[OF ok assms(2), of k] by auto
  then show ?thesis using settle_script_ok(2)[OF ok assms(2,4), of k True]
    by (auto simp: cancel_def settle_def assms(3) split: prod.splits)
qed

theorem accounting_errors_unreachable_witness:
  "fst (cancel example_keys ''org'' None example_run) = Inr () \<and>
   \<not> isl (fst (settle example_keys ''org'' None 40 5 True example_run))"
proof -
  have "example_scopes (bk_owner example_keys) = scopeFields ''org'' None" by code_simp
  then show ?thesis
    using accounting_errors_unreachable[OF example_run_reachable example_scopes_ok, of example_keys "''org''" None 5]
    by simp
qed

text \<open>Settling is idempotent: once an attempt is settled, every further settlement of it, whatever
  amount it carries, succeeds with no adjustment and changes nothing.\<close>

theorem settle_once:
  assumes "settle k organizationId projectId reserved actual detectMissing r = (Inr delta, r')"
  shows "settle k organizationId' projectId' reserved' actual' detectMissing' r' = (Inr 0, r')"
proof -
  have "rd_settlements r' (bk_network k, bk_owner k) \<noteq> None"
    using assms
    by (auto simp: settle_def settle_script_def Let_def split: if_splits option.splits prod.splits)
  then show ?thesis by (auto simp: settle_def settle_script_def Let_def)
qed

theorem settle_once_witness:
  "settle example_keys ''org'' None 40 7 True (snd (settle example_keys ''org'' None 40 5 True example_run)) =
     (Inr 0, snd (settle example_keys ''org'' None 40 5 True example_run))"
proof -
  have "fst (settle example_keys ''org'' None 40 5 True example_run) = Inr (-35)" by code_simp
  then show ?thesis using settle_once[OF prod_eqI] by (metis fst_conv snd_conv)
qed

lemma sync_control_monotone:
  assumes "rd_controls r network field = Some (v, en)"
  shows "\<exists>v' en'. rd_controls (syncPolicy policy r) network field = Some (v', en') \<and> v \<le> v'"
  using assms by (auto simp: syncPolicy_def sync_control_script_def Let_def split: option.split)

lemma fold_sync_monotone:
  assumes "rd_controls r network field = Some (v, en)"
  shows "\<exists>v' en'. rd_controls (fold syncPolicy policies r) network field = Some (v', en') \<and> v \<le> v'"
  using assms
proof (induction policies arbitrary: r v en)
  case (Cons p ps)
  then obtain v' en' where "rd_controls (syncPolicy p r) network field = Some (v', en')" "v \<le> v'"
    using sync_control_monotone by blast
  then show ?case using Cons.IH by fastforce
qed simp

lemma initialize_controls: "rd_controls (initialize_script k hs ds lh ld r) = rd_controls r"
  by (simp add: initialize_script_def Let_def put_windows_def)

text \<open>A policy change takes effect at once: when Redis has seen a later version of a scope's policy,
  a request that still holds the earlier version is not admitted; so disabling or lowering a budget
  cannot be overtaken by a stale read.\<close>

theorem stale_policy_not_admitted:
  assumes "rd_controls r (bai_network input) (controlField policy) = Some (v, en)"
    and "(f, scopeType) \<in> set (zip (admission_fields input) [ScopeTypeGlobal, ScopeTypeOrganization, ScopeTypeProject])"
    and "policyByScope (bai_policies input) scopeType = Some policy" "sbp_version policy < v"
  shows "fst (reserve input r) \<noteq> Inr Admitted"
proof
  assume "fst (reserve input r) = Inr Admitted"
  then have run: "reserve input r = (Inr Admitted, snd (reserve input r))" by (metis prod.collapse)
  have same: "rd_controls (snd (reserve input r)) = rd_controls (prepare_window input r)"
    by (auto simp: reserve_def reserve_script_def Let_def put_windows_def split: sum.split option.split prod.split)
  obtain v' en' where "rd_controls (prepare_window input r) (bai_network input) (controlField policy) = Some (v', en')"
    "v \<le> v'"
    using fold_sync_monotone assms(1) unfolding prepare_window_def by (metis initialize_controls)
  moreover have "rd_controls (prepare_window input r) (bai_network input) (controlField policy) =
      Some (sbp_version policy, True)"
    using admitted_limits[OF run assms(2)] assms(3) same by auto
  ultimately show False using assms(4) by simp
qed

theorem stale_policy_not_admitted_witness:
  "fst (reserve example_admission
     (sync_control_script Devnet (ScopeTypeGlobal, ''default'') 2 False empty_redis)) \<noteq> Inr Admitted"
proof -
  let ?r = "sync_control_script Devnet (ScopeTypeGlobal, ''default'') 2 False empty_redis"
  have "rd_controls ?r (bai_network example_admission) (controlField (example_policy ScopeTypeGlobal None)) =
      Some (2, False)"
    "(FGlobal, ScopeTypeGlobal) \<in> set (zip (admission_fields example_admission)
      [ScopeTypeGlobal, ScopeTypeOrganization, ScopeTypeProject])"
    "sbp_version (example_policy ScopeTypeGlobal None) < 2" by code_simp+
  moreover have "policyByScope (bai_policies example_admission) ScopeTypeGlobal =
      Some (example_policy ScopeTypeGlobal None)"
    by (simp add: policyByScope_def example_admission_def example_policy_def)
  ultimately show ?thesis by (intro stale_policy_not_admitted)
qed

lemma underflow_only_below:
  assumes "\<And>f. f \<in> set fs \<Longrightarrow> amount \<le> hget h f"
  shows "\<not> underflows ownership amount fs h"
  using assms by (fastforce simp: underflows_def list_ex_iff)

lemma adjust_charge_window:
  assumes "distinct fs" "\<And>g. h (OwnedScope o1 g) = None" "h (Owned o1) = None"
  shows "hget (adjust_window o1 (- amount) fs (charge_window o1 amount fs h)) f = hget h f"
proof -
  let ?c = "charge_window o1 amount fs h"
  have dist: "distinct (map fst (map (\<lambda>f. (f, b f)) fs))" for b :: "scope_field \<Rightarrow> bool"
    using assms(1) by (simp add: comp_def)
  have not_counted: "\<not> counts o1 fs h g" for g using assms(2,3) by (simp add: counts_def)
  have marker: "?c (OwnedScope o1 g) = (if g \<in> set fs then Some amount else None)" for g
    unfolding charge_window_def using charge_fields_simps(2)[OF dist] not_counted assms(2) by auto
  have used: "hget ?c g = (if g \<in> set fs then hget h g + amount else hget h g)" for g
    unfolding charge_window_def using charge_fields_simps(1)[OF dist] not_counted by auto
  have "covers o1 fs ?c g" if "g \<in> set fs" for g using marker that by (simp add: covers_def)
  then have "(f, True) \<in> set (map (\<lambda>f. (f, covers o1 fs ?c f)) fs) \<longleftrightarrow> f \<in> set fs" by auto
  then show ?thesis
    unfolding adjust_window_def using adjust_fields_simps(1)[OF dist] used[of f] by simp
qed

text \<open>Compensation undoes admission: cancelling a reservation that was just admitted gives back the
  whole amount, leaves every counter of every window where it was, and frees the attempt.\<close>

theorem cancel_undoes_reserve:
  assumes run: "reserve_script k amount limits r = (ReplyAdmitted a, r')"
    and dist: "distinct (map sl_field limits)" and keys: "bk_hour k \<noteq> bk_day k"
    and fresh: "\<And>w f. rd_windows r w (OwnedScope (bk_owner k) f) = None" "\<And>w. rd_windows r w (Owned (bk_owner k)) = None"
    and nonneg: "0 \<le> amount" "\<And>w f. 0 \<le> hget (rd_windows r w) f"
  shows "fst (cancel_script k (map sl_field limits) r') = amount \<and>
    hget (rd_windows (snd (cancel_script k (map sl_field limits) r')) w) f = hget (rd_windows r w) f \<and>
    rd_reservations (snd (cancel_script k (map sl_field limits) r')) = rd_reservations r"
proof -
  let ?o = "bk_owner k" and ?fs = "map sl_field limits"
  let ?c = "\<lambda>w. charge_window ?o amount ?fs (rd_windows r w)"
  note adm = reserve_admitted[OF run]
  have owned: "?c w (Owned ?o) = Some amount" for w by (simp add: charge_window_def)
  have nou: "\<not> underflows ?o amount ?fs (?c w)" for w
  proof (rule underflow_only_below)
    fix f assume f: "f \<in> set ?fs"
    have "\<not> counts ?o ?fs (rd_windows r w) f" using fresh by (simp add: counts_def)
    then show "amount \<le> hget (?c w) f" using hget_charge_window[OF dist f] nonneg(2)[of w f] by simp
  qed
  have restored: "hget (adjust_window ?o (- amount) ?fs (?c w)) f = hget (rd_windows r w) f" for w f
    by (rule adjust_charge_window[OF dist]) (use fresh in auto)
  have "cancel_script k ?fs r' = (amount, (put_windows k (adjust_window ?o (- amount) ?fs (?c (bk_hour k)))
      (adjust_window ?o (- amount) ?fs (?c (bk_day k))) r')
      \<lparr>rd_reservations := (rd_reservations r')((bk_network k, ?o) := None)\<rparr>)"
    using keys nou owned
    by (simp add: cancel_script_def Let_def adm(6) put_windows_def first_value_def)
  then show ?thesis using restored adm(4) by (auto simp: adm(6) put_windows_def fun_upd_idem)
qed

lemma example_prepared_fresh:
  "rd_windows example_prepared w (OwnedScope o1 f) = None" "rd_windows example_prepared w (Owned o1) = None"
  "0 \<le> hget (rd_windows example_prepared w) f"
  by (simp_all add: example_prepared_def sync_control_script_def initialize_script_def Let_def put_windows_def
      initialize_window_def seed_field_def example_seeds_def empty_redis_def hget_def)

theorem cancel_undoes_reserve_witness:
  "fst (cancel_script example_keys (map sl_field example_limits) example_run) = 40 \<and>
   hget (rd_windows (snd (cancel_script example_keys (map sl_field example_limits) example_run))
     (bk_hour example_keys)) FGlobal = hget (rd_windows example_prepared (bk_hour example_keys)) FGlobal \<and>
   rd_reservations (snd (cancel_script example_keys (map sl_field example_limits) example_run)) =
     rd_reservations example_prepared"
proof -
  have run: "reserve_script example_keys 40 example_limits example_prepared = (ReplyAdmitted 40, example_run)"
    unfolding example_run_def by (rule prod_eqI) (code_simp, simp)
  show ?thesis
    by (rule cancel_undoes_reserve[OF run])
      (auto simp: example_limits_def example_limit_def example_keys_def keys_for_def example_prepared_fresh)
qed

end
