(* ===== verification/Effect_Relations.thy ===== *)
theory Effect_Relations
  imports Runtime
begin

text \<open>
  What a computation may do to the state, whatever it returns and wherever it is cut short: a
  reflexive and transitive relation that allows statements to be used up and ids to be drawn. The
  closure of such a relation under the effect combinators is proved once, in a locale; a component
  interprets it for each relation its operations stay within.
\<close>

definition stays :: "('s \<Rightarrow> 's \<Rightarrow> bool) \<Rightarrow> ('s, 'e, 'a) io \<Rightarrow> bool" where
  "stays R m \<longleftrightarrow> (\<forall>s. R s (snd (m s)))"

lemma staysI: "(\<And>s. R s (snd (m s))) \<Longrightarrow> stays R m"
  by (simp add: stays_def)

lemma staysD: "stays R m \<Longrightarrow> R s (snd (m s))"
  by (simp add: stays_def)

lemma staysD2: "stays R m \<Longrightarrow> m s = (r, s') \<Longrightarrow> R s s'"
  by (metis stays_def snd_conv)

lemma io_bind_lift [simp]: "io_bind (io_lift (Inr a)) f = f a" "io_bind (io_lift (Inl e)) f = io_throw e"
  by (simp_all add: io_bind_def io_lift_def io_throw_def)

lemma wp_catch:
  "wp m (\<lambda>r s'. case r of Inl e \<Rightarrow> wp (h e) Q s' | Inr a \<Rightarrow> Q (Inr a) s') s \<Longrightarrow> wp (io_catch m h) Q s"
  by (auto simp: wp_def io_catch_def split: prod.splits sum.splits)

lemma wp_stays: "stays R m \<Longrightarrow> (\<And>r s'. R s s' \<Longrightarrow> Q r s') \<Longrightarrow> wp m Q s"
  by (simp add: wp_def stays_def)

locale effect_relation =
  fixes R :: "'z session_scheme \<Rightarrow> 'z session_scheme \<Rightarrow> bool"
  assumes session: "only_session s s' \<Longrightarrow> R s s'"
    and trans: "R s s' \<Longrightarrow> R s' s'' \<Longrightarrow> R s s''"
begin

lemma refl: "R s s"
  by (simp add: session)

lemma stays_reads: "io_reads m \<Longrightarrow> stays R m"
  by (simp add: stays_def io_reads_def session)

lemma stays_bind:
  assumes "stays R m" "\<And>a. stays R (f a)"
  shows "stays R (io_bind m f)"
proof (rule staysI)
  fix s
  show "R s (snd (io_bind m f s))"
    using staysD2[OF assms(1), of s] trans[OF _ staysD[OF assms(2)]]
    by (cases rule: io_bind_cases[of m s f]) auto
qed

lemma stays_catch:
  assumes "stays R m" "\<And>e. stays R (h e)"
  shows "stays R (io_catch m h)"
proof (rule staysI)
  fix s
  show "R s (snd (io_catch m h s))"
    using staysD2[OF assms(1), of s] trans[OF _ staysD[OF assms(2)]]
    by (cases "m s"; cases "fst (m s)") (auto simp: io_catch_def)
qed

lemma stays_sql: "stays R m \<Longrightarrow> stays R (sql m)"
proof (rule staysI)
  fix s assume m: "stays R m"
  have step: "R s (s\<lparr>sess_faults := fs\<rparr>)" for fs by (simp add: session)
  show "R s (snd (sql m s))"
  proof (cases rule: sql_cases[of s m])
    case (fault fs)
    then show ?thesis using step by simp
  next
    case (run fs)
    then show ?thesis using trans[OF step staysD[OF m]] by simp
  qed
qed

lemma stays_transaction: "stays R m \<Longrightarrow> stays R (transaction m)"
proof (rule staysI)
  fix s assume m: "stays R m"
  show "R s (snd (transaction m s))"
  proof (cases rule: transaction_cases[of m s])
    case (fail e s1)
    then show ?thesis by (simp add: session)
  next
    case (ok a s1 fs)
    have "R s1 (s1\<lparr>sess_faults := fs\<rparr>)" by (simp add: session)
    then show ?thesis using ok staysD2[OF m] trans by fastforce
  qed
qed

lemma stays_if: "(c \<Longrightarrow> stays R m) \<Longrightarrow> (\<not> c \<Longrightarrow> stays R n) \<Longrightarrow> stays R (if c then m else n)"
  by simp

lemma stays_option:
  "(v = None \<Longrightarrow> stays R m) \<Longrightarrow> (\<And>x. v = Some x \<Longrightarrow> stays R (f x)) \<Longrightarrow>
     stays R (case v of None \<Rightarrow> m | Some x \<Rightarrow> f x)"
  by (cases v) auto

lemma stays_prod: "(\<And>a b. v = (a, b) \<Longrightarrow> stays R (f a b)) \<Longrightarrow> stays R (case v of (a, b) \<Rightarrow> f a b)"
  by (cases v) auto

lemma stays_pure:
  "stays R (io_return a)" "stays R (io_throw e)" "stays R (io_lift r)" "stays R (io_get g)" "stays R now"
  "stays R randomUUID"
  by (intro stays_reads reads_intros)+

lemma stays_lift: "(\<And>a. r = Inr a \<Longrightarrow> stays R (f a)) \<Longrightarrow> stays R (io_bind (io_lift r) f)"
  by (cases r) (simp_all add: stays_pure)

lemma stays_result:
  "(\<And>e. v = Inl e \<Longrightarrow> stays R (f e)) \<Longrightarrow> (\<And>a. v = Inr a \<Longrightarrow> stays R (g a)) \<Longrightarrow>
     stays R (case v of Inl e \<Rightarrow> f e | Inr a \<Rightarrow> g a)"
  by (cases v) auto

lemmas stays_intros = stays_pure stays_bind stays_catch stays_sql stays_transaction stays_if stays_option stays_prod

end

end
