(* ===== verification/Sponsorship_Ledger.thy ===== *)
theory Sponsorship_Ledger
  imports Sponsorship_Redis Effect_Relations "HOL-Library.Product_Lexorder" "HOL-Library.List_Lexorder" "HOL-Library.Char_ord" "HOL-Library.Sublist"
begin

text \<open>
  The durable side of the sponsorship budget (\<^verbatim>\<open>db/repositories/sponsorship-budget.repository.ts\<close>): the
  versioned policies with their append-only revisions, the reservations and their life cycle, the
  count of failed configuration reads, and the queries that rebuild a Redis window. The constraints
  of the tables (primary keys, the unique index on policy scopes and on signatures, the checks on
  amounts) are part of the statements that can violate them. The state also carries Redis and what
  the fee-payment provider has been asked, which the service and the reconciliation job share.
\<close>

section \<open>Rows and state\<close>

definition SPONSORSHIP_BREAKER_OPERATOR :: string where
  "SPONSORSHIP_BREAKER_OPERATOR = ''system:sponsorship-breaker''"

datatype SponsorshipReservationStatus = Reserved | Signed | Submitted | Committed | Released | ChargedUnknown

datatype ProductEnvironment = Sandbox | Production

record CreateSponsorshipReservationInput =
  csr_id :: string
  csr_network :: SponsorshipNetwork
  csr_productEnvironment :: ProductEnvironment
  csr_organizationId :: string
  csr_projectId :: "string option"
  csr_actorType :: string
  csr_actorId :: string
  csr_transactionDigest :: string
  csr_feePayer :: string
  csr_providerConfigFingerprint :: string
  csr_recentBlockhash :: string
  csr_reservedLamports :: int
  csr_hourBucket :: string
  csr_dayBucket :: string
  csr_policyVersions :: "(string \<times> int) list"

record ReservationRow =
  rv_id :: string
  rv_network :: SponsorshipNetwork
  rv_productEnvironment :: ProductEnvironment
  rv_organizationId :: string
  rv_projectId :: "string option"
  rv_actorType :: string
  rv_actorId :: string
  rv_transactionDigest :: string
  rv_feePayer :: string
  rv_providerConfigFingerprint :: string
  rv_recentBlockhash :: string
  rv_reservedLamports :: int
  rv_actualLamports :: "int option"
  rv_hourBucket :: string
  rv_dayBucket :: string
  rv_policyVersions :: "(string \<times> int) list"
  rv_status :: SponsorshipReservationStatus
  rv_signature :: "string option"
  rv_signedTransaction :: "string option"
  rv_attempt :: nat
  rv_missCount :: nat
  rv_failureReason :: "string option"
  rv_createdAt :: timestamp
  rv_updatedAt :: timestamp
  rv_submittedAt :: "timestamp option"
  rv_reconciledAt :: "timestamp option"
  rv_redisSettledAt :: "timestamp option"

text \<open>\<^verbatim>\<open>SponsorshipReservation\<close> and \<^verbatim>\<open>SponsorshipReconciliationReservation\<close> are selections of columns of a
  row; readers get the row.\<close>

record PolicyRevisionRow =
  pr_id :: string
  pr_policy_id :: string
  pr_network :: SponsorshipNetwork
  pr_scope_type :: SponsorshipBudgetScopeType
  pr_scope_id :: "string option"
  pr_enabled :: bool
  pr_per_transaction_lamports :: int
  pr_hourly_lamports :: int
  pr_daily_lamports :: int
  pr_version :: int
  pr_changed_by :: string
  pr_change_reason :: string

datatype provider_call = CalledSign string | CalledSend string

record budget_session = session +
  bs_policies :: "SponsorshipBudgetPolicy list"
  bs_revisions :: "PolicyRevisionRow list"
  bs_reservations :: "ReservationRow list"
  bs_config_failures :: "SponsorshipNetwork \<rightharpoonup> nat"
  bs_redis :: redis
  bs_calls :: "provider_call list"

type_synonym 'a budget_io = "(budget_session, api_error, 'a) io"

section \<open>Constraints\<close>

definition MAX_SAFE_INTEGER :: int where
  "MAX_SAFE_INTEGER = 9007199254740991"

definition policy_checks :: "SponsorshipBudgetPolicy \<Rightarrow> bool" where
  "policy_checks p \<longleftrightarrow> (sbp_scopeType p \<noteq> ScopeTypeGlobal \<or> sbp_scopeId p = None) \<and>
     0 \<le> sbp_perTransactionLamports p \<and> sbp_perTransactionLamports p \<le> MAX_SAFE_INTEGER \<and>
     sbp_perTransactionLamports p \<le> sbp_hourlyLamports p \<and> sbp_hourlyLamports p \<le> MAX_SAFE_INTEGER \<and>
     sbp_hourlyLamports p \<le> sbp_dailyLamports p \<and> sbp_dailyLamports p \<le> MAX_SAFE_INTEGER"

text \<open>\<^verbatim>\<open>idx_sponsorship_budget_policy_scope\<close>: an absent scope id and the empty one are the same key.\<close>

definition policy_scope_key ::
  "SponsorshipBudgetPolicy \<Rightarrow> SponsorshipNetwork \<times> SponsorshipBudgetScopeType \<times> string" where
  "policy_scope_key p = (sbp_network p, sbp_scopeType p, case sbp_scopeId p of None \<Rightarrow> [] | Some i \<Rightarrow> i)"

definition reservation_checks :: "ReservationRow \<Rightarrow> bool" where
  "reservation_checks r \<longleftrightarrow> 0 \<le> rv_reservedLamports r \<and>
     (case rv_actualLamports r of None \<Rightarrow> True | Some a \<Rightarrow> 0 \<le> a) \<and> 1 \<le> rv_attempt r"

definition signatures :: "ReservationRow list \<Rightarrow> string list" where
  "signatures rows = List.map_filter rv_signature rows"

definition check_violation :: api_error where
  "check_violation = SqlError ''new row violates check constraint''"

definition put_policies :: "SponsorshipBudgetPolicy list \<Rightarrow> unit budget_io" where
  "put_policies rows = (\<lambda>s.
     if \<not> (distinct (map sbp_id rows) \<and> distinct (map policy_scope_key rows)) then (Inl UniqueViolation, s)
     else if \<not> list_all policy_checks rows then (Inl check_violation, s)
     else (Inr (), s\<lparr>bs_policies := rows\<rparr>))"

definition put_reservations :: "ReservationRow list \<Rightarrow> unit budget_io" where
  "put_reservations rows = (\<lambda>s.
     if \<not> (distinct (map rv_id rows) \<and> distinct (signatures rows)) then (Inl UniqueViolation, s)
     else if \<not> list_all reservation_checks rows then (Inl check_violation, s)
     else (Inr (), s\<lparr>bs_reservations := rows\<rparr>))"

section \<open>Policies\<close>

definition is_scope ::
  "SponsorshipNetwork \<Rightarrow> SponsorshipBudgetScopeType \<Rightarrow> string option \<Rightarrow> SponsorshipBudgetPolicy \<Rightarrow> bool" where
  "is_scope network scopeType scopeId p \<longleftrightarrow>
     sbp_network p = network \<and> sbp_scopeType p = scopeType \<and> sbp_scopeId p = scopeId"

definition getGlobalPolicy :: "SponsorshipNetwork \<Rightarrow> SponsorshipBudgetPolicy option budget_io" where
  "getGlobalPolicy network =
     sql (io_get (\<lambda>s. find (is_scope network ScopeTypeGlobal None) (bs_policies s)))"

text \<open>\<^verbatim>\<open>listPolicies\<close>: a network or all of them, in the order of the network, the depth of the scope and the
  scope id, the default of a scope type first.\<close>

definition network_text :: "SponsorshipNetwork \<Rightarrow> string" where
  "network_text network = (case network of Devnet \<Rightarrow> ''devnet'' | Mainnet \<Rightarrow> ''mainnet'')"

definition scope_depth :: "SponsorshipBudgetScopeType \<Rightarrow> nat" where
  "scope_depth t = (case t of ScopeTypeGlobal \<Rightarrow> 0 | ScopeTypeOrganization \<Rightarrow> 1 | ScopeTypeProject \<Rightarrow> 2)"

definition policy_order_key :: "SponsorshipBudgetPolicy \<Rightarrow> string \<times> nat \<times> bool \<times> string" where
  "policy_order_key p = (network_text (sbp_network p), scope_depth (sbp_scopeType p),
     sbp_scopeId p \<noteq> None, case sbp_scopeId p of None \<Rightarrow> [] | Some i \<Rightarrow> i)"

definition listPolicies :: "SponsorshipNetwork option \<Rightarrow> SponsorshipBudgetPolicy list budget_io" where
  "listPolicies network = sql (io_get (\<lambda>s. sort_key policy_order_key
     (filter (\<lambda>p. case network of None \<Rightarrow> True | Some n \<Rightarrow> sbp_network p = n) (bs_policies s))))"

text \<open>The policies a request may fall under, and the choice of \<^verbatim>\<open>DISTINCT ON (scope_type)\<close>: the policy of
  the scope itself before the default of its type.\<close>

definition applies_to ::
  "SponsorshipNetwork \<Rightarrow> string \<Rightarrow> string option \<Rightarrow> SponsorshipBudgetPolicy \<Rightarrow> bool" where
  "applies_to network organizationId projectId p \<longleftrightarrow> sbp_network p = network \<and>
     (case sbp_scopeType p of
        ScopeTypeGlobal \<Rightarrow> sbp_scopeId p = None
      | ScopeTypeOrganization \<Rightarrow> sbp_scopeId p = Some organizationId \<or> sbp_scopeId p = None
      | ScopeTypeProject \<Rightarrow> projectId \<noteq> None \<and> (sbp_scopeId p = projectId \<or> sbp_scopeId p = None))"

definition distinct_on_scope ::
  "SponsorshipBudgetPolicy list \<Rightarrow> SponsorshipBudgetScopeType \<Rightarrow> SponsorshipBudgetPolicy option" where
  "distinct_on_scope rows t =
     (case find (\<lambda>p. sbp_scopeType p = t \<and> sbp_scopeId p \<noteq> None) rows of
        Some p \<Rightarrow> Some p
      | None \<Rightarrow> find (\<lambda>p. sbp_scopeType p = t) rows)"

definition requiredScopes :: "string option \<Rightarrow> SponsorshipBudgetScopeType list" where
  "requiredScopes projectId = [ScopeTypeGlobal, ScopeTypeOrganization] @
     (case projectId of None \<Rightarrow> [] | Some p \<Rightarrow> if p = [] then [] else [ScopeTypeProject])"

definition select_policies ::
  "SponsorshipNetwork \<Rightarrow> string \<Rightarrow> string option \<Rightarrow> SponsorshipBudgetPolicy list \<Rightarrow>
     (api_error, SponsorshipBudgetPolicy list) result" where
  "select_policies network organizationId projectId rows =
     (let applicable = filter (applies_to network organizationId projectId) rows in
      if list_ex (\<lambda>t. distinct_on_scope applicable t = None) (requiredScopes projectId)
      then Inl (PlainError ''Sponsorship budget policy hierarchy is incomplete'')
      else result_mapM (\<lambda>t. case distinct_on_scope applicable t of
             None \<Rightarrow> Inl (PlainError (''Missing '' @ scope_type_name t @ '' sponsorship policy''))
           | Some p \<Rightarrow> Inr p) (requiredScopes projectId))"

definition resolvePolicies ::
  "SponsorshipNetwork \<Rightarrow> string \<Rightarrow> string option \<Rightarrow> SponsorshipBudgetPolicy list budget_io" where
  "resolvePolicies network organizationId projectId =
     io_bind (sql (io_get bs_policies)) (\<lambda>rows. io_lift (select_policies network organizationId projectId rows))"

definition revision_of :: "string \<Rightarrow> string \<Rightarrow> string \<Rightarrow> SponsorshipBudgetPolicy \<Rightarrow> PolicyRevisionRow" where
  "revision_of i operator reason p =
     \<lparr>pr_id = i, pr_policy_id = sbp_id p, pr_network = sbp_network p, pr_scope_type = sbp_scopeType p,
      pr_scope_id = sbp_scopeId p, pr_enabled = sbp_enabled p,
      pr_per_transaction_lamports = sbp_perTransactionLamports p, pr_hourly_lamports = sbp_hourlyLamports p,
      pr_daily_lamports = sbp_dailyLamports p, pr_version = sbp_version p, pr_changed_by = operator,
      pr_change_reason = reason\<rparr>"

definition insertRevision :: "SponsorshipBudgetPolicy \<Rightarrow> string \<Rightarrow> string \<Rightarrow> unit budget_io" where
  "insertRevision row operator reason =
     io_bind randomUUID (\<lambda>uuid.
       let revision = revision_of (''sbpr_'' @ uuid) operator reason row in
       sql (\<lambda>s.
         if pr_id revision \<in> pr_id ` set (bs_revisions s) \<or>
            (pr_policy_id revision, pr_version revision) \<in>
              (\<lambda>v. (pr_policy_id v, pr_version v)) ` set (bs_revisions s)
         then (Inl UniqueViolation, s)
         else (Inr (), s\<lparr>bs_revisions := bs_revisions s @ [revision]\<rparr>)))"

record UpsertPolicyInput =
  up_network :: SponsorshipNetwork
  up_scopeType :: SponsorshipBudgetScopeType
  up_scopeId :: "string option"
  up_enabled :: bool
  up_perTransactionLamports :: int
  up_hourlyLamports :: int
  up_dailyLamports :: int
  up_operator :: string
  up_reason :: string

text \<open>\<^verbatim>\<open>INSERT ... ON CONFLICT (id) DO UPDATE\<close>: on a conflict the columns of the scope stay.\<close>

definition upserted :: "UpsertPolicyInput \<Rightarrow> int \<Rightarrow> timestamp \<Rightarrow> SponsorshipBudgetPolicy \<Rightarrow> SponsorshipBudgetPolicy" where
  "upserted input version t p =
     p\<lparr>sbp_enabled := up_enabled input, sbp_perTransactionLamports := up_perTransactionLamports input,
       sbp_hourlyLamports := up_hourlyLamports input, sbp_dailyLamports := up_dailyLamports input,
       sbp_version := version, sbp_updatedBy := up_operator input, sbp_updateReason := up_reason input,
       sbp_updatedAt := t\<rparr>"

definition inserted :: "UpsertPolicyInput \<Rightarrow> string \<Rightarrow> int \<Rightarrow> timestamp \<Rightarrow> SponsorshipBudgetPolicy" where
  "inserted input i version t =
     \<lparr>sbp_id = i, sbp_network = up_network input, sbp_scopeType = up_scopeType input,
      sbp_scopeId = up_scopeId input, sbp_enabled = up_enabled input,
      sbp_perTransactionLamports = up_perTransactionLamports input,
      sbp_hourlyLamports = up_hourlyLamports input, sbp_dailyLamports = up_dailyLamports input,
      sbp_version = version, sbp_updatedBy = up_operator input, sbp_updateReason = up_reason input,
      sbp_updatedAt = t\<rparr>"

definition upsert_row :: "UpsertPolicyInput \<Rightarrow> string \<Rightarrow> int \<Rightarrow> SponsorshipBudgetPolicy budget_io" where
  "upsert_row input i version = (\<lambda>s.
     case find (\<lambda>p. sbp_id p = i) (bs_policies s) of
       Some p \<Rightarrow>
         io_bind (put_policies (table_update (\<lambda>q. sbp_id q = i) (upserted input version (sess_clock s)) (bs_policies s)))
           (\<lambda>_. io_return (upserted input version (sess_clock s) p)) s
     | None \<Rightarrow>
         io_bind (put_policies (bs_policies s @ [inserted input i version (sess_clock s)]))
           (\<lambda>_. io_return (inserted input i version (sess_clock s))) s)"

definition upsertPolicy :: "UpsertPolicyInput \<Rightarrow> SponsorshipBudgetPolicy budget_io" where
  "upsertPolicy input = transaction (
     io_bind (sql (io_get (\<lambda>s. find (is_scope (up_network input) (up_scopeType input) (up_scopeId input))
       (bs_policies s)))) (\<lambda>existing.
     io_bind (case existing of Some p \<Rightarrow> io_return (sbp_id p)
       | None \<Rightarrow> io_bind randomUUID (\<lambda>uuid. io_return (''sbp_'' @ uuid))) (\<lambda>i.
     let version = (case existing of Some p \<Rightarrow> sbp_version p | None \<Rightarrow> 0) + 1 in
     io_bind (sql (upsert_row input i version)) (\<lambda>row.
     io_bind (insertRevision row (up_operator input) (up_reason input)) (\<lambda>_.
     io_return row)))))"

text \<open>\<^verbatim>\<open>UPDATE sponsorship_budget_policies ... RETURNING *\<close>; the scope index leaves at most one row to match.\<close>

definition switched :: "bool \<Rightarrow> string \<Rightarrow> string \<Rightarrow> timestamp \<Rightarrow> SponsorshipBudgetPolicy \<Rightarrow> SponsorshipBudgetPolicy" where
  "switched enabled operator reason t p =
     p\<lparr>sbp_enabled := enabled, sbp_version := sbp_version p + 1, sbp_updatedBy := operator,
       sbp_updateReason := reason, sbp_updatedAt := t\<rparr>"

definition update_policy ::
  "(SponsorshipBudgetPolicy \<Rightarrow> bool) \<Rightarrow> bool \<Rightarrow> string \<Rightarrow> string \<Rightarrow> SponsorshipBudgetPolicy option budget_io" where
  "update_policy matching enabled operator reason = transaction (
     io_bind (sql (\<lambda>s.
       io_bind (put_policies (table_update matching (switched enabled operator reason (sess_clock s)) (bs_policies s)))
         (\<lambda>_. io_return (map_option (switched enabled operator reason (sess_clock s))
           (find matching (bs_policies s)))) s)) (\<lambda>row.
     case row of
       None \<Rightarrow> io_return None
     | Some p \<Rightarrow> io_bind (insertRevision p operator reason) (\<lambda>_. io_return (Some p))))"

definition setPolicyEnabled ::
  "SponsorshipNetwork \<Rightarrow> SponsorshipBudgetScopeType \<Rightarrow> string option \<Rightarrow> bool \<Rightarrow> string \<Rightarrow> string \<Rightarrow> bool \<Rightarrow>
     SponsorshipBudgetPolicy option budget_io" where
  "setPolicyEnabled network scopeType scopeId enabled operator reason overwriteDisabledProvenance =
     update_policy (\<lambda>p. is_scope network scopeType scopeId p \<and>
         (sbp_enabled p \<noteq> enabled \<or>
          overwriteDisabledProvenance \<and> \<not> enabled \<and> (sbp_updatedBy p \<noteq> operator \<or> sbp_updateReason p \<noteq> reason)))
       enabled operator reason"

definition tripGlobalBreaker ::
  "SponsorshipNetwork \<Rightarrow> string \<Rightarrow> bool \<Rightarrow> SponsorshipBudgetPolicy option budget_io" where
  "tripGlobalBreaker network reason recoverable =
     setPolicyEnabled network ScopeTypeGlobal None False SPONSORSHIP_BREAKER_OPERATOR reason (\<not> recoverable)"

definition resumeGlobalBreaker ::
  "SponsorshipNetwork \<Rightarrow> string \<Rightarrow> string \<Rightarrow> SponsorshipBudgetPolicy option budget_io" where
  "resumeGlobalBreaker network expectedTripReason reason =
     update_policy (\<lambda>p. is_scope network ScopeTypeGlobal None p \<and> \<not> sbp_enabled p \<and>
         sbp_updatedBy p = SPONSORSHIP_BREAKER_OPERATOR \<and> sbp_updateReason p = expectedTripReason)
       True SPONSORSHIP_BREAKER_OPERATOR reason"

definition recordProviderConfigFailure :: "SponsorshipNetwork \<Rightarrow> nat budget_io" where
  "recordProviderConfigFailure network = sql (\<lambda>s.
     let n = (case bs_config_failures s network of None \<Rightarrow> 1 | Some k \<Rightarrow> k + 1)
     in (Inr n, s\<lparr>bs_config_failures := (bs_config_failures s)(network \<mapsto> n)\<rparr>))"

definition resetProviderConfigFailures :: "SponsorshipNetwork \<Rightarrow> unit budget_io" where
  "resetProviderConfigFailures network = sql (io_modify (\<lambda>s.
     case bs_config_failures s network of
       Some k \<Rightarrow> if k > 0 then s\<lparr>bs_config_failures := (bs_config_failures s)(network \<mapsto> 0)\<rparr> else s
     | None \<Rightarrow> s))"

section \<open>Reservations\<close>

definition new_reservation :: "CreateSponsorshipReservationInput \<Rightarrow> timestamp \<Rightarrow> ReservationRow" where
  "new_reservation input t =
     \<lparr>rv_id = csr_id input, rv_network = csr_network input, rv_productEnvironment = csr_productEnvironment input,
      rv_organizationId = csr_organizationId input, rv_projectId = csr_projectId input,
      rv_actorType = csr_actorType input, rv_actorId = csr_actorId input,
      rv_transactionDigest = csr_transactionDigest input, rv_feePayer = csr_feePayer input,
      rv_providerConfigFingerprint = csr_providerConfigFingerprint input,
      rv_recentBlockhash = csr_recentBlockhash input, rv_reservedLamports = csr_reservedLamports input,
      rv_actualLamports = None, rv_hourBucket = csr_hourBucket input, rv_dayBucket = csr_dayBucket input,
      rv_policyVersions = csr_policyVersions input, rv_status = Reserved, rv_signature = None,
      rv_signedTransaction = None, rv_attempt = 1, rv_missCount = 0, rv_failureReason = None,
      rv_createdAt = t, rv_updatedAt = t, rv_submittedAt = None, rv_reconciledAt = None,
      rv_redisSettledAt = None\<rparr>"

definition createReservation :: "CreateSponsorshipReservationInput \<Rightarrow> bool budget_io" where
  "createReservation input = sql (\<lambda>s.
     if csr_id input \<in> rv_id ` set (bs_reservations s) then (Inr False, s)
     else io_bind (put_reservations (bs_reservations s @ [new_reservation input (sess_clock s)]))
            (\<lambda>_. io_return True) s)"

definition getReservation :: "string \<Rightarrow> ReservationRow option budget_io" where
  "getReservation i = sql (io_get (\<lambda>s. find (\<lambda>r. rv_id r = i) (bs_reservations s)))"

text \<open>\<^verbatim>\<open>UPDATE sponsorship_budget_reservations SET ... WHERE ...\<close>, with the number of updated rows.\<close>

definition update_reservations ::
  "(ReservationRow \<Rightarrow> bool) \<Rightarrow> (timestamp \<Rightarrow> ReservationRow \<Rightarrow> ReservationRow) \<Rightarrow> nat budget_io" where
  "update_reservations matching change = sql (\<lambda>s.
     io_bind (put_reservations (table_update matching (change (sess_clock s)) (bs_reservations s)))
       (\<lambda>_. io_return (length (filter matching (bs_reservations s)))) s)"

definition is_attempt :: "string \<Rightarrow> nat \<Rightarrow> SponsorshipReservationStatus list \<Rightarrow> ReservationRow \<Rightarrow> bool" where
  "is_attempt i expectedAttempt statuses r \<longleftrightarrow>
     rv_id r = i \<and> rv_attempt r = expectedAttempt \<and> rv_status r \<in> set statuses"

definition reopen_row ::
  "CreateSponsorshipReservationInput \<Rightarrow> timestamp \<Rightarrow> ReservationRow \<Rightarrow> ReservationRow" where
  "reopen_row input t r =
     r\<lparr>rv_status := Reserved, rv_reservedLamports := csr_reservedLamports input, rv_actualLamports := None,
       rv_hourBucket := csr_hourBucket input, rv_dayBucket := csr_dayBucket input,
       rv_policyVersions := csr_policyVersions input,
       rv_providerConfigFingerprint := csr_providerConfigFingerprint input, rv_signature := None,
       rv_signedTransaction := None, rv_attempt := rv_attempt r + 1, rv_missCount := 0, rv_failureReason := None,
       rv_submittedAt := None, rv_reconciledAt := None, rv_redisSettledAt := None, rv_updatedAt := t\<rparr>"

definition can_reopen :: "string \<Rightarrow> nat \<Rightarrow> ReservationRow \<Rightarrow> bool" where
  "can_reopen i expectedAttempt r \<longleftrightarrow> is_attempt i expectedAttempt [Released] r \<and> rv_redisSettledAt r \<noteq> None"

definition reopenReleasedReservation ::
  "CreateSponsorshipReservationInput \<Rightarrow> nat \<Rightarrow> nat option budget_io" where
  "reopenReleasedReservation input expectedAttempt =
     io_bind (update_reservations (can_reopen (csr_id input) expectedAttempt) (reopen_row input))
       (\<lambda>n. io_return (if n = 0 then None else Some (expectedAttempt + 1)))"

datatype SignaturePersistResult = Persisted | Stale | DuplicateSignature

text \<open>The only unique index a change of status and signature can violate is the one on signatures.\<close>

definition persist_signature :: "nat budget_io \<Rightarrow> SignaturePersistResult budget_io" where
  "persist_signature statement =
     io_catch (io_bind statement (\<lambda>n. io_return (if n = 1 then Persisted else Stale)))
       (\<lambda>e. if e = UniqueViolation then io_return DuplicateSignature else io_throw e)"

definition sign_row :: "string \<Rightarrow> string \<Rightarrow> timestamp \<Rightarrow> ReservationRow \<Rightarrow> ReservationRow" where
  "sign_row signedTransaction signature t r =
     r\<lparr>rv_status := Signed, rv_signedTransaction := Some signedTransaction, rv_signature := Some signature,
       rv_updatedAt := t\<rparr>"

definition markSigned :: "string \<Rightarrow> nat \<Rightarrow> string \<Rightarrow> string \<Rightarrow> SignaturePersistResult budget_io" where
  "markSigned i expectedAttempt signedTransaction signature =
     persist_signature (update_reservations (is_attempt i expectedAttempt [Reserved])
       (sign_row signedTransaction signature))"

definition submit_row :: "string \<Rightarrow> timestamp \<Rightarrow> ReservationRow \<Rightarrow> ReservationRow" where
  "submit_row signature t r =
     r\<lparr>rv_status := Submitted, rv_signature := Some signature, rv_submittedAt := Some t, rv_updatedAt := t\<rparr>"

definition markSubmitted :: "string \<Rightarrow> nat \<Rightarrow> string \<Rightarrow> SignaturePersistResult budget_io" where
  "markSubmitted i expectedAttempt signature =
     persist_signature (update_reservations (is_attempt i expectedAttempt [Reserved, Signed]) (submit_row signature))"

definition one_updated :: "nat budget_io \<Rightarrow> bool budget_io" where
  "one_updated statement = io_bind statement (\<lambda>n. io_return (n = 1))"

definition charge_row :: "string \<Rightarrow> timestamp \<Rightarrow> ReservationRow \<Rightarrow> ReservationRow" where
  "charge_row reason t r =
     r\<lparr>rv_status := ChargedUnknown, rv_failureReason := Some (take 500 reason), rv_updatedAt := t\<rparr>"

definition markChargedUnknown :: "string \<Rightarrow> nat \<Rightarrow> string \<Rightarrow> bool budget_io" where
  "markChargedUnknown i expectedAttempt reason =
     one_updated (update_reservations (is_attempt i expectedAttempt [Reserved, Signed, Submitted]) (charge_row reason))"

definition settle_row ::
  "SponsorshipReservationStatus \<Rightarrow> int \<Rightarrow> string option \<Rightarrow> timestamp \<Rightarrow> ReservationRow \<Rightarrow> ReservationRow" where
  "settle_row status actualLamports reason t r =
     r\<lparr>rv_status := status, rv_actualLamports := Some actualLamports, rv_failureReason := reason,
       rv_reconciledAt := Some t, rv_updatedAt := t\<rparr>"

definition markReleased :: "string \<Rightarrow> nat \<Rightarrow> string \<Rightarrow> bool budget_io" where
  "markReleased i expectedAttempt reason =
     one_updated (update_reservations (is_attempt i expectedAttempt [Reserved, Signed])
       (settle_row Released 0 (Some (take 500 reason))))"

text \<open>\<^verbatim>\<open>status: "committed" | "released"\<close>.\<close>

datatype settled_status = SettleCommitted | SettleReleased

fun settled_row_status :: "settled_status \<Rightarrow> SponsorshipReservationStatus" where
  "settled_row_status SettleCommitted = Committed"
| "settled_row_status SettleReleased = Released"

definition settleReservation ::
  "string \<Rightarrow> nat \<Rightarrow> settled_status \<Rightarrow> int \<Rightarrow> string option \<Rightarrow> bool budget_io" where
  "settleReservation i expectedAttempt status actualLamports reason =
     one_updated (update_reservations (is_attempt i expectedAttempt [Signed, Submitted])
       (settle_row (settled_row_status status) actualLamports reason))"

definition miss_row :: "timestamp \<Rightarrow> ReservationRow \<Rightarrow> ReservationRow" where
  "miss_row t r = r\<lparr>rv_missCount := rv_missCount r + 1, rv_updatedAt := t\<rparr>"

definition recordReconciliationMiss :: "string \<Rightarrow> nat \<Rightarrow> nat \<Rightarrow> bool budget_io" where
  "recordReconciliationMiss i expectedAttempt expectedMissCount =
     one_updated (update_reservations
       (\<lambda>r. is_attempt i expectedAttempt [Signed, Submitted] r \<and> rv_missCount r = expectedMissCount) miss_row)"

definition redis_settled_row :: "timestamp \<Rightarrow> ReservationRow \<Rightarrow> ReservationRow" where
  "redis_settled_row t r =
     r\<lparr>rv_redisSettledAt := Some (case rv_redisSettledAt r of None \<Rightarrow> t | Some t' \<Rightarrow> t'), rv_updatedAt := t\<rparr>"

definition markRedisSettled :: "string \<Rightarrow> nat \<Rightarrow> bool budget_io" where
  "markRedisSettled i expectedAttempt =
     one_updated (update_reservations (is_attempt i expectedAttempt [Committed, Released]) redis_settled_row)"

section \<open>Windows\<close>

record window_input =
  wi_network :: SponsorshipNetwork
  wi_organizationId :: string
  wi_projectId :: "string option"
  wi_hourBucket :: string
  wi_dayBucket :: string

text \<open>\<^verbatim>\<open>AND id <> ?\<close>, present when the id is a non-empty text.\<close>

definition not_excluded :: "string option \<Rightarrow> ReservationRow \<Rightarrow> bool" where
  "not_excluded excludeReservationId r \<longleftrightarrow>
     (case excludeReservationId of None \<Rightarrow> True | Some i \<Rightarrow> i = [] \<or> rv_id r \<noteq> i)"

definition row_charge :: "ReservationRow \<Rightarrow> int" where
  "row_charge r = (case rv_actualLamports r of Some a \<Rightarrow> a | None \<Rightarrow> rv_reservedLamports r)"

definition charge_sum :: "(ReservationRow \<Rightarrow> bool) \<Rightarrow> ReservationRow list \<Rightarrow> int" where
  "charge_sum P rows = (\<Sum>r\<leftarrow>rows. if P r then row_charge r else 0)"

definition window_usage ::
  "window_input \<Rightarrow> (ReservationRow \<Rightarrow> bool) \<Rightarrow> ReservationRow list \<Rightarrow> SponsorshipBudgetUsage" where
  "window_usage input in_bucket rows =
     \<lparr>sbu_global = charge_sum in_bucket rows,
      sbu_organization = charge_sum (\<lambda>r. in_bucket r \<and> rv_organizationId r = wi_organizationId input) rows,
      sbu_project = charge_sum (\<lambda>r. in_bucket r \<and> rv_organizationId r = wi_organizationId input \<and>
        rv_projectId r = wi_projectId input) rows\<rparr>"

definition in_window :: "window_input \<Rightarrow> string option \<Rightarrow> ReservationRow \<Rightarrow> bool" where
  "in_window input excludeReservationId r \<longleftrightarrow> rv_network r = wi_network input \<and>
     (rv_hourBucket r = wi_hourBucket input \<or> rv_dayBucket r = wi_dayBucket input) \<and>
     not_excluded excludeReservationId r"

definition usage_of_rows ::
  "window_input \<Rightarrow> string option \<Rightarrow> ReservationRow list \<Rightarrow> SponsorshipBudgetUsage \<times> SponsorshipBudgetUsage" where
  "usage_of_rows input excludeReservationId rows =
     (let found = filter (\<lambda>r. in_window input excludeReservationId r \<and> rv_status r \<noteq> Released) rows in
      (window_usage input (\<lambda>r. rv_hourBucket r = wi_hourBucket input) found,
       window_usage input (\<lambda>r. rv_dayBucket r = wi_dayBucket input) found))"

definition getWindowUsage ::
  "window_input \<Rightarrow> string option \<Rightarrow> (SponsorshipBudgetUsage \<times> SponsorshipBudgetUsage) budget_io" where
  "getWindowUsage input excludeReservationId =
     sql (io_get (\<lambda>s. usage_of_rows input excludeReservationId (bs_reservations s)))"

definition live_status :: "SponsorshipReservationStatus \<Rightarrow> bool" where
  "live_status status \<longleftrightarrow> status \<in> {Reserved, Signed, Submitted}"

definition live_row :: "ReservationRow \<Rightarrow> SponsorshipLiveWindowReservation" where
  "live_row r = \<lparr>lwr_id = rv_id r, lwr_attempt = rv_attempt r, lwr_reservedLamports = rv_reservedLamports r,
     lwr_organizationId = rv_organizationId r, lwr_projectId = rv_projectId r\<rparr>"

definition live_of_rows :: "window_input \<Rightarrow> string option \<Rightarrow> ReservationRow list \<Rightarrow>
     SponsorshipLiveWindowReservation list \<times> SponsorshipLiveWindowReservation list" where
  "live_of_rows input excludeReservationId rows =
     (let found = filter (\<lambda>r. in_window input excludeReservationId r \<and> live_status (rv_status r)) rows in
      (map live_row (filter (\<lambda>r. rv_hourBucket r = wi_hourBucket input) found),
       map live_row (filter (\<lambda>r. rv_dayBucket r = wi_dayBucket input) found)))"

definition listLiveWindowReservations :: "window_input \<Rightarrow> string option \<Rightarrow>
     (SponsorshipLiveWindowReservation list \<times> SponsorshipLiveWindowReservation list) budget_io" where
  "listLiveWindowReservations input excludeReservationId =
     sql (io_get (\<lambda>s. live_of_rows input excludeReservationId (bs_reservations s)))"

record admission_snapshot =
  snap_hourUsage :: SponsorshipBudgetUsage
  snap_dayUsage :: SponsorshipBudgetUsage
  snap_liveHour :: "SponsorshipLiveWindowReservation list"
  snap_liveDay :: "SponsorshipLiveWindowReservation list"

text \<open>Both queries run in one repeatable-read transaction, so they see the same rows.\<close>

definition loadWindowAdmissionSnapshot :: "window_input \<Rightarrow> string option \<Rightarrow> admission_snapshot budget_io" where
  "loadWindowAdmissionSnapshot input excludeReservationId = transaction (
     io_bind (sql (io_return ())) (\<lambda>_.
     io_bind (getWindowUsage input excludeReservationId) (\<lambda>(hourUsage, dayUsage).
     io_bind (listLiveWindowReservations input excludeReservationId) (\<lambda>(liveHour, liveDay).
     io_return \<lparr>snap_hourUsage = hourUsage, snap_dayUsage = dayUsage, snap_liveHour = liveHour,
       snap_liveDay = liveDay\<rparr>))))"

definition needs_reconciliation :: "SponsorshipNetwork \<Rightarrow> timestamp \<Rightarrow> ReservationRow \<Rightarrow> bool" where
  "needs_reconciliation network updatedBefore r \<longleftrightarrow> rv_network r = network \<and>
     (live_status (rv_status r) \<and> rv_updatedAt r \<le> updatedBefore \<or>
      rv_status r \<in> {Committed, Released} \<and> rv_redisSettledAt r = None)"

definition listReconciliationCandidates ::
  "SponsorshipNetwork \<Rightarrow> timestamp \<Rightarrow> nat \<Rightarrow> ReservationRow list budget_io" where
  "listReconciliationCandidates network updatedBefore limit = sql (io_get (\<lambda>s.
     take limit (sort_key (\<lambda>r. (rv_updatedAt r, rv_id r))
       (filter (needs_reconciliation network updatedBefore) (bs_reservations s)))))"

section \<open>The life cycle of a reservation\<close>

text \<open>What may happen to a row, whoever runs the statement.\<close>

inductive reservation_step :: "ReservationRow \<Rightarrow> ReservationRow \<Rightarrow> bool" where
  sign: "rv_status r = Reserved \<Longrightarrow> reservation_step r (sign_row tx sg t r)"
| submit: "rv_status r \<in> {Reserved, Signed} \<Longrightarrow> reservation_step r (submit_row sg t r)"
| charge_unknown: "live_status (rv_status r) \<Longrightarrow> reservation_step r (charge_row reason t r)"
| release: "rv_status r \<in> {Reserved, Signed} \<Longrightarrow> reservation_step r (settle_row Released 0 why t r)"
| settle: "rv_status r \<in> {Signed, Submitted} \<Longrightarrow> status \<in> {Committed, Released} \<Longrightarrow>
    reservation_step r (settle_row status actual why t r)"
| miss: "rv_status r \<in> {Signed, Submitted} \<Longrightarrow> reservation_step r (miss_row t r)"
| redis_settled: "rv_status r \<in> {Committed, Released} \<Longrightarrow> reservation_step r (redis_settled_row t r)"
| reopen: "rv_status r = Released \<Longrightarrow> rv_redisSettledAt r \<noteq> None \<Longrightarrow> reservation_step r (reopen_row input t r)"

lemmas row_defs = sign_row_def submit_row_def charge_row_def settle_row_def miss_row_def
  redis_settled_row_def reopen_row_def

inductive row_history :: "ReservationRow option \<Rightarrow> ReservationRow option \<Rightarrow> bool" where
  created: "row_history None (Some (new_reservation input t))"
| changed: "reservation_step r r' \<Longrightarrow> row_history (Some r) (Some r')"

definition row_of :: "ReservationRow list \<Rightarrow> string \<Rightarrow> ReservationRow option" where
  "row_of rows i = find (\<lambda>r. rv_id r = i) rows"

definition ledger_rel :: "ReservationRow list \<Rightarrow> ReservationRow list \<Rightarrow> bool" where
  "ledger_rel rows rows' \<longleftrightarrow> (\<forall>i. row_history\<^sup>*\<^sup>* (row_of rows i) (row_of rows' i))"

lemma ledger_rel_refl [simp]: "ledger_rel rows rows"
  by (simp add: ledger_rel_def)

lemma ledger_rel_trans: "ledger_rel a b \<Longrightarrow> ledger_rel b c \<Longrightarrow> ledger_rel a c"
  unfolding ledger_rel_def by (meson rtranclp_trans)

lemma reservation_step_id: "reservation_step r r' \<Longrightarrow> rv_id r' = rv_id r"
  by (induction rule: reservation_step.induct) (simp_all add: row_defs)

lemma ledger_rel_update:
  assumes "\<And>r. matching r \<Longrightarrow> reservation_step r (f r)"
  shows "ledger_rel rows (table_update matching f rows)"
  unfolding ledger_rel_def row_of_def
proof
  fix i
  have "rv_id (f r) = rv_id r" if "matching r" for r using reservation_step_id assms that by blast
  then have "find (\<lambda>r. rv_id r = i) (table_update matching f rows) =
      map_option (\<lambda>r. if matching r then f r else r) (find (\<lambda>r. rv_id r = i) rows)"
    by (rule find_table_update)
  then show "row_history\<^sup>*\<^sup>* (find (\<lambda>r. rv_id r = i) rows) (find (\<lambda>r. rv_id r = i) (table_update matching f rows))"
    by (cases "find (\<lambda>r. rv_id r = i) rows") (auto intro: row_history.changed assms)
qed

lemma new_reservation_id: "rv_id (new_reservation input t) = csr_id input"
  by (simp add: new_reservation_def)

lemma ledger_rel_insert:
  assumes "csr_id input \<notin> rv_id ` set rows"
  shows "ledger_rel rows (rows @ [new_reservation input t])"
  unfolding ledger_rel_def row_of_def
proof
  fix i
  have "find (\<lambda>r. rv_id r = i) rows = None" if "i = csr_id input"
    using assms that by (auto simp: find_None_iff image_iff)
  then show "row_history\<^sup>*\<^sup>* (find (\<lambda>r. rv_id r = i) rows)
      (find (\<lambda>r. rv_id r = i) (rows @ [new_reservation input t]))"
    using row_history.created[of input t] new_reservation_id[of input t]
    by (cases "find (\<lambda>r. rv_id r = i) rows") (auto simp: find_append)
qed

text \<open>The statements on reservations change the reservations, by steps of rows, and nothing else; the
  statements on policies change policies and revisions.\<close>

definition reservation_frame where
  "reservation_frame s = (sess_clock s, sess_uuid s, bs_policies s, bs_revisions s, bs_config_failures s,
     bs_redis s, bs_calls s)"

definition reservations_wf :: "ReservationRow list \<Rightarrow> bool" where
  "reservations_wf rows \<longleftrightarrow> distinct (map rv_id rows) \<and> distinct (signatures rows) \<and> list_all reservation_checks rows"

definition reservation_effect :: "budget_session \<Rightarrow> budget_session \<Rightarrow> bool" where
  "reservation_effect s s' \<longleftrightarrow> ledger_rel (bs_reservations s) (bs_reservations s') \<and>
     (reservations_wf (bs_reservations s) \<longrightarrow> reservations_wf (bs_reservations s')) \<and>
     reservation_frame s' = reservation_frame s"

definition same_state :: "budget_session \<Rightarrow> budget_session \<Rightarrow> bool" where
  "same_state s s' \<longleftrightarrow> bs_reservations s' = bs_reservations s \<and> reservation_frame s' = reservation_frame s"

lemma only_session_same:
  assumes "only_session s s'"
  shows "same_state s s'"
proof -
  have "bs_reservations s' = bs_reservations (rollback s s')" "reservation_frame s' = reservation_frame (rollback s s')"
    using assms unfolding only_session_def by metis+
  then show ?thesis by (simp add: same_state_def rollback_def reservation_frame_def)
qed

interpretation ledger: effect_relation reservation_effect
proof
  fix s s' s'' :: budget_session
  show "only_session s s' \<Longrightarrow> reservation_effect s s'"
    by (drule only_session_same) (simp add: same_state_def reservation_effect_def)
  show "reservation_effect s s' \<Longrightarrow> reservation_effect s' s'' \<Longrightarrow> reservation_effect s s''"
    by (auto simp: reservation_effect_def intro: ledger_rel_trans)
qed

lemma put_reservations_effect:
  assumes "\<And>s. ledger_rel (bs_reservations s) (rows s)"
  shows "reservation_effect s (snd (put_reservations (rows s) s))"
  using assms by (simp add: put_reservations_def reservation_effect_def reservation_frame_def reservations_wf_def)

lemma stays_put_reservations:
  assumes "\<And>s. ledger_rel (bs_reservations s) (rows s)"
  shows "stays reservation_effect (\<lambda>s. io_bind (put_reservations (rows s)) (\<lambda>_. io_return (a s)) s)"
proof (rule staysI)
  fix s
  show "reservation_effect s (snd (io_bind (put_reservations (rows s)) (\<lambda>_. io_return (a s)) s))"
    using put_reservations_effect[of rows s, OF assms]
    by (auto simp: io_bind_def io_return_def split: prod.split sum.split)
qed

lemma update_reservations_stays:
  assumes "\<And>t r. matching r \<Longrightarrow> reservation_step r (change t r)"
  shows "stays reservation_effect (update_reservations matching change)"
  unfolding update_reservations_def
  by (intro ledger.stays_sql stays_put_reservations ledger_rel_update assms)

lemma createReservation_stays: "stays reservation_effect (createReservation input)"
  unfolding createReservation_def
proof (intro ledger.stays_sql staysI)
  fix s
  show "reservation_effect s (snd (if csr_id input \<in> rv_id ` set (bs_reservations s) then (Inr False, s)
      else io_bind (put_reservations (bs_reservations s @ [new_reservation input (sess_clock s)]))
        (\<lambda>_. io_return True) s))"
    using ledger.refl
    by (auto simp: put_reservations_def io_bind_def io_return_def reservation_effect_def reservation_frame_def
        reservations_wf_def ledger_rel_insert)
qed

lemma reopenReleasedReservation_stays: "stays reservation_effect (reopenReleasedReservation input n)"
  unfolding reopenReleasedReservation_def
  by (intro ledger.stays_intros update_reservations_stays)
    (auto simp: can_reopen_def is_attempt_def intro: reservation_step.intros)

lemma persist_signature_stays: "stays reservation_effect m \<Longrightarrow> stays reservation_effect (persist_signature m)"
  unfolding persist_signature_def by (intro ledger.stays_intros)

lemma one_updated_stays: "stays reservation_effect m \<Longrightarrow> stays reservation_effect (one_updated m)"
  unfolding one_updated_def by (intro ledger.stays_intros)

lemma reservation_ops_stay:
  "stays reservation_effect (markSigned i n tx sg)" "stays reservation_effect (markSubmitted i n sg)"
  "stays reservation_effect (markChargedUnknown i n reason)" "stays reservation_effect (markReleased i n reason)"
  "stays reservation_effect (settleReservation i n st a why)"
  "stays reservation_effect (recordReconciliationMiss i n k)" "stays reservation_effect (markRedisSettled i n)"
  unfolding markSigned_def markSubmitted_def markChargedUnknown_def markReleased_def settleReservation_def
    recordReconciliationMiss_def markRedisSettled_def
  by (cases st; intro persist_signature_stays one_updated_stays update_reservations_stays;
      auto simp: is_attempt_def live_status_def intro: reservation_step.intros)+

section \<open>Policies and their revisions\<close>

definition policy_frame where
  "policy_frame s = (sess_clock s, sess_uuid s, bs_reservations s, bs_redis s, bs_calls s)"

definition policy_effect :: "budget_session \<Rightarrow> budget_session \<Rightarrow> bool" where
  "policy_effect s s' \<longleftrightarrow> policy_frame s' = policy_frame s \<and> prefix (bs_revisions s) (bs_revisions s')"

interpretation policies: effect_relation policy_effect
proof
  fix s s' s'' :: budget_session
  show "only_session s s' \<Longrightarrow> policy_effect s s'"
    by (drule only_session_same) (simp add: same_state_def policy_effect_def policy_frame_def reservation_frame_def)
  show "policy_effect s s' \<Longrightarrow> policy_effect s' s'' \<Longrightarrow> policy_effect s s''"
    by (auto simp: policy_effect_def)
qed

lemma put_policies_stays: "stays policy_effect (\<lambda>s. io_bind (put_policies (rows s)) (\<lambda>_. io_return (a s)) s)"
  by (rule staysI) (auto simp: put_policies_def io_bind_def io_return_def policy_effect_def policy_frame_def)

lemma insertRevision_stays: "stays policy_effect (insertRevision row operator reason)"
  unfolding insertRevision_def Let_def
  by (intro policies.stays_intros staysI) (auto simp: policy_effect_def policy_frame_def)

lemma update_policy_stays: "stays policy_effect (update_policy matching enabled operator reason)"
  unfolding update_policy_def Let_def
  by (intro policies.stays_intros put_policies_stays insertRevision_stays)

lemma upsert_row_stays: "stays policy_effect (upsert_row input i version)"
  unfolding upsert_row_def Let_def
  by (rule staysI) (auto simp: put_policies_def io_bind_def io_return_def policy_effect_def policy_frame_def
      split: option.split)

lemma upsertPolicy_stays: "stays policy_effect (upsertPolicy input)"
  unfolding upsertPolicy_def Let_def
  by (intro policies.stays_intros upsert_row_stays insertRevision_stays)

lemma policy_ops_stay:
  "stays policy_effect (setPolicyEnabled network t i enabled operator reason overwrite)"
  "stays policy_effect (tripGlobalBreaker network reason recoverable)"
  "stays policy_effect (resumeGlobalBreaker network expected reason)"
  unfolding setPolicyEnabled_def tripGlobalBreaker_def resumeGlobalBreaker_def by (rule update_policy_stays)+

text \<open>Every policy is described by its latest revision, and its revisions are numbered without a gap.\<close>

definition described_by :: "PolicyRevisionRow list \<Rightarrow> SponsorshipBudgetPolicy \<Rightarrow> bool" where
  "described_by revisions p \<longleftrightarrow> policy_checks p \<and> 1 \<le> sbp_version p \<and>
     (\<exists>v\<in>set revisions. v = revision_of (pr_id v) (sbp_updatedBy p) (sbp_updateReason p) p) \<and>
     (\<forall>k\<in>{1..sbp_version p}. \<exists>v\<in>set revisions. pr_policy_id v = sbp_id p \<and> pr_version v = k)"

definition audited :: "budget_session \<Rightarrow> bool" where
  "audited s \<longleftrightarrow> distinct (map sbp_id (bs_policies s)) \<and> distinct (map policy_scope_key (bs_policies s)) \<and>
     (\<forall>p\<in>set (bs_policies s). described_by (bs_revisions s) p) \<and>
     (\<forall>v\<in>set (bs_revisions s). \<exists>p\<in>set (bs_policies s). pr_policy_id v = sbp_id p \<and> pr_version v \<le> sbp_version p)"

lemma described_by_append: "described_by revisions p \<Longrightarrow> described_by (revisions @ vs) p"
  unfolding described_by_def by (auto 0 4)

lemma audited_same: "audited s \<Longrightarrow> bs_policies s' = bs_policies s \<Longrightarrow> bs_revisions s' = bs_revisions s \<Longrightarrow> audited s'"
  by (simp add: audited_def)

lemma revision_of_simps [simp]:
  "pr_id (revision_of i a b p) = i" "pr_policy_id (revision_of i a b p) = sbp_id p"
  "pr_version (revision_of i a b p) = sbp_version p"
  by (simp_all add: revision_of_def)

lemma auditedD:
  assumes "audited s" "p \<in> set (bs_policies s)"
  shows "described_by (bs_revisions s) p" "q \<in> set (bs_policies s) \<Longrightarrow> sbp_id q = sbp_id p \<Longrightarrow> q = p"
  using assms by (auto simp: audited_def distinct_map inj_on_def)

lemma described_by_next:
  assumes "described_by revisions p" "sbp_id p' = sbp_id p" "sbp_version p' = sbp_version p + 1" "policy_checks p'"
    and "v = revision_of i (sbp_updatedBy p') (sbp_updateReason p') p'"
  shows "described_by (revisions @ [v]) p'"
proof -
  have "\<exists>w\<in>set (revisions @ [v]). pr_policy_id w = sbp_id p' \<and> pr_version w = k"
    if "k \<in> {1..sbp_version p'}" for k
  proof (cases "k = sbp_version p'")
    case False
    then have "k \<in> {1..sbp_version p}" using that assms(3) by auto
    then show ?thesis using assms(1,2) by (auto simp: described_by_def)
  qed (simp add: assms(5))
  then show ?thesis using assms by (auto simp: described_by_def)
qed

lemma audited_revision:
  assumes "audited s" "w \<in> set (bs_revisions s)"
  obtains q where "q \<in> set (bs_policies s)" "pr_policy_id w = sbp_id q" "pr_version w \<le> sbp_version q"
  using assms unfolding audited_def by blast

lemma audited_row_changed:
  assumes au: "audited s" and p: "p \<in> set (bs_policies s)" and p': "sbp_id p' = sbp_id p"
      "policy_scope_key p' = policy_scope_key p" "sbp_version p' = sbp_version p + 1" "policy_checks p'"
    and v: "v = revision_of i (sbp_updatedBy p') (sbp_updateReason p') p'"
    and rows: "bs_policies s' = map (\<lambda>q. if sbp_id q = sbp_id p then p' else q) (bs_policies s)"
    and revisions: "bs_revisions s' = bs_revisions s @ [v]"
  shows "audited s'"
proof -
  note id_eq = auditedD(2)[OF au p]
  have keys: "map sbp_id (bs_policies s') = map sbp_id (bs_policies s)"
    "map policy_scope_key (bs_policies s') = map policy_scope_key (bs_policies s)"
    using p' id_eq by (auto simp: rows)
  have in_s': "q \<in> set (bs_policies s') \<longleftrightarrow> q = p' \<or> q \<in> set (bs_policies s) \<and> sbp_id q \<noteq> sbp_id p" for q
    using p by (auto simp: rows image_iff)
  have "\<exists>q\<in>set (bs_policies s'). pr_policy_id w = sbp_id q \<and> pr_version w \<le> sbp_version q"
    if w: "w \<in> set (bs_revisions s')" for w
  proof (cases "w = v")
    case True
    then show ?thesis using in_s' v by auto
  next
    case False
    then have "w \<in> set (bs_revisions s)" using w by (simp add: revisions)
    then obtain q where q: "q \<in> set (bs_policies s)" "pr_policy_id w = sbp_id q" "pr_version w \<le> sbp_version q"
      by (rule audited_revision[OF au])
    show ?thesis
    proof (cases "sbp_id q = sbp_id p")
      case True
      then show ?thesis using q id_eq[of q] p' in_s' by (intro bexI[of _ p']) auto
    next
      case False
      then show ?thesis using q in_s' by blast
    qed
  qed
  moreover have "described_by (bs_revisions s') q" if "q \<in> set (bs_policies s')" for q
    using that described_by_next[OF auditedD(1)[OF au p] p'(1,3,4) v] auditedD(1)[OF au, of q]
    by (auto simp: in_s' revisions described_by_append)
  ultimately show ?thesis using au keys unfolding audited_def by simp
qed

lemma audited_row_added:
  assumes au: "audited s" and new: "distinct (map sbp_id (bs_policies s @ [p]))"
      "distinct (map policy_scope_key (bs_policies s @ [p]))" "sbp_version p = 1" "policy_checks p"
    and v: "v = revision_of i (sbp_updatedBy p) (sbp_updateReason p) p"
    and rows: "bs_policies s' = bs_policies s @ [p]" and revisions: "bs_revisions s' = bs_revisions s @ [v]"
  shows "audited s'"
proof -
  have "described_by (bs_revisions s @ [v]) p" using new by (auto simp: described_by_def v)
  then show ?thesis using au new by (auto simp: audited_def rows revisions v described_by_append)
qed

lemma wp_put_policies:
  assumes "\<And>e. Q (Inl e) s"
    and "distinct (map sbp_id rows) \<Longrightarrow> distinct (map policy_scope_key rows) \<Longrightarrow> list_all policy_checks rows \<Longrightarrow>
      Q (Inr ()) (s\<lparr>bs_policies := rows\<rparr>)"
  shows "wp (put_policies rows) Q s"
  using assms by (simp add: wp_def put_policies_def)

lemma wp_insertRevision:
  assumes "\<And>e s'. only_session s s' \<Longrightarrow> Q (Inl e) s'"
    and "\<And>i s'. bs_policies s' = bs_policies s \<Longrightarrow>
      (sbp_id row, sbp_version row) \<notin> (\<lambda>v. (pr_policy_id v, pr_version v)) ` set (bs_revisions s) \<Longrightarrow>
      bs_revisions s' = bs_revisions s @ [revision_of i operator reason row] \<Longrightarrow> Q (Inr ()) s'"
  shows "wp (insertRevision row operator reason) Q s"
proof -
  have only: "only_session s (s\<lparr>sess_uuid_next := n, sess_faults := fs\<rparr>)" for n fs
    using only_session_trans[OF only_session_uuid only_session_faults] .
  show ?thesis
    unfolding insertRevision_def Let_def
    by (intro wp_intros)
      (auto simp: wp_def split: if_splits intro!: assms only)
qed

lemma audited_unique_scope:
  assumes "audited s" "p \<in> set (bs_policies s)" "q \<in> set (bs_policies s)" "policy_scope_key p = policy_scope_key q"
  shows "p = q"
  using assms by (auto simp: audited_def distinct_map inj_on_def)

lemma switched_simps [simp]:
  "sbp_id (switched e a b t p) = sbp_id p" "policy_scope_key (switched e a b t p) = policy_scope_key p"
  "sbp_version (switched e a b t p) = sbp_version p + 1" "sbp_updatedBy (switched e a b t p) = a"
  "sbp_updateReason (switched e a b t p) = b" "sbp_enabled (switched e a b t p) = e"
  "is_scope n sc i (switched e a b t p) = is_scope n sc i p"
  by (simp_all add: switched_def policy_scope_key_def is_scope_def)

text \<open>What a switch does: nothing, or the one matching row is switched and its revision recorded.\<close>

lemma wp_update_policy:
  assumes unique: "\<And>p q. p \<in> set (bs_policies s) \<Longrightarrow> q \<in> set (bs_policies s) \<Longrightarrow> matching p \<Longrightarrow> matching q \<Longrightarrow>
      policy_scope_key p = policy_scope_key q"
    and au: "audited s"
    and same: "\<And>e s'. bs_policies s' = bs_policies s \<Longrightarrow> bs_revisions s' = bs_revisions s \<Longrightarrow> Q (Inl e) s'"
    and none: "\<And>s'. bs_policies s' = bs_policies s \<Longrightarrow> bs_revisions s' = bs_revisions s \<Longrightarrow>
      \<forall>p\<in>set (bs_policies s). \<not> matching p \<Longrightarrow> Q (Inr None) s'"
    and change: "\<And>p t i s'. p \<in> set (bs_policies s) \<Longrightarrow> matching p \<Longrightarrow>
      policy_checks (switched enabled operator reason t p) \<Longrightarrow>
      bs_policies s' = map (\<lambda>q. if sbp_id q = sbp_id p then switched enabled operator reason t p else q) (bs_policies s) \<Longrightarrow>
      bs_revisions s' = bs_revisions s @ [revision_of i operator reason (switched enabled operator reason t p)] \<Longrightarrow>
      Q (Inr (Some (switched enabled operator reason t p))) s'"
  shows "wp (update_policy matching enabled operator reason) Q s"
proof -
  let ?sw = "\<lambda>t. switched enabled operator reason t"
  have id_eq: "matching q \<longleftrightarrow> sbp_id q = sbp_id p" if "p \<in> set (bs_policies s)" "matching p" "q \<in> set (bs_policies s)" for p q
    using that unique audited_unique_scope[OF au] auditedD(2)[OF au] by metis
  have table: "table_update matching f (bs_policies s) = map (\<lambda>q. if sbp_id q = sbp_id p then f p else q) (bs_policies s)"
    if "p \<in> set (bs_policies s)" "matching p" for p f
    unfolding table_update_def using id_eq[OF that] auditedD(2)[OF au that(1)] by (intro map_cong) auto
  have no_table: "table_update matching f (bs_policies s) = bs_policies s" if "\<forall>p\<in>set (bs_policies s). \<not> matching p" for f
    unfolding table_update_def using that by (intro map_idI) auto
  let ?body = "\<lambda>s. io_bind (put_policies (table_update matching (?sw (sess_clock s)) (bs_policies s)))
      (\<lambda>_. io_return (map_option (?sw (sess_clock s)) (find matching (bs_policies s)))) s"
  have body: "wp ?body P u = wp (io_bind (put_policies (table_update matching (?sw (sess_clock u)) (bs_policies u)))
      (\<lambda>_. io_return (map_option (?sw (sess_clock u)) (find matching (bs_policies u))))) P u" for P u
    by (simp add: wp_def)
  have "wp (transaction (io_bind (sql ?body) (\<lambda>row. case row of None \<Rightarrow> io_return None
      | Some p \<Rightarrow> io_bind (insertRevision p operator reason) (\<lambda>_. io_return (Some p))))) Q s"
  proof (rule wp_transaction)
    show "Q (Inl e) (rollback s s1)" for e s1 by (rule same) (auto simp: rollback_def)
    let ?Q = "\<lambda>r s1. case r of Inl e \<Rightarrow> True | Inr a \<Rightarrow> \<forall>fs. Q (Inr a) (s1\<lparr>sess_faults := fs\<rparr>)"
    show "wp (io_bind (sql ?body) (\<lambda>row. case row of None \<Rightarrow> io_return None
        | Some p \<Rightarrow> io_bind (insertRevision p operator reason) (\<lambda>_. io_return (Some p)))) ?Q s"
    proof (intro wp_bind wp_sql, goal_cases)
      case (1 fs)
      show ?case
      proof (cases "find matching (bs_policies s)")
        case None
        then have nm: "\<forall>p\<in>set (bs_policies s). \<not> matching p" by (auto simp: find_None_iff)
        then show ?thesis using None none
          by (auto simp: wp_def io_bind_def put_policies_def no_table io_return_def)
      next
        case (Some p)
        then have p: "p \<in> set (bs_policies s)" "matching p" by (auto dest: find_Some_in)
        have "p' \<in> set (map (\<lambda>q. if sbp_id q = sbp_id p then p' else q) (bs_policies s))" for p'
          using p(1) by (auto simp: image_iff)
        then have checks: "policy_checks (?sw t p)"
          if "list_all policy_checks (map (\<lambda>q. if sbp_id q = sbp_id p then ?sw t p else q) (bs_policies s))" for t
          using that by (simp only: list_all_iff)
        show ?thesis
          unfolding body by (intro wp_bind wp_put_policies)
            (auto simp: Some table[OF p] intro!: wp_intros wp_insertRevision change[OF p checks])
      qed
    qed simp
  qed
  then show ?thesis unfolding update_policy_def .
qed

lemma update_policy_audited:
  assumes "audited s" "\<And>p q. matching p \<Longrightarrow> matching q \<Longrightarrow> policy_scope_key p = policy_scope_key q"
  shows "audited (snd (update_policy matching enabled operator reason s))"
proof -
  have "wp (update_policy matching enabled operator reason) (\<lambda>_ s'. audited s') s"
  proof (rule wp_update_policy[OF _ assms(1)], goal_cases)
    case (4 p t i s')
    then show ?case by (intro audited_row_changed[OF assms(1) 4(1) _ _ _ 4(3) refl]) simp_all
  next
    case (1 p q)
    show ?case by (rule assms(2)[OF 1(3,4)])
  qed (rule audited_same[OF assms(1)]; assumption)+
  then show ?thesis by (simp add: wp_def)
qed

lemma is_scope_key: "is_scope n t i p \<Longrightarrow> is_scope n t i q \<Longrightarrow> policy_scope_key p = policy_scope_key q"
  by (simp add: is_scope_def policy_scope_key_def)

lemma switches_audited:
  assumes "audited s"
  shows "audited (snd (setPolicyEnabled network t i enabled operator reason overwrite s))"
    "audited (snd (tripGlobalBreaker network why recoverable s))"
    "audited (snd (resumeGlobalBreaker network expected why s))"
  unfolding setPolicyEnabled_def tripGlobalBreaker_def resumeGlobalBreaker_def
  by (rule update_policy_audited[OF assms]; auto intro: is_scope_key)+

lemma upserted_simps [simp]:
  "sbp_id (upserted input v t p) = sbp_id p" "policy_scope_key (upserted input v t p) = policy_scope_key p"
  "sbp_version (upserted input v t p) = v" "sbp_updatedBy (upserted input v t p) = up_operator input"
  "sbp_updateReason (upserted input v t p) = up_reason input"
  by (simp_all add: upserted_def policy_scope_key_def)

lemma inserted_simps [simp]:
  "sbp_version (inserted input i v t) = v" "sbp_updatedBy (inserted input i v t) = up_operator input"
  "sbp_updateReason (inserted input i v t) = up_reason input" "sbp_id (inserted input i v t) = i"
  by (simp_all add: inserted_def)

lemma wp_upsert_row:
  assumes "\<And>e. Q (Inl e) s"
    and "\<And>p t. find (\<lambda>p. sbp_id p = i) (bs_policies s) = Some p \<Longrightarrow>
      list_all policy_checks (table_update (\<lambda>q. sbp_id q = i) (upserted input version t) (bs_policies s)) \<Longrightarrow>
      Q (Inr (upserted input version t p))
        (s\<lparr>bs_policies := table_update (\<lambda>q. sbp_id q = i) (upserted input version t) (bs_policies s)\<rparr>)"
    and "\<And>t. distinct (map sbp_id (bs_policies s @ [inserted input i version t])) \<Longrightarrow>
      distinct (map policy_scope_key (bs_policies s @ [inserted input i version t])) \<Longrightarrow>
      policy_checks (inserted input i version t) \<Longrightarrow>
      Q (Inr (inserted input i version t)) (s\<lparr>bs_policies := bs_policies s @ [inserted input i version t]\<rparr>)"
  shows "wp (upsert_row input i version) Q s"
proof (cases "find (\<lambda>p. sbp_id p = i) (bs_policies s)")
  case None
  then have "wp (upsert_row input i version) Q s \<longleftrightarrow>
      wp (io_bind (put_policies (bs_policies s @ [inserted input i version (sess_clock s)]))
        (\<lambda>_. io_return (inserted input i version (sess_clock s)))) Q s"
    by (simp add: upsert_row_def wp_def)
  then show ?thesis
    using assms(1,3) by (auto intro!: wp_bind wp_put_policies wp_return)
next
  case (Some p)
  then have "wp (upsert_row input i version) Q s \<longleftrightarrow>
      wp (io_bind (put_policies (table_update (\<lambda>q. sbp_id q = i) (upserted input version (sess_clock s)) (bs_policies s)))
        (\<lambda>_. io_return (upserted input version (sess_clock s) p))) Q s"
    by (simp add: upsert_row_def wp_def)
  then show ?thesis
    using assms(1,2) Some by (auto intro!: wp_bind wp_put_policies wp_return)
qed

lemma table_update_id:
  assumes "audited s" "p \<in> set (bs_policies s)"
  shows "table_update (\<lambda>q. sbp_id q = sbp_id p) f (bs_policies s) =
    map (\<lambda>q. if sbp_id q = sbp_id p then f p else q) (bs_policies s)"
  unfolding table_update_def using auditedD(2)[OF assms] by (intro map_cong) auto

lemma checks_in_table:
  assumes "list_all policy_checks (map (\<lambda>q. if sbp_id q = sbp_id p then p' else q) rows)" "p \<in> set rows"
  shows "policy_checks p'"
proof -
  have "p' \<in> set (map (\<lambda>q. if sbp_id q = sbp_id p then p' else q) rows)" using assms(2) by (auto simp: image_iff)
  then show ?thesis using assms(1) by (simp only: list_all_iff)
qed

text \<open>The row and the revision of an upsert, after the lookup of the existing policy.\<close>

lemma upsert_tail_audited:
  assumes au: "audited s"
    and version: "\<And>p. p \<in> set (bs_policies s) \<Longrightarrow> sbp_id p = i \<Longrightarrow> version = sbp_version p + 1 \<or> version = 1"
      "version \<noteq> 1 \<Longrightarrow> i \<in> sbp_id ` set (bs_policies s)"
  shows "wp (io_bind (sql (upsert_row input i version)) (\<lambda>row.
      io_bind (insertRevision row (up_operator input) (up_reason input)) (\<lambda>_. io_return row)))
    (\<lambda>r s'. case r of Inl e \<Rightarrow> True | Inr _ \<Rightarrow> \<forall>fs. audited (s'\<lparr>sess_faults := fs\<rparr>)) s"
proof (intro wp_bind wp_sql wp_upsert_row, goal_cases)
  case (2 fs p t)
  then have p: "p \<in> set (bs_policies s)" "i = sbp_id p" by (auto dest: find_Some_in)
  have checks: "policy_checks (upserted input version t p)"
    using 2 p by (intro checks_in_table[OF _ p(1)]) (simp add: table_update_id[OF au p(1)])
  have taken: "(sbp_id p, 1) \<in> (\<lambda>v. (pr_policy_id v, pr_version v)) ` set (bs_revisions s)"
    using auditedD(1)[OF au p(1)] by (force simp: described_by_def)
  have "version = sbp_version p + 1" if "(sbp_id p, version) \<notin> (\<lambda>v. (pr_policy_id v, pr_version v)) ` set (bs_revisions s)"
    using version(1)[OF p(1)] p(2) taken that by auto
  then show ?case
    by (auto intro!: wp_intros wp_insertRevision
        audited_row_changed[OF au p(1) _ _ _ checks refl] simp: p(2) table_update_id[OF au p(1)])
next
  case (3 fs t)
  then have "version = 1" using version(2) by auto
  then show ?case using 3
    by (auto intro!: wp_intros wp_insertRevision audited_row_added[OF au _ _ _ _ refl])
qed auto

lemma upsertPolicy_audited:
  assumes au: "audited s"
  shows "audited (snd (upsertPolicy input s))"
proof -
  have same: "audited (s\<lparr>sess_faults := fs\<rparr>)" "audited (s\<lparr>sess_faults := fs, sess_uuid_next := n\<rparr>)" for fs n
    using au by (auto intro: audited_same)
  have "wp (upsertPolicy input) (\<lambda>_ s'. audited s') s"
    unfolding upsertPolicy_def Let_def
  proof (intro wp_transaction wp_bind wp_sql wp_get, goal_cases)
    case (1 fs)
    show ?case
    proof (cases "find (is_scope (up_network input) (up_scopeType input) (up_scopeId input)) (bs_policies s)")
      case None
      then show ?thesis
        by (auto simp: io_bind_assoc intro!: wp_bind[of randomUUID] wp_uuid wp_return upsert_tail_audited same)
    next
      case (Some p)
      then have p: "p \<in> set (bs_policies s)" by (auto dest: find_Some_in)
      have eq: "sbp_version p = sbp_version q" if "q \<in> set (bs_policies s)" "sbp_id q = sbp_id p" for q
        using auditedD(2)[OF au p that] by simp
      show ?thesis using Some p
        by (auto intro!: wp_return upsert_tail_audited same dest: eq)
    qed
  qed (use au in \<open>auto simp: rollback_def intro: audited_same\<close>)
  then show ?thesis by (simp add: wp_def)
qed

section \<open>Every run of the repository\<close>

text \<open>The writes of all requests, jobs and operators in any order, each with its own faults and clock.\<close>

inductive repository_step :: "budget_session \<Rightarrow> budget_session \<Rightarrow> bool" where
  "repository_step s (snd (createReservation input s))"
| "repository_step s (snd (reopenReleasedReservation input n s))"
| "repository_step s (snd (markSigned i n tx sg s))"
| "repository_step s (snd (markSubmitted i n sg s))"
| "repository_step s (snd (markChargedUnknown i n reason s))"
| "repository_step s (snd (markReleased i n reason s))"
| "repository_step s (snd (settleReservation i n status actual why s))"
| "repository_step s (snd (recordReconciliationMiss i n k s))"
| "repository_step s (snd (markRedisSettled i n s))"
| "repository_step s (snd (upsertPolicy change s))"
| "repository_step s (snd (setPolicyEnabled network t scopeId enabled operator reason overwrite s))"
| "repository_step s (snd (tripGlobalBreaker network reason recoverable s))"
| "repository_step s (snd (resumeGlobalBreaker network expected reason s))"
| "repository_step s (snd (recordProviderConfigFailure network s))"
| "repository_step s (snd (resetProviderConfigFailures network s))"
| "repository_step s (s\<lparr>sess_clock := clock, sess_faults := faults\<rparr>)"

definition config_effect :: "budget_session \<Rightarrow> budget_session \<Rightarrow> bool" where
  "config_effect s s' \<longleftrightarrow> policy_frame s' = policy_frame s \<and>
     bs_policies s' = bs_policies s \<and> bs_revisions s' = bs_revisions s"

interpretation config: effect_relation config_effect
proof
  fix s s' s'' :: budget_session
  show "only_session s s' \<Longrightarrow> config_effect s s'"
    by (drule only_session_same) (simp add: same_state_def config_effect_def policy_frame_def reservation_frame_def)
  show "config_effect s s' \<Longrightarrow> config_effect s' s'' \<Longrightarrow> config_effect s s''"
    by (auto simp: config_effect_def)
qed

lemma config_ops_stay:
  "stays config_effect (recordProviderConfigFailure network)" "stays config_effect (resetProviderConfigFailures network)"
  unfolding recordProviderConfigFailure_def resetProviderConfigFailures_def Let_def io_modify_def
  by (intro config.stays_sql staysI;
      auto simp: config_effect_def policy_frame_def split: option.split)+

definition kept :: "budget_session \<Rightarrow> budget_session \<Rightarrow> bool" where
  "kept s s' \<longleftrightarrow> ledger_rel (bs_reservations s) (bs_reservations s') \<and> (audited s \<longrightarrow> audited s') \<and>
     (reservations_wf (bs_reservations s) \<longrightarrow> reservations_wf (bs_reservations s')) \<and>
     prefix (bs_revisions s) (bs_revisions s')"

lemma keptI:
  "reservation_effect s s' \<Longrightarrow> kept s s'" "config_effect s s' \<Longrightarrow> kept s s'"
  "policy_effect s s' \<Longrightarrow> (audited s \<Longrightarrow> audited s') \<Longrightarrow> kept s s'"
  using audited_same[of s s']
  by (auto simp: kept_def reservation_effect_def reservation_frame_def config_effect_def policy_effect_def
      policy_frame_def)

lemma repository_step_kept: "repository_step s s' \<Longrightarrow> kept s s'"
proof (induction rule: repository_step.induct)
  case (16 s faults clock)
  then show ?case using audited_same[of s "s\<lparr>sess_clock := clock, sess_faults := faults\<rparr>"] by (simp add: kept_def)
qed (rule keptI(1) keptI(2) keptI(3), rule staysD, (rule reservation_ops_stay createReservation_stays
  reopenReleasedReservation_stays config_ops_stay upsertPolicy_stays policy_ops_stay);
  (rule switches_audited upsertPolicy_audited; assumption)?)+

lemma repository_run_kept: "repository_step\<^sup>*\<^sup>* s s' \<Longrightarrow> kept s s'"
proof (induction rule: rtranclp_induct)
  case base
  show ?case by (simp add: kept_def)
next
  case (step y z)
  then show ?case using repository_step_kept[of y z] by (auto simp: kept_def intro: ledger_rel_trans)
qed

text \<open>What a row can become within one attempt and over its attempts.\<close>

definition row_ok :: "ReservationRow \<Rightarrow> bool" where
  "row_ok r \<longleftrightarrow> (rv_actualLamports r \<noteq> None \<longleftrightarrow> rv_status r \<in> {Committed, Released}) \<and>
     (rv_redisSettledAt r \<noteq> None \<longrightarrow> rv_status r \<in> {Committed, Released})"

definition same_outcome :: "ReservationRow \<Rightarrow> ReservationRow \<Rightarrow> bool" where
  "same_outcome r r' \<longleftrightarrow> rv_attempt r' = rv_attempt r \<and> rv_status r' = rv_status r \<and>
     rv_reservedLamports r' = rv_reservedLamports r \<and> rv_actualLamports r' = rv_actualLamports r \<and>
     rv_signature r' = rv_signature r"

definition later_row :: "ReservationRow \<Rightarrow> ReservationRow \<Rightarrow> bool" where
  "later_row r r' \<longleftrightarrow> rv_attempt r \<le> rv_attempt r' \<and>
     (rv_status r \<in> {Committed, ChargedUnknown} \<longrightarrow> same_outcome r r') \<and>
     (rv_status r = Released \<and> rv_attempt r' = rv_attempt r \<longrightarrow> same_outcome r r') \<and>
     (rv_attempt r' = rv_attempt r \<longrightarrow> rv_reservedLamports r' = rv_reservedLamports r)"

lemma new_row_ok: "row_ok (new_reservation input t)"
  by (simp add: row_ok_def new_reservation_def)

lemma reservation_step_ok: "reservation_step r r' \<Longrightarrow> row_ok r \<Longrightarrow> row_ok r'"
  by (induction rule: reservation_step.induct) (auto simp: row_ok_def row_defs live_status_def)

lemma reservation_step_later: "reservation_step r r' \<Longrightarrow> later_row r r'"
  by (induction rule: reservation_step.induct)
    (auto simp: later_row_def same_outcome_def row_defs live_status_def)

lemma later_row_refl [simp]: "later_row r r"
  by (simp add: later_row_def same_outcome_def)

lemma later_row_trans: "later_row r r' \<Longrightarrow> later_row r' r'' \<Longrightarrow> later_row r r''"
  by (auto simp: later_row_def same_outcome_def)

lemma row_history_later:
  "row_history\<^sup>*\<^sup>* v w \<Longrightarrow> v = Some r \<Longrightarrow> \<exists>r'. w = Some r' \<and> later_row r r'"
proof (induction rule: rtranclp_induct)
  case base
  then show ?case by simp
next
  case (step x y)
  then obtain r1 where "x = Some r1" "later_row r r1" by blast
  with step.hyps(2) show ?case
    by (cases rule: row_history.cases) (auto intro: later_row_trans reservation_step_later)
qed

lemma row_history_ok: "row_history\<^sup>*\<^sup>* v w \<Longrightarrow> pred_option row_ok v \<Longrightarrow> pred_option row_ok w"
proof (induction rule: rtranclp_induct)
  case (step x y)
  from step.hyps(2) show ?case
    by (cases rule: row_history.cases) (use step new_row_ok reservation_step_ok in auto)
qed simp

lemma ledger_run_rows:
  assumes "repository_step\<^sup>*\<^sup>* s s'" "bs_reservations s = []" "row_of (bs_reservations s') i = Some r"
  shows "row_ok r"
  using repository_run_kept[OF assms(1)] row_history_ok[of None "Some r"] assms(2,3)
  by (auto simp: kept_def ledger_rel_def row_of_def dest: spec[of _ i])

text \<open>The outcome of a sponsorship is final. Over any run of writes to the ledger by any number of
  requests and jobs, an attempt's reserved amount never changes; a committed or ambiguous
  reservation keeps its attempt, status, amounts and signature forever; a released one keeps them
  until it is reopened as a later attempt; and the attempt number never goes down.\<close>

theorem reservation_outcomes_final:
  assumes "repository_step\<^sup>*\<^sup>* s s'" "row_of (bs_reservations s) i = Some r"
  shows "\<exists>r'. row_of (bs_reservations s') i = Some r' \<and> rv_attempt r \<le> rv_attempt r' \<and>
    (rv_status r \<in> {Committed, ChargedUnknown} \<longrightarrow> same_outcome r r') \<and>
    (rv_status r = Released \<and> rv_attempt r' = rv_attempt r \<longrightarrow> same_outcome r r') \<and>
    (rv_attempt r' = rv_attempt r \<longrightarrow> rv_reservedLamports r' = rv_reservedLamports r)"
  using repository_run_kept[OF assms(1)] row_history_later[of "Some r" "row_of (bs_reservations s') i" r] assms(2)
  by (auto simp: kept_def ledger_rel_def later_row_def dest: spec[of _ i])

text \<open>The policies are fully audited: over any run, every budget policy equals its latest revision,
  operator and reason included, its revisions are numbered from one to its version without a gap,
  and the log of revisions only grows.\<close>

theorem policies_audited:
  assumes "repository_step\<^sup>*\<^sup>* s s'" "audited s"
  shows "audited s' \<and> prefix (bs_revisions s) (bs_revisions s')"
  using repository_run_kept[OF assms(1)] assms(2) by (simp add: kept_def)

section \<open>A window is rebuilt from enough usage\<close>

lemma live_sum_le_charges:
  assumes "\<And>r. r \<in> set rows \<Longrightarrow> row_ok r \<and> reservation_checks r"
    and "\<And>r. r \<in> set rows \<Longrightarrow> A r \<Longrightarrow> f \<in> set (live_fields (live_row r)) \<Longrightarrow> B r"
  shows "live_sum (map live_row (filter A (filter (\<lambda>r. W r \<and> live_status (rv_status r)) rows))) f \<le>
    charge_sum B (filter (\<lambda>r. W r \<and> rv_status r \<noteq> Released) rows)"
  using assms
proof (induction rows)
  case Nil
  show ?case by (simp add: live_sum_def charge_sum_def)
next
  case (Cons r rows)
  let ?live = "\<lambda>rows. live_sum (map live_row (filter A (filter (\<lambda>r. W r \<and> live_status (rv_status r)) rows))) f"
  let ?charge = "\<lambda>rows. charge_sum B (filter (\<lambda>r. W r \<and> rv_status r \<noteq> Released) rows)"
  have IH: "?live rows \<le> ?charge rows" using Cons by simp
  have r: "row_ok r" "reservation_checks r" using Cons.prems(1) by auto
  have nonneg: "0 \<le> row_charge r"
    using r by (auto simp: row_charge_def reservation_checks_def row_ok_def split: option.split)
  have charge: "row_charge r = rv_reservedLamports r" if "live_status (rv_status r)"
    using r(1) that by (auto simp: row_charge_def row_ok_def live_status_def split: option.split)
  have live: "?live (r # rows) = (if A r \<and> W r \<and> live_status (rv_status r) \<and> f \<in> set (live_fields (live_row r))
      then rv_reservedLamports r else 0) + ?live rows"
    by (simp add: live_sum_def live_row_def)
  have total: "?charge (r # rows) = (if W r \<and> rv_status r \<noteq> Released \<and> B r then row_charge r else 0) + ?charge rows"
    by (simp add: charge_sum_def)
  have "\<not> live_status Released" by (simp add: live_status_def)
  then show ?case unfolding live total using IH nonneg charge Cons.prems(2)[of r] by auto
qed

definition project_of_organization :: "window_input \<Rightarrow> ReservationRow list \<Rightarrow> bool" where
  "project_of_organization input rows \<longleftrightarrow> (\<forall>r\<in>set rows. rv_projectId r \<noteq> None \<longrightarrow>
     rv_projectId r = wi_projectId input \<longrightarrow> rv_organizationId r = wi_organizationId input)"

lemma window_seeds_cover_live:
  assumes rows: "\<And>r. r \<in> set rows \<Longrightarrow> row_ok r \<and> reservation_checks r"
    and project: "project_of_organization input rows"
    and seed: "(f, u) \<in> set (usage_seeds (scopeFields (wi_organizationId input) (wi_projectId input))
      (window_usage input A (filter (\<lambda>r. W r \<and> rv_status r \<noteq> Released) rows)))"
  shows "live_sum (map live_row (filter A (filter (\<lambda>r. W r \<and> live_status (rv_status r)) rows))) f \<le> u"
proof -
  note le = live_sum_le_charges[OF rows, of rows A f _ W]
  consider "f = FGlobal" "u = charge_sum A (filter (\<lambda>r. W r \<and> rv_status r \<noteq> Released) rows)"
    | "f = FOrganization (wi_organizationId input)"
      "u = charge_sum (\<lambda>r. A r \<and> rv_organizationId r = wi_organizationId input)
        (filter (\<lambda>r. W r \<and> rv_status r \<noteq> Released) rows)"
    | p where "f = FProject p" "wi_projectId input = Some p"
      "u = charge_sum (\<lambda>r. A r \<and> rv_organizationId r = wi_organizationId input \<and> rv_projectId r = wi_projectId input)
        (filter (\<lambda>r. W r \<and> rv_status r \<noteq> Released) rows)"
    using seed by (auto simp: usage_seeds_def scopeFields_def window_usage_def split: option.splits if_splits)
  then show ?thesis
  proof cases
    case 1
    show ?thesis unfolding 1(2) by (rule le) auto
  next
    case 2
    show ?thesis unfolding 2(2)
      by (rule le) (use 2(1) in \<open>auto simp: live_fields_def scopeFields_def live_row_def split: option.splits if_splits\<close>)
  next
    case (3 p)
    have "rv_organizationId r = wi_organizationId input \<and> rv_projectId r = wi_projectId input"
      if "r \<in> set rows" "f \<in> set (live_fields (live_row r))" for r
      using that project 3(1,2)
      by (auto simp: project_of_organization_def live_fields_def scopeFields_def live_row_def split: option.splits if_splits)
    then show ?thesis unfolding 3(3) by (intro le) auto
  qed
qed

text \<open>C31. The snapshot a Redis window is rebuilt from is sufficient: whatever the ledger has been through,
  for the hour and for the day, the usage that seeds the counter of each scope of the request covers
  the reserved amounts of all live reservations on that scope. This is what initialization of a
  window assumes of its seeds.\<close>

theorem snapshot_covers_live:
  assumes "repository_step\<^sup>*\<^sup>* s0 s" "bs_reservations s0 = []"
    and "project_of_organization input (bs_reservations s)"
    and "loadWindowAdmissionSnapshot input excluded s = (Inr snap, s')"
  shows "(\<forall>(f, u)\<in>set (usage_seeds (scopeFields (wi_organizationId input) (wi_projectId input)) (snap_hourUsage snap)).
      live_sum (snap_liveHour snap) f \<le> u) \<and>
    (\<forall>(f, u)\<in>set (usage_seeds (scopeFields (wi_organizationId input) (wi_projectId input)) (snap_dayUsage snap)).
      live_sum (snap_liveDay snap) f \<le> u)"
proof -
  have wf: "reservations_wf (bs_reservations s)"
    using repository_run_kept[OF assms(1)] assms(2) by (simp add: kept_def reservations_wf_def signatures_def)
  have rows: "row_ok r \<and> reservation_checks r" if "r \<in> set (bs_reservations s)" for r
    using ledger_run_rows[OF assms(1,2), of "rv_id r" r] that wf find_key_unique[of rv_id "bs_reservations s" r]
    by (auto simp: row_of_def reservations_wf_def list_all_iff)
  have "wp (loadWindowAdmissionSnapshot input excluded) (\<lambda>r s'. \<forall>snap. r = Inr snap \<longrightarrow>
      (snap_hourUsage snap, snap_dayUsage snap) = usage_of_rows input excluded (bs_reservations s) \<and>
      (snap_liveHour snap, snap_liveDay snap) = live_of_rows input excluded (bs_reservations s)) s"
    unfolding loadWindowAdmissionSnapshot_def getWindowUsage_def listLiveWindowReservations_def
    by (intro wp_transaction wp_bind wp_sql) (auto simp: case_prod_unfold intro!: wp_intros)
  then have snap: "(snap_hourUsage snap, snap_dayUsage snap) = usage_of_rows input excluded (bs_reservations s)"
    "(snap_liveHour snap, snap_liveDay snap) = live_of_rows input excluded (bs_reservations s)"
    using assms(4) by (auto simp: wp_def)
  show ?thesis
    using snap window_seeds_cover_live[OF rows assms(3)]
    by (auto simp: usage_of_rows_def live_of_rows_def Let_def)
qed

section \<open>The circuit breaker\<close>

text \<open>Everything the program does by itself: it trips the breaker of a network for a reason that needs a
  person, or recoverably for \<open>tripReason\<close>, it resumes a trip for \<open>tripReason\<close>, and it writes
  reservations and counts failures.\<close>

inductive automatic_step :: "string \<Rightarrow> budget_session \<Rightarrow> budget_session \<Rightarrow> bool" for tripReason :: string where
  trip: "reason \<noteq> tripReason \<Longrightarrow> automatic_step tripReason s (snd (tripGlobalBreaker network reason False s))"
| trip_recoverable: "automatic_step tripReason s (snd (tripGlobalBreaker network tripReason True s))"
| resume: "automatic_step tripReason s (snd (resumeGlobalBreaker network tripReason why s))"
| reservations: "reservation_effect s s' \<Longrightarrow> automatic_step tripReason s s'"
| failures: "config_effect s s' \<Longrightarrow> automatic_step tripReason s s'"
| environment: "automatic_step tripReason s (s\<lparr>sess_clock := clock, sess_faults := faults\<rparr>)"

definition held_down :: "SponsorshipNetwork \<Rightarrow> string \<Rightarrow> SponsorshipBudgetPolicy \<Rightarrow> bool" where
  "held_down network tripReason p \<longleftrightarrow> is_scope network ScopeTypeGlobal None p \<and> \<not> sbp_enabled p \<and>
     \<not> (sbp_updatedBy p = SPONSORSHIP_BREAKER_OPERATOR \<and> sbp_updateReason p = tripReason)"

lemma update_policy_held_down:
  assumes au: "audited s" and p: "p \<in> set (bs_policies s)" "held_down network tripReason p"
    and unique: "\<And>p q. matching p \<Longrightarrow> matching q \<Longrightarrow> policy_scope_key p = policy_scope_key q"
    and safe: "matching p \<Longrightarrow> \<not> enabled \<and> \<not> (operator = SPONSORSHIP_BREAKER_OPERATOR \<and> reason = tripReason)"
  shows "\<exists>p'\<in>set (bs_policies (snd (update_policy matching enabled operator reason s))). held_down network tripReason p'"
proof -
  have "wp (update_policy matching enabled operator reason)
      (\<lambda>_ s'. \<exists>p'\<in>set (bs_policies s'). held_down network tripReason p') s"
  proof (rule wp_update_policy[OF _ au], goal_cases)
    case (4 q t i s')
    show ?case
    proof (cases "sbp_id p = sbp_id q")
      case True
      then have "q = p" using auditedD(2)[OF au p(1) 4(1)] by simp
      then have "held_down network tripReason (switched enabled operator reason t q)"
        using p(2) safe 4(2) by (auto simp: held_down_def)
      then show ?thesis using 4(1,4)
        by (intro bexI[of _ "switched enabled operator reason t q"]) (auto simp: image_iff)
    next
      case False
      then show ?thesis using 4(4) p by (auto simp: image_iff intro!: bexI[of _ p])
    qed
  next
    case (1 a b)
    show ?case by (rule unique[OF 1(3,4)])
  qed (use p in auto)
  then show ?thesis by (simp add: wp_def)
qed

lemma automatic_step_held_down:
  assumes "automatic_step tripReason s s'" "audited s" "\<exists>p\<in>set (bs_policies s). held_down network tripReason p"
  shows "audited s'" "\<exists>p\<in>set (bs_policies s'). held_down network tripReason p"
proof -
  obtain p where p: "p \<in> set (bs_policies s)" "held_down network tripReason p" using assms(3) by blast
  have same: "audited u \<and> (\<exists>p\<in>set (bs_policies u). held_down network tripReason p)"
    if "bs_policies u = bs_policies s" "bs_revisions u = bs_revisions s" for u
    using that audited_same[OF assms(2)] p by auto
  have "audited s' \<and> (\<exists>p\<in>set (bs_policies s'). held_down network tripReason p)"
    using assms(1)
  proof cases
    case (trip reason n)
    have "\<exists>p\<in>set (bs_policies s'). held_down network tripReason p"
      unfolding trip(1) tripGlobalBreaker_def setPolicyEnabled_def
      by (rule update_policy_held_down[OF assms(2) p]) (use trip in \<open>auto intro: is_scope_key\<close>)
    then show ?thesis using trip switches_audited[OF assms(2)] by simp
  next
    case (trip_recoverable n)
    have "\<exists>p\<in>set (bs_policies s'). held_down network tripReason p"
      unfolding trip_recoverable tripGlobalBreaker_def setPolicyEnabled_def
      by (rule update_policy_held_down[OF assms(2) p]) (use p in \<open>auto intro: is_scope_key simp: held_down_def\<close>)
    then show ?thesis using trip_recoverable switches_audited[OF assms(2)] by simp
  next
    case (resume n why)
    have "\<exists>p\<in>set (bs_policies s'). held_down network tripReason p"
      unfolding resume resumeGlobalBreaker_def
      by (rule update_policy_held_down[OF assms(2) p]) (use p in \<open>auto intro: is_scope_key simp: held_down_def\<close>)
    then show ?thesis using resume switches_audited[OF assms(2)] by simp
  qed (rule same; auto simp: reservation_effect_def reservation_frame_def config_effect_def)+
  then show "audited s'" "\<exists>p\<in>set (bs_policies s'). held_down network tripReason p" by blast+
qed

text \<open>An operator's stop holds: when the global policy of a network is disabled for any reason other
  than the recoverable trip, no sequence of automatic trips, recoveries and accounting enables it
  again or makes the stop recoverable.\<close>

theorem operator_stop_survives_recovery:
  assumes "(automatic_step tripReason)\<^sup>*\<^sup>* s s'" "audited s"
    and "p \<in> set (bs_policies s)" "held_down network tripReason p"
  shows "\<exists>p'\<in>set (bs_policies s'). held_down network tripReason p'"
proof -
  have "audited s' \<and> (\<exists>p'\<in>set (bs_policies s'). held_down network tripReason p')"
    using assms(1)
  proof (induction rule: rtranclp_induct)
    case base
    then show ?case using assms(2-4) by blast
  next
    case (step y z)
    then show ?case using automatic_step_held_down[OF step.hyps(2)] by blast
  qed
  then show ?thesis by blast
qed

section \<open>Examples\<close>

definition example_ledger :: budget_session where
  "example_ledger =
     \<lparr>sess_faults = [], sess_clock = 1000, sess_uuid = (\<lambda>n. replicate n (CHR ''u'')), sess_uuid_next = 1,
      bs_policies = [(example_policy ScopeTypeGlobal None)\<lparr>sbp_id := ''g''\<rparr>,
        (example_policy ScopeTypeOrganization None)\<lparr>sbp_id := ''o''\<rparr>,
        (example_policy ScopeTypeProject None)\<lparr>sbp_id := ''p''\<rparr>],
      bs_revisions = [revision_of ''r1'' ''operator'' ''launch'' ((example_policy ScopeTypeGlobal None)\<lparr>sbp_id := ''g''\<rparr>),
        revision_of ''r2'' ''operator'' ''launch'' ((example_policy ScopeTypeOrganization None)\<lparr>sbp_id := ''o''\<rparr>),
        revision_of ''r3'' ''operator'' ''launch'' ((example_policy ScopeTypeProject None)\<lparr>sbp_id := ''p''\<rparr>)],
      bs_reservations = [], bs_config_failures = Map.empty, bs_redis = empty_redis, bs_calls = []\<rparr>"

lemma example_ledger_audited: "audited example_ledger"
  by (auto simp: audited_def described_by_def example_ledger_def example_policy_def policy_scope_key_def
      policy_checks_def MAX_SAFE_INTEGER_def revision_of_def)

definition example_reservation :: CreateSponsorshipReservationInput where
  "example_reservation =
     \<lparr>csr_id = ''sbr_1'', csr_network = Devnet, csr_productEnvironment = Sandbox, csr_organizationId = ''org'',
      csr_projectId = Some ''prj'', csr_actorType = ''api_key'', csr_actorId = ''k1'',
      csr_transactionDigest = ''digest'', csr_feePayer = ''payer'', csr_providerConfigFingerprint = ''fp'',
      csr_recentBlockhash = ''bh'', csr_reservedLamports = 40, csr_hourBucket = ''h'', csr_dayBucket = ''d'',
      csr_policyVersions = [(''g'', 1), (''o'', 1), (''p'', 1)]\<rparr>"

definition example_reserved :: budget_session where
  "example_reserved = snd (createReservation example_reservation example_ledger)"

definition example_charged :: budget_session where
  "example_charged = snd (markChargedUnknown ''sbr_1'' 1 ''lost'' example_reserved)"

theorem reservation_outcomes_final_witness:
  "\<exists>r r'. row_of (bs_reservations example_charged) ''sbr_1'' = Some r \<and> rv_status r = ChargedUnknown \<and>
     row_of (bs_reservations (snd (markReleased ''sbr_1'' 1 ''late'' example_charged))) ''sbr_1'' = Some r' \<and>
     same_outcome r r'"
proof -
  obtain r where r: "row_of (bs_reservations example_charged) ''sbr_1'' = Some r" "rv_status r = ChargedUnknown"
  proof -
    have "row_of (bs_reservations example_charged) ''sbr_1'' \<noteq> None"
      "map_option rv_status (row_of (bs_reservations example_charged) ''sbr_1'') = Some ChargedUnknown" by code_simp+
    then show thesis using that by auto
  qed
  have "repository_step\<^sup>*\<^sup>* example_charged (snd (markReleased ''sbr_1'' 1 ''late'' example_charged))"
    by (rule r_into_rtranclp, rule repository_step.intros)
  from reservation_outcomes_final[OF this r(1)] show ?thesis using r by auto
qed

theorem policies_audited_witness:
  "audited (snd (tripGlobalBreaker Devnet ''overspend'' False example_ledger)) \<and>
   prefix (bs_revisions example_ledger) (bs_revisions (snd (tripGlobalBreaker Devnet ''overspend'' False example_ledger)))"
  by (rule policies_audited[OF r_into_rtranclp[of repository_step] example_ledger_audited], rule repository_step.intros)

definition example_window :: window_input where
  "example_window = \<lparr>wi_network = Devnet, wi_organizationId = ''org'', wi_projectId = Some ''prj'',
     wi_hourBucket = ''h'', wi_dayBucket = ''d''\<rparr>"

theorem snapshot_covers_live_witness:
  "\<exists>snap s'. loadWindowAdmissionSnapshot example_window None example_reserved = (Inr snap, s') \<and>
     (\<forall>(f, u)\<in>set (usage_seeds (scopeFields ''org'' (Some ''prj'')) (snap_hourUsage snap)).
        live_sum (snap_liveHour snap) f \<le> u)"
proof -
  have "repository_step\<^sup>*\<^sup>* example_ledger example_reserved"
    unfolding example_reserved_def by (rule r_into_rtranclp, rule repository_step.intros)
  moreover have "bs_reservations example_ledger = []" by (simp add: example_ledger_def)
  moreover have "project_of_organization example_window (bs_reservations example_reserved)" by code_simp
  moreover have "\<not> isl (fst (loadWindowAdmissionSnapshot example_window None example_reserved))" by code_simp
  then obtain snap s' where "loadWindowAdmissionSnapshot example_window None example_reserved = (Inr snap, s')"
    by (metis isl_def prod.collapse sum.collapse(2))
  ultimately show ?thesis
    using snapshot_covers_live[of example_ledger example_reserved example_window None snap s']
    by (auto simp: example_window_def)
qed

definition example_stopped :: budget_session where
  "example_stopped = snd (setPolicyEnabled Devnet ScopeTypeGlobal None False ''alice'' ''incident'' True example_ledger)"

theorem operator_stop_survives_recovery_witness:
  "\<exists>p'\<in>set (bs_policies (snd (resumeGlobalBreaker Devnet ''unavailable'' ''recovered'' example_stopped))).
     held_down Devnet ''unavailable'' p'"
proof -
  have run: "(automatic_step ''unavailable'')\<^sup>*\<^sup>* example_stopped
      (snd (resumeGlobalBreaker Devnet ''unavailable'' ''recovered'' example_stopped))"
    by (rule r_into_rtranclp, rule automatic_step.intros)
  have "list_ex (held_down Devnet ''unavailable'') (bs_policies example_stopped)" by code_simp
  then obtain p where "p \<in> set (bs_policies example_stopped)" "held_down Devnet ''unavailable'' p"
    by (auto simp: list_ex_iff)
  moreover have "audited example_stopped"
    unfolding example_stopped_def by (rule switches_audited[OF example_ledger_audited])
  ultimately show ?thesis using operator_stop_survives_recovery[OF run] by blast
qed

end
