(* ===== verification/Sponsorship_Budget.thy ===== *)
theory Sponsorship_Budget
  imports Sponsorship_Ledger
begin

text \<open>
  The budgeted fee payment (\<^verbatim>\<open>services/sponsorship-budget.service.ts\<close>): a request to sign or send a
  sponsored transaction is admitted against the durable ledger and the Redis budget before the
  fee-payment provider is asked, and its outcome is recorded after. The provider, the Solana codecs,
  the network fee, the digests and the collation of the host are the fields of \<open>sponsor_deps\<close>; the
  callbacks of an owned submission those of \<open>OwnedSubmissionLifecycle\<close>. Every statement and every Redis
  script can fail, as in the rest of the development; logging has no effect.
\<close>

section \<open>Inputs\<close>

record SponsorshipScope =
  ss_environment :: ProductEnvironment
  ss_organizationId :: string
  ss_projectId :: "string option"
  ss_actorType :: string
  ss_actorId :: string

record SponsorshipProviderConfiguration =
  spc_signerAddress :: string
  spc_maxAllowedLamports :: int
  spc_feePayerMayTransferLamports :: bool
  spc_feePayerPolicy :: json

text \<open>A decoded transaction: its message bytes and the blockhash its lifetime is bound to, if any.\<close>

record decoded_transaction =
  dt_messageBytes :: string
  dt_lifetimeToken :: "string option"

text \<open>Byte arrays are strings. One request asks each external function at most once.\<close>

record sponsor_deps =
  sd_SOLANA_NETWORK :: string
  sd_scope :: SponsorshipScope
  sd_getSponsorshipConfiguration :: "(api_error, SponsorshipProviderConfiguration) result option"
  sd_getNetworkFee :: "string \<Rightarrow> (api_error, int) result"
  sd_signAsFeePayer :: "string \<Rightarrow> (api_error, string) result"
  sd_signAndSend :: "string \<Rightarrow> (api_error, string) result"
  sd_decode :: "string \<Rightarrow> (api_error, decoded_transaction) result"
  sd_signatureOf :: "string \<Rightarrow> (api_error, string) result"
  sd_isFullySigned :: "string \<Rightarrow> bool"
  sd_sha256 :: "string \<Rightarrow> string"
  sd_sha256_json :: "json \<Rightarrow> string"
  sd_collate :: "string \<Rightarrow> nat list"
  sd_encodeBase64 :: "string \<Rightarrow> string"
  sd_decodeBase64 :: "string \<Rightarrow> string"

definition MAX_SAFE_LAMPORTS :: int where
  "MAX_SAFE_LAMPORTS = MAX_SAFE_INTEGER"

definition resolveNetwork :: "string \<Rightarrow> SponsorshipNetwork" where
  "resolveNetwork network = (if network = ''mainnet-beta'' then Mainnet else Devnet)"

abbreviation sd_network :: "sponsor_deps \<Rightarrow> SponsorshipNetwork" where
  "sd_network d \<equiv> resolveNetwork (sd_SOLANA_NETWORK d)"

definition getFullySignedSubmission :: "sponsor_deps \<Rightarrow> string \<Rightarrow> (api_error, string) result" where
  "getFullySignedSubmission d signedTransaction =
     result_bind (sd_decode d signedTransaction) (\<lambda>_.
       if sd_isFullySigned d signedTransaction then sd_signatureOf d signedTransaction
       else Inl (PlainError ''Sponsored transaction is not fully signed''))"

definition getRecentBlockhash :: "sponsor_deps \<Rightarrow> string \<Rightarrow> (api_error, string) result" where
  "getRecentBlockhash d tx =
     result_bind (sd_decode d tx) (\<lambda>message. case dt_lifetimeToken message of
         None \<Rightarrow> Inl (FeePaymentError ''Sponsored transaction does not contain a recent blockhash'' FEE_SIGNING_FAILED)
       | Some token \<Rightarrow> Inr token)"

text \<open>\<^verbatim>\<open>Date.prototype.toISOString\<close> for the years 0 to 9999: the civil date of a day number and the fields of
  the time of day, zero-padded.\<close>

definition pad :: "nat \<Rightarrow> int \<Rightarrow> string" where
  "pad width n = (let s = dec_digits (nat n) in replicate (width - length s) (CHR ''0'') @ s)"

definition civil_date :: "int \<Rightarrow> int \<times> int \<times> int" where
  "civil_date days =
     (let z = days + 719468; era = z div 146097; doe = z - era * 146097;
          yoe = (doe - doe div 1460 + doe div 36524 - doe div 146096) div 365;
          doy = doe - (365 * yoe + yoe div 4 - yoe div 100);
          mp = (5 * doy + 2) div 153; d = doy - (153 * mp + 2) div 5 + 1;
          m = (if mp < 10 then mp + 3 else mp - 9)
      in (yoe + era * 400 + (if m \<le> 2 then 1 else 0), m, d))"

definition iso_day :: "timestamp \<Rightarrow> string" where
  "iso_day t = (case civil_date (t div 86400000) of (y, m, d) \<Rightarrow> pad 4 y @ ''-'' @ pad 2 m @ ''-'' @ pad 2 d)"

definition iso_hour :: "timestamp \<Rightarrow> string" where
  "iso_hour t = iso_day t @ ''T'' @ pad 2 (t mod 86400000 div 3600000)"

definition utcBuckets :: "timestamp \<Rightarrow> string \<times> string" where
  "utcBuckets t = (iso_hour t @ '':00:00.000Z'', iso_day t @ ''T00:00:00.000Z'')"

definition policyVersions :: "SponsorshipBudgetPolicy list \<Rightarrow> (string \<times> int) list" where
  "policyVersions policies = map (\<lambda>p. (sbp_id p, sbp_version p)) policies"

text \<open>\<^verbatim>\<open>canonicalJson\<close> as the tree it prints: the entries of every object in the order of \<^verbatim>\<open>localeCompare\<close>, a
  \<^verbatim>\<open>bigint\<close> as its decimal text.\<close>

primrec canonicalJson :: "(string \<Rightarrow> nat list) \<Rightarrow> json \<Rightarrow> json" where
  "canonicalJson collate JNull = JNull"
| "canonicalJson collate (JBool b) = JBool b"
| "canonicalJson collate (JNum n) = JNum n"
| "canonicalJson collate (JStr s) = JStr s"
| "canonicalJson collate (JArr vs) = JArr (map (canonicalJson collate) vs)"
| "canonicalJson collate (JObj entries) =
     JObj (sort_key (\<lambda>entry. collate (fst entry)) (map (map_prod id (canonicalJson collate)) entries))"

definition sponsorshipProviderConfigFingerprint :: "sponsor_deps \<Rightarrow> SponsorshipProviderConfiguration \<Rightarrow> string" where
  "sponsorshipProviderConfigFingerprint d configuration =
     sd_sha256_json d (canonicalJson (sd_collate d) (JObj
       [(''maxAllowedLamports'', JStr (int_string (spc_maxAllowedLamports configuration))),
        (''feePayerMayTransferLamports'', JBool (spc_feePayerMayTransferLamports configuration)),
        (''feePayerPolicy'', spc_feePayerPolicy configuration)]))"

section \<open>Admissions\<close>

datatype AdmissionOperation = OpSign | OpSend

record AdmissionCancel =
  ac_network :: SponsorshipNetwork
  ac_organizationId :: string
  ac_projectId :: "string option"
  ac_hourBucket :: string
  ac_dayBucket :: string
  ac_reservationId :: string
  ac_attempt :: nat

record AdmissionSettlement = AdmissionCancel +
  as_reservedLamports :: int
  as_actualLamports :: int

record AdmissionResult =
  adm_id :: string
  adm_attempt :: nat
  adm_replay :: "ReservationRow option"
  adm_cancel :: "AdmissionCancel option"
  adm_settlement :: "AdmissionSettlement option"

datatype DurableAdmission = DurableOwned AdmissionResult | DurableReplay AdmissionResult | DurableInProgress

record AdmissionContext =
  ctx_id :: string
  ctx_network :: SponsorshipNetwork
  ctx_amount :: int
  ctx_transactionDigest :: string
  ctx_feePayer :: string
  ctx_providerConfigFingerprint :: string
  ctx_recentBlockhash :: string
  ctx_hourBucket :: string
  ctx_dayBucket :: string

text \<open>JavaScript's \<^verbatim>\<open>Boolean(value)\<close> of a nullable text.\<close>

definition truthy :: "string option \<Rightarrow> bool" where
  "truthy v \<longleftrightarrow> v \<noteq> None \<and> v \<noteq> Some []"

definition isDeterministicProviderRejection :: "api_error \<Rightarrow> bool" where
  "isDeterministicProviderRejection error = (case error of
     FeePaymentError m code \<Rightarrow>
       code \<in> {FEE_SIGNING_FAILED, TRANSACTION_TOO_LARGE, INSUFFICIENT_BALANCE, FEE_RATE_LIMITED}
   | _ \<Rightarrow> False)"

definition reservationHasResponse :: "ReservationRow \<Rightarrow> AdmissionOperation \<Rightarrow> bool" where
  "reservationHasResponse reservation operation = (case operation of
     OpSign \<Rightarrow> rv_status reservation \<in> {Signed, Submitted, Committed} \<and> truthy (rv_signedTransaction reservation)
   | OpSend \<Rightarrow> rv_status reservation \<in> {Submitted, Committed} \<and> truthy (rv_signature reservation))"

section \<open>Calls to Redis and to the provider\<close>

definition redis_command :: "(redis \<Rightarrow> (api_error, 'a) result \<times> redis) \<Rightarrow> 'a budget_io" where
  "redis_command script = sql (\<lambda>s. case script (bs_redis s) of (r, redis) \<Rightarrow> (r, s\<lparr>bs_redis := redis\<rparr>))"

definition redis_syncPolicy :: "SponsorshipBudgetPolicy \<Rightarrow> unit budget_io" where
  "redis_syncPolicy policy = redis_command (\<lambda>r. (Inr (), syncPolicy policy r))"

fun redis_syncPolicies :: "SponsorshipBudgetPolicy list \<Rightarrow> unit budget_io" where
  "redis_syncPolicies [] = io_return ()"
| "redis_syncPolicies (p # ps) = io_bind (redis_syncPolicy p) (\<lambda>_. redis_syncPolicies ps)"

text \<open>\<^verbatim>\<open>SponsorshipBudgetRedis.reserve\<close> command by command, so that each can fail.\<close>

definition redis_reserve :: "BudgetAdmissionInput \<Rightarrow> reserve_result budget_io" where
  "redis_reserve input =
     io_bind (redis_command (\<lambda>r. (Inr (), initialize_script (admission_keys input)
       (usage_seeds (admission_fields input) (bai_hourUsage input))
       (usage_seeds (admission_fields input) (bai_dayUsage input))
       (bai_liveHour input) (bai_liveDay input) r))) (\<lambda>_.
     io_bind (redis_syncPolicies (bai_policies input)) (\<lambda>_.
     io_bind (io_lift (admission_limits input)) (\<lambda>limits.
     redis_command (\<lambda>r. map_prod (\<lambda>reply. Inr (reserve_outcome reply)) id
       (reserve_script (admission_keys input) (bai_amount input) limits r)))))"

definition redis_settle :: "AdmissionSettlement \<Rightarrow> int \<Rightarrow> bool \<Rightarrow> int budget_io" where
  "redis_settle st actualLamports detectMissing =
     redis_command (settle (keys_for (ac_network st) (ac_hourBucket st) (ac_dayBucket st) (ac_reservationId st)
         (ac_attempt st)) (ac_organizationId st) (ac_projectId st) (as_reservedLamports st) actualLamports
       detectMissing)"

definition provider_signAsFeePayer :: "sponsor_deps \<Rightarrow> string \<Rightarrow> string budget_io" where
  "provider_signAsFeePayer d tx =
     (\<lambda>s. (sd_signAsFeePayer d tx, s\<lparr>bs_calls := bs_calls s @ [CalledSign tx]\<rparr>))"

definition provider_signAndSend :: "sponsor_deps \<Rightarrow> string \<Rightarrow> string budget_io" where
  "provider_signAndSend d tx =
     (\<lambda>s. (sd_signAndSend d tx, s\<lparr>bs_calls := bs_calls s @ [CalledSend tx]\<rparr>))"

section \<open>Failing closed\<close>

definition unavailable :: "string \<Rightarrow> 'a budget_io" where
  "unavailable message = io_throw (FeePaymentError message PROVIDER_NOT_AVAILABLE)"

definition tripBreaker :: "SponsorshipNetwork \<Rightarrow> string \<Rightarrow> unit budget_io" where
  "tripBreaker network reason =
     io_bind (tripGlobalBreaker network reason False) (\<lambda>policy. case policy of
         None \<Rightarrow> io_return ()
       | Some p \<Rightarrow> redis_syncPolicy p)"

definition accountingUnavailable :: "SponsorshipNetwork \<Rightarrow> string \<Rightarrow> string \<Rightarrow> 'a budget_io" where
  "accountingUnavailable network message breakerReason =
     io_bind (io_catch (tripBreaker network breakerReason) (\<lambda>_. io_return ())) (\<lambda>_. unavailable message)"

definition cancelInput :: "sponsor_deps \<Rightarrow> AdmissionContext \<Rightarrow> nat \<Rightarrow> AdmissionCancel" where
  "cancelInput d context attempt =
     \<lparr>ac_network = ctx_network context, ac_organizationId = ss_organizationId (sd_scope d),
      ac_projectId = ss_projectId (sd_scope d), ac_hourBucket = ctx_hourBucket context,
      ac_dayBucket = ctx_dayBucket context, ac_reservationId = ctx_id context, ac_attempt = attempt\<rparr>"

definition settlementInput :: "sponsor_deps \<Rightarrow> AdmissionContext \<Rightarrow> nat \<Rightarrow> AdmissionSettlement" where
  "settlementInput d context attempt =
     \<lparr>ac_network = ctx_network context, ac_organizationId = ss_organizationId (sd_scope d),
      ac_projectId = ss_projectId (sd_scope d), ac_hourBucket = ctx_hourBucket context,
      ac_dayBucket = ctx_dayBucket context, ac_reservationId = ctx_id context, ac_attempt = attempt,
      as_reservedLamports = ctx_amount context, as_actualLamports = ctx_amount context\<rparr>"

definition releaseDurable :: "AdmissionContext \<Rightarrow> nat \<Rightarrow> string \<Rightarrow> unit budget_io" where
  "releaseDurable context attempt reason =
     io_catch (io_bind (markReleased (ctx_id context) attempt reason) (\<lambda>_.
       io_bind (markRedisSettled (ctx_id context) attempt) (\<lambda>_. io_return ())))
     (\<lambda>_. accountingUnavailable (ctx_network context) ''Sponsorship reservation release is unavailable''
       ''Durable reservation release failed'')"

definition readReservation :: "AdmissionContext \<Rightarrow> ReservationRow option budget_io" where
  "readReservation context =
     io_catch (getReservation (ctx_id context))
       (\<lambda>_. accountingUnavailable (ctx_network context) ''Sponsorship reservation state is unavailable''
         ''Durable reservation read failed'')"

definition durablyAdvanced :: "AdmissionResult \<Rightarrow> SponsorshipReservationStatus list \<Rightarrow> bool budget_io" where
  "durablyAdvanced reservation forwardStatuses =
     io_catch (io_bind (getReservation (adm_id reservation)) (\<lambda>current. io_return (case current of
         None \<Rightarrow> False
       | Some r \<Rightarrow> rv_attempt r = adm_attempt reservation \<and> rv_status r \<in> set forwardStatuses)))
     (\<lambda>_. io_return False)"

definition markAmbiguous :: "sponsor_deps \<Rightarrow> AdmissionResult \<Rightarrow> api_error \<Rightarrow> unit budget_io" where
  "markAmbiguous d reservation error =
     io_bind (io_catch (markChargedUnknown (adm_id reservation) (adm_attempt reservation) (errorMessage error))
       (\<lambda>_. accountingUnavailable (sd_network d) ''Ambiguous sponsorship outcome could not be persisted''
         ''Failed to persist ambiguous Kora outcome'')) (\<lambda>persisted.
     if persisted then io_return ()
     else accountingUnavailable (sd_network d) ''Ambiguous sponsorship outcome could not be persisted''
       ''Ambiguous sponsorship state transition was lost'')"

datatype release_boundary = BeforeSubmission | AfterSubmission

definition releaseDeterministic ::
  "sponsor_deps \<Rightarrow> AdmissionResult \<Rightarrow> api_error \<Rightarrow> release_boundary \<Rightarrow> unit budget_io" where
  "releaseDeterministic d reservation error boundary =
     io_bind (io_catch
       (case boundary of
          AfterSubmission \<Rightarrow> settleReservation (adm_id reservation) (adm_attempt reservation) SettleReleased 0
            (Some (errorMessage error))
        | BeforeSubmission \<Rightarrow> markReleased (adm_id reservation) (adm_attempt reservation) (errorMessage error))
       (\<lambda>_. accountingUnavailable (sd_network d) ''Sponsorship release state is unavailable''
         ''Deterministic release persistence failed'')) (\<lambda>released.
     case (if released then adm_settlement reservation else None) of
       None \<Rightarrow> io_bind (tripBreaker (sd_network d) ''Deterministic release lost its durable ownership transition'')
         (\<lambda>_. unavailable ''Sponsorship release could not be persisted safely'')
     | Some st \<Rightarrow>
         io_catch (io_bind (redis_settle st 0 True) (\<lambda>_.
           io_bind (markRedisSettled (adm_id reservation) (adm_attempt reservation)) (\<lambda>persisted.
             if persisted then io_return ()
             else io_throw (PlainError ''Released reservation lost its Redis settlement ownership''))))
         (\<lambda>_. accountingUnavailable (sd_network d) ''Sponsorship release accounting is unavailable''
           ''Redis release invariant failed''))"

definition releaseDuplicateSignature :: "sponsor_deps \<Rightarrow> AdmissionResult \<Rightarrow> unit budget_io" where
  "releaseDuplicateSignature d reservation = releaseDeterministic d reservation
     (FeePaymentError ''Transaction already sponsored under another reservation'' FEE_RATE_LIMITED) BeforeSubmission"

section \<open>Admission\<close>

definition admission_context ::
  "sponsor_deps \<Rightarrow> string \<Rightarrow> SponsorshipProviderConfiguration \<Rightarrow> int \<Rightarrow> timestamp \<Rightarrow>
     (api_error, AdmissionContext) result" where
  "admission_context d tx providerConfig networkFee t =
     (let network = sd_network d; scope = sd_scope d;
          providerOutflow = (if spc_feePayerMayTransferLamports providerConfig
            then spc_maxAllowedLamports providerConfig else 0);
          ceiling = networkFee + providerOutflow
      in if ceiling < 0 \<or> ceiling > MAX_SAFE_LAMPORTS
         then Inl (FeePaymentError ''Sponsored transaction cost cannot be represented safely'' TRANSACTION_TOO_LARGE)
         else result_bind (sd_decode d tx) (\<lambda>decoded.
           result_bind (getRecentBlockhash d tx) (\<lambda>recentBlockhash.
           let transactionDigest = sd_sha256 d (dt_messageBytes decoded);
               buckets = utcBuckets t
           in Inr \<lparr>ctx_id = ''sbr_'' @ sd_sha256_json d (JObj
                [(''network'', JStr (network_text network)),
                 (''productEnvironment'', JStr (case ss_environment scope of Sandbox \<Rightarrow> ''sandbox'' | Production \<Rightarrow> ''production'')),
                 (''organizationId'', JStr (ss_organizationId scope)),
                 (''projectId'', case ss_projectId scope of None \<Rightarrow> JNull | Some p \<Rightarrow> JStr p),
                 (''actor'', JObj [(''type'', JStr (ss_actorType scope)), (''id'', JStr (ss_actorId scope))]),
                 (''feePayer'', JStr (spc_signerAddress providerConfig)),
                 (''transactionDigest'', JStr transactionDigest)]),
              ctx_network = network, ctx_amount = ceiling, ctx_transactionDigest = transactionDigest,
              ctx_feePayer = spc_signerAddress providerConfig,
              ctx_providerConfigFingerprint = sponsorshipProviderConfigFingerprint d providerConfig,
              ctx_recentBlockhash = recentBlockhash, ctx_hourBucket = fst buckets, ctx_dayBucket = snd buckets\<rparr>)))"

definition prepareAdmission :: "sponsor_deps \<Rightarrow> string \<Rightarrow> AdmissionContext budget_io" where
  "prepareAdmission d tx =
     (case sd_getSponsorshipConfiguration d of
        None \<Rightarrow> unavailable ''Managed sponsorship provider does not expose fail-closed configuration''
      | Some configuration \<Rightarrow>
          (case (configuration, sd_getNetworkFee d tx) of
             (Inr providerConfig, Inr networkFee) \<Rightarrow>
               io_bind now (\<lambda>t. io_lift (admission_context d tx providerConfig networkFee t))
           | _ \<Rightarrow> unavailable ''Sponsorship preflight is unavailable''))"

definition replay_result :: "AdmissionContext \<Rightarrow> ReservationRow \<Rightarrow> AdmissionResult" where
  "replay_result context r =
     \<lparr>adm_id = ctx_id context, adm_attempt = rv_attempt r, adm_replay = Some r, adm_cancel = None,
      adm_settlement = None\<rparr>"

definition resolveDurableReplay :: "AdmissionContext \<Rightarrow> AdmissionOperation \<Rightarrow> ReservationRow option \<Rightarrow>
     (api_error, AdmissionResult option) result" where
  "resolveDurableReplay context operation durableReplay = (case durableReplay of
     None \<Rightarrow> Inr None
   | Some r \<Rightarrow>
       if rv_status r \<in> {Signed, Submitted, Committed} \<and> reservationHasResponse r operation
       then Inr (Some (replay_result context r))
       else if rv_status r = ChargedUnknown
       then Inl (FeePaymentError ''Previous sponsorship outcome is ambiguous and cannot be retried safely''
         PROVIDER_NOT_AVAILABLE)
       else Inr None)"

definition resolveEnabledPolicies :: "sponsor_deps \<Rightarrow> SponsorshipNetwork \<Rightarrow> SponsorshipBudgetPolicy list budget_io" where
  "resolveEnabledPolicies d network =
     io_catch (resolvePolicies network (ss_organizationId (sd_scope d)) (ss_projectId (sd_scope d)))
       (\<lambda>_. accountingUnavailable network ''Sponsorship policy resolution is unavailable'' ''Policy resolution failed'')"

definition assertSponsorshipEnabled ::
  "AdmissionContext \<Rightarrow> SponsorshipBudgetPolicy list \<Rightarrow> DurableAdmission option \<Rightarrow> nat \<Rightarrow> unit budget_io" where
  "assertSponsorshipEnabled context policies durable reservationAttempt =
     (if list_all sbp_enabled policies then io_return ()
      else io_bind (case durable of
          Some (DurableOwned _) \<Rightarrow> releaseDurable context reservationAttempt ''sponsorship disabled during admission''
        | _ \<Rightarrow> io_return ())
        (\<lambda>_. unavailable ''Sponsorship is disabled for this scope''))"

definition budget_input ::
  "sponsor_deps \<Rightarrow> AdmissionContext \<Rightarrow> SponsorshipBudgetPolicy list \<Rightarrow> nat \<Rightarrow> admission_snapshot \<Rightarrow>
     BudgetAdmissionInput" where
  "budget_input d context policies attempt snap =
     \<lparr>bai_network = ctx_network context, bai_organizationId = ss_organizationId (sd_scope d),
      bai_projectId = ss_projectId (sd_scope d), bai_hourBucket = ctx_hourBucket context,
      bai_dayBucket = ctx_dayBucket context, bai_reservationId = ctx_id context, bai_attempt = attempt,
      bai_amount = ctx_amount context, bai_policies = policies, bai_hourUsage = snap_hourUsage snap,
      bai_dayUsage = snap_dayUsage snap, bai_liveHour = snap_liveHour snap, bai_liveDay = snap_liveDay snap\<rparr>"

definition reserveBudget ::
  "sponsor_deps \<Rightarrow> AdmissionContext \<Rightarrow> SponsorshipBudgetPolicy list \<Rightarrow> nat \<Rightarrow> reserve_result budget_io" where
  "reserveBudget d context policies attempt =
     io_catch (io_bind (loadWindowAdmissionSnapshot
         \<lparr>wi_network = ctx_network context, wi_organizationId = ss_organizationId (sd_scope d),
          wi_projectId = ss_projectId (sd_scope d), wi_hourBucket = ctx_hourBucket context,
          wi_dayBucket = ctx_dayBucket context\<rparr> (Some (ctx_id context)))
       (\<lambda>snap. redis_reserve (budget_input d context policies attempt snap)))
     (\<lambda>_. accountingUnavailable (ctx_network context) ''Sponsorship budget admission is unavailable''
       ''Budget reconstruction or Redis admission failed'')"

definition reservation_input ::
  "sponsor_deps \<Rightarrow> AdmissionContext \<Rightarrow> SponsorshipBudgetPolicy list \<Rightarrow> CreateSponsorshipReservationInput" where
  "reservation_input d context policies =
     \<lparr>csr_id = ctx_id context, csr_network = ctx_network context,
      csr_productEnvironment = ss_environment (sd_scope d), csr_organizationId = ss_organizationId (sd_scope d),
      csr_projectId = ss_projectId (sd_scope d), csr_actorType = ss_actorType (sd_scope d),
      csr_actorId = ss_actorId (sd_scope d), csr_transactionDigest = ctx_transactionDigest context,
      csr_feePayer = ctx_feePayer context, csr_providerConfigFingerprint = ctx_providerConfigFingerprint context,
      csr_recentBlockhash = ctx_recentBlockhash context, csr_reservedLamports = ctx_amount context,
      csr_hourBucket = ctx_hourBucket context, csr_dayBucket = ctx_dayBucket context,
      csr_policyVersions = policyVersions policies\<rparr>"

definition owned_result :: "sponsor_deps \<Rightarrow> AdmissionContext \<Rightarrow> nat \<Rightarrow> AdmissionResult" where
  "owned_result d context attempt =
     \<lparr>adm_id = ctx_id context, adm_attempt = attempt, adm_replay = None,
      adm_cancel = Some (cancelInput d context attempt),
      adm_settlement = Some (settlementInput d context attempt)\<rparr>"

definition existing_admission ::
  "AdmissionContext \<Rightarrow> AdmissionOperation \<Rightarrow> ReservationRow option \<Rightarrow> (api_error, DurableAdmission) result" where
  "existing_admission context operation existing = (case existing of
     None \<Rightarrow> Inl (PlainError ''Reservation insert conflicted without a durable ledger row'')
   | Some r \<Rightarrow>
       if rv_status r \<in> {Signed, Submitted, Committed} \<and> reservationHasResponse r operation
       then Inr (DurableReplay (replay_result context r))
       else Inr DurableInProgress)"

text \<open>The rest of \<^verbatim>\<open>persistReservationDurable\<close> when no row was inserted.\<close>

definition reopen_or_existing ::
  "sponsor_deps \<Rightarrow> AdmissionContext \<Rightarrow> AdmissionOperation \<Rightarrow> SponsorshipBudgetPolicy list \<Rightarrow> nat \<Rightarrow>
     DurableAdmission budget_io" where
  "reopen_or_existing d context operation policies attempt =
     io_bind (getReservation (ctx_id context)) (\<lambda>existing.
     io_bind (case existing of
         Some r \<Rightarrow>
           if rv_status r = Released \<and> rv_attempt r + 1 = attempt
           then reopenReleasedReservation (reservation_input d context policies) (rv_attempt r) else io_return None
       | None \<Rightarrow> io_return None) (\<lambda>reopenedAttempt.
     if reopenedAttempt = Some attempt then io_return (DurableOwned (owned_result d context attempt))
     else io_lift (existing_admission context operation existing)))"

definition persistence_failed :: "AdmissionContext \<Rightarrow> api_error \<Rightarrow> 'a budget_io" where
  "persistence_failed context error = (case error of
     FeePaymentError m c \<Rightarrow> io_throw error
   | _ \<Rightarrow> accountingUnavailable (ctx_network context) ''Sponsorship reservation persistence is unavailable''
       ''Durable reservation persistence failed'')"

definition persistReservationDurable ::
  "sponsor_deps \<Rightarrow> AdmissionContext \<Rightarrow> AdmissionOperation \<Rightarrow> SponsorshipBudgetPolicy list \<Rightarrow> nat \<Rightarrow>
     DurableAdmission budget_io" where
  "persistReservationDurable d context operation policies attempt =
     io_catch
       (io_bind (if attempt = 1 then createReservation (reservation_input d context policies) else io_return False)
         (\<lambda>created.
         if created then io_return (DurableOwned (owned_result d context attempt))
         else reopen_or_existing d context operation policies attempt))
       (persistence_failed context)"

text \<open>One round of \<^verbatim>\<open>admitAgainstCurrentPolicy\<close> after the durable row is owned.\<close>

definition settle_admission ::
  "AdmissionContext \<Rightarrow> nat \<Rightarrow> reserve_result \<Rightarrow> AdmissionResult \<Rightarrow> AdmissionResult budget_io" where
  "settle_admission context reservationAttempt admission result = (case admission of
     Denied \<Rightarrow> io_bind (releaseDurable context reservationAttempt ''budget exceeded during admission'')
       (\<lambda>_. io_throw (FeePaymentError ''Sponsorship budget exceeded'' FEE_RATE_LIMITED))
   | StalePolicy \<Rightarrow> io_bind (releaseDurable context reservationAttempt ''policy changed during admission'')
       (\<lambda>_. unavailable ''Sponsorship policy changed during admission'')
   | Duplicate \<Rightarrow> io_bind (releaseDurable context reservationAttempt ''redundant redis reservation during admission'')
       (\<lambda>_. unavailable ''An identical sponsorship operation is already in progress'')
   | Admitted \<Rightarrow> io_return result)"

text \<open>The loop over \<^verbatim>\<open>attempt = 0, 1\<close>; the argument is the number of rounds left, so the first round has two.\<close>

primrec admit_rounds :: "nat \<Rightarrow> sponsor_deps \<Rightarrow> AdmissionContext \<Rightarrow> AdmissionOperation \<Rightarrow> nat \<Rightarrow>
     DurableAdmission option \<Rightarrow> AdmissionResult budget_io" where
  "admit_rounds 0 d context operation reservationAttempt durable =
     io_bind (case durable of
         Some (DurableOwned _) \<Rightarrow> releaseDurable context reservationAttempt ''policy changed during admission''
       | _ \<Rightarrow> io_return ())
       (\<lambda>_. unavailable ''Sponsorship policy changed during admission'')"
| "admit_rounds (Suc rounds) d context operation reservationAttempt durable =
     io_bind (resolveEnabledPolicies d (ctx_network context)) (\<lambda>policies.
     io_bind (assertSponsorshipEnabled context policies durable reservationAttempt) (\<lambda>_.
     io_bind (case durable of
         Some admission \<Rightarrow> io_return admission
       | None \<Rightarrow> persistReservationDurable d context operation policies reservationAttempt) (\<lambda>admission.
     case admission of
       DurableReplay result \<Rightarrow> io_return result
     | DurableInProgress \<Rightarrow> unavailable ''An identical sponsorship operation is already in progress''
     | DurableOwned result \<Rightarrow>
         io_bind (reserveBudget d context policies reservationAttempt) (\<lambda>reply.
         if reply = StalePolicy \<and> rounds = 1
         then admit_rounds rounds d context operation reservationAttempt (Some admission)
         else settle_admission context reservationAttempt reply result))))"

declare admit_rounds.simps [simp del]

definition admitAgainstCurrentPolicy ::
  "sponsor_deps \<Rightarrow> AdmissionContext \<Rightarrow> AdmissionOperation \<Rightarrow> nat \<Rightarrow> AdmissionResult budget_io" where
  "admitAgainstCurrentPolicy d context operation reservationAttempt =
     admit_rounds 2 d context operation reservationAttempt None"

definition next_attempt :: "ReservationRow option \<Rightarrow> nat" where
  "next_attempt durable = (case durable of
     None \<Rightarrow> 1
   | Some r \<Rightarrow> if rv_status r = Released then rv_attempt r + 1 else rv_attempt r)"

definition admit :: "sponsor_deps \<Rightarrow> string \<Rightarrow> AdmissionOperation \<Rightarrow> AdmissionResult budget_io" where
  "admit d tx operation =
     io_bind (prepareAdmission d tx) (\<lambda>context.
     io_bind (readReservation context) (\<lambda>durableReservation.
     io_bind (io_lift (resolveDurableReplay context operation durableReservation)) (\<lambda>durableReplay.
     case durableReplay of
       Some result \<Rightarrow> io_return result
     | None \<Rightarrow> admitAgainstCurrentPolicy d context operation (next_attempt durableReservation))))"

section \<open>The operations of the port\<close>

definition signAsFeePayer :: "sponsor_deps \<Rightarrow> string \<Rightarrow> string budget_io" where
  "signAsFeePayer d tx =
     io_bind (admit d tx OpSign) (\<lambda>reservation.
     if truthy (Option.bind (adm_replay reservation) rv_signedTransaction)
     then io_return (sd_decodeBase64 d (the (Option.bind (adm_replay reservation) rv_signedTransaction)))
     else
       io_bind (io_catch (provider_signAsFeePayer d tx)
         (\<lambda>e. io_bind (markAmbiguous d reservation e) (\<lambda>_. io_throw e))) (\<lambda>signed.
       io_bind (io_catch (io_lift (sd_signatureOf d signed))
         (\<lambda>_. accountingUnavailable (sd_network d) ''Signed sponsorship result could not be reconstructed''
           ''Signed sponsorship signature extraction failed'')) (\<lambda>signature.
       io_bind (io_catch
         (markSigned (adm_id reservation) (adm_attempt reservation) (sd_encodeBase64 d signed) signature)
         (\<lambda>_. accountingUnavailable (sd_network d) ''Signed sponsorship outcome could not be persisted''
           ''Signed sponsorship persistence failed'')) (\<lambda>result.
       if result = DuplicateSignature
       then io_bind (releaseDuplicateSignature d reservation) (\<lambda>_. io_return signed)
       else io_bind (if result = Persisted then io_return True
           else durablyAdvanced reservation [Signed, Submitted, Committed, ChargedUnknown]) (\<lambda>advanced.
         if advanced then io_return signed
         else accountingUnavailable (sd_network d) ''Signed sponsorship outcome could not be persisted''
           ''Signed sponsorship outcome lost its durable state transition'')))))"

text \<open>\<^verbatim>\<open>signAndSend\<close> after the provider has returned a signature.\<close>

definition record_submission :: "sponsor_deps \<Rightarrow> AdmissionResult \<Rightarrow> string \<Rightarrow> string budget_io" where
  "record_submission d reservation signature =
     io_bind (io_catch (markSubmitted (adm_id reservation) (adm_attempt reservation) signature)
       (\<lambda>_. accountingUnavailable (sd_network d) ''Submitted sponsorship outcome could not be persisted''
         ''Submitted sponsorship persistence failed'')) (\<lambda>result.
     if result = DuplicateSignature
     then io_bind (releaseDuplicateSignature d reservation) (\<lambda>_. io_return signature)
     else io_bind (if result = Persisted then io_return True
         else durablyAdvanced reservation [Submitted, Committed, ChargedUnknown]) (\<lambda>advanced.
       if advanced then io_return signature
       else accountingUnavailable (sd_network d) ''Submitted sponsorship outcome could not be persisted''
         ''Submitted sponsorship outcome lost its durable state transition''))"

definition signAndSend :: "sponsor_deps \<Rightarrow> string \<Rightarrow> string budget_io" where
  "signAndSend d tx =
     io_bind (admit d tx OpSend) (\<lambda>reservation.
     if truthy (Option.bind (adm_replay reservation) rv_signature)
     then io_return (the (Option.bind (adm_replay reservation) rv_signature))
     else
       io_bind (io_catch (provider_signAndSend d tx)
         (\<lambda>e. io_bind (if isDeterministicProviderRejection e
             then releaseDeterministic d reservation e BeforeSubmission
             else markAmbiguous d reservation e) (\<lambda>_. io_throw e)))
       (record_submission d reservation))"

record OwnedSubmissionLifecycle =
  osl_persistSigned :: "string \<Rightarrow> string \<Rightarrow> (api_error, unit) result"
  osl_markStarted :: "(api_error, unit) result"
  osl_hasStarted :: "(api_error, bool) result"

text \<open>The part of \<^verbatim>\<open>prepareOwnedSubmission\<close> whose failure releases the reservation.\<close>

definition sign_owned :: "sponsor_deps \<Rightarrow> OwnedSubmissionLifecycle \<Rightarrow> AdmissionResult \<Rightarrow> string \<Rightarrow>
     (string \<times> string) budget_io" where
  "sign_owned d lifecycle reservation tx =
     io_bind (provider_signAsFeePayer d tx) (\<lambda>signedTransaction.
     io_bind (io_lift (getFullySignedSubmission d signedTransaction)) (\<lambda>signature.
     io_bind (markSigned (adm_id reservation) (adm_attempt reservation) (sd_encodeBase64 d signedTransaction) signature)
       (\<lambda>signedResult.
     if signedResult \<noteq> Persisted then unavailable ''Owned sponsorship signature could not be persisted''
     else io_bind (io_lift (osl_persistSigned lifecycle signedTransaction signature)) (\<lambda>_.
       io_bind (resolveEnabledPolicies d (sd_network d)) (\<lambda>policies.
       if list_ex (\<lambda>p. \<not> sbp_enabled p) policies then unavailable ''Sponsorship is disabled for this scope''
       else io_return (signedTransaction, signature))))))"

definition start_owned ::
  "sponsor_deps \<Rightarrow> OwnedSubmissionLifecycle \<Rightarrow> AdmissionResult \<Rightarrow> unit budget_io" where
  "start_owned d lifecycle reservation = (case osl_markStarted lifecycle of
     Inr _ \<Rightarrow> io_return ()
   | Inl e \<Rightarrow> (case osl_hasStarted lifecycle of
       Inl _ \<Rightarrow> io_throw e
     | Inr started \<Rightarrow>
         io_bind (if started then io_return () else releaseDeterministic d reservation e BeforeSubmission)
           (\<lambda>_. io_throw e)))"

text \<open>\<^verbatim>\<open>releaseDefinitelyUnbroadcast\<close> of a prepared submission closes over its reservation.\<close>

definition releaseDefinitelyUnbroadcast :: "sponsor_deps \<Rightarrow> AdmissionResult \<Rightarrow> api_error \<Rightarrow> unit budget_io" where
  "releaseDefinitelyUnbroadcast d reservation error = releaseDeterministic d reservation error AfterSubmission"

definition prepareOwnedSubmission ::
  "sponsor_deps \<Rightarrow> OwnedSubmissionLifecycle \<Rightarrow> string \<Rightarrow> (string \<times> string) budget_io" where
  "prepareOwnedSubmission d lifecycle tx =
     io_bind (admit d tx OpSign) (\<lambda>reservation.
     if adm_replay reservation \<noteq> None then unavailable ''An identical owned submission is already in progress''
     else io_bind (io_catch (sign_owned d lifecycle reservation tx)
         (\<lambda>e. io_bind (releaseDeterministic d reservation e BeforeSubmission) (\<lambda>_. io_throw e))) (\<lambda>submission.
       io_bind (start_owned d lifecycle reservation) (\<lambda>_.
       io_bind (io_catch (markSubmitted (adm_id reservation) (adm_attempt reservation) (snd submission))
         (\<lambda>_. accountingUnavailable (sd_network d) ''Owned submission accounting could not be persisted''
           ''Owned submission accounting persistence failed'')) (\<lambda>submittedResult.
       io_bind (if submittedResult = Persisted then io_return True
           else durablyAdvanced reservation [Submitted, Committed, ChargedUnknown]) (\<lambda>advanced.
         if advanced then io_return submission
         else accountingUnavailable (sd_network d) ''Owned submission accounting could not be persisted''
           ''Owned submission accounting lost its durable state transition'')))))"

section \<open>What the parts of a request change\<close>

text \<open>The breaker, reading, and everything else that leaves the ledger and the counters as they are.\<close>

definition breaker_frame where
  "breaker_frame s = (sess_clock s, bs_reservations s, bs_calls s, rd_windows (bs_redis s), rd_reservations (bs_redis s),
     rd_settlements (bs_redis s))"

definition breaker_effect :: "budget_session \<Rightarrow> budget_session \<Rightarrow> bool" where
  "breaker_effect s s' \<longleftrightarrow> breaker_frame s' = breaker_frame s"

text \<open>Everything a request does except asking the provider.\<close>

definition silent :: "budget_session \<Rightarrow> budget_session \<Rightarrow> bool" where
  "silent s s' \<longleftrightarrow> bs_calls s' = bs_calls s \<and> sess_clock s' = sess_clock s"

interpretation breaker: effect_relation breaker_effect
proof
  fix s s' s'' :: budget_session
  show "only_session s s' \<Longrightarrow> breaker_effect s s'"
    by (drule only_session_same) (simp add: same_state_def breaker_effect_def breaker_frame_def reservation_frame_def)
  show "breaker_effect s s' \<Longrightarrow> breaker_effect s' s'' \<Longrightarrow> breaker_effect s s''"
    by (simp add: breaker_effect_def)
qed

interpretation silence: effect_relation silent
proof
  fix s s' s'' :: budget_session
  show "only_session s s' \<Longrightarrow> silent s s'"
    by (drule only_session_same) (simp add: same_state_def silent_def reservation_frame_def)
  show "silent s s' \<Longrightarrow> silent s' s'' \<Longrightarrow> silent s s''"
    by (simp add: silent_def)
qed

lemma stays_weaken: "stays R m \<Longrightarrow> (\<And>s s'. R s s' \<Longrightarrow> R' s s') \<Longrightarrow> stays R' m"
  by (simp add: stays_def)

lemma effects_silent:
  "breaker_effect s s' \<Longrightarrow> silent s s'" "reservation_effect s s' \<Longrightarrow> silent s s'" "policy_effect s s' \<Longrightarrow> breaker_effect s s'"
  by (simp_all add: breaker_effect_def breaker_frame_def silent_def reservation_effect_def reservation_frame_def
      policy_effect_def policy_frame_def)

lemma redis_command_stays:
  assumes "\<And>s. R s (s\<lparr>bs_redis := snd (script (bs_redis s))\<rparr>)" "effect_relation R"
  shows "stays R (redis_command script)"
  unfolding redis_command_def
  by (rule effect_relation.stays_sql[OF assms(2)], rule staysI) (use assms(1) in \<open>simp add: case_prod_unfold\<close>)

lemma redis_command_silent: "stays silent (redis_command script)"
  by (rule redis_command_stays) (simp add: silent_def, rule silence.effect_relation_axioms)

lemma redis_syncPolicy_stays: "stays breaker_effect (redis_syncPolicy policy)"
  unfolding redis_syncPolicy_def
  by (rule redis_command_stays)
    (simp add: breaker_effect_def breaker_frame_def syncPolicy_def sync_control_script_def Let_def split: option.split prod.split,
      rule breaker.effect_relation_axioms)

lemma tripBreaker_stays: "stays breaker_effect (tripBreaker network reason)"
  unfolding tripBreaker_def
  by (intro breaker.stays_intros redis_syncPolicy_stays stays_weaken[OF policy_ops_stay(2) effects_silent(3)])

lemma accountingUnavailable_stays: "stays breaker_effect (accountingUnavailable network message reason)"
  unfolding accountingUnavailable_def unavailable_def
  by (intro breaker.stays_intros tripBreaker_stays)

lemma resolvePolicies_reads: "io_reads (resolvePolicies network org proj)"
  unfolding resolvePolicies_def by (intro reads_intros)

lemma resolveEnabledPolicies_stays: "stays breaker_effect (resolveEnabledPolicies d network)"
  unfolding resolveEnabledPolicies_def
  by (intro breaker.stays_catch breaker.stays_reads resolvePolicies_reads accountingUnavailable_stays)

lemma getReservation_reads: "io_reads (getReservation i)"
  unfolding getReservation_def by (intro reads_intros)

lemma readReservation_stays: "stays breaker_effect (readReservation context)"
  unfolding readReservation_def
  by (intro breaker.stays_catch breaker.stays_reads getReservation_reads accountingUnavailable_stays)

lemma loadWindow_stays: "stays breaker_effect (loadWindowAdmissionSnapshot input excluded)"
  unfolding loadWindowAdmissionSnapshot_def getWindowUsage_def listLiveWindowReservations_def
  by (intro breaker.stays_intros)

lemma redis_syncPolicies_stays: "stays breaker_effect (redis_syncPolicies policies)"
  by (induction policies) (auto intro: breaker.stays_intros redis_syncPolicy_stays)

section \<open>Weakest preconditions of the service\<close>

lemma accountingUnavailable_throws:
  "fst (accountingUnavailable network message reason s) = Inl (FeePaymentError message PROVIDER_NOT_AVAILABLE)"
  by (auto simp: accountingUnavailable_def unavailable_def io_bind_def io_catch_def io_return_def io_throw_def
      split: prod.split sum.split)

lemma wp_accountingUnavailable:
  "(\<And>s'. breaker_effect s s' \<Longrightarrow> Q (Inl (FeePaymentError message PROVIDER_NOT_AVAILABLE)) s') \<Longrightarrow>
     wp (accountingUnavailable network message reason) Q s"
  unfolding wp_def accountingUnavailable_throws using staysD[OF accountingUnavailable_stays] by blast

lemma wp_unavailable: "Q (Inl (FeePaymentError message PROVIDER_NOT_AVAILABLE)) s \<Longrightarrow> wp (unavailable message) Q s"
  by (simp add: unavailable_def wp_throw)

lemma wp_getReservation:
  assumes "\<And>e s'. only_session s s' \<Longrightarrow> Q (Inl e) s'"
    and "\<And>s'. only_session s s' \<Longrightarrow> Q (Inr (row_of (bs_reservations s) i)) s'"
  shows "wp (getReservation i) Q s"
  unfolding getReservation_def row_of_def[symmetric]
  by (intro wp_sql wp_get) (use assms in auto)

lemma wp_readReservation:
  assumes "\<And>e s'. breaker_effect s s' \<Longrightarrow> Q (Inl e) s'"
    and "\<And>s'. breaker_effect s s' \<Longrightarrow> Q (Inr (row_of (bs_reservations s) (ctx_id context))) s'"
  shows "wp (readReservation context) Q s"
  unfolding readReservation_def
proof (intro wp_catch wp_getReservation, goal_cases)
  case (1 e s')
  then show ?case
    using assms(1) breaker.session[OF 1] by (auto intro!: wp_accountingUnavailable intro: breaker.trans)
next
  case (2 s')
  then show ?case using assms(2) breaker.session by simp
qed

lemma wp_sql_fault:
  assumes "\<And>fs. wp m Q (s\<lparr>sess_faults := fs\<rparr>)" "\<And>fs. Q (Inl (SqlError ''connection terminated'')) (s\<lparr>sess_faults := fs\<rparr>)"
  shows "wp (sql m) Q s"
  using assms by (cases rule: sql_cases[of s m]) (auto simp: wp_def)

lemma wp_createReservation:
  assumes "\<And>e s'. only_session s s' \<Longrightarrow> Q (Inl e) s'"
    and "\<And>s'. only_session s s' \<Longrightarrow> row_of (bs_reservations s) (csr_id input) \<noteq> None \<Longrightarrow> Q (Inr False) s'"
    and "\<And>s'. row_of (bs_reservations s) (csr_id input) = None \<Longrightarrow> reservation_frame s' = reservation_frame s \<Longrightarrow>
      bs_reservations s' = bs_reservations s @ [new_reservation input (sess_clock s)] \<Longrightarrow>
      reservations_wf (bs_reservations s') \<Longrightarrow> Q (Inr True) s'"
  shows "wp (createReservation input) Q s"
  unfolding createReservation_def
proof (rule wp_sql)
  fix fs
  have found: "csr_id input \<in> rv_id ` set (bs_reservations s) \<longleftrightarrow> row_of (bs_reservations s) (csr_id input) \<noteq> None"
    by (auto simp: row_of_def find_None_iff image_iff) metis
  show "wp (\<lambda>s. if csr_id input \<in> rv_id ` set (bs_reservations s) then (Inr False, s)
      else io_bind (put_reservations (bs_reservations s @ [new_reservation input (sess_clock s)]))
        (\<lambda>_. io_return True) s) Q (s\<lparr>sess_faults := fs\<rparr>)"
    using assms(2,3)[of "s\<lparr>sess_faults := fs\<rparr>"] found
    by (auto simp: wp_def put_reservations_def io_bind_def io_return_def reservation_frame_def reservations_wf_def
        intro!: assms)
qed (simp add: assms(1))

lemma wp_update_reservations:
  assumes "\<And>e s'. only_session s s' \<Longrightarrow>
      (e = UniqueViolation \<Longrightarrow> \<not> (distinct (map rv_id (table_update matching (change (sess_clock s)) (bs_reservations s))) \<and>
        distinct (signatures (table_update matching (change (sess_clock s)) (bs_reservations s))))) \<Longrightarrow> Q (Inl e) s'"
    and "\<And>s'. reservation_frame s' = reservation_frame s \<Longrightarrow>
      bs_reservations s' = table_update matching (change (sess_clock s)) (bs_reservations s) \<Longrightarrow>
      reservations_wf (bs_reservations s') \<Longrightarrow> Q (Inr (length (filter matching (bs_reservations s)))) s'"
  shows "wp (update_reservations matching change) Q s"
  unfolding update_reservations_def
proof (rule wp_sql_fault)
  fix fs
  show "wp (\<lambda>s. io_bind (put_reservations (table_update matching (change (sess_clock s)) (bs_reservations s)))
      (\<lambda>_. io_return (length (filter matching (bs_reservations s)))) s) Q (s\<lparr>sess_faults := fs\<rparr>)"
    using assms(1)[of "s\<lparr>sess_faults := fs\<rparr>" UniqueViolation] assms(1)[of "s\<lparr>sess_faults := fs\<rparr>" check_violation]
      assms(2)
    by (auto simp: wp_def put_reservations_def io_bind_def io_return_def reservation_frame_def check_violation_def
        reservations_wf_def)
qed (rule assms(1), simp_all)

section \<open>One transaction is sponsored once\<close>

definition reservation_id :: "sponsor_deps \<Rightarrow> string \<Rightarrow> budget_session \<Rightarrow> string option" where
  "reservation_id d tx s = (case fst (prepareAdmission d tx s) of Inl _ \<Rightarrow> None | Inr context \<Rightarrow> Some (ctx_id context))"

lemma prepareAdmission_reads: "io_reads (prepareAdmission d tx)"
  unfolding prepareAdmission_def unavailable_def
  by (auto split: option.split sum.split prod.split intro!: reads_intros)

definition answered :: "AdmissionOperation \<Rightarrow> AdmissionResult \<Rightarrow> bool" where
  "answered operation result \<longleftrightarrow> (\<exists>r. adm_replay result = Some r \<and> reservationHasResponse r operation)"

lemma replay_answered: "reservationHasResponse r operation \<Longrightarrow> answered operation (replay_result context r)"
  by (simp add: answered_def replay_result_def)

lemma wp_persistence_failed:
  "(\<And>e s'. breaker_effect s s' \<Longrightarrow> Q (Inl e) s') \<Longrightarrow> wp (persistence_failed context e) Q s"
  by (cases e) (auto simp: persistence_failed_def intro!: wp_throw wp_accountingUnavailable breaker.refl)

definition not_owned :: "AdmissionOperation \<Rightarrow> DurableAdmission \<Rightarrow> bool" where
  "not_owned operation a \<longleftrightarrow> (case a of DurableOwned _ \<Rightarrow> False | DurableReplay x \<Rightarrow> answered operation x | DurableInProgress \<Rightarrow> True)"

lemma reopen_or_existing_live:
  assumes r: "row_of (bs_reservations s) (ctx_id context) = Some r" "rv_status r \<noteq> Released"
  shows "wp (reopen_or_existing d context operation policies n)
    (\<lambda>res s'. silent s s' \<and> (\<forall>a. res = Inr a \<longrightarrow> not_owned operation a)) s"
  unfolding reopen_or_existing_def
  by (intro wp_bind wp_getReservation)
    (use r in \<open>auto simp: existing_admission_def replay_answered not_owned_def intro!: wp_intros silence.session\<close>)

lemma persist_existing:
  assumes r: "row_of (bs_reservations s) (ctx_id context) = Some r" "rv_status r \<noteq> Released"
  shows "wp (persistReservationDurable d context operation policies (rv_attempt r))
    (\<lambda>res s'. silent s s' \<and> (\<forall>a. res = Inr a \<longrightarrow> not_owned operation a)) s"
proof -
  let ?Q = "\<lambda>(res :: (api_error, DurableAdmission) result) s'. silent s s' \<and> (\<forall>a. res = Inr a \<longrightarrow> not_owned operation a)"
  let ?P = "\<lambda>res s'. case res of Inl e \<Rightarrow> wp (persistence_failed context e :: DurableAdmission budget_io) ?Q s' | Inr a \<Rightarrow> ?Q (Inr a) s'"
  have P: "?P res u" if "?Q res u" for res u
    using that by (cases res) (auto intro!: wp_persistence_failed dest: effects_silent(1) intro: silence.trans)
  have read: "wp (reopen_or_existing d context operation policies (rv_attempt r)) ?P u" if u: "only_session s u" for u
  proof -
    have row: "row_of (bs_reservations u) (ctx_id context) = Some r"
      using only_session_same[OF u] r(1) by (simp add: same_state_def)
    show ?thesis
      by (rule wp_mono[OF reopen_or_existing_live[OF row r(2)]], rule P)
        (use silence.trans[OF silence.session[OF u]] in blast)
  qed
  have "wp (if rv_attempt r = 1 then createReservation (reservation_input d context policies) else io_return False)
      (\<lambda>res u. case res of Inl e \<Rightarrow> ?P (Inl e) u
         | Inr created \<Rightarrow> \<not> created \<and> wp (reopen_or_existing d context operation policies (rv_attempt r)) ?P u) s"
  proof (rule wp_if)
    show "wp (createReservation (reservation_input d context policies))
      (\<lambda>res u. case res of Inl e \<Rightarrow> ?P (Inl e) u
         | Inr created \<Rightarrow> \<not> created \<and> wp (reopen_or_existing d context operation policies (rv_attempt r)) ?P u) s"
    proof (rule wp_createReservation, goal_cases)
      case (1 e s')
      then show ?case using P[of s' "Inl e"] silence.session by simp
    next
      case (2 s')
      then show ?case using read by simp
    next
      case (3 s')
      then show ?case using r(1) by (simp add: reservation_input_def)
    qed
    show "wp (io_return False) (\<lambda>res u. case res of Inl e \<Rightarrow> ?P (Inl e) u
         | Inr created \<Rightarrow> \<not> created \<and> wp (reopen_or_existing d context operation policies (rv_attempt r)) ?P u) s"
      by (rule wp_return) (simp add: read)
  qed
  then show ?thesis
    unfolding persistReservationDurable_def
    by (intro wp_catch wp_bind) (erule wp_mono, auto split: sum.splits)
qed

lemma prepareAdmission_state: "snd (prepareAdmission d tx s) = s"
  unfolding prepareAdmission_def unavailable_def
  by (auto simp: io_bind_def io_throw_def io_lift_def now_def io_get_def split: option.split sum.split prod.split)

lemma wp_prepareAdmission:
  assumes "\<And>e. fst (prepareAdmission d tx s) = Inl e \<Longrightarrow> Q (Inl e) s"
    and "\<And>context. fst (prepareAdmission d tx s) = Inr context \<Longrightarrow> Q (Inr context) s"
  shows "wp (prepareAdmission d tx) Q s"
  using assms by (cases "fst (prepareAdmission d tx s)") (auto simp: wp_def prepareAdmission_state)

lemma wp_resolveEnabledPolicies:
  "(\<And>r s'. breaker_effect s s' \<Longrightarrow> Q r s') \<Longrightarrow> wp (resolveEnabledPolicies d network) Q s"
  by (rule wp_stays[OF resolveEnabledPolicies_stays])

text \<open>A round that starts without a durable row: it reads the policies, checks them, and persists.\<close>

lemma wp_first_round:
  assumes denied: "\<And>e s'. breaker_effect s s' \<Longrightarrow> Q (Inl e) s'"
    and persist: "\<And>policies s1. breaker_effect s s1 \<Longrightarrow> list_all sbp_enabled policies \<Longrightarrow>
      wp (persistReservationDurable d context operation policies n) (\<lambda>res s2. case res of
          Inl e \<Rightarrow> Q (Inl e) s2
        | Inr (DurableReplay x) \<Rightarrow> Q (Inr x) s2
        | Inr DurableInProgress \<Rightarrow> Q (Inl (FeePaymentError ''An identical sponsorship operation is already in progress''
            PROVIDER_NOT_AVAILABLE)) s2
        | Inr (DurableOwned x) \<Rightarrow> wp (io_bind (reserveBudget d context policies n) (\<lambda>reply.
            if reply = StalePolicy \<and> rounds = 1
            then admit_rounds rounds d context operation n (Some (DurableOwned x))
            else settle_admission context n reply x)) Q s2) s1"
  shows "wp (admit_rounds (Suc rounds) d context operation n None) Q s"
proof -
  have enabled: "wp (assertSponsorshipEnabled context policies None n) (\<lambda>res s2. case res of Inl e \<Rightarrow> Q (Inl e) s2
      | Inr _ \<Rightarrow> list_all sbp_enabled policies \<and> s2 = s1) s1" if "breaker_effect s s1" for policies s1
    unfolding assertSponsorshipEnabled_def
    using that denied by (auto intro!: wp_intros wp_unavailable)
  let ?rest = "\<lambda>policies. io_bind (persistReservationDurable d context operation policies n) (\<lambda>admission.
     case admission of
       DurableReplay result \<Rightarrow> io_return result
     | DurableInProgress \<Rightarrow> unavailable ''An identical sponsorship operation is already in progress''
     | DurableOwned result \<Rightarrow>
         io_bind (reserveBudget d context policies n) (\<lambda>reply.
         if reply = StalePolicy \<and> rounds = 1
         then admit_rounds rounds d context operation n (Some admission)
         else settle_admission context n reply result))"
  have rest: "wp (?rest policies) Q s1" if "breaker_effect s s1" "list_all sbp_enabled policies" for policies s1
  proof (rule wp_bind, rule wp_mono[OF persist[OF that]], goal_cases)
    case (1 res s2)
    then show ?case
      by (cases res) (auto intro: wp_return wp_unavailable split: DurableAdmission.splits)
  qed
  have "wp (io_bind (assertSponsorshipEnabled context policies None n) (\<lambda>_. ?rest policies)) Q s1"
    if "breaker_effect s s1" for policies s1
  proof (rule wp_bind, rule wp_mono[OF enabled[OF that]], goal_cases)
    case (1 res s2)
    then show ?case using rest[OF that] by (cases res) auto
  qed
  then show ?thesis
    unfolding admit_rounds.simps option.case
    by (intro wp_bind[of "resolveEnabledPolicies d (ctx_network context)"] wp_resolveEnabledPolicies)
      (auto split: sum.split intro: denied)
qed

lemma admit_unreleased:
  assumes "reservation_id d tx s = Some i" "row_of (bs_reservations s) i = Some r" "rv_status r \<noteq> Released"
  shows "wp (admit d tx operation) (\<lambda>res s'. silent s s' \<and> (\<forall>a. res = Inr a \<longrightarrow> answered operation a)) s"
proof -
  obtain ctx where c: "fst (prepareAdmission d tx s) = Inr ctx" "ctx_id ctx = i"
    using assms(1) by (auto simp: reservation_id_def split: sum.splits)
  let ?Q = "\<lambda>res s'. silent s s' \<and> (\<forall>a. res = Inr a \<longrightarrow> answered operation a)"
  have row: "row_of (bs_reservations u) (ctx_id ctx) = Some r" if "breaker_effect s u" for u
    using that assms(2) c(2) by (simp add: breaker_effect_def breaker_frame_def)
  have rounds: "wp (admit_rounds (Suc k) d ctx operation (rv_attempt r) None) ?Q u" if u: "breaker_effect s u" for u k
  proof (rule wp_first_round, goal_cases)
    case (1 e s')
    then show ?case using effects_silent(1) u breaker.trans by blast
  next
    case (2 policies s1)
    have s1: "breaker_effect s s1" using u 2(1) by (rule breaker.trans)
    show ?case
    proof (rule wp_mono[OF persist_existing[OF row[OF s1] assms(3)]], goal_cases)
      case (1 res s')
      then show ?case using silence.trans[OF effects_silent(1)[OF s1]]
        by (cases res) (auto simp: not_owned_def split: DurableAdmission.splits)
    qed
  qed
  have attempt: "next_attempt (Some r) = rv_attempt r" using assms(3) by (simp add: next_attempt_def)
  show ?thesis
    unfolding admit_def admitAgainstCurrentPolicy_def numeral_2_eq_2
  proof (intro wp_bind wp_prepareAdmission, goal_cases)
    case (2 c0)
    have c0: "c0 = ctx" using 2 c(1) by simp
    show ?case
      unfolding sum.case c0
    proof (intro wp_bind wp_readReservation, goal_cases)
      case (1 e s')
      then show ?case using effects_silent(1) by simp
    next
      case (2 s')
      then show ?case
        using rounds[OF 2] effects_silent(1)[OF 2] row[OF breaker.refl] attempt
        by (auto simp: resolveDurableReplay_def intro!: wp_throw wp_return replay_answered)
    qed
  qed (simp add: silence.refl)
qed

lemma truthy_response:
  "answered OpSign a \<Longrightarrow> truthy (Option.bind (adm_replay a) rv_signedTransaction)"
  "answered OpSend a \<Longrightarrow> truthy (Option.bind (adm_replay a) rv_signature)"
  by (auto simp: answered_def reservationHasResponse_def)

text \<open>A request that is answered from the ledger, or refused, asks nobody.\<close>

lemma unanswered_calls:
  assumes admits: "\<And>operation. wp (admit d tx operation)
    (\<lambda>res s'. silent s s' \<and> (\<forall>a. res = Inr a \<longrightarrow> answered operation a)) s"
  shows "bs_calls (snd (signAsFeePayer d tx s)) = bs_calls s \<and> bs_calls (snd (signAndSend d tx s)) = bs_calls s \<and>
    bs_calls (snd (prepareOwnedSubmission d lifecycle tx s)) = bs_calls s"
proof -
  have "wp (signAsFeePayer d tx) (\<lambda>_ s'. bs_calls s' = bs_calls s) s"
    unfolding signAsFeePayer_def
    by (rule wp_bind, rule wp_mono[OF admits[of OpSign]])
      (auto simp: silent_def truthy_response split: sum.splits intro: wp_return)
  moreover have "wp (signAndSend d tx) (\<lambda>_ s'. bs_calls s' = bs_calls s) s"
    unfolding signAndSend_def
    by (rule wp_bind, rule wp_mono[OF admits[of OpSend]])
      (auto simp: silent_def truthy_response split: sum.splits intro: wp_return)
  moreover have "wp (prepareOwnedSubmission d lifecycle tx) (\<lambda>_ s'. bs_calls s' = bs_calls s) s"
    unfolding prepareOwnedSubmission_def
    by (rule wp_bind, rule wp_mono[OF admits[of OpSign]])
      (auto simp: silent_def answered_def split: sum.splits intro: wp_unavailable)
  ultimately show ?thesis by (simp add: wp_def)
qed

text \<open>C1. A transaction is handed to the fee payer at most once per released attempt: while the ledger has
  a reservation for it that was not released, be it reserved, signed, submitted, committed or
  ambiguous, no sign, send or owned submission of the same transaction asks the provider again. The
  request replays the recorded answer or fails.\<close>

theorem no_second_sponsorship:
  assumes "reservation_id d tx s = Some i" "row_of (bs_reservations s) i = Some r" "rv_status r \<noteq> Released"
  shows "bs_calls (snd (signAsFeePayer d tx s)) = bs_calls s \<and> bs_calls (snd (signAndSend d tx s)) = bs_calls s \<and>
    bs_calls (snd (prepareOwnedSubmission d lifecycle tx s)) = bs_calls s"
  by (rule unanswered_calls[OF admit_unreleased[OF assms]])

section \<open>The provider is asked only within the budget\<close>

text \<open>The row an admission owns.\<close>

definition owned_row :: "AdmissionContext \<Rightarrow> nat \<Rightarrow> budget_session \<Rightarrow> bool" where
  "owned_row context n s \<longleftrightarrow> reservations_wf (bs_reservations s) \<and>
     (\<exists>r. row_of (bs_reservations s) (ctx_id context) = Some r \<and> rv_status r = Reserved \<and> rv_attempt r = n \<and>
        rv_reservedLamports r = ctx_amount context \<and> rv_actualLamports r = None)"

text \<open>Redis work: the ledger and the calls stay.\<close>

definition rows_kept :: "budget_session \<Rightarrow> budget_session \<Rightarrow> bool" where
  "rows_kept s s' \<longleftrightarrow> bs_reservations s' = bs_reservations s \<and> silent s s'"

interpretation kept_rows: effect_relation rows_kept
proof
  fix s s' s'' :: budget_session
  show "only_session s s' \<Longrightarrow> rows_kept s s'"
    using only_session_same[of s s'] silence.session[of s s'] by (simp add: rows_kept_def same_state_def)
  show "rows_kept s s' \<Longrightarrow> rows_kept s' s'' \<Longrightarrow> rows_kept s s''"
    by (auto simp: rows_kept_def intro: silence.trans)
qed

lemma breaker_kept: "breaker_effect s s' \<Longrightarrow> rows_kept s s'"
  by (simp add: rows_kept_def silent_def breaker_effect_def breaker_frame_def)

lemma wp_redis_command:
  assumes "\<And>e s'. rows_kept s s' \<Longrightarrow> Q (Inl e) s'"
    and "\<And>a s'. rows_kept s s' \<Longrightarrow> script (bs_redis s) = (Inr a, bs_redis s') \<Longrightarrow> Q (Inr a) s'"
  shows "wp (redis_command script) Q s"
  unfolding redis_command_def
proof (rule wp_sql)
  fix fs
  obtain r redis where script: "script (bs_redis s) = (r, redis)" by (cases "script (bs_redis s)")
  have "rows_kept s (s\<lparr>sess_faults := fs, bs_redis := redis\<rparr>)" by (simp add: rows_kept_def silent_def)
  then show "wp (\<lambda>s. case script (bs_redis s) of (r, redis) \<Rightarrow> (r, s\<lparr>bs_redis := redis\<rparr>)) Q (s\<lparr>sess_faults := fs\<rparr>)"
    using assms script by (cases r) (auto simp: wp_def)
qed (simp add: assms(1) kept_rows.session)

lemma wp_redis_syncPolicies:
  assumes "\<And>e s'. rows_kept s s' \<Longrightarrow> Q (Inl e) s'"
    and "\<And>s'. rows_kept s s' \<Longrightarrow> bs_redis s' = fold syncPolicy policies (bs_redis s) \<Longrightarrow> Q (Inr ()) s'"
  shows "wp (redis_syncPolicies policies) Q s"
  using assms
proof (induction policies arbitrary: s)
  case Nil
  then show ?case by (simp add: wp_return kept_rows.refl)
next
  case (Cons p ps)
  have step: "wp (redis_syncPolicies ps) Q s1" if "rows_kept s s1" "bs_redis s1 = syncPolicy p (bs_redis s)" for s1
    by (rule Cons.IH) (use Cons.prems that kept_rows.trans[OF that(1)] in auto)
  show ?case
    unfolding redis_syncPolicies.simps redis_syncPolicy_def
    by (intro wp_bind wp_redis_command) (auto simp: Cons.prems(1) intro: step)
qed

text \<open>Command by command, an admission that answers is the pure admission of the Redis class.\<close>

lemma wp_redis_reserve:
  assumes fail: "\<And>e s'. rows_kept s s' \<Longrightarrow> Q (Inl e) s'"
    and ok: "\<And>a s'. rows_kept s s' \<Longrightarrow> reserve input (bs_redis s) = (Inr a, bs_redis s') \<Longrightarrow> Q (Inr a) s'"
  shows "wp (redis_reserve input) Q s"
proof -
  have final: "wp (redis_command (\<lambda>r. map_prod (\<lambda>reply. Inr (reserve_outcome reply)) id
       (reserve_script (admission_keys input) (bai_amount input) limits r))) Q u"
    if "rows_kept s u" "bs_redis u = prepare_window input (bs_redis s)" "admission_limits input = Inr limits" for u limits
    by (rule wp_redis_command)
      (use that in \<open>auto simp: reserve_def Let_def map_prod_def split: prod.splits intro!: fail ok intro: kept_rows.trans\<close>)
  have sync: "wp (io_bind (redis_syncPolicies (bai_policies input)) (\<lambda>_.
     io_bind (io_lift (admission_limits input)) (\<lambda>limits.
     redis_command (\<lambda>r. map_prod (\<lambda>reply. Inr (reserve_outcome reply)) id
       (reserve_script (admission_keys input) (bai_amount input) limits r))))) Q u"
    if u: "rows_kept s u" "initialize_script (admission_keys input)
       (usage_seeds (admission_fields input) (bai_hourUsage input))
       (usage_seeds (admission_fields input) (bai_dayUsage input))
       (bai_liveHour input) (bai_liveDay input) (bs_redis s) = bs_redis u" for u
  proof (intro wp_bind wp_redis_syncPolicies, goal_cases)
    case (1 e s')
    then show ?case using fail kept_rows.trans[OF u(1)] by simp
  next
    case (2 s')
    have "rows_kept s s'" using u(1) 2(1) by (rule kept_rows.trans)
    then show ?case using final[of s'] fail 2(2) u(2)
      by (cases "admission_limits input") (auto simp: prepare_window_def intro: wp_throw)
  qed
  show ?thesis
    unfolding redis_reserve_def
    by (intro wp_bind[of "redis_command _"] wp_redis_command) (auto simp: fail intro: sync)
qed

lemma wp_reserveBudget:
  assumes fail: "\<And>e s'. rows_kept s s' \<Longrightarrow> Q (Inl e) s'"
    and ok: "\<And>a s' snap r0. rows_kept s s' \<Longrightarrow> reserve (budget_input d context policies n snap) r0 = (Inr a, bs_redis s') \<Longrightarrow>
      Q (Inr a) s'"
  shows "wp (reserveBudget d context policies n) Q s"
  unfolding reserveBudget_def
proof (rule wp_catch, rule wp_bind, rule wp_stays[OF loadWindow_stays], goal_cases)
  case (1 res s1)
  have s1: "rows_kept s s1" using 1 by (rule breaker_kept)
  have unavail: "wp (accountingUnavailable (ctx_network context) msg why) Q u" if "rows_kept s u" for u msg why
    using that by (auto intro!: wp_accountingUnavailable fail intro: kept_rows.trans breaker_kept)
  show ?case
  proof (cases res)
    case (Inr snap)
    show ?thesis
      unfolding Inr sum.case
      by (rule wp_redis_reserve)
        (use kept_rows.trans[OF s1] in \<open>auto intro: unavail ok\<close>)
  qed (simp add: unavail s1)
qed

lemma new_row_owned:
  assumes "row_of rows (ctx_id context) = None" "reservations_wf (bs_reservations s)"
    and "bs_reservations s = rows @ [new_reservation (reservation_input d context policies) t]"
  shows "owned_row context 1 s"
proof -
  have "row_of (bs_reservations s) (ctx_id context) = Some (new_reservation (reservation_input d context policies) t)"
    using assms(1) by (simp add: assms(3) row_of_def find_append new_reservation_def reservation_input_def)
  then show ?thesis using assms(2) by (simp add: owned_row_def new_reservation_def reservation_input_def)
qed

lemma row_of_unique: "reservations_wf rows \<Longrightarrow> r \<in> set rows \<Longrightarrow> row_of rows (rv_id r) = Some r"
  by (simp add: reservations_wf_def row_of_def find_key_unique)

lemma row_of_in: "row_of rows i = Some r \<Longrightarrow> r \<in> set rows \<and> rv_id r = i"
  using find_Some_in[of "\<lambda>r. rv_id r = i" rows r] by (simp add: row_of_def)

lemma updated_row:
  assumes "reservations_wf (table_update matching f rows)" "filter matching rows \<noteq> []"
    and "\<And>r. matching r \<Longrightarrow> rv_id r = i \<and> rv_id (f r) = i"
  shows "\<exists>r\<in>set rows. matching r \<and> row_of (table_update matching f rows) i = Some (f r)"
proof -
  obtain r where r: "r \<in> set rows" "matching r" using assms(2) by (auto simp: filter_empty_conv)
  then have "f r \<in> set (table_update matching f rows)" by (auto simp: set_table_update)
  from row_of_unique[OF assms(1) this] show ?thesis using assms(3)[OF r(2)] r by (intro bexI[of _ r]) auto
qed

definition fewer_signatures :: "budget_session \<Rightarrow> budget_session \<Rightarrow> bool" where
  "fewer_signatures s s' \<longleftrightarrow> set (signatures (bs_reservations s')) \<subseteq> set (signatures (bs_reservations s))"

lemma set_signatures: "set (signatures rows) = {x. \<exists>r\<in>set rows. rv_signature r = Some x}"
  by (auto simp: signatures_def map_filter_def image_iff) (metis option.sel)

lemma signatures_append: "signatures (xs @ ys) = signatures xs @ signatures ys"
  by (simp add: signatures_def map_filter_def)

lemma wp_reopen:
  assumes "\<And>e s'. only_session s s' \<Longrightarrow> Q (Inl e) s'"
    and "\<And>s'. silent s s' \<Longrightarrow> Q (Inr None) s'"
    and "\<And>s'. silent s s' \<Longrightarrow> owned_row context (Suc n) s' \<Longrightarrow> fewer_signatures s s' \<Longrightarrow> Q (Inr (Some (Suc n))) s'"
  shows "wp (reopenReleasedReservation (reservation_input d context policies) n) Q s"
  unfolding reopenReleasedReservation_def
proof (intro wp_bind wp_update_reservations wp_return, goal_cases)
  case (1 e s')
  then show ?case using assms(1) by simp
next
  case (2 s')
  let ?input = "reservation_input d context policies"
  let ?f = "reopen_row ?input (sess_clock s)" and ?m = "can_reopen (csr_id ?input) n"
  have silent: "silent s s'" using 2(1) by (simp add: silent_def reservation_frame_def)
  show ?case
  proof (cases "filter ?m (bs_reservations s) = []")
    case True
    then show ?thesis using assms(2)[OF silent] by (auto intro!: wp_return)
  next
    case False
    have "\<exists>r\<in>set (bs_reservations s). ?m r \<and> row_of (bs_reservations s') (ctx_id context) = Some (?f r)"
      unfolding 2(2) by (rule updated_row[OF 2(3)[unfolded 2(2)] False])
        (auto simp: can_reopen_def is_attempt_def reopen_row_def reservation_input_def)
    then have "owned_row context (Suc n) s'"
      using 2(3) by (auto simp: owned_row_def can_reopen_def is_attempt_def reopen_row_def reservation_input_def)
    moreover have "fewer_signatures s s'"
      by (auto simp: fewer_signatures_def set_signatures 2(2) set_table_update reopen_row_def)
    ultimately show ?thesis using assms(3)[OF silent] False by (auto intro!: wp_return)
  qed
qed

text \<open>What persisting a reservation can lead to.\<close>

definition persisted_as :: "sponsor_deps \<Rightarrow> AdmissionContext \<Rightarrow> AdmissionOperation \<Rightarrow> nat \<Rightarrow> budget_session \<Rightarrow>
     DurableAdmission \<Rightarrow> budget_session \<Rightarrow> bool" where
  "persisted_as d context operation n s a s' \<longleftrightarrow> (case a of
     DurableOwned x \<Rightarrow> x = owned_result d context n \<and> owned_row context n s' \<and> fewer_signatures s s'
   | DurableReplay x \<Rightarrow> answered operation x
   | DurableInProgress \<Rightarrow> True)"

lemma existing_persisted:
  "existing_admission context operation existing = Inr a \<Longrightarrow> persisted_as d context operation n s a s'"
  by (auto simp: existing_admission_def persisted_as_def replay_answered split: option.splits if_splits)

lemma fewer_signatures_same: "only_session s s' \<Longrightarrow> fewer_signatures s s'"
  using only_session_same[of s s'] by (simp add: fewer_signatures_def same_state_def)

lemma reopen_or_existing_persisted:
  "wp (reopen_or_existing d context operation policies n)
    (\<lambda>res s'. silent s s' \<and> (\<forall>a. res = Inr a \<longrightarrow> persisted_as d context operation n s a s')) s"
  unfolding reopen_or_existing_def
proof (intro wp_bind wp_getReservation, goal_cases)
  case (1 e s1)
  then show ?case using silence.session by simp
next
  case (2 s1)
  let ?existing = "row_of (bs_reservations s) (ctx_id context)"
  let ?Q = "\<lambda>res s'. silent s s' \<and> (\<forall>a. res = Inr a \<longrightarrow> persisted_as d context operation n s a s')"
  have s1: "silent s s1" "fewer_signatures s s1" using 2 by (simp_all add: silence.session fewer_signatures_same)
  have lift: "wp (io_lift (existing_admission context operation existing)) ?Q u" if "silent s u" for u existing
    using that existing_persisted by (auto intro!: wp_lift)
  have reopen: "wp (reopenReleasedReservation (reservation_input d context policies) m) (\<lambda>res u. case res of
      Inl e \<Rightarrow> ?Q (Inl e) u
    | Inr reopenedAttempt \<Rightarrow> wp (if reopenedAttempt = Some n then io_return (DurableOwned (owned_result d context n))
        else io_lift (existing_admission context operation ?existing)) ?Q u) s1" if "Suc m = n" for m
  proof (rule wp_reopen, goal_cases)
    case (1 e s')
    then show ?case using silence.trans[OF s1(1) silence.session] by simp
  next
    case (2 s')
    then show ?case using silence.trans[OF s1(1)] lift by simp
  next
    case (3 s')
    have "fewer_signatures s s'" using s1(2) 3(3) by (auto simp: fewer_signatures_def)
    then show ?case using 3 silence.trans[OF s1(1) 3(1)] that by (auto simp: persisted_as_def intro!: wp_return)
  qed
  show ?case
    using reopen lift[OF s1(1)]
    by (auto split: option.split intro!: wp_bind[of "reopenReleasedReservation _ _"] wp_if)
qed

lemma persist_persisted:
  "wp (persistReservationDurable d context operation policies n)
    (\<lambda>res s'. silent s s' \<and> (\<forall>a. res = Inr a \<longrightarrow> persisted_as d context operation n s a s')) s"
proof -
  let ?Q = "\<lambda>(res :: (api_error, DurableAdmission) result) s'. silent s s' \<and>
    (\<forall>a. res = Inr a \<longrightarrow> persisted_as d context operation n s a s')"
  let ?P = "\<lambda>res s'. case res of Inl e \<Rightarrow> wp (persistence_failed context e :: DurableAdmission budget_io) ?Q s'
    | Inr a \<Rightarrow> ?Q (Inr a) s'"
  have P: "?P res u" if "?Q res u" for res u
    using that by (cases res) (auto intro!: wp_persistence_failed dest: effects_silent(1) intro: silence.trans)
  have tail: "wp (reopen_or_existing d context operation policies n) ?P u" if u: "only_session s u" for u
  proof (rule wp_mono[OF reopen_or_existing_persisted], rule P, goal_cases)
    case (1 res s')
    have "persisted_as d context operation n s a s'" if "persisted_as d context operation n u a s'" for a
      using that only_session_same[OF u]
      by (auto simp: persisted_as_def fewer_signatures_def same_state_def split: DurableAdmission.splits)
    then show ?case using 1 silence.trans[OF silence.session[OF u]] by blast
  qed
  let ?C = "\<lambda>res u. case res of Inl e \<Rightarrow> ?P (Inl e) u
         | Inr created \<Rightarrow> wp (if created then io_return (DurableOwned (owned_result d context n))
             else reopen_or_existing d context operation policies n) ?P u"
  have create: "wp (createReservation (reservation_input d context policies)) ?C s" if "n = 1"
  proof (rule wp_createReservation, goal_cases)
    case (1 e s')
    then show ?case using P[of s' "Inl e"] silence.session by simp
  next
    case (2 s')
    then show ?case using tail by simp
  next
    case (3 s')
    have "owned_row context 1 s'"
      by (rule new_row_owned[OF _ 3(4,3)]) (use 3(1) in \<open>simp add: reservation_input_def\<close>)
    moreover have "silent s s'" using 3(2) by (simp add: silent_def reservation_frame_def)
    moreover have "fewer_signatures s s'"
      by (auto simp: fewer_signatures_def set_signatures 3(3) new_reservation_def)
    ultimately show ?case using that by (auto simp: persisted_as_def intro!: wp_return)
  qed
  have "wp (if n = 1 then createReservation (reservation_input d context policies) else io_return False) ?C s"
    using create tail[of s] by (auto intro!: wp_return)
  then show ?thesis
    unfolding persistReservationDurable_def by (intro wp_catch wp_bind)
qed

lemma releaseDurable_silent: "stays silent (releaseDurable context n reason)"
  unfolding releaseDurable_def
  by (intro silence.stays_intros stays_weaken[OF accountingUnavailable_stays effects_silent(1)]
      stays_weaken[OF reservation_ops_stay(4) effects_silent(2)] stays_weaken[OF reservation_ops_stay(7) effects_silent(2)])

lemma wp_release_and_throw:
  assumes "\<And>e s'. silent s s' \<Longrightarrow> Q (Inl e) s'"
  shows "wp (io_bind (releaseDurable context n reason) (\<lambda>_. io_throw e)) Q s"
  by (rule wp_bind, rule wp_stays[OF releaseDurable_silent])
    (auto split: sum.split intro!: assms wp_throw)

lemma wp_settle_admission:
  assumes "\<And>e s'. silent s s' \<Longrightarrow> Q (Inl e) s'" "reply = Admitted \<Longrightarrow> Q (Inr x) s"
  shows "wp (settle_admission context n reply x) Q s"
  using assms
  by (cases reply) (auto simp: settle_admission_def unavailable_def intro!: wp_release_and_throw wp_return)

definition within_budget :: "sponsor_deps \<Rightarrow> AdmissionContext \<Rightarrow> nat \<Rightarrow> redis \<Rightarrow> bool" where
  "within_budget d context n redis \<longleftrightarrow> (\<exists>policies snap r0. list_all sbp_enabled policies \<and>
     reserve (budget_input d context policies n snap) r0 = (Inr Admitted, redis))"

text \<open>From an owned row, the reservation of the budget either backs the admission or ends the request.\<close>

lemma wp_reserve_round:
  assumes fail: "\<And>e s'. silent s s' \<Longrightarrow> Q (Inl e) s'" and enabled: "list_all sbp_enabled policies"
    and stale: "\<And>s'. rows_kept s s' \<Longrightarrow> retry \<Longrightarrow> wp again Q s'"
    and admitted: "\<And>s'. rows_kept s s' \<Longrightarrow> within_budget d context n (bs_redis s') \<Longrightarrow> Q (Inr x) s'"
  shows "wp (io_bind (reserveBudget d context policies n) (\<lambda>reply.
    if reply = StalePolicy \<and> retry then again else settle_admission context n reply x)) Q s"
proof (rule wp_bind, rule wp_reserveBudget, goal_cases)
  case (1 e s')
  then show ?case using fail by (simp add: rows_kept_def)
next
  case (2 reply s' snap r0)
  have "Q (Inl e) s''" if "silent s' s''" for e s''
    using fail silence.trans[OF _ that] 2(1) by (simp add: rows_kept_def)
  moreover have "within_budget d context n (bs_redis s')" if "reply = Admitted"
    using 2(2) that enabled by (auto simp: within_budget_def)
  ultimately show ?case using stale admitted 2(1) by (auto intro!: wp_settle_admission)
qed

lemma wp_second_round:
  assumes fail: "\<And>e s'. silent s s' \<Longrightarrow> Q (Inl e) s'"
    and admitted: "\<And>s'. rows_kept s s' \<Longrightarrow> within_budget d context n (bs_redis s') \<Longrightarrow> Q (Inr x) s'"
  shows "wp (admit_rounds 1 d context operation n (Some (DurableOwned x))) Q s"
proof -
  have asserts: "wp (assertSponsorshipEnabled context policies (Some (DurableOwned x)) n) (\<lambda>res s2. case res of
      Inl e \<Rightarrow> Q (Inl e) s2 | Inr _ \<Rightarrow> list_all sbp_enabled policies \<and> s2 = s1) s1" if "breaker_effect s s1" for policies s1
    unfolding assertSponsorshipEnabled_def unavailable_def
    using fail silence.trans[OF effects_silent(1)[OF that]]
    by (auto intro!: wp_return wp_release_and_throw)
  have reserves: "wp (io_bind (reserveBudget d context policies n) (\<lambda>reply.
      if reply = StalePolicy \<and> 0 = (1::nat) then admit_rounds 0 d context operation n (Some (DurableOwned x))
      else settle_admission context n reply x)) Q s1" if "breaker_effect s s1" "list_all sbp_enabled policies" for policies s1
    by (rule wp_reserve_round)
      (use that effects_silent(1)[OF that(1)] breaker_kept[OF that(1)] in
        \<open>auto intro: fail admitted silence.trans kept_rows.trans\<close>)
  have "wp (io_bind (assertSponsorshipEnabled context policies (Some (DurableOwned x)) n) (\<lambda>_.
      io_bind (reserveBudget d context policies n) (\<lambda>reply.
        if reply = StalePolicy \<and> 0 = (1::nat) then admit_rounds 0 d context operation n (Some (DurableOwned x))
        else settle_admission context n reply x))) Q s1" if "breaker_effect s s1" for policies s1
  proof (rule wp_bind, rule wp_mono[OF asserts[OF that]], goal_cases)
    case (1 res s2)
    then show ?case using reserves[OF that] by (cases res) auto
  qed
  then show ?thesis
    unfolding One_nat_def admit_rounds.simps
    by (intro wp_bind[of "resolveEnabledPolicies _ _"] wp_resolveEnabledPolicies)
      (auto split: sum.split intro: fail dest: effects_silent(1))
qed

definition backed :: "sponsor_deps \<Rightarrow> string \<Rightarrow> budget_session \<Rightarrow> AdmissionResult \<Rightarrow> budget_session \<Rightarrow> bool" where
  "backed d tx s a s1 \<longleftrightarrow> (\<exists>context n. fst (prepareAdmission d tx s) = Inr context \<and> a = owned_result d context n \<and>
     owned_row context n s1 \<and> fewer_signatures s s1 \<and> within_budget d context n (bs_redis s1))"

lemma admit_backed:
  "wp (admit d tx operation) (\<lambda>res s1. silent s s1 \<and> (\<forall>a. res = Inr a \<longrightarrow> answered operation a \<or> backed d tx s a s1)) s"
proof -
  let ?Q = "\<lambda>res s1. silent s s1 \<and> (\<forall>a. res = Inr a \<longrightarrow> answered operation a \<or> backed d tx s a s1)"
  have rounds: "wp (admit_rounds (Suc 1) d ctx operation n None) ?Q u"
    if u: "breaker_effect s u" and ctx: "fst (prepareAdmission d tx s) = Inr ctx" for u ctx n
  proof (rule wp_first_round, goal_cases)
    case (1 e s')
    then show ?case using u effects_silent(1) breaker.trans by blast
  next
    case (2 policies s1)
    have s1: "breaker_effect s s1" using u 2(1) by (rule breaker.trans)
    have fewer: "fewer_signatures s s2" if "fewer_signatures s1 s2" for s2
      using that s1 by (simp add: fewer_signatures_def breaker_effect_def breaker_frame_def)
    have backs: "?Q (Inr (owned_result d ctx n)) s3" if "silent s s2" "owned_row ctx n s2" "fewer_signatures s s2" "rows_kept s2 s3"
        "within_budget d ctx n (bs_redis s3)" for s2 s3
      using that ctx by (auto simp: backed_def rows_kept_def owned_row_def fewer_signatures_def intro: silence.trans)
    show ?case
    proof (rule wp_mono[OF persist_persisted], goal_cases)
      case (1 res s2)
      have s2: "silent s s2" using silence.trans[OF effects_silent(1)[OF s1]] 1 by blast
      have owned: "wp (io_bind (reserveBudget d ctx policies n) (\<lambda>reply.
            if reply = StalePolicy \<and> (1::nat) = 1 then admit_rounds 1 d ctx operation n (Some (DurableOwned x))
            else settle_admission ctx n reply x)) ?Q s2"
        if x: "x = owned_result d ctx n" "owned_row ctx n s2" "fewer_signatures s1 s2" for x
      proof (rule wp_reserve_round[OF _ 2(2)], goal_cases)
        case (1 e s')
        then show ?case using silence.trans[OF s2] by simp
      next
        case (2 s')
        then show ?case
          by (intro wp_second_round)
            (use s2 x backs[OF s2 x(2) fewer[OF x(3)]] in
              \<open>auto simp: rows_kept_def intro: silence.trans\<close>)
      next
        case (3 s')
        then show ?case using backs[OF s2 x(2) fewer[OF x(3)] 3] x(1) by simp
      qed
      show ?case using 1 s2 owned
        by (cases res) (auto simp: persisted_as_def split: DurableAdmission.splits)
    qed
  qed
  show ?thesis
    unfolding admit_def admitAgainstCurrentPolicy_def
  proof (intro wp_bind wp_prepareAdmission, goal_cases)
    case (2 ctx)
    show ?case
      unfolding sum.case
    proof (intro wp_bind[of "readReservation _"] wp_readReservation, goal_cases)
      case (1 e s')
      then show ?case using effects_silent(1) by simp
    next
      case (2 s')
      then show ?case
        using rounds[OF 2 \<open>fst (prepareAdmission d tx s) = Inr ctx\<close>] effects_silent(1)[OF 2]
        by (auto simp: resolveDurableReplay_def numeral_2_eq_2 intro!: wp_throw wp_return replay_answered split: option.split)
    qed
  qed (simp add: silence.refl)
qed

text \<open>C2. The fee payer is asked only for sponsored transactions: when signing, sending or preparing an
  owned submission asks the provider, the request was admitted first. The ledger then holds a
  reservation of the whole ceiling for this attempt in the state reserved, every policy of the
  hierarchy was enabled, and the Redis budget admitted the amount.\<close>

theorem provider_asked_only_when_admitted:
  assumes "bs_calls (snd (signAsFeePayer d tx s)) \<noteq> bs_calls s \<or> bs_calls (snd (signAndSend d tx s)) \<noteq> bs_calls s \<or>
    bs_calls (snd (prepareOwnedSubmission d lifecycle tx s)) \<noteq> bs_calls s"
  shows "\<exists>operation context n s1. fst (prepareAdmission d tx s) = Inr context \<and>
    admit d tx operation s = (Inr (owned_result d context n), s1) \<and> owned_row context n s1 \<and>
    within_budget d context n (bs_redis s1)"
proof (rule ccontr)
  assume none: "\<nexists>operation context n s1. fst (prepareAdmission d tx s) = Inr context \<and>
    admit d tx operation s = (Inr (owned_result d context n), s1) \<and> owned_row context n s1 \<and>
    within_budget d context n (bs_redis s1)"
  have admits: "wp (admit d tx operation) (\<lambda>res s1. silent s s1 \<and> (\<forall>a. res = Inr a \<longrightarrow> answered operation a)) s" for operation
  proof (rule wpI)
    fix res s1 assume run: "admit d tx operation s = (res, s1)"
    have "\<not> backed d tx s a s1" if "res = Inr a" for a using none run that by (auto simp: backed_def)
    then show "silent s s1 \<and> (\<forall>a. res = Inr a \<longrightarrow> answered operation a)" using wpD[OF admit_backed run] by blast
  qed
  show False using assms unanswered_calls[OF admits] by blast
qed

section \<open>What may have been spent stays charged\<close>

text \<open>The row of an attempt that is still charged in full.\<close>

definition charged_row :: "AdmissionContext \<Rightarrow> nat \<Rightarrow> budget_session \<Rightarrow> bool" where
  "charged_row context n s \<longleftrightarrow> (\<exists>r. row_of (bs_reservations s) (ctx_id context) = Some r \<and> rv_attempt r = n \<and>
     rv_status r \<in> {Reserved, Submitted, ChargedUnknown} \<and> rv_reservedLamports r = ctx_amount context \<and>
     rv_actualLamports r = None)"

definition still_charged :: "AdmissionContext \<Rightarrow> nat \<Rightarrow> budget_session \<Rightarrow> budget_session \<Rightarrow> bool" where
  "still_charged context n s s' \<longleftrightarrow> charged_row context n s' \<and>
     rd_reservations (bs_redis s') = rd_reservations (bs_redis s)"

lemma still_charged_breaker: "still_charged context n s s1 \<Longrightarrow> breaker_effect s1 s2 \<Longrightarrow> still_charged context n s s2"
  by (simp add: still_charged_def charged_row_def breaker_effect_def breaker_frame_def)

lemma still_charged_session: "still_charged context n s s1 \<Longrightarrow> only_session s1 s2 \<Longrightarrow> still_charged context n s s2"
  by (erule still_charged_breaker, erule breaker.session)

lemma owned_still_charged: "owned_row context n s \<Longrightarrow> rd_reservations (bs_redis s) = rd_reservations (bs_redis s0) \<Longrightarrow>
    still_charged context n s0 s"
  by (auto simp: still_charged_def charged_row_def owned_row_def)

lemma table_update_ids_distinct:
  assumes "\<And>r. matching r \<Longrightarrow> rv_id (f r) = rv_id r" "distinct (map rv_id rows)"
  shows "distinct (map rv_id (table_update matching f rows))"
  using assms by (simp add: table_update_key[of matching rv_id f])

lemma distinct_signatures_update:
  assumes "distinct (map rv_id rows)" "distinct (signatures rows)" "sg \<notin> set (signatures rows)"
    and "\<And>r. matching r \<Longrightarrow> rv_id r = i \<and> rv_signature (f r) = Some sg"
  shows "distinct (signatures (table_update matching f rows))"
  using assms(1-3)
proof (induction rows)
  case (Cons a rows)
  have simps: "signatures (x # xs) = (case rv_signature x of None \<Rightarrow> [] | Some v \<Rightarrow> [v]) @ signatures xs" for x xs
    by (simp add: signatures_def map_filter_simps split: option.split)
  have IH: "distinct (signatures (table_update matching f rows))"
    using Cons by (auto simp: simps split: option.splits)
  have others: "set (signatures (table_update matching f rows)) \<subseteq> insert sg (set (signatures rows))"
    using assms(4) by (auto simp: set_signatures set_table_update)
  show ?case
  proof (cases "matching a")
    case True
    then have "\<not> matching r" if "r \<in> set rows" for r
      using Cons.prems(1) assms(4)[OF True] assms(4)[of r] that by (auto simp: image_iff)
    then have "table_update matching f rows = rows" unfolding table_update_def by (intro map_idI) auto
    then show ?thesis using Cons.prems True assms(4)[OF True]
      by (auto simp: table_update_def simps split: option.splits)
  next
    case False
    then show ?thesis using Cons.prems IH others
      by (auto simp: table_update_def simps split: option.splits)
  qed
qed (simp add: signatures_def)

lemma submitted_charged:
  assumes own: "owned_row context n s" and sg: "sg \<notin> set (signatures (bs_reservations s))"
  shows "wp (markSubmitted (ctx_id context) n sg)
    (\<lambda>res s'. still_charged context n s s' \<and> res \<noteq> Inr DuplicateSignature) s"
  unfolding markSubmitted_def persist_signature_def
proof (intro wp_catch wp_bind wp_update_reservations, goal_cases)
  case (1 e s')
  let ?rows = "table_update (is_attempt (ctx_id context) n [Reserved, Signed]) (submit_row sg (sess_clock s)) (bs_reservations s)"
  have wf: "distinct (map rv_id (bs_reservations s))" "distinct (signatures (bs_reservations s))"
    using own by (auto simp: owned_row_def reservations_wf_def)
  have "distinct (map rv_id ?rows)"
    by (rule table_update_ids_distinct[OF _ wf(1)]) (simp add: submit_row_def)
  moreover have "distinct (signatures ?rows)"
    by (rule distinct_signatures_update[OF wf sg]) (auto simp: is_attempt_def submit_row_def)
  ultimately have "e \<noteq> UniqueViolation" using 1(2) by blast
  then show ?case
    using still_charged_session[OF owned_still_charged[OF own refl] 1(1)] by (auto intro!: wp_throw)
next
  case (2 s')
  obtain r where r: "row_of (bs_reservations s) (ctx_id context) = Some r" "rv_status r = Reserved" "rv_attempt r = n"
    "rv_reservedLamports r = ctx_amount context" "rv_actualLamports r = None"
    using own by (auto simp: owned_row_def)
  let ?m = "is_attempt (ctx_id context) n [Reserved, Signed]"
  have "row_of (bs_reservations s') (ctx_id context) =
      map_option (\<lambda>r. if ?m r then submit_row sg (sess_clock s) r else r) (row_of (bs_reservations s) (ctx_id context))"
    unfolding 2(2) row_of_def by (rule find_table_update) (simp add: submit_row_def)
  then have "charged_row context n s'"
    using r row_of_in[OF r(1)] by (auto simp: charged_row_def submit_row_def is_attempt_def)
  then show ?case using 2(1) by (auto simp: still_charged_def reservation_frame_def intro!: wp_return)
qed

lemma ambiguous_charged:
  assumes own: "owned_row context n s"
  shows "wp (markChargedUnknown (ctx_id context) n reason) (\<lambda>_ s'. still_charged context n s s') s"
  unfolding markChargedUnknown_def one_updated_def
proof (intro wp_bind wp_update_reservations, goal_cases)
  case (1 e s')
  then show ?case using still_charged_session[OF owned_still_charged[OF own refl]] by simp
next
  case (2 s')
  obtain r where r: "row_of (bs_reservations s) (ctx_id context) = Some r" "rv_status r = Reserved" "rv_attempt r = n"
    "rv_reservedLamports r = ctx_amount context" "rv_actualLamports r = None"
    using own by (auto simp: owned_row_def)
  let ?m = "is_attempt (ctx_id context) n [Reserved, Signed, Submitted]"
  have "row_of (bs_reservations s') (ctx_id context) =
      map_option (\<lambda>r. if ?m r then charge_row reason (sess_clock s) r else r) (row_of (bs_reservations s) (ctx_id context))"
    unfolding 2(2) row_of_def by (rule find_table_update) (simp add: charge_row_def)
  then have "charged_row context n s'"
    using r row_of_in[OF r(1)] by (auto simp: charged_row_def charge_row_def is_attempt_def)
  then show ?case using 2(1) by (auto simp: still_charged_def reservation_frame_def intro!: wp_return)
qed

lemma wp_unavailable_charged:
  "still_charged context n s u \<Longrightarrow> wp (accountingUnavailable network msg why) (\<lambda>_ s'. still_charged context n s s') u"
  by (rule wp_accountingUnavailable) (rule still_charged_breaker)

lemma markAmbiguous_charged:
  assumes "owned_row context n s" "adm_id a = ctx_id context" "adm_attempt a = n"
  shows "wp (markAmbiguous d a e) (\<lambda>_ s'. still_charged context n s s') s"
proof -
  have persists: "wp (io_catch (markChargedUnknown (adm_id a) (adm_attempt a) (errorMessage e))
      (\<lambda>_. accountingUnavailable (sd_network d) msg why)) (\<lambda>_ s'. still_charged context n s s') s" for msg why
    unfolding assms(2,3)
    by (rule wp_catch, rule wp_mono[OF ambiguous_charged[OF assms(1)]])
      (auto split: sum.split intro: wp_unavailable_charged)
  show ?thesis
    unfolding markAmbiguous_def
    by (rule wp_bind, rule wp_mono[OF persists])
      (auto split: sum.split intro!: wp_return intro: wp_unavailable_charged)
qed

lemma durablyAdvanced_reads: "io_reads (durablyAdvanced a statuses)"
  unfolding durablyAdvanced_def io_reads_def
  using io_readsD[OF getReservation_reads]
  by (auto simp: io_catch_def io_bind_def io_return_def split: prod.split sum.split)

lemma provider_call_charged:
  assumes "owned_row context n s" "rd_reservations (bs_redis s) = rd_reservations (bs_redis s0)"
  shows "owned_row context n (s\<lparr>bs_calls := calls\<rparr>)" "still_charged context n s0 (s\<lparr>bs_calls := calls\<rparr>)"
  using assms by (auto simp: owned_row_def still_charged_def charged_row_def)

definition may_have_spent :: "sponsor_deps \<Rightarrow> string \<Rightarrow> budget_session \<Rightarrow> bool" where
  "may_have_spent d tx s \<longleftrightarrow> (case sd_signAndSend d tx of
     Inl e \<Rightarrow> \<not> isDeterministicProviderRejection e
   | Inr signature \<Rightarrow> signature \<notin> set (signatures (bs_reservations s)))"

lemma record_submission_charged:
  assumes own: "owned_row context n u" and a: "adm_id a = ctx_id context" "adm_attempt a = n"
    and sg: "sg \<notin> set (signatures (bs_reservations u))"
  shows "wp (record_submission d a sg) (\<lambda>_ s'. still_charged context n u s') u"
proof -
  have mark: "wp (io_catch (markSubmitted (adm_id a) (adm_attempt a) sg) (\<lambda>_. accountingUnavailable (sd_network d) msg why))
      (\<lambda>res s'. still_charged context n u s' \<and> res \<noteq> Inr DuplicateSignature) u" for msg why
    unfolding a
  proof (rule wp_catch, rule wp_mono[OF submitted_charged[OF own sg]], goal_cases)
    case (1 res s')
    then show ?case
      by (cases res) (auto intro!: wp_accountingUnavailable intro: still_charged_breaker)
  qed
  have advanced: "wp (io_bind (durablyAdvanced a statuses) (\<lambda>advanced. if advanced then io_return sg
         else accountingUnavailable network msg why)) (\<lambda>_ s'. still_charged context n u s') v"
    if "still_charged context n u v" for statuses network msg why v
    by (rule wp_bind, rule wp_reads[OF durablyAdvanced_reads])
      (use still_charged_session[OF that] in \<open>auto split: sum.split intro!: wp_return wp_unavailable_charged\<close>)
  show ?thesis
    unfolding record_submission_def
  proof (rule wp_bind, rule wp_mono[OF mark], goal_cases)
    case (1 res s')
    then show ?case by (cases res) (auto intro: advanced wp_return)
  qed
qed

lemma wp_provider_send:
  "Q (sd_signAndSend d tx) (s\<lparr>bs_calls := bs_calls s @ [CalledSend tx]\<rparr>) \<Longrightarrow> wp (provider_signAndSend d tx) Q s"
  by (simp add: wp_def provider_signAndSend_def)

lemma reserve_holds:
  assumes "reserve input r = (Inr Admitted, r')"
  shows "rd_reservations r' (bai_network input, Attempt (bai_reservationId input) (bai_attempt input)) = Some (bai_amount input)"
proof -
  obtain limits reply where run: "reserve_script (admission_keys input) (bai_amount input) limits (prepare_window input r) = (reply, r')"
    "reserve_outcome reply = Admitted"
    using assms by (auto simp: reserve_def Let_def split: sum.splits prod.splits)
  obtain a where "reply = ReplyAdmitted a" using run(2) by (cases reply) auto
  from reserve_admitted(6)[OF run(1)[unfolded this]] show ?thesis
    by (simp add: admission_keys_def keys_for_def)
qed

lemma within_budget_holds:
  "within_budget d context n r \<Longrightarrow> rd_reservations r (ctx_network context, Attempt (ctx_id context) n) = Some (ctx_amount context)"
  by (auto simp: within_budget_def budget_input_def dest!: reserve_holds)

text \<open>C3. Money that may have been spent stays charged: when a send asked the provider and the provider
  returned a new signature, or failed in a way that does not prove that nothing was sent, then
  however recording the outcome goes, at whatever statement the request is cut short, the
  reservation is not released. Its attempt stays reserved, submitted or ambiguous, is charged with
  the full ceiling, and the amount stays reserved in Redis.\<close>

theorem possible_spend_stays_charged:
  assumes "bs_calls (snd (signAndSend d tx s)) \<noteq> bs_calls s" "may_have_spent d tx s"
  shows "\<exists>context n. fst (prepareAdmission d tx s) = Inr context \<and> charged_row context n (snd (signAndSend d tx s)) \<and>
    rd_reservations (bs_redis (snd (signAndSend d tx s))) (ctx_network context, Attempt (ctx_id context) n) =
      Some (ctx_amount context)"
proof -
  let ?Q = "\<lambda>s'. \<exists>context n. fst (prepareAdmission d tx s) = Inr context \<and> charged_row context n s' \<and>
    rd_reservations (bs_redis s') (ctx_network context, Attempt (ctx_id context) n) = Some (ctx_amount context)"
  have "wp (signAndSend d tx) (\<lambda>_ s'. bs_calls s' \<noteq> bs_calls s \<longrightarrow> ?Q s') s"
    unfolding signAndSend_def
  proof (rule wp_bind, rule wp_mono[OF admit_backed], goal_cases)
    case (1 res s1)
    show ?case
    proof (cases res)
      case (Inl e)
      then show ?thesis using 1 by (simp add: silent_def)
    next
      case (Inr a)
      consider "answered OpSend a" | "backed d tx s a s1" using 1 Inr by blast
      then show ?thesis
      proof cases
        case 1
        then show ?thesis using \<open>silent s s1 \<and> _\<close> Inr truthy_response(2)
          by (auto simp: silent_def intro!: wp_return)
      next
        case 2
        then obtain ctx n where b: "fst (prepareAdmission d tx s) = Inr ctx" "a = owned_result d ctx n"
          "owned_row ctx n s1" "fewer_signatures s s1" "within_budget d ctx n (bs_redis s1)"
          by (auto simp: backed_def)
        let ?u = "s1\<lparr>bs_calls := bs_calls s1 @ [CalledSend tx]\<rparr>"
        have a: "adm_id a = ctx_id ctx" "adm_attempt a = n" "adm_replay a = None" by (simp_all add: b(2) owned_result_def)
        have own: "owned_row ctx n ?u" by (rule provider_call_charged(1)[OF b(3) refl])
        have goal: "?Q s'" if "still_charged ctx n ?u s'" for s'
          using that b(1) within_budget_holds[OF b(5)] by (auto simp: still_charged_def)
        have fails: "wp (io_bind (markAmbiguous d a e) (\<lambda>_. io_throw e)) (\<lambda>r s'. case r of
            Inl _ \<Rightarrow> still_charged ctx n ?u s' | Inr (sg :: string) \<Rightarrow> False) ?u" for e
          by (rule wp_bind, rule wp_mono[OF markAmbiguous_charged[OF own a(1,2)]])
            (auto split: sum.split intro!: wp_throw)
        have sg: "sg \<notin> set (signatures (bs_reservations ?u))" if "sd_signAndSend d tx = Inr sg" for sg
          using assms(2) b(4) that by (auto simp: may_have_spent_def fewer_signatures_def)
        have "wp (io_bind (io_catch (provider_signAndSend d tx)
            (\<lambda>e. io_bind (if isDeterministicProviderRejection e
                then releaseDeterministic d a e BeforeSubmission
                else markAmbiguous d a e) (\<lambda>_. io_throw e))) (record_submission d a)) (\<lambda>_ s'. still_charged ctx n ?u s') s1"
        proof (rule wp_bind, rule wp_catch, rule wp_provider_send, cases "sd_signAndSend d tx", goal_cases)
          case (1 e)
          then show ?case using assms(2) by (auto simp: may_have_spent_def intro!: wp_mono[OF fails] split: sum.splits)
        next
          case (2 signature)
          then show ?case using record_submission_charged[OF own a(1,2) sg] by simp
        qed
        then show ?thesis unfolding Inr sum.case a(3)
          by (simp add: truthy_def) (erule wp_mono, use goal in blast)
      qed
    qed
  qed
  then show ?thesis using assms(1) by (simp add: wp_def)
qed

section \<open>Runs without faults\<close>

lemma sql_clear: "sess_faults s = [] \<Longrightarrow> sql m s = m s"
  by (simp add: sql_def)

lemma redis_command_clear:
  "sess_faults s = [] \<Longrightarrow> redis_command script s = (fst (script (bs_redis s)), s\<lparr>bs_redis := snd (script (bs_redis s))\<rparr>)"
  by (simp add: redis_command_def sql_clear case_prod_unfold)

lemma redis_syncPolicies_clear:
  "sess_faults s = [] \<Longrightarrow> redis_syncPolicies policies s = (Inr (), s\<lparr>bs_redis := fold syncPolicy policies (bs_redis s)\<rparr>)"
  by (induction policies arbitrary: s)
    (simp_all add: io_return_def io_bind_def redis_syncPolicy_def redis_command_clear)

text \<open>Without faults the commands of an admission are the admission of the Redis class.\<close>

lemma redis_reserve_clear:
  assumes "sess_faults s = []"
  shows "redis_reserve input s = (fst (reserve input (bs_redis s)), s\<lparr>bs_redis := snd (reserve input (bs_redis s))\<rparr>)"
  using assms
  by (cases "admission_limits input")
    (simp_all add: redis_reserve_def io_bind_def redis_command_clear redis_syncPolicies_clear io_lift_def reserve_def
      prepare_window_def case_prod_unfold Let_def)

lemma loadWindow_clear:
  assumes "sess_faults s = []"
  shows "loadWindowAdmissionSnapshot input excluded s = (Inr
    \<lparr>snap_hourUsage = fst (usage_of_rows input excluded (bs_reservations s)),
     snap_dayUsage = snd (usage_of_rows input excluded (bs_reservations s)),
     snap_liveHour = fst (live_of_rows input excluded (bs_reservations s)),
     snap_liveDay = snd (live_of_rows input excluded (bs_reservations s))\<rparr>, s)"
  using assms
  by (simp add: loadWindowAdmissionSnapshot_def transaction_def io_bind_def sql_clear io_return_def getWindowUsage_def
      listLiveWindowReservations_def io_get_def case_prod_unfold)

lemmas clear_simps = sql_clear io_bind_def io_catch_def io_return_def io_get_def io_lift_def

section \<open>Examples\<close>

definition example_deps :: sponsor_deps where
  "example_deps =
     \<lparr>sd_SOLANA_NETWORK = ''devnet'',
      sd_scope = \<lparr>ss_environment = Sandbox, ss_organizationId = ''org'', ss_projectId = Some ''prj'',
        ss_actorType = ''api_key'', ss_actorId = ''k1''\<rparr>,
      sd_getSponsorshipConfiguration = Some (Inr \<lparr>spc_signerAddress = ''payer'', spc_maxAllowedLamports = 35,
        spc_feePayerMayTransferLamports = True, spc_feePayerPolicy = JObj []\<rparr>),
      sd_getNetworkFee = (\<lambda>_. Inr 5), sd_signAsFeePayer = (\<lambda>tx. Inr (''signed:'' @ tx)),
      sd_signAndSend = (\<lambda>_. Inr ''sig1''),
      sd_decode = (\<lambda>tx. Inr \<lparr>dt_messageBytes = tx, dt_lifetimeToken = Some ''bh''\<rparr>),
      sd_signatureOf = (\<lambda>_. Inr ''sig1''), sd_isFullySigned = (\<lambda>_. True), sd_sha256 = (\<lambda>b. b),
      sd_sha256_json = (\<lambda>_. ''digest''), sd_collate = map of_char, sd_encodeBase64 = (\<lambda>b. b),
      sd_decodeBase64 = (\<lambda>b. b)\<rparr>"

definition example_lifecycle :: OwnedSubmissionLifecycle where
  "example_lifecycle = \<lparr>osl_persistSigned = (\<lambda>_ _. Inr ()), osl_markStarted = Inr (), osl_hasStarted = Inr True\<rparr>"


text \<open>The steps of a send from the initial ledger.\<close>

definition example_context :: AdmissionContext where
  "example_context =
     \<lparr>ctx_id = ''sbr_digest'', ctx_network = Devnet, ctx_amount = 40, ctx_transactionDigest = ''tx'',
      ctx_feePayer = ''payer'', ctx_providerConfigFingerprint = ''digest'', ctx_recentBlockhash = ''bh'',
      ctx_hourBucket = ''1970-01-01T00:00:00.000Z'', ctx_dayBucket = ''1970-01-01T00:00:00.000Z''\<rparr>"

definition example_row :: ReservationRow where
  "example_row = new_reservation (reservation_input example_deps example_context (bs_policies example_ledger)) 1000"

definition example_persisted :: budget_session where
  "example_persisted = example_ledger\<lparr>bs_reservations := [example_row]\<rparr>"

definition example_budget :: "reserve_result budget_io" where
  "example_budget = reserveBudget example_deps example_context (bs_policies example_ledger) 1"

definition example_redis :: redis where
  "example_redis = bs_redis (snd (example_budget example_persisted))"

definition example_sent :: budget_session where
  "example_sent = example_persisted\<lparr>bs_redis := example_redis, bs_calls := [CalledSend ''tx''],
     bs_reservations := [submit_row ''sig1'' 1000 example_row]\<rparr>"

lemma example_ledger_simps:
  "sess_faults example_ledger = []" "bs_calls example_ledger = []" "sess_clock example_ledger = 1000"
  "bs_reservations example_ledger = []" "bs_redis example_ledger = empty_redis" "list_all sbp_enabled (bs_policies example_ledger)"
  by (simp_all add: example_ledger_def example_policy_def)

lemma example_prepare: "fst (prepareAdmission example_deps ''tx'' example_ledger) = Inr example_context"
  by code_simp

lemma example_reads:
  "readReservation example_context example_ledger = (Inr None, example_ledger)"
  "resolveEnabledPolicies example_deps Devnet example_ledger = (Inr (bs_policies example_ledger), example_ledger)"
  "assertSponsorshipEnabled example_context (bs_policies example_ledger) None 1 example_ledger = (Inr (), example_ledger)"
proof -
  have "select_policies Devnet ''org'' (Some ''prj'') (bs_policies example_ledger) = Inr (bs_policies example_ledger)" by code_simp
  then show "resolveEnabledPolicies example_deps Devnet example_ledger = (Inr (bs_policies example_ledger), example_ledger)"
    by (simp add: resolveEnabledPolicies_def resolvePolicies_def clear_simps example_ledger_simps example_deps_def)
qed (simp_all add: readReservation_def getReservation_def assertSponsorshipEnabled_def clear_simps example_ledger_simps)

lemma example_persist:
  "persistReservationDurable example_deps example_context OpSend (bs_policies example_ledger) 1 example_ledger =
     (Inr (DurableOwned (owned_result example_deps example_context 1)), example_persisted)"
proof -
  have "reservation_checks example_row" "rv_signature example_row = None" by code_simp+
  then show ?thesis
    by (simp add: persistReservationDurable_def createReservation_def clear_simps example_ledger_simps put_reservations_def
        signatures_def map_filter_simps example_persisted_def example_row_def[symmetric])
qed

lemma example_reserve: "example_budget example_persisted = (Inr Admitted, example_persisted\<lparr>bs_redis := example_redis\<rparr>)"
proof -
  let ?input = "budget_input example_deps example_context (bs_policies example_ledger) 1
    \<lparr>snap_hourUsage = \<lparr>sbu_global = 0, sbu_organization = 0, sbu_project = 0\<rparr>,
     snap_dayUsage = \<lparr>sbu_global = 0, sbu_organization = 0, sbu_project = 0\<rparr>, snap_liveHour = [], snap_liveDay = []\<rparr>"
  have admitted: "fst (reserve ?input empty_redis) = Inr Admitted" by code_simp
  have id: "rv_id example_row = ctx_id example_context" "ctx_id example_context \<noteq> []" by code_simp+
  have "example_budget example_persisted = (fst (reserve ?input empty_redis), example_persisted\<lparr>bs_redis := snd (reserve ?input empty_redis)\<rparr>)"
    using admitted id
    by (simp add: example_budget_def reserveBudget_def io_catch_def io_bind_def loadWindow_clear redis_reserve_clear
        example_persisted_def example_ledger_simps usage_of_rows_def live_of_rows_def in_window_def not_excluded_def
        window_usage_def charge_sum_def)
  then show ?thesis using admitted by (simp add: example_redis_def)
qed

lemma example_submit:
  "markSubmitted ''sbr_digest'' 1 ''sig1'' (example_persisted\<lparr>bs_redis := example_redis, bs_calls := [CalledSend ''tx'']\<rparr>) =
     (Inr Persisted, example_sent)"
proof -
  have "reservation_checks (submit_row ''sig1'' 1000 example_row)" "is_attempt ''sbr_digest'' 1 [Reserved, Signed] example_row"
    "rv_signature (submit_row ''sig1'' 1000 example_row) = Some ''sig1''" by code_simp+
  then show ?thesis
    by (simp add: markSubmitted_def persist_signature_def update_reservations_def clear_simps put_reservations_def
        table_update_def signatures_def map_filter_simps example_persisted_def example_ledger_simps example_sent_def)
qed

lemma example_send: "signAndSend example_deps ''tx'' example_ledger = (Inr ''sig1'', example_sent)"
proof -
  have prepare: "prepareAdmission example_deps ''tx'' example_ledger = (Inr example_context, example_ledger)"
    using example_prepare prepareAdmission_state by (metis prod.collapse)
  have net: "ctx_network example_context = Devnet" "ctx_id example_context = ''sbr_digest''" by (simp_all add: example_context_def)
  have "admit example_deps ''tx'' OpSend example_ledger =
      (Inr (owned_result example_deps example_context 1), example_persisted\<lparr>bs_redis := example_redis\<rparr>)"
    using example_reserve
    by (simp add: admit_def admitAgainstCurrentPolicy_def numeral_2_eq_2 admit_rounds.simps io_bind_def io_lift_def prepare
        example_reads example_reads[unfolded One_nat_def] example_persist[unfolded One_nat_def] resolveDurableReplay_def
        next_attempt_def net example_budget_def settle_admission_def io_return_def)
  then show ?thesis
    using example_submit
    by (simp add: signAndSend_def io_bind_def owned_result_def truthy_def provider_signAndSend_def io_catch_def
        record_submission_def io_return_def example_deps_def net example_persisted_def example_ledger_simps)
qed

lemma prepareAdmission_clock:
  "sess_clock s = sess_clock s' \<Longrightarrow> fst (prepareAdmission d tx s) = fst (prepareAdmission d tx s')"
  by (simp add: prepareAdmission_def unavailable_def io_throw_def io_bind_def now_def io_get_def io_lift_def
      split: option.split sum.split prod.split)

theorem no_second_sponsorship_witness:
  "bs_calls example_sent = [CalledSend ''tx''] \<and>
   bs_calls (snd (signAndSend example_deps ''tx'' example_sent)) = bs_calls example_sent"
proof -
  have "sess_clock example_sent = sess_clock example_ledger" "bs_reservations example_sent = [submit_row ''sig1'' 1000 example_row]"
    "bs_calls example_sent = [CalledSend ''tx'']"
    by (simp_all add: example_sent_def example_persisted_def)
  moreover have "reservation_id example_deps ''tx'' example_sent = Some ''sbr_digest''"
    using example_prepare prepareAdmission_clock[OF calculation(1)]
    by (simp add: reservation_id_def example_context_def)
  moreover have "rv_id (submit_row ''sig1'' 1000 example_row) = ''sbr_digest''"
    "rv_status (submit_row ''sig1'' 1000 example_row) \<noteq> Released" by code_simp+
  ultimately show ?thesis
    using no_second_sponsorship[of example_deps "''tx''" example_sent "''sbr_digest''"
        "submit_row ''sig1'' 1000 example_row" example_lifecycle]
    by (simp add: row_of_def)
qed

lemma example_send_asks: "bs_calls (snd (signAndSend example_deps ''tx'' example_ledger)) \<noteq> bs_calls example_ledger"
  by (simp add: example_send example_sent_def example_ledger_simps)

theorem provider_asked_only_when_admitted_witness:
  "\<exists>operation context n s1. fst (prepareAdmission example_deps ''tx'' example_ledger) = Inr context \<and>
    admit example_deps ''tx'' operation example_ledger = (Inr (owned_result example_deps context n), s1) \<and>
    owned_row context n s1 \<and> within_budget example_deps context n (bs_redis s1)"
  by (rule provider_asked_only_when_admitted[of _ _ _ example_lifecycle]) (use example_send_asks in blast)

theorem possible_spend_stays_charged_witness:
  "\<exists>context n. fst (prepareAdmission example_deps ''tx'' example_ledger) = Inr context \<and>
    charged_row context n (snd (signAndSend example_deps ''tx'' example_ledger)) \<and>
    rd_reservations (bs_redis (snd (signAndSend example_deps ''tx'' example_ledger)))
      (ctx_network context, Attempt (ctx_id context) n) = Some (ctx_amount context)"
  by (rule possible_spend_stays_charged[OF example_send_asks])
    (simp add: may_have_spent_def example_deps_def example_ledger_simps signatures_def)

end
