(* ===== verification/Sponsorship_Reconcile.thy ===== *)
theory Sponsorship_Reconcile
  imports Sponsorship_Budget
begin

text \<open>
  The reconciliation job (\<^verbatim>\<open>services/jobs/reconcile-sponsorship-budgets.ts\<close>): it takes the reservations that
  are due, compares each with the chain, settles what was confirmed, keeps what may have been spent,
  and repairs Redis; it trips the circuit breaker when the books disagree and resumes a breaker that
  was tripped only because the provider's configuration could not be read. The RPC, the provider and
  its configuration reads are parameters, indexed by the attempt where the job retries; sleeping and
  logging have no effect.
\<close>

section \<open>Parameters\<close>

definition RECONCILIATION_DELAY_MS :: int where
  "RECONCILIATION_DELAY_MS = 120000"

definition RECONCILIATION_BATCH_SIZE :: nat where
  "RECONCILIATION_BATCH_SIZE = 250"

definition PROVIDER_CONFIG_READ_ATTEMPTS :: nat where
  "PROVIDER_CONFIG_READ_ATTEMPTS = 3"

definition CONSECUTIVE_CONFIG_FAILURES_BEFORE_TRIP :: nat where
  "CONSECUTIVE_CONFIG_FAILURES_BEFORE_TRIP = 3"

definition KORA_CONFIG_UNAVAILABLE_BREAKER_REASON :: string where
  "KORA_CONFIG_UNAVAILABLE_BREAKER_REASON = ''Kora security configuration was unavailable during reconciliation''"

definition BREAKER_RECOVERY_REASON :: string where
  "BREAKER_RECOVERY_REASON = ''Kora security configuration became readable again during reconciliation''"

text \<open>What the job uses of a confirmed transaction: the balances before and after, per account.\<close>

record confirmed_transaction =
  ct_preBalances :: "int list option"
  ct_postBalances :: "int list option"

record reconcile_deps =
  rdp_SOLANA_NETWORK :: string
  rdp_getTransaction :: "string \<Rightarrow> (api_error, confirmed_transaction option) result"
  rdp_isBlockhashValid :: "string \<Rightarrow> (api_error, bool) result"
  rdp_getProviderConfiguration :: "nat \<Rightarrow> (api_error, SponsorshipProviderConfiguration) result"
  rdp_fingerprint :: "SponsorshipProviderConfiguration \<Rightarrow> string"
  rdp_assertIsSignature :: "string \<Rightarrow> (api_error, unit) result"
  rdp_assertIsBlockhash :: "string \<Rightarrow> (api_error, unit) result"

datatype ReconciliationOutcome = RedisSynced | OutCommitted | OutChargedUnknown | StillValid | AwaitingExpiry

section \<open>One reservation\<close>

definition reconcile_tripBreaker :: "SponsorshipNetwork \<Rightarrow> string \<Rightarrow> bool \<Rightarrow> unit budget_io" where
  "reconcile_tripBreaker network reason recoverable =
     io_bind (tripGlobalBreaker network reason recoverable) (\<lambda>policy. case policy of
         None \<Rightarrow> io_return ()
       | Some p \<Rightarrow> redis_syncPolicy p)"

text \<open>\<^verbatim>\<open>balances?.[0]\<close>.\<close>

definition first_balance :: "int list option \<Rightarrow> int option" where
  "first_balance balances = (case balances of Some (b # bs) \<Rightarrow> Some b | _ \<Rightarrow> None)"

definition feePayerSpendLamports :: "int list option \<Rightarrow> int list option \<Rightarrow> (api_error, int) result" where
  "feePayerSpendLamports preBalances postBalances =
     (case (first_balance preBalances, first_balance postBalances) of
        (Some before, Some after) \<Rightarrow>
          (let delta = (if before > after then before - after else 0) in
           if delta > MAX_SAFE_INTEGER
           then Inl (PlainError ''Fee-payer balance delta exceeds JavaScript safe integer range'')
           else Inr delta)
      | _ \<Rightarrow> Inl (PlainError ''Confirmed transaction omitted fee-payer balance data''))"

definition settlement_of :: "ReservationRow \<Rightarrow> int \<Rightarrow> AdmissionSettlement" where
  "settlement_of reservation actualLamports =
     \<lparr>ac_network = rv_network reservation, ac_organizationId = rv_organizationId reservation,
      ac_projectId = rv_projectId reservation, ac_hourBucket = rv_hourBucket reservation,
      ac_dayBucket = rv_dayBucket reservation, ac_reservationId = rv_id reservation,
      ac_attempt = rv_attempt reservation, as_reservedLamports = rv_reservedLamports reservation,
      as_actualLamports = actualLamports\<rparr>"

definition syncRedisSettlement :: "ReservationRow \<Rightarrow> int \<Rightarrow> unit budget_io" where
  "syncRedisSettlement reservation actualLamports =
     io_catch
       (io_bind (redis_settle (settlement_of reservation actualLamports) actualLamports True) (\<lambda>_.
        io_bind (markRedisSettled (rv_id reservation) (rv_attempt reservation)) (\<lambda>persisted.
        if persisted then io_return ()
        else io_throw (PlainError ''Redis settlement lost its durable reservation ownership''))))
       (\<lambda>e. io_bind (reconcile_tripBreaker (rv_network reservation)
           ''Redis settlement failed after durable ledger settlement'' False) (\<lambda>_. io_throw e))"

definition settleDurably :: "ReservationRow \<Rightarrow> settled_status \<Rightarrow> int \<Rightarrow> string option \<Rightarrow> unit budget_io" where
  "settleDurably reservation status actualLamports reason =
     io_bind (settleReservation (rv_id reservation) (rv_attempt reservation) status actualLamports reason) (\<lambda>settled.
     if settled then syncRedisSettlement reservation actualLamports else io_return ())"

definition persistAmbiguousCharge :: "ReservationRow \<Rightarrow> string \<Rightarrow> string \<Rightarrow> string \<Rightarrow> unit budget_io" where
  "persistAmbiguousCharge reservation reason breakerReason lostTransitionError =
     io_bind (markChargedUnknown (rv_id reservation) (rv_attempt reservation) reason) (\<lambda>persisted.
     if persisted then io_return ()
     else io_bind (getReservation (rv_id reservation)) (\<lambda>current.
       if (case current of
             None \<Rightarrow> False
           | Some r \<Rightarrow> rv_attempt r \<noteq> rv_attempt reservation \<or> rv_status r \<in> {ChargedUnknown, Committed, Released})
       then io_return ()
       else io_bind (reconcile_tripBreaker (rv_network reservation) breakerReason False)
         (\<lambda>_. io_throw (PlainError lostTransitionError))))"

definition reconcileReservation :: "reconcile_deps \<Rightarrow> ReservationRow \<Rightarrow> ReconciliationOutcome budget_io" where
  "reconcileReservation d reservation =
     (if rv_status reservation \<in> {Committed, Released} then
        (case rv_actualLamports reservation of
           None \<Rightarrow> io_throw (PlainError ''Terminal sponsorship reservation omitted actual lamports'')
         | Some actualLamports \<Rightarrow>
             io_bind (syncRedisSettlement reservation actualLamports) (\<lambda>_. io_return RedisSynced))
      else if \<not> truthy (rv_signature reservation) then
        io_bind (persistAmbiguousCharge reservation
          ''No signature was durably captured before reconciliation timeout''
          ''Signature-less ambiguous reservation lost its durable transition''
          ''Failed to persist signature-less ambiguous sponsorship outcome'') (\<lambda>_. io_return OutChargedUnknown)
      else
        (let signature = the (rv_signature reservation) in
         io_bind (io_lift (rdp_assertIsSignature d signature)) (\<lambda>_.
         io_bind (io_lift (rdp_getTransaction d signature)) (\<lambda>confirmed.
         case confirmed of
           Some t \<Rightarrow>
             io_bind (io_lift (feePayerSpendLamports (ct_preBalances t) (ct_postBalances t))) (\<lambda>actualLamports.
             io_bind (if actualLamports > rv_reservedLamports reservation
                then reconcile_tripBreaker (rv_network reservation)
                  (''Actual sponsorship spend '' @ int_string actualLamports @ '' exceeded reservation '' @
                   int_string (rv_reservedLamports reservation)) False
                else io_return ()) (\<lambda>_.
             io_bind (settleDurably reservation SettleCommitted actualLamports None) (\<lambda>_. io_return OutCommitted)))
         | None \<Rightarrow>
             io_bind (io_lift (rdp_assertIsBlockhash d (rv_recentBlockhash reservation))) (\<lambda>_.
             io_bind (io_lift (rdp_isBlockhashValid d (rv_recentBlockhash reservation))) (\<lambda>valid.
             if valid then io_return StillValid
             else if rv_missCount reservation = 0 then
               io_bind (recordReconciliationMiss (rv_id reservation) (rv_attempt reservation) 0)
                 (\<lambda>_. io_return AwaitingExpiry)
             else
               io_bind (persistAmbiguousCharge reservation
                 ''Signature absent after blockhash expiry on two reconciliation passes''
                 ''Ambiguous unconfirmed reservation lost its durable transition''
                 ''Failed to retain ambiguous unconfirmed sponsorship charge'') (\<lambda>_. io_return OutChargedUnknown)))))))"

section \<open>The job\<close>

definition isRecoverableBreakerTrip :: "SponsorshipBudgetPolicy option \<Rightarrow> bool" where
  "isRecoverableBreakerTrip policy = (case policy of
     None \<Rightarrow> False
   | Some p \<Rightarrow> \<not> sbp_enabled p \<and> sbp_updatedBy p = SPONSORSHIP_BREAKER_OPERATOR \<and>
       sbp_updateReason p = KORA_CONFIG_UNAVAILABLE_BREAKER_REASON)"

text \<open>The loop over \<^verbatim>\<open>attempt = 1, 2, 3\<close>: the arguments are the attempts left after this one and its number.\<close>

fun read_configuration :: "(nat \<Rightarrow> (api_error, 'c) result) \<Rightarrow> nat \<Rightarrow> nat \<Rightarrow> (api_error, 'c) result" where
  "read_configuration get 0 attempt = get attempt"
| "read_configuration get (Suc left) attempt =
     (case get attempt of Inr c \<Rightarrow> Inr c | Inl _ \<Rightarrow> read_configuration get left (Suc attempt))"

definition readProviderConfiguration ::
  "reconcile_deps \<Rightarrow> (api_error, SponsorshipProviderConfiguration) result" where
  "readProviderConfiguration d =
     read_configuration (rdp_getProviderConfiguration d) (PROVIDER_CONFIG_READ_ATTEMPTS - 1) 1"

definition handleProviderConfigFailure :: "SponsorshipNetwork \<Rightarrow> unit budget_io" where
  "handleProviderConfigFailure network =
     io_bind (recordProviderConfigFailure network) (\<lambda>consecutiveFailures.
     if consecutiveFailures \<ge> CONSECUTIVE_CONFIG_FAILURES_BEFORE_TRIP
     then reconcile_tripBreaker network KORA_CONFIG_UNAVAILABLE_BREAKER_REASON True
     else io_return ())"

text \<open>The body of the loop over the batch: the outcome of a reservation, or the failure that is collected.\<close>

definition reconcile_one ::
  "reconcile_deps \<Rightarrow> SponsorshipProviderConfiguration \<Rightarrow> ReservationRow \<Rightarrow> ReconciliationOutcome budget_io" where
  "reconcile_one d providerConfiguration reservation =
     (if rv_feePayer reservation \<noteq> spc_signerAddress providerConfiguration \<or>
         rv_providerConfigFingerprint reservation \<noteq> rdp_fingerprint d providerConfiguration
      then io_bind (reconcile_tripBreaker (rv_network reservation)
          ''Kora signer or security configuration changed during sponsorship reconciliation'' False)
        (\<lambda>_. io_throw (PlainError ''Kora signer or security configuration does not match the reservation''))
      else reconcileReservation d reservation)"

fun reconcile_batch :: "reconcile_deps \<Rightarrow> SponsorshipProviderConfiguration \<Rightarrow> ReservationRow list \<Rightarrow>
     (api_error list \<times> ReconciliationOutcome list) budget_io" where
  "reconcile_batch d c [] = io_return ([], [])"
| "reconcile_batch d c (reservation # rest) = (\<lambda>s.
     case reconcile_one d c reservation s of
       (Inr outcome, s1) \<Rightarrow>
         io_bind (reconcile_batch d c rest) (\<lambda>(failures, outcomes). io_return (failures, outcome # outcomes)) s1
     | (Inl failure, s1) \<Rightarrow>
         io_bind (reconcile_batch d c rest) (\<lambda>(failures, outcomes). io_return (failure # failures, outcomes)) s1)"

definition recover_breaker :: "SponsorshipNetwork \<Rightarrow> unit budget_io" where
  "recover_breaker network =
     io_bind (resumeGlobalBreaker network KORA_CONFIG_UNAVAILABLE_BREAKER_REASON BREAKER_RECOVERY_REASON) (\<lambda>resumed.
     case resumed of None \<Rightarrow> io_return () | Some p \<Rightarrow> redis_syncPolicy p)"

definition reconcileSponsorshipBudgets :: "reconcile_deps \<Rightarrow> ReconciliationOutcome list budget_io" where
  "reconcileSponsorshipBudgets d =
     (let network = resolveNetwork (rdp_SOLANA_NETWORK d) in
      io_bind now (\<lambda>t.
      io_bind (listReconciliationCandidates network (t - RECONCILIATION_DELAY_MS) RECONCILIATION_BATCH_SIZE)
        (\<lambda>reservations.
      io_bind (getGlobalPolicy network) (\<lambda>globalPolicy.
      if reservations = [] \<and> \<not> isRecoverableBreakerTrip globalPolicy then io_return []
      else
        (case readProviderConfiguration d of
           Inl _ \<Rightarrow>
             io_bind (if reservations \<noteq> [] then handleProviderConfigFailure network else io_return ())
               (\<lambda>_. io_throw (PlainError ''Kora security configuration is unavailable''))
         | Inr providerConfiguration \<Rightarrow>
             io_bind (resetProviderConfigFailures network) (\<lambda>_.
             io_bind (if isRecoverableBreakerTrip globalPolicy then recover_breaker network else io_return ()) (\<lambda>_.
             io_bind (reconcile_batch d providerConfiguration reservations) (\<lambda>(failures, outcomes).
             if failures \<noteq> []
             then io_throw (AggregateError failures ''One or more sponsorship reservations failed reconciliation'')
             else io_return outcomes))))))))"

section \<open>Every reservation of the batch is processed\<close>

text \<open>A failing reservation does not stop the job: the loop over a batch always ends with one outcome
  or one collected failure for every reservation, whatever fails at whatever statement.\<close>

theorem batch_processes_every_reservation:
  "\<exists>failures outcomes. fst (reconcile_batch d c batch s) = Inr (failures, outcomes) \<and>
     length failures + length outcomes = length batch"
proof (induction batch arbitrary: s)
  case Nil
  show ?case by (simp add: io_return_def)
next
  case (Cons r rest)
  obtain res s1 where run: "reconcile_one d c r s = (res, s1)" by (cases "reconcile_one d c r s")
  obtain failures outcomes s2 where rest: "reconcile_batch d c rest s1 = (Inr (failures, outcomes), s2)"
    "length failures + length outcomes = length rest"
    using Cons.IH[of s1] by (metis prod.collapse)
  show ?case using rest by (cases res) (auto simp: run io_bind_def io_return_def)
qed

section \<open>A short outage of the provider changes nothing\<close>

lemma wp_candidates:
  assumes "\<And>e s'. only_session s s' \<Longrightarrow> Q (Inl e) s'"
    and "\<And>s'. only_session s s' \<Longrightarrow> Q (Inr (take limit (sort_key (\<lambda>r. (rv_updatedAt r, rv_id r))
      (filter (needs_reconciliation network t) (bs_reservations s))))) s'"
  shows "wp (listReconciliationCandidates network t limit) Q s"
  unfolding listReconciliationCandidates_def by (intro wp_sql wp_get) (use assms in auto)

lemma getGlobalPolicy_reads: "io_reads (getGlobalPolicy network)"
  unfolding getGlobalPolicy_def by (intro reads_intros)

text \<open>A short outage of the provider does not disable sponsorship: as long as the failed reads of the
  provider's configuration, this one included, are fewer than three in a row, a job that cannot read
  it fails without touching any policy or reservation.\<close>

theorem short_outage_keeps_policies:
  assumes "readProviderConfiguration d = Inl e"
    and "(case bs_config_failures s (resolveNetwork (rdp_SOLANA_NETWORK d)) of None \<Rightarrow> 0 | Some k \<Rightarrow> k) + 1
      < CONSECUTIVE_CONFIG_FAILURES_BEFORE_TRIP"
  shows "bs_policies (snd (reconcileSponsorshipBudgets d s)) = bs_policies s \<and>
    bs_reservations (snd (reconcileSponsorshipBudgets d s)) = bs_reservations s"
proof -
  let ?network = "resolveNetwork (rdp_SOLANA_NETWORK d)"
  let ?Q = "\<lambda>_ s'. bs_policies s' = bs_policies s \<and> bs_reservations s' = bs_reservations s"
  have same: "?Q r u \<and> bs_config_failures u = bs_config_failures s" if "only_session s u" for r u
    using only_session_same[OF that] by (simp add: same_state_def reservation_frame_def)
  have fails: "wp (handleProviderConfigFailure ?network) ?Q u" if u: "only_session s u" for u
  proof -
    have few: "\<not> (case bs_config_failures u ?network of None \<Rightarrow> 1 | Some k \<Rightarrow> k + 1) \<ge> CONSECUTIVE_CONFIG_FAILURES_BEFORE_TRIP"
      using assms(2) same[OF u] by (auto split: option.splits)
    show ?thesis
      unfolding handleProviderConfigFailure_def recordProviderConfigFailure_def Let_def
    proof (intro wp_bind wp_sql, goal_cases)
      case (1 fs)
      have "wp (if n \<ge> CONSECUTIVE_CONFIG_FAILURES_BEFORE_TRIP
          then reconcile_tripBreaker ?network KORA_CONFIG_UNAVAILABLE_BREAKER_REASON True else io_return ())
          ?Q (u\<lparr>sess_faults := fs, bs_config_failures := f\<rparr>)" if "\<not> n \<ge> CONSECUTIVE_CONFIG_FAILURES_BEFORE_TRIP" for n f
        unfolding if_not_P[OF that] by (rule wp_return) (use same[OF u] in auto)
      from this[OF few] show ?case unfolding wp_def by auto
    next
      case (2 e fs)
      then show ?case using same[OF u] by auto
    qed
  qed
  have "wp (reconcileSponsorshipBudgets d) ?Q s"
    unfolding reconcileSponsorshipBudgets_def Let_def assms(1) sum.case
  proof (intro wp_bind[of now] wp_bind[of "listReconciliationCandidates _ _ _"] wp_bind[of "getGlobalPolicy _"] wp_now
      wp_candidates, unfold sum.case, intro wp_bind[of "listReconciliationCandidates _ _ _"] wp_candidates, goal_cases)
    case (1 e s1)
    then show ?case using same[OF 1] by simp
  next
    case (2 s1)
    show ?case
      unfolding sum.case
    proof (intro wp_bind[of "getGlobalPolicy _"] wp_reads[OF getGlobalPolicy_reads], goal_cases)
      case (1 res s2)
      have s2: "only_session s s2" using 2 1 by (rule only_session_trans)
      have "wp (io_bind (handleProviderConfigFailure ?network) (\<lambda>_. io_throw e)) ?Q s2" for e
        by (rule wp_bind, rule wp_mono[OF fails[OF s2]]) (auto split: sum.split intro!: wp_throw)
      then show ?case
        using same[OF s2] by (cases res) (auto intro!: wp_if wp_return wp_throw)
    qed
  qed
  then show ?thesis by (simp add: wp_def)
qed

section \<open>What the job does to a reservation\<close>

text \<open>The spend the chain shows for a reservation.\<close>

definition confirmed_spend :: "reconcile_deps \<Rightarrow> ReservationRow \<Rightarrow> int \<Rightarrow> bool" where
  "confirmed_spend d r actual \<longleftrightarrow> (\<exists>signature t. rv_signature r = Some signature \<and>
     rdp_getTransaction d signature = Inr (Some t) \<and>
     feePayerSpendLamports (ct_preBalances t) (ct_postBalances t) = Inr actual)"

definition job_row :: "reconcile_deps \<Rightarrow> ReservationRow \<Rightarrow> ReservationRow \<Rightarrow> bool" where
  "job_row d r r' \<longleftrightarrow> rv_id r' = rv_id r \<and> rv_attempt r' = rv_attempt r \<and> rv_signature r' = rv_signature r \<and>
     rv_reservedLamports r' = rv_reservedLamports r \<and>
     (rv_status r' = rv_status r \<and> rv_actualLamports r' = rv_actualLamports r \<or>
      live_status (rv_status r) \<and> rv_status r' = ChargedUnknown \<and> rv_actualLamports r' = rv_actualLamports r \<or>
      rv_status r \<in> {Signed, Submitted} \<and> rv_status r' = Committed \<and>
        (\<exists>actual. confirmed_spend d r actual \<and> rv_actualLamports r' = Some actual))"

lemma job_row_refl [simp]: "job_row d r r"
  by (simp add: job_row_def)

lemma job_row_trans: "job_row d r r' \<Longrightarrow> job_row d r' r'' \<Longrightarrow> job_row d r r''"
  by (auto simp: job_row_def confirmed_spend_def live_status_def)

definition job_effect :: "reconcile_deps \<Rightarrow> budget_session \<Rightarrow> budget_session \<Rightarrow> bool" where
  "job_effect d s s' \<longleftrightarrow> (\<forall>i. rel_option (job_row d) (row_of (bs_reservations s) i) (row_of (bs_reservations s') i))"

text \<open>A row of the batch and the ledger's row of the same attempt have the same signature.\<close>

definition agree :: "ReservationRow \<Rightarrow> budget_session \<Rightarrow> bool" where
  "agree c s \<longleftrightarrow> (\<forall>r. row_of (bs_reservations s) (rv_id c) = Some r \<longrightarrow> rv_attempt r = rv_attempt c \<longrightarrow>
     rv_signature r = rv_signature c)"

definition job_for :: "reconcile_deps \<Rightarrow> ReservationRow set \<Rightarrow> budget_session \<Rightarrow> budget_session \<Rightarrow> bool" where
  "job_for d B s s' \<longleftrightarrow> ((\<forall>c\<in>B. agree c s) \<longrightarrow> job_effect d s s')"

lemma job_effect_trans:
  assumes "job_effect d s s'" "job_effect d s' s''"
  shows "job_effect d s s''"
  unfolding job_effect_def
proof
  fix i
  show "rel_option (job_row d) (row_of (bs_reservations s) i) (row_of (bs_reservations s'') i)"
    using assms[unfolded job_effect_def, rule_format, of i]
    by (auto simp: option.rel_sel intro: job_row_trans)
qed

lemma job_effect_agree: "job_effect d s s' \<Longrightarrow> agree c s \<Longrightarrow> agree c s'"
  unfolding job_effect_def agree_def
  by (auto simp: option_rel_Some2 job_row_def dest!: spec[of _ "rv_id c"])

lemma job_effect_same: "bs_reservations s' = bs_reservations s \<Longrightarrow> job_effect d s s'"
  by (simp add: job_effect_def option.rel_refl)

interpretation job: effect_relation "job_for d B" for d B
proof
  fix s s' s'' :: budget_session
  show "only_session s s' \<Longrightarrow> job_for d B s s'"
    by (drule only_session_same) (simp add: same_state_def job_for_def job_effect_same)
  show "job_for d B s s' \<Longrightarrow> job_for d B s' s'' \<Longrightarrow> job_for d B s s''"
    unfolding job_for_def using job_effect_agree job_effect_trans by blast
qed

lemma job_breaker_op: "stays breaker_effect m \<Longrightarrow> stays (job_for d B) m"
  by (erule stays_weaken) (simp add: breaker_effect_def breaker_frame_def job_for_def job_effect_same)

lemma reconcile_tripBreaker_stays: "stays breaker_effect (reconcile_tripBreaker network reason recoverable)"
  unfolding reconcile_tripBreaker_def
  by (intro breaker.stays_intros redis_syncPolicy_stays stays_weaken[OF policy_ops_stay(2) effects_silent(3)])

lemma job_redis_command: "stays (job_for d B) (redis_command script)"
  by (rule redis_command_stays) (simp_all add: job_for_def job_effect_same job.effect_relation_axioms)

lemma job_update:
  assumes "\<And>s t r. (\<forall>c\<in>B. agree c s) \<Longrightarrow> row_of (bs_reservations s) (rv_id r) = Some r \<Longrightarrow> matching r \<Longrightarrow> job_row d r (change t r)"
    and "\<And>t r. rv_id (change t r) = rv_id r"
  shows "stays (job_for d B) (update_reservations matching change)"
proof (rule staysI)
  fix s :: budget_session
  have row: "row_of (table_update matching (change t) (bs_reservations s)) i =
      map_option (\<lambda>r. if matching r then change t r else r) (row_of (bs_reservations s) i)" for t i
    unfolding row_of_def by (rule find_table_update) (rule assms(2))
  have "job_effect d s s'"
    if "bs_reservations s' = table_update matching (change (sess_clock s)) (bs_reservations s)" "\<forall>c\<in>B. agree c s" for s'
    unfolding job_effect_def that(1) row
  proof
    fix i
    show "rel_option (job_row d) (row_of (bs_reservations s) i)
        (map_option (\<lambda>r. if matching r then change (sess_clock s) r else r) (row_of (bs_reservations s) i))"
      using assms(1)[OF that(2)] row_of_in[of "bs_reservations s" i]
      by (cases "row_of (bs_reservations s) i") auto
  qed
  then have "wp (update_reservations matching change) (\<lambda>_ s'. job_for d B s s') s"
    by (intro wp_update_reservations) (auto simp: job_for_def intro: job.session[unfolded job_for_def, rule_format])
  then show "job_for d B s (snd (update_reservations matching change s))" by (simp add: wp_def)
qed

lemma job_one_updated: "stays (job_for d B) m \<Longrightarrow> stays (job_for d B) (one_updated m)"
  unfolding one_updated_def by (intro job.stays_intros)

lemma job_marks:
  "stays (job_for d B) (markRedisSettled i n)" "stays (job_for d B) (recordReconciliationMiss i n k)"
  "stays (job_for d B) (markChargedUnknown i n reason)"
  unfolding markRedisSettled_def recordReconciliationMiss_def markChargedUnknown_def
  by (intro job_one_updated job_update; auto simp: job_row_def is_attempt_def row_defs live_status_def)+

lemma job_settle:
  assumes "c \<in> B" "confirmed_spend d c actual"
  shows "stays (job_for d B) (settleReservation (rv_id c) (rv_attempt c) SettleCommitted actual why)"
  unfolding settleReservation_def
proof (intro job_one_updated job_update)
  fix s t r
  assume all: "\<forall>c\<in>B. agree c s" and row: "row_of (bs_reservations s) (rv_id r) = Some r"
    and m: "is_attempt (rv_id c) (rv_attempt c) [Signed, Submitted] r"
  have "rv_signature r = rv_signature c" using all assms(1) row m by (auto simp: agree_def is_attempt_def)
  then have "confirmed_spend d r actual" using assms(2) by (simp add: confirmed_spend_def)
  then show "job_row d r (settle_row (settled_row_status SettleCommitted) actual why t r)"
    using m by (auto simp: job_row_def is_attempt_def settle_row_def)
qed (simp add: settle_row_def)

lemmas job_parts = job_marks job_redis_command job_breaker_op[OF reconcile_tripBreaker_stays]
  job.stays_reads[OF getReservation_reads]

lemma job_syncRedisSettlement: "stays (job_for d B) (syncRedisSettlement r actual)"
  unfolding syncRedisSettlement_def redis_settle_def by (intro job.stays_intros job_parts)

lemma job_persistAmbiguousCharge: "stays (job_for d B) (persistAmbiguousCharge r a b c)"
  unfolding persistAmbiguousCharge_def by (intro job.stays_intros job_parts)

lemma job_settleDurably:
  assumes "c \<in> B" "confirmed_spend d c actual"
  shows "stays (job_for d B) (settleDurably c SettleCommitted actual why)"
  unfolding settleDurably_def by (intro job.stays_intros job_settle[OF assms] job_syncRedisSettlement)

lemma job_reconcileReservation:
  assumes "c \<in> B"
  shows "stays (job_for d B) (reconcileReservation d c)"
  unfolding reconcileReservation_def Let_def
proof (intro job.stays_if job.stays_option job.stays_lift, goal_cases)
  case (7 _ confirmed t actual)
  then have "confirmed_spend d c actual"
    by (cases "rv_signature c") (auto simp: confirmed_spend_def truthy_def)
  then show ?case by (intro job.stays_intros job_parts job_settleDurably[OF assms])
qed (intro job.stays_intros job_parts job_syncRedisSettlement job_persistAmbiguousCharge)+

lemma job_reconcile_batch:
  assumes "set batch \<subseteq> B"
  shows "stays (job_for d B) (reconcile_batch d configuration batch)"
  using assms
proof (induction batch)
  case Nil
  show ?case by (simp add: job.stays_pure)
next
  case (Cons c rest)
  have one: "stays (job_for d B) (reconcile_one d configuration c)"
    unfolding reconcile_one_def using Cons.prems
    by (intro job.stays_intros job_parts job_reconcileReservation) simp_all
  have rest: "stays (job_for d B) (io_bind (reconcile_batch d configuration rest) (\<lambda>(failures, outcomes). io_return (g failures outcomes)))"
    for g :: "_ \<Rightarrow> _ \<Rightarrow> api_error list \<times> ReconciliationOutcome list"
    using Cons by (intro job.stays_intros) simp
  show ?case
  proof (rule staysI)
    fix s
    show "job_for d B s (snd (reconcile_batch d configuration (c # rest) s))"
      using staysD2[OF one, of s] job.trans[OF _ staysD[OF rest]]
      by (cases "reconcile_one d configuration c s"; cases "fst (reconcile_one d configuration c s)") auto
  qed
qed

lemma job_config_ops:
  "stays (job_for d B) (recordProviderConfigFailure network)" "stays (job_for d B) (resetProviderConfigFailures network)"
  by (rule stays_weaken[OF config_ops_stay(1)] stays_weaken[OF config_ops_stay(2)],
      simp add: config_effect_def policy_frame_def job_for_def job_effect_same)+

lemma recover_breaker_stays: "stays breaker_effect (recover_breaker network)"
  unfolding recover_breaker_def
  by (intro breaker.stays_intros redis_syncPolicy_stays stays_weaken[OF policy_ops_stay(3) effects_silent(3)])

lemma job_provider_configuration:
  "stays (job_for d B) (resetProviderConfigFailures network)" "stays (job_for d B) (handleProviderConfigFailure network)"
  "stays (job_for d B) (recover_breaker network)"
  unfolding handleProviderConfigFailure_def
  by (intro job.stays_intros job_parts job_config_ops job_breaker_op[OF recover_breaker_stays])+

lemma job_effect_of_job:
  assumes wf: "reservations_wf (bs_reservations s)"
  shows "job_effect d s (snd (reconcileSponsorshipBudgets d s))"
proof -
  let ?network = "resolveNetwork (rdp_SOLANA_NETWORK d)"
  let ?Q = "\<lambda>(_ :: (api_error, ReconciliationOutcome list) result) s'. job_effect d s s'"
  have same: "job_effect d s u" if "only_session s u" for u
    using only_session_same[OF that] by (simp add: same_state_def job_effect_same)
  have rest: "stays (job_for d (set reservations)) (io_bind (getGlobalPolicy ?network) (\<lambda>globalPolicy.
      if reservations = [] \<and> \<not> isRecoverableBreakerTrip globalPolicy then io_return []
      else
        (case readProviderConfiguration d of
           Inl _ \<Rightarrow>
             io_bind (if reservations \<noteq> [] then handleProviderConfigFailure ?network else io_return ())
               (\<lambda>_. io_throw (PlainError ''Kora security configuration is unavailable''))
         | Inr providerConfiguration \<Rightarrow>
             io_bind (resetProviderConfigFailures ?network) (\<lambda>_.
             io_bind (if isRecoverableBreakerTrip globalPolicy then recover_breaker ?network else io_return ()) (\<lambda>_.
             io_bind (reconcile_batch d providerConfiguration reservations) (\<lambda>(failures, outcomes).
             if failures \<noteq> []
             then io_throw (AggregateError failures ''One or more sponsorship reservations failed reconciliation'')
             else io_return outcomes))))))" for reservations
    by (intro job.stays_intros job.stays_result job_provider_configuration job_reconcile_batch
        job.stays_reads[OF getGlobalPolicy_reads]) simp
  have "wp (reconcileSponsorshipBudgets d) ?Q s"
    unfolding reconcileSponsorshipBudgets_def Let_def
  proof (intro wp_bind[of now] wp_now, unfold sum.case, intro wp_bind[of "listReconciliationCandidates _ _ _"] wp_candidates,
      goal_cases)
    case (1 e u)
    then show ?case by (simp add: same)
  next
    case (2 u)
    let ?batch = "take RECONCILIATION_BATCH_SIZE (sort_key (\<lambda>r. (rv_updatedAt r, rv_id r))
      (filter (needs_reconciliation ?network (sess_clock s - RECONCILIATION_DELAY_MS)) (bs_reservations s)))"
    have "c \<in> set (bs_reservations s)" if "c \<in> set ?batch" for c
      using in_set_takeD[OF that] by simp
    moreover have "agree c u" if "c \<in> set (bs_reservations s)" for c
      using row_of_unique[OF wf that] only_session_same[OF 2] by (simp add: agree_def same_state_def)
    ultimately have "\<forall>c\<in>set ?batch. agree c u" by blast
    then have "job_effect d s s'" if "job_for d (set ?batch) u s'" for s'
      using that same[OF 2] job_effect_trans by (auto simp: job_for_def)
    then show ?case unfolding sum.case by (rule wp_stays[OF rest])
  qed
  then show ?thesis by (simp add: wp_def)
qed

text \<open>C7. The job never refunds a reservation it cannot account for: for every reservation of the ledger, a run of the job, with any faults and any answers of
  the chain, either keeps its status and amount, or charges it in full (a reservation still in flight
  becomes \<^verbatim>\<open>charged_unknown\<close> with no settled amount), or commits a signed one with exactly the amount
  the confirmed transaction of its signature took from the fee payer. It is never released, and its
  attempt, signature and reserved amount stay.\<close>

theorem reconciliation_never_refunds:
  assumes "reservations_wf (bs_reservations s)" "row_of (bs_reservations s) i = Some r"
  shows "\<exists>r'. row_of (bs_reservations (snd (reconcileSponsorshipBudgets d s))) i = Some r' \<and> job_row d r r'"
  using job_effect_of_job[OF assms(1), of d] assms(2)
  by (auto simp: job_effect_def option_rel_Some1 dest!: spec[of _ i])

section \<open>A commit reaches both books\<close>

definition settled_in_redis :: "ReservationRow \<Rightarrow> budget_session \<Rightarrow> bool" where
  "settled_in_redis c s \<longleftrightarrow> rd_settlements (bs_redis s) (rv_network c, Attempt (rv_id c) (rv_attempt c)) \<noteq> None"

definition settled_row :: "ReservationRow \<Rightarrow> SponsorshipReservationStatus \<Rightarrow> int \<Rightarrow> bool \<Rightarrow> budget_session \<Rightarrow> bool" where
  "settled_row c status actual synced s \<longleftrightarrow> (\<exists>r. row_of (bs_reservations s) (rv_id c) = Some r \<and>
     rv_attempt r = rv_attempt c \<and> rv_status r = status \<and> rv_actualLamports r = Some actual \<and>
     (synced \<longrightarrow> rv_redisSettledAt r \<noteq> None))"

lemma one_attempt:
  assumes "reservations_wf rows" "row_of rows i = Some r" "is_attempt i n statuses r"
  shows "length (filter (is_attempt i n statuses) rows) = 1"
proof -
  have r: "r \<in> set rows" "rv_id r = i" using row_of_in[OF assms(2)] by auto
  have d: "distinct (map rv_id rows)" using assms(1) by (simp add: reservations_wf_def)
  then have "set (filter (is_attempt i n statuses) rows) = {r}"
    using r assms(3) by (auto simp: is_attempt_def distinct_map dest: inj_onD)
  moreover have "distinct (filter (is_attempt i n statuses) rows)" using d by (simp add: distinct_map)
  ultimately show ?thesis using distinct_card by fastforce
qed

text \<open>A change of one attempt that is there: it fails, or it changes that row and reports one row.\<close>

lemma wp_change_attempt:
  assumes wf: "reservations_wf (bs_reservations s)" and row: "row_of (bs_reservations s) i = Some r"
    and r: "is_attempt i n statuses r" and key: "\<And>t r. rv_id (change t r) = rv_id r"
    and fails: "\<And>e s'. Q (Inl e) s'"
    and works: "\<And>s'. bs_redis s' = bs_redis s \<Longrightarrow> reservations_wf (bs_reservations s') \<Longrightarrow>
      row_of (bs_reservations s') i = Some (change (sess_clock s) r) \<Longrightarrow> Q (Inr True) s'"
  shows "wp (one_updated (update_reservations (is_attempt i n statuses) change)) Q s"
  unfolding one_updated_def
proof (intro wp_bind wp_update_reservations, goal_cases)
  case (1 e s')
  show ?case by (simp add: fails)
next
  case (2 s')
  have "row_of (bs_reservations s') i = map_option (\<lambda>r. if is_attempt i n statuses r then change (sess_clock s) r else r)
      (row_of (bs_reservations s) i)"
    unfolding 2(2) row_of_def by (rule find_table_update) (rule key)
  then have "row_of (bs_reservations s') i = Some (change (sess_clock s) r)" using row r by simp
  then have "Q (Inr True) s'" using 2 by (intro works) (auto simp: reservation_frame_def)
  then show ?case using one_attempt[OF wf row r] by (auto intro!: wp_return)
qed

lemma settle_settled:
  assumes "settle k organizationId projectId reserved actual detectMissing r = (Inr delta, r')"
  shows "rd_settlements r' (bk_network k, bk_owner k) \<noteq> None"
  using assms by (auto simp: settle_def settle_script_def Let_def split: if_splits option.splits prod.splits)

lemma wp_syncRedisSettlement:
  assumes wf: "reservations_wf (bs_reservations s)" and row: "settled_row c Committed actual False s"
  shows "wp (syncRedisSettlement c actual')
    (\<lambda>res s'. res = Inr () \<longrightarrow> settled_row c Committed actual True s' \<and> settled_in_redis c s') s"
  unfolding syncRedisSettlement_def redis_settle_def
proof (rule wp_catch, intro wp_bind[of "redis_command _"] wp_redis_command, goal_cases)
  case (1 e s')
  show ?case unfolding sum.case by (intro wp_bind wp_stays[OF reconcile_tripBreaker_stays]) (auto split: sum.split intro!: wp_throw)
next
  case (2 a s1)
  have rows: "bs_reservations s1 = bs_reservations s" using 2(1) by (simp add: rows_kept_def)
  obtain r where r: "row_of (bs_reservations s) (rv_id c) = Some r" "rv_attempt r = rv_attempt c" "rv_status r = Committed"
    "rv_actualLamports r = Some actual"
    using row by (auto simp: settled_row_def)
  have redis: "settled_in_redis c s1"
    using settle_settled[OF 2(2)] by (simp add: settled_in_redis_def settlement_of_def keys_for_def)
  have handler: "wp (io_bind (reconcile_tripBreaker n why b) (\<lambda>_. io_throw e))
      (\<lambda>res s'. res = Inr () \<longrightarrow> settled_row c Committed actual True s' \<and> settled_in_redis c s') u" for n why b e u
    by (intro wp_bind wp_stays[OF reconcile_tripBreaker_stays]) (auto split: sum.split intro!: wp_throw)
  show ?case
    unfolding sum.case markRedisSettled_def
  proof (intro wp_bind wp_change_attempt[of s1 "rv_id c" r], goal_cases)
    case (6 s')
    have "settled_row c Committed actual True s'"
      using r 6(3) by (simp add: settled_row_def redis_settled_row_def)
    then show ?case using redis 6(1) by (auto simp: settled_in_redis_def intro!: wp_return)
  qed (use wf r row_of_in[OF r(1)] in \<open>auto simp: rows is_attempt_def redis_settled_row_def intro: handler\<close>)
qed

lemma wp_settleDurably:
  assumes wf: "reservations_wf (bs_reservations s)" and row: "row_of (bs_reservations s) (rv_id c) = Some c"
    and status: "rv_status c \<in> {Signed, Submitted}"
  shows "wp (settleDurably c SettleCommitted actual why)
    (\<lambda>res s'. res = Inr () \<longrightarrow> settled_row c Committed actual True s' \<and> settled_in_redis c s') s"
  unfolding settleDurably_def settleReservation_def
proof (intro wp_bind wp_change_attempt[of s "rv_id c" c], goal_cases)
  case (6 s')
  have "settled_row c Committed actual False s'" using 6(3) by (simp add: settled_row_def settle_row_def)
  from wp_syncRedisSettlement[OF 6(2) this] show ?case by simp
qed (use wf row status in \<open>auto simp: is_attempt_def settle_row_def\<close>)

lemma wp_lift_bind:
  "(\<And>e. r = Inl e \<Longrightarrow> Q (Inl e) s) \<Longrightarrow> (\<And>a. r = Inr a \<Longrightarrow> wp (f a) Q s) \<Longrightarrow> wp (io_bind (io_lift r) f) Q s"
  by (cases r) (auto intro: wp_throw)

lemma wp_other_outcome: "x \<noteq> y \<Longrightarrow> wp (io_bind m (\<lambda>_. io_return x)) (\<lambda>res s'. res = Inr y \<longrightarrow> P s') s"
  by (auto simp: wp_def io_bind_def io_return_def split: prod.split sum.split)

text \<open>C28. When the job reports a signed reservation of the ledger as committed, the commit has reached both
  books: the ledger's row is committed with exactly the amount the confirmed transaction of its
  signature took from the fee payer and is marked as settled in Redis, and Redis holds the settlement
  of this attempt. A fault anywhere on the way is reported instead.\<close>

theorem committed_reaches_both_books:
  assumes "reconcileReservation d c s = (Inr OutCommitted, s')"
    and wf: "reservations_wf (bs_reservations s)" and row: "row_of (bs_reservations s) (rv_id c) = Some c"
    and status: "rv_status c \<in> {Signed, Submitted}"
  shows "\<exists>actual. confirmed_spend d c actual \<and> settled_row c Committed actual True s' \<and> settled_in_redis c s'"
proof -
  let ?P = "\<lambda>s'. \<exists>actual. confirmed_spend d c actual \<and> settled_row c Committed actual True s' \<and> settled_in_redis c s'"
  have commit: "wp (io_bind (if actual > rv_reservedLamports c then reconcile_tripBreaker (rv_network c) why False
        else io_return ()) (\<lambda>_. io_bind (settleDurably c SettleCommitted actual None) (\<lambda>_. io_return OutCommitted)))
      (\<lambda>res s'. res = Inr OutCommitted \<longrightarrow> ?P s') s" if "confirmed_spend d c actual" for actual why
  proof (rule wp_bind, rule wp_stays[of breaker_effect], intro breaker.stays_intros reconcile_tripBreaker_stays, goal_cases)
    case (1 res s1)
    have rows: "bs_reservations s1 = bs_reservations s" using 1 by (simp add: breaker_effect_def breaker_frame_def)
    have "wp (io_bind (settleDurably c SettleCommitted actual None) (\<lambda>_. io_return OutCommitted))
        (\<lambda>res s'. res = Inr OutCommitted \<longrightarrow> ?P s') s1"
      by (rule wp_bind, rule wp_mono[OF wp_settleDurably])
        (use wf row status that in \<open>auto simp: rows split: sum.split intro!: wp_return\<close>)
    then show ?case by (cases res) auto
  qed
  have "wp (reconcileReservation d c) (\<lambda>res s'. res = Inr OutCommitted \<longrightarrow> ?P s') s"
    unfolding reconcileReservation_def Let_def
    by (intro wp_if wp_option wp_lift_bind wp_other_outcome commit)
      (use status in \<open>auto simp: confirmed_spend_def truthy_def split: option.splits intro!: wp_return\<close>)
  then show ?thesis using assms(1) by (simp add: wp_def)
qed

section \<open>Examples\<close>

text \<open>The sent reservation of the examples of the service, whose transaction cost the fee payer 37 of the
  reserved 40 lamports.\<close>

definition example_job :: reconcile_deps where
  "example_job =
     \<lparr>rdp_SOLANA_NETWORK = ''devnet'',
      rdp_getTransaction = (\<lambda>_. Inr (Some \<lparr>ct_preBalances = Some [100, 1], ct_postBalances = Some [63, 1]\<rparr>)),
      rdp_isBlockhashValid = (\<lambda>_. Inr False),
      rdp_getProviderConfiguration = (\<lambda>_. Inr \<lparr>spc_signerAddress = ''payer'', spc_maxAllowedLamports = 35,
        spc_feePayerMayTransferLamports = True, spc_feePayerPolicy = JObj []\<rparr>),
      rdp_fingerprint = (\<lambda>_. ''digest''), rdp_assertIsSignature = (\<lambda>_. Inr ()), rdp_assertIsBlockhash = (\<lambda>_. Inr ())\<rparr>"

definition example_submitted :: ReservationRow where
  "example_submitted = submit_row ''sig1'' 1000 example_row"

lemma example_sent_simps:
  "sess_faults example_sent = []" "bs_reservations example_sent = [example_submitted]" "sess_clock example_sent = 1000"
  "bs_redis example_sent = example_redis"
  by (simp_all add: example_sent_def example_persisted_def example_ledger_simps example_submitted_def)

lemma example_submitted_simps:
  "rv_id example_submitted = ''sbr_digest''" "rv_status example_submitted = Submitted" "rv_signature example_submitted = Some ''sig1''"
  "rv_reservedLamports example_submitted = 40" "rv_attempt example_submitted = 1" "reservation_checks example_submitted"
  by code_simp+

lemma example_sent_wf: "reservations_wf (bs_reservations example_sent)"
  by (simp add: reservations_wf_def example_sent_simps example_submitted_simps signatures_def map_filter_simps)

lemma example_sent_row: "row_of (bs_reservations example_sent) ''sbr_digest'' = Some example_submitted"
  by (simp add: row_of_def example_sent_simps example_submitted_simps)

theorem reconciliation_never_refunds_witness:
  "\<exists>r'. row_of (bs_reservations (snd (reconcileSponsorshipBudgets example_job (example_sent\<lparr>sess_clock := 200000\<rparr>)))) ''sbr_digest'' = Some r' \<and>
     job_row example_job example_submitted r'"
  by (rule reconciliation_never_refunds) (simp_all add: example_sent_wf example_sent_row)

theorem short_outage_keeps_policies_witness:
  "bs_policies (snd (reconcileSponsorshipBudgets (example_job\<lparr>rdp_getProviderConfiguration := \<lambda>_. Inl (PlainError ''down'')\<rparr>)
      (example_sent\<lparr>sess_clock := 200000\<rparr>))) = bs_policies example_sent \<and>
   bs_reservations (snd (reconcileSponsorshipBudgets (example_job\<lparr>rdp_getProviderConfiguration := \<lambda>_. Inl (PlainError ''down'')\<rparr>)
      (example_sent\<lparr>sess_clock := 200000\<rparr>))) = [example_submitted]"
proof -
  have "bs_config_failures example_sent = Map.empty"
    by (simp add: example_sent_def example_persisted_def example_ledger_def)
  then show ?thesis
    using short_outage_keeps_policies[of "example_job\<lparr>rdp_getProviderConfiguration := \<lambda>_. Inl (PlainError ''down'')\<rparr>"
        "PlainError ''down''" "example_sent\<lparr>sess_clock := 200000\<rparr>"]
    by (simp add: readProviderConfiguration_def PROVIDER_CONFIG_READ_ATTEMPTS_def numeral_eq_Suc example_sent_simps
        CONSECUTIVE_CONFIG_FAILURES_BEFORE_TRIP_def)
qed

lemma example_settle:
  "fst (settle (keys_for Devnet (rv_hourBucket example_submitted) (rv_dayBucket example_submitted) ''sbr_digest'' 1)
     (rv_organizationId example_submitted) (rv_projectId example_submitted) 40 37 True example_redis) = Inr (-3)"
  by code_simp

lemma example_commit: "fst (reconcileReservation example_job example_submitted example_sent) = Inr OutCommitted"
proof -
  let ?committed = "settle_row Committed 37 None 1000 example_submitted"
  have rows: "reservation_checks ?committed" "reservation_checks (redis_settled_row 1000 ?committed)"
    "is_attempt ''sbr_digest'' 1 [Signed, Submitted] example_submitted" "is_attempt ''sbr_digest'' 1 [Committed, Released] ?committed"
    "rv_signature ?committed = Some ''sig1''" "rv_signature (redis_settled_row 1000 ?committed) = Some ''sig1''"
    by code_simp+
  have spend: "feePayerSpendLamports (Some [100, 1]) (Some [63, 1]) = Inr 37" and net: "rv_network example_submitted = Devnet"
    by code_simp+
  have settle: "settleReservation ''sbr_digest'' 1 SettleCommitted 37 None example_sent =
      (Inr True, example_sent\<lparr>bs_reservations := [?committed]\<rparr>)"
    using rows
    by (simp add: settleReservation_def one_updated_def update_reservations_def clear_simps put_reservations_def
        table_update_def signatures_def map_filter_simps example_sent_simps)
  have "fst (markRedisSettled ''sbr_digest'' 1 (example_sent\<lparr>bs_reservations := [?committed], bs_redis := redis\<rparr>)) = Inr True" for redis
    using rows
    by (simp add: markRedisSettled_def one_updated_def update_reservations_def clear_simps put_reservations_def
        table_update_def signatures_def map_filter_simps example_sent_simps)
  then have "fst (syncRedisSettlement example_submitted 37 (example_sent\<lparr>bs_reservations := [?committed]\<rparr>)) = Inr ()"
    using example_settle
    by (simp add: syncRedisSettlement_def redis_settle_def redis_command_clear example_sent_simps example_submitted_simps
        settlement_of_def net io_bind_def io_catch_def io_return_def case_prod_unfold)
  then show ?thesis
    using settle spend
    by (simp add: reconcileReservation_def example_submitted_simps truthy_def example_job_def settleDurably_def io_bind_def
        io_return_def io_lift_def case_prod_unfold)
qed

theorem committed_reaches_both_books_witness:
  "\<exists>actual. confirmed_spend example_job example_submitted actual \<and>
     settled_row example_submitted Committed actual True (snd (reconcileReservation example_job example_submitted example_sent)) \<and>
     settled_in_redis example_submitted (snd (reconcileReservation example_job example_submitted example_sent))"
  by (rule committed_reaches_both_books[of _ _ example_sent])
    (simp_all add: example_commit prod_eq_iff example_sent_wf example_sent_row example_submitted_simps)

end
