(* ===== verification/Base64.thy ===== *)
theory Base64
  imports Sdp_Prelude "HOL-Library.Word"
begin

text \<open>
  The bytes of \<^verbatim>\<open>Uint8Array\<close> and \<^verbatim>\<open>Buffer\<close> as lists of 8-bit words, with the two codecs the services use of
  \<^verbatim>\<open>Buffer\<close>: \<^verbatim>\<open>toString("base64")\<close> and \<^verbatim>\<open>Buffer.from(text, "base64")\<close> (which reads the URL-safe alphabet too, skips
  characters outside the alphabet and stops at the padding), and \<^verbatim>\<open>Buffer.from(text, "utf8")\<close>. Reading what was
  printed gives the same bytes back.
\<close>

type_synonym bytes = "8 word list"

definition base64_char :: "nat \<Rightarrow> char" where
  "base64_char n = (if n < 26 then char_of (65 + n) else if n < 52 then char_of (71 + n)
     else if n < 62 then char_of (n - 4) else if n = 62 then CHR ''+'' else CHR ''/'')"

definition base64_value :: "char \<Rightarrow> nat option" where
  "base64_value c = (let n = (of_char c :: nat) in
     if 65 \<le> n \<and> n \<le> 90 then Some (n - 65)
     else if 97 \<le> n \<and> n \<le> 122 then Some (n - 71)
     else if 48 \<le> n \<and> n \<le> 57 then Some (n + 4)
     else if c = CHR ''+'' \<or> c = CHR ''-'' then Some 62
     else if c = CHR ''/'' \<or> c = CHR ''_'' then Some 63
     else None)"

text \<open>The sextets of a group of one, two or three bytes.\<close>

fun sextets :: "bytes \<Rightarrow> nat list" where
  "sextets [] = []"
| "sextets [a] = [unat a div 4, unat a mod 4 * 16]"
| "sextets [a, b] = [unat a div 4, unat a mod 4 * 16 + unat b div 16, unat b mod 16 * 4]"
| "sextets (a # b # c # r) =
     [unat a div 4, unat a mod 4 * 16 + unat b div 16, unat b mod 16 * 4 + unat c div 64, unat c mod 64] @ sextets r"

definition base64_padding :: "bytes \<Rightarrow> string" where
  "base64_padding bs = (if length bs mod 3 = 1 then ''=='' else if length bs mod 3 = 2 then ''='' else [])"

definition base64_encode :: "bytes \<Rightarrow> string" where
  "base64_encode bs = map base64_char (sextets bs) @ base64_padding bs"

fun octets :: "nat list \<Rightarrow> bytes" where
  "octets (w # x # y # z # r) =
     [of_nat (w * 4 + x div 16), of_nat (x mod 16 * 16 + y div 4), of_nat (y mod 4 * 64 + z)] @ octets r"
| "octets [w, x, y] = [of_nat (w * 4 + x div 16), of_nat (x mod 16 * 16 + y div 4)]"
| "octets [w, x] = [of_nat (w * 4 + x div 16)]"
| "octets _ = []"

definition base64_decode :: "string \<Rightarrow> bytes" where
  "base64_decode text = octets (List.map_filter base64_value (takeWhile (\<lambda>c. c \<noteq> CHR ''='') text))"

text \<open>The characters of the \<open>char\<close> type have code points below 256.\<close>

definition utf8_char :: "char \<Rightarrow> bytes" where
  "utf8_char c = (let n = (of_char c :: nat) in if n < 128 then [of_nat n] else [of_nat (192 + n div 64), of_nat (128 + n mod 64)])"

definition utf8_bytes :: "string \<Rightarrow> bytes" where
  "utf8_bytes s = concat (map utf8_char s)"

section \<open>Round trip\<close>

lemma unat_byte: "unat (a :: 8 word) < 256"
  using unsigned_less[of a, where 'a = nat] by simp

lemma base64_value_char: "n < 64 \<Longrightarrow> base64_value (base64_char n) = Some n \<and> base64_char n \<noteq> CHR ''=''"
proof -
  assume n: "n < 64"
  have neq: "char_of k \<noteq> CHR ''=''" if "k < 256" "k \<noteq> 61" for k :: nat
  proof
    assume "char_of k = CHR ''=''"
    then have "(of_char (char_of k :: char) :: nat) = of_char (CHR ''='')" by simp
    then show False using that by simp
  qed
  consider "n < 26" | "26 \<le> n" "n < 52" | "52 \<le> n" "n < 62" | "n = 62" | "n = 63" using n by linarith
  then show ?thesis
    by cases (auto simp: base64_char_def base64_value_def Let_def dest: neq[THEN notE, rotated -1])
qed

lemma sextets_small: "k \<in> set (sextets bs) \<Longrightarrow> k < 64"
proof (induction bs rule: sextets.induct)
  case (2 a)
  then show ?case using unat_byte[of a] by auto
next
  case (3 a b)
  then show ?case using unat_byte[of a] unat_byte[of b] by auto
next
  case (4 a b c r)
  then show ?case using unat_byte[of a] unat_byte[of b] unat_byte[of c] by auto
qed simp

lemma octets_sextets: "octets (sextets bs) = bs"
proof (induction bs rule: sextets.induct)
  case (2 a)
  have "unat a div 4 * 4 + unat a mod 4 = unat a" by simp
  then show ?case by simp
next
  case (3 a b)
  have b: "unat b div 16 < 16" using unat_byte[of b] by auto
  have "unat a div 4 * 4 + (unat a mod 4 * 16 + unat b div 16) div 16 = unat a"
    "(unat a mod 4 * 16 + unat b div 16) mod 16 * 16 + unat b mod 16 * 4 div 4 = unat b"
    using b by simp_all
  then show ?case by simp
next
  case (4 a b c r)
  have b: "unat b div 16 < 16" and c: "unat c div 64 < 4" using unat_byte[of b] unat_byte[of c] by auto
  have "unat a div 4 * 4 + (unat a mod 4 * 16 + unat b div 16) div 16 = unat a"
    "(unat a mod 4 * 16 + unat b div 16) mod 16 * 16 + (unat b mod 16 * 4 + unat c div 64) div 4 = unat b"
    "(unat b mod 16 * 4 + unat c div 64) mod 4 * 64 + unat c mod 64 = unat c"
    using b c by simp_all
  then show ?case using 4 by simp
qed simp

lemma base64_decode_encode: "base64_decode (base64_encode bs) = bs"
proof -
  have "takeWhile (\<lambda>c. c \<noteq> CHR ''='') (map base64_char ks @ p) = map base64_char ks \<and>
      List.map_filter base64_value (map base64_char ks) = ks"
    if "\<forall>k\<in>set ks. k < 64" "p = [] \<or> (\<exists>q. p = CHR ''='' # q)" for ks p
    using that by (induction ks) (auto simp: map_filter_simps base64_value_char)
  moreover have "base64_padding bs = [] \<or> (\<exists>q. base64_padding bs = CHR ''='' # q)" by (simp add: base64_padding_def)
  ultimately show ?thesis
    using sextets_small[of _ bs] octets_sextets by (simp add: base64_decode_def base64_encode_def)
qed

lemma base64_encode_inj: "base64_encode a = base64_encode b \<longleftrightarrow> a = b"
  by (metis base64_decode_encode)

end
