(* ===== verification/Earn_Ledger.thy ===== *)
theory Earn_Ledger
  imports Effect_Relations Base64 "HOL-Library.Product_Lexorder" "HOL-Library.List_Lexorder" "HOL-Library.Char_ord"
begin

text \<open>
  The Earn movement ledger (\<^verbatim>\<open>db/repositories/earn-movements.repository.ts\<close>, with the vocabulary and the
  transition matrix of \<^verbatim>\<open>packages/sdp-types/src/earn.ts\<close>): positions, the movements of money into and out
  of them, and the statements and transactions that write both. The constraints of the tables (checks,
  unique indexes, the composite foreign keys from a movement to its position) are part of the
  statements that can violate them. Columns that refer to organizations and users, which other
  services own, are plain texts.
\<close>

section \<open>Vocabulary\<close>

datatype SdpEnvironment = EnvSandbox | EnvProduction

datatype EarnExecutionModel = Custodial | VaultDirect

datatype EarnMovementDirection = Deposit | Withdrawal

datatype EarnMovementStatus =
    MvRequested | MvProcessing | MvPendingApproval | MvCompleted | MvPartiallyCompleted | MvFailed | MvCancelled
  | MvSubmitted | MvConfirmed | MvFinalized

fun EARN_MOVEMENT_STATUSES :: "EarnExecutionModel \<Rightarrow> EarnMovementStatus list" where
  "EARN_MOVEMENT_STATUSES Custodial =
     [MvRequested, MvProcessing, MvPendingApproval, MvCompleted, MvPartiallyCompleted, MvFailed, MvCancelled]"
| "EARN_MOVEMENT_STATUSES VaultDirect = [MvRequested, MvSubmitted, MvConfirmed, MvFinalized, MvFailed]"

fun EARN_TERMINAL_MOVEMENT_STATUSES :: "EarnExecutionModel \<Rightarrow> EarnMovementStatus list" where
  "EARN_TERMINAL_MOVEMENT_STATUSES Custodial = [MvCompleted, MvPartiallyCompleted, MvFailed, MvCancelled]"
| "EARN_TERMINAL_MOVEMENT_STATUSES VaultDirect = [MvFinalized, MvFailed]"

definition isTerminalEarnMovementStatus :: "EarnExecutionModel \<Rightarrow> EarnMovementStatus \<Rightarrow> bool" where
  "isTerminalEarnMovementStatus executionModel status \<longleftrightarrow> status \<in> set (EARN_TERMINAL_MOVEMENT_STATUSES executionModel)"

text \<open>Keyed by the target status; \<open>None\<close> is a status the model has no entry for.\<close>

fun EARN_MOVEMENT_TRANSITIONS :: "EarnExecutionModel \<Rightarrow> EarnMovementStatus \<Rightarrow> EarnMovementStatus list option" where
  "EARN_MOVEMENT_TRANSITIONS Custodial status =
     (if status \<in> {MvProcessing, MvPendingApproval, MvCompleted, MvPartiallyCompleted, MvFailed, MvCancelled}
      then Some [MvRequested, MvProcessing, MvPendingApproval] else None)"
| "EARN_MOVEMENT_TRANSITIONS VaultDirect status = (case status of
     MvSubmitted \<Rightarrow> Some [MvRequested]
   | MvConfirmed \<Rightarrow> Some [MvRequested, MvSubmitted]
   | MvFinalized \<Rightarrow> Some [MvRequested, MvSubmitted, MvConfirmed]
   | MvFailed \<Rightarrow> Some [MvRequested, MvSubmitted]
   | _ \<Rightarrow> None)"

fun model_text :: "EarnExecutionModel \<Rightarrow> string" where
  "model_text Custodial = ''custodial''"
| "model_text VaultDirect = ''vault_direct''"

fun status_text :: "EarnMovementStatus \<Rightarrow> string" where
  "status_text MvRequested = ''requested''"
| "status_text MvProcessing = ''processing''"
| "status_text MvPendingApproval = ''pending_approval''"
| "status_text MvCompleted = ''completed''"
| "status_text MvPartiallyCompleted = ''partially_completed''"
| "status_text MvFailed = ''failed''"
| "status_text MvCancelled = ''cancelled''"
| "status_text MvSubmitted = ''submitted''"
| "status_text MvConfirmed = ''confirmed''"
| "status_text MvFinalized = ''finalized''"

definition illegal_transition :: "EarnExecutionModel \<Rightarrow> EarnMovementStatus \<Rightarrow> api_error" where
  "illegal_transition model toStatus =
     PlainError (''Illegal earn movement transition: '' @ model_text model @ '' -> '' @ status_text toStatus)"

definition allowedSourceStatuses ::
  "EarnExecutionModel \<Rightarrow> EarnMovementStatus \<Rightarrow> (api_error, EarnMovementStatus list) result" where
  "allowedSourceStatuses model toStatus = (case EARN_MOVEMENT_TRANSITIONS model toStatus of
     None \<Rightarrow> Inl (illegal_transition model toStatus)
   | Some sources \<Rightarrow> if sources = [] then Inl (illegal_transition model toStatus) else Inr sources)"

fun SETTLED_VAULT_STATUSES_BY_DIRECTION :: "EarnMovementDirection \<Rightarrow> EarnMovementStatus list" where
  "SETTLED_VAULT_STATUSES_BY_DIRECTION Deposit = [MvConfirmed, MvFinalized, MvFailed]"
| "SETTLED_VAULT_STATUSES_BY_DIRECTION Withdrawal = [MvFinalized, MvFailed]"

section \<open>Rows and state\<close>

record EarnPositionRow =
  ep_id :: string
  ep_organization_id :: string
  ep_project_id :: "string option"
  ep_environment :: SdpEnvironment
  ep_provider :: string
  ep_kind :: EarnExecutionModel
  ep_custody_wallet_id :: "string option"
  ep_vault_address :: "string option"
  ep_share_mint :: "string option"
  ep_token_mint :: "string option"
  ep_provider_wallet_id :: "string option"
  ep_label :: string
  ep_created_by :: "string option"
  ep_created_at :: timestamp
  ep_updated_at :: timestamp
  ep_activated_at :: "timestamp option"
  ep_closed_at :: "timestamp option"
  ep_share_ata_rent_funder :: "string option"

text \<open>\<^verbatim>\<open>last_valid_block_height\<close> is a count, printed and read back as its decimal text.\<close>

record EarnMovementRow =
  em_id :: string
  em_organization_id :: string
  em_project_id :: "string option"
  em_environment :: SdpEnvironment
  em_provider :: string
  em_execution_model :: EarnExecutionModel
  em_direction :: EarnMovementDirection
  em_position_id :: string
  em_status :: EarnMovementStatus
  em_failure_reason :: "string option"
  em_confirmed_at :: "timestamp option"
  em_settled_at :: "timestamp option"
  em_denomination :: string
  em_amount_requested :: string
  em_amount_settled :: "string option"
  em_fee_amount :: "string option"
  em_min_shares_out :: "string option"
  em_shares_out :: "string option"
  em_payout_token :: "string option"
  em_custody_wallet_id :: "string option"
  em_vault_address :: "string option"
  em_source_address :: "string option"
  em_destination_address :: "string option"
  em_provider_reference :: "string option"
  em_signature :: "string option"
  em_signed_transaction :: "string option"
  em_last_valid_block_height :: "int option"
  em_request_id :: string
  em_idempotency_fingerprint :: string
  em_provider_data :: json_object
  em_created_by :: "string option"
  em_initiated_by_key_id :: "string option"
  em_created_at :: timestamp
  em_updated_at :: timestamp
  em_creates_share_account :: bool
  em_share_ata_rent_funder :: "string option"
  em_reconciliation_attempted_at :: "timestamp option"

text \<open>The columns of the tables of other services that the statements here join.\<close>

record ProjectRow =
  prj_id :: string
  prj_organization_id :: string
  prj_environment :: SdpEnvironment

record CustodyScopeRow =
  csc_id :: string
  csc_organization_id :: string
  csc_project_id :: "string option"

record CustodyWalletRow =
  cuw_id :: string
  cuw_custody_config_id :: "string option"
  cuw_custody_connection_id :: "string option"

record EarnProviderWalletRow =
  epw_id :: string
  epw_organization_id :: string
  epw_project_id :: "string option"
  epw_environment :: SdpEnvironment
  epw_provider :: string
  epw_provider_wallet_ref :: string
  epw_label :: "string option"
  epw_created_by :: string
  epw_created_at :: timestamp
  epw_updated_at :: timestamp

datatype SolanaCluster = Devnet | MainnetBeta

text \<open>The state of the ledger; the transactions that were put on the wire; and the process's memory of which chain an
  RPC endpoint was seen to serve (\<^verbatim>\<open>clusterProofs\<close>), with the time it may be trusted until.\<close>

record earn_session = session +
  es_positions :: "EarnPositionRow list"
  es_movements :: "EarnMovementRow list"
  es_projects :: "ProjectRow list"
  es_custody_configs :: "CustodyScopeRow list"
  es_custody_connections :: "CustodyScopeRow list"
  es_custody_wallets :: "CustodyWalletRow list"
  es_provider_wallets :: "EarnProviderWalletRow list"
  es_broadcasts :: "bytes list"
  es_cluster_proofs :: "((SolanaCluster \<times> string) \<times> (string \<times> timestamp)) list"

type_synonym 'a earn_io = "(earn_session, api_error, 'a) io"

section \<open>Constraints\<close>

text \<open>\<^verbatim>\<open>^\d+(\.\d+)?$\<close>, and the texts that also have a digit other than zero.\<close>

definition DECIMAL_STRING :: "string \<Rightarrow> bool" where
  "DECIMAL_STRING s = (case js_split (CHR ''.'') s of
     [i] \<Rightarrow> i \<noteq> [] \<and> list_all is_digit i
   | [i, f] \<Rightarrow> i \<noteq> [] \<and> list_all is_digit i \<and> f \<noteq> [] \<and> list_all is_digit f
   | _ \<Rightarrow> False)"

definition NON_ZERO_DIGIT :: "string \<Rightarrow> bool" where
  "NON_ZERO_DIGIT s = list_ex (\<lambda>c. is_digit c \<and> c \<noteq> CHR ''0'') s"

definition positive_decimal :: "string \<Rightarrow> bool" where
  "positive_decimal s \<longleftrightarrow> 1 \<le> length s \<and> length s \<le> 128 \<and> DECIMAL_STRING s \<and> NON_ZERO_DIGIT s"

text \<open>\<^verbatim>\<open>NULLIF(BTRIM(value), '') IS NOT NULL\<close>: \<^verbatim>\<open>BTRIM\<close> removes spaces only.\<close>

definition sql_present :: "string option \<Rightarrow> bool" where
  "sql_present v = (case v of None \<Rightarrow> False | Some t \<Rightarrow> list_ex (\<lambda>c. c \<noteq> CHR '' '') t)"

definition position_checks :: "EarnPositionRow \<Rightarrow> bool" where
  "position_checks p = (case ep_kind p of
     VaultDirect \<Rightarrow> ep_custody_wallet_id p \<noteq> None \<and> ep_vault_address p \<noteq> None \<and> ep_share_mint p \<noteq> None \<and>
       ep_token_mint p \<noteq> None \<and> ep_provider_wallet_id p = None
   | Custodial \<Rightarrow> ep_provider_wallet_id p \<noteq> None \<and> ep_custody_wallet_id p = None \<and> ep_vault_address p = None \<and>
       ep_share_mint p = None \<and> ep_token_mint p = None)"

definition model_shape :: "EarnMovementRow \<Rightarrow> bool" where
  "model_shape m = (case em_execution_model m of
     VaultDirect \<Rightarrow> em_custody_wallet_id m \<noteq> None \<and> em_vault_address m \<noteq> None \<and> em_signature m \<noteq> None \<and>
       em_signed_transaction m \<noteq> None \<and> em_last_valid_block_height m \<noteq> None \<and> em_payout_token m = None \<and>
       em_fee_amount m = None
   | Custodial \<Rightarrow> em_custody_wallet_id m = None \<and> em_vault_address m = None \<and> em_signature m = None \<and>
       em_signed_transaction m = None \<and> em_last_valid_block_height m = None \<and> em_min_shares_out m = None \<and>
       em_shares_out m = None)"

definition vault_metadata :: "EarnMovementRow \<Rightarrow> bool" where
  "vault_metadata m \<longleftrightarrow> em_execution_model m = VaultDirect \<longrightarrow>
     (em_status m \<in> {MvConfirmed, MvFinalized} \<longleftrightarrow> em_confirmed_at m \<noteq> None) \<and>
     (em_status m = MvFinalized \<longleftrightarrow> em_settled_at m \<noteq> None) \<and>
     (em_status m = MvFailed \<longleftrightarrow> sql_present (em_failure_reason m)) \<and>
     (case em_amount_settled m of None \<Rightarrow> True | Some a \<Rightarrow> DECIMAL_STRING a \<and> NON_ZERO_DIGIT a) \<and>
     (case em_min_shares_out m of None \<Rightarrow> True | Some a \<Rightarrow> positive_decimal a)"

definition text_length_ok :: "string option \<Rightarrow> bool" where
  "text_length_ok v = (case v of None \<Rightarrow> True | Some t \<Rightarrow> 1 \<le> length t \<and> length t \<le> 128)"

text \<open>\<^verbatim>\<open>LENGTH(BTRIM(denomination)) BETWEEN 1 AND 128\<close>.\<close>

definition sql_btrim :: "string \<Rightarrow> string" where
  "sql_btrim t = rev (dropWhile (\<lambda>c. c = CHR '' '') (rev (dropWhile (\<lambda>c. c = CHR '' '') t)))"

definition denomination_ok :: "string \<Rightarrow> bool" where
  "denomination_ok t \<longleftrightarrow> 1 \<le> length (sql_btrim t) \<and> length (sql_btrim t) \<le> 128"

definition movement_checks :: "EarnMovementRow \<Rightarrow> bool" where
  "movement_checks m \<longleftrightarrow> em_status m \<in> set (EARN_MOVEMENT_STATUSES (em_execution_model m)) \<and> model_shape m \<and>
     vault_metadata m \<and> positive_decimal (em_amount_requested m) \<and> denomination_ok (em_denomination m) \<and> text_length_ok (em_amount_settled m) \<and>
     text_length_ok (em_fee_amount m) \<and>
     (case em_shares_out m of None \<Rightarrow> True
        | Some a \<Rightarrow> em_status m \<in> {MvConfirmed, MvFinalized} \<and> positive_decimal a) \<and>
     (case em_last_valid_block_height m of None \<Rightarrow> True | Some h \<Rightarrow> 0 \<le> h \<and> h \<le> 18446744073709551615) \<and>
     (em_share_ata_rent_funder m \<noteq> None \<longrightarrow> em_creates_share_account m)"

text \<open>The keys of the unique indexes; a row outside a partial index has no key.\<close>

definition vault_claim_key where
  "vault_claim_key p = (if ep_kind p = VaultDirect
     then Some (ep_organization_id p, ep_environment p, ep_provider p, ep_vault_address p, ep_custody_wallet_id p)
     else None)"

definition program_claim_key where
  "program_claim_key p = (if ep_kind p = Custodial then ep_provider_wallet_id p else None)"

definition vault_request_key where
  "vault_request_key m =
     (if em_execution_model m = VaultDirect then Some (em_organization_id m, em_request_id m) else None)"

definition custodial_request_key where
  "custodial_request_key m =
     (if em_execution_model m = Custodial then Some (em_position_id m, em_request_id m) else None)"

definition provider_reference_key where
  "provider_reference_key m = map_option (\<lambda>r. (em_provider m, r)) (em_provider_reference m)"

definition distinct_keys :: "('r \<Rightarrow> 'k option) \<Rightarrow> 'r list \<Rightarrow> bool" where
  "distinct_keys key rows \<longleftrightarrow> distinct (List.map_filter key rows)"

definition positions_unique :: "EarnPositionRow list \<Rightarrow> bool" where
  "positions_unique ps \<longleftrightarrow> distinct (map ep_id ps) \<and> distinct_keys vault_claim_key ps \<and> distinct_keys program_claim_key ps"

definition movements_unique :: "EarnMovementRow list \<Rightarrow> bool" where
  "movements_unique ms \<longleftrightarrow> distinct (map em_id ms) \<and> distinct_keys vault_request_key ms \<and>
     distinct_keys custodial_request_key ms \<and> distinct_keys provider_reference_key ms \<and> distinct_keys em_signature ms"

text \<open>The two composite foreign keys of a movement: with its position's tenancy, and, when the movement
  names a vault and a wallet, with the position's claim.\<close>

definition references_position :: "EarnPositionRow list \<Rightarrow> EarnMovementRow \<Rightarrow> bool" where
  "references_position ps m \<longleftrightarrow> list_ex (\<lambda>p. ep_id p = em_position_id m \<and>
     ep_organization_id p = em_organization_id m \<and> ep_environment p = em_environment m \<and>
     ep_provider p = em_provider m \<and>
     (em_vault_address m \<noteq> None \<and> em_custody_wallet_id m \<noteq> None \<longrightarrow>
        ep_vault_address p = em_vault_address m \<and> ep_custody_wallet_id p = em_custody_wallet_id m)) ps"

definition earn_check_violation :: api_error where
  "earn_check_violation = SqlError ''new row violates check constraint''"

definition earn_foreign_key_violation :: api_error where
  "earn_foreign_key_violation = SqlError ''insert or update violates foreign key constraint''"

definition put_positions :: "EarnPositionRow list \<Rightarrow> unit earn_io" where
  "put_positions ps = (\<lambda>s.
     if \<not> list_all position_checks ps then (Inl earn_check_violation, s)
     else if \<not> positions_unique ps then (Inl UniqueViolation, s)
     else (Inr (), s\<lparr>es_positions := ps\<rparr>))"

definition put_movements :: "EarnMovementRow list \<Rightarrow> unit earn_io" where
  "put_movements ms = (\<lambda>s.
     if \<not> list_all movement_checks ms then (Inl earn_check_violation, s)
     else if \<not> movements_unique ms then (Inl UniqueViolation, s)
     else if \<not> list_all (references_position (es_positions s)) ms then (Inl earn_foreign_key_violation, s)
     else (Inr (), s\<lparr>es_movements := ms\<rparr>))"

text \<open>\<^verbatim>\<open>UPDATE earn_movements SET ... WHERE ... RETURNING *\<close>, read with \<^verbatim>\<open>first\<close>.\<close>

definition update_movements ::
  "(EarnMovementRow \<Rightarrow> bool) \<Rightarrow> (timestamp \<Rightarrow> EarnMovementRow \<Rightarrow> EarnMovementRow) \<Rightarrow> EarnMovementRow option earn_io" where
  "update_movements matching change = sql (\<lambda>s.
     io_bind (put_movements (table_update matching (change (sess_clock s)) (es_movements s)))
       (\<lambda>_. io_return (map_option (change (sess_clock s)) (find matching (es_movements s)))) s)"

definition update_positions ::
  "(earn_session \<Rightarrow> EarnPositionRow \<Rightarrow> bool) \<Rightarrow> (earn_session \<Rightarrow> EarnPositionRow \<Rightarrow> EarnPositionRow) \<Rightarrow> unit earn_io" where
  "update_positions matching change = sql (\<lambda>s.
     put_positions (table_update (matching s) (change s) (es_positions s)) s)"

text \<open>\<^verbatim>\<open>project_id ... ON DELETE SET NULL\<close>: what the deletion of a project does to the rows that name it.\<close>

definition project_deleted :: "string \<Rightarrow> earn_session \<Rightarrow> earn_session" where
  "project_deleted projectId s =
     s\<lparr>es_projects := filter (\<lambda>p. prj_id p \<noteq> projectId) (es_projects s),
       es_positions := table_update (\<lambda>p. ep_project_id p = Some projectId) (\<lambda>p. p\<lparr>ep_project_id := None\<rparr>) (es_positions s),
       es_movements := table_update (\<lambda>m. em_project_id m = Some projectId) (\<lambda>m. m\<lparr>em_project_id := None\<rparr>) (es_movements s),
       es_provider_wallets := table_update (\<lambda>w. epw_project_id w = Some projectId) (\<lambda>w. w\<lparr>epw_project_id := None\<rparr>)
         (es_provider_wallets s)\<rparr>"

section \<open>Identity and replays\<close>

definition EARN_POSITION_ID_PREFIX :: string where
  "EARN_POSITION_ID_PREFIX = ''earn_position_''"

definition generateEarnPositionId :: "string earn_io" where
  "generateEarnPositionId = io_bind randomUUID (\<lambda>u. io_return (EARN_POSITION_ID_PREFIX @ u))"

definition generateEarnMovementId :: "string earn_io" where
  "generateEarnMovementId = io_bind randomUUID (\<lambda>u. io_return (''earn_movement_'' @ u))"

definition replay_conflict :: api_error where
  "replay_conflict = conflict ''Idempotency key already used with different request payload''"

definition assertMovementIsOwnReplay :: "EarnMovementRow \<Rightarrow> string \<Rightarrow> string \<Rightarrow> (api_error, unit) result" where
  "assertMovementIsOwnReplay movement projectId idempotencyFingerprint =
     (if em_project_id movement \<noteq> Some projectId \<or> em_idempotency_fingerprint movement \<noteq> idempotencyFingerprint
      then Inl replay_conflict else Inr ())"

section \<open>Reads\<close>

definition getMovementById :: "string \<Rightarrow> string \<Rightarrow> EarnMovementRow option earn_io" where
  "getMovementById movementId organizationId = sql (io_get (\<lambda>s.
     find (\<lambda>m. em_id m = movementId \<and> em_organization_id m = organizationId) (es_movements s)))"

definition findVaultMovementByRequest :: "string \<Rightarrow> string \<Rightarrow> EarnMovementRow option earn_io" where
  "findVaultMovementByRequest organizationId requestId = sql (io_get (\<lambda>s.
     find (\<lambda>m. em_organization_id m = organizationId \<and> em_request_id m = requestId \<and>
       em_execution_model m = VaultDirect) (es_movements s)))"

definition findVaultMovementByRequestId :: "string \<Rightarrow> string \<Rightarrow> EarnMovementRow option earn_io" where
  "findVaultMovementByRequestId organizationId requestId = findVaultMovementByRequest organizationId requestId"

text \<open>The join of a movement with its custodial position, as a condition on the movement.\<close>

definition of_program :: "earn_session \<Rightarrow> string \<Rightarrow> EarnMovementRow \<Rightarrow> bool" where
  "of_program s providerWalletId m \<longleftrightarrow> list_ex (\<lambda>p. ep_id p = em_position_id m \<and> ep_kind p = Custodial \<and>
     ep_provider_wallet_id p = Some providerWalletId) (es_positions s)"

definition findCustodialMovementByRequestId ::
  "string \<Rightarrow> string \<Rightarrow> string \<Rightarrow> EarnMovementRow option earn_io" where
  "findCustodialMovementByRequestId organizationId providerWalletId requestId = sql (io_get (\<lambda>s.
     find (\<lambda>m. em_organization_id m = organizationId \<and> of_program s providerWalletId m \<and>
       em_request_id m = requestId \<and> em_execution_model m = Custodial) (es_movements s)))"

definition findMovementByProviderReference :: "string \<Rightarrow> string \<Rightarrow> EarnMovementRow option earn_io" where
  "findMovementByProviderReference provider providerReference = sql (io_get (\<lambda>s.
     find (\<lambda>m. em_provider m = provider \<and> em_provider_reference m = Some providerReference) (es_movements s)))"

definition getPositionById :: "string \<Rightarrow> SdpEnvironment \<Rightarrow> string \<Rightarrow> EarnPositionRow option earn_io" where
  "getPositionById organizationId environment positionId = sql (io_get (\<lambda>s.
     find (\<lambda>p. ep_id p = positionId \<and> ep_organization_id p = organizationId \<and> ep_environment p = environment)
       (es_positions s)))"

definition requireMovementPosition :: "EarnMovementRow \<Rightarrow> EarnPositionRow earn_io" where
  "requireMovementPosition movement =
     io_bind (getPositionById (em_organization_id movement) (em_environment movement) (em_position_id movement))
       (\<lambda>position. case position of
          None \<Rightarrow> io_throw (PlainError (''Earn movement '' @ em_id movement @ '' references missing holding '' @
            em_position_id movement))
        | Some p \<Rightarrow> io_return p)"

text \<open>Keyset pages: newest first, one row more than asked for to see whether there is another page.\<close>

record EarnMovementCursor =
  emc_createdAt :: timestamp
  emc_id :: string

definition before_cursor :: "EarnMovementCursor option \<Rightarrow> timestamp \<Rightarrow> string \<Rightarrow> bool" where
  "before_cursor cursor createdAt i = (case cursor of
     None \<Rightarrow> True
   | Some c \<Rightarrow> (createdAt, i) < (emc_createdAt c, emc_id c))"

definition newest_first :: "('r \<Rightarrow> timestamp \<times> string) \<Rightarrow> 'r list \<Rightarrow> 'r list" where
  "newest_first key rows = rev (sort_key key rows)"

definition keyset_page :: "nat \<Rightarrow> 'r list \<Rightarrow> 'r list \<times> bool" where
  "keyset_page limit rows = (let found = take (limit + 1) rows in (take limit found, length found > limit))"

definition movement_key :: "EarnMovementRow \<Rightarrow> timestamp \<times> string" where
  "movement_key m = (em_created_at m, em_id m)"

definition position_key :: "EarnPositionRow \<Rightarrow> timestamp \<times> string" where
  "position_key p = (ep_created_at p, ep_id p)"

record ListVaultMovementsParams =
  lvm_organizationId :: string
  lvm_environment :: SdpEnvironment
  lvm_projectId :: string
  lvm_custodyWalletIds :: "string list"
  lvm_direction :: EarnMovementDirection
  lvm_limit :: nat
  lvm_before :: "EarnMovementCursor option"
  lvm_settled :: "bool option"

definition in_wallets :: "string option \<Rightarrow> string list \<Rightarrow> bool" where
  "in_wallets walletId ids = (case walletId of None \<Rightarrow> False | Some w \<Rightarrow> w \<in> set ids)"

definition listVaultMovements :: "ListVaultMovementsParams \<Rightarrow> (EarnMovementRow list \<times> bool) earn_io" where
  "listVaultMovements params =
     (if lvm_custodyWalletIds params = []
      then io_throw (PlainError ''listVaultMovements requires at least one project-scoped custody wallet id'')
      else sql (io_get (\<lambda>s. keyset_page (lvm_limit params) (newest_first movement_key (filter (\<lambda>m.
        em_organization_id m = lvm_organizationId params \<and> em_environment m = lvm_environment params \<and>
        em_execution_model m = VaultDirect \<and> em_direction m = lvm_direction params \<and>
        in_wallets (em_custody_wallet_id m) (lvm_custodyWalletIds params) \<and>
        em_project_id m = Some (lvm_projectId params) \<and>
        (case lvm_settled params of None \<Rightarrow> True
         | Some settled \<Rightarrow> (em_status m \<in> set (SETTLED_VAULT_STATUSES_BY_DIRECTION (lvm_direction params))) = settled) \<and>
        before_cursor (lvm_before params) (em_created_at m) (em_id m)) (es_movements s))))))"

definition listCustodialMovements ::
  "string \<Rightarrow> string \<Rightarrow> nat \<Rightarrow> nat \<Rightarrow> (EarnMovementRow list \<times> nat) earn_io" where
  "listCustodialMovements organizationId providerWalletId limit offset =
     (let selected = (\<lambda>s. filter (\<lambda>m. em_organization_id m = organizationId \<and> of_program s providerWalletId m \<and>
            em_execution_model m = Custodial) (es_movements s))
      in io_bind (sql (io_get (\<lambda>s. take limit (drop offset (newest_first movement_key (selected s)))))) (\<lambda>rows.
         io_bind (sql (io_get (\<lambda>s. length (selected s)))) (\<lambda>total. io_return (rows, total))))"

definition listVaultPositions ::
  "string \<Rightarrow> SdpEnvironment \<Rightarrow> string list \<Rightarrow> nat \<Rightarrow> EarnMovementCursor option \<Rightarrow> (EarnPositionRow list \<times> bool) earn_io" where
  "listVaultPositions organizationId environment custodyWalletIds limit before =
     (if custodyWalletIds = []
      then io_throw (PlainError ''listVaultPositions requires at least one project-scoped custody wallet id'')
      else sql (io_get (\<lambda>s. keyset_page limit (newest_first position_key (filter (\<lambda>p.
        ep_organization_id p = organizationId \<and> ep_environment p = environment \<and> ep_kind p = VaultDirect \<and>
        ep_activated_at p \<noteq> None \<and>
        (ep_closed_at p = None \<or> list_ex (\<lambda>m. em_position_id m = ep_id p \<and> em_direction m = Deposit \<and>
           em_status m \<in> {MvRequested, MvSubmitted}) (es_movements s)) \<and>
        in_wallets (ep_custody_wallet_id p) custodyWalletIds \<and>
        list_ex (\<lambda>m. em_position_id m = ep_id p \<and>
          em_status m \<in> {MvRequested, MvSubmitted, MvConfirmed, MvFinalized}) (es_movements s) \<and>
        before_cursor before (ep_created_at p) (ep_id p)) (es_positions s))))))"

record ListMovementsParams =
  lmp_organizationId :: string
  lmp_environment :: SdpEnvironment
  lmp_projectId :: string
  lmp_custodyWalletIds :: "string list"
  lmp_limit :: nat
  lmp_before :: "EarnMovementCursor option"
  lmp_direction :: "EarnMovementDirection option"
  lmp_status :: "EarnMovementStatus option"
  lmp_provider :: "string option"
  lmp_positionId :: "string option"
  lmp_sourceAddress :: "string option"
  lmp_destinationAddress :: "string option"

text \<open>A filter that is given: \<^verbatim>\<open>column = ?\<close>; a \<^verbatim>\<open>NULL\<close> column never equals a value.\<close>

definition wanted :: "'a option \<Rightarrow> 'a option \<Rightarrow> bool" where
  "wanted column filter_value = (case filter_value of None \<Rightarrow> True | Some v \<Rightarrow> column = Some v)"

definition movement_visible :: "ListMovementsParams \<Rightarrow> EarnMovementRow \<Rightarrow> bool" where
  "movement_visible params m =
     (if lmp_custodyWalletIds params \<noteq> []
      then em_execution_model m = Custodial \<or>
        em_project_id m = Some (lmp_projectId params) \<and> in_wallets (em_custody_wallet_id m) (lmp_custodyWalletIds params)
      else em_execution_model m = Custodial)"

definition listMovements :: "ListMovementsParams \<Rightarrow> (EarnMovementRow list \<times> bool) earn_io" where
  "listMovements params = sql (io_get (\<lambda>s. keyset_page (lmp_limit params) (newest_first movement_key (filter (\<lambda>m.
     em_organization_id m = lmp_organizationId params \<and> em_environment m = lmp_environment params \<and>
     movement_visible params m \<and> wanted (Some (em_direction m)) (lmp_direction params) \<and>
     wanted (Some (em_status m)) (lmp_status params) \<and> wanted (Some (em_provider m)) (lmp_provider params) \<and>
     wanted (Some (em_position_id m)) (lmp_positionId params) \<and>
     wanted (em_source_address m) (lmp_sourceAddress params) \<and>
     wanted (em_destination_address m) (lmp_destinationAddress params) \<and>
     before_cursor (lmp_before params) (em_created_at m) (em_id m)) (es_movements s)))))"

section \<open>The reconciliation queue\<close>

definition attempt_key :: "EarnMovementRow \<Rightarrow> timestamp \<times> timestamp \<times> string" where
  "attempt_key m = ((case em_reconciliation_attempted_at m of None \<Rightarrow> em_created_at m | Some t \<Rightarrow> t),
     em_created_at m, em_id m)"

definition unsettled_vault :: "EarnMovementStatus set \<Rightarrow> EarnMovementRow \<Rightarrow> bool" where
  "unsettled_vault statuses m \<longleftrightarrow> em_execution_model m = VaultDirect \<and> em_status m \<in> statuses"

text \<open>The common table expressions of the claim: the reserved share of each side, then whatever fills the
  batch, blockhash-bound rows first.\<close>

definition reserved_rows :: "nat \<Rightarrow> EarnMovementRow list \<Rightarrow> EarnMovementRow list" where
  "reserved_rows limit ms =
     (let confirmedQuota = (if limit > 1 then max 1 (limit div 4) else 0);
          blockhashBoundQuota = limit - confirmedQuota
      in take blockhashBoundQuota (sort_key attempt_key (filter (unsettled_vault {MvRequested, MvSubmitted}) ms)) @
         take confirmedQuota (sort_key attempt_key (filter (unsettled_vault {MvConfirmed}) ms)))"

definition overflow_rows :: "nat \<Rightarrow> EarnMovementRow list \<Rightarrow> EarnMovementRow list" where
  "overflow_rows limit ms =
     (let reserved = reserved_rows limit ms
      in take (limit - length reserved) (sort_key (\<lambda>m. (em_status m = MvConfirmed, attempt_key m))
           (filter (\<lambda>m. unsettled_vault {MvRequested, MvSubmitted, MvConfirmed} m \<and> em_id m \<notin> em_id ` set reserved) ms)))"

definition claimed_rows :: "nat \<Rightarrow> EarnMovementRow list \<Rightarrow> EarnMovementRow list" where
  "claimed_rows limit ms = reserved_rows limit ms @ overflow_rows limit ms"

definition attempted :: "timestamp \<Rightarrow> EarnMovementRow \<Rightarrow> EarnMovementRow" where
  "attempted t m = m\<lparr>em_reconciliation_attempted_at := Some t\<rparr>"

definition claimUnsettledVaultMovements :: "int \<Rightarrow> EarnMovementRow list earn_io" where
  "claimUnsettledVaultMovements limit =
     (if limit < 1 \<or> limit > 256
      then io_throw (PlainError ''claimUnsettledVaultMovements limit must be an integer from 1 to 256'')
      else sql (\<lambda>s.
        let claimed = em_id ` set (claimed_rows (nat limit) (es_movements s));
            touched = table_update (\<lambda>m. em_id m \<in> claimed) (attempted (sess_clock s)) (es_movements s)
        in io_bind (put_movements touched) (\<lambda>_. io_return (sort_key (\<lambda>m. (em_status m = MvConfirmed, em_created_at m, em_id m))
             (filter (\<lambda>m. em_id m \<in> claimed) touched))) s))"

section \<open>Intents\<close>

text \<open>\<^verbatim>\<open>ShareAccountRentAttribution\<close> is part of both inputs; an omitted \<^verbatim>\<open>createsShareAccount\<close> is false.\<close>

record ShareAccountRentAttribution =
  sra_createsShareAccount :: bool
  sra_shareAtaRentFunder :: "string option"

definition shareAccountClaimBindings :: "ShareAccountRentAttribution \<Rightarrow> bool \<times> string option" where
  "shareAccountClaimBindings input =
     (sra_createsShareAccount input, if sra_createsShareAccount input then sra_shareAtaRentFunder input else None)"

record CreateSignedVaultDepositIntentInput =
  sdi_organizationId :: string
  sdi_projectId :: string
  sdi_environment :: SdpEnvironment
  sdi_provider :: string
  sdi_vaultAddress :: string
  sdi_custodyWalletId :: string
  sdi_shareMint :: string
  sdi_tokenMint :: string
  sdi_label :: string
  sdi_requestedAmount :: string
  sdi_acceptedMinSharesOut :: "string option"
  sdi_sourceAddress :: string
  sdi_signature :: string
  sdi_signedTransaction :: string
  sdi_lastValidBlockHeight :: int
  sdi_requestId :: string
  sdi_idempotencyFingerprint :: string
  sdi_createdBy :: "string option"
  sdi_initiatedByKeyId :: "string option"
  sdi_rent :: ShareAccountRentAttribution

record CreateSignedVaultWithdrawalIntentInput =
  swi_organizationId :: string
  swi_projectId :: string
  swi_environment :: SdpEnvironment
  swi_provider :: string
  swi_positionId :: string
  swi_vaultAddress :: string
  swi_custodyWalletId :: string
  swi_shareMint :: string
  swi_requestedShares :: string
  swi_walletAddress :: string
  swi_signature :: string
  swi_signedTransaction :: string
  swi_lastValidBlockHeight :: int
  swi_requestId :: string
  swi_idempotencyFingerprint :: string
  swi_createdBy :: "string option"
  swi_initiatedByKeyId :: "string option"
  swi_rent :: ShareAccountRentAttribution

record intent_result =
  ir_position :: EarnPositionRow
  ir_movement :: EarnMovementRow
  ir_replayed :: bool

definition scope_admits :: "string option \<Rightarrow> CustodyScopeRow list \<Rightarrow> ProjectRow \<Rightarrow> bool" where
  "scope_admits i scopes project = (case i of
     None \<Rightarrow> False
   | Some k \<Rightarrow> list_ex (\<lambda>c. csc_id c = k \<and> csc_organization_id c = prj_organization_id project \<and>
       (csc_project_id c = None \<or> csc_project_id c = Some (prj_id project))) scopes)"

text \<open>The rows the \<^verbatim>\<open>SELECT\<close> of the claim joins: the project and the wallet, with the scope of its configuration or
  connection.\<close>

definition claim_scope :: "CreateSignedVaultDepositIntentInput \<Rightarrow> earn_session \<Rightarrow> ProjectRow option" where
  "claim_scope input s =
     Option.bind (find (\<lambda>w. cuw_id w = sdi_custodyWalletId input) (es_custody_wallets s)) (\<lambda>wallet.
     find (\<lambda>project. prj_id project = sdi_projectId input \<and>
       prj_organization_id project = sdi_organizationId input \<and> prj_environment project = sdi_environment input \<and>
       (scope_admits (cuw_custody_config_id wallet) (es_custody_configs s) project \<or>
        scope_admits (cuw_custody_connection_id wallet) (es_custody_connections s) project)) (es_projects s))"

definition claimed_position ::
  "CreateSignedVaultDepositIntentInput \<Rightarrow> string \<Rightarrow> ProjectRow \<Rightarrow> timestamp \<Rightarrow> EarnPositionRow" where
  "claimed_position input i project t =
     \<lparr>ep_id = i, ep_organization_id = prj_organization_id project, ep_project_id = Some (prj_id project),
      ep_environment = prj_environment project, ep_provider = sdi_provider input, ep_kind = VaultDirect,
      ep_custody_wallet_id = Some (sdi_custodyWalletId input), ep_vault_address = Some (sdi_vaultAddress input),
      ep_share_mint = Some (sdi_shareMint input), ep_token_mint = Some (sdi_tokenMint input),
      ep_provider_wallet_id = None, ep_label = sdi_label input, ep_created_by = sdi_createdBy input,
      ep_created_at = t, ep_updated_at = t, ep_activated_at = Some t, ep_closed_at = None,
      ep_share_ata_rent_funder = None\<rparr>"

definition coalesce_at :: "'a option \<Rightarrow> 'a \<Rightarrow> 'a option" where
  "coalesce_at v w = Some (case v of None \<Rightarrow> w | Some x \<Rightarrow> x)"

definition refreshed_position :: "CreateSignedVaultDepositIntentInput \<Rightarrow> timestamp \<Rightarrow> EarnPositionRow \<Rightarrow> EarnPositionRow" where
  "refreshed_position input t p =
     p\<lparr>ep_updated_at := t, ep_label := sdi_label input, ep_activated_at := coalesce_at (ep_activated_at p) t\<rparr>"

text \<open>\<^verbatim>\<open>ON CONFLICT (organization_id, environment, provider, vault_address, custody_wallet_id) DO UPDATE SET ... WHERE\<close> the
  mints are the same.\<close>

definition upsert_position ::
  "CreateSignedVaultDepositIntentInput \<Rightarrow> EarnPositionRow \<Rightarrow> EarnPositionRow option earn_io" where
  "upsert_position input row = (\<lambda>s.
     let same_claim = (\<lambda>p. vault_claim_key p = vault_claim_key row)
     in case find same_claim (es_positions s) of
          None \<Rightarrow> io_bind (put_positions (es_positions s @ [row])) (\<lambda>_. io_return (Some row)) s
        | Some p \<Rightarrow>
            if ep_token_mint p = ep_token_mint row \<and> ep_share_mint p = ep_share_mint row
            then io_bind (put_positions (table_update same_claim (refreshed_position input (sess_clock s)) (es_positions s)))
              (\<lambda>_. io_return (Some (refreshed_position input (sess_clock s) p))) s
            else (Inr None, s))"

definition claimVaultPosition :: "CreateSignedVaultDepositIntentInput \<Rightarrow> EarnPositionRow earn_io" where
  "claimVaultPosition input =
     io_bind generateEarnPositionId (\<lambda>i.
     io_bind (sql (\<lambda>s. case claim_scope input s of
         None \<Rightarrow> (Inr None, s)
       | Some project \<Rightarrow> upsert_position input (claimed_position input i project (sess_clock s)) s)) (\<lambda>row.
     case row of
       None \<Rightarrow> io_throw (conflict ''Vault position does not match project, wallet scope, or asset identity'')
     | Some p \<Rightarrow> io_return p))"

definition deposit_row :: "CreateSignedVaultDepositIntentInput \<Rightarrow> string \<Rightarrow> string \<Rightarrow> timestamp \<Rightarrow> EarnMovementRow" where
  "deposit_row input positionId i t =
     \<lparr>em_id = i, em_organization_id = sdi_organizationId input, em_project_id = Some (sdi_projectId input),
      em_environment = sdi_environment input, em_provider = sdi_provider input, em_execution_model = VaultDirect,
      em_direction = Deposit, em_position_id = positionId, em_status = MvRequested, em_failure_reason = None,
      em_confirmed_at = None, em_settled_at = None, em_denomination = sdi_tokenMint input,
      em_amount_requested = sdi_requestedAmount input, em_amount_settled = None, em_fee_amount = None,
      em_min_shares_out = sdi_acceptedMinSharesOut input, em_shares_out = None, em_payout_token = None,
      em_custody_wallet_id = Some (sdi_custodyWalletId input), em_vault_address = Some (sdi_vaultAddress input),
      em_source_address = Some (sdi_sourceAddress input), em_destination_address = Some (sdi_vaultAddress input),
      em_provider_reference = None, em_signature = Some (sdi_signature input),
      em_signed_transaction = Some (sdi_signedTransaction input),
      em_last_valid_block_height = Some (sdi_lastValidBlockHeight input), em_request_id = sdi_requestId input,
      em_idempotency_fingerprint = sdi_idempotencyFingerprint input, em_provider_data = [],
      em_created_by = sdi_createdBy input, em_initiated_by_key_id = sdi_initiatedByKeyId input,
      em_created_at = t, em_updated_at = t, em_creates_share_account = fst (shareAccountClaimBindings (sdi_rent input)),
      em_share_ata_rent_funder = snd (shareAccountClaimBindings (sdi_rent input)),
      em_reconciliation_attempted_at = None\<rparr>"

definition withdrawal_row :: "CreateSignedVaultWithdrawalIntentInput \<Rightarrow> string \<Rightarrow> timestamp \<Rightarrow> EarnMovementRow" where
  "withdrawal_row input i t =
     \<lparr>em_id = i, em_organization_id = swi_organizationId input, em_project_id = Some (swi_projectId input),
      em_environment = swi_environment input, em_provider = swi_provider input, em_execution_model = VaultDirect,
      em_direction = Withdrawal, em_position_id = swi_positionId input, em_status = MvRequested,
      em_failure_reason = None, em_confirmed_at = None, em_settled_at = None, em_denomination = swi_shareMint input,
      em_amount_requested = swi_requestedShares input, em_amount_settled = None, em_fee_amount = None,
      em_min_shares_out = None, em_shares_out = None, em_payout_token = None,
      em_custody_wallet_id = Some (swi_custodyWalletId input), em_vault_address = Some (swi_vaultAddress input),
      em_source_address = Some (swi_vaultAddress input), em_destination_address = Some (swi_walletAddress input),
      em_provider_reference = None, em_signature = Some (swi_signature input),
      em_signed_transaction = Some (swi_signedTransaction input),
      em_last_valid_block_height = Some (swi_lastValidBlockHeight input), em_request_id = swi_requestId input,
      em_idempotency_fingerprint = swi_idempotencyFingerprint input, em_provider_data = [],
      em_created_by = swi_createdBy input, em_initiated_by_key_id = swi_initiatedByKeyId input,
      em_created_at = t, em_updated_at = t, em_creates_share_account = fst (shareAccountClaimBindings (swi_rent input)),
      em_share_ata_rent_funder = snd (shareAccountClaimBindings (swi_rent input)),
      em_reconciliation_attempted_at = None\<rparr>"

text \<open>\<^verbatim>\<open>INSERT ... ON CONFLICT (organization_id, request_id) WHERE execution_model = 'vault_direct' DO NOTHING RETURNING *\<close>.\<close>

definition insert_vault_movement :: "(string \<Rightarrow> timestamp \<Rightarrow> EarnMovementRow) \<Rightarrow> EarnMovementRow option earn_io" where
  "insert_vault_movement row =
     io_bind generateEarnMovementId (\<lambda>i. sql (\<lambda>s.
       let m = row i (sess_clock s)
       in if \<not> movement_checks m then (Inl earn_check_violation, s)
          else if list_ex (\<lambda>m'. vault_request_key m' = vault_request_key m) (es_movements s) then (Inr None, s)
          else io_bind (put_movements (es_movements s @ [m])) (\<lambda>_. io_return (Some m)) s))"

definition insertVaultMovement :: "CreateSignedVaultDepositIntentInput \<Rightarrow> string \<Rightarrow> EarnMovementRow option earn_io" where
  "insertVaultMovement input positionId = insert_vault_movement (deposit_row input positionId)"

definition insertVaultWithdrawalMovement ::
  "CreateSignedVaultWithdrawalIntentInput \<Rightarrow> EarnMovementRow option earn_io" where
  "insertVaultWithdrawalMovement input = insert_vault_movement (withdrawal_row input)"

text \<open>The scalar subquery of the projection: the newest movement that claims to have created the share account
  and has not failed. \<^verbatim>\<open>NULL\<close> stands for no such movement and for a claim without a funder alike.\<close>

definition rent_claims :: "EarnMovementRow list \<Rightarrow> string \<Rightarrow> EarnMovementRow list" where
  "rent_claims ms positionId = filter (\<lambda>m. em_position_id m = positionId \<and> em_creates_share_account m \<and>
     em_status m \<noteq> MvFailed) ms"

definition projected_funder :: "EarnMovementRow list \<Rightarrow> string \<Rightarrow> string option" where
  "projected_funder ms positionId = (case newest_first movement_key (rent_claims ms positionId) of
     [] \<Rightarrow> None | m # _ \<Rightarrow> em_share_ata_rent_funder m)"

definition projectShareAccountRentFunder :: "string \<Rightarrow> string \<Rightarrow> unit earn_io" where
  "projectShareAccountRentFunder positionId organizationId = update_positions
     (\<lambda>s p. ep_id p = positionId \<and> ep_organization_id p = organizationId)
     (\<lambda>s p. p\<lparr>ep_share_ata_rent_funder := projected_funder (es_movements s) (ep_id p), ep_updated_at := sess_clock s\<rparr>)"

definition replayed_intent :: "EarnMovementRow \<Rightarrow> intent_result earn_io" where
  "replayed_intent movement = io_bind (requireMovementPosition movement) (\<lambda>position.
     io_return \<lparr>ir_position = position, ir_movement = movement, ir_replayed = True\<rparr>)"

definition own_deposit_replay :: "CreateSignedVaultDepositIntentInput \<Rightarrow> EarnMovementRow \<Rightarrow> intent_result earn_io" where
  "own_deposit_replay input m =
     io_bind (io_lift (assertMovementIsOwnReplay m (sdi_projectId input) (sdi_idempotencyFingerprint input)))
       (\<lambda>_. replayed_intent m)"

text \<open>The rest of the transaction when no movement holds the key.\<close>

definition open_deposit :: "CreateSignedVaultDepositIntentInput \<Rightarrow> intent_result earn_io" where
  "open_deposit input =
     io_bind (claimVaultPosition input) (\<lambda>claimed.
     io_bind (insertVaultMovement input (ep_id claimed)) (\<lambda>inserted.
     case inserted of
       None \<Rightarrow>
         io_bind (findVaultMovementByRequest (sdi_organizationId input) (sdi_requestId input)) (\<lambda>winner.
         case winner of
           None \<Rightarrow> io_throw (PlainError ''Failed to resolve concurrent earn vault movement'')
         | Some m \<Rightarrow> own_deposit_replay input m)
     | Some m \<Rightarrow>
         io_bind (projectShareAccountRentFunder (ep_id claimed) (sdi_organizationId input)) (\<lambda>_.
         io_return \<lparr>ir_position = claimed, ir_movement = m, ir_replayed = False\<rparr>)))"

definition createSignedVaultDepositIntent :: "CreateSignedVaultDepositIntentInput \<Rightarrow> intent_result earn_io" where
  "createSignedVaultDepositIntent input = transaction (
     io_bind (findVaultMovementByRequest (sdi_organizationId input) (sdi_requestId input)) (\<lambda>prior.
     case prior of
       Some m \<Rightarrow> own_deposit_replay input m
     | None \<Rightarrow> open_deposit input))"

definition resolve_withdrawal_replay ::
  "CreateSignedVaultWithdrawalIntentInput \<Rightarrow> intent_result option earn_io" where
  "resolve_withdrawal_replay input =
     io_bind (findVaultMovementByRequest (swi_organizationId input) (swi_requestId input)) (\<lambda>prior.
     case prior of
       None \<Rightarrow> io_return None
     | Some m \<Rightarrow>
         io_bind (io_lift (assertMovementIsOwnReplay m (swi_projectId input) (swi_idempotencyFingerprint input)))
         (\<lambda>_. if em_direction m \<noteq> Withdrawal then io_throw replay_conflict
              else io_bind (replayed_intent m) (\<lambda>r. io_return (Some r))))"

definition open_withdrawal :: "CreateSignedVaultWithdrawalIntentInput \<Rightarrow> intent_result earn_io" where
  "open_withdrawal input =
     io_bind (insertVaultWithdrawalMovement input) (\<lambda>inserted.
     case inserted of
       None \<Rightarrow> io_bind (resolve_withdrawal_replay input) (\<lambda>winner. case winner of
           None \<Rightarrow> io_throw (PlainError ''Failed to resolve concurrent earn vault withdrawal'')
         | Some r \<Rightarrow> io_return r)
     | Some m \<Rightarrow>
         io_bind (projectShareAccountRentFunder (em_position_id m) (swi_organizationId input)) (\<lambda>_.
         io_bind (requireMovementPosition m) (\<lambda>position.
         io_return \<lparr>ir_position = position, ir_movement = m, ir_replayed = False\<rparr>)))"

definition createSignedVaultWithdrawalIntent :: "CreateSignedVaultWithdrawalIntentInput \<Rightarrow> intent_result earn_io" where
  "createSignedVaultWithdrawalIntent input = transaction (
     io_bind (resolve_withdrawal_replay input) (\<lambda>prior.
     case prior of
       Some r \<Rightarrow> io_return r
     | None \<Rightarrow> open_withdrawal input))"

section \<open>Advancing a vault movement\<close>

text \<open>An optional field is absent (\<open>None\<close>), \<^verbatim>\<open>null\<close> (\<open>Some None\<close>) or a value. An instant is never a blank text.\<close>

record AdvanceVaultMovementInput =
  avm_movementId :: string
  avm_organizationId :: string
  avm_toStatus :: EarnMovementStatus
  avm_sharesOut :: "string option option"
  avm_failureReason :: "string option option"
  avm_confirmedAt :: "timestamp option option"
  avm_settledAt :: "timestamp option option"

definition blank_text :: "string option option \<Rightarrow> bool" where
  "blank_text v = (case v of Some (Some t) \<Rightarrow> js_trim t = [] | _ \<Rightarrow> True)"

definition no_instant :: "timestamp option option \<Rightarrow> bool" where
  "no_instant v = (case v of Some (Some t) \<Rightarrow> False | _ \<Rightarrow> True)"

definition assertVaultTransitionMetadata :: "AdvanceVaultMovementInput \<Rightarrow> (api_error, unit) result" where
  "assertVaultTransitionMetadata input =
     (let toStatus = avm_toStatus input
      in if avm_failureReason input \<noteq> None \<and> toStatus \<noteq> MvFailed
         then Inl (PlainError ''failureReason is only valid when failing an earn vault movement'')
         else if toStatus = MvFailed \<and> blank_text (avm_failureReason input)
         then Inl (PlainError ''failureReason is required when failing an earn vault movement'')
         else if avm_settledAt input \<noteq> None \<and> toStatus \<noteq> MvFinalized
         then Inl (PlainError ''settledAt is only valid when finalizing an earn vault movement'')
         else if toStatus = MvFinalized \<and> no_instant (avm_settledAt input)
         then Inl (PlainError ''settledAt is required when finalizing an earn vault movement'')
         else if avm_confirmedAt input \<noteq> None \<and> toStatus \<noteq> MvConfirmed \<and> toStatus \<noteq> MvFinalized
         then Inl (PlainError ''confirmedAt is only valid when confirming an earn vault movement'')
         else if (toStatus = MvConfirmed \<or> toStatus = MvFinalized) \<and> no_instant (avm_confirmedAt input)
         then Inl (PlainError ''confirmedAt is required when confirming an earn vault movement'')
         else if avm_sharesOut input \<noteq> None \<and> toStatus \<noteq> MvConfirmed
         then Inl (PlainError ''sharesOut is only valid when confirming an earn vault movement'')
         else if (case avm_sharesOut input of Some (Some a) \<Rightarrow> \<not> positive_decimal a | _ \<Rightarrow> False)
         then Inl (PlainError ''sharesOut must be a positive unsigned decimal with at most 128 characters'')
         else Inr ())"

text \<open>\<^verbatim>\<open>value !== undefined ? write it : leave the column\<close>.\<close>

definition given :: "'a option option \<Rightarrow> 'a option \<Rightarrow> 'a option" where
  "given v column = (case v of None \<Rightarrow> column | Some w \<Rightarrow> w)"

definition advanced :: "AdvanceVaultMovementInput \<Rightarrow> timestamp \<Rightarrow> EarnMovementRow \<Rightarrow> EarnMovementRow" where
  "advanced input t m =
     m\<lparr>em_status := avm_toStatus input, em_updated_at := t,
       em_shares_out := given (avm_sharesOut input) (em_shares_out m),
       em_failure_reason := given (avm_failureReason input) (em_failure_reason m),
       em_settled_at := given (avm_settledAt input) (em_settled_at m),
       em_confirmed_at := (case avm_confirmedAt input of
           None \<Rightarrow> em_confirmed_at m
         | Some c \<Rightarrow> (case em_confirmed_at m of None \<Rightarrow> c | Some c' \<Rightarrow> Some c')),
       em_amount_settled := (if avm_toStatus input = MvConfirmed \<or> avm_toStatus input = MvFinalized
         then coalesce_at (em_amount_settled m) (em_amount_requested m) else em_amount_settled m)\<rparr>"

definition advanceable :: "AdvanceVaultMovementInput \<Rightarrow> EarnMovementStatus list \<Rightarrow> EarnMovementRow \<Rightarrow> bool" where
  "advanceable input sources m \<longleftrightarrow> em_id m = avm_movementId input \<and> em_organization_id m = avm_organizationId input \<and>
     em_execution_model m = VaultDirect \<and> em_status m \<in> set sources"

definition live_statuses :: "EarnMovementStatus set" where
  "live_statuses = {MvRequested, MvSubmitted, MvConfirmed, MvFinalized}"

definition has_live_movement :: "EarnMovementRow list \<Rightarrow> string \<Rightarrow> bool" where
  "has_live_movement ms positionId \<longleftrightarrow> list_ex (\<lambda>m. em_position_id m = positionId \<and> em_status m \<in> live_statuses) ms"

text \<open>The statement that closes a position nothing live remains of, and the one that opens it again.\<close>

definition deactivatePosition :: "string \<Rightarrow> unit earn_io" where
  "deactivatePosition positionId = update_positions
     (\<lambda>s p. ep_id p = positionId \<and> ep_activated_at p \<noteq> None \<and> \<not> has_live_movement (es_movements s) (ep_id p))
     (\<lambda>s p. p\<lparr>ep_activated_at := None, ep_updated_at := sess_clock s\<rparr>)"

definition activatePosition :: "string \<Rightarrow> string \<Rightarrow> unit earn_io" where
  "activatePosition positionId organizationId = update_positions
     (\<lambda>s p. ep_id p = positionId \<and> ep_organization_id p = organizationId)
     (\<lambda>s p. p\<lparr>ep_activated_at := coalesce_at (ep_activated_at p) (sess_clock s), ep_closed_at := None,
              ep_updated_at := sess_clock s\<rparr>)"

definition record_outcome :: "AdvanceVaultMovementInput \<Rightarrow> EarnMovementDirection \<Rightarrow> EarnMovementRow \<Rightarrow> unit earn_io" where
  "record_outcome input direction movement =
     (if avm_toStatus input = MvFailed
      then io_bind (deactivatePosition (em_position_id movement)) (\<lambda>_.
        projectShareAccountRentFunder (em_position_id movement) (avm_organizationId input))
      else if direction = Deposit
      then activatePosition (em_position_id movement) (avm_organizationId input)
      else io_return ())"

definition advanceVaultMovement :: "AdvanceVaultMovementInput \<Rightarrow> EarnMovementRow option earn_io" where
  "advanceVaultMovement input =
     io_bind (io_lift (assertVaultTransitionMetadata input)) (\<lambda>_.
     io_bind (io_lift (allowedSourceStatuses VaultDirect (avm_toStatus input))) (\<lambda>sources.
     let advance = update_movements (advanceable input sources) (advanced input)
     in if avm_toStatus input = MvSubmitted then advance
        else transaction (
          io_bind (getMovementById (avm_movementId input) (avm_organizationId input)) (\<lambda>candidate.
          case candidate of
            None \<Rightarrow> io_return None
          | Some c \<Rightarrow>
              io_bind (sql (io_get (\<lambda>s. find (\<lambda>p. ep_id p = em_position_id c) (es_positions s)))) (\<lambda>_.
              io_bind advance (\<lambda>row.
              case row of
                None \<Rightarrow> io_return None
              | Some movement \<Rightarrow>
                  io_bind (record_outcome input (em_direction c) movement) (\<lambda>_. io_return (Some movement))))))))"

section \<open>Custodial movements\<close>

definition minted_position :: "EarnProviderWalletRow \<Rightarrow> string \<Rightarrow> EarnPositionRow" where
  "minted_position wallet i =
     \<lparr>ep_id = i, ep_organization_id = epw_organization_id wallet, ep_project_id = epw_project_id wallet,
      ep_environment = epw_environment wallet, ep_provider = epw_provider wallet, ep_kind = Custodial,
      ep_custody_wallet_id = None, ep_vault_address = None, ep_share_mint = None, ep_token_mint = None,
      ep_provider_wallet_id = Some (epw_id wallet),
      ep_label = (case epw_label wallet of None \<Rightarrow> epw_provider_wallet_ref wallet | Some l \<Rightarrow> l),
      ep_created_by = Some (epw_created_by wallet), ep_created_at = epw_created_at wallet,
      ep_updated_at = epw_updated_at wallet, ep_activated_at = Some (epw_created_at wallet), ep_closed_at = None,
      ep_share_ata_rent_funder = None\<rparr>"

definition custodial_position :: "string \<Rightarrow> EarnPositionRow \<Rightarrow> bool" where
  "custodial_position providerWalletId p \<longleftrightarrow> ep_provider_wallet_id p = Some providerWalletId \<and> ep_kind p = Custodial"

text \<open>\<^verbatim>\<open>ON CONFLICT DO NOTHING\<close> without a target: any unique violation inserts nothing.\<close>

definition insert_minted_position :: "string \<Rightarrow> string \<Rightarrow> unit earn_io" where
  "insert_minted_position providerWalletId i = sql (\<lambda>s.
     case find (\<lambda>w. epw_id w = providerWalletId) (es_provider_wallets s) of
       None \<Rightarrow> (Inr (), s)
     | Some wallet \<Rightarrow>
         if list_ex (custodial_position providerWalletId) (es_positions s) then (Inr (), s)
         else if \<not> positions_unique (es_positions s @ [minted_position wallet i]) then (Inr (), s)
         else put_positions (es_positions s @ [minted_position wallet i]) s)"

definition mintEarnPositionForProviderWallet :: "string \<Rightarrow> unit earn_io" where
  "mintEarnPositionForProviderWallet providerWalletId =
     io_bind generateEarnPositionId (\<lambda>i.
     io_bind (insert_minted_position providerWalletId i) (\<lambda>_.
     io_bind (sql (io_get (\<lambda>s. list_ex (custodial_position providerWalletId) (es_positions s)))) (\<lambda>held.
     if held then io_return ()
     else io_throw (PlainError (''Earn ledger could not open a custodial holding for program wallet '' @ providerWalletId)))))"

record CreateCustodialMovementInput =
  ccm_organizationId :: string
  ccm_projectId :: string
  ccm_environment :: SdpEnvironment
  ccm_provider :: string
  ccm_providerWalletId :: string
  ccm_amountRequestedUsd :: string
  ccm_payoutToken :: string
  ccm_destinationAddress :: string
  ccm_requestId :: string
  ccm_idempotencyFingerprint :: string
  ccm_providerData :: json_object
  ccm_createdBy :: "string option"
  ccm_initiatedByKeyId :: "string option"

definition custodial_row :: "CreateCustodialMovementInput \<Rightarrow> string \<Rightarrow> string \<Rightarrow> timestamp \<Rightarrow> EarnMovementRow" where
  "custodial_row input positionId i t =
     \<lparr>em_id = i, em_organization_id = ccm_organizationId input, em_project_id = Some (ccm_projectId input),
      em_environment = ccm_environment input, em_provider = ccm_provider input, em_execution_model = Custodial,
      em_direction = Withdrawal, em_position_id = positionId, em_status = MvRequested, em_failure_reason = None,
      em_confirmed_at = None, em_settled_at = None, em_denomination = ''usd'',
      em_amount_requested = ccm_amountRequestedUsd input, em_amount_settled = None, em_fee_amount = None,
      em_min_shares_out = None, em_shares_out = None, em_payout_token = Some (ccm_payoutToken input),
      em_custody_wallet_id = None, em_vault_address = None, em_source_address = None,
      em_destination_address = Some (ccm_destinationAddress input), em_provider_reference = None,
      em_signature = None, em_signed_transaction = None, em_last_valid_block_height = None,
      em_request_id = ccm_requestId input, em_idempotency_fingerprint = ccm_idempotencyFingerprint input,
      em_provider_data = ccm_providerData input, em_created_by = ccm_createdBy input,
      em_initiated_by_key_id = ccm_initiatedByKeyId input, em_created_at = t, em_updated_at = t,
      em_creates_share_account = False, em_share_ata_rent_funder = None, em_reconciliation_attempted_at = None\<rparr>"

definition insert_custodial_movement :: "CreateCustodialMovementInput \<Rightarrow> EarnMovementRow option earn_io" where
  "insert_custodial_movement input =
     io_bind generateEarnMovementId (\<lambda>i. sql (\<lambda>s.
       case find (custodial_position (ccm_providerWalletId input)) (es_positions s) of
         None \<Rightarrow> (Inr None, s)
       | Some p \<Rightarrow>
           (let m = custodial_row input (ep_id p) i (sess_clock s)
            in io_bind (put_movements (es_movements s @ [m])) (\<lambda>_. io_return (Some m)) s)))"

definition createCustodialMovement :: "CreateCustodialMovementInput \<Rightarrow> EarnMovementRow earn_io" where
  "createCustodialMovement input =
     io_bind (insert_custodial_movement input) (\<lambda>row.
     case row of
       Some m \<Rightarrow> io_return m
     | None \<Rightarrow>
         io_bind (mintEarnPositionForProviderWallet (ccm_providerWalletId input)) (\<lambda>_.
         io_bind (insert_custodial_movement input) (\<lambda>healed.
         case healed of
           None \<Rightarrow> io_throw (PlainError (''Earn program wallet '' @ ccm_providerWalletId input @
             '' has no custodial holding to record a movement against''))
         | Some m \<Rightarrow> io_return m)))"

datatype UpdateCustodialMovementSelector = ByMovement string | ByProviderReference string string

record UpdateCustodialMovementGuardedInput =
  ucm_selector :: UpdateCustodialMovementSelector
  ucm_organizationId :: string
  ucm_toStatus :: EarnMovementStatus
  ucm_providerReference :: "string option"
  ucm_amountSettled :: "string option option"
  ucm_feeAmount :: "string option option"
  ucm_failureReason :: "string option option"
  ucm_settledAt :: "timestamp option option"
  ucm_providerData :: "json_object option"

fun selected_by :: "UpdateCustodialMovementSelector \<Rightarrow> EarnMovementRow \<Rightarrow> bool" where
  "selected_by (ByMovement i) m \<longleftrightarrow> em_id m = i"
| "selected_by (ByProviderReference provider reference) m \<longleftrightarrow>
     em_provider m = provider \<and> em_provider_reference m = Some reference"

text \<open>\<^verbatim>\<open>jsonb || jsonb\<close> on objects: the right operand's keys replace the left operand's.\<close>

definition jsonb_merge :: "json_object \<Rightarrow> json_object \<Rightarrow> json_object" where
  "jsonb_merge a b = filter (\<lambda>(k, v). k \<notin> fst ` set b) a @ b"

definition observed :: "UpdateCustodialMovementGuardedInput \<Rightarrow> timestamp \<Rightarrow> EarnMovementRow \<Rightarrow> EarnMovementRow" where
  "observed input t m =
     m\<lparr>em_status := ucm_toStatus input, em_updated_at := t,
       em_provider_reference := (case ucm_providerReference input of None \<Rightarrow> em_provider_reference m | Some r \<Rightarrow> Some r),
       em_amount_settled := given (ucm_amountSettled input) (em_amount_settled m),
       em_fee_amount := given (ucm_feeAmount input) (em_fee_amount m),
       em_failure_reason := given (ucm_failureReason input) (em_failure_reason m),
       em_settled_at := given (ucm_settledAt input) (em_settled_at m),
       em_provider_data := (case ucm_providerData input of None \<Rightarrow> em_provider_data m
         | Some d \<Rightarrow> jsonb_merge (em_provider_data m) d)\<rparr>"

definition updateCustodialMovementGuarded :: "UpdateCustodialMovementGuardedInput \<Rightarrow> EarnMovementRow option earn_io" where
  "updateCustodialMovementGuarded input =
     io_bind (io_lift (allowedSourceStatuses Custodial (ucm_toStatus input))) (\<lambda>sources.
     update_movements (\<lambda>m. em_organization_id m = ucm_organizationId input \<and> em_execution_model m = Custodial \<and>
       em_status m \<in> set sources \<and> selected_by (ucm_selector input) m) (observed input))"

end
