(* ===== verification/Idempotency.thy ===== *)
theory Idempotency
  imports Runtime "HOL-Library.List_Lexorder"
begin

text \<open>
  Idempotency keys (\<^verbatim>\<open>apps/sdp-api/src/lib/idempotency.ts\<close>): the request id a provider dedupes on, the fingerprints that
  tell a repetition of a request from another request under the same key, and the resolution of a
  replay. A fingerprint is the text \<^verbatim>\<open>JSON.stringify\<close> prints. \<^verbatim>\<open>createHash("sha256")\<close> and the host's
  collation (\<^verbatim>\<open>localeCompare\<close>) are parameters. The fingerprint of a custodial withdrawal, whose
  amount goes through a floating-point number, is not modelled.
\<close>

section \<open>Printing JSON\<close>

definition json_escapes :: "(char \<times> char) list" where
  "json_escapes = [(CHR 0x22, CHR 0x22), (CHR 0x5C, CHR 0x5C), (CHR 0x08, CHR ''b''), (CHR 0x09, CHR ''t''),
     (CHR 0x0A, CHR ''n''), (CHR 0x0C, CHR ''f''), (CHR 0x0D, CHR ''r'')]"

definition hex_char :: "nat \<Rightarrow> char" where
  "hex_char n = (if n < 10 then char_of (48 + n) else char_of (87 + n))"

definition json_escape :: "char \<Rightarrow> string" where
  "json_escape c = (case map_of json_escapes c of
     Some l \<Rightarrow> [CHR 0x5C, l]
   | None \<Rightarrow> let n = (of_char c :: nat)
       in if n < 32 then [CHR 0x5C, CHR ''u'', CHR ''0'', CHR ''0'', hex_char (n div 16), hex_char (n mod 16)] else [c])"

definition json_quote :: "string \<Rightarrow> string" where
  "json_quote s = CHR 0x22 # concat (map json_escape s) @ [CHR 0x22]"

primrec json_stringify :: "json \<Rightarrow> string" where
  "json_stringify JNull = ''null''"
| "json_stringify (JBool b) = (if b then ''true'' else ''false'')"
| "json_stringify (JNum n) = int_string n"
| "json_stringify (JStr s) = json_quote s"
| "json_stringify (JArr vs) = ''['' @ js_join '','' (map json_stringify vs) @ '']''"
| "json_stringify (JObj entries) =
     ''{'' @ js_join '','' (map (\<lambda>(k, t). json_quote k @ '':'' @ t) (map (map_prod id json_stringify) entries)) @ ''}''"

section \<open>Fingerprints\<close>

primrec normalizeForFingerprint :: "(string \<Rightarrow> nat list) \<Rightarrow> json \<Rightarrow> json" where
  "normalizeForFingerprint collate JNull = JNull"
| "normalizeForFingerprint collate (JBool b) = JBool b"
| "normalizeForFingerprint collate (JNum n) = JNum n"
| "normalizeForFingerprint collate (JStr s) = JStr s"
| "normalizeForFingerprint collate (JArr vs) = JArr (map (normalizeForFingerprint collate) vs)"
| "normalizeForFingerprint collate (JObj entries) =
     JObj (sort_key (\<lambda>entry. collate (fst entry)) (map (map_prod id (normalizeForFingerprint collate)) entries))"

definition or_null :: "string option \<Rightarrow> json" where
  "or_null v = (case v of None \<Rightarrow> JNull | Some s \<Rightarrow> JStr s)"

text \<open>\<^verbatim>\<open>replace(/^0+(?=\d)/, "")\<close> and \<^verbatim>\<open>replace(/0+$/, "")\<close>.\<close>

definition strip_leading_zeros :: "string \<Rightarrow> string" where
  "strip_leading_zeros s =
     (let rest = dropWhile ((=) (CHR ''0'')) s
      in if rest = s then s else if rest \<noteq> [] \<and> is_digit (hd rest) then rest else CHR ''0'' # rest)"

definition strip_trailing_zeros :: "string \<Rightarrow> string" where
  "strip_trailing_zeros s = rev (dropWhile ((=) (CHR ''0'')) (rev s))"

definition normalizeDecimalString :: "string \<Rightarrow> string" where
  "normalizeDecimalString value =
     (let parts = js_split (CHR ''.'') value;
          integer = (case parts of i # _ \<Rightarrow> i | [] \<Rightarrow> ''0'');
          fraction = (case parts of _ # f # _ \<Rightarrow> f | _ \<Rightarrow> []);
          stripped = strip_leading_zeros integer;
          normalizedInteger = (if stripped = [] then ''0'' else stripped);
          normalizedFraction = strip_trailing_zeros fraction
      in if normalizedFraction = [] then normalizedInteger else normalizedInteger @ ''.'' @ normalizedFraction)"

record PaymentTransferFingerprintInput =
  ptf_sourceAddress :: "string option"
  ptf_destinationAddress :: "string option"
  ptf_token :: string
  ptf_amount :: "string option"
  ptf_memo :: "string option"
  ptf_type :: string
  ptf_privateTransfer :: "json option"

definition buildPaymentTransferFingerprint :: "(string \<Rightarrow> nat list) \<Rightarrow> PaymentTransferFingerprintInput \<Rightarrow> string" where
  "buildPaymentTransferFingerprint collate input = json_stringify (normalizeForFingerprint collate (JObj
     [(''scope'', JStr ''payment_transfer''),
      (''sourceAddress'', or_null (ptf_sourceAddress input)),
      (''destinationAddress'', or_null (ptf_destinationAddress input)),
      (''token'', JStr (ptf_token input)),
      (''amount'', or_null (ptf_amount input)),
      (''memo'', or_null (ptf_memo input)),
      (''type'', JStr (ptf_type input)),
      (''privateTransfer'', (case ptf_privateTransfer input of None \<Rightarrow> JNull | Some v \<Rightarrow> v))]))"

record TransferBatchFingerprintRecipientInput =
  tbr_externalId :: "string option"
  tbr_counterpartyId :: string
  tbr_counterpartyAccountId :: string
  tbr_destinationAddress :: string
  tbr_amount :: string

definition batch_recipient :: "TransferBatchFingerprintRecipientInput \<Rightarrow> json" where
  "batch_recipient r = JObj [(''externalId'', or_null (tbr_externalId r)), (''counterpartyId'', JStr (tbr_counterpartyId r)),
     (''counterpartyAccountId'', JStr (tbr_counterpartyAccountId r)), (''destinationAddress'', JStr (tbr_destinationAddress r)),
     (''amount'', JStr (tbr_amount r))]"

definition buildTransferBatchFingerprint ::
  "(string \<Rightarrow> nat list) \<Rightarrow> string \<Rightarrow> string \<Rightarrow> TransferBatchFingerprintRecipientInput list \<Rightarrow> json_object option \<Rightarrow> string" where
  "buildTransferBatchFingerprint collate sourceAddress token recipients options =
     json_stringify (normalizeForFingerprint collate (JObj
       [(''scope'', JStr ''payment_transfer_batch''), (''sourceAddress'', JStr sourceAddress), (''token'', JStr token),
        (''recipients'', JArr (map batch_recipient recipients)),
        (''options'', (case options of None \<Rightarrow> JNull | Some o' \<Rightarrow> JObj o'))]))"

record EarnVaultDepositFingerprintInput =
  vdf_environment :: string
  vdf_provider :: string
  vdf_providerReference :: string
  vdf_custodyWalletId :: string
  vdf_amount :: string
  vdf_minSharesOut :: "string option"

definition deposit_fields :: "EarnVaultDepositFingerprintInput \<Rightarrow> json_object" where
  "deposit_fields input =
     [(''scope'', JStr ''earn_vault_deposit''),
      (''environment'', JStr (vdf_environment input)),
      (''provider'', JStr (vdf_provider input)),
      (''providerReference'', JStr (vdf_providerReference input)),
      (''custodyWalletId'', JStr (vdf_custodyWalletId input)),
      (''direction'', JStr ''deposit''),
      (''amount'', JStr (normalizeDecimalString (vdf_amount input))),
      (''minSharesOut'', or_null (map_option normalizeDecimalString (vdf_minSharesOut input)))]"

definition buildEarnVaultDepositFingerprint :: "(string \<Rightarrow> nat list) \<Rightarrow> EarnVaultDepositFingerprintInput \<Rightarrow> string" where
  "buildEarnVaultDepositFingerprint collate input =
     json_stringify (normalizeForFingerprint collate (JObj (deposit_fields input)))"

record EarnVaultWithdrawalFingerprintInput =
  vwf_environment :: string
  vwf_provider :: string
  vwf_positionId :: string
  vwf_shares :: string

definition withdrawal_fields :: "EarnVaultWithdrawalFingerprintInput \<Rightarrow> json_object" where
  "withdrawal_fields input =
     [(''scope'', JStr ''earn_vault_withdrawal''),
      (''environment'', JStr (vwf_environment input)),
      (''provider'', JStr (vwf_provider input)),
      (''positionId'', JStr (vwf_positionId input)),
      (''direction'', JStr ''withdrawal''),
      (''shares'', JStr (normalizeDecimalString (vwf_shares input)))]"

definition buildEarnVaultWithdrawalFingerprint :: "(string \<Rightarrow> nat list) \<Rightarrow> EarnVaultWithdrawalFingerprintInput \<Rightarrow> string" where
  "buildEarnVaultWithdrawalFingerprint collate input =
     json_stringify (normalizeForFingerprint collate (JObj (withdrawal_fields input)))"

section \<open>Replays and request ids\<close>

text \<open>\<open>existing\<close> is the row the lookup found, with its fingerprint.\<close>

definition resolveIdempotencyReplay ::
  "('r \<Rightarrow> string option) \<Rightarrow> ('s, api_error, 'r option) io \<Rightarrow> string \<Rightarrow> ('s, api_error, 'r option) io" where
  "resolveIdempotencyReplay fingerprint_of findExisting fingerprint =
     io_bind findExisting (\<lambda>existing.
     case existing of
       None \<Rightarrow> io_return None
     | Some row \<Rightarrow>
         (case fingerprint_of row of
            None \<Rightarrow> io_return None
          | Some stored \<Rightarrow>
              if stored = fingerprint then io_return (Some row)
              else io_throw (conflict ''Idempotency key already used with different request payload'')))"

definition request_material :: "string list \<Rightarrow> string \<Rightarrow> string" where
  "request_material scope key = js_join ''|'' (map (\<lambda>part. dec_digits (length part) @ '':'' @ part) (scope @ [key]))"

definition js_slice :: "string \<Rightarrow> nat \<Rightarrow> nat \<Rightarrow> string" where
  "js_slice s a b = take (b - a) (drop a s)"

definition deriveProviderRequestId :: "(string \<Rightarrow> string) \<Rightarrow> string list \<Rightarrow> string \<Rightarrow> string" where
  "deriveProviderRequestId sha256 scope key =
     (let hash = sha256 (request_material scope key);
          nibble = (case radix_value 16 0 (js_slice hash 16 17) of None \<Rightarrow> 0 | Some n \<Rightarrow> n);
          variant = [hex_char (8 + nibble mod 4)]
      in js_join ''-'' [js_slice hash 0 8, js_slice hash 8 12, ''4'' @ js_slice hash 13 16,
           variant @ js_slice hash 17 20, js_slice hash 20 32])"

section \<open>Printed strings are told apart\<close>

definition unescape :: "string \<Rightarrow> (char \<times> string) option" where
  "unescape t = (case t of
     [] \<Rightarrow> None
   | c # r \<Rightarrow>
       if c \<noteq> CHR 0x5C then Some (c, r)
       else (case r of
          [] \<Rightarrow> None
        | l # r' \<Rightarrow>
            if l = CHR ''u'' then
              (case radix_value 16 0 (take 4 r') of None \<Rightarrow> None | Some n \<Rightarrow> Some (char_of n, drop 4 r'))
            else map_option (\<lambda>c'. (c', r')) (map_of (map prod.swap json_escapes) l)))"

lemma radix_digit_hex: "n < 16 \<Longrightarrow> radix_digit (hex_char n) = Some n"
  by (auto simp: radix_digit_def hex_char_def Let_def)

lemma unescape_escape: "unescape (json_escape c @ r) = Some (c, r)"
proof (cases "map_of json_escapes c")
  case (Some l)
  have "list_all (\<lambda>(c, l). l \<noteq> CHR ''u'' \<and> map_of (map prod.swap json_escapes) l = Some c) json_escapes" by code_simp
  note this[unfolded list_all_iff, THEN bspec, OF map_of_SomeD[OF Some], unfolded prod.case]
  then have u: "l \<noteq> CHR ''u''" and found: "map_of (map prod.swap json_escapes) l = Some c" by blast+
  have "json_escape c = [CHR 0x5C, l]" by (simp only: json_escape_def Some option.case)
  then show ?thesis using u by (simp only: unescape_def append.simps list.case found option.map if_False not_True_eq_False if_not_P simp_thms)
next
  case None
  let ?n = "of_char c :: nat"
  have slash: "c \<noteq> CHR 0x5C" using None by (auto simp: json_escapes_def)
  show ?thesis
  proof (cases "?n < 32")
    case True
    then have "radix_value 16 0 [CHR ''0'', CHR ''0'', hex_char (?n div 16), hex_char (?n mod 16)] = Some ?n"
      by (simp add: radix_digit_hex radix_digit_def[of "CHR ''0''"])
    then show ?thesis using True by (simp add: json_escape_def None unescape_def Let_def)
  qed (simp add: json_escape_def None unescape_def slash Let_def)
qed

lemma json_escape_hd: "\<exists>x xs. json_escape c = x # xs \<and> x \<noteq> CHR 0x22"
  by (auto simp: json_escape_def json_escapes_def Let_def split: option.split)

lemma json_body_prefix:
  "concat (map json_escape s) @ CHR 0x22 # r = concat (map json_escape t) @ CHR 0x22 # r' \<Longrightarrow> s = t \<and> r = r'"
proof (induction s arbitrary: t)
  case Nil
  then show ?case
  proof (cases t)
    case (Cons d t')
    then show ?thesis using Nil json_escape_hd[of d] by auto
  qed simp
next
  case (Cons c s)
  show ?case
  proof (cases t rule: list.exhaust)
    assume "t = []"
    then show ?thesis using Cons.prems json_escape_hd[of c] by auto
  next
    fix d t' assume t: "t = d # t'"
    have "unescape (json_escape c @ concat (map json_escape s) @ CHR 0x22 # r) =
        unescape (json_escape d @ concat (map json_escape t') @ CHR 0x22 # r')"
      using Cons.prems t by simp
    then have "c = d" "concat (map json_escape s) @ CHR 0x22 # r = concat (map json_escape t') @ CHR 0x22 # r'"
      unfolding unescape_escape by simp_all
    then show ?thesis using Cons.IH[of t'] t by simp
  qed
qed

lemma json_quote_prefix: "json_quote s @ r = json_quote t @ r' \<longleftrightarrow> s = t \<and> r = r'"
  using json_body_prefix[of s r t r'] by (auto simp: json_quote_def)

text \<open>Objects with the same keys whose values are texts or \<^verbatim>\<open>null\<close>.\<close>

definition flat :: "json \<Rightarrow> bool" where
  "flat v \<longleftrightarrow> v = JNull \<or> (\<exists>s. v = JStr s)"

lemma flat_or_null [simp]: "flat JNull" "flat (JStr s)" "flat (or_null v)"
  by (auto simp: flat_def or_null_def split: option.split)

lemma flat_normalize [simp]: "flat v \<Longrightarrow> normalizeForFingerprint collate v = v"
  by (auto simp: flat_def)

lemma flat_prefix: "flat v \<Longrightarrow> flat v' \<Longrightarrow> json_stringify v @ r = json_stringify v' @ r' \<longleftrightarrow> v = v' \<and> r = r'"
  unfolding flat_def by (auto simp: json_quote_prefix) (auto simp: json_quote_def)

lemma js_join_Cons: "js_join sep (x # xs) = x @ (if xs = [] then [] else sep @ js_join sep xs)"
  by (cases xs) auto

definition printed :: "json_object \<Rightarrow> string list" where
  "printed es = map (\<lambda>(k, t). json_quote k @ '':'' @ t) (map (map_prod id json_stringify) es)"

lemma printed_simps [simp]:
  "printed [] = []" "printed ((k, v) # es) = (json_quote k @ '':'' @ json_stringify v) # printed es" "printed es = [] \<longleftrightarrow> es = []"
  by (simp_all add: printed_def)

lemma flat_entries_inj:
  assumes "map fst es = map fst es'" "\<forall>e\<in>set es. flat (snd e)" "\<forall>e\<in>set es'. flat (snd e)"
    "js_join '','' (printed es) @ r = js_join '','' (printed es') @ r"
  shows "es = es'"
  using assms
proof (induction es arbitrary: es')
  case (Cons e es)
  obtain k v where e: "e = (k, v)" by fastforce
  obtain v' es2 where es': "es' = (k, v') # es2" "map fst es = map fst es2"
    using Cons.prems(1) e by (cases es') auto
  have nil: "es = [] \<longleftrightarrow> es2 = []" using es'(2) by (metis map_is_Nil_conv)
  show ?case
  proof (cases "es = []")
    case True
    then show ?thesis
      using Cons.prems(2-4) e es' nil flat_prefix[of v v' r r] by simp
  next
    case False
    then have "json_stringify v @ '','' @ js_join '','' (printed es) @ r = json_stringify v' @ '','' @ js_join '','' (printed es2) @ r"
      using Cons.prems(4) e es' nil by (simp add: js_join_Cons)
    then have "v = v'" "js_join '','' (printed es) @ r = js_join '','' (printed es2) @ r"
      using flat_prefix[of v v'] Cons.prems(2,3) e es' by auto
    then show ?thesis using Cons.IH[OF es'(2)] Cons.prems(2,3) e es' by simp
  qed
qed simp

lemma same_keys_sorted:
  fixes es es' :: "('k \<times> 'v) list"
  assumes "map fst es = map fst es'"
  shows "map fst (sort_key (\<lambda>e. c (fst e)) es) = map fst (sort_key (\<lambda>e. c (fst e)) es')"
proof -
  have ins: "map fst (insort_key (\<lambda>e. c (fst e)) (k, v) es) = insort_key c k (map fst es)" for k v and es :: "('k \<times> 'v) list"
    by (induction es) auto
  have "map fst (sort_key (\<lambda>e. c (fst e)) es) = sort_key c (map fst es)" for es :: "('k \<times> 'v) list"
  proof (induction es)
    case (Cons e es)
    then show ?case using ins[of "fst e" "snd e"] by simp
  qed simp
  then show ?thesis using assms by simp
qed

lemma same_keys_entries:
  assumes "map fst es = map fst es'" "distinct (map fst es)" "set es = set es'"
  shows "es = es'"
  using assms
proof (induction es arbitrary: es')
  case (Cons e es)
  obtain e' es2 where es': "es' = e' # es2" "fst e' = fst e" "map fst es = map fst es2"
    using Cons.prems(1) by (cases es') auto
  have "e \<in> set es'" using Cons.prems(3) by auto
  moreover have "fst e \<notin> fst ` set es2" using Cons.prems(2) es'(3) by (metis distinct.simps(2) list.set_map list.simps(9))
  ultimately have ee: "e = e'" using es' by auto
  moreover have "set es = set es2"
  proof -
    have "e \<notin> set es" "e \<notin> set es2" using Cons.prems(2) \<open>fst e \<notin> fst ` set es2\<close> by auto
    then show ?thesis using Cons.prems(3) es'(1) ee by auto
  qed
  ultimately show ?case using Cons.IH[OF es'(3)] Cons.prems(2) es'(1) by simp
qed simp

lemma flat_fingerprint_inj:
  assumes keys: "map fst es = map fst es'" "distinct (map fst es)"
    and flat: "\<forall>e\<in>set es. flat (snd e)" "\<forall>e\<in>set es'. flat (snd e)"
  shows "json_stringify (normalizeForFingerprint collate (JObj es)) = json_stringify (normalizeForFingerprint collate (JObj es')) \<longleftrightarrow> es = es'"
proof
  let ?s = "\<lambda>es. sort_key (\<lambda>e. collate (fst e)) es"
  have norm: "map (map_prod id (normalizeForFingerprint collate)) es = es" if "\<forall>e\<in>set es. flat (snd e)" for es
    using that by (induction es) (auto simp: map_prod_def split: prod.split)
  assume "json_stringify (normalizeForFingerprint collate (JObj es)) = json_stringify (normalizeForFingerprint collate (JObj es'))"
  then have "js_join '','' (printed (?s es)) @ ''}'' = js_join '','' (printed (?s es')) @ ''}''"
    using norm[OF flat(1)] norm[OF flat(2)] by (simp add: printed_def)
  then have "?s es = ?s es'"
    by (rule flat_entries_inj[OF same_keys_sorted[OF keys(1)], rotated -1]) (use flat in auto)
  then have "set es = set es'" by (metis set_sort)
  then show "es = es'" by (rule same_keys_entries[OF keys])
qed simp

section \<open>Normalized decimals\<close>

lemma digits_value_eq:
  assumes "\<forall>c\<in>set s. is_digit c" "\<forall>c\<in>set t. is_digit c" "length s = length t" "digits_value s = digits_value t"
  shows "s = t"
  using assms(3,1,2,4)
proof (induction s t rule: list_induct2)
  case (Cons c s d t)
  have val: "char_digit c * 10 ^ length s + digits_value s = char_digit d * 10 ^ length t + digits_value t"
    using Cons.prems(3) digits_acc_eq[of "char_digit c" s] digits_acc_eq[of "char_digit d" t] by simp
  have "digits_value s < 10 ^ length t" "digits_value t < 10 ^ length t"
    using digits_value_bound[of s] digits_value_bound[of t] Cons.prems(1,2) Cons.hyps by simp_all
  then have "char_digit c = char_digit d" "digits_value s = digits_value t"
    using val Cons.hyps div_mult_self3[of "10 ^ length t" "char_digit c" "digits_value s"]
      div_mult_self3[of "10 ^ length t" "char_digit d" "digits_value t"]
    by (metis add.commute add.right_neutral div_less mod_less mod_mult_self3 not_gr_zero power_not_zero zero_neq_numeral)+
  moreover have "c = d" if "char_digit c = char_digit d"
  proof -
    have "(of_char c :: nat) = 48 + char_digit c" "(of_char d :: nat) = 48 + char_digit d"
      using Cons.prems(1,2) by (simp_all add: char_digit_def is_digit_def)
    then show ?thesis using that by (metis of_char_eq_iff)
  qed
  ultimately show ?case using Cons.IH Cons.prems(1,2) by simp
qed simp

definition normal_whole :: "string \<Rightarrow> string" where
  "normal_whole w = (let r = dropWhile ((=) (CHR ''0'')) w in if r = [] then ''0'' else r)"

lemma normal_whole_strip:
  assumes "\<forall>c\<in>set w. is_digit c"
  shows "(if strip_leading_zeros w = [] then ''0'' else strip_leading_zeros w) = normal_whole w"
proof -
  let ?r = "dropWhile ((=) (CHR ''0'')) w"
  have hd: "is_digit (hd ?r)" if "?r \<noteq> []" using that assms by (meson hd_in_set set_dropWhileD)
  obtain r where r: "?r = r" by blast
  show ?thesis
    using hd unfolding strip_leading_zeros_def normal_whole_def Let_def r by (cases "r = w"; cases "r = []") simp_all
qed

lemma normalizeDecimalString_parts:
  assumes "decimal_parts v w f"
  shows "normalizeDecimalString v = normal_whole w @ (if strip_trailing_zeros f = [] then [] else ''.'' @ strip_trailing_zeros f)"
proof -
  have dig: "\<forall>c\<in>set w. is_digit c" "\<forall>c\<in>set f. is_digit c" using assms by (auto simp: decimal_parts_def)
  then have "CHR ''.'' \<notin> set w" "CHR ''.'' \<notin> set f" using is_digit_not_dot by blast+
  then have "js_split (CHR ''.'') v = [w, f] \<or> js_split (CHR ''.'') v = [w] \<and> f = []"
    using assms by (auto simp: decimal_parts_def js_split_append js_split_no_sep)
  then have parts: "(case js_split (CHR ''.'') v of i # _ \<Rightarrow> i | [] \<Rightarrow> ''0'') = w"
      "(case js_split (CHR ''.'') v of _ # f # _ \<Rightarrow> f | _ \<Rightarrow> []) = f"
    by auto
  obtain r where r: "strip_trailing_zeros f = r" by blast
  show ?thesis
    unfolding normalizeDecimalString_def Let_def parts normal_whole_strip[OF dig(1)] r by (cases r) simp_all
qed

lemma normal_whole_digits: "\<forall>c\<in>set w. is_digit c \<Longrightarrow> \<forall>c\<in>set (normal_whole w). is_digit c"
proof -
  assume w: "\<forall>c\<in>set w. is_digit c"
  obtain r where r: "dropWhile ((=) (CHR ''0'')) w = r" by blast
  then have "\<forall>c\<in>set r. is_digit c" using w set_dropWhileD by metis
  then show ?thesis unfolding normal_whole_def Let_def r by simp
qed

lemma normal_whole_eq:
  assumes "\<forall>c\<in>set w. is_digit c" "\<forall>c\<in>set w'. is_digit c"
  shows "normal_whole w = normal_whole w' \<longleftrightarrow> digits_value w = digits_value w'"
proof
  have val: "digits_value (normal_whole w) = digits_value w" for w
  proof -
    obtain r where r: "dropWhile ((=) (CHR ''0'')) w = r" by blast
    show ?thesis using digits_value_drop_zeros[of w] unfolding normal_whole_def Let_def r by (cases "r = []") (simp_all add: char_digit_def)
  qed
  assume "normal_whole w = normal_whole w'"
  then show "digits_value w = digits_value w'" by (metis val)
next
  assume eq: "digits_value w = digits_value w'"
  let ?z = "\<lambda>n. replicate n (CHR ''0'')"
  have "?z (length w') @ w = ?z (length w) @ w'"
    by (rule digits_value_eq) (use assms eq in \<open>auto simp: digits_value_append\<close>)
  moreover have "dropWhile ((=) (CHR ''0'')) (?z n @ w) = dropWhile ((=) (CHR ''0'')) w" for n w by (induction n) auto
  ultimately have "dropWhile ((=) (CHR ''0'')) w = dropWhile ((=) (CHR ''0'')) w'" by metis
  then show "normal_whole w = normal_whole w'" by (simp add: normal_whole_def)
qed

lemma strip_trailing_pad: "strip_trailing_zeros (f @ replicate n (CHR ''0'')) = strip_trailing_zeros f"
proof -
  have "dropWhile ((=) (CHR ''0'')) (replicate n (CHR ''0'') @ xs) = dropWhile ((=) (CHR ''0'')) xs" for xs by (induction n) auto
  then show ?thesis by (simp add: strip_trailing_zeros_def)
qed

lemma strip_trailing_split: "\<exists>n. f = strip_trailing_zeros f @ replicate n (CHR ''0'')"
proof -
  let ?t = "takeWhile ((=) (CHR ''0'')) (rev f)"
  have "?t = replicate (length ?t) (CHR ''0'')"
    by (rule replicate_eqI[OF refl, symmetric, THEN sym]) (auto dest: set_takeWhileD)
  moreover have "f = strip_trailing_zeros f @ rev ?t"
    unfolding strip_trailing_zeros_def by (metis rev_append rev_rev_ident takeWhile_dropWhile_id)
  ultimately show ?thesis by (metis rev_replicate)
qed

lemma fraction_padded:
  assumes "length f \<le> n"
  shows "of_nat (digits_value (f @ replicate (n - length f) (CHR ''0''))) / (10::rat) ^ n = of_nat (digits_value f) / 10 ^ length f"
proof -
  have "(10::rat) ^ n = 10 ^ length f * 10 ^ (n - length f)" using assms by (simp flip: power_add)
  then show ?thesis by (simp add: digits_value_append)
qed

lemma strip_trailing_value:
  assumes "strip_trailing_zeros f = strip_trailing_zeros f'"
  shows "of_nat (digits_value f) / (10::rat) ^ length f = of_nat (digits_value f') / 10 ^ length f'"
proof -
  have "of_nat (digits_value f) / (10::rat) ^ length f =
      of_nat (digits_value (strip_trailing_zeros f)) / 10 ^ length (strip_trailing_zeros f)" for f
  proof -
    obtain n where n: "f = strip_trailing_zeros f @ replicate n (CHR ''0'')" using strip_trailing_split by blast
    then have len: "length f = length (strip_trailing_zeros f) + n" by (metis length_append length_replicate)
    show ?thesis using fraction_padded[of "strip_trailing_zeros f" "length f"] n len by simp
  qed
  then show ?thesis using assms by metis
qed

lemma normal_decimal_eq:
  assumes "decimal_parts v w f" "decimal_parts v' w' f'"
  shows "normalizeDecimalString v = normalizeDecimalString v' \<longleftrightarrow>
    normal_whole w = normal_whole w' \<and> strip_trailing_zeros f = strip_trailing_zeros f'"
proof -
  have dig: "\<forall>c\<in>set w. is_digit c" "\<forall>c\<in>set w'. is_digit c" using assms by (auto simp: decimal_parts_def)
  then have "CHR ''.'' \<notin> set (normal_whole w)" "CHR ''.'' \<notin> set (normal_whole w')"
    using normal_whole_digits is_digit_not_dot by blast+
  then have split: "js_split (CHR ''.'') (normal_whole w) = [normal_whole w]" "js_split (CHR ''.'') (normal_whole w') = [normal_whole w']"
    "js_split (CHR ''.'') (normal_whole w @ CHR ''.'' # r) = normal_whole w # js_split (CHR ''.'') r"
    "js_split (CHR ''.'') (normal_whole w' @ CHR ''.'' # r) = normal_whole w' # js_split (CHR ''.'') r" for r
    by (simp_all add: js_split_append js_split_no_sep)
  have join: "js_split (CHR ''.'') a = js_split (CHR ''.'') b \<Longrightarrow> a = b" for a b
    by (metis js_join_split)
  show ?thesis
    unfolding normalizeDecimalString_parts[OF assms(1)] normalizeDecimalString_parts[OF assms(2)]
    using split join by (auto split: if_splits) (metis js_split_not_Nil list.inject)+
qed

lemma normalizeDecimalString_value:
  assumes "isDecimalString v" "isDecimalString v'"
  shows "normalizeDecimalString v = normalizeDecimalString v' \<longleftrightarrow> decimal_value v = decimal_value v'"
proof -
  obtain w f where p: "decimal_parts v w f" using assms(1) by (rule isDecimalString_parts)
  obtain w' f' where p': "decimal_parts v' w' f'" using assms(2) by (rule isDecimalString_parts)
  have dig: "\<forall>c\<in>set w. is_digit c" "\<forall>c\<in>set w'. is_digit c" "\<forall>c\<in>set f. is_digit c" "\<forall>c\<in>set f'. is_digit c"
    using p p' by (auto simp: decimal_parts_def)
  have val: "decimal_value v = of_nat (digits_value w) + of_nat (digits_value f) / 10 ^ length f"
    "decimal_value v' = of_nat (digits_value w') + of_nat (digits_value f') / 10 ^ length f'"
    using decimal_value_parts p p' assms by simp_all
  show ?thesis unfolding normal_decimal_eq[OF p p'] normal_whole_eq[OF dig(1,2)]
  proof
    assume "digits_value w = digits_value w' \<and> strip_trailing_zeros f = strip_trailing_zeros f'"
    then show "decimal_value v = decimal_value v'" unfolding val using strip_trailing_value by metis
  next
    assume eq: "decimal_value v = decimal_value v'"
    define n where "n = max (length f) (length f')"
    let ?pad = "\<lambda>f. f @ replicate (n - length f) (CHR ''0'')"
    have len: "length f \<le> n" "length f' \<le> n" by (simp_all add: n_def)
    have "of_nat (digits_value w) + of_nat (digits_value (?pad f)) / (10::rat) ^ n =
        of_nat (digits_value w') + of_nat (digits_value (?pad f')) / 10 ^ n"
      using eq unfolding val fraction_padded[OF len(1)] fraction_padded[OF len(2)] .
    then have "rat_of_nat (digits_value w * 10 ^ n + digits_value (?pad f)) = rat_of_nat (digits_value w' * 10 ^ n + digits_value (?pad f'))"
      by (simp add: field_simps)
    then have sum: "digits_value w * 10 ^ n + digits_value (?pad f) = digits_value w' * 10 ^ n + digits_value (?pad f')"
      by (simp only: of_nat_eq_iff)
    have "\<forall>c\<in>set (?pad f). is_digit c" "\<forall>c\<in>set (?pad f'). is_digit c" using dig(3,4) by auto
    then have small: "digits_value (?pad f) < 10 ^ n" "digits_value (?pad f') < 10 ^ n"
      using digits_value_bound[of "?pad f"] digits_value_bound[of "?pad f'"] len by simp_all
    have parts: "digits_value w = digits_value w'" "digits_value (?pad f) = digits_value (?pad f')"
      using arg_cong[OF sum, of "\<lambda>x. x div 10 ^ n"] arg_cong[OF sum, of "\<lambda>x. x mod 10 ^ n"] small by simp_all
    then have "?pad f = ?pad f'" using dig len by (intro digits_value_eq) auto
    then have "strip_trailing_zeros f = strip_trailing_zeros f'" by (metis strip_trailing_pad)
    with parts(1) show "digits_value w = digits_value w' \<and> strip_trailing_zeros f = strip_trailing_zeros f'" by simp
  qed
qed

section \<open>What the fingerprints tell apart\<close>

lemma or_null_eq [simp]: "or_null a = or_null b \<longleftrightarrow> a = b"
  by (simp add: or_null_def split: option.split)

text \<open>C38. The fingerprint of a vault deposit is equal for two requests exactly when they would move the same money: the
  same environment, provider, vault and wallet, the same amount as a number and the same floor as a number (or none
  in both). Spelling an amount with other zeros is the same request, and no two different requests share a fingerprint,
  whatever characters their fields contain.\<close>

theorem deposit_fingerprint_same_intent:
  assumes "isDecimalString (vdf_amount a)" and "isDecimalString (vdf_amount b)"
    and "\<forall>m\<in>set_option (vdf_minSharesOut a) \<union> set_option (vdf_minSharesOut b). isDecimalString m"
  shows "buildEarnVaultDepositFingerprint collate a = buildEarnVaultDepositFingerprint collate b \<longleftrightarrow>
    vdf_environment a = vdf_environment b \<and> vdf_provider a = vdf_provider b \<and>
    vdf_providerReference a = vdf_providerReference b \<and> vdf_custodyWalletId a = vdf_custodyWalletId b \<and>
    decimal_value (vdf_amount a) = decimal_value (vdf_amount b) \<and>
    map_option decimal_value (vdf_minSharesOut a) = map_option decimal_value (vdf_minSharesOut b)"
proof -
  have floor: "map_option normalizeDecimalString (vdf_minSharesOut a) = map_option normalizeDecimalString (vdf_minSharesOut b) \<longleftrightarrow>
      map_option decimal_value (vdf_minSharesOut a) = map_option decimal_value (vdf_minSharesOut b)"
    using assms(3) normalizeDecimalString_value by (cases "vdf_minSharesOut a"; cases "vdf_minSharesOut b") auto
  have "buildEarnVaultDepositFingerprint collate a = buildEarnVaultDepositFingerprint collate b \<longleftrightarrow> deposit_fields a = deposit_fields b"
    unfolding buildEarnVaultDepositFingerprint_def by (rule flat_fingerprint_inj) (simp_all add: deposit_fields_def)
  also have "\<dots> \<longleftrightarrow> vdf_environment a = vdf_environment b \<and> vdf_provider a = vdf_provider b \<and>
      vdf_providerReference a = vdf_providerReference b \<and> vdf_custodyWalletId a = vdf_custodyWalletId b \<and>
      normalizeDecimalString (vdf_amount a) = normalizeDecimalString (vdf_amount b) \<and>
      map_option normalizeDecimalString (vdf_minSharesOut a) = map_option normalizeDecimalString (vdf_minSharesOut b)"
    by (simp add: deposit_fields_def)
  finally show ?thesis unfolding floor normalizeDecimalString_value[OF assms(1,2)] .
qed

theorem deposit_fingerprint_same_intent_witness:
  "let a = \<lparr>vdf_environment = ''sandbox'', vdf_provider = ''kamino'', vdf_providerReference = ''v'', vdf_custodyWalletId = ''w'',
      vdf_amount = ''1'', vdf_minSharesOut = None\<rparr>
   in buildEarnVaultDepositFingerprint (map of_char) a = buildEarnVaultDepositFingerprint (map of_char) (a\<lparr>vdf_amount := ''01.000''\<rparr>) \<and>
      buildEarnVaultDepositFingerprint (map of_char) a \<noteq> buildEarnVaultDepositFingerprint (map of_char) (a\<lparr>vdf_amount := ''1.5''\<rparr>)"
proof -
  have dec: "isDecimalString ''1''" "isDecimalString ''01.000''" "isDecimalString ''1.5''" by code_simp+
  have val: "decimal_value ''1'' = decimal_value ''01.000''" "decimal_value ''01.000'' \<noteq> decimal_value ''1.5''" by code_simp+
  show ?thesis
    unfolding Let_def
    by (subst (1 2) deposit_fingerprint_same_intent) (simp_all add: dec val)
qed

lemma withdrawal_fingerprint_same_intent:
  assumes "isDecimalString (vwf_shares a)" "isDecimalString (vwf_shares b)"
  shows "buildEarnVaultWithdrawalFingerprint collate a = buildEarnVaultWithdrawalFingerprint collate b \<longleftrightarrow>
    vwf_environment a = vwf_environment b \<and> vwf_provider a = vwf_provider b \<and> vwf_positionId a = vwf_positionId b \<and>
    decimal_value (vwf_shares a) = decimal_value (vwf_shares b)"
proof -
  have "buildEarnVaultWithdrawalFingerprint collate a = buildEarnVaultWithdrawalFingerprint collate b \<longleftrightarrow> withdrawal_fields a = withdrawal_fields b"
    unfolding buildEarnVaultWithdrawalFingerprint_def by (rule flat_fingerprint_inj) (simp_all add: withdrawal_fields_def)
  then show ?thesis using normalizeDecimalString_value[OF assms] by (simp add: withdrawal_fields_def)
qed

section \<open>Provider request ids\<close>

lemma length_prefix:
  assumes "dec_digits (length p) @ '':'' @ p @ r = dec_digits (length q) @ '':'' @ q @ r'"
  shows "p = q \<and> r = r'"
proof -
  have colon: "takeWhile is_digit (dec_digits n @ CHR '':'' # x) = dec_digits n" for n x
    using dec_digits_is_digit[of n] by (simp add: takeWhile_append is_digit_def)
  have "dec_digits (length p) = dec_digits (length q)"
    using assms colon[of "length p" "p @ r"] colon[of "length q" "q @ r'"] by simp
  then have "length p = length q" "p @ r = q @ r'" using assms by (simp_all add: dec_digits_inj)
  then show ?thesis by simp
qed

lemma material_inj:
  assumes "js_join ''|'' (map (\<lambda>part. dec_digits (length part) @ '':'' @ part) ps) =
    js_join ''|'' (map (\<lambda>part. dec_digits (length part) @ '':'' @ part) qs)"
  shows "ps = qs"
  using assms
proof (induction ps arbitrary: qs)
  case Nil
  then show ?case by (cases qs) (auto simp: js_join_Cons)
next
  case (Cons p ps)
  let ?m = "map (\<lambda>part. dec_digits (length part) @ '':'' @ part)"
  obtain q qs' where qs: "qs = q # qs'" using Cons.prems by (cases qs) (auto simp: js_join_Cons)
  have "dec_digits (length p) @ '':'' @ p @ (if ?m ps = [] then [] else ''|'' @ js_join ''|'' (?m ps)) =
      dec_digits (length q) @ '':'' @ q @ (if ?m qs' = [] then [] else ''|'' @ js_join ''|'' (?m qs'))"
    using Cons.prems unfolding qs list.map js_join_Cons by (simp only: append_assoc)
  from length_prefix[OF this] have pq: "p = q" and rest: "(if ps = [] then [] else ''|'' @ js_join ''|'' (?m ps)) =
      (if qs' = [] then [] else ''|'' @ js_join ''|'' (?m qs'))" by simp_all
  have "ps = qs'" using rest Cons.IH[of qs'] by (cases "ps = []"; cases "qs' = []") auto
  then show ?case using pq qs by simp
qed

text \<open>The text a provider's request id is derived from determines the scope and the caller's key: the length prefixes
  leave no way to rearrange one scope and key into another, so two requests share an id only through the hash.\<close>

theorem request_material_determines_request:
  "request_material scope key = request_material scope' key' \<longleftrightarrow> scope = scope' \<and> key = key'"
  unfolding request_material_def using material_inj[of "scope @ [key]" "scope' @ [key']"] by auto

definition hex_digits :: "string \<Rightarrow> bool" where
  "hex_digits s \<longleftrightarrow> list_all (\<lambda>c. radix_digit c \<noteq> None) s"

lemma js_slice_hex:
  assumes "hex_digits s" "b \<le> length s" "a \<le> b"
  shows "length (js_slice s a b) = b - a" "hex_digits (js_slice s a b)"
  using assms by (auto simp: js_slice_def hex_digits_def list_all_iff dest: in_set_takeD in_set_dropD)

text \<open>The shape a provider validates: a UUID of version 4 and the RFC 4122 variant.\<close>

lemma derived_request_id_shape:
  assumes "hex_digits (sha256 (request_material scope key))" "length (sha256 (request_material scope key)) = 64"
  shows "\<exists>a b c v d e. deriveProviderRequestId sha256 scope key = a @ ''-'' @ b @ ''-4'' @ c @ ''-'' @ [v] @ d @ ''-'' @ e \<and>
    length a = 8 \<and> length b = 4 \<and> length c = 3 \<and> length d = 3 \<and> length e = 12 \<and> v \<in> set ''89ab'' \<and>
    hex_digits (a @ b @ c @ d @ e)"
proof -
  let ?h = "sha256 (request_material scope key)"
  let ?n = "case radix_value 16 0 (js_slice ?h 16 17) of None \<Rightarrow> 0 | Some n \<Rightarrow> n"
  have "?n mod 4 < 4" by simp
  then have "?n mod 4 = 0 \<or> ?n mod 4 = 1 \<or> ?n mod 4 = 2 \<or> ?n mod 4 = 3" by linarith
  moreover have "hex_char 8 = CHR ''8''" "hex_char 9 = CHR ''9''" "hex_char 10 = CHR ''a''" "hex_char 11 = CHR ''b''" by code_simp+
  ultimately have v: "hex_char (8 + ?n mod 4) \<in> set ''89ab''" by (elim disjE) simp_all
  have "deriveProviderRequestId sha256 scope key =
      js_slice ?h 0 8 @ ''-'' @ js_slice ?h 8 12 @ ''-4'' @ js_slice ?h 13 16 @ ''-'' @ [hex_char (8 + ?n mod 4)] @ js_slice ?h 17 20 @ ''-'' @ js_slice ?h 20 32"
    by (simp add: deriveProviderRequestId_def Let_def)
  moreover have "hex_digits (js_slice ?h 0 8 @ js_slice ?h 8 12 @ js_slice ?h 13 16 @ js_slice ?h 17 20 @ js_slice ?h 20 32)"
    using js_slice_hex(2)[OF assms(1)] assms(2) by (simp add: hex_digits_def)
  ultimately show ?thesis using js_slice_hex(1)[OF assms(1)] assms(2) v by (intro exI conjI) auto
qed

end
