(* ===== verification/Earn_Vault.thy ===== *)
theory Earn_Vault
  imports Earn_Ledger Idempotency Decimal_Amount
begin

text \<open>
  Vault execution (\<^verbatim>\<open>apps/sdp-api/src/services/earn/\<close>): deadlines, the choice and proof of an RPC endpoint, who pays,
  and the way of a deposit or a withdrawal from the provider's unsigned plan to recorded and broadcast bytes. What
  other code does is a parameter: the record \<open>vault_world\<close> holds the calls that leave the process (RPC, the custody
  signer, the paymaster, the vault provider's client) and the functions of the transaction library. A call
  may take time, fail, and depend on anything; it is assumed not to write the ledger. Logging is left out, and
  concurrent callers of one endpoint proof are sequential here.
\<close>

section \<open>Clusters and endpoints\<close>

fun cluster_text :: "SolanaCluster \<Rightarrow> string" where
  "cluster_text Devnet = ''devnet''"
| "cluster_text MainnetBeta = ''mainnet-beta''"

fun environment_text :: "SdpEnvironment \<Rightarrow> string" where
  "environment_text EnvSandbox = ''sandbox''"
| "environment_text EnvProduction = ''production''"

fun earnClusterFor :: "SdpEnvironment \<Rightarrow> SolanaCluster" where
  "earnClusterFor EnvSandbox = Devnet"
| "earnClusterFor EnvProduction = MainnetBeta"

fun GENESIS_HASH_BY_CLUSTER :: "SolanaCluster \<Rightarrow> string" where
  "GENESIS_HASH_BY_CLUSTER MainnetBeta = ''5eykt4UsFv8P8NJdTREpY1vzqKqZKvdpKuc147dw2N9d''"
| "GENESIS_HASH_BY_CLUSTER Devnet = ''EtWTRABZaYq6iMfeYKouRu166VU2xqa1wcaWoxPkrZBG''"

section \<open>Plans and transactions\<close>

record EarnVaultAccountRef =
  evr_address :: string
  evr_role :: nat

record EarnVaultInstruction =
  evi_programAddress :: string
  evi_accounts :: "EarnVaultAccountRef list"
  evi_data :: string

record EarnVaultAssetIdentity =
  eva_depositTokenMint :: string
  eva_shareMint :: string

record EarnVaultAcceptedAmounts =
  evc_amount :: "string option"
  evc_minSharesOut :: "string option"
  evc_shares :: "string option"

record EarnVaultTransactionPlan =
  evp_cluster :: SolanaCluster
  evp_instructions :: "EarnVaultInstruction list"
  evp_lookupTables :: "string list"
  evp_assetIdentity :: EarnVaultAssetIdentity
  evp_accepted :: "EarnVaultAcceptedAmounts option"
  evp_createsShareAccount :: bool

record EarnVaultDepositInput =
  vdi_providerReference :: string
  vdi_owner :: string
  vdi_amount :: string
  vdi_minSharesOut :: "string option"
  vdi_rentPayer :: "string option"

record EarnVaultWithdrawInput =
  vwi_providerReference :: string
  vwi_owner :: string
  vwi_shares :: string
  vwi_rentRefundTo :: "string option"
  vwi_rentPayer :: "string option"

text \<open>An instruction with its data in bytes, a message before it is compiled, and a decoded transaction.\<close>

record kit_instruction =
  ki_programAddress :: string
  ki_accounts :: "EarnVaultAccountRef list"
  ki_data :: bytes

type_synonym lookup_tables = "(string \<times> string list) list"

record transaction_message =
  tm_feePayer :: string
  tm_blockhash :: string
  tm_lastValidBlockHeight :: int
  tm_instructions :: "kit_instruction list"
  tm_lookupTables :: "lookup_tables option"
  tm_signers :: "string list"

record kit_transaction =
  kt_messageBytes :: bytes
  kt_signatures :: "(string \<times> bytes option) list"

text \<open>What building a plan can fail with: the one error the services translate, or any other.\<close>

datatype build_error = KaminoInvalidAmount string | BuildError api_error

record vault_env =
  ve_SOLANA_DEVNET_RPC_URL :: "string option"
  ve_SOLANA_MAINNET_RPC_URL :: "string option"
  ve_SOLANA_NETWORK :: "SolanaCluster option"
  ve_default_rpc_url :: "string option"
  ve_EARN_VAULT_FEE_SPONSORSHIP_ENABLED :: "string option"

record simulation_value =
  sv_err :: "string option"
  sv_logs :: "string list"

datatype commitment = Processed | Confirmed | Finalized

text \<open>The status of a signature; an error is the text \<^verbatim>\<open>JSON.stringify\<close> prints of it.\<close>

record SignatureStatusInfo =
  ssi_err :: "string option"
  ssi_confirmationStatus :: "commitment option"

record vault_world =
  vw_env :: vault_env
  vw_collate :: "string \<Rightarrow> nat list"
  vw_getGenesisHash :: "string \<Rightarrow> string earn_io"
  vw_getRecentBlockhash :: "string \<Rightarrow> (string \<times> int) earn_io"
  vw_fetchAddressesForLookupTables :: "string \<Rightarrow> string list \<Rightarrow> lookup_tables earn_io"
  vw_simulateTransaction :: "string \<Rightarrow> string \<Rightarrow> simulation_value earn_io"
  vw_sendTransaction :: "string \<Rightarrow> bytes \<Rightarrow> unit earn_io"
  vw_getSignatureStatuses :: "string \<Rightarrow> string option list \<Rightarrow> SignatureStatusInfo option list earn_io"
  vw_getBlockHeight :: "string \<Rightarrow> int earn_io"
  vw_signMessage :: "transaction_message \<Rightarrow> kit_transaction earn_io"
  vw_encode :: "kit_transaction \<Rightarrow> bytes"
  vw_decode :: "bytes \<Rightarrow> (api_error, kit_transaction) result"
  vw_getSignatureFromTransaction :: "kit_transaction \<Rightarrow> (api_error, string) result"
  vw_createOrgSigner :: "string \<Rightarrow> string \<Rightarrow> string \<Rightarrow> string earn_io"
  vw_createFeePayment :: "string \<Rightarrow> string \<Rightarrow> string \<Rightarrow> unit earn_io"
  vw_getFeePayer :: "string earn_io"
  vw_signAsFeePayer :: "bytes \<Rightarrow> bytes earn_io"
  vw_supportsVaultDirect :: "string \<Rightarrow> bool"
  vw_supportsVaultWithdraw :: "string \<Rightarrow> bool"
  vw_buildVaultDeposit :: "EarnVaultDepositInput \<Rightarrow> (build_error, EarnVaultTransactionPlan) result earn_io"
  vw_buildVaultWithdrawal :: "EarnVaultWithdrawInput \<Rightarrow> (build_error, EarnVaultTransactionPlan) result earn_io"

section \<open>Deadlines\<close>

definition VAULT_EXTERNAL_CALL_TIMEOUT_MS :: int where
  "VAULT_EXTERNAL_CALL_TIMEOUT_MS = 20000"

record VaultDeadline =
  vd_timeoutMs :: int
  vd_expiresAt :: timestamp

definition createVaultDeadline :: "int \<Rightarrow> VaultDeadline earn_io" where
  "createVaultDeadline timeoutMs =
     (if timeoutMs \<le> 0 then io_throw (PlainError ''Vault deadline must be a positive number of milliseconds'')
      else io_bind now (\<lambda>t. io_return \<lparr>vd_timeoutMs = timeoutMs, vd_expiresAt = t + timeoutMs\<rparr>))"

definition timeoutError :: "VaultDeadline \<Rightarrow> string \<Rightarrow> api_error" where
  "timeoutError d label = PlainError (label @ '' timed out after '' @ int_string (vd_timeoutMs d) @ ''ms'')"

definition assertActive :: "VaultDeadline \<Rightarrow> string \<Rightarrow> unit earn_io" where
  "assertActive d label = io_bind now (\<lambda>t.
     if vd_expiresAt d - t \<le> 0 then io_throw (timeoutError d label) else io_return ())"

text \<open>The race of an operation against the timer: an operation that settles only at or after the deadline has lost, with
  whatever it did done.\<close>

definition deadline_run :: "VaultDeadline \<Rightarrow> string \<Rightarrow> 'a earn_io \<Rightarrow> 'a earn_io" where
  "deadline_run d label operation =
     io_bind (assertActive d label) (\<lambda>_ s.
       case operation s of (r, s') \<Rightarrow>
         if sess_clock s' \<ge> vd_expiresAt d then (Inl (timeoutError d label), s') else (r, s'))"

section \<open>The execution registry\<close>

definition resolveClusterRpcUrl :: "vault_world \<Rightarrow> SolanaCluster \<Rightarrow> string" where
  "resolveClusterRpcUrl w cluster =
     (let env = vw_env w;
          perCluster = (if cluster = Devnet then ve_SOLANA_DEVNET_RPC_URL env else ve_SOLANA_MAINNET_RPC_URL env);
          defaultCluster = (case ve_SOLANA_NETWORK env of None \<Rightarrow> Devnet | Some c \<Rightarrow> c)
      in case perCluster of
           Some url \<Rightarrow>
             if js_trim url \<noteq> [] then js_trim url
             else if defaultCluster \<noteq> cluster then []
             else (case ve_default_rpc_url env of None \<Rightarrow> [] | Some u \<Rightarrow> js_trim u)
         | None \<Rightarrow>
             if defaultCluster \<noteq> cluster then []
             else (case ve_default_rpc_url env of None \<Rightarrow> [] | Some u \<Rightarrow> js_trim u))"

definition CLUSTER_ENDPOINT_PROOF_TTL_MS :: int where
  "CLUSTER_ENDPOINT_PROOF_TTL_MS = 30000"

definition cluster_variable :: "SolanaCluster \<Rightarrow> string" where
  "cluster_variable cluster = ''SOLANA_'' @ (if cluster = Devnet then ''DEVNET'' else ''MAINNET'') @ ''_RPC_URL''"

definition live_proof :: "SolanaCluster \<Rightarrow> string \<Rightarrow> earn_session \<Rightarrow> string option" where
  "live_proof cluster rpcUrl s = (case map_of (es_cluster_proofs s) (cluster, rpcUrl) of
     None \<Rightarrow> None
   | Some (genesis, expiresAt) \<Rightarrow> if expiresAt \<le> sess_clock s then None else Some genesis)"

definition remember_proof :: "SolanaCluster \<Rightarrow> string \<Rightarrow> string \<Rightarrow> earn_session \<Rightarrow> earn_session" where
  "remember_proof cluster rpcUrl genesis s =
     s\<lparr>es_cluster_proofs := ((cluster, rpcUrl), (genesis, sess_clock s + CLUSTER_ENDPOINT_PROOF_TTL_MS)) #
         filter (\<lambda>p. fst p \<noteq> (cluster, rpcUrl)) (es_cluster_proofs s)\<rparr>"

definition forget_proof :: "SolanaCluster \<Rightarrow> string \<Rightarrow> earn_session \<Rightarrow> earn_session" where
  "forget_proof cluster rpcUrl s = s\<lparr>es_cluster_proofs := filter (\<lambda>p. fst p \<noteq> (cluster, rpcUrl)) (es_cluster_proofs s)\<rparr>"

definition observe_genesis :: "vault_world \<Rightarrow> SolanaCluster \<Rightarrow> string \<Rightarrow> string earn_io" where
  "observe_genesis w cluster rpcUrl =
     io_bind (io_get (live_proof cluster rpcUrl)) (\<lambda>proof.
     case proof of
       Some genesis \<Rightarrow> io_return genesis
     | None \<Rightarrow>
         io_catch
           (io_bind (vw_getGenesisHash w rpcUrl) (\<lambda>genesis.
            io_bind (io_modify (remember_proof cluster rpcUrl genesis)) (\<lambda>_. io_return genesis)))
           (\<lambda>cause. io_bind (io_modify (forget_proof cluster rpcUrl)) (\<lambda>_.
              io_throw (providerNotConfigured (''Could not verify that the configured '' @ cluster_text cluster @
                '' RPC endpoint serves '' @ cluster_text cluster @ '': '' @ errorMessage cause)))))"

text \<open>The dash in the last message is an ASCII hyphen here.\<close>

definition assertClusterEndpoint :: "vault_world \<Rightarrow> SolanaCluster \<Rightarrow> string \<Rightarrow> unit earn_io" where
  "assertClusterEndpoint w cluster rpcUrl =
     (if rpcUrl = [] then io_throw (providerNotConfigured (''No Solana RPC endpoint is configured for '' @ cluster_text cluster @
        ''. Set '' @ cluster_variable cluster @ '', or configure the canonical default for '' @ cluster_text cluster @ ''.''))
      else io_bind (observe_genesis w cluster rpcUrl) (\<lambda>genesis.
        let expected = GENESIS_HASH_BY_CLUSTER cluster
        in if genesis \<noteq> expected
           then io_throw (providerNotConfigured (''The RPC endpoint configured for '' @ cluster_text cluster @
             '' reports genesis '' @ genesis @ '', not '' @ expected @ ''. Building against it would address the wrong chain - refusing. Set '' @
             cluster_variable cluster @ '' to a '' @ cluster_text cluster @ '' endpoint.''))
           else io_return ()))"

section \<open>Who pays\<close>

datatype VaultFeeMode = Sponsored string | WalletPays

definition isTruthyFlag :: "(string \<Rightarrow> string) \<Rightarrow> string option \<Rightarrow> bool" where
  "isTruthyFlag toLowerCase value = (case value of
     None \<Rightarrow> False
   | Some v \<Rightarrow> v \<noteq> [] \<and> toLowerCase (js_trim v) \<in> {''1'', ''true'', ''yes'', ''on''})"

definition ascii_lower :: "char \<Rightarrow> char" where
  "ascii_lower c = (let n = (of_char c :: nat) in if 65 \<le> n \<and> n \<le> 90 then char_of (n + 32) else c)"

definition EARN_VAULT_SPONSORSHIP_CLUSTERS :: "SolanaCluster list" where
  "EARN_VAULT_SPONSORSHIP_CLUSTERS = [Devnet]"

text \<open>Lower-casing letters outside ASCII never yields one of the four words.\<close>

definition isEarnVaultSponsorshipEnabled :: "vault_env \<Rightarrow> SolanaCluster \<Rightarrow> bool" where
  "isEarnVaultSponsorshipEnabled env cluster =
     (if cluster \<notin> set EARN_VAULT_SPONSORSHIP_CLUSTERS then False
      else isTruthyFlag (map ascii_lower) (ve_EARN_VAULT_FEE_SPONSORSHIP_ENABLED env))"

definition resolveVaultSponsorship ::
  "vault_world \<Rightarrow> string \<Rightarrow> string \<Rightarrow> string \<Rightarrow> SolanaCluster \<Rightarrow> VaultDeadline \<Rightarrow> VaultFeeMode earn_io" where
  "resolveVaultSponsorship w organizationId projectId walletId cluster deadline =
     (if \<not> isEarnVaultSponsorshipEnabled (vw_env w) cluster then io_return WalletPays
      else io_bind (vw_createFeePayment w organizationId projectId walletId) (\<lambda>_.
        io_bind (deadline_run deadline ''Resolving the sponsored fee payer'' (vw_getFeePayer w)) (\<lambda>sponsor.
        io_return (Sponsored sponsor))))"

fun vaultRentPayer :: "VaultFeeMode \<Rightarrow> string option" where
  "vaultRentPayer (Sponsored sponsor) = Some sponsor"
| "vaultRentPayer WalletPays = None"

section \<open>Signing\<close>

definition toKitInstruction :: "EarnVaultInstruction \<Rightarrow> kit_instruction" where
  "toKitInstruction instruction =
     \<lparr>ki_programAddress = evi_programAddress instruction, ki_accounts = evi_accounts instruction,
      ki_data = base64_decode (evi_data instruction)\<rparr>"

definition MEMO_PROGRAM_ADDRESS :: string where
  "MEMO_PROGRAM_ADDRESS = ''MemoSq4gqABAXKb96qnH8TysNcWxMyWCqXgDLGmfcHr''"

definition appendVaultRequestMemo :: "EarnVaultTransactionPlan \<Rightarrow> string \<Rightarrow> string \<Rightarrow> EarnVaultTransactionPlan" where
  "appendVaultRequestMemo plan kind requestId =
     (let memo = \<lparr>evi_programAddress = MEMO_PROGRAM_ADDRESS, evi_accounts = [],
            evi_data = base64_encode (utf8_bytes (''sdp:earn:'' @ kind @ '':'' @ requestId))\<rparr>
      in plan\<lparr>evp_instructions := evp_instructions plan @ [memo]\<rparr>)"

record PreparedVaultPlanExecution =
  pve_plan :: EarnVaultTransactionPlan
  pve_lookupTables :: lookup_tables
  pve_blockhash :: string
  pve_lastValidBlockHeight :: int

record SignedVaultTransaction =
  svt_bytes :: bytes
  svt_signature :: string
  svt_lastValidBlockHeight :: int

definition assertExpectedPlan ::
  "EarnVaultTransactionPlan \<Rightarrow> SolanaCluster \<Rightarrow> EarnVaultAssetIdentity \<Rightarrow> (api_error, unit) result" where
  "assertExpectedPlan plan expectedCluster expectedAssetIdentity =
     (let identity = evp_assetIdentity plan
      in if evp_cluster plan \<noteq> expectedCluster
         then Inl (PlainError (''Vault plan targets '' @ cluster_text (evp_cluster plan) @ '', not the expected '' @
           cluster_text expectedCluster @ '' cluster''))
         else if eva_depositTokenMint identity \<noteq> eva_depositTokenMint expectedAssetIdentity
         then Inl (PlainError (''Vault plan deposit token mint '' @ eva_depositTokenMint identity @ '' does not match the expected '' @
           eva_depositTokenMint expectedAssetIdentity))
         else if eva_shareMint identity \<noteq> eva_shareMint expectedAssetIdentity
         then Inl (PlainError (''Vault plan share mint '' @ eva_shareMint identity @ '' does not match the expected '' @
           eva_shareMint expectedAssetIdentity))
         else Inr ())"

definition verifyVaultRpc :: "vault_world \<Rightarrow> SolanaCluster \<Rightarrow> VaultDeadline \<Rightarrow> string \<Rightarrow> unit earn_io" where
  "verifyVaultRpc w cluster deadline rpcUrl =
     deadline_run deadline (''Verifying the '' @ cluster_text cluster @ '' RPC endpoint'') (assertClusterEndpoint w cluster rpcUrl)"

definition resolveLookupTables :: "vault_world \<Rightarrow> VaultDeadline \<Rightarrow> EarnVaultTransactionPlan \<Rightarrow> string \<Rightarrow> lookup_tables earn_io" where
  "resolveLookupTables w deadline plan rpcUrl =
     (if evp_lookupTables plan = [] then io_return []
      else deadline_run deadline ''Fetching the vault lookup tables''
        (vw_fetchAddressesForLookupTables w rpcUrl (evp_lookupTables plan)))"

definition applyLookupTables :: "transaction_message \<Rightarrow> lookup_tables \<Rightarrow> transaction_message" where
  "applyLookupTables message lookupTables =
     (if lookupTables = [] then message else message\<lparr>tm_lookupTables := Some lookupTables\<rparr>)"

definition SOLANA_TRANSACTION_SIZE_LIMIT_BYTES :: nat where
  "SOLANA_TRANSACTION_SIZE_LIMIT_BYTES = 1232"

definition assertVaultTransactionFits :: "bytes \<Rightarrow> bool \<Rightarrow> (api_error, unit) result" where
  "assertVaultTransactionFits bs sponsored =
     (if length bs \<le> SOLANA_TRANSACTION_SIZE_LIMIT_BYTES then Inr ()
      else Inl (PlainError (''Vault transaction is '' @ dec_digits (length bs) @ '' bytes; Solana allows at most '' @
        dec_digits SOLANA_TRANSACTION_SIZE_LIMIT_BYTES @
        (if sponsored then ''. Sponsorship adds 96 bytes (one signature slot plus one account key) that the provider did not know about when it sized this plan.''
         else []))))"

definition planInstructions :: "EarnVaultTransactionPlan \<Rightarrow> (api_error, EarnVaultInstruction list) result" where
  "planInstructions plan =
     (if evp_instructions plan = [] then Inl (PlainError ''Vault plan carried no instructions'') else Inr (evp_instructions plan))"

text \<open>The two message pipes; \<^verbatim>\<open>setTransactionMessageFeePayerSigner\<close> adds the payer to the signers.\<close>

definition vault_message ::
  "string \<Rightarrow> EarnVaultInstruction list \<Rightarrow> PreparedVaultPlanExecution \<Rightarrow> string list \<Rightarrow> transaction_message" where
  "vault_message feePayer instructions prepared signers =
     (applyLookupTables
       \<lparr>tm_feePayer = feePayer, tm_blockhash = pve_blockhash prepared, tm_lastValidBlockHeight = pve_lastValidBlockHeight prepared,
        tm_instructions = map toKitInstruction instructions, tm_lookupTables = None, tm_signers = []\<rparr>
       (pve_lookupTables prepared))\<lparr>tm_signers := signers\<rparr>"

definition has_signature :: "kit_transaction \<Rightarrow> string \<Rightarrow> bool" where
  "has_signature t address = (case map_of (kt_signatures t) address of Some (Some _) \<Rightarrow> True | _ \<Rightarrow> False)"

definition sign_sponsored ::
  "vault_world \<Rightarrow> VaultDeadline \<Rightarrow> EarnVaultInstruction list \<Rightarrow> PreparedVaultPlanExecution \<Rightarrow> string \<Rightarrow> string \<Rightarrow> bytes earn_io" where
  "sign_sponsored w deadline instructions prepared sponsor owner =
     io_bind (deadline_run deadline ''Signing the vault transaction'' (vw_signMessage w (vault_message sponsor instructions prepared [owner]))) (\<lambda>ownerSigned.
     let ownerSignedBytes = vw_encode w ownerSigned
     in io_bind (io_lift (assertVaultTransactionFits ownerSignedBytes True)) (\<lambda>_.
        io_bind (deadline_run deadline ''Signing the sponsored vault fee'' (vw_signAsFeePayer w ownerSignedBytes)) (\<lambda>signedBytes.
        io_bind (io_lift (vw_decode w signedBytes)) (\<lambda>sponsorSigned.
        if kt_messageBytes sponsorSigned \<noteq> kt_messageBytes ownerSigned
        then io_throw (PlainError ''Sponsored vault transaction came back over a different message'')
        else if \<not> has_signature sponsorSigned sponsor
        then io_throw (PlainError ''Vault transaction is missing the sponsor fee-payer signature'')
        else io_return signedBytes))))"

definition sign_by_wallet ::
  "vault_world \<Rightarrow> VaultDeadline \<Rightarrow> EarnVaultInstruction list \<Rightarrow> PreparedVaultPlanExecution \<Rightarrow> string \<Rightarrow> bytes earn_io" where
  "sign_by_wallet w deadline instructions prepared owner =
     io_bind (deadline_run deadline ''Signing the vault transaction'' (vw_signMessage w (vault_message owner instructions prepared [owner]))) (\<lambda>signed.
     io_return (vw_encode w signed))"

record vault_scope =
  vsc_cluster :: SolanaCluster
  vsc_deadline :: VaultDeadline
  vsc_expectedAssetIdentity :: EarnVaultAssetIdentity
  vsc_plan :: EarnVaultTransactionPlan
  vsc_rpcUrl :: string
  vsc_fee :: VaultFeeMode

definition prepare_plan :: "vault_world \<Rightarrow> vault_scope \<Rightarrow> string \<Rightarrow> PreparedVaultPlanExecution earn_io" where
  "prepare_plan w scope label =
     io_bind (verifyVaultRpc w (vsc_cluster scope) (vsc_deadline scope) (vsc_rpcUrl scope)) (\<lambda>_.
     io_bind (resolveLookupTables w (vsc_deadline scope) (vsc_plan scope) (vsc_rpcUrl scope)) (\<lambda>lookupTables.
     io_bind (deadline_run (vsc_deadline scope) label (vw_getRecentBlockhash w (vsc_rpcUrl scope))) (\<lambda>(blockhash, lastValidBlockHeight).
     io_return \<lparr>pve_plan = vsc_plan scope, pve_lookupTables = lookupTables, pve_blockhash = blockhash,
       pve_lastValidBlockHeight = lastValidBlockHeight\<rparr>)))"

definition signVaultPlan ::
  "vault_world \<Rightarrow> vault_scope \<Rightarrow> string \<Rightarrow> PreparedVaultPlanExecution option \<Rightarrow> SignedVaultTransaction earn_io" where
  "signVaultPlan w scope owner given_prepared =
     io_bind (io_lift (assertExpectedPlan (vsc_plan scope) (vsc_cluster scope) (vsc_expectedAssetIdentity scope))) (\<lambda>_.
     io_bind (io_lift (planInstructions (vsc_plan scope))) (\<lambda>instructions.
     io_bind (case given_prepared of
         Some prepared \<Rightarrow>
           if pve_plan prepared \<noteq> vsc_plan scope
           then io_throw (PlainError ''Vault execution preparation belongs to a different plan'')
           else io_return prepared
       | None \<Rightarrow> prepare_plan w scope ''Fetching the vault transaction blockhash'') (\<lambda>prepared.
     io_bind (case vsc_fee scope of
         Sponsored sponsor \<Rightarrow> sign_sponsored w (vsc_deadline scope) instructions prepared sponsor owner
       | WalletPays \<Rightarrow> sign_by_wallet w (vsc_deadline scope) instructions prepared owner) (\<lambda>signedBytes.
     io_bind (io_lift (assertVaultTransactionFits signedBytes (vsc_fee scope \<noteq> WalletPays))) (\<lambda>_.
     io_bind (io_lift (vw_decode w signedBytes)) (\<lambda>signed.
     if \<not> has_signature signed owner
     then io_throw (PlainError ''Vault transaction is missing the custody-owner signature'')
     else io_bind (io_lift (vw_getSignatureFromTransaction w signed)) (\<lambda>signature.
       io_return \<lparr>svt_bytes = signedBytes, svt_signature = signature,
         svt_lastValidBlockHeight = pve_lastValidBlockHeight prepared\<rparr>)))))))"

text \<open>Broadcasting records the bytes as put on the wire, whatever the endpoint answers.\<close>

definition send_bytes :: "vault_world \<Rightarrow> string \<Rightarrow> bytes \<Rightarrow> unit earn_io" where
  "send_bytes w rpcUrl bs =
     io_bind (io_modify (\<lambda>s. s\<lparr>es_broadcasts := es_broadcasts s @ [bs]\<rparr>)) (\<lambda>_. vw_sendTransaction w rpcUrl bs)"

definition broadcastVaultTransaction :: "vault_world \<Rightarrow> SolanaCluster \<Rightarrow> VaultDeadline \<Rightarrow> bytes \<Rightarrow> string \<Rightarrow> unit earn_io" where
  "broadcastVaultTransaction w cluster deadline bs rpcUrl =
     io_bind (verifyVaultRpc w cluster deadline rpcUrl) (\<lambda>_.
     deadline_run deadline ''Broadcasting the vault transaction'' (send_bytes w rpcUrl bs))"

datatype simulation_outcome = SimulationOk PreparedVaultPlanExecution | SimulationFailed string "string list"

definition simulate_message :: "vault_world \<Rightarrow> vault_scope \<Rightarrow> EarnVaultInstruction list \<Rightarrow> string \<Rightarrow> simulation_outcome earn_io" where
  "simulate_message w scope instructions owner =
     io_bind (prepare_plan w scope ''Fetching the vault simulation blockhash'') (\<lambda>prepared.
     let feePayer = (case vsc_fee scope of Sponsored sponsor \<Rightarrow> sponsor | WalletPays \<Rightarrow> owner)
     in io_bind (deadline_run (vsc_deadline scope) ''Compiling the vault simulation''
            (vw_signMessage w (vault_message feePayer instructions prepared []))) (\<lambda>compiled.
        io_bind (deadline_run (vsc_deadline scope) ''Simulating the vault transaction''
            (vw_simulateTransaction w (vsc_rpcUrl scope) (base64_encode (vw_encode w compiled)))) (\<lambda>outcome.
        io_return (case sv_err outcome of
            Some err \<Rightarrow> SimulationFailed err (sv_logs outcome)
          | None \<Rightarrow> SimulationOk prepared))))"

definition simulateVaultPlan :: "vault_world \<Rightarrow> vault_scope \<Rightarrow> string \<Rightarrow> simulation_outcome earn_io" where
  "simulateVaultPlan w scope owner =
     io_bind (io_lift (assertExpectedPlan (vsc_plan scope) (vsc_cluster scope) (vsc_expectedAssetIdentity scope))) (\<lambda>_.
     case planInstructions (vsc_plan scope) of
       Inl cause \<Rightarrow> io_return (SimulationFailed (errorMessage cause) [])
     | Inr instructions \<Rightarrow> simulate_message w scope instructions owner)"

end
