(* ===== verification/Earn_Services.thy ===== *)
theory Earn_Services
  imports Earn_Vault
begin

text \<open>
  The services over vault execution: the tail both money directions share
  (\<^verbatim>\<open>services/earn/vault-intent-execution.service.ts\<close>), deposits and withdrawals (\<^verbatim>\<open>vault-deposit.service.ts\<close>,
  \<^verbatim>\<open>vault-withdraw.service.ts\<close>), and the job that brings every recorded transaction to an irreversible outcome
  (\<^verbatim>\<open>services/jobs/reconcile-earn-vault-movements.ts\<close>).
\<close>

section \<open>The shared tail\<close>

datatype vault_operation = OpDeposit | OpWithdrawal

fun operation_text :: "vault_operation \<Rightarrow> string" where
  "operation_text OpDeposit = ''deposit''"
| "operation_text OpWithdrawal = ''withdrawal''"

text \<open>\<open>exi_run\<close> is \<^verbatim>\<open>runIntentTransaction\<close>: a handler's own boundary around the persisting call, the identity when
  there is none.\<close>

record ExecuteSignedVaultIntentInput =
  exi_operation :: vault_operation
  exi_organizationId :: string
  exi_projectId :: string
  exi_walletId :: string
  exi_walletPublicKey :: string
  exi_signerMismatchMessage :: string
  exi_scope :: vault_scope
  exi_run :: "intent_result earn_io \<Rightarrow> intent_result earn_io"
  exi_persist :: "SignedVaultTransaction \<Rightarrow> intent_result earn_io"

definition sign_intent :: "vault_world \<Rightarrow> ExecuteSignedVaultIntentInput \<Rightarrow> SignedVaultTransaction earn_io" where
  "sign_intent w input =
     io_bind (simulateVaultPlan w (exi_scope input) (exi_walletPublicKey input)) (\<lambda>simulation.
     case simulation of
       SimulationFailed err logs \<Rightarrow>
         io_throw (badRequest (''Vault '' @ operation_text (exi_operation input) @ '' simulation failed: '' @ err))
     | SimulationOk prepared \<Rightarrow>
         io_bind (deadline_run (vsc_deadline (exi_scope input))
             (''Resolving the vault '' @ operation_text (exi_operation input) @ '' signer'')
             (vw_createOrgSigner w (exi_organizationId input) (exi_projectId input) (exi_walletId input))) (\<lambda>signer.
         if signer \<noteq> exi_walletPublicKey input then io_throw (badRequest (exi_signerMismatchMessage input))
         else signVaultPlan w (exi_scope input) signer (Some prepared)))"

definition submitted_input :: "string \<Rightarrow> string \<Rightarrow> AdvanceVaultMovementInput" where
  "submitted_input movementId organizationId =
     \<lparr>avm_movementId = movementId, avm_organizationId = organizationId, avm_toStatus = MvSubmitted, avm_sharesOut = None,
      avm_failureReason = None, avm_confirmedAt = None, avm_settledAt = None\<rparr>"

definition mark_broadcast :: "ExecuteSignedVaultIntentInput \<Rightarrow> SignedVaultTransaction \<Rightarrow> intent_result \<Rightarrow> intent_result earn_io" where
  "mark_broadcast input stx result =
     io_bind (advanceVaultMovement (submitted_input (em_id (ir_movement result)) (exi_organizationId input))) (\<lambda>row.
     case row of
       Some m \<Rightarrow> io_return (result\<lparr>ir_movement := m\<rparr>)
     | None \<Rightarrow>
         io_bind (getMovementById (em_id (ir_movement result)) (exi_organizationId input)) (\<lambda>seen.
         case seen of
           Some m \<Rightarrow>
             if em_signature m = Some (svt_signature stx) then io_return (result\<lparr>ir_movement := m\<rparr>)
             else io_throw (internalError (''Vault '' @ operation_text (exi_operation input) @
               '' was broadcast but its ledger transition could not be verified''))
         | None \<Rightarrow> io_throw (internalError (''Vault '' @ operation_text (exi_operation input) @
             '' was broadcast but its ledger transition could not be verified''))))"

text \<open>\<^verbatim>\<open>try { await broadcast } catch { return result }\<close>: whether the broadcast returned.\<close>

definition try_broadcast :: "vault_world \<Rightarrow> vault_scope \<Rightarrow> bytes \<Rightarrow> bool earn_io" where
  "try_broadcast w scope bs =
     io_catch (io_bind (broadcastVaultTransaction w (vsc_cluster scope) (vsc_deadline scope) bs (vsc_rpcUrl scope))
       (\<lambda>_. io_return True)) (\<lambda>e. io_return False)"

definition executeSignedVaultIntent :: "vault_world \<Rightarrow> ExecuteSignedVaultIntentInput \<Rightarrow> intent_result earn_io" where
  "executeSignedVaultIntent w input =
     io_bind (sign_intent w input) (\<lambda>stx.
     io_bind (exi_run input (exi_persist input stx)) (\<lambda>result.
     if ir_replayed result then io_return result
     else io_bind (try_broadcast w (exi_scope input) (svt_bytes stx)) (\<lambda>sent.
       if sent then mark_broadcast input stx result else io_return result)))"

section \<open>Deposits\<close>

record vault_wallet =
  vwl_id :: string
  vwl_publicKey :: string

record VaultDepositInput =
  vdp_organizationId :: string
  vdp_projectId :: string
  vdp_environment :: SdpEnvironment
  vdp_provider :: string
  vdp_providerReference :: string
  vdp_wallet :: vault_wallet
  vdp_tokenMint :: string
  vdp_shareMint :: string
  vdp_label :: string
  vdp_amount :: string
  vdp_requestId :: string
  vdp_userId :: "string option"
  vdp_apiKeyId :: "string option"
  vdp_minSharesOut :: "string option"

definition deposit_replayResult :: "VaultDepositInput \<Rightarrow> EarnMovementRow \<Rightarrow> intent_result earn_io" where
  "deposit_replayResult input movement =
     io_bind (getPositionById (vdp_organizationId input) (vdp_environment input) (em_position_id movement)) (\<lambda>position.
     case position of
       None \<Rightarrow> io_throw (internalError (''Replayed movement '' @ em_id movement @ '' references missing position '' @
         em_position_id movement))
     | Some p \<Rightarrow> io_return \<lparr>ir_position = p, ir_movement = movement, ir_replayed = True\<rparr>)"

text \<open>\<^verbatim>\<open>compareDecimalAmounts(a, b) !== 0\<close>; the comparison may throw.\<close>

definition same_amount :: "string \<Rightarrow> string \<Rightarrow> (api_error, bool) result" where
  "same_amount a b = (case compareDecimalAmounts a b of Inl e \<Rightarrow> Inl (AmountThrown e) | Inr c \<Rightarrow> Inr (c = 0))"

definition floor_matches :: "string option \<Rightarrow> string option \<Rightarrow> (api_error, bool) result" where
  "floor_matches wanted_floor built = (case (wanted_floor, built) of
     (None, None) \<Rightarrow> Inr True
   | (None, Some _) \<Rightarrow> Inr False
   | (Some f, Some b) \<Rightarrow> same_amount b f
   | (Some f, None) \<Rightarrow> Inr True)"

definition requireAcceptedPlan :: "EarnVaultTransactionPlan \<Rightarrow> VaultDepositInput \<Rightarrow> (api_error, string option) result" where
  "requireAcceptedPlan plan input =
     (if eva_depositTokenMint (evp_assetIdentity plan) \<noteq> vdp_tokenMint input
      then Inl (internalError ''Vault builder deposit token mint does not match the admitted catalogue strategy'')
      else if eva_shareMint (evp_assetIdentity plan) \<noteq> vdp_shareMint input
      then Inl (internalError ''Vault builder share mint does not match the admitted catalogue strategy'')
      else case Option.bind (evp_accepted plan) evc_amount of
        None \<Rightarrow> Inl (internalError ''Vault builder did not report the canonical amount encoded on chain'')
      | Some amount \<Rightarrow>
          if amount = [] then Inl (internalError ''Vault builder did not report the canonical amount encoded on chain'')
          else result_bind (same_amount amount (vdp_amount input)) (\<lambda>same.
            if \<not> same then Inl (internalError ''Vault builder amount does not match the policy-approved request amount'')
            else let minSharesOut = Option.bind (evp_accepted plan) evc_minSharesOut
                 in if vdp_minSharesOut input \<noteq> None \<and> minSharesOut = None
                    then Inl (internalError ''Vault builder omitted the canonical minSharesOut encoded on chain'')
                    else result_bind (floor_matches (vdp_minSharesOut input) minSharesOut) (\<lambda>ok.
                      if ok then Inr minSharesOut
                      else Inl (internalError ''Vault builder minSharesOut does not match the policy-approved slippage floor''))))"

text \<open>\<^verbatim>\<open>try { build } catch\<close>: an invalid amount is the caller's fault, everything else is thrown on.\<close>

definition built_plan :: "(build_error, EarnVaultTransactionPlan) result earn_io \<Rightarrow> EarnVaultTransactionPlan earn_io" where
  "built_plan build = io_bind build (\<lambda>r. case r of
     Inr plan \<Rightarrow> io_return plan
   | Inl (KaminoInvalidAmount message) \<Rightarrow> io_throw (badRequest message)
   | Inl (BuildError e) \<Rightarrow> io_throw e)"

definition wrong_cluster_plan :: "EarnVaultTransactionPlan \<Rightarrow> SolanaCluster \<Rightarrow> api_error" where
  "wrong_cluster_plan plan cluster = internalError (''Vault builder returned a '' @ cluster_text (evp_cluster plan) @
     '' plan for the configured '' @ cluster_text cluster @ '' cluster'')"

definition deposit_fingerprint :: "vault_world \<Rightarrow> VaultDepositInput \<Rightarrow> string" where
  "deposit_fingerprint w input = buildEarnVaultDepositFingerprint (vw_collate w)
     \<lparr>vdf_environment = environment_text (vdp_environment input), vdf_provider = vdp_provider input,
      vdf_providerReference = vdp_providerReference input, vdf_custodyWalletId = vwl_id (vdp_wallet input),
      vdf_amount = vdp_amount input, vdf_minSharesOut = vdp_minSharesOut input\<rparr>"

definition deposit_intent ::
  "vault_world \<Rightarrow> VaultDepositInput \<Rightarrow> EarnVaultTransactionPlan \<Rightarrow> string option \<Rightarrow> string option \<Rightarrow> SignedVaultTransaction \<Rightarrow>
     CreateSignedVaultDepositIntentInput" where
  "deposit_intent w input plan minSharesOut rentPayer stx =
     \<lparr>sdi_organizationId = vdp_organizationId input, sdi_projectId = vdp_projectId input,
      sdi_environment = vdp_environment input, sdi_provider = vdp_provider input,
      sdi_vaultAddress = vdp_providerReference input, sdi_custodyWalletId = vwl_id (vdp_wallet input),
      sdi_shareMint = eva_shareMint (evp_assetIdentity plan), sdi_tokenMint = eva_depositTokenMint (evp_assetIdentity plan),
      sdi_label = vdp_label input, sdi_requestedAmount = vdp_amount input, sdi_acceptedMinSharesOut = minSharesOut,
      sdi_sourceAddress = vwl_publicKey (vdp_wallet input), sdi_signature = svt_signature stx,
      sdi_signedTransaction = base64_encode (svt_bytes stx), sdi_lastValidBlockHeight = svt_lastValidBlockHeight stx,
      sdi_requestId = vdp_requestId input, sdi_idempotencyFingerprint = deposit_fingerprint w input,
      sdi_createdBy = vdp_userId input, sdi_initiatedByKeyId = vdp_apiKeyId input,
      sdi_rent = \<lparr>sra_createsShareAccount = evp_createsShareAccount plan, sra_shareAtaRentFunder = rentPayer\<rparr>\<rparr>"

definition start_deposit ::
  "vault_world \<Rightarrow> VaultDepositInput \<Rightarrow> (intent_result earn_io \<Rightarrow> intent_result earn_io) \<Rightarrow> intent_result earn_io" where
  "start_deposit w input run =
     io_bind (createVaultDeadline VAULT_EXTERNAL_CALL_TIMEOUT_MS) (\<lambda>deadline.
     if \<not> vw_supportsVaultDirect w (vdp_provider input)
     then io_throw (notImplemented (vdp_provider input) ''direct vault deposits'')
     else let cluster = earnClusterFor (vdp_environment input); rpcUrl = resolveClusterRpcUrl w cluster
     in io_bind (resolveVaultSponsorship w (vdp_organizationId input) (vdp_projectId input) (vwl_id (vdp_wallet input)) cluster deadline) (\<lambda>fee.
        io_bind (built_plan (vw_buildVaultDeposit w
            \<lparr>vdi_providerReference = vdp_providerReference input, vdi_owner = vwl_publicKey (vdp_wallet input),
             vdi_amount = vdp_amount input, vdi_minSharesOut = vdp_minSharesOut input, vdi_rentPayer = vaultRentPayer fee\<rparr>)) (\<lambda>built.
        let plan = appendVaultRequestMemo built ''vault-deposit'' (vdp_requestId input)
        in if evp_cluster plan \<noteq> cluster then io_throw (wrong_cluster_plan plan cluster)
           else io_bind (io_lift (requireAcceptedPlan plan input)) (\<lambda>minSharesOut.
             executeSignedVaultIntent w
               \<lparr>exi_operation = OpDeposit, exi_organizationId = vdp_organizationId input, exi_projectId = vdp_projectId input,
                exi_walletId = vwl_id (vdp_wallet input), exi_walletPublicKey = vwl_publicKey (vdp_wallet input),
                exi_signerMismatchMessage = ''Resolved signing wallet does not match the deposit wallet'',
                exi_scope = \<lparr>vsc_cluster = cluster, vsc_deadline = deadline,
                  vsc_expectedAssetIdentity = \<lparr>eva_depositTokenMint = vdp_tokenMint input, eva_shareMint = vdp_shareMint input\<rparr>,
                  vsc_plan = plan, vsc_rpcUrl = rpcUrl, vsc_fee = fee\<rparr>,
                exi_run = run,
                exi_persist = (\<lambda>stx. createSignedVaultDepositIntent
                  (deposit_intent w input plan minSharesOut (vaultRentPayer fee) stx))\<rparr>))))"

definition find_replay :: "string \<Rightarrow> string \<Rightarrow> string \<Rightarrow> EarnMovementRow option earn_io" where
  "find_replay organizationId requestId fingerprint =
     resolveIdempotencyReplay (\<lambda>m. Some (em_idempotency_fingerprint m)) (findVaultMovementByRequestId organizationId requestId) fingerprint"

definition depositIntoVault ::
  "vault_world \<Rightarrow> VaultDepositInput \<Rightarrow> (intent_result earn_io \<Rightarrow> intent_result earn_io) \<Rightarrow> intent_result earn_io" where
  "depositIntoVault w input run =
     io_bind (find_replay (vdp_organizationId input) (vdp_requestId input) (deposit_fingerprint w input)) (\<lambda>prior.
     case prior of
       Some m \<Rightarrow>
         io_bind (io_lift (assertMovementIsOwnReplay m (vdp_projectId input) (deposit_fingerprint w input))) (\<lambda>_.
         deposit_replayResult input m)
     | None \<Rightarrow> start_deposit w input run)"

section \<open>Withdrawals\<close>

record VaultWithdrawalInput =
  vwd_organizationId :: string
  vwd_projectId :: string
  vwd_environment :: SdpEnvironment
  vwd_provider :: string
  vwd_positionId :: string
  vwd_vaultAddress :: string
  vwd_tokenMint :: string
  vwd_shareMint :: string
  vwd_wallet :: vault_wallet
  vwd_shares :: string
  vwd_requestId :: string
  vwd_userId :: "string option"
  vwd_apiKeyId :: "string option"

definition requireAcceptedWithdrawalPlan :: "EarnVaultTransactionPlan \<Rightarrow> VaultWithdrawalInput \<Rightarrow> (api_error, unit) result" where
  "requireAcceptedWithdrawalPlan plan input =
     (if eva_depositTokenMint (evp_assetIdentity plan) \<noteq> vwd_tokenMint input
      then Inl (internalError ''Vault builder deposit token mint does not match the position being exited'')
      else if eva_shareMint (evp_assetIdentity plan) \<noteq> vwd_shareMint input
      then Inl (internalError ''Vault builder share mint does not match the position being exited'')
      else case Option.bind (evp_accepted plan) evc_shares of
        None \<Rightarrow> Inl (internalError ''Vault builder did not report the canonical shares encoded on chain'')
      | Some shares \<Rightarrow>
          if shares = [] then Inl (internalError ''Vault builder did not report the canonical shares encoded on chain'')
          else result_bind (same_amount shares (vwd_shares input)) (\<lambda>same.
            if same then Inr () else Inl (internalError ''Vault builder shares do not match the requested withdrawal'')))"

definition withdrawal_replayResult :: "VaultWithdrawalInput \<Rightarrow> EarnMovementRow \<Rightarrow> intent_result earn_io" where
  "withdrawal_replayResult input movement =
     (if em_direction movement \<noteq> Withdrawal
      then io_throw (internalError (''Replayed movement '' @ em_id movement @ '' is not a vault withdrawal''))
      else io_bind (getPositionById (vwd_organizationId input) (vwd_environment input) (em_position_id movement)) (\<lambda>position.
        case (position, em_signature movement) of
          (Some p, Some (c # cs)) \<Rightarrow> io_return \<lparr>ir_position = p, ir_movement = movement, ir_replayed = True\<rparr>
        | _ \<Rightarrow> io_throw (internalError (''Replayed withdrawal '' @ em_id movement @ '' references missing execution details''))))"

definition withdrawal_fingerprint :: "vault_world \<Rightarrow> VaultWithdrawalInput \<Rightarrow> string" where
  "withdrawal_fingerprint w input = buildEarnVaultWithdrawalFingerprint (vw_collate w)
     \<lparr>vwf_environment = environment_text (vwd_environment input), vwf_provider = vwd_provider input,
      vwf_positionId = vwd_positionId input, vwf_shares = vwd_shares input\<rparr>"

definition withdrawal_intent ::
  "vault_world \<Rightarrow> VaultWithdrawalInput \<Rightarrow> EarnVaultTransactionPlan \<Rightarrow> string option \<Rightarrow> SignedVaultTransaction \<Rightarrow>
     CreateSignedVaultWithdrawalIntentInput" where
  "withdrawal_intent w input plan rentPayer stx =
     \<lparr>swi_organizationId = vwd_organizationId input, swi_projectId = vwd_projectId input,
      swi_environment = vwd_environment input, swi_provider = vwd_provider input, swi_positionId = vwd_positionId input,
      swi_vaultAddress = vwd_vaultAddress input, swi_custodyWalletId = vwl_id (vwd_wallet input),
      swi_shareMint = vwd_shareMint input, swi_requestedShares = vwd_shares input,
      swi_walletAddress = vwl_publicKey (vwd_wallet input), swi_signature = svt_signature stx,
      swi_signedTransaction = base64_encode (svt_bytes stx), swi_lastValidBlockHeight = svt_lastValidBlockHeight stx,
      swi_requestId = vwd_requestId input, swi_idempotencyFingerprint = withdrawal_fingerprint w input,
      swi_createdBy = vwd_userId input, swi_initiatedByKeyId = vwd_apiKeyId input,
      swi_rent = \<lparr>sra_createsShareAccount = evp_createsShareAccount plan, sra_shareAtaRentFunder = rentPayer\<rparr>\<rparr>"

definition start_withdrawal ::
  "vault_world \<Rightarrow> VaultWithdrawalInput \<Rightarrow> (intent_result earn_io \<Rightarrow> intent_result earn_io) \<Rightarrow> intent_result earn_io" where
  "start_withdrawal w input run =
     io_bind (createVaultDeadline VAULT_EXTERNAL_CALL_TIMEOUT_MS) (\<lambda>deadline.
     if \<not> vw_supportsVaultWithdraw w (vwd_provider input)
     then io_throw (notImplemented (vwd_provider input) ''vault withdrawals'')
     else let cluster = earnClusterFor (vwd_environment input); rpcUrl = resolveClusterRpcUrl w cluster
     in io_bind (resolveVaultSponsorship w (vwd_organizationId input) (vwd_projectId input) (vwl_id (vwd_wallet input)) cluster deadline) (\<lambda>fee.
        io_bind (getPositionById (vwd_organizationId input) (vwd_environment input) (vwd_positionId input)) (\<lambda>position.
        case position of
          None \<Rightarrow> io_throw (internalError (''Vault withdrawal references missing position '' @ vwd_positionId input))
        | Some p \<Rightarrow>
        io_bind (built_plan (vw_buildVaultWithdrawal w
            \<lparr>vwi_providerReference = vwd_vaultAddress input, vwi_owner = vwl_publicKey (vwd_wallet input),
             vwi_shares = vwd_shares input, vwi_rentRefundTo = ep_share_ata_rent_funder p, vwi_rentPayer = vaultRentPayer fee\<rparr>)) (\<lambda>built.
        let plan = appendVaultRequestMemo built ''vault-withdrawal'' (vwd_requestId input)
        in if evp_cluster plan \<noteq> cluster then io_throw (wrong_cluster_plan plan cluster)
           else io_bind (io_lift (requireAcceptedWithdrawalPlan plan input)) (\<lambda>_.
             executeSignedVaultIntent w
               \<lparr>exi_operation = OpWithdrawal, exi_organizationId = vwd_organizationId input, exi_projectId = vwd_projectId input,
                exi_walletId = vwl_id (vwd_wallet input), exi_walletPublicKey = vwl_publicKey (vwd_wallet input),
                exi_signerMismatchMessage = ''Resolved signing wallet does not match the position's wallet'',
                exi_scope = \<lparr>vsc_cluster = cluster, vsc_deadline = deadline,
                  vsc_expectedAssetIdentity = \<lparr>eva_depositTokenMint = vwd_tokenMint input, eva_shareMint = vwd_shareMint input\<rparr>,
                  vsc_plan = plan, vsc_rpcUrl = rpcUrl, vsc_fee = fee\<rparr>,
                exi_run = run,
                exi_persist = (\<lambda>stx. createSignedVaultWithdrawalIntent
                  (withdrawal_intent w input plan (vaultRentPayer fee) stx))\<rparr>)))))"

definition withdrawFromVault ::
  "vault_world \<Rightarrow> VaultWithdrawalInput \<Rightarrow> (intent_result earn_io \<Rightarrow> intent_result earn_io) \<Rightarrow> intent_result earn_io" where
  "withdrawFromVault w input run =
     io_bind (find_replay (vwd_organizationId input) (vwd_requestId input) (withdrawal_fingerprint w input)) (\<lambda>prior.
     case prior of
       Some m \<Rightarrow>
         io_bind (io_lift (assertMovementIsOwnReplay m (vwd_projectId input) (withdrawal_fingerprint w input))) (\<lambda>_.
         withdrawal_replayResult input m)
     | None \<Rightarrow> start_withdrawal w input run)"

section \<open>Reconciliation\<close>

definition OUTBOX_BATCH_SIZE :: int where
  "OUTBOX_BATCH_SIZE = 256"

text \<open>A \<^verbatim>\<open>Map\<close> keeps its keys in the order of insertion.\<close>

definition groupByEnvironment :: "EarnMovementRow list \<Rightarrow> (SdpEnvironment \<times> EarnMovementRow list) list" where
  "groupByEnvironment movements =
     map (\<lambda>environment. (environment, filter (\<lambda>m. em_environment m = environment) movements))
       (js_unique (map em_environment movements))"

definition advanceTransaction ::
  "EarnMovementRow \<Rightarrow> EarnMovementStatus \<Rightarrow> string option \<Rightarrow> timestamp option \<Rightarrow> timestamp option \<Rightarrow> unit earn_io" where
  "advanceTransaction movement toStatus failureReason confirmedAt settledAt =
     io_bind (advanceVaultMovement
       \<lparr>avm_movementId = em_id movement, avm_organizationId = em_organization_id movement, avm_toStatus = toStatus,
        avm_sharesOut = None, avm_failureReason = map_option Some failureReason, avm_confirmedAt = map_option Some confirmedAt,
        avm_settledAt = map_option Some settledAt\<rparr>) (\<lambda>_. io_return ())"

definition vault_markSubmitted :: "EarnMovementRow \<Rightarrow> unit earn_io" where
  "vault_markSubmitted movement =
     (if em_status movement \<noteq> MvRequested then io_return () else advanceTransaction movement MvSubmitted None None None)"

definition failMovement :: "EarnMovementRow \<Rightarrow> string \<Rightarrow> unit earn_io" where
  "failMovement movement reason = advanceTransaction movement MvFailed (Some reason) None None"

definition rebroadcast :: "vault_world \<Rightarrow> EarnMovementRow \<Rightarrow> SolanaCluster \<Rightarrow> string \<Rightarrow> int option \<Rightarrow> unit earn_io" where
  "rebroadcast w movement cluster rpcUrl currentBlockHeight =
     (case (em_signed_transaction movement, em_last_valid_block_height movement) of
        (Some signedTransaction, Some lastValidBlockHeight) \<Rightarrow>
          (case currentBlockHeight of
             None \<Rightarrow> io_return ()
           | Some height \<Rightarrow>
               if height > lastValidBlockHeight
               then failMovement movement ''Transaction blockhash expired before confirmation''
               else io_bind (createVaultDeadline VAULT_EXTERNAL_CALL_TIMEOUT_MS) (\<lambda>deadline.
                 io_bind (broadcastVaultTransaction w cluster deadline (base64_decode signedTransaction) rpcUrl) (\<lambda>_.
                 vault_markSubmitted movement)))
      | _ \<Rightarrow> io_throw (PlainError (''Earn vault movement '' @ em_id movement @
          '' is missing the signed transaction it must be reconciled from'')))"

definition record_status :: "EarnMovementRow \<Rightarrow> SignatureStatusInfo \<Rightarrow> unit earn_io" where
  "record_status movement status =
     (case ssi_err status of
        Some err \<Rightarrow> failMovement movement err
      | None \<Rightarrow>
          (case ssi_confirmationStatus status of
             Some Finalized \<Rightarrow> io_bind now (\<lambda>observedAt. advanceTransaction movement MvFinalized None (Some observedAt) (Some observedAt))
           | Some Confirmed \<Rightarrow>
               if em_status movement = MvConfirmed then io_return ()
               else io_bind now (\<lambda>t. advanceTransaction movement MvConfirmed None (Some t) None)
           | _ \<Rightarrow> vault_markSubmitted movement))"

definition reconcileMovement ::
  "vault_world \<Rightarrow> EarnMovementRow \<Rightarrow> SignatureStatusInfo option \<Rightarrow> SolanaCluster \<Rightarrow> string \<Rightarrow> int option \<Rightarrow> unit earn_io" where
  "reconcileMovement w movement status cluster rpcUrl currentBlockHeight =
     (case status of
        Some info \<Rightarrow> record_status movement info
      | None \<Rightarrow>
          if em_status movement = MvConfirmed then io_return ()
          else rebroadcast w movement cluster rpcUrl currentBlockHeight)"

definition status_at :: "SignatureStatusInfo option list \<Rightarrow> nat \<Rightarrow> SignatureStatusInfo option" where
  "status_at statuses i = (if i < length statuses then statuses ! i else None)"

definition read_statuses :: "vault_world \<Rightarrow> SolanaCluster \<Rightarrow> string \<Rightarrow> EarnMovementRow list \<Rightarrow> SignatureStatusInfo option list option earn_io" where
  "read_statuses w cluster rpcUrl rows =
     io_catch
       (io_bind (assertClusterEndpoint w cluster rpcUrl) (\<lambda>_.
        io_bind (vw_getSignatureStatuses w rpcUrl (map em_signature rows)) (\<lambda>statuses. io_return (Some statuses))))
       (\<lambda>error. io_return None)"

definition read_height :: "vault_world \<Rightarrow> string \<Rightarrow> SignatureStatusInfo option list \<Rightarrow> int option earn_io" where
  "read_height w rpcUrl statuses =
     (if list_ex (\<lambda>status. status = None) statuses
      then io_catch (io_bind (vw_getBlockHeight w rpcUrl) (\<lambda>h. io_return (Some h))) (\<lambda>error. io_return None)
      else io_return None)"

fun reconcile_rows ::
  "vault_world \<Rightarrow> SignatureStatusInfo option list \<Rightarrow> SolanaCluster \<Rightarrow> string \<Rightarrow> int option \<Rightarrow> nat \<Rightarrow> EarnMovementRow list \<Rightarrow> unit earn_io" where
  "reconcile_rows w statuses cluster rpcUrl currentBlockHeight i [] = io_return ()"
| "reconcile_rows w statuses cluster rpcUrl currentBlockHeight i (movement # rows) =
     io_bind (io_catch (reconcileMovement w movement (status_at statuses i) cluster rpcUrl currentBlockHeight) (\<lambda>error. io_return ())) (\<lambda>_.
     reconcile_rows w statuses cluster rpcUrl currentBlockHeight (Suc i) rows)"

definition reconcileEnvironment :: "vault_world \<Rightarrow> SdpEnvironment \<Rightarrow> EarnMovementRow list \<Rightarrow> unit earn_io" where
  "reconcileEnvironment w environment rows =
     (let cluster = earnClusterFor environment; rpcUrl = resolveClusterRpcUrl w cluster
      in io_bind (read_statuses w cluster rpcUrl rows) (\<lambda>read.
         case read of
           None \<Rightarrow> io_return ()
         | Some statuses \<Rightarrow>
             io_bind (read_height w rpcUrl statuses) (\<lambda>currentBlockHeight.
             reconcile_rows w statuses cluster rpcUrl currentBlockHeight 0 rows)))"

fun reconcile_environments :: "vault_world \<Rightarrow> (SdpEnvironment \<times> EarnMovementRow list) list \<Rightarrow> unit earn_io" where
  "reconcile_environments w [] = io_return ()"
| "reconcile_environments w ((environment, rows) # rest) =
     io_bind (reconcileEnvironment w environment rows) (\<lambda>_. reconcile_environments w rest)"

definition reconcileEarnVaultMovements :: "vault_world \<Rightarrow> unit earn_io" where
  "reconcileEarnVaultMovements w =
     io_bind (claimUnsettledVaultMovements OUTBOX_BATCH_SIZE) (\<lambda>movements.
     reconcile_environments w (groupByEnvironment movements))"

end
