(* ===== verification/Earn_Invariants.thy ===== *)
theory Earn_Invariants
  imports Earn_Ledger
begin

text \<open>
  What holds of the Earn ledger over any run of its repository: the constraints of its rows, the
  projection of the rent funder onto the position, the activation of positions, and the history of a
  movement. Every operation keeps the invariant whatever fails inside it, because its transaction
  either commits whole or leaves the ledger as it was.
\<close>

section \<open>What a statement changes\<close>

definition earn_frame where
  "earn_frame s = (sess_clock s, sess_uuid s, es_projects s, es_custody_configs s, es_custody_connections s,
     es_custody_wallets s, es_provider_wallets s, es_broadcasts s)"

definition positions_wf :: "EarnPositionRow list \<Rightarrow> bool" where
  "positions_wf ps \<longleftrightarrow> list_all position_checks ps \<and> positions_unique ps"

definition movements_wf :: "EarnPositionRow list \<Rightarrow> EarnMovementRow list \<Rightarrow> bool" where
  "movements_wf ps ms \<longleftrightarrow> list_all movement_checks ms \<and> movements_unique ms \<and> list_all (references_position ps) ms"

definition same_ledger :: "earn_session \<Rightarrow> earn_session \<Rightarrow> bool" where
  "same_ledger s s' \<longleftrightarrow> es_positions s' = es_positions s \<and> es_movements s' = es_movements s \<and> earn_frame s' = earn_frame s"

lemma only_session_ledger:
  assumes "only_session s s'"
  shows "same_ledger s s'"
proof -
  have "es_positions s' = es_positions (rollback s s')" "es_movements s' = es_movements (rollback s s')"
    "earn_frame s' = earn_frame (rollback s s')"
    using assms unfolding only_session_def by metis+
  then show ?thesis by (simp add: same_ledger_def rollback_def earn_frame_def)
qed

lemma wp_uuid_id:
  "(\<And>i s'. only_session s s' \<Longrightarrow> Q (Inr i) s') \<Longrightarrow> wp generateEarnPositionId Q s"
  "(\<And>i s'. only_session s s' \<Longrightarrow> Q (Inr i) s') \<Longrightarrow> wp generateEarnMovementId Q s"
  by (simp_all add: wp_def generateEarnPositionId_def generateEarnMovementId_def randomUUID_def io_bind_def io_return_def)

lemma wp_put_movements:
  assumes "\<And>e. Q (Inl e) s"
    and "movements_wf (es_positions s) ms \<Longrightarrow> Q (Inr ()) (s\<lparr>es_movements := ms\<rparr>)"
  shows "wp (put_movements ms) Q s"
  using assms by (simp add: wp_def put_movements_def movements_wf_def)

lemma wp_put_positions:
  assumes "\<And>e. Q (Inl e) s"
    and "positions_wf ps \<Longrightarrow> Q (Inr ()) (s\<lparr>es_positions := ps\<rparr>)"
  shows "wp (put_positions ps) Q s"
  using assms by (simp add: wp_def put_positions_def positions_wf_def)

lemma wp_update_movements:
  assumes fails: "\<And>e s'. only_session s s' \<Longrightarrow> Q (Inl e) s'"
    and works: "\<And>s'. earn_frame s' = earn_frame s \<Longrightarrow> es_positions s' = es_positions s \<Longrightarrow>
      es_movements s' = table_update matching (change (sess_clock s)) (es_movements s) \<Longrightarrow>
      movements_wf (es_positions s) (es_movements s') \<Longrightarrow>
      Q (Inr (map_option (change (sess_clock s)) (find matching (es_movements s)))) s'"
  shows "wp (update_movements matching change) Q s"
  unfolding update_movements_def
proof (rule wp_sql)
  fix fs
  let ?s = "s\<lparr>sess_faults := fs\<rparr>"
  have "Q (Inl e) ?s" for e by (rule fails) simp
  then show "wp (\<lambda>s. io_bind (put_movements (table_update matching (change (sess_clock s)) (es_movements s)))
      (\<lambda>_. io_return (map_option (change (sess_clock s)) (find matching (es_movements s)))) s) Q ?s"
    by (auto simp: wp_def io_bind_def io_return_def put_movements_def movements_wf_def earn_frame_def intro!: works)
qed (rule fails, simp)

lemma wp_update_positions:
  assumes fails: "\<And>e s'. only_session s s' \<Longrightarrow> Q (Inl e) s'"
    and works: "\<And>s1 s'. only_session s s1 \<Longrightarrow> earn_frame s' = earn_frame s \<Longrightarrow> es_movements s' = es_movements s \<Longrightarrow>
      es_positions s' = table_update (matching s1) (change s1) (es_positions s) \<Longrightarrow>
      positions_wf (es_positions s') \<Longrightarrow> Q (Inr ()) s'"
  shows "wp (update_positions matching change) Q s"
  unfolding update_positions_def
proof (rule wp_sql)
  fix fs
  let ?s = "s\<lparr>sess_faults := fs\<rparr>"
  have "Q (Inl e) ?s" for e by (rule fails) simp
  then show "wp (\<lambda>s. put_positions (table_update (matching s) (change s) (es_positions s)) s) Q ?s"
    by (auto simp: wp_def put_positions_def positions_wf_def earn_frame_def intro!: works[of ?s])
qed (rule fails, simp)

lemmas earn_reads = getMovementById_def findVaultMovementByRequest_def getPositionById_def requireMovementPosition_def
  replayed_intent_def assertMovementIsOwnReplay_def resolve_withdrawal_replay_def own_deposit_replay_def

lemma earn_reads_only:
  "io_reads (getMovementById i org)" "io_reads (findVaultMovementByRequest org rid)" "io_reads (getPositionById org env i)"
  "io_reads (requireMovementPosition m)" "io_reads (replayed_intent m)" "io_reads (resolve_withdrawal_replay input)"
  "io_reads (own_deposit_replay input' m)"
  unfolding earn_reads by (intro reads_intros)+

lemma wp_find_request:
  assumes "\<And>e s'. only_session s s' \<Longrightarrow> Q (Inl e) s'"
    and "\<And>s'. only_session s s' \<Longrightarrow> Q (Inr (find (\<lambda>m. em_organization_id m = org \<and> em_request_id m = rid \<and>
      em_execution_model m = VaultDirect) (es_movements s))) s'"
  shows "wp (findVaultMovementByRequest org rid) Q s"
  unfolding findVaultMovementByRequest_def by (intro wp_sql wp_get) (use assms in auto)

lemma wp_getMovementById:
  assumes "\<And>e s'. only_session s s' \<Longrightarrow> Q (Inl e) s'"
    and "\<And>s'. only_session s s' \<Longrightarrow>
      Q (Inr (find (\<lambda>m. em_id m = i \<and> em_organization_id m = org) (es_movements s))) s'"
  shows "wp (getMovementById i org) Q s"
  unfolding getMovementById_def by (intro wp_sql wp_get) (use assms in auto)

section \<open>The state of the ledger\<close>

text \<open>Rows satisfy their constraints; custodial movements claim no rent and belong to custodial positions; every position names the funder
  its movements project, and an active vault position has a live movement.\<close>

definition rows_ok :: "earn_session \<Rightarrow> bool" where
  "rows_ok s \<longleftrightarrow> positions_wf (es_positions s) \<and> movements_wf (es_positions s) (es_movements s) \<and>
     (\<forall>m\<in>set (es_movements s). em_execution_model m = Custodial \<longrightarrow> \<not> em_creates_share_account m \<and>
        (\<forall>p\<in>set (es_positions s). ep_id p = em_position_id m \<longrightarrow> ep_kind p = Custodial))"

definition funders_ok :: "string set \<Rightarrow> earn_session \<Rightarrow> bool" where
  "funders_ok except s \<longleftrightarrow> (\<forall>p\<in>set (es_positions s). ep_id p \<notin> except \<longrightarrow>
     ep_share_ata_rent_funder p = projected_funder (es_movements s) (ep_id p))"

definition activations_ok :: "string set \<Rightarrow> earn_session \<Rightarrow> bool" where
  "activations_ok except s \<longleftrightarrow> (\<forall>p\<in>set (es_positions s). ep_id p \<notin> except \<longrightarrow> ep_kind p = VaultDirect \<longrightarrow>
     ep_activated_at p \<noteq> None \<longrightarrow> has_live_movement (es_movements s) (ep_id p))"

definition ledger_ok :: "earn_session \<Rightarrow> bool" where
  "ledger_ok s \<longleftrightarrow> rows_ok s \<and> funders_ok {} s \<and> activations_ok {} s"

lemma same_ledger_ok:
  assumes "same_ledger s s'"
  shows "rows_ok s' = rows_ok s" "funders_ok x s' = funders_ok x s" "activations_ok x s' = activations_ok x s"
    "ledger_ok s' = ledger_ok s"
  using assms by (simp_all add: same_ledger_def rows_ok_def funders_ok_def activations_ok_def ledger_ok_def)

lemma sort_key_map_key:
  assumes "\<And>x. x \<in> set xs \<Longrightarrow> key (f x) = key x"
  shows "sort_key key (map f xs) = map f (sort_key key xs)"
proof -
  have ins: "insort_key key (f x) (map f ys) = map f (insort_key key x ys)"
    if "\<forall>y\<in>insert x (set ys). key (f y) = key y" for x ys
    using that by (induction ys) auto
  show ?thesis
    using assms by (induction xs) (auto intro!: ins)
qed

lemma projected_funder_update:
  assumes "\<And>m. m \<in> set ms \<Longrightarrow> M m \<Longrightarrow> em_position_id m = i \<or> em_position_id (f m) = i \<Longrightarrow>
      em_position_id (f m) = em_position_id m \<and> em_creates_share_account (f m) = em_creates_share_account m \<and>
      (em_creates_share_account m \<longrightarrow> (em_status (f m) = MvFailed) = (em_status m = MvFailed)) \<and>
      movement_key (f m) = movement_key m \<and> em_share_ata_rent_funder (f m) = em_share_ata_rent_funder m"
  shows "projected_funder (table_update M f ms) i = projected_funder ms i"
proof -
  let ?g = "\<lambda>m. if M m then f m else m"
  let ?P = "\<lambda>m. em_position_id m = i \<and> em_creates_share_account m \<and> em_status m \<noteq> MvFailed"
  have keep: "?P (?g m) = ?P m" if "m \<in> set ms" for m using assms[OF that] by auto
  have "rent_claims (table_update M f ms) i = map ?g (rent_claims ms i)"
    unfolding rent_claims_def table_update_def using keep by (induction ms) auto
  moreover have same: "movement_key (?g m) = movement_key m \<and> em_share_ata_rent_funder (?g m) = em_share_ata_rent_funder m"
    if "m \<in> set (rent_claims ms i)" for m
    using that assms[of m] by (auto simp: rent_claims_def)
  ultimately have "newest_first movement_key (rent_claims (table_update M f ms) i) =
      map ?g (newest_first movement_key (rent_claims ms i))"
    by (simp add: newest_first_def sort_key_map_key rev_map)
  moreover have "set (newest_first movement_key (rent_claims ms i)) = set (rent_claims ms i)"
    by (simp add: newest_first_def)
  ultimately have list: "newest_first movement_key (rent_claims (table_update M f ms) i) =
      map ?g (newest_first movement_key (rent_claims ms i))"
    "set (newest_first movement_key (rent_claims ms i)) = set (rent_claims ms i)" by blast+
  show ?thesis
  proof (cases "newest_first movement_key (rent_claims ms i)")
    case (Cons a list)
    then have "a \<in> set (rent_claims ms i)" using list(2) by (metis list.set_intros(1))
    then show ?thesis using same[of a] Cons list(1) by (simp add: projected_funder_def)
  qed (use list in \<open>simp add: projected_funder_def\<close>)
qed

lemma projected_funder_append:
  "em_position_id m \<noteq> i \<or> \<not> em_creates_share_account m \<Longrightarrow> projected_funder (ms @ [m]) i = projected_funder ms i"
  by (auto simp: projected_funder_def rent_claims_def)

lemma projected_funder_none: "i \<notin> em_position_id ` set ms \<Longrightarrow> projected_funder ms i = None"
  by (subgoal_tac "rent_claims ms i = []") (auto simp: projected_funder_def rent_claims_def newest_first_def filter_empty_conv)

lemma has_live_update:
  assumes "\<And>m. m \<in> set ms \<Longrightarrow> M m \<Longrightarrow> em_position_id m = i \<Longrightarrow>
      em_position_id (f m) = i \<and> (em_status m \<in> live_statuses \<longrightarrow> em_status (f m) \<in> live_statuses)"
    and "has_live_movement ms i"
  shows "has_live_movement (table_update M f ms) i"
proof -
  obtain m where m: "m \<in> set ms" "em_position_id m = i" "em_status m \<in> live_statuses"
    using assms(2) by (auto simp: has_live_movement_def list_ex_iff)
  then show ?thesis
    using assms(1)[of m] by (auto simp: has_live_movement_def list_ex_iff set_table_update)
qed

section \<open>The history of a movement\<close>

definition mv_identity where
  "mv_identity m = (em_id m, em_organization_id m, em_environment m, em_provider m, em_execution_model m, em_direction m,
     em_position_id m, em_denomination m, em_amount_requested m, em_min_shares_out m, em_custody_wallet_id m,
     em_vault_address m, em_source_address m, em_destination_address m, em_signature m, em_signed_transaction m,
     em_last_valid_block_height m, em_request_id m, em_idempotency_fingerprint m, em_created_at m,
     em_creates_share_account m, em_share_ata_rent_funder m)"

definition mv_moves :: "EarnExecutionModel \<Rightarrow> EarnMovementStatus \<Rightarrow> EarnMovementStatus \<Rightarrow> bool" where
  "mv_moves model st st' \<longleftrightarrow> (\<exists>sources. EARN_MOVEMENT_TRANSITIONS model st' = Some sources \<and> st \<in> set sources)"

definition kept_value :: "'a option \<Rightarrow> 'a option \<Rightarrow> bool" where
  "kept_value old new \<longleftrightarrow> old = None \<or> new = old"

definition mv_observed :: "EarnMovementRow \<Rightarrow> EarnMovementRow \<Rightarrow> bool" where
  "mv_observed m m' \<longleftrightarrow> kept_value (em_confirmed_at m) (em_confirmed_at m') \<and> kept_value (em_settled_at m) (em_settled_at m') \<and>
     kept_value (em_amount_settled m) (em_amount_settled m') \<and> kept_value (em_shares_out m) (em_shares_out m')"

text \<open>A movement keeps its project, or loses it when the project is deleted.\<close>

definition mv_project :: "EarnMovementRow \<Rightarrow> EarnMovementRow \<Rightarrow> bool" where
  "mv_project m m' \<longleftrightarrow> em_project_id m' = em_project_id m \<or> em_project_id m' = None"

definition mv_later :: "EarnMovementRow \<Rightarrow> EarnMovementRow \<Rightarrow> bool" where
  "mv_later m m' \<longleftrightarrow> mv_identity m' = mv_identity m \<and> mv_project m m' \<and> (mv_moves (em_execution_model m))\<^sup>*\<^sup>* (em_status m) (em_status m') \<and>
     (em_execution_model m = VaultDirect \<longrightarrow> mv_observed m m')"

lemma mv_later_refl [simp]: "mv_later m m"
  by (simp add: mv_later_def mv_observed_def kept_value_def mv_project_def)

lemma mv_project_trans: "mv_project m m' \<Longrightarrow> mv_project m' m'' \<Longrightarrow> mv_project m m''"
  unfolding mv_project_def by metis

lemma mv_observed_trans: "mv_observed m m' \<Longrightarrow> mv_observed m' m'' \<Longrightarrow> mv_observed m m''"
  unfolding mv_observed_def kept_value_def by metis

lemma mv_later_trans:
  assumes "mv_later m m'" "mv_later m' m''"
  shows "mv_later m m''"
proof -
  have "em_execution_model m' = em_execution_model m" using assms(1) by (simp add: mv_later_def mv_identity_def)
  then show ?thesis
    using assms mv_observed_trans mv_project_trans unfolding mv_later_def by (metis rtranclp_trans)
qed

definition history :: "earn_session \<Rightarrow> earn_session \<Rightarrow> bool" where
  "history s s' \<longleftrightarrow> (\<forall>m\<in>set (es_movements s). \<exists>m'\<in>set (es_movements s'). mv_later m m')"

lemma history_trans: "history s s' \<Longrightarrow> history s' s'' \<Longrightarrow> history s s''"
  unfolding history_def by (meson mv_later_trans)

lemma history_more: "set (es_movements s) \<subseteq> set (es_movements s') \<Longrightarrow> history s s'"
  unfolding history_def by (meson mv_later_refl subsetD)

lemma history_update:
  assumes "es_movements s' = table_update M f (es_movements s)"
    and "\<And>m. m \<in> set (es_movements s) \<Longrightarrow> M m \<Longrightarrow> mv_later m (f m)"
  shows "history s s'"
  unfolding history_def
proof
  fix m assume m: "m \<in> set (es_movements s)"
  show "\<exists>m'\<in>set (es_movements s'). mv_later m m'"
    using m assms(2)[OF m] unfolding assms(1) set_table_update
    by (cases "M m") (auto intro: bexI[of _ "f m"] bexI[of _ m])
qed

text \<open>A terminal status is never left, and a confirmed movement only ever becomes finalized.\<close>

lemma terminal_final:
  assumes "(mv_moves model)\<^sup>*\<^sup>* st st'" "isTerminalEarnMovementStatus model st"
  shows "st' = st"
  using assms
proof (induction rule: rtranclp_induct)
  case (step y z)
  then have "y = st" by simp
  with step show ?case
    by (cases model; cases st; cases z) (auto simp: mv_moves_def isTerminalEarnMovementStatus_def)
qed simp

lemma confirmed_forward:
  assumes "(mv_moves VaultDirect)\<^sup>*\<^sup>* MvConfirmed st'"
  shows "st' \<in> {MvConfirmed, MvFinalized}"
  using assms
proof (induction rule: rtranclp_induct)
  case (step y z)
  then show ?case by (cases z) (auto simp: mv_moves_def)
qed simp

section \<open>What the operations keep\<close>

definition earn_keeps :: "earn_session \<Rightarrow> earn_session \<Rightarrow> bool" where
  "earn_keeps s s' \<longleftrightarrow> (ledger_ok s \<longrightarrow> ledger_ok s' \<and> history s s')"

interpretation earn: effect_relation earn_keeps
proof
  fix s s' s'' :: earn_session
  show "only_session s s' \<Longrightarrow> earn_keeps s s'"
    using same_ledger_ok(4)[OF only_session_ledger, of s s'] only_session_ledger[of s s']
    by (simp add: earn_keeps_def same_ledger_def history_more)
  show "earn_keeps s s' \<Longrightarrow> earn_keeps s' s'' \<Longrightarrow> earn_keeps s s''"
    by (auto simp: earn_keeps_def intro: history_trans)
qed

lemma faults_same [simp]:
  "ledger_ok (s\<lparr>sess_faults := fs\<rparr>) = ledger_ok s" "history s (s'\<lparr>sess_faults := fs\<rparr>) = history s s'"
  by (simp_all add: same_ledger_ok(4)[OF only_session_ledger] history_def)

lemma keeps_transaction:
  assumes "\<And>s. ledger_ok s \<Longrightarrow> wp m (\<lambda>r s'. \<forall>a. r = Inr a \<longrightarrow> ledger_ok s' \<and> history s s') s"
  shows "stays earn_keeps (transaction m)"
proof (rule staysI)
  fix s
  have "wp (transaction m) (\<lambda>_ s'. ledger_ok s' \<and> history s s') s" if ok: "ledger_ok s"
  proof (intro wp_transaction)
    show "wp m (\<lambda>r s1. case r of Inl e \<Rightarrow> True | Inr a \<Rightarrow> \<forall>fs. ledger_ok (s1\<lparr>sess_faults := fs\<rparr>) \<and> history s (s1\<lparr>sess_faults := fs\<rparr>)) s"
      by (rule wp_mono[OF assms[OF ok]]) (auto split: sum.split)
    show "ledger_ok (rollback s s1) \<and> history s (rollback s s1)" for s1
      using earn.session[of s "rollback s s1"] ok by (simp add: earn_keeps_def)
  qed
  then show "earn_keeps s (snd (transaction m s))" by (auto simp: wp_def earn_keeps_def)
qed

lemma ball_table_update:
  "(\<forall>q\<in>set (table_update M f xs). P q) \<longleftrightarrow> (\<forall>p\<in>set xs. (M p \<longrightarrow> P (f p)) \<and> (\<not> M p \<longrightarrow> P p))"
  by (induction xs) (auto simp: table_update_def)

lemma list_ex_table_update:
  "(\<And>p. M p \<Longrightarrow> P (f p) = P p) \<Longrightarrow> list_ex P (table_update M f ps) = list_ex P ps"
  by (induction ps) (auto simp: table_update_def)

definition position_identity where
  "position_identity p = (ep_id p, ep_organization_id p, ep_environment p, ep_provider p, ep_kind p, ep_vault_address p, ep_custody_wallet_id p)"

lemma references_table_update:
  assumes "\<And>p. M p \<Longrightarrow> position_identity (f p) = position_identity p"
  shows "references_position (table_update M f ps) m = references_position ps m"
  unfolding references_position_def
  by (rule list_ex_table_update) (use assms in \<open>auto simp: position_identity_def\<close>)

lemma references_append: "references_position ps m \<Longrightarrow> references_position (ps @ qs) m"
  by (simp add: references_position_def)

text \<open>Statements on positions that keep their identity.\<close>

lemma rows_ok_positions:
  assumes "rows_ok s" "es_movements s' = es_movements s" "es_positions s' = table_update M f (es_positions s)"
    and "\<And>p. M p \<Longrightarrow> position_identity (f p) = position_identity p" "positions_wf (es_positions s')"
  shows "rows_ok s'"
  using assms(1,2,4,5) unfolding rows_ok_def movements_wf_def assms(3) ball_table_update
  by (simp add: list_all_iff references_table_update[OF assms(4)] position_identity_def)

lemma wp_project:
  assumes ok: "rows_ok s" "funders_ok {i} s" "activations_ok x s"
    and org: "\<And>p. p \<in> set (es_positions s) \<Longrightarrow> ep_id p = i \<Longrightarrow> ep_organization_id p = org"
  shows "wp (projectShareAccountRentFunder i org) (\<lambda>r s'. \<forall>a. r = Inr a \<longrightarrow>
    rows_ok s' \<and> funders_ok {} s' \<and> activations_ok x s' \<and> es_movements s' = es_movements s) s"
  unfolding projectShareAccountRentFunder_def
proof (rule wp_update_positions, simp, intro allI impI conjI)
  fix s1 s' :: earn_session and a :: unit
  assume s1: "only_session s s1" and ms: "es_movements s' = es_movements s"
    and ps: "es_positions s' = table_update (\<lambda>p. ep_id p = i \<and> ep_organization_id p = org)
      (\<lambda>p. p\<lparr>ep_share_ata_rent_funder := projected_funder (es_movements s1) (ep_id p), ep_updated_at := sess_clock s1\<rparr>) (es_positions s)"
    and wf: "positions_wf (es_positions s')"
  have ms1: "es_movements s1 = es_movements s" using only_session_ledger[OF s1] by (simp add: same_ledger_def)
  show "rows_ok s'" by (rule rows_ok_positions[OF ok(1) ms ps _ wf]) (simp add: position_identity_def)
  show "funders_ok {} s'"
    using ok(2) org unfolding funders_ok_def ps ms ms1 ball_table_update by simp
  show "activations_ok x s'"
    using ok(3) unfolding activations_ok_def ps ms ball_table_update by auto
  show "es_movements s' = es_movements s" by (rule ms)
qed

lemma distinct_keys_unique:
  assumes "distinct_keys key rows" "a \<in> set rows" "b \<in> set rows" "key a = Some k" "key b = Some k"
  shows "a = b"
proof -
  have key: "k \<in> set (List.map_filter key rows)" if "x \<in> set rows" "key x = Some k" for x rows
    using that by (induction rows) (auto simp: map_filter_simps split: option.split)
  show ?thesis
    using assms
  proof (induction rows)
    case (Cons r rows)
    then show ?case
      using key[of _ rows] by (auto simp: distinct_keys_def map_filter_simps split: option.splits)
  qed simp
qed

lemma referenced_ids:
  assumes "rows_ok s" "m \<in> set (es_movements s)"
  shows "em_position_id m \<in> ep_id ` set (es_positions s)"
proof -
  have "references_position (es_positions s) m"
    using assms by (simp add: rows_ok_def movements_wf_def list_all_iff)
  then obtain q where "q \<in> set (es_positions s)" "ep_id q = em_position_id m"
    by (auto simp: references_position_def list_ex_iff)
  then show ?thesis by (metis imageI)
qed

text \<open>A new position has no movements yet.\<close>

lemma position_appended:
  assumes ok: "rows_ok s" "funders_ok {} s" "activations_ok {} s"
    and wf: "positions_wf (es_positions s @ [p])" and none: "ep_share_ata_rent_funder p = None"
    and s': "es_positions s' = es_positions s @ [p]" "es_movements s' = es_movements s"
  shows "rows_ok s' \<and> funders_ok {} s' \<and> activations_ok {ep_id p} s'"
proof -
  have "ep_id p \<notin> em_position_id ` set (es_movements s)"
    using referenced_ids[OF ok(1)] wf by (auto simp: positions_wf_def positions_unique_def)
  then show ?thesis
    using ok wf none by (auto simp: rows_ok_def movements_wf_def funders_ok_def activations_ok_def s' list_all_iff
      references_append projected_funder_none)
qed

lemma position_refreshed:
  assumes ok: "rows_ok s" "funders_ok {} s" "activations_ok {} s"
    and p: "p \<in> set (es_positions s)" "vault_claim_key p = Some k"
    and s': "es_positions s' = table_update (\<lambda>q. vault_claim_key q = Some k) (refreshed_position input t) (es_positions s)"
      "es_movements s' = es_movements s" "positions_wf (es_positions s')"
  shows "rows_ok s' \<and> funders_ok {} s' \<and> activations_ok {ep_id p} s' \<and> refreshed_position input t p \<in> set (es_positions s')"
proof (intro conjI)
  have only: "q = p" if "q \<in> set (es_positions s)" "vault_claim_key q = Some k" for q
    using distinct_keys_unique[OF _ that(1) p(1) that(2) p(2)] ok(1)
    by (simp add: rows_ok_def positions_wf_def positions_unique_def)
  show "rows_ok s'"
    by (rule rows_ok_positions[OF ok(1) s'(2,1) _ s'(3)]) (simp add: position_identity_def refreshed_position_def)
  show "funders_ok {} s'"
    using ok(2) unfolding funders_ok_def s'(1,2) ball_table_update by (simp add: refreshed_position_def)
  show "activations_ok {ep_id p} s'"
    using ok(3) only unfolding activations_ok_def s'(1,2) ball_table_update by (auto simp: refreshed_position_def)
  show "refreshed_position input t p \<in> set (es_positions s')"
    using p by (auto simp: s'(1) set_table_update)
qed

lemma wp_upsert_position:
  assumes ok: "rows_ok s" "funders_ok {} s" "activations_ok {} s"
    and row: "vault_claim_key row = Some k" "ep_share_ata_rent_funder row = None"
  shows "wp (upsert_position input row) (\<lambda>r s'. \<forall>p. r = Inr (Some p) \<longrightarrow> rows_ok s' \<and> funders_ok {} s' \<and>
    activations_ok {ep_id p} s' \<and> p \<in> set (es_positions s') \<and> ep_organization_id p = ep_organization_id row \<and>
    es_movements s' = es_movements s) s"
proof (cases "find (\<lambda>p. vault_claim_key p = Some k) (es_positions s)")
  case None
  show ?thesis
    using position_appended[OF ok, of row "s\<lparr>es_positions := es_positions s @ [row]\<rparr>"] row None
    by (auto simp: upsert_position_def wp_def io_bind_def io_return_def put_positions_def positions_wf_def)
next
  case (Some p)
  let ?ps = "table_update (\<lambda>q. vault_claim_key q = Some k) (refreshed_position input (sess_clock s)) (es_positions s)"
  have p: "p \<in> set (es_positions s)" "vault_claim_key p = Some k" using find_Some_in[OF Some] by auto
  have key: "ep_organization_id p = ep_organization_id row" using p(2) row(1) by (auto simp: vault_claim_key_def split: if_splits)
  have refresh: "ep_id (refreshed_position input t p) = ep_id p"
    "ep_organization_id (refreshed_position input t p) = ep_organization_id p" for t
    by (simp_all add: refreshed_position_def)
  show ?thesis
    using position_refreshed[OF ok p, of "s\<lparr>es_positions := ?ps\<rparr>" input "sess_clock s"] row Some key refresh
    by (auto simp: upsert_position_def wp_def io_bind_def io_return_def put_positions_def positions_wf_def)
qed

lemma wp_claim:
  assumes ok: "ledger_ok s"
  shows "wp (claimVaultPosition input) (\<lambda>r s'. \<forall>p. r = Inr p \<longrightarrow> rows_ok s' \<and> funders_ok {} s' \<and>
    activations_ok {ep_id p} s' \<and> p \<in> set (es_positions s') \<and> ep_organization_id p = sdi_organizationId input \<and>
    es_movements s' = es_movements s) s"
  unfolding claimVaultPosition_def
proof (intro wp_bind wp_uuid_id(1), unfold sum.case, intro wp_bind wp_sql, goal_cases)
  case (1 i s1 fs)
  let ?u = "s1\<lparr>sess_faults := fs\<rparr>"
  have same: "same_ledger s ?u" using only_session_ledger[OF only_session_trans[OF 1 only_session_faults]] .
  have u: "rows_ok ?u" "funders_ok {} ?u" "activations_ok {} ?u" "es_movements ?u = es_movements s"
    using ok same_ledger_ok(1-3)[OF same] same by (simp_all add: ledger_ok_def same_ledger_def)
  show ?case
  proof (cases "claim_scope input ?u")
    case None
    then show ?thesis by (simp add: wp_def io_throw_def)
  next
    case (Some project)
    let ?row = "claimed_position input i project (sess_clock s1)"
    have org: "prj_organization_id project = sdi_organizationId input"
      using Some find_Some_in by (fastforce simp: claim_scope_def bind_eq_Some_conv)
    have row: "ep_share_ata_rent_funder ?row = None" "ep_organization_id ?row = sdi_organizationId input"
      by (simp_all add: claimed_position_def org)
    obtain k where k: "vault_claim_key ?row = Some k" by (simp add: vault_claim_key_def claimed_position_def)
    have "wp (upsert_position input ?row) (\<lambda>r s'. case r of Inl e \<Rightarrow> True | Inr row \<Rightarrow> wp (case row of
         None \<Rightarrow> io_throw (conflict ''Vault position does not match project, wallet scope, or asset identity'')
       | Some p \<Rightarrow> io_return p) (\<lambda>r s'. \<forall>p. r = Inr p \<longrightarrow> rows_ok s' \<and> funders_ok {} s' \<and>
      activations_ok {ep_id p} s' \<and> p \<in> set (es_positions s') \<and> ep_organization_id p = sdi_organizationId input \<and>
      es_movements s' = es_movements s) s') ?u"
      by (rule wp_mono[OF wp_upsert_position[OF u(1-3) k row(1)]])
        (auto simp: row(2) u(4)[simplified] split: sum.split option.split intro!: wp_throw wp_return)
    then show ?thesis using Some by (auto simp: wp_def split: sum.splits)
  qed
next
  case (2 i s1 e fs)
  then show ?case by simp
qed

lemma wp_insert_vault_movement:
  assumes ok: "rows_ok s" "funders_ok {} s" "activations_ok {i} s"
    and row: "\<And>k t. em_position_id (row k t) = i" "\<And>k t. em_status (row k t) = MvRequested"
      "\<And>k t. em_execution_model (row k t) = VaultDirect"
  shows "wp (insert_vault_movement row) (\<lambda>r s'.
    (r = Inr None \<longrightarrow> same_ledger s s' \<and> (\<exists>k t. \<exists>m\<in>set (es_movements s). vault_request_key m = vault_request_key (row k t))) \<and>
    (\<forall>m. r = Inr (Some m) \<longrightarrow> rows_ok s' \<and> funders_ok {i} s' \<and> activations_ok {} s' \<and>
      es_movements s' = es_movements s @ [m] \<and> es_positions s' = es_positions s \<and> (\<exists>k t. m = row k t))) s"
  unfolding insert_vault_movement_def Let_def
proof (intro wp_bind wp_uuid_id(2), unfold sum.case, intro wp_sql, goal_cases)
  case (1 k s1 fs)
  have same: "same_ledger s (s1\<lparr>sess_faults := fs\<rparr>)"
    using only_session_ledger[OF only_session_trans[OF 1 only_session_faults]] .
  let ?m = "row k (sess_clock s1)"
  have new: "rows_ok (s1\<lparr>sess_faults := fs, es_movements := es_movements s @ [?m]\<rparr>) \<and>
      funders_ok {i} (s1\<lparr>sess_faults := fs, es_movements := es_movements s @ [?m]\<rparr>) \<and>
      activations_ok {} (s1\<lparr>sess_faults := fs, es_movements := es_movements s @ [?m]\<rparr>)"
    if "movements_wf (es_positions s) (es_movements s @ [?m])"
    using ok that same row
    by (auto simp: rows_ok_def funders_ok_def activations_ok_def same_ledger_def projected_funder_append
        has_live_movement_def live_statuses_def)
  show ?case
    using same new
    by (auto simp: wp_def io_bind_def io_return_def put_movements_def movements_wf_def same_ledger_def list_ex_iff)
next
  case (2 k s1 e fs)
  then show ?case by simp
qed

lemma rows_ok_position_org:
  assumes "rows_ok s" "m \<in> set (es_movements s)" "p \<in> set (es_positions s)" "ep_id p = em_position_id m"
  shows "ep_organization_id p = em_organization_id m"
proof -
  have "references_position (es_positions s) m"
    using assms(1,2) by (simp add: rows_ok_def movements_wf_def list_all_iff)
  then obtain q where q: "q \<in> set (es_positions s)" "ep_id q = em_position_id m" "ep_organization_id q = em_organization_id m"
    by (auto simp: references_position_def list_ex_iff)
  have "distinct (map ep_id (es_positions s))" using assms(1) by (simp add: rows_ok_def positions_wf_def positions_unique_def)
  then have "q = p" using q assms(3,4) by (metis distinct_map inj_onD)
  then show ?thesis using q(3) by simp
qed

lemma deposit_row_simps:
  "em_position_id (deposit_row input i k t) = i" "em_status (deposit_row input i k t) = MvRequested"
  "em_execution_model (deposit_row input i k t) = VaultDirect" "em_organization_id (deposit_row input i k t) = sdi_organizationId input"
  by (simp_all add: deposit_row_def)

lemma withdrawal_row_simps:
  "em_position_id (withdrawal_row input k t) = swi_positionId input" "em_status (withdrawal_row input k t) = MvRequested"
  "em_execution_model (withdrawal_row input k t) = VaultDirect"
  "em_organization_id (withdrawal_row input k t) = swi_organizationId input"
  by (simp_all add: withdrawal_row_def)

text \<open>The end of both intents: a fresh movement, then the projection onto its position.\<close>

lemma wp_project_inserted:
  assumes "rows_ok s1" "funders_ok {i} s1" "activations_ok {} s1" "es_movements s1 = ms @ [m]"
    "em_position_id m = i" "em_organization_id m = org"
  shows "wp (projectShareAccountRentFunder i org) (\<lambda>r s'. \<forall>a. r = Inr a \<longrightarrow> ledger_ok s' \<and> es_movements s' = ms @ [m]) s1"
proof (rule wp_mono[OF wp_project[OF assms(1-3)]])
  show "ep_organization_id p = org" if "p \<in> set (es_positions s1)" "ep_id p = i" for p
    using rows_ok_position_org[OF assms(1) _ that(1)] that(2) assms(4-6) by auto
qed (auto simp: ledger_ok_def assms(4))

lemma no_vault_request:
  assumes "find (\<lambda>m. em_organization_id m = org \<and> em_request_id m = rid \<and> em_execution_model m = VaultDirect) ms = None"
    and "m \<in> set ms"
  shows "vault_request_key m \<noteq> Some (org, rid)"
  using assms by (auto simp: find_None_iff vault_request_key_def)

lemma wp_keeps_reads:
  assumes "io_reads m" "ledger_ok s" "only_session s u"
  shows "wp m (\<lambda>r s'. \<forall>a. r = Inr a \<longrightarrow> ledger_ok s' \<and> history s s') u"
  by (rule wp_reads[OF assms(1)])
    (use earn.session[OF only_session_trans[OF assms(3)]] assms(2) in \<open>auto simp: earn_keeps_def\<close>)

lemma open_deposit_keeps:
  assumes ok: "ledger_ok s" and fresh: "\<And>m. m \<in> set (es_movements s) \<Longrightarrow>
    vault_request_key m \<noteq> Some (sdi_organizationId input, sdi_requestId input)"
  shows "wp (open_deposit input) (\<lambda>r s'. \<forall>a. r = Inr a \<longrightarrow> ledger_ok s' \<and> \<not> ir_replayed a \<and>
    es_movements s' = es_movements s @ [ir_movement a] \<and> (\<exists>k i t. ir_movement a = deposit_row input k i t)) s"
  unfolding open_deposit_def insertVaultMovement_def
proof (rule wp_bind, rule wp_mono[OF wp_claim[OF ok]], goal_cases)
  case (1 r s1)
  show ?case
  proof (cases r)
    case (Inr p)
    have p: "rows_ok s1" "funders_ok {} s1" "activations_ok {ep_id p} s1" "es_movements s1 = es_movements s"
      using 1 Inr by auto
    note ins = wp_insert_vault_movement[of s1 "ep_id p" "deposit_row input (ep_id p)" for input, OF p(1-3) deposit_row_simps(1-3)]
    show ?thesis
      unfolding Inr sum.case
    proof (rule wp_bind, rule wp_mono[OF ins], goal_cases)
      case (1 r2 s2)
      have "vault_request_key (deposit_row input (ep_id p) k t) = Some (sdi_organizationId input, sdi_requestId input)" for k t
        by (simp add: vault_request_key_def deposit_row_def)
      then have some: "r2 \<noteq> Inr None" using 1 fresh p(4) by force
      have "wp (io_bind (projectShareAccountRentFunder (ep_id p) (sdi_organizationId input)) (\<lambda>_.
          io_return \<lparr>ir_position = p, ir_movement = m, ir_replayed = False\<rparr>))
          (\<lambda>r s'. \<forall>a. r = Inr a \<longrightarrow> ledger_ok s' \<and> \<not> ir_replayed a \<and>
            es_movements s' = es_movements s @ [ir_movement a] \<and> (\<exists>k i t. ir_movement a = deposit_row input k i t)) s2"
        if m: "r2 = Inr (Some m)" for m
      proof -
        have s2: "rows_ok s2" "funders_ok {ep_id p} s2" "activations_ok {} s2" "es_movements s2 = es_movements s @ [m]"
          using 1 m p(4) by auto
        obtain k t where row: "m = deposit_row input (ep_id p) k t" using 1 m by auto
        have ids: "em_position_id m = ep_id p" "em_organization_id m = sdi_organizationId input"
          by (simp_all add: row deposit_row_simps)
        have "\<exists>k i t. m = deposit_row input k i t" using row by blast
        then show ?thesis
          by (intro wp_bind wp_mono[OF wp_project_inserted[OF s2 ids]])
            (simp add: wp_def io_return_def split: sum.split)
      qed
      then show ?case using some by (cases r2) (auto split: option.split)
    qed
  qed simp
qed

lemma createSignedVaultDepositIntent_keeps: "stays earn_keeps (createSignedVaultDepositIntent input)"
  unfolding createSignedVaultDepositIntent_def
proof (intro keeps_transaction wp_bind wp_find_request, goal_cases)
  case (2 s s1)
  have s1: "ledger_ok s1" "es_movements s1 = es_movements s"
    using 2 same_ledger_ok(4)[OF only_session_ledger[OF 2(2)]] only_session_ledger[OF 2(2)] by (simp_all add: same_ledger_def)
  have "wp (open_deposit input) (\<lambda>r s'. \<forall>a. r = Inr a \<longrightarrow> ledger_ok s' \<and> history s s') s1"
    if "find (\<lambda>m. em_organization_id m = sdi_organizationId input \<and> em_request_id m = sdi_requestId input \<and>
      em_execution_model m = VaultDirect) (es_movements s) = None"
    by (rule wp_mono[OF open_deposit_keeps[OF s1(1)]])
      (use no_vault_request[OF that] s1(2) in \<open>auto intro!: history_more\<close>)
  then show ?case
    using wp_keeps_reads[OF earn_reads_only(7) 2] by (auto split: option.split)
qed simp

lemma open_withdrawal_keeps:
  assumes ok: "ledger_ok s" and fresh: "\<And>m. m \<in> set (es_movements s) \<Longrightarrow>
    vault_request_key m \<noteq> Some (swi_organizationId input, swi_requestId input)"
  shows "wp (open_withdrawal input) (\<lambda>r s'. \<forall>a. r = Inr a \<longrightarrow> ledger_ok s' \<and> \<not> ir_replayed a \<and>
    es_movements s' = es_movements s @ [ir_movement a] \<and> (\<exists>i t. ir_movement a = withdrawal_row input i t)) s"
  unfolding open_withdrawal_def insertVaultWithdrawalMovement_def
proof -
  let ?Q = "\<lambda>r s'. \<forall>a. r = Inr a \<longrightarrow> ledger_ok s' \<and> \<not> ir_replayed a \<and>
    es_movements s' = es_movements s @ [ir_movement a] \<and> (\<exists>i t. ir_movement a = withdrawal_row input i t)"
  have parts: "rows_ok s" "funders_ok {} s" "activations_ok {swi_positionId input} s"
    using ok by (auto simp: ledger_ok_def activations_ok_def)
  note ins = wp_insert_vault_movement[OF parts withdrawal_row_simps(1-3)]
  show "wp (io_bind (insert_vault_movement (withdrawal_row input)) (\<lambda>inserted.
     case inserted of
       None \<Rightarrow> io_bind (resolve_withdrawal_replay input) (\<lambda>winner. case winner of
           None \<Rightarrow> io_throw (PlainError ''Failed to resolve concurrent earn vault withdrawal'')
         | Some r \<Rightarrow> io_return r)
     | Some m \<Rightarrow>
         io_bind (projectShareAccountRentFunder (em_position_id m) (swi_organizationId input)) (\<lambda>_.
         io_bind (requireMovementPosition m) (\<lambda>position.
         io_return \<lparr>ir_position = position, ir_movement = m, ir_replayed = False\<rparr>)))) ?Q s"
  proof (rule wp_bind, rule wp_mono[OF ins], goal_cases)
    case (1 r s1)
    have "vault_request_key (withdrawal_row input k t) = Some (swi_organizationId input, swi_requestId input)" for k t
      by (simp add: vault_request_key_def withdrawal_row_def)
    then have some: "r \<noteq> Inr None" using 1 fresh by force
    have last: "wp (io_bind (requireMovementPosition m) (\<lambda>position.
        io_return \<lparr>ir_position = position, ir_movement = m, ir_replayed = False\<rparr>)) ?Q u"
      if u: "ledger_ok u" "es_movements u = es_movements s @ [m]" "\<exists>k t. m = withdrawal_row input k t" for u m
    proof (intro wp_bind wp_reads[OF earn_reads_only(4)], goal_cases)
      case (1 r u')
      have "ledger_ok u'" "es_movements u' = es_movements s @ [m]"
        using u same_ledger_ok(4)[OF only_session_ledger[OF 1]] only_session_ledger[OF 1] by (simp_all add: same_ledger_def)
      with u(3) show ?case by (cases r) (simp_all add: wp_def io_return_def)
    qed
    have "wp (io_bind (projectShareAccountRentFunder (em_position_id m) (swi_organizationId input)) (\<lambda>_.
        io_bind (requireMovementPosition m) (\<lambda>position.
        io_return \<lparr>ir_position = position, ir_movement = m, ir_replayed = False\<rparr>))) ?Q s1" if m: "r = Inr (Some m)" for m
    proof -
      obtain k t where row: "m = withdrawal_row input k t" using 1 m by auto
      have ids: "swi_positionId input = em_position_id m" "em_organization_id m = swi_organizationId input"
        by (simp_all add: row withdrawal_row_simps)
      have s1: "rows_ok s1" "funders_ok {em_position_id m} s1" "activations_ok {} s1" "es_movements s1 = es_movements s @ [m]"
        using 1 m unfolding ids(1) by auto
      have "\<exists>k t. m = withdrawal_row input k t" using row by blast
      then show ?thesis
        by (intro wp_bind wp_mono[OF wp_project_inserted[OF s1 refl ids(2)]]) (auto split: sum.split intro!: last)
    qed
    then show ?case using some by (cases r) (auto split: option.split)
  qed
qed

lemma wp_resolve_withdrawal:
  assumes "\<And>r s'. only_session s s' \<Longrightarrow> r \<noteq> Inr None \<Longrightarrow> Q r s'"
    and "\<And>s'. only_session s s' \<Longrightarrow> find (\<lambda>m. em_organization_id m = swi_organizationId input \<and>
      em_request_id m = swi_requestId input \<and> em_execution_model m = VaultDirect) (es_movements s) = None \<Longrightarrow> Q (Inr None) s'"
  shows "wp (resolve_withdrawal_replay input) Q s"
  unfolding resolve_withdrawal_replay_def
proof (intro wp_bind wp_find_request, goal_cases)
  case (2 s1)
  let ?found = "find (\<lambda>m. em_organization_id m = swi_organizationId input \<and>
      em_request_id m = swi_requestId input \<and> em_execution_model m = VaultDirect) (es_movements s)"
  show ?case
  proof (cases ?found)
    case None
    then show ?thesis using assms(2)[OF 2] by (simp add: wp_def io_return_def)
  next
    case (Some m)
    let ?rest = "\<lambda>_. if em_direction m \<noteq> Withdrawal then io_throw replay_conflict
        else io_bind (replayed_intent m) (\<lambda>r. io_return (Some r))"
    have "io_reads (io_bind (io_lift (assertMovementIsOwnReplay m (swi_projectId input) (swi_idempotencyFingerprint input))) ?rest)"
      by (intro reads_intros earn_reads_only(5))
    moreover have "fst (io_bind (io_lift r) ?rest s1) \<noteq> Inr None" for r
      by (auto simp: io_bind_def io_lift_def io_throw_def io_return_def split: prod.split sum.split)
    ultimately show ?thesis
      using assms(1)[OF only_session_trans[OF 2]] unfolding wp_def io_reads_def Some option.case sum.case by blast
  qed
qed (simp add: assms(1))

lemma createSignedVaultWithdrawalIntent_keeps: "stays earn_keeps (createSignedVaultWithdrawalIntent input)"
  unfolding createSignedVaultWithdrawalIntent_def
proof (intro keeps_transaction wp_bind wp_resolve_withdrawal, goal_cases)
  case (1 s r s1)
  then show ?case
    using earn.session[OF 1(2)] by (auto simp: earn_keeps_def split: sum.split option.split intro!: wp_return)
next
  case (2 s s1)
  have s1: "ledger_ok s1" "es_movements s1 = es_movements s"
    using 2 same_ledger_ok(4)[OF only_session_ledger[OF 2(2)]] only_session_ledger[OF 2(2)] by (simp_all add: same_ledger_def)
  have "wp (open_withdrawal input) (\<lambda>r s'. \<forall>a. r = Inr a \<longrightarrow> ledger_ok s' \<and> history s s') s1"
    by (rule wp_mono[OF open_withdrawal_keeps[OF s1(1)]])
      (use no_vault_request[OF 2(3)] s1(2) in \<open>auto intro!: history_more\<close>)
  then show ?case by simp
qed

section \<open>Advancing a movement\<close>

lemma allowed_sources:
  assumes "allowedSourceStatuses model toStatus = Inr sources"
  shows "EARN_MOVEMENT_TRANSITIONS model toStatus = Some sources"
  using assms by (auto simp: allowedSourceStatuses_def split: option.splits if_splits)

lemma allowed_vault_sources:
  assumes "allowedSourceStatuses VaultDirect toStatus = Inr sources" "st \<in> set sources"
  shows "toStatus \<in> {MvSubmitted, MvConfirmed, MvFinalized, MvFailed}" "st \<in> {MvRequested, MvSubmitted, MvConfirmed}"
    "toStatus = MvFailed \<Longrightarrow> st \<noteq> MvConfirmed" "toStatus = MvConfirmed \<Longrightarrow> st \<noteq> MvConfirmed" "mv_moves VaultDirect st toStatus"
  using allowed_sources[OF assms(1)] assms(2) by (cases toStatus; auto simp: mv_moves_def)+

lemma advanced_later:
  assumes checks: "movement_checks m" and meta: "assertVaultTransitionMetadata input = Inr ()"
    and src: "allowedSourceStatuses VaultDirect (avm_toStatus input) = Inr sources" and m: "advanceable input sources m"
  shows "mv_later m (advanced input t m)"
proof -
  have m': "em_execution_model m = VaultDirect" "em_status m \<in> set sources" using m by (auto simp: advanceable_def)
  note st = allowed_vault_sources[OF src m'(2)]
  have "(mv_moves VaultDirect)\<^sup>*\<^sup>* (em_status m) (avm_toStatus input)" using st(5) by blast
  moreover have "em_settled_at m = None"
    using checks m'(1) st(2) by (auto simp: movement_checks_def vault_metadata_def)
  moreover have "em_shares_out m = None" if "em_status m \<noteq> MvConfirmed"
    using checks st(2) that by (auto simp: movement_checks_def split: option.splits)
  moreover have "avm_sharesOut input \<noteq> None \<Longrightarrow> avm_toStatus input = MvConfirmed"
    using meta by (auto simp: assertVaultTransitionMetadata_def Let_def split: if_splits)
  ultimately show ?thesis
    using m'(1) st(4) by (auto simp: mv_later_def mv_project_def mv_identity_def advanced_def mv_observed_def kept_value_def coalesce_at_def
        given_def split: option.splits)
qed

lemma advanced_simps [simp]:
  "em_id (advanced input t m) = em_id m" "em_position_id (advanced input t m) = em_position_id m"
  "em_organization_id (advanced input t m) = em_organization_id m" "em_status (advanced input t m) = avm_toStatus input"
  "em_creates_share_account (advanced input t m) = em_creates_share_account m"
  "em_share_ata_rent_funder (advanced input t m) = em_share_ata_rent_funder m"
  "movement_key (advanced input t m) = movement_key m" "em_execution_model (advanced input t m) = em_execution_model m"
  by (simp_all add: advanced_def movement_key_def)

lemma same_movement:
  assumes "rows_ok s" "m \<in> set (es_movements s)" "m' \<in> set (es_movements s)" "em_id m = em_id m'"
  shows "m = m'"
proof -
  have "distinct (map em_id (es_movements s))" using assms(1) by (simp add: rows_ok_def movements_wf_def movements_unique_def)
  then show ?thesis using assms(2-4) by (metis distinct_map inj_onD)
qed

text \<open>The statement of \<^verbatim>\<open>advanceVaultMovement\<close>, whether or not a row matches.\<close>

lemma advance_ledger:
  assumes ok: "ledger_ok s" and meta: "assertVaultTransitionMetadata input = Inr ()"
    and src: "allowedSourceStatuses VaultDirect (avm_toStatus input) = Inr sources"
    and s': "es_positions s' = es_positions s" "es_movements s' = table_update (advanceable input sources) (advanced input t) (es_movements s)"
      "movements_wf (es_positions s) (es_movements s')"
  shows "history s s'" "rows_ok s'"
    "avm_toStatus input \<noteq> MvFailed \<Longrightarrow> ledger_ok s'"
    "find (advanceable input sources) (es_movements s) = None \<Longrightarrow> ledger_ok s'"
    "find (advanceable input sources) (es_movements s) = Some m \<Longrightarrow>
       funders_ok {em_position_id m} s' \<and> activations_ok {em_position_id m} s'"
proof -
  have parts: "rows_ok s" "funders_ok {} s" "activations_ok {} s" using ok by (simp_all add: ledger_ok_def)
  show "history s s'"
    by (rule history_update[OF s'(2)], rule advanced_later[OF _ meta src])
      (use parts(1) in \<open>auto simp: rows_ok_def movements_wf_def list_all_iff\<close>)
  show rows: "rows_ok s'"
    using parts(1) s'(1,3) unfolding rows_ok_def s'(2) ball_table_update by (auto simp: advanceable_def)
  have status: "m \<in> set (es_movements s) \<Longrightarrow> advanceable input sources m \<Longrightarrow> em_status m \<in> {MvRequested, MvSubmitted, MvConfirmed}" for m
    using allowed_vault_sources(2)[OF src] by (auto simp: advanceable_def)
  have to: "advanceable input sources m \<Longrightarrow> avm_toStatus input \<in> {MvSubmitted, MvConfirmed, MvFinalized, MvFailed}" for m
    using allowed_vault_sources(1)[OF src] by (auto simp: advanceable_def)
  have keep: "projected_funder (es_movements s') i = projected_funder (es_movements s) i \<and>
      (has_live_movement (es_movements s) i \<longrightarrow> has_live_movement (es_movements s') i)"
    if "\<And>m. m \<in> set (es_movements s) \<Longrightarrow> advanceable input sources m \<Longrightarrow> em_position_id m = i \<Longrightarrow> avm_toStatus input \<noteq> MvFailed" for i
    unfolding s'(2)
  proof (rule conjI, rule projected_funder_update)
    show "has_live_movement (es_movements s) i \<longrightarrow>
        has_live_movement (table_update (advanceable input sources) (advanced input t) (es_movements s)) i"
      using that to by (auto intro!: has_live_update simp: live_statuses_def)
  qed (use that status in fastforce)
  show "ledger_ok s'" if "avm_toStatus input \<noteq> MvFailed"
    using parts keep that rows by (simp add: ledger_ok_def funders_ok_def activations_ok_def s'(1))
  show "ledger_ok s'" if "find (advanceable input sources) (es_movements s) = None"
    using parts keep that rows by (simp add: ledger_ok_def funders_ok_def activations_ok_def s'(1) find_None_iff)
  show "funders_ok {em_position_id m} s' \<and> activations_ok {em_position_id m} s'"
    if "find (advanceable input sources) (es_movements s) = Some m"
  proof -
    have m: "m \<in> set (es_movements s)" "advanceable input sources m" using find_Some_in[OF that] by auto
    have "em_position_id m' = em_position_id m" if "m' \<in> set (es_movements s)" "advanceable input sources m'" for m'
      using same_movement[OF parts(1) that(1) m(1)] that(2) m(2) by (simp add: advanceable_def)
    then show ?thesis using parts keep by (auto simp: funders_ok_def activations_ok_def s'(1))
  qed
qed

lemma wp_deactivate:
  assumes ok: "rows_ok s" "funders_ok {i} s" "activations_ok {i} s"
  shows "wp (deactivatePosition i) (\<lambda>r s'. \<forall>a. r = Inr a \<longrightarrow>
    rows_ok s' \<and> funders_ok {i} s' \<and> activations_ok {} s' \<and> es_movements s' = es_movements s) s"
  unfolding deactivatePosition_def
proof (rule wp_update_positions, simp, intro allI impI conjI)
  fix s1 s' :: earn_session and a :: unit
  assume s1: "only_session s s1" and ms: "es_movements s' = es_movements s"
    and ps: "es_positions s' = table_update (\<lambda>p. ep_id p = i \<and> ep_activated_at p \<noteq> None \<and>
        \<not> has_live_movement (es_movements s1) (ep_id p))
      (\<lambda>p. p\<lparr>ep_activated_at := None, ep_updated_at := sess_clock s1\<rparr>) (es_positions s)"
    and wf: "positions_wf (es_positions s')"
  have ms1: "es_movements s1 = es_movements s" using only_session_ledger[OF s1] by (simp add: same_ledger_def)
  show "rows_ok s'" by (rule rows_ok_positions[OF ok(1) ms ps _ wf]) (simp add: position_identity_def)
  show "funders_ok {i} s'"
    using ok(2) unfolding funders_ok_def ps ms ball_table_update by simp
  show "activations_ok {} s'"
    using ok(3) unfolding activations_ok_def ps ms ms1 ball_table_update by auto
  show "es_movements s' = es_movements s" by (rule ms)
qed

lemma wp_activate:
  assumes ok: "ledger_ok s" and live: "has_live_movement (es_movements s) i"
  shows "wp (activatePosition i org) (\<lambda>r s'. \<forall>a. r = Inr a \<longrightarrow> ledger_ok s' \<and> es_movements s' = es_movements s) s"
  unfolding activatePosition_def
proof (rule wp_update_positions, simp, intro allI impI conjI)
  fix s1 s' :: earn_session and a :: unit
  assume s1: "only_session s s1" and ms: "es_movements s' = es_movements s"
    and ps: "es_positions s' = table_update (\<lambda>p. ep_id p = i \<and> ep_organization_id p = org)
      (\<lambda>p. p\<lparr>ep_activated_at := coalesce_at (ep_activated_at p) (sess_clock s1), ep_closed_at := None,
        ep_updated_at := sess_clock s1\<rparr>) (es_positions s)"
    and wf: "positions_wf (es_positions s')"
  have parts: "rows_ok s" "funders_ok {} s" "activations_ok {} s" using ok by (simp_all add: ledger_ok_def)
  have "rows_ok s'" by (rule rows_ok_positions[OF parts(1) ms ps _ wf]) (simp add: position_identity_def)
  moreover have "funders_ok {} s'"
    using parts(2) unfolding funders_ok_def ps ms ball_table_update by simp
  moreover have "activations_ok {} s'"
    using parts(3) live unfolding activations_ok_def ps ms ball_table_update by auto
  ultimately show "ledger_ok s'" by (simp add: ledger_ok_def)
  show "es_movements s' = es_movements s" by (rule ms)
qed

lemma wp_record_outcome:
  assumes rows: "rows_ok s" and failed: "avm_toStatus input = MvFailed \<Longrightarrow> funders_ok {em_position_id m} s \<and> activations_ok {em_position_id m} s"
    and live: "avm_toStatus input \<noteq> MvFailed \<Longrightarrow> ledger_ok s \<and> em_status m \<in> live_statuses"
    and m: "m \<in> set (es_movements s)" "em_organization_id m = avm_organizationId input"
  shows "wp (record_outcome input direction m) (\<lambda>r s'. \<forall>a. r = Inr a \<longrightarrow> ledger_ok s' \<and> es_movements s' = es_movements s) s"
proof (cases "avm_toStatus input = MvFailed")
  case True
  let ?i = "em_position_id m"
  have project: "wp (projectShareAccountRentFunder ?i (avm_organizationId input))
      (\<lambda>r s'. \<forall>a. r = Inr a \<longrightarrow> ledger_ok s' \<and> es_movements s' = es_movements s) u"
    if u: "rows_ok u" "funders_ok {?i} u" "activations_ok {} u" "es_movements u = es_movements s" for u
    by (rule wp_mono[OF wp_project[OF u(1-3)]])
      (use rows_ok_position_org[OF u(1), of m] m u(4) in \<open>auto simp: ledger_ok_def\<close>)
  have "wp (io_bind (deactivatePosition ?i) (\<lambda>_. projectShareAccountRentFunder ?i (avm_organizationId input)))
      (\<lambda>r s'. \<forall>a. r = Inr a \<longrightarrow> ledger_ok s' \<and> es_movements s' = es_movements s) s"
    using failed[OF True]
    by (intro wp_bind wp_mono[OF wp_deactivate[OF rows]]) (auto split: sum.split intro!: project[simplified])
  then show ?thesis by (simp add: record_outcome_def True)
next
  case False
  have "has_live_movement (es_movements s) (em_position_id m)"
    using m(1) live[OF False] by (auto simp: has_live_movement_def list_ex_iff)
  then show ?thesis
    using False live[OF False] wp_activate by (auto simp: record_outcome_def intro!: wp_return)
qed

lemma wp_advance:
  assumes ok: "ledger_ok s" and meta: "assertVaultTransitionMetadata input = Inr ()"
    and src: "allowedSourceStatuses VaultDirect (avm_toStatus input) = Inr sources"
  shows "wp (update_movements (advanceable input sources) (advanced input)) (\<lambda>r s'.
    (\<forall>e. r = Inl e \<longrightarrow> only_session s s') \<and> (r = Inr None \<longrightarrow> ledger_ok s' \<and> history s s') \<and>
    (\<forall>m. r = Inr (Some m) \<longrightarrow> rows_ok s' \<and> history s s' \<and> m \<in> set (es_movements s') \<and>
      em_organization_id m = avm_organizationId input \<and> em_status m = avm_toStatus input \<and>
      (avm_toStatus input \<noteq> MvFailed \<longrightarrow> ledger_ok s' \<and> em_status m \<in> live_statuses) \<and>
      funders_ok {em_position_id m} s' \<and> activations_ok {em_position_id m} s')) s"
proof (rule wp_update_movements, simp, goal_cases)
  case (1 s')
  note led = advance_ledger[OF ok meta src 1(2-4)]
  show ?case
  proof (cases "find (advanceable input sources) (es_movements s)")
    case (Some m)
    have m: "m \<in> set (es_movements s)" "advanceable input sources m" using find_Some_in[OF Some] by auto
    have "advanced input (sess_clock s) m \<in> set (es_movements s')" using m by (auto simp: 1(3) set_table_update)
    moreover have "avm_toStatus input \<in> {MvSubmitted, MvConfirmed, MvFinalized, MvFailed}"
      using allowed_vault_sources(1)[OF src] m(2) by (auto simp: advanceable_def)
    ultimately show ?thesis
      using led(1,2,3) led(5)[OF Some] m(2) Some by (auto simp: advanceable_def live_statuses_def)
  qed (use led in simp)
qed

lemma advanceVaultMovement_keeps: "stays earn_keeps (advanceVaultMovement input)"
  unfolding advanceVaultMovement_def Let_def
proof (intro earn.stays_lift earn.stays_if, goal_cases)
  case (1 a sources)
  have "wp (update_movements (advanceable input sources) (advanced input)) (\<lambda>_ s'. ledger_ok s' \<and> history s s') s"
    if ok: "ledger_ok s" for s
  proof (rule wp_mono[OF wp_advance[OF ok]], goal_cases)
    case (3 r s')
    then show ?case
      using earn.session[of s s'] ok 1(3) by (cases r) (auto simp: earn_keeps_def split: option.split_asm)
  qed (use 1 in simp_all)
  then show ?case by (auto simp: stays_def earn_keeps_def wp_def)
next
  case (2 a sources)
  then have meta: "assertVaultTransitionMetadata input = Inr ()" and src: "allowedSourceStatuses VaultDirect (avm_toStatus input) = Inr sources"
    by simp_all
  let ?Q = "\<lambda>s r s'. \<forall>a. r = Inr a \<longrightarrow> ledger_ok s' \<and> history s s'"
  have step: "wp (io_bind (update_movements (advanceable input sources) (advanced input)) (\<lambda>row.
        case row of None \<Rightarrow> io_return None
        | Some movement \<Rightarrow> io_bind (record_outcome input direction movement) (\<lambda>_. io_return (Some movement)))) (?Q s) u"
    if ok: "ledger_ok u" "history s u" for s u direction
  proof (rule wp_bind, rule wp_mono[OF wp_advance[OF ok(1) meta src]], goal_cases)
    case (1 r s')
    have "wp (io_bind (record_outcome input direction m) (\<lambda>_. io_return (Some m))) (?Q s) s'" if r: "r = Inr (Some m)" for m
    proof (rule wp_bind, rule wp_mono[OF wp_record_outcome[of s' input m]], goal_cases)
      case (6 r u)
      then show ?case
        using history_trans[OF ok(2), of s'] history_more[of s' u] history_trans[of s s' u] 1 r
        by (auto simp: wp_def io_return_def split: sum.split)
    qed (use 1 r in auto)
    then show ?case
      using 1 history_trans[OF ok(2), of s'] by (cases r) (auto split: option.split intro!: wp_return)
  qed
  show ?case
  proof (intro keeps_transaction wp_bind wp_getMovementById, goal_cases)
    case (2 s s1)
    have s1: "ledger_ok s1" "history s s1" using earn.session[OF 2(2)] 2(1) by (simp_all add: earn_keeps_def)
    show ?case
    proof (unfold sum.case, intro wp_option wp_bind[of "sql _"] wp_sql wp_get, goal_cases)
      case (2 c fs)
      then show ?case using step[of "s1\<lparr>sess_faults := fs\<rparr>"] s1 by simp
    qed (use s1 in \<open>auto intro!: wp_return\<close>)
  qed simp
qed

section \<open>Custodial movements and the queue\<close>

lemma insert_minted_keeps: "stays earn_keeps (insert_minted_position w i)"
  unfolding insert_minted_position_def
proof (intro earn.stays_sql staysI, goal_cases)
  case (1 s)
  let ?new = "\<lambda>wallet. s\<lparr>es_positions := es_positions s @ [minted_position wallet i]\<rparr>"
  have "earn_keeps s (?new wallet)" if wf: "positions_wf (es_positions s @ [minted_position wallet i])" for wallet
  proof -
    have "rows_ok (?new wallet) \<and> funders_ok {} (?new wallet) \<and> activations_ok {i} (?new wallet)" if "ledger_ok s"
      using position_appended[OF _ _ _ wf, of "?new wallet"] that by (simp add: ledger_ok_def minted_position_def)
    moreover have "activations_ok {} (?new wallet)" if "ledger_ok s"
      using that by (simp add: ledger_ok_def activations_ok_def minted_position_def)
    ultimately show ?thesis by (simp add: earn_keeps_def ledger_ok_def history_more)
  qed
  then show ?case
    using earn.refl[of s] by (auto simp: put_positions_def positions_wf_def split: option.split)
qed

lemma custodial_row_simps:
  "em_position_id (custodial_row input k i t) = k" "em_execution_model (custodial_row input k i t) = Custodial"
  "\<not> em_creates_share_account (custodial_row input k i t)"
  by (simp_all add: custodial_row_def)

lemma insert_custodial_keeps: "stays earn_keeps (insert_custodial_movement input)"
  unfolding insert_custodial_movement_def generateEarnMovementId_def
proof (intro earn.stays_intros staysI, goal_cases)
  case (1 i s)
  let ?new = "\<lambda>p. custodial_row input (ep_id p) i (sess_clock s)"
  let ?s = "\<lambda>p. s\<lparr>es_movements := es_movements s @ [?new p]\<rparr>"
  have "earn_keeps s (?s p)"
    if p: "find (custodial_position (ccm_providerWalletId input)) (es_positions s) = Some p"
      and wf: "movements_wf (es_positions s) (es_movements s @ [?new p])" for p
  proof -
    have kind: "p \<in> set (es_positions s)" "ep_kind p = Custodial" using find_Some_in[OF p] by (auto simp: custodial_position_def)
    have "ep_kind q = Custodial" if "ledger_ok s" "q \<in> set (es_positions s)" "ep_id q = ep_id p" for q
    proof -
      have "distinct (map ep_id (es_positions s))"
        using that(1) by (simp add: ledger_ok_def rows_ok_def positions_wf_def positions_unique_def)
      then show ?thesis using that(2,3) kind by (metis distinct_map inj_onD)
    qed
    then show ?thesis
      using wf by (auto simp: earn_keeps_def ledger_ok_def rows_ok_def funders_ok_def activations_ok_def custodial_row_simps
          projected_funder_append has_live_movement_def intro!: history_more)
  qed
  then show ?case
    using earn.refl[of s]
    by (auto simp: Let_def io_bind_def io_return_def put_movements_def movements_wf_def split: option.split)
qed

lemma createCustodialMovement_keeps: "stays earn_keeps (createCustodialMovement input)"
  unfolding createCustodialMovement_def mintEarnPositionForProviderWallet_def generateEarnPositionId_def
  by (intro earn.stays_intros insert_custodial_keeps insert_minted_keeps)

text \<open>An update of movements that keeps their identity and concerns no vault movement's status.\<close>

lemma keeps_update:
  assumes ok: "ledger_ok s"
    and s': "es_positions s' = es_positions s" "es_movements s' = table_update M f (es_movements s)"
      "movements_wf (es_positions s) (es_movements s')"
    and f: "\<And>m. m \<in> set (es_movements s) \<Longrightarrow> M m \<Longrightarrow> mv_later m (f m) \<and>
      (em_execution_model m = VaultDirect \<longrightarrow> em_status (f m) = em_status m)"
  shows "ledger_ok s' \<and> history s s'"
proof (intro conjI)
  have parts: "rows_ok s" "funders_ok {} s" "activations_ok {} s" using ok by (simp_all add: ledger_ok_def)
  have ids: "em_position_id (f m) = em_position_id m" "em_creates_share_account (f m) = em_creates_share_account m"
    "movement_key (f m) = movement_key m" "em_share_ata_rent_funder (f m) = em_share_ata_rent_funder m"
    "em_execution_model (f m) = em_execution_model m" if "m \<in> set (es_movements s)" "M m" for m
    using f[OF that] by (simp_all add: mv_later_def mv_identity_def movement_key_def)
  have "rows_ok s'"
    using parts(1) s'(1,3) ids unfolding rows_ok_def s'(2) ball_table_update by simp
  moreover have "projected_funder (es_movements s') i = projected_funder (es_movements s) i" for i
    unfolding s'(2)
  proof (rule projected_funder_update, goal_cases)
    case (1 m)
    have "em_execution_model m = VaultDirect" if "em_creates_share_account m"
      using parts(1) 1(1) that by (cases "em_execution_model m") (auto simp: rows_ok_def)
    then show ?case using ids[OF 1(1,2)] f[OF 1(1,2)] by auto
  qed
  moreover have "has_live_movement (es_movements s') (ep_id p)"
    if p: "p \<in> set (es_positions s)" "ep_kind p = VaultDirect" and live: "has_live_movement (es_movements s) (ep_id p)" for p
    unfolding s'(2)
  proof (rule has_live_update[OF _ live], goal_cases)
    case (1 m)
    have "em_execution_model m = VaultDirect"
      using parts(1) 1(1,3) p by (cases "em_execution_model m") (auto simp: rows_ok_def)
    then show ?case using ids[OF 1(1,2)] f[OF 1(1,2)] 1(3) by simp
  qed
  ultimately show "ledger_ok s'" using parts by (simp add: ledger_ok_def funders_ok_def activations_ok_def s'(1))
  show "history s s'" by (rule history_update[OF s'(2)]) (use f in blast)
qed

lemma updateCustodialMovementGuarded_keeps: "stays earn_keeps (updateCustodialMovementGuarded input)"
  unfolding updateCustodialMovementGuarded_def
proof (intro earn.stays_lift staysI, goal_cases)
  case (1 sources s)
  let ?M = "\<lambda>m. em_organization_id m = ucm_organizationId input \<and> em_execution_model m = Custodial \<and>
       em_status m \<in> set sources \<and> selected_by (ucm_selector input) m"
  have later: "mv_later m (observed input t m) \<and> (em_execution_model m = VaultDirect \<longrightarrow> em_status (observed input t m) = em_status m)"
    if "?M m" for m t
    using that allowed_sources[OF 1] unfolding mv_later_def
    by (intro conjI impI r_into_rtranclp) (auto simp: mv_identity_def mv_project_def observed_def mv_moves_def)
  have "wp (update_movements ?M (observed input)) (\<lambda>_ s'. earn_keeps s s') s"
  proof (rule wp_update_movements, erule earn.session, unfold earn_keeps_def, intro impI, goal_cases)
    case (1 s')
    show ?case by (rule keeps_update[OF 1(5,2,3,4)]) (rule later)
  qed
  then show ?case by (simp add: wp_def)
qed

lemma claimUnsettledVaultMovements_keeps: "stays earn_keeps (claimUnsettledVaultMovements limit)"
  unfolding claimUnsettledVaultMovements_def Let_def
proof (intro earn.stays_intros staysI, goal_cases)
  case (1 s)
  let ?touched = "table_update (\<lambda>m. em_id m \<in> em_id ` set (claimed_rows (nat limit) (es_movements s)))
    (attempted (sess_clock s)) (es_movements s)"
  have "mv_later m (attempted t m)" "em_status (attempted t m) = em_status m" for t m
    by (simp_all add: mv_later_def mv_project_def mv_identity_def mv_observed_def kept_value_def attempted_def)
  then have "earn_keeps s (s\<lparr>es_movements := ?touched\<rparr>)" if "movements_wf (es_positions s) ?touched"
    unfolding earn_keeps_def using that by (intro impI keeps_update[of s _ "\<lambda>m. em_id m \<in> em_id ` set (claimed_rows (nat limit) (es_movements s))"
      "attempted (sess_clock s)"]) auto
  then show ?case
    using earn.refl[of s] by (auto simp: io_bind_def io_return_def put_movements_def movements_wf_def)
qed

lemma distinct_keys_update:
  assumes "\<And>m. key (f m) = key m"
  shows "distinct_keys key (table_update M f ms) = distinct_keys key ms"
proof -
  have "List.map_filter key (table_update M f ms) = List.map_filter key ms"
    by (induction ms) (auto simp: table_update_def map_filter_simps assms split: option.split)
  then show ?thesis by (simp add: distinct_keys_def)
qed

section \<open>The deletion of a project\<close>

lemma positions_wf_update:
  assumes "positions_wf ps" "\<And>p. position_checks (f p) = position_checks p" "\<And>p. ep_id (f p) = ep_id p"
    "\<And>p. vault_claim_key (f p) = vault_claim_key p" "\<And>p. program_claim_key (f p) = program_claim_key p"
  shows "positions_wf (table_update M f ps)"
  using assms table_update_key[of M ep_id f ps]
  by (auto simp: positions_wf_def positions_unique_def distinct_keys_update list_all_iff ball_table_update)

lemma movements_wf_update:
  assumes "movements_wf ps ms" "\<And>m. movement_checks (f m) = movement_checks m" "\<And>m. em_id (f m) = em_id m"
    "\<And>m. vault_request_key (f m) = vault_request_key m" "\<And>m. custodial_request_key (f m) = custodial_request_key m"
    "\<And>m. provider_reference_key (f m) = provider_reference_key m" "\<And>m. em_signature (f m) = em_signature m"
    "\<And>m. references_position ps (f m) = references_position ps m"
  shows "movements_wf ps (table_update M f ms)"
  using assms table_update_key[of M em_id f ms]
  by (auto simp: movements_wf_def movements_unique_def distinct_keys_update list_all_iff ball_table_update)

lemma orphaned_checks: "movement_checks (m\<lparr>em_project_id := None\<rparr>) = movement_checks m"
proof -
  have "model_shape (m\<lparr>em_project_id := None\<rparr>) = model_shape m" "vault_metadata (m\<lparr>em_project_id := None\<rparr>) = vault_metadata m"
    by (cases "em_execution_model m"; simp add: model_shape_def vault_metadata_def)+
  then show ?thesis unfolding movement_checks_def by (cases "em_shares_out m") simp_all
qed

lemma project_deleted_keeps: "earn_keeps s (project_deleted projectId s)"
  unfolding earn_keeps_def
proof
  assume ok: "ledger_ok s"
  let ?fp = "\<lambda>p. p\<lparr>ep_project_id := None\<rparr>" and ?Mp = "\<lambda>p. ep_project_id p = Some projectId"
  let ?fm = "\<lambda>m. m\<lparr>em_project_id := None\<rparr>" and ?Mm = "\<lambda>m. em_project_id m = Some projectId"
  let ?s1 = "s\<lparr>es_positions := table_update ?Mp ?fp (es_positions s)\<rparr>"
  have parts: "rows_ok s" "funders_ok {} s" "activations_ok {} s" using ok by (simp_all add: ledger_ok_def)
  have wf: "positions_wf (es_positions ?s1)"
  proof -
    have "position_checks (?fp p) = position_checks p" for p
      by (cases "ep_kind p") (simp_all add: position_checks_def)
    then show ?thesis
      using parts(1) by (auto simp: rows_ok_def vault_claim_key_def program_claim_key_def intro!: positions_wf_update)
  qed
  have rows: "rows_ok ?s1"
    by (rule rows_ok_positions[where M = ?Mp and f = ?fp, OF parts(1) _ _ _ wf]) (simp_all add: position_identity_def)
  moreover have "funders_ok {} ?s1" "activations_ok {} ?s1"
    using parts(2,3) by (simp_all add: funders_ok_def activations_ok_def ball_table_update)
  ultimately have ok1: "ledger_ok ?s1" by (simp add: ledger_ok_def)
  have "movements_wf (es_positions ?s1) (table_update ?Mm ?fm (es_movements s))"
  proof (rule movements_wf_update)
    show "movements_wf (es_positions ?s1) (es_movements s)" using rows by (simp add: rows_ok_def)
  qed (simp_all add: orphaned_checks vault_request_key_def custodial_request_key_def provider_reference_key_def references_position_def)
  moreover have "mv_later m (?fm m)" for m
    by (simp add: mv_later_def mv_project_def mv_identity_def mv_observed_def kept_value_def)
  ultimately show "ledger_ok (project_deleted projectId s) \<and> history s (project_deleted projectId s)"
    using keeps_update[OF ok1, of "project_deleted projectId s" ?Mm ?fm] by (simp add: project_deleted_def history_def)
qed

end
