(* ===== verification/Earn_Samples.thy ===== *)
theory Earn_Samples
  imports Earn_Ledger
begin

text \<open>
  A small ledger the theorems about the Earn ledger are applied to: one project with a custody wallet, a deposit
  into a vault that creates the share account, its confirmation, and the states in between.
\<close>

definition sample_deposit :: CreateSignedVaultDepositIntentInput where
  "sample_deposit = \<lparr>sdi_organizationId = ''org'', sdi_projectId = ''prj'', sdi_environment = EnvSandbox, sdi_provider = ''kamino'',
     sdi_vaultAddress = ''vault'', sdi_custodyWalletId = ''wal'', sdi_shareMint = ''shr'', sdi_tokenMint = ''usdc'', sdi_label = ''L'',
     sdi_requestedAmount = ''5'', sdi_acceptedMinSharesOut = Some ''4'', sdi_sourceAddress = ''src'', sdi_signature = ''sig'',
     sdi_signedTransaction = ''tx'', sdi_lastValidBlockHeight = 100, sdi_requestId = ''req'', sdi_idempotencyFingerprint = ''fp'',
     sdi_createdBy = None, sdi_initiatedByKeyId = None,
     sdi_rent = \<lparr>sra_createsShareAccount = True, sra_shareAtaRentFunder = Some ''payer''\<rparr>\<rparr>"

definition sample_project :: ProjectRow where
  "sample_project = \<lparr>prj_id = ''prj'', prj_organization_id = ''org'', prj_environment = EnvSandbox\<rparr>"

definition sample_session :: earn_session where
  "sample_session = \<lparr>sess_faults = [], sess_clock = 1000, sess_uuid = (\<lambda>n. replicate n (CHR ''u'')), sess_uuid_next = 0,
     es_positions = [], es_movements = [], es_projects = [sample_project],
     es_custody_configs = [\<lparr>csc_id = ''cfg'', csc_organization_id = ''org'', csc_project_id = None\<rparr>], es_custody_connections = [],
     es_custody_wallets = [\<lparr>cuw_id = ''wal'', cuw_custody_config_id = Some ''cfg'', cuw_custody_connection_id = None\<rparr>],
     es_provider_wallets = [], es_broadcasts = [], es_cluster_proofs = []\<rparr>"

definition sample_position :: EarnPositionRow where
  "sample_position = claimed_position sample_deposit ''earn_position_'' sample_project 1000"

definition sample_movement :: EarnMovementRow where
  "sample_movement = deposit_row sample_deposit ''earn_position_'' ''earn_movement_u'' 1000"

definition sample_deposited :: earn_session where
  "sample_deposited = snd (createSignedVaultDepositIntent sample_deposit sample_session)"

definition sample_confirm :: AdvanceVaultMovementInput where
  "sample_confirm = \<lparr>avm_movementId = ''earn_movement_u'', avm_organizationId = ''org'', avm_toStatus = MvConfirmed,
     avm_sharesOut = None, avm_failureReason = None, avm_confirmedAt = Some (Some 1005), avm_settledAt = None\<rparr>"

definition sample_fail :: AdvanceVaultMovementInput where
  "sample_fail = \<lparr>avm_movementId = ''earn_movement_u'', avm_organizationId = ''org'', avm_toStatus = MvFailed,
     avm_sharesOut = None, avm_failureReason = Some (Some ''expired''), avm_confirmedAt = None, avm_settledAt = None\<rparr>"

definition sample_confirmed :: earn_session where
  "sample_confirmed = snd (advanceVaultMovement sample_confirm sample_deposited)"

lemma sample_deposit_result:
  "fst (createSignedVaultDepositIntent sample_deposit sample_session) =
     Inr \<lparr>ir_position = sample_position, ir_movement = sample_movement, ir_replayed = False\<rparr>"
  by code_simp

lemma sample_deposited_rows:
  "es_movements sample_deposited = [sample_movement]" "es_positions sample_deposited = [sample_position\<lparr>ep_share_ata_rent_funder := Some ''payer''\<rparr>]"
  "sess_faults sample_deposited = []" "sess_clock sample_deposited = 1000"
  by code_simp+

lemma sample_confirmed_rows:
  "es_movements sample_confirmed = [advanced sample_confirm 1000 sample_movement]"
  by code_simp

end
