(* ===== verification/Earn_Runs.thy ===== *)
theory Earn_Runs
  imports Earn_Invariants Earn_Samples
begin

text \<open>
  Runs of the Earn ledger: any sequence of calls of its repository, each with its own connection faults, while
  time passes, other services change the tables they own and projects are deleted. What the invariants of \<^verbatim>\<open>Earn_Invariants\<close>
  mean for every state such a run reaches, the idempotency of the intents, and the fairness of the
  reconciliation queue.
\<close>

section \<open>Runs\<close>

text \<open>A change outside the ledger: the clock, the faults to come, the source of ids, the tables of other services, and
  the transactions on the wire.\<close>

definition elsewhere :: "earn_session \<Rightarrow> earn_session \<Rightarrow> bool" where
  "elsewhere s s' \<longleftrightarrow> es_positions s' = es_positions s \<and> es_movements s' = es_movements s"

inductive earn_step :: "earn_session \<Rightarrow> earn_session \<Rightarrow> bool" where
  deposit: "earn_step s (snd (createSignedVaultDepositIntent di s))"
| withdrawal: "earn_step s (snd (createSignedVaultWithdrawalIntent wi s))"
| advance: "earn_step s (snd (advanceVaultMovement ai s))"
| claim: "earn_step s (snd (claimUnsettledVaultMovements limit s))"
| mint: "earn_step s (snd (mintEarnPositionForProviderWallet w s))"
| custodial: "earn_step s (snd (createCustodialMovement ci s))"
| observe: "earn_step s (snd (updateCustodialMovementGuarded ui s))"
| orphan: "earn_step s (project_deleted projectId s)"
| other: "elsewhere s s' \<Longrightarrow> earn_step s s'"

inductive_cases earn_stepE: "earn_step s s'"

lemma mintEarnPositionForProviderWallet_keeps: "stays earn_keeps (mintEarnPositionForProviderWallet w)"
  unfolding mintEarnPositionForProviderWallet_def generateEarnPositionId_def
  by (intro earn.stays_intros insert_minted_keeps)

lemmas earn_operations_keep = createSignedVaultDepositIntent_keeps createSignedVaultWithdrawalIntent_keeps
  advanceVaultMovement_keeps claimUnsettledVaultMovements_keeps mintEarnPositionForProviderWallet_keeps
  createCustodialMovement_keeps updateCustodialMovementGuarded_keeps

lemma earn_step_keeps:
  assumes "earn_step s s'"
  shows "earn_keeps s s'"
  using assms
proof cases
  case other
  then show ?thesis
    by (simp add: elsewhere_def earn_keeps_def ledger_ok_def rows_ok_def funders_ok_def activations_ok_def history_more)
qed (simp_all add: earn_operations_keep[THEN staysD] project_deleted_keeps)

lemma earn_run_keeps: "earn_step\<^sup>*\<^sup>* s s' \<Longrightarrow> earn_keeps s s'"
proof (induction rule: rtranclp_induct)
  case base
  show ?case by (rule earn.refl)
next
  case (step u v)
  then show ?case using earn_step_keeps earn.trans by blast
qed

definition empty_ledger :: "earn_session \<Rightarrow> bool" where
  "empty_ledger s \<longleftrightarrow> es_positions s = [] \<and> es_movements s = []"

inductive reachable :: "earn_session \<Rightarrow> bool" where
  start: "empty_ledger s \<Longrightarrow> reachable s"
| step: "reachable s \<Longrightarrow> earn_step s s' \<Longrightarrow> reachable s'"

lemma reachable_run: "earn_step\<^sup>*\<^sup>* s s' \<Longrightarrow> reachable s \<Longrightarrow> reachable s'"
  by (induction rule: rtranclp_induct) (auto intro: reachable.step)

lemma reachable_ok: "reachable s \<Longrightarrow> ledger_ok s"
proof (induction rule: reachable.induct)
  case (start s)
  then show ?case
    by (simp add: empty_ledger_def ledger_ok_def rows_ok_def funders_ok_def activations_ok_def positions_wf_def movements_wf_def
        positions_unique_def movements_unique_def distinct_keys_def map_filter_simps)
next
  case (step s s')
  then show ?case using earn_step_keeps by (simp add: earn_keeps_def)
qed

lemma sample_reachable: "reachable sample_session" "reachable sample_deposited" "reachable sample_confirmed"
proof -
  show start: "reachable sample_session" by (rule reachable.start) (simp add: empty_ledger_def sample_session_def)
  show "reachable sample_deposited"
    unfolding sample_deposited_def by (rule reachable.step[OF start]) (rule earn_step.deposit)
  then show "reachable sample_confirmed"
    unfolding sample_confirmed_def by (rule reachable.step) (rule earn_step.advance)
qed

section \<open>What runs keep\<close>

lemma movement_later:
  assumes "reachable s" "earn_step\<^sup>*\<^sup>* s s'" "m \<in> set (es_movements s)"
  obtains m' where "m' \<in> set (es_movements s')" "mv_later m m'" "mv_identity m' = mv_identity m"
proof -
  have "history s s'" using earn_run_keeps[OF assms(2)] reachable_ok[OF assms(1)] by (simp add: earn_keeps_def)
  then show thesis using that assms(3) by (auto simp: history_def mv_later_def)
qed

text \<open>C17. The history of a movement. Whatever is called afterwards, in whatever order and however it is cut short, a recorded
  movement stays in the ledger with the same identity (its tenant, position, wallet, amount, signature, signed
  bytes, idempotency key and rent claim) and its project, unless the project is deleted; a terminal status is never left; a vault movement that the chain
  confirmed is only ever finalized, and the instants and amounts observed for a vault movement are never overwritten.\<close>

theorem movement_history:
  assumes "reachable s" and "earn_step\<^sup>*\<^sup>* s s'" and "m \<in> set (es_movements s)"
  shows "\<exists>m'\<in>set (es_movements s'). mv_identity m' = mv_identity m \<and>
    (em_project_id m' = em_project_id m \<or> em_project_id m' = None) \<and>
    (isTerminalEarnMovementStatus (em_execution_model m) (em_status m) \<longrightarrow> em_status m' = em_status m) \<and>
    (em_execution_model m = VaultDirect \<longrightarrow> mv_observed m m' \<and>
      (em_status m = MvConfirmed \<longrightarrow> em_status m' \<in> {MvConfirmed, MvFinalized}))"
proof -
  obtain m' where m': "m' \<in> set (es_movements s')" "mv_later m m'" using movement_later[OF assms] by blast
  then show ?thesis
    using terminal_final[of "em_execution_model m"] confirmed_forward unfolding mv_later_def mv_project_def by metis
qed

text \<open>A confirmed movement, and an attempt to fail it.\<close>

theorem movement_history_witness:
  "\<exists>m'\<in>set (es_movements (snd (advanceVaultMovement sample_fail sample_confirmed))).
     mv_identity m' = mv_identity sample_movement \<and> em_confirmed_at m' = Some 1005 \<and> em_status m' \<in> {MvConfirmed, MvFinalized}"
proof -
  let ?m = "advanced sample_confirm 1000 sample_movement"
  have m: "?m \<in> set (es_movements sample_confirmed)" by (simp add: sample_confirmed_rows)
  have "earn_step\<^sup>*\<^sup>* sample_confirmed (snd (advanceVaultMovement sample_fail sample_confirmed))"
    by (rule r_into_rtranclp) (rule earn_step.advance)
  note later = movement_history[OF sample_reachable(3) this m]
  have "mv_identity ?m = mv_identity sample_movement" "em_execution_model ?m = VaultDirect" "em_confirmed_at ?m = Some 1005"
    "em_status ?m = MvConfirmed" by code_simp+
  then show ?thesis using later by (auto simp: mv_observed_def kept_value_def)
qed

text \<open>C29. The rent funder of a position refines the ledger of movements. On every state a run reaches, the
  \<^verbatim>\<open>share_ata_rent_funder\<close> column of a position is the funder named by the newest of its movements that claim to have
  created the share account and have not failed, and is empty when there is none: the projection is
  never stale, even though intents and failures write it in separate statements.\<close>

theorem rent_funder_projected:
  assumes "reachable s" and "p \<in> set (es_positions s)"
  shows "ep_share_ata_rent_funder p = projected_funder (es_movements s) (ep_id p)"
  using reachable_ok[OF assms(1)] assms(2) by (simp add: ledger_ok_def funders_ok_def)

theorem rent_funder_projected_witness:
  "ep_share_ata_rent_funder (sample_position\<lparr>ep_share_ata_rent_funder := Some ''payer''\<rparr>) = projected_funder [sample_movement] ''earn_position_''"
  using rent_funder_projected[OF sample_reachable(2), of "sample_position\<lparr>ep_share_ata_rent_funder := Some ''payer''\<rparr>"]
  by (simp add: sample_deposited_rows sample_position_def claimed_position_def)

text \<open>An activated vault position has a movement that is live: requested, submitted, confirmed or finalized. A failed
  first deposit therefore never leaves an active holding behind.\<close>

theorem active_position_has_live_movement:
  assumes "reachable s" and "p \<in> set (es_positions s)" and "ep_kind p = VaultDirect" and "ep_activated_at p \<noteq> None"
  shows "\<exists>m\<in>set (es_movements s). em_position_id m = ep_id p \<and>
    em_status m \<in> {MvRequested, MvSubmitted, MvConfirmed, MvFinalized}"
  using reachable_ok[OF assms(1)] assms(2-4)
  by (auto simp: ledger_ok_def activations_ok_def has_live_movement_def list_ex_iff live_statuses_def)

theorem active_position_has_live_movement_witness:
  "\<exists>m\<in>set [sample_movement]. em_position_id m = ''earn_position_'' \<and> em_status m \<in> {MvRequested, MvSubmitted, MvConfirmed, MvFinalized}"
  using active_position_has_live_movement[OF sample_reachable(2), of "sample_position\<lparr>ep_share_ata_rent_funder := Some ''payer''\<rparr>"]
  by (simp add: sample_deposited_rows sample_position_def claimed_position_def)

section \<open>Idempotency\<close>

lemma rollback_self [simp]: "rollback s s = s"
  by (cases s) (simp add: rollback_def)

lemma transaction_clear:
  assumes "sess_faults s = []" "m s = (r, s)"
  shows "transaction m s = (r, s)"
  using assms by (cases r) (simp_all add: transaction_def sql_def io_return_def)

lemma held_request:
  assumes ok: "ledger_ok s" and m: "m \<in> set (es_movements s)" "em_execution_model m = VaultDirect"
  shows "find (\<lambda>m'. em_organization_id m' = em_organization_id m \<and> em_request_id m' = em_request_id m \<and>
    em_execution_model m' = VaultDirect) (es_movements s) = Some m"
proof (cases "find (\<lambda>m'. em_organization_id m' = em_organization_id m \<and> em_request_id m' = em_request_id m \<and>
    em_execution_model m' = VaultDirect) (es_movements s)")
  case None
  then show ?thesis using m by (auto simp: find_None_iff)
next
  case (Some m')
  then have "m' \<in> set (es_movements s)" "vault_request_key m' = vault_request_key m"
    using find_Some_in[OF Some] m(2) by (auto simp: vault_request_key_def)
  moreover have "distinct_keys vault_request_key (es_movements s)"
    using ok by (simp add: ledger_ok_def rows_ok_def movements_wf_def movements_unique_def)
  ultimately have "m' = m" using m distinct_keys_unique[of vault_request_key _ m' m] by (auto simp: vault_request_key_def)
  then show ?thesis using Some by simp
qed

lemma held_position:
  assumes ok: "ledger_ok s" and m: "m \<in> set (es_movements s)"
  shows "\<exists>p\<in>set (es_positions s). ep_id p = em_position_id m \<and>
    find (\<lambda>p. ep_id p = em_position_id m \<and> ep_organization_id p = em_organization_id m \<and>
      ep_environment p = em_environment m) (es_positions s) = Some p"
proof -
  have "references_position (es_positions s) m"
    using assms by (simp add: ledger_ok_def rows_ok_def movements_wf_def list_all_iff)
  then have "find (\<lambda>p. ep_id p = em_position_id m \<and> ep_organization_id p = em_organization_id m \<and>
      ep_environment p = em_environment m) (es_positions s) \<noteq> None"
    by (auto simp: references_position_def list_ex_iff find_None_iff)
  then show ?thesis using find_Some_in by fastforce
qed

lemma replayed_intent_clear:
  assumes "ledger_ok s" "m \<in> set (es_movements s)" "sess_faults s = []"
  shows "\<exists>p\<in>set (es_positions s). ep_id p = em_position_id m \<and>
    replayed_intent m s = (Inr \<lparr>ir_position = p, ir_movement = m, ir_replayed = True\<rparr>, s)"
  using held_position[OF assms(1,2)] assms(3)
  by (fastforce simp: replayed_intent_def requireMovementPosition_def getPositionById_def sql_def io_get_def io_bind_def io_return_def)

lemma deposit_held:
  assumes ok: "ledger_ok s" "sess_faults s = []" and m: "m \<in> set (es_movements s)" "em_execution_model m = VaultDirect"
    and key: "sdi_organizationId input = em_organization_id m" "sdi_requestId input = em_request_id m"
  shows "createSignedVaultDepositIntent input s = (case assertMovementIsOwnReplay m (sdi_projectId input) (sdi_idempotencyFingerprint input)
    of Inl e \<Rightarrow> (Inl e, s) | Inr _ \<Rightarrow> replayed_intent m s)"
proof -
  have "\<exists>r. replayed_intent m s = (r, s)" using replayed_intent_clear[OF ok(1) m(1) ok(2)] by blast
  then have "\<exists>r. (case assertMovementIsOwnReplay m (sdi_projectId input) (sdi_idempotencyFingerprint input)
    of Inl e \<Rightarrow> (Inl e, s) | Inr _ \<Rightarrow> replayed_intent m s) = (r, s)" by (auto split: sum.split)
  moreover have "io_bind (findVaultMovementByRequest (sdi_organizationId input) (sdi_requestId input)) (\<lambda>prior.
     case prior of Some m \<Rightarrow> own_deposit_replay input m | None \<Rightarrow> open_deposit input) s =
    (case assertMovementIsOwnReplay m (sdi_projectId input) (sdi_idempotencyFingerprint input)
    of Inl e \<Rightarrow> (Inl e, s) | Inr _ \<Rightarrow> replayed_intent m s)"
    using held_request[OF ok(1) m] ok(2) key
    by (simp add: findVaultMovementByRequest_def sql_def io_get_def own_deposit_replay_def io_bind_def io_lift_def split: sum.split)
  ultimately show ?thesis unfolding createSignedVaultDepositIntent_def using transaction_clear[OF ok(2)] by metis
qed

text \<open>What a recorded intent holds.\<close>

definition holds_request :: "string \<Rightarrow> string \<Rightarrow> string \<Rightarrow> EarnMovementRow \<Rightarrow> bool" where
  "holds_request org rid fingerprint m \<longleftrightarrow> em_execution_model m = VaultDirect \<and> em_organization_id m = org \<and>
     em_request_id m = rid \<and> em_idempotency_fingerprint m = fingerprint"

lemma holds_request_later: "mv_identity m' = mv_identity m \<Longrightarrow> holds_request org rid fp m' = holds_request org rid fp m"
  by (simp add: holds_request_def mv_identity_def)

lemma wp_replayed_intent:
  assumes "\<And>e u. only_session s u \<Longrightarrow> Q (Inl e) u"
    and "\<And>p u. only_session s u \<Longrightarrow> Q (Inr \<lparr>ir_position = p, ir_movement = m, ir_replayed = True\<rparr>) u"
  shows "wp (replayed_intent m) Q s"
  unfolding replayed_intent_def
  by (intro wp_bind wp_reads[OF earn_reads_only(4)]) (auto split: sum.split intro!: assms wp_return)

lemma deposit_recorded:
  assumes ok: "ledger_ok s" and run: "createSignedVaultDepositIntent input s = (Inr a, s')"
  shows "ir_movement a \<in> set (es_movements s') \<and>
    em_project_id (ir_movement a) = Some (sdi_projectId input) \<and>
    holds_request (sdi_organizationId input) (sdi_requestId input) (sdi_idempotencyFingerprint input) (ir_movement a)"
proof -
  let ?Q = "\<lambda>r s'. \<forall>a. r = Inr a \<longrightarrow> ir_movement a \<in> set (es_movements s') \<and>
    em_project_id (ir_movement a) = Some (sdi_projectId input) \<and>
    holds_request (sdi_organizationId input) (sdi_requestId input) (sdi_idempotencyFingerprint input) (ir_movement a)"
  have own: "wp (own_deposit_replay input m) ?Q u"
    if m: "m \<in> set (es_movements u)" "em_organization_id m = sdi_organizationId input \<and> em_request_id m = sdi_requestId input \<and>
      em_execution_model m = VaultDirect" for m u
    unfolding own_deposit_replay_def
  proof (intro wp_bind wp_lift result_case_I wp_replayed_intent, goal_cases)
    case (3 a p v)
    have "es_movements v = es_movements u" using only_session_ledger[OF 3(2)] by (simp add: same_ledger_def)
    then show ?case using m 3(1) by (auto simp: holds_request_def assertMovementIsOwnReplay_def split: if_splits)
  qed simp_all
  have opened: "wp (open_deposit input) ?Q u"
    if u: "ledger_ok u" "find (\<lambda>m. em_organization_id m = sdi_organizationId input \<and> em_request_id m = sdi_requestId input \<and>
      em_execution_model m = VaultDirect) (es_movements u) = None" for u
    by (rule wp_mono[OF open_deposit_keeps[OF u(1) no_vault_request[OF u(2)]]])
      (auto simp: holds_request_def deposit_row_def)
  have "wp (createSignedVaultDepositIntent input) ?Q s"
    unfolding createSignedVaultDepositIntent_def
  proof (intro wp_transaction wp_bind wp_find_request, goal_cases)
    case (2 s1)
    have s1: "ledger_ok s1" "es_movements s1 = es_movements s"
      using ok same_ledger_ok(4)[OF only_session_ledger[OF 2]] only_session_ledger[OF 2] by (simp_all add: same_ledger_def)
    have "wp (case find (\<lambda>m. em_organization_id m = sdi_organizationId input \<and> em_request_id m = sdi_requestId input \<and>
        em_execution_model m = VaultDirect) (es_movements s) of None \<Rightarrow> open_deposit input
      | Some m \<Rightarrow> own_deposit_replay input m) ?Q s1"
      by (intro wp_option opened own s1) (auto simp: s1(2) dest: find_Some_in)
    then show ?case by (auto elim!: wp_mono split: sum.split)
  qed simp_all
  then show ?thesis using run by (simp add: wp_def)
qed

text \<open>A deposit is recorded once. After \<^verbatim>\<open>createSignedVaultDepositIntent\<close> returned, whatever the ledger goes through
  afterwards, the movement it recorded is still there and holds the key: a repetition of the request (the same
  project and fingerprint, whatever bytes were signed this time) returns that movement, marked as replayed, and
  changes nothing; the same key with another project or fingerprint is a conflict, and changes nothing either. Only the
  deletion of its project turns a repetition into a conflict.\<close>

theorem deposit_retry_replays:
  assumes "reachable s" and "createSignedVaultDepositIntent input s = (Inr first, s1)" and "earn_step\<^sup>*\<^sup>* s1 s2"
    and "sess_faults s2 = []"
    and "sdi_organizationId retry = sdi_organizationId input" and "sdi_requestId retry = sdi_requestId input"
  shows "\<exists>m\<in>set (es_movements s2). mv_identity m = mv_identity (ir_movement first) \<and>
    em_project_id m \<in> {Some (sdi_projectId input), None} \<and>
    (if em_project_id m = Some (sdi_projectId retry) \<and> sdi_idempotencyFingerprint retry = sdi_idempotencyFingerprint input
     then \<exists>p. createSignedVaultDepositIntent retry s2 = (Inr \<lparr>ir_position = p, ir_movement = m, ir_replayed = True\<rparr>, s2)
     else createSignedVaultDepositIntent retry s2 = (Inl replay_conflict, s2))"
proof -
  have "earn_step s s1" using earn_step.deposit[of s input] assms(2) by simp
  then have s1: "reachable s1" using assms(1) reachable.step by blast
  then have s2: "ledger_ok s2" using reachable_run[OF assms(3)] reachable_ok by blast
  note first = deposit_recorded[OF reachable_ok[OF assms(1)] assms(2)]
  obtain m where m: "m \<in> set (es_movements s2)" "mv_later (ir_movement first) m" "mv_identity m = mv_identity (ir_movement first)"
    using movement_later[OF s1 assms(3)] first by blast
  have "holds_request (sdi_organizationId input) (sdi_requestId input) (sdi_idempotencyFingerprint input) m"
    using first holds_request_later[OF m(3)] by blast
  then have hold: "em_execution_model m = VaultDirect" "sdi_organizationId retry = em_organization_id m"
    "sdi_requestId retry = em_request_id m" "em_idempotency_fingerprint m = sdi_idempotencyFingerprint input"
    using assms(5,6) by (simp_all add: holds_request_def)
  have project: "em_project_id m \<in> {Some (sdi_projectId input), None}"
    using m(2) first by (auto simp: mv_later_def mv_project_def)
  obtain p where p: "replayed_intent m s2 = (Inr \<lparr>ir_position = p, ir_movement = m, ir_replayed = True\<rparr>, s2)"
    using replayed_intent_clear[OF s2 m(1) assms(4)] by blast
  show ?thesis
    using deposit_held[OF s2 assms(4) m(1) hold(1-3)] hold(4) m(1,3) p project
    by (intro bexI[of _ m]) (auto simp: assertMovementIsOwnReplay_def)
qed

text \<open>The same deposit asked for again with other bytes, and the same key for another amount.\<close>

theorem deposit_retry_replays_witness:
  "(\<exists>p. createSignedVaultDepositIntent (sample_deposit\<lparr>sdi_signature := ''sig2''\<rparr>) sample_deposited =
      (Inr \<lparr>ir_position = p, ir_movement = sample_movement, ir_replayed = True\<rparr>, sample_deposited)) \<and>
   createSignedVaultDepositIntent (sample_deposit\<lparr>sdi_idempotencyFingerprint := ''other''\<rparr>) sample_deposited =
     (Inl replay_conflict, sample_deposited)"
proof -
  have run: "createSignedVaultDepositIntent sample_deposit sample_session =
      (Inr \<lparr>ir_position = sample_position, ir_movement = sample_movement, ir_replayed = False\<rparr>, sample_deposited)"
    by (simp add: prod_eq_iff sample_deposit_result sample_deposited_def)
  note replays = deposit_retry_replays[OF sample_reachable(1) run rtranclp.rtrancl_refl sample_deposited_rows(3)]
  have "em_project_id sample_movement = Some ''prj''" by code_simp
  then show ?thesis
    using replays[of "sample_deposit\<lparr>sdi_signature := ''sig2''\<rparr>"] replays[of "sample_deposit\<lparr>sdi_idempotencyFingerprint := ''other''\<rparr>"]
    by (simp add: sample_deposit_def sample_deposited_rows(1))
qed

end
