(* ===== verification/Earn_Queue.thy ===== *)
theory Earn_Queue
  imports Earn_Runs
begin

text \<open>
  The reconciliation queue of the Earn ledger: what a batch of \<^verbatim>\<open>claimUnsettledVaultMovements\<close> contains. The
  batch is as large as the work allows, keeps a share for each kind of work, and takes what has waited
  longest within each share.
\<close>

section \<open>Choosing rows by key\<close>

lemma distinct_map_subset:
  assumes "distinct (map f xs)" "distinct (map f ys)" "set ys \<subseteq> set xs"
  shows "length (filter (\<lambda>x. f x \<in> f ` set ys) xs) = length ys"
proof -
  have inj: "inj_on f (set xs)" using assms(1) by (simp add: distinct_map)
  then have "set (filter (\<lambda>x. f x \<in> f ` set ys) xs) = set ys" using assms(3) by (auto dest: inj_onD)
  moreover have "distinct (filter (\<lambda>x. f x \<in> f ` set ys) xs)" "distinct ys" using assms(1,2) by (simp_all add: distinct_map)
  ultimately show ?thesis by (metis distinct_card)
qed

lemma distinct_length_le: "distinct ys \<Longrightarrow> set ys \<subseteq> set zs \<Longrightarrow> length ys \<le> length zs"
  by (metis card_length card_mono distinct_card finite_set le_trans)

lemma mset_sort_filter: "length (filter P (sort_key k xs)) = length (filter P xs)"
  by (metis filter_sort length_sort)

text \<open>What the first \<open>n\<close> of a sorted list leave out comes no earlier than any of them.\<close>

lemma take_sort_first:
  assumes "m \<in> set xs" "m \<notin> set (take n (sort_key k xs))"
  shows "length (take n (sort_key k xs)) = n" "\<And>y. y \<in> set (take n (sort_key k xs)) \<Longrightarrow> k y \<le> k m"
proof -
  have m: "m \<in> set (drop n (sort_key k xs))"
    using assms by (metis Un_iff append_take_drop_id set_append set_sort)
  then show "length (take n (sort_key k xs)) = n" by (cases "n \<le> length xs") auto
  show "k y \<le> k m" if "y \<in> set (take n (sort_key k xs))" for y
  proof -
    have "sorted (map k (take n (sort_key k xs)) @ map k (drop n (sort_key k xs)))"
      by (metis append_take_drop_id map_append sorted_sort_key)
    then show ?thesis using m that by (auto simp: sorted_append)
  qed
qed

section \<open>The batch\<close>

definition confirmedQuota :: "nat \<Rightarrow> nat" where
  "confirmedQuota limit = (if limit > 1 then max 1 (limit div 4) else 0)"

lemma confirmedQuota_le: "confirmedQuota limit \<le> limit"
  by (auto simp: confirmedQuota_def)

definition blockhash_bound :: "EarnMovementRow \<Rightarrow> bool" where
  "blockhash_bound = unsettled_vault {MvRequested, MvSubmitted}"

definition awaits_finality :: "EarnMovementRow \<Rightarrow> bool" where
  "awaits_finality = unsettled_vault {MvConfirmed}"

definition bound_share where
  "bound_share limit ms = take (limit - confirmedQuota limit) (sort_key attempt_key (filter blockhash_bound ms))"

definition confirmed_share where
  "confirmed_share limit ms = take (confirmedQuota limit) (sort_key attempt_key (filter awaits_finality ms))"

lemma reserved_shares: "reserved_rows limit ms = bound_share limit ms @ confirmed_share limit ms"
  by (simp add: reserved_rows_def bound_share_def confirmed_share_def Let_def confirmedQuota_def blockhash_bound_def awaits_finality_def)

lemma unsettled_parts:
  "unsettled_vault {MvRequested, MvSubmitted, MvConfirmed} m \<longleftrightarrow> blockhash_bound m \<or> awaits_finality m"
  "\<not> (blockhash_bound m \<and> awaits_finality m)"
  by (auto simp: unsettled_vault_def blockhash_bound_def awaits_finality_def)

lemma distinct_shares:
  assumes ids: "distinct (map em_id ms)"
  shows "distinct (map em_id (reserved_rows limit ms))" "set (reserved_rows limit ms) \<subseteq> {m \<in> set ms. blockhash_bound m \<or> awaits_finality m}"
proof -
  have part: "distinct (take n (sort_key attempt_key (filter P ms)))" "set (take n (sort_key attempt_key (filter P ms))) \<subseteq> {m \<in> set ms. P m}" for n P
    using ids set_take_subset[of n "sort_key attempt_key (filter P ms)"] by (auto simp: distinct_map)
  have b: "set (bound_share limit ms) \<subseteq> {m \<in> set ms. blockhash_bound m}" and c: "set (confirmed_share limit ms) \<subseteq> {m \<in> set ms. awaits_finality m}"
    unfolding bound_share_def confirmed_share_def by (rule part(2))+
  show sub: "set (reserved_rows limit ms) \<subseteq> {m \<in> set ms. blockhash_bound m \<or> awaits_finality m}"
    using b c by (auto simp: reserved_shares)
  have "distinct (reserved_rows limit ms)"
    using part(1) b c unsettled_parts(2) unfolding reserved_shares by (fastforce simp: bound_share_def confirmed_share_def)
  then show "distinct (map em_id (reserved_rows limit ms))"
    using sub ids by (auto simp: distinct_map intro: inj_on_subset)
qed

lemma claimed_rows_choice:
  assumes ids: "distinct (map em_id ms)"
  shows "distinct (map em_id (claimed_rows limit ms))" "set (claimed_rows limit ms) \<subseteq> {m \<in> set ms. blockhash_bound m \<or> awaits_finality m}"
    "length (claimed_rows limit ms) = min limit (length (filter (\<lambda>m. blockhash_bound m \<or> awaits_finality m) ms))"
proof -
  let ?u = "\<lambda>m. blockhash_bound m \<or> awaits_finality m"
  let ?r = "reserved_rows limit ms"
  let ?left = "filter (\<lambda>m. unsettled_vault {MvRequested, MvSubmitted, MvConfirmed} m \<and> em_id m \<notin> em_id ` set ?r) ms"
  note r = distinct_shares[OF ids, of limit]
  have over: "set (overflow_rows limit ms) \<subseteq> set ?left" "distinct (overflow_rows limit ms)"
    "length (overflow_rows limit ms) = min (limit - length ?r) (length ?left)"
    using ids set_take_subset[of _ "sort_key (\<lambda>m. (em_status m = MvConfirmed, attempt_key m)) ?left"]
    by (auto simp: overflow_rows_def Let_def distinct_map min.commute)
  show sub: "set (claimed_rows limit ms) \<subseteq> {m \<in> set ms. ?u m}"
    using r(2) over(1) unsettled_parts(1) by (fastforce simp: claimed_rows_def)
  have "distinct (claimed_rows limit ms)" using r over by (force simp: claimed_rows_def distinct_map)
  then show "distinct (map em_id (claimed_rows limit ms))"
    using sub ids by (auto simp: distinct_map intro: inj_on_subset)
  have chosen: "length (filter (\<lambda>m. em_id m \<in> em_id ` set ?r) (filter ?u ms)) = length ?r"
    by (rule distinct_map_subset) (use ids r in \<open>auto simp: distinct_map intro: inj_on_subset\<close>)
  have rest: "?left = filter (\<lambda>m. em_id m \<notin> em_id ` set ?r) (filter ?u ms)"
    by (simp add: unsettled_parts(1) conj_commute)
  have left: "length ?left + length ?r = length (filter ?u ms)"
    using sum_length_filter_compl[of "\<lambda>m. em_id m \<in> em_id ` set ?r" "filter ?u ms"] unfolding chosen rest by linarith
  have "length ?r \<le> limit"
    using confirmedQuota_le[of limit] by (simp add: reserved_shares bound_share_def confirmed_share_def)
  then show "length (claimed_rows limit ms) = min limit (length (filter ?u ms))"
    using left over(3) by (simp add: claimed_rows_def)
qed

text \<open>Marking the attempt violates no constraint.\<close>

lemma attempted_simps [simp]:
  "em_id (attempted t m) = em_id m" "em_status (attempted t m) = em_status m" "em_execution_model (attempted t m) = em_execution_model m"
  "references_position ps (attempted t m) = references_position ps m"
  "blockhash_bound (attempted t m) = blockhash_bound m" "awaits_finality (attempted t m) = awaits_finality m"
  by (simp_all add: attempted_def references_position_def blockhash_bound_def awaits_finality_def unsettled_vault_def)

lemma attempted_checks [simp]: "movement_checks (attempted t m) = movement_checks m"
proof -
  have "model_shape (attempted t m) = model_shape m" "vault_metadata (attempted t m) = vault_metadata m"
    by (cases "em_execution_model m"; simp add: model_shape_def vault_metadata_def attempted_def)+
  moreover have "em_amount_requested (attempted t m) = em_amount_requested m" "em_amount_settled (attempted t m) = em_amount_settled m"
    "em_fee_amount (attempted t m) = em_fee_amount m" "em_shares_out (attempted t m) = em_shares_out m"
    "em_last_valid_block_height (attempted t m) = em_last_valid_block_height m"
    "em_share_ata_rent_funder (attempted t m) = em_share_ata_rent_funder m"
    "em_creates_share_account (attempted t m) = em_creates_share_account m" "em_denomination (attempted t m) = em_denomination m"
    by (simp_all add: attempted_def)
  ultimately show ?thesis unfolding movement_checks_def by (cases "em_shares_out m") simp_all
qed

lemma attempted_wf:
  assumes "movements_wf ps ms"
  shows "movements_wf ps (table_update M (attempted t) ms)"
proof -
  have "vault_request_key (attempted t m) = vault_request_key m" "custodial_request_key (attempted t m) = custodial_request_key m"
    "provider_reference_key (attempted t m) = provider_reference_key m" "em_signature (attempted t m) = em_signature m" for m
    by (simp_all add: attempted_def vault_request_key_def custodial_request_key_def provider_reference_key_def)
  then show ?thesis by (intro movements_wf_update[OF assms]) simp_all
qed

text \<open>A row that is left out of the batch leaves its share full of rows that have waited at least as long.\<close>

lemma share_full:
  assumes ids: "distinct (map em_id ms)" and m: "m \<in> set ms" "P m" "em_id m \<notin> claimed"
    and share: "em_id ` set (take n (sort_key attempt_key (filter P ms))) \<subseteq> claimed"
  shows "n \<le> length (filter (\<lambda>m'. P m' \<and> em_id m' \<in> claimed \<and> attempt_key m' \<le> attempt_key m) ms)"
proof -
  let ?t = "take n (sort_key attempt_key (filter P ms))"
  have "m \<notin> set ?t" using m(3) share by blast
  note first = take_sort_first[OF _ this, simplified, OF conjI[OF m(1,2)]]
  have "distinct ?t" using ids by (auto simp: distinct_map)
  moreover have "set ?t \<subseteq> set (filter (\<lambda>m'. P m' \<and> em_id m' \<in> claimed \<and> attempt_key m' \<le> attempt_key m) ms)"
  proof
    fix y assume y: "y \<in> set ?t"
    then have "y \<in> set (filter P ms)" by (metis in_set_takeD set_sort)
    moreover have "attempt_key y \<le> attempt_key m" using first(2) y by simp
    ultimately show "y \<in> set (filter (\<lambda>m'. P m' \<and> em_id m' \<in> claimed \<and> attempt_key m' \<le> attempt_key m) ms)"
      using share y by auto
  qed
  ultimately have "length ?t \<le> length (filter (\<lambda>m'. P m' \<and> em_id m' \<in> claimed \<and> attempt_key m' \<le> attempt_key m) ms)"
    by (rule distinct_length_le)
  then show ?thesis using first(1) by simp
qed

lemma claim_clear:
  assumes "ledger_ok s" "sess_faults s = []" "1 \<le> limit" "limit \<le> 256"
  defines "claimed \<equiv> em_id ` set (claimed_rows (nat limit) (es_movements s))"
  defines "touched \<equiv> table_update (\<lambda>m. em_id m \<in> claimed) (attempted (sess_clock s)) (es_movements s)"
  shows "claimUnsettledVaultMovements limit s =
    (Inr (sort_key (\<lambda>m. (em_status m = MvConfirmed, em_created_at m, em_id m)) (filter (\<lambda>m. em_id m \<in> claimed) touched)),
      s\<lparr>es_movements := touched\<rparr>)"
proof -
  have "movements_wf (es_positions s) touched"
    unfolding touched_def by (rule attempted_wf) (use assms(1) in \<open>simp add: ledger_ok_def rows_ok_def\<close>)
  then show ?thesis
    using assms by (auto simp: claimUnsettledVaultMovements_def Let_def sql_def io_bind_def io_return_def put_movements_def movements_wf_def)
qed

lemma filter_touched:
  assumes "\<And>m. P (attempted t m) = P m"
  shows "filter P (table_update P (attempted t) ms) = map (attempted t) (filter P ms)"
  by (induction ms) (auto simp: table_update_def assms)



end
