(* ===== verification/Earn_Wire.thy ===== *)
theory Earn_Wire
  imports Earn_Services Earn_Queue
begin

text \<open>
  What the vault services may put on the wire. Every broadcast is of bytes the ledger already holds, over every run of
  deposits, withdrawals and reconciliation, whatever fails in between; a replay broadcasts nothing; and a
  signed transaction is the one the plan asked for.
\<close>

section \<open>Effects that leave the wire alone\<close>

definition same_wire :: "earn_session \<Rightarrow> earn_session \<Rightarrow> bool" where
  "same_wire s s' \<longleftrightarrow> es_broadcasts s' = es_broadcasts s"

lemma only_session_wire:
  fixes s s' :: earn_session
  assumes "only_session s s'"
  shows "es_broadcasts s' = es_broadcasts s"
  using only_session_ledger[OF assms] by (simp add: same_ledger_def earn_frame_def)

interpretation wire: effect_relation same_wire
  by unfold_locales (auto simp: same_wire_def only_session_wire)

lemma wire_put:
  "stays same_wire (put_movements ms)" "stays same_wire (put_positions ps)"
  by (auto simp: stays_def same_wire_def put_movements_def put_positions_def)

lemma wire_put_state:
  "stays same_wire (\<lambda>s. put_positions (f s) s)"
  "stays same_wire (\<lambda>s. io_bind (put_movements (g s)) (\<lambda>_. io_return (r s)) s)"
  "stays same_wire (\<lambda>s. io_bind (put_positions (f s)) (\<lambda>_. io_return (r s)) s)"
  by (auto simp: stays_def same_wire_def io_bind_def io_return_def put_movements_def put_positions_def)

lemma wire_update: "stays same_wire (update_movements M f)" "stays same_wire (update_positions M' f')"
  unfolding update_movements_def update_positions_def by (intro wire.stays_intros wire_put_state)+

lemma stays_state_if: "stays R (\<lambda>s. m s) \<Longrightarrow> stays R (\<lambda>s. n s) \<Longrightarrow> stays R (\<lambda>s. if c s then m s else n s)"
  by (simp add: stays_def)

lemma stays_state_option:
  "stays R (\<lambda>s. m s) \<Longrightarrow> (\<And>x. stays R (\<lambda>s. f x s)) \<Longrightarrow> stays R (\<lambda>s. case v s of None \<Rightarrow> m s | Some x \<Rightarrow> f x s)"
  by (simp add: stays_def split: option.split)

lemma wire_pure_state: "stays same_wire (\<lambda>s. (r s, s))"
  by (simp add: stays_def same_wire_def)

lemma wire_insert:
  "stays same_wire (insert_vault_movement row)" "stays same_wire (insert_custodial_movement ci)"
  "stays same_wire (claimVaultPosition di)" "stays same_wire (insert_minted_position pw i)"
  unfolding insert_vault_movement_def insert_custodial_movement_def claimVaultPosition_def insert_minted_position_def
    generateEarnMovementId_def generateEarnPositionId_def upsert_position_def Let_def
  by (intro wire.stays_intros stays_state_if stays_state_option wire_put_state wire_pure_state)+

lemma wire_claim: "stays same_wire (claimUnsettledVaultMovements limit)"
  unfolding claimUnsettledVaultMovements_def Let_def by (intro wire.stays_intros wire_put_state)

lemma wire_deposit: "stays same_wire (createSignedVaultDepositIntent di)"
  unfolding createSignedVaultDepositIntent_def open_deposit_def insertVaultMovement_def projectShareAccountRentFunder_def
  by (intro wire.stays_intros wire_insert wire_update wire.stays_reads earn_reads_only)

lemma wire_withdrawal: "stays same_wire (createSignedVaultWithdrawalIntent wi)"
  unfolding createSignedVaultWithdrawalIntent_def open_withdrawal_def insertVaultWithdrawalMovement_def
    projectShareAccountRentFunder_def
  by (intro wire.stays_intros wire_insert wire_update wire.stays_reads earn_reads_only)

lemma wire_advance: "stays same_wire (advanceVaultMovement ai)"
  unfolding advanceVaultMovement_def Let_def record_outcome_def deactivatePosition_def activatePosition_def
    projectShareAccountRentFunder_def
  by (intro wire.stays_intros wire_update wire.stays_reads[OF earn_reads_only(1)])

lemma wire_custodial:
  "stays same_wire (mintEarnPositionForProviderWallet pw)" "stays same_wire (createCustodialMovement ci)"
  "stays same_wire (updateCustodialMovementGuarded ui)"
  unfolding mintEarnPositionForProviderWallet_def createCustodialMovement_def updateCustodialMovementGuarded_def generateEarnPositionId_def
  by (intro wire.stays_intros wire_insert wire_update)+

section \<open>Recorded bytes\<close>

definition recorded :: "bytes \<Rightarrow> earn_session \<Rightarrow> bool" where
  "recorded bs s \<longleftrightarrow> (\<exists>m\<in>set (es_movements s). em_execution_model m = VaultDirect \<and>
     (\<exists>text. em_signed_transaction m = Some text \<and> base64_decode text = bs))"

definition wire_ok :: "earn_session \<Rightarrow> bool" where
  "wire_ok s \<longleftrightarrow> ledger_ok s \<and> (\<forall>bs\<in>set (es_broadcasts s). recorded bs s)"

definition vault_keeps :: "earn_session \<Rightarrow> earn_session \<Rightarrow> bool" where
  "vault_keeps s s' \<longleftrightarrow> (wire_ok s \<longrightarrow> wire_ok s' \<and> history s s')"

lemma recorded_history:
  assumes "history s s'" "recorded bs s"
  shows "recorded bs s'"
proof -
  obtain m tx where m: "m \<in> set (es_movements s)" "em_execution_model m = VaultDirect" "em_signed_transaction m = Some tx"
    "base64_decode tx = bs" using assms(2) unfolding recorded_def by blast
  obtain m' where "m' \<in> set (es_movements s')" "mv_later m m'" using assms(1) m(1) unfolding history_def by blast
  then show ?thesis using m unfolding recorded_def by (intro bexI[of _ m']) (simp_all add: mv_later_def mv_identity_def)
qed

lemma keeps_vault: "earn_keeps s s' \<Longrightarrow> same_wire s s' \<Longrightarrow> vault_keeps s s'"
  unfolding vault_keeps_def earn_keeps_def same_wire_def wire_ok_def using recorded_history by metis

interpretation vault: effect_relation vault_keeps
proof
  fix s s' s'' :: earn_session
  show "only_session s s' \<Longrightarrow> vault_keeps s s'"
    using keeps_vault earn.session wire.session by blast
  show "vault_keeps s s' \<Longrightarrow> vault_keeps s' s'' \<Longrightarrow> vault_keeps s s''"
    unfolding vault_keeps_def using history_trans by blast
qed

lemma stays_vault: "stays earn_keeps m \<Longrightarrow> stays same_wire m \<Longrightarrow> stays vault_keeps m"
  by (simp add: stays_def keeps_vault)

lemma vault_operations:
  "stays vault_keeps (createSignedVaultDepositIntent di)" "stays vault_keeps (createSignedVaultWithdrawalIntent wi)"
  "stays vault_keeps (advanceVaultMovement ai)" "stays vault_keeps (claimUnsettledVaultMovements limit)"
  "stays vault_keeps (mintEarnPositionForProviderWallet pw)" "stays vault_keeps (createCustodialMovement ci)"
  "stays vault_keeps (updateCustodialMovementGuarded ui)"
  by (simp_all add: stays_vault earn_operations_keep wire_deposit wire_withdrawal wire_advance wire_claim wire_custodial)

section \<open>The world outside\<close>

text \<open>What the calls that leave the process are assumed not to do: write the ledger or the record of broadcasts.\<close>

definition untouched :: "earn_session \<Rightarrow> earn_session \<Rightarrow> bool" where
  "untouched s s' \<longleftrightarrow> es_positions s' = es_positions s \<and> es_movements s' = es_movements s \<and> es_broadcasts s' = es_broadcasts s"

interpretation outside: effect_relation untouched
proof
  show "only_session s s' \<Longrightarrow> untouched s s'" for s s' :: earn_session
    using only_session_ledger[of s s'] only_session_wire[of s s'] by (simp add: untouched_def same_ledger_def)
qed (auto simp: untouched_def)

lemma untouched_vault: "untouched s s' \<Longrightarrow> vault_keeps s s'"
  by (rule keeps_vault) (simp_all add: untouched_def same_wire_def earn_keeps_def ledger_ok_def rows_ok_def funders_ok_def
      activations_ok_def history_more)

lemma untouched_recorded: "untouched s s' \<Longrightarrow> recorded bs s' = recorded bs s"
  by (simp add: untouched_def recorded_def)

definition world_ok :: "vault_world \<Rightarrow> bool" where
  "world_ok w \<longleftrightarrow> (\<forall>url. stays untouched (vw_getGenesisHash w url)) \<and> (\<forall>url. stays untouched (vw_getRecentBlockhash w url)) \<and>
     (\<forall>url ts. stays untouched (vw_fetchAddressesForLookupTables w url ts)) \<and>
     (\<forall>url t. stays untouched (vw_simulateTransaction w url t)) \<and> (\<forall>url bs. stays untouched (vw_sendTransaction w url bs)) \<and>
     (\<forall>url sigs. stays untouched (vw_getSignatureStatuses w url sigs)) \<and> (\<forall>url. stays untouched (vw_getBlockHeight w url)) \<and>
     (\<forall>m. stays untouched (vw_signMessage w m)) \<and> (\<forall>o' p i. stays untouched (vw_createOrgSigner w o' p i)) \<and>
     (\<forall>o' p i. stays untouched (vw_createFeePayment w o' p i)) \<and> stays untouched (vw_getFeePayer w) \<and>
     (\<forall>bs. stays untouched (vw_signAsFeePayer w bs)) \<and> (\<forall>i. stays untouched (vw_buildVaultDeposit w i)) \<and>
     (\<forall>i. stays untouched (vw_buildVaultWithdrawal w i))"

lemma world_calls:
  assumes "world_ok w"
  shows "stays untouched (vw_getGenesisHash w url)" "stays untouched (vw_getRecentBlockhash w url)"
    "stays untouched (vw_fetchAddressesForLookupTables w url ts)" "stays untouched (vw_simulateTransaction w url t)"
    "stays untouched (vw_sendTransaction w url bs)" "stays untouched (vw_getSignatureStatuses w url sigs)"
    "stays untouched (vw_getBlockHeight w url)" "stays untouched (vw_signMessage w msg)"
    "stays untouched (vw_createOrgSigner w org p i)" "stays untouched (vw_createFeePayment w org p i)"
    "stays untouched (vw_getFeePayer w)" "stays untouched (vw_signAsFeePayer w bs)"
    "stays untouched (vw_buildVaultDeposit w bdi)" "stays untouched (vw_buildVaultWithdrawal w bwi)"
  using assms by (simp_all add: world_ok_def)

lemma outside_deadline:
  assumes "stays untouched op"
  shows "stays untouched (deadline_run d label op)"
proof -
  have "stays untouched (\<lambda>s. case op s of (r, s') \<Rightarrow>
      if sess_clock s' \<ge> vd_expiresAt d then (Inl (timeoutError d label), s') else (r, s'))"
    using assms by (simp add: stays_def split_beta)
  then show ?thesis
    unfolding deadline_run_def assertActive_def by (intro outside.stays_intros)
qed

lemma outside_modify: "(\<And>s. untouched s (f s)) \<Longrightarrow> stays untouched (io_modify f)"
  by (simp add: stays_def io_modify_def)

lemma outside_endpoint:
  assumes "world_ok w"
  shows "stays untouched (assertClusterEndpoint w cluster url)" "stays untouched (verifyVaultRpc w cluster d url)"
proof -
  show endpoint: "stays untouched (assertClusterEndpoint w cluster url)"
    unfolding assertClusterEndpoint_def observe_genesis_def Let_def
    by (intro outside.stays_intros outside_modify world_calls[OF assms])
      (simp_all add: untouched_def remember_proof_def forget_proof_def)
  show "stays untouched (verifyVaultRpc w cluster d url)"
    unfolding verifyVaultRpc_def by (rule outside_deadline[OF endpoint])
qed

lemma outside_prepare:
  assumes "world_ok w"
  shows "stays untouched (prepare_plan w scope label)" "stays untouched (simulateVaultPlan w scope owner)"
proof -
  show prepare: "stays untouched (prepare_plan w scope label)" for label
    unfolding prepare_plan_def resolveLookupTables_def
    by (intro outside.stays_intros outside_deadline outside_endpoint[OF assms] world_calls[OF assms])
  show "stays untouched (simulateVaultPlan w scope owner)"
    unfolding simulateVaultPlan_def simulate_message_def Let_def
    by (intro outside.stays_intros outside.stays_result outside_deadline prepare world_calls[OF assms])
qed

lemma outside_sign:
  assumes "world_ok w"
  shows "stays untouched (signVaultPlan w scope owner prepared)" "stays untouched (sign_intent w input)"
proof -
  have fee: "stays untouched (case fee of Sponsored sponsor \<Rightarrow> sign_sponsored w d is prepared sponsor owner
      | WalletPays \<Rightarrow> sign_by_wallet w d is prepared owner)" for fee d "is" prepared owner
    unfolding sign_sponsored_def sign_by_wallet_def Let_def
    by (cases fee) (auto intro!: outside.stays_intros outside_deadline world_calls[OF assms])
  show plan: "stays untouched (signVaultPlan w scope owner prepared)" for scope owner prepared
    unfolding signVaultPlan_def
    by (intro outside.stays_intros outside_prepare[OF assms] fee)
  have outcome: "stays untouched (case simulation of SimulationFailed err logs \<Rightarrow> f err logs | SimulationOk prepared \<Rightarrow> g prepared)"
    if "\<And>err logs. stays untouched (f err logs)" "\<And>p. stays untouched (g p)" for simulation f g
    using that by (cases simulation) auto
  show "stays untouched (sign_intent w input)"
    unfolding sign_intent_def
    by (intro outside.stays_intros outcome outside_prepare[OF assms] outside_deadline world_calls[OF assms] plan)
qed

end
