(* ===== verification/Earn_World.thy ===== *)
theory Earn_World
  imports Earn_Services Earn_Samples
begin

text \<open>
  A small outside world the theorems about the vault services are applied to: a devnet endpoint, a vault that accepts
  every amount, a custody signer and a paymaster that sign whatever they are given, and a chain that answers the same
  status for every signature.
\<close>

definition sample_plan :: EarnVaultTransactionPlan where
  "sample_plan = \<lparr>evp_cluster = Devnet, evp_instructions = [], evp_lookupTables = [],
     evp_assetIdentity = \<lparr>eva_depositTokenMint = ''usdc'', eva_shareMint = ''shr''\<rparr>,
     evp_accepted = Some \<lparr>evc_amount = Some ''5'', evc_minSharesOut = None, evc_shares = Some ''5''\<rparr>, evp_createsShareAccount = False\<rparr>"

definition sample_transaction :: "bytes \<Rightarrow> kit_transaction" where
  "sample_transaction bs = \<lparr>kt_messageBytes = bs, kt_signatures = [(''payer'', Some [1]), (''src'', Some [2])]\<rparr>"

definition sample_world :: "string option \<Rightarrow> SignatureStatusInfo option \<Rightarrow> vault_world" where
  "sample_world sponsorship status =
     \<lparr>vw_env = \<lparr>ve_SOLANA_DEVNET_RPC_URL = Some ''rpc'', ve_SOLANA_MAINNET_RPC_URL = None, ve_SOLANA_NETWORK = None,
        ve_default_rpc_url = None, ve_EARN_VAULT_FEE_SPONSORSHIP_ENABLED = sponsorship\<rparr>,
      vw_collate = map of_char,
      vw_getGenesisHash = (\<lambda>url. io_return (GENESIS_HASH_BY_CLUSTER Devnet)),
      vw_getRecentBlockhash = (\<lambda>url. io_return (''hash'', 100)),
      vw_fetchAddressesForLookupTables = (\<lambda>url ts. io_return []),
      vw_simulateTransaction = (\<lambda>url t. io_return \<lparr>sv_err = None, sv_logs = []\<rparr>),
      vw_sendTransaction = (\<lambda>url bs. io_return ()),
      vw_getSignatureStatuses = (\<lambda>url sigs. io_return (map (\<lambda>_. status) sigs)),
      vw_getBlockHeight = (\<lambda>url. io_return 50),
      vw_signMessage = (\<lambda>m. io_return (sample_transaction [3, 4])),
      vw_encode = kt_messageBytes,
      vw_decode = (\<lambda>bs. Inr (sample_transaction bs)),
      vw_getSignatureFromTransaction = (\<lambda>t. Inr ''sig''),
      vw_createOrgSigner = (\<lambda>org p i. io_return ''src''),
      vw_createFeePayment = (\<lambda>org p i. io_return ()),
      vw_getFeePayer = io_return ''payer'',
      vw_signAsFeePayer = io_return,
      vw_supportsVaultDirect = (\<lambda>p. True),
      vw_supportsVaultWithdraw = (\<lambda>p. True),
      vw_buildVaultDeposit = (\<lambda>i. io_return (Inr sample_plan)),
      vw_buildVaultWithdrawal = (\<lambda>i. io_return (Inr sample_plan))\<rparr>"

definition sample_request :: VaultDepositInput where
  "sample_request = \<lparr>vdp_organizationId = ''org'', vdp_projectId = ''prj'', vdp_environment = EnvSandbox, vdp_provider = ''kamino'',
     vdp_providerReference = ''vault'', vdp_wallet = \<lparr>vwl_id = ''wal'', vwl_publicKey = ''src''\<rparr>, vdp_tokenMint = ''usdc'',
     vdp_shareMint = ''shr'', vdp_label = ''L'', vdp_amount = ''5'', vdp_requestId = ''req'', vdp_userId = None,
     vdp_apiKeyId = None, vdp_minSharesOut = None\<rparr>"

definition sample_sent :: "string option \<Rightarrow> earn_session" where
  "sample_sent sponsorship = snd (depositIntoVault (sample_world sponsorship None) sample_request (\<lambda>m. m) sample_session)"

text \<open>What the theorems need of the state after it, evaluated at once.\<close>

definition sample_row where
  "sample_row m = (em_id m, em_status m, em_signed_transaction m, em_organization_id m, em_request_id m, em_project_id m,
     em_execution_model m, em_environment m)"

definition sample_view where
  "sample_view s = (es_broadcasts s, map sample_row (es_movements s), map em_idempotency_fingerprint (es_movements s), sess_faults s)"

lemma sample_sent_view:
  "sample_view (sample_sent None) =
     ([[3, 4]], [(''earn_movement_u'', MvSubmitted, Some ''AwQ='', ''org'', ''req'', Some ''prj'', VaultDirect, EnvSandbox)],
      [deposit_fingerprint (sample_world None None) sample_request], [])"
  by code_simp

end
