(* ===== verification/Earn_Safety.thy ===== *)
theory Earn_Safety
  imports Earn_Wire Earn_World
begin

text \<open>
  The safety of the vault services. Over every run of deposits, withdrawals, reconciliation and the other operations of the
  ledger, whatever fails in between, only recorded bytes reach the wire; a service call puts at most one transaction
  on the wire, and none when it replays; and the reconciliation job moves a movement to an outcome only when the
  chain reported it.
\<close>

section \<open>Broadcasting recorded bytes\<close>

lemma deadline_outcome:
  assumes "\<And>u. untouched s u \<Longrightarrow> R s (snd (op u))" "\<And>u. untouched s u \<Longrightarrow> R s u"
  shows "R s (snd (deadline_run d label op s))"
  using assms(1)[of s] assms(2)[of s] outside.refl[of s]
  by (simp add: deadline_run_def assertActive_def io_bind_def now_def io_get_def io_throw_def io_return_def split_beta)

lemma send_keeps:
  assumes "world_ok w" "recorded bs u"
  shows "vault_keeps u (snd (send_bytes w url bs u))"
proof -
  let ?v = "u\<lparr>es_broadcasts := es_broadcasts u @ [bs]\<rparr>"
  have "vault_keeps u ?v"
    using assms(2) by (auto simp: vault_keeps_def wire_ok_def ledger_ok_def rows_ok_def funders_ok_def activations_ok_def recorded_def
        intro: history_more)
  then show ?thesis
    using vault.trans untouched_vault[OF staysD[OF world_calls(5)[OF assms(1)], where s = ?v]]
    by (simp add: send_bytes_def io_bind_def io_modify_def)
qed

lemma stays_outside: "stays untouched m \<Longrightarrow> stays vault_keeps m"
  by (simp add: stays_def untouched_vault)

lemma broadcast_keeps:
  assumes "world_ok w" "recorded bs s"
  shows "vault_keeps s (snd (broadcastVaultTransaction w cluster d bs url s))"
proof (cases rule: io_bind_cases[of "verifyVaultRpc w cluster d url" s "\<lambda>_. deadline_run d ''Broadcasting the vault transaction'' (send_bytes w url bs)"])
  case (throws e s1)
  then show ?thesis
    using untouched_vault[OF staysD2[OF outside_endpoint(2)[OF assms(1)] throws(1)]] by (simp add: broadcastVaultTransaction_def)
next
  case (continues a s1)
  have s1: "untouched s s1" by (rule staysD2[OF outside_endpoint(2)[OF assms(1)] continues(1)])
  have "vault_keeps s1 (snd (deadline_run d ''Broadcasting the vault transaction'' (send_bytes w url bs) s1))"
    by (rule deadline_outcome[where R = vault_keeps])
      (use send_keeps[OF assms(1)] untouched_recorded s1 assms(2) untouched_vault vault.trans in \<open>metis+\<close>)
  then show ?thesis
    using continues vault.trans[OF untouched_vault[OF s1]] by (simp add: broadcastVaultTransaction_def)
qed

section \<open>The persisting call\<close>

text \<open>What the handler's boundary around the persisting call is assumed to do: it runs the call and commits what the
  call did, or it fails, with or without having run it; it writes neither the ledger nor the wire itself.\<close>

definition boundary_ok :: "(intent_result earn_io \<Rightarrow> intent_result earn_io) \<Rightarrow> bool" where
  "boundary_ok run \<longleftrightarrow> (\<forall>m s. case run m s of (r, s') \<Rightarrow>
     (\<exists>u r' v. untouched s u \<and> m u = (r', v) \<and> untouched v s' \<and> (\<forall>a. r = Inr a \<longrightarrow> r' = Inr a)) \<or>
     (\<exists>e. r = Inl e) \<and> untouched s s')"

lemma boundary_cases:
  assumes "boundary_ok run" "run m s = (r, s')"
  obtains (ran) u r' v where "untouched s u" "m u = (r', v)" "untouched v s'" "\<And>a. r = Inr a \<Longrightarrow> r' = Inr a"
  | (failed) e where "r = Inl e" "untouched s s'"
proof -
  have "case run m s of (r, s') \<Rightarrow>
     (\<exists>u r' v. untouched s u \<and> m u = (r', v) \<and> untouched v s' \<and> (\<forall>a. r = Inr a \<longrightarrow> r' = Inr a)) \<or>
     (\<exists>e. r = Inl e) \<and> untouched s s'"
    using assms(1) unfolding boundary_ok_def by (metis (lifting))
  then show thesis using ran failed unfolding assms(2) prod.case by blast
qed

lemma boundary_identity: "boundary_ok (\<lambda>m. m)"
  unfolding boundary_ok_def using outside.refl by (simp add: split_beta) (metis prod.collapse)

lemma boundary_keeps:
  assumes "boundary_ok run" "stays vault_keeps m" "run m s = (r, s')"
  shows "vault_keeps s s'"
  using assms(1,3)
proof (cases rule: boundary_cases)
  case (ran u r' v)
  then show ?thesis using staysD2[OF assms(2)] untouched_vault vault.trans by metis
next
  case (failed e)
  then show ?thesis by (simp add: untouched_vault)
qed

text \<open>A call that persists a signed transaction: unless it replays, it leaves the bytes recorded in the movement it
  returns.\<close>

definition records :: "bytes \<Rightarrow> EarnMovementRow \<Rightarrow> bool" where
  "records bs m \<longleftrightarrow> em_execution_model m = VaultDirect \<and> em_signed_transaction m = Some (base64_encode bs)"

definition persists :: "(SignedVaultTransaction \<Rightarrow> intent_result earn_io) \<Rightarrow> bool" where
  "persists persist \<longleftrightarrow> (\<forall>stx. stays vault_keeps (persist stx) \<and> stays same_wire (persist stx) \<and>
     (\<forall>u a v. ledger_ok u \<longrightarrow> persist stx u = (Inr a, v) \<longrightarrow> \<not> ir_replayed a \<longrightarrow>
        ir_movement a \<in> set (es_movements v) \<and> records (svt_bytes stx) (ir_movement a)))"

lemma records_recorded: "m \<in> set (es_movements s) \<Longrightarrow> records bs m \<Longrightarrow> recorded bs s"
  by (auto simp: recorded_def records_def base64_decode_encode)

lemma wp_fresh_deposit:
  assumes "ledger_ok s"
  shows "wp (createSignedVaultDepositIntent input) (\<lambda>r s'. \<forall>a. r = Inr a \<longrightarrow> \<not> ir_replayed a \<longrightarrow>
    ir_movement a \<in> set (es_movements s') \<and> (\<exists>k i t. ir_movement a = deposit_row input k i t)) s"
proof -
  let ?Q = "\<lambda>r s'. \<forall>a. r = Inr a \<longrightarrow> \<not> ir_replayed a \<longrightarrow>
    ir_movement a \<in> set (es_movements s') \<and> (\<exists>k i t. ir_movement a = deposit_row input k i t)"
  have own: "wp (own_deposit_replay input m) ?Q u" for m u
    unfolding own_deposit_replay_def by (intro wp_bind wp_lift result_case_I wp_replayed_intent) simp_all
  have opened: "wp (open_deposit input) ?Q u"
    if u: "ledger_ok u" "find (\<lambda>m. em_organization_id m = sdi_organizationId input \<and> em_request_id m = sdi_requestId input \<and>
      em_execution_model m = VaultDirect) (es_movements u) = None" for u
  proof (rule wp_mono[OF open_deposit_keeps[OF u(1) no_vault_request[OF u(2)]]], assumption, intro allI impI, goal_cases)
    case (1 r s' a)
    then have "es_movements s' = es_movements u @ [ir_movement a]" "\<exists>k i t. ir_movement a = deposit_row input k i t" by simp_all
    then show ?case by simp
  qed
  show ?thesis
    unfolding createSignedVaultDepositIntent_def
  proof (intro wp_transaction wp_bind wp_find_request, goal_cases)
    case (2 s1)
    have s1: "ledger_ok s1" "es_movements s1 = es_movements s"
      using assms same_ledger_ok(4)[OF only_session_ledger[OF 2]] only_session_ledger[OF 2] by (simp_all add: same_ledger_def)
    have "wp (case find (\<lambda>m. em_organization_id m = sdi_organizationId input \<and> em_request_id m = sdi_requestId input \<and>
        em_execution_model m = VaultDirect) (es_movements s) of None \<Rightarrow> open_deposit input
      | Some m \<Rightarrow> own_deposit_replay input m) ?Q s1"
      by (intro wp_option opened own s1) (auto simp: s1(2))
    then show ?case by (auto elim!: wp_mono split: sum.split)
  qed simp_all
qed

lemma wp_fresh_withdrawal:
  assumes "ledger_ok s"
  shows "wp (createSignedVaultWithdrawalIntent input) (\<lambda>r s'. \<forall>a. r = Inr a \<longrightarrow> \<not> ir_replayed a \<longrightarrow>
    ir_movement a \<in> set (es_movements s') \<and> (\<exists>i t. ir_movement a = withdrawal_row input i t)) s"
proof -
  let ?Q = "\<lambda>r s'. \<forall>a. r = Inr a \<longrightarrow> \<not> ir_replayed a \<longrightarrow>
    ir_movement a \<in> set (es_movements s') \<and> (\<exists>i t. ir_movement a = withdrawal_row input i t)"
  have prior: "wp (resolve_withdrawal_replay input) (\<lambda>r u. only_session s u \<and> (\<forall>a. r = Inr (Some a) \<longrightarrow> ir_replayed a) \<and>
      (r = Inr None \<longrightarrow> find (\<lambda>m. em_organization_id m = swi_organizationId input \<and>
        em_request_id m = swi_requestId input \<and> em_execution_model m = VaultDirect) (es_movements s) = None)) s"
    unfolding resolve_withdrawal_replay_def
    by (intro wp_bind wp_find_request wp_option wp_lift wp_if result_case_I wp_return wp_throw wp_replayed_intent)
      (auto intro: only_session_trans)
  show ?thesis
    unfolding createSignedVaultWithdrawalIntent_def
  proof (intro wp_transaction wp_bind wp_mono[OF prior], goal_cases)
    case (1 r s1)
    have s1: "ledger_ok s1" "es_movements s1 = es_movements s"
      using 1 assms same_ledger_ok(4)[OF only_session_ledger, of s s1] only_session_ledger[of s s1] by (simp_all add: same_ledger_def)
    have opened: "wp (open_withdrawal input) ?Q s1" if "r = Inr None"
      by (rule wp_mono[OF open_withdrawal_keeps[OF s1(1) no_vault_request]]) (use 1 that s1(2) in auto)
    show ?case
    proof (cases r)
      case (Inr found)
      then show ?thesis
      proof (cases found)
        case None
        then show ?thesis using opened Inr by (auto elim!: wp_mono split: sum.split)
      next
        case (Some a)
        then show ?thesis using 1 Inr by (simp add: wp_def io_return_def)
      qed
    qed simp
  qed simp_all
qed

lemma persists_deposit: "persists (\<lambda>stx. createSignedVaultDepositIntent (deposit_intent w input plan minimum payer stx))"
  unfolding persists_def
  by (auto simp: vault_operations wire_deposit records_def deposit_row_def deposit_intent_def dest!: wpD[OF wp_fresh_deposit])

lemma persists_withdrawal: "persists (\<lambda>stx. createSignedVaultWithdrawalIntent (withdrawal_intent w input plan payer stx))"
  unfolding persists_def
  by (auto simp: vault_operations wire_withdrawal records_def withdrawal_row_def withdrawal_intent_def
      dest!: wpD[OF wp_fresh_withdrawal])

section \<open>Executing an intent\<close>

lemma mark_keeps: "stays vault_keeps (mark_broadcast input stx result)" "stays same_wire (mark_broadcast input stx result)"
  unfolding mark_broadcast_def
  by (intro vault.stays_intros vault_operations vault.stays_reads[OF earn_reads_only(1)])
    (intro wire.stays_intros wire_advance wire.stays_reads[OF earn_reads_only(1)])

lemma mark_result:
  "mark_broadcast input stx result s = (Inr a, s') \<Longrightarrow> ir_replayed a = ir_replayed result"
  by (auto simp: mark_broadcast_def io_bind_def io_return_def io_throw_def split: prod.splits sum.splits option.splits if_splits)

lemma try_broadcast_state:
  "snd (try_broadcast w scope bs s) = snd (broadcastVaultTransaction w (vsc_cluster scope) (vsc_deadline scope) bs (vsc_rpcUrl scope) s)"
  by (simp add: try_broadcast_def io_catch_def io_bind_def io_return_def split: prod.split sum.split)

lemma untouched_ledger: "untouched s u \<Longrightarrow> ledger_ok u = ledger_ok s"
  by (simp add: untouched_def ledger_ok_def rows_ok_def funders_ok_def activations_ok_def)

lemma run_records:
  assumes "boundary_ok run" "persists persist" "run (persist stx) s = (Inr a, s')" "ledger_ok s" "\<not> ir_replayed a"
  shows "ir_movement a \<in> set (es_movements s') \<and> records (svt_bytes stx) (ir_movement a)"
  using assms(1,3)
proof (cases rule: boundary_cases)
  case (ran u r' v)
  have "ledger_ok u" using ran(1) assms(4) by (simp add: untouched_ledger)
  then have "ir_movement a \<in> set (es_movements v) \<and> records (svt_bytes stx) (ir_movement a)"
    using assms(2,5) ran(2) ran(4)[OF refl] unfolding persists_def by simp
  then show ?thesis using ran(3) by (simp add: untouched_def)
qed simp

lemma execute_keeps:
  assumes "world_ok w" "boundary_ok (exi_run input)" "persists (exi_persist input)"
  shows "stays vault_keeps (executeSignedVaultIntent w input)"
proof (rule staysI)
  fix s
  have sent: "wp (io_bind (try_broadcast w (exi_scope input) (svt_bytes stx)) (\<lambda>sent.
      if sent then mark_broadcast input stx result else io_return result)) (\<lambda>_. vault_keeps s2) s2"
    if "recorded (svt_bytes stx) s2" for stx result s2
  proof (rule wp_bind, rule wpI)
    fix r s3 assume "try_broadcast w (exi_scope input) (svt_bytes stx) s2 = (r, s3)"
    then have s3: "vault_keeps s2 s3" using broadcast_keeps[OF assms(1) that] try_broadcast_state by (metis snd_conv)
    have "wp (if sent then mark_broadcast input stx result else io_return result) (\<lambda>_. vault_keeps s2) s3" for sent
      by (intro wp_if wp_stays[OF mark_keeps(1)] wp_return s3 vault.trans[OF s3])
    then show "case r of Inl e \<Rightarrow> vault_keeps s2 s3 | Inr a \<Rightarrow> wp (if a then mark_broadcast input stx result else io_return result) (\<lambda>_. vault_keeps s2) s3"
      using s3 by (cases r) (simp_all only: sum.case)
  qed
  have "wp (executeSignedVaultIntent w input) (\<lambda>_. vault_keeps s) s" if ok: "wire_ok s"
    unfolding executeSignedVaultIntent_def
  proof (intro wp_bind wp_stays[OF outside_sign(2)[OF assms(1)]] result_case_I wpI[of "exi_run input _"], goal_cases)
    case (2 r s1 stx r2 s2 e)
    then show ?case
      using boundary_keeps[OF assms(2)] assms(3) vault.trans untouched_vault unfolding persists_def by metis
  next
    case (3 r s1 stx r2 s2 result)
    have s1: "vault_keeps s s1" "wire_ok s1" using untouched_vault[OF 3(1)] ok by (simp_all add: vault_keeps_def)
    have s2: "vault_keeps s s2"
      using boundary_keeps[OF assms(2) _ 3(3)] assms(3) vault.trans[OF s1(1)] unfolding persists_def by metis
    have "recorded (svt_bytes stx) s2" if "\<not> ir_replayed result"
      using run_records[OF assms(2,3) 3(3)[unfolded 3(4)] _ that] s1(2) records_recorded by (simp add: wire_ok_def) blast
    then show ?case
      by (intro wp_if wp_return s2 wp_mono[OF sent] vault.trans[OF s2])
  qed (simp add: untouched_vault)
  then show "vault_keeps s (snd (executeSignedVaultIntent w input s))"
    by (cases "wire_ok s") (simp_all add: wp_def vault_keeps_def)
qed

section \<open>The services keep the wire recorded\<close>

lemma find_replay_reads: "io_reads (find_replay org rid fp)"
  unfolding find_replay_def resolveIdempotencyReplay_def findVaultMovementByRequestId_def
  by (intro reads_intros earn_reads_only)

lemma outside_fee: "world_ok w \<Longrightarrow> stays untouched (resolveVaultSponsorship w org p i cluster d)"
  unfolding resolveVaultSponsorship_def by (intro outside.stays_intros outside_deadline world_calls)

lemma outside_built: "stays untouched build \<Longrightarrow> stays untouched (built_plan build)"
  unfolding built_plan_def by (intro outside.stays_intros) (auto simp: outside.stays_pure split: sum.split build_error.split)

lemma replay_result_reads: "io_reads (deposit_replayResult di m)" "io_reads (withdrawal_replayResult wi m)"
proof -
  show "io_reads (deposit_replayResult di m)"
    unfolding deposit_replayResult_def by (intro reads_intros earn_reads_only)
  have "io_reads (case (position, sig) of (Some p, Some (c # cs)) \<Rightarrow> io_return (f p) | _ \<Rightarrow> io_throw e)" for position f e and sig :: "string option"
    by (auto intro!: reads_intros split: option.split list.split)
  then show "io_reads (withdrawal_replayResult wi m)"
    unfolding withdrawal_replayResult_def by (intro reads_intros earn_reads_only)
qed

lemma deposit_keeps:
  assumes "world_ok w" "boundary_ok run"
  shows "stays vault_keeps (depositIntoVault w input run)"
  unfolding depositIntoVault_def start_deposit_def createVaultDeadline_def Let_def
  by (intro vault.stays_intros vault.stays_reads[OF find_replay_reads] vault.stays_reads[OF replay_result_reads(1)]
      stays_outside[OF outside_fee] stays_outside[OF outside_built] world_calls execute_keeps assms)
    (simp_all add: assms persists_deposit)

lemma withdrawal_keeps:
  assumes "world_ok w" "boundary_ok run"
  shows "stays vault_keeps (withdrawFromVault w input run)"
  unfolding withdrawFromVault_def start_withdrawal_def createVaultDeadline_def Let_def
  by (intro vault.stays_intros vault.stays_reads[OF find_replay_reads] vault.stays_reads[OF replay_result_reads(2)]
      vault.stays_reads[OF earn_reads_only(3)]
      stays_outside[OF outside_fee] stays_outside[OF outside_built] world_calls execute_keeps assms)
    (simp_all add: assms persists_withdrawal)

section \<open>Reconciliation keeps the wire recorded\<close>

definition known :: "EarnMovementRow \<Rightarrow> earn_session \<Rightarrow> bool" where
  "known m s \<longleftrightarrow> (\<exists>m'\<in>set (es_movements s). mv_identity m' = mv_identity m)"

lemma known_later: "vault_keeps s s' \<Longrightarrow> wire_ok s \<Longrightarrow> known m s \<Longrightarrow> known m s'"
  unfolding vault_keeps_def known_def history_def mv_later_def by metis

lemma known_recorded:
  assumes "wire_ok s" "known m s" "em_signed_transaction m = Some tx"
  shows "recorded (base64_decode tx) s"
proof -
  obtain m' where m': "m' \<in> set (es_movements s)" "mv_identity m' = mv_identity m" using assms(2) unfolding known_def by blast
  then have tx: "em_signed_transaction m' = Some tx" using assms(3) by (simp add: mv_identity_def)
  have "model_shape m'"
    using assms(1) m'(1) by (auto simp: wire_ok_def ledger_ok_def rows_ok_def movements_wf_def movement_checks_def list_all_iff)
  then have "em_execution_model m' = VaultDirect" using tx by (simp add: model_shape_def split: EarnExecutionModel.splits)
  with m'(1) tx show ?thesis unfolding recorded_def by blast
qed

lemma claim_known:
  assumes "claimUnsettledVaultMovements limit s = (Inr rows, s')" "m \<in> set rows"
  shows "known m s'"
proof -
  have "wp (claimUnsettledVaultMovements limit) (\<lambda>r s'. \<forall>rows. r = Inr rows \<longrightarrow> set rows \<subseteq> set (es_movements s')) s"
    unfolding claimUnsettledVaultMovements_def Let_def
    by (intro wp_if wp_throw wp_sql) (auto simp: wp_def io_bind_def put_movements_def io_return_def)
  then show ?thesis using assms by (auto simp: wp_def known_def)
qed

lemma advance_transaction_keeps:
  "stays vault_keeps (advanceTransaction m st reason c t)" "stays vault_keeps (vault_markSubmitted m)"
  "stays vault_keeps (failMovement m why)"
  unfolding advanceTransaction_def vault_markSubmitted_def failMovement_def
  by (intro vault.stays_intros vault_operations)+

lemma record_status_keeps: "stays vault_keeps (record_status m info)"
  unfolding record_status_def
  by (intro vault.stays_intros advance_transaction_keeps)
    (auto intro!: vault.stays_intros advance_transaction_keeps split: option.split commitment.split)

lemma reconcile_movement_keeps:
  assumes "world_ok w" "wire_ok s" "known m s"
  shows "vault_keeps s (snd (reconcileMovement w m status cluster url height s))"
proof -
  have "wp (rebroadcast w m cluster url height) (\<lambda>_. vault_keeps s) s"
  proof (cases "em_signed_transaction m"; cases "em_last_valid_block_height m")
    fix tx h assume row: "em_signed_transaction m = Some tx" "em_last_valid_block_height m = Some h"
    have send: "wp (io_bind (broadcastVaultTransaction w cluster d (base64_decode tx) url) (\<lambda>_. vault_markSubmitted m)) (\<lambda>_. vault_keeps s) s" for d
    proof (rule wp_bind, rule wpI)
      fix r s1 assume "broadcastVaultTransaction w cluster d (base64_decode tx) url s = (r, s1)"
      then have "vault_keeps s s1" using broadcast_keeps[OF assms(1) known_recorded[OF assms(2,3) row(1)]] by (metis snd_conv)
      then show "case r of Inl e \<Rightarrow> vault_keeps s s1 | Inr _ \<Rightarrow> wp (vault_markSubmitted m) (\<lambda>_. vault_keeps s) s1"
        using wp_stays[OF advance_transaction_keeps(2)] vault.trans by (auto split: sum.split)
    qed
    then show ?thesis
      unfolding rebroadcast_def createVaultDeadline_def row prod.case option.case
      by (intro wp_option wp_if wp_bind[of "if _ then _ else _"] wp_return wp_stays[OF advance_transaction_keeps(3)] wp_throw
          wp_bind[of now] wp_now vault.refl) (simp_all add: vault.refl wp_return)
  qed (simp_all add: rebroadcast_def wp_throw vault.refl)
  then show ?thesis
    using staysD[OF record_status_keeps] vault.refl
    by (simp add: reconcileMovement_def wp_def io_return_def split: option.split)
qed

lemma reconcile_rows_keeps:
  assumes "world_ok w" "wire_ok s" "\<forall>m\<in>set rows. known m s"
  shows "vault_keeps s (snd (reconcile_rows w statuses cluster url height i rows s))"
  using assms(2,3)
proof (induction rows arbitrary: i s)
  case Nil
  show ?case by (simp add: io_return_def vault.refl)
next
  case (Cons m rows)
  let ?s1 = "snd (reconcileMovement w m (status_at statuses i) cluster url height s)"
  have s1: "vault_keeps s ?s1" by (rule reconcile_movement_keeps[OF assms(1)]) (use Cons.prems in auto)
  then have "wire_ok ?s1" "\<forall>m\<in>set rows. known m ?s1" using Cons.prems known_later by (auto simp: vault_keeps_def)
  then have "vault_keeps ?s1 (snd (reconcile_rows w statuses cluster url height (Suc i) rows ?s1))" by (rule Cons.IH)
  then show ?case
    using vault.trans[OF s1] by (simp add: io_bind_def io_catch_def io_return_def split_beta split: sum.split prod.split)
qed

lemma outside_reads:
  assumes "world_ok w"
  shows "stays untouched (read_statuses w cluster url rows)" "stays untouched (read_height w url statuses)"
  unfolding read_statuses_def read_height_def
  by (intro outside.stays_intros outside_endpoint[OF assms] world_calls[OF assms])+

lemma reconcile_environment_keeps:
  assumes "world_ok w" "wire_ok s" "\<forall>m\<in>set rows. known m s"
  shows "vault_keeps s (snd (reconcileEnvironment w environment rows s))"
proof -
  let ?c = "earnClusterFor environment" and ?u = "resolveClusterRpcUrl w (earnClusterFor environment)"
  have rows: "wp (reconcile_rows w statuses ?c ?u height 0 rows) (\<lambda>_. vault_keeps s) s'" if "untouched s s'" for statuses height s'
  proof -
    have k: "vault_keeps s s'" by (rule untouched_vault[OF that])
    then have "wire_ok s'" "\<forall>m\<in>set rows. known m s'" using assms(2,3) known_later by (auto simp: vault_keeps_def)
    then show ?thesis using vault.trans[OF k reconcile_rows_keeps[OF assms(1)]] by (simp add: wp_def)
  qed
  have "wp (reconcileEnvironment w environment rows) (\<lambda>_. vault_keeps s) s"
    unfolding reconcileEnvironment_def Let_def
    by (intro wp_bind wp_stays[OF outside_reads(1)[OF assms(1)]] wp_stays[OF outside_reads(2)[OF assms(1)]] result_case_I wp_option
        wp_return rows) (auto intro: untouched_vault outside.trans)
  then show ?thesis by (simp add: wp_def)
qed

lemma reconcile_environments_keeps:
  assumes "world_ok w" "wire_ok s" "\<forall>g\<in>set groups. \<forall>m\<in>set (snd g). known m s"
  shows "vault_keeps s (snd (reconcile_environments w groups s))"
  using assms(2,3)
proof (induction groups arbitrary: s)
  case Nil
  show ?case by (simp add: io_return_def vault.refl)
next
  case (Cons g groups)
  obtain environment rows where g: "g = (environment, rows)" by (cases g)
  have k: "vault_keeps s (snd (reconcileEnvironment w environment rows s))"
    by (rule reconcile_environment_keeps[OF assms(1)]) (use Cons.prems g in auto)
  show ?case
  proof (cases rule: io_bind_cases[of "reconcileEnvironment w environment rows" s "\<lambda>_. reconcile_environments w groups"])
    case (throws e s1)
    then show ?thesis using k g by simp
  next
    case (continues a s1)
    have "wire_ok s1" "\<forall>g\<in>set groups. \<forall>m\<in>set (snd g). known m s1"
      using k continues(1) Cons.prems known_later by (auto simp: vault_keeps_def)
    then show ?thesis using Cons.IH vault.trans k continues g by fastforce
  qed
qed

lemma group_rows: "g \<in> set (groupByEnvironment rows) \<Longrightarrow> m \<in> set (snd g) \<Longrightarrow> m \<in> set rows"
  by (auto simp: groupByEnvironment_def)

lemma reconcile_keeps:
  assumes "world_ok w"
  shows "stays vault_keeps (reconcileEarnVaultMovements w)"
proof (rule staysI)
  fix s
  show "vault_keeps s (snd (reconcileEarnVaultMovements w s))"
  proof (cases "wire_ok s", unfold reconcileEarnVaultMovements_def,
      cases rule: io_bind_cases[of "claimUnsettledVaultMovements OUTBOX_BATCH_SIZE" s "\<lambda>movements. reconcile_environments w (groupByEnvironment movements)"])
    case (throws e s1)
    then show "vault_keeps s (snd (io_bind (claimUnsettledVaultMovements OUTBOX_BATCH_SIZE)
        (\<lambda>movements. reconcile_environments w (groupByEnvironment movements)) s))"
      using staysD2[OF vault_operations(4)] by simp
  next
    case (continues rows s1)
    assume "wire_ok s"
    then have k: "vault_keeps s s1" "wire_ok s1" using staysD2[OF vault_operations(4) continues(1)] by (simp_all add: vault_keeps_def)
    have "\<forall>g\<in>set (groupByEnvironment rows). \<forall>m\<in>set (snd g). known m s1"
      using claim_known[OF continues(1)] group_rows by blast
    then show "vault_keeps s (snd (io_bind (claimUnsettledVaultMovements OUTBOX_BATCH_SIZE)
        (\<lambda>movements. reconcile_environments w (groupByEnvironment movements)) s))"
      using vault.trans[OF k(1) reconcile_environments_keeps[OF assms k(2)]] continues(2) by simp
  qed (simp add: vault_keeps_def)
qed

section \<open>Runs of the services\<close>

text \<open>One step of the system: a service call or the job, against a world and a boundary that may be different every time;
  an operation of the ledger that other code calls; the deletion of a project; or a change outside the ledger and
  the wire.\<close>

inductive service_step :: "earn_session \<Rightarrow> earn_session \<Rightarrow> bool" where
  deposits: "world_ok w \<Longrightarrow> boundary_ok run \<Longrightarrow> service_step s (snd (depositIntoVault w di run s))"
| withdraws: "world_ok w \<Longrightarrow> boundary_ok run \<Longrightarrow> service_step s (snd (withdrawFromVault w wi run s))"
| reconciles: "world_ok w \<Longrightarrow> service_step s (snd (reconcileEarnVaultMovements w s))"
| mints: "service_step s (snd (mintEarnPositionForProviderWallet pw s))"
| requests: "service_step s (snd (createCustodialMovement ci s))"
| observes: "service_step s (snd (updateCustodialMovementGuarded ui s))"
| orphans: "service_step s (project_deleted projectId s)"
| passes: "untouched s s' \<Longrightarrow> service_step s s'"

lemma service_step_keeps:
  assumes "service_step s s'"
  shows "vault_keeps s s'"
  using assms
proof cases
  case (orphans projectId)
  then show ?thesis
    using keeps_vault[OF project_deleted_keeps] by (simp add: same_wire_def project_deleted_def)
qed (simp_all add: deposit_keeps[THEN staysD] withdrawal_keeps[THEN staysD] reconcile_keeps[THEN staysD] vault_operations[THEN staysD]
    untouched_vault)

definition quiet_start :: "earn_session \<Rightarrow> bool" where
  "quiet_start s \<longleftrightarrow> empty_ledger s \<and> es_broadcasts s = []"

lemma service_run_ok:
  assumes "service_step\<^sup>*\<^sup>* s s'" "quiet_start s"
  shows "wire_ok s'"
  using assms
proof (induction rule: rtranclp_induct)
  case base
  then show ?case using reachable_ok[OF reachable.start] by (simp add: quiet_start_def wire_ok_def)
next
  case (step u v)
  then show ?case using service_step_keeps by (simp add: vault_keeps_def)
qed

text \<open>C8. Only what the ledger holds reaches the wire. From an empty ledger, over every sequence of deposits, withdrawals and
  runs of the reconciliation job, interleaved with everything else that writes the ledger, with connections that fail
  at any statement and calls to the chain, the signer and the paymaster that fail or run out of time, every transaction that
  was ever broadcast is the signed transaction of a vault movement in the ledger. Money is never moved by a transaction
  the ledger does not know.\<close>

theorem broadcast_is_recorded:
  assumes "quiet_start s" and "service_step\<^sup>*\<^sup>* s s'" and "bs \<in> set (es_broadcasts s')"
  shows "\<exists>m\<in>set (es_movements s'). em_execution_model m = VaultDirect \<and>
    (\<exists>text. em_signed_transaction m = Some text \<and> base64_decode text = bs)"
  using service_run_ok[OF assms(2,1)] assms(3) by (simp add: wire_ok_def recorded_def)

lemma sample_world_ok: "world_ok (sample_world sponsorship status)"
  by (simp add: world_ok_def sample_world_def outside.stays_pure)

lemma sample_quiet: "quiet_start sample_session"
  by (simp add: quiet_start_def empty_ledger_def sample_session_def)

lemma sample_sent_run: "service_step\<^sup>*\<^sup>* sample_session (sample_sent sponsorship)"
  unfolding sample_sent_def by (intro r_into_rtranclp service_step.deposits sample_world_ok boundary_identity)

text \<open>A deposit that was sent.\<close>

theorem broadcast_is_recorded_witness:
  "\<exists>m\<in>set (es_movements (sample_sent None)). em_execution_model m = VaultDirect \<and>
    (\<exists>text. em_signed_transaction m = Some text \<and> base64_decode text = [3, 4])"
  using broadcast_is_recorded[OF sample_quiet sample_sent_run[of None], of "[3, 4]"] sample_sent_view by (simp add: sample_view_def)

section \<open>At most one broadcast\<close>

definition sends :: "earn_session \<Rightarrow> bytes \<Rightarrow> earn_session \<Rightarrow> bool" where
  "sends s bs s' \<longleftrightarrow> es_broadcasts s' = es_broadcasts s \<or> es_broadcasts s' = es_broadcasts s @ [bs]"

lemma untouched_wire: "untouched s s' \<Longrightarrow> es_broadcasts s' = es_broadcasts s"
  by (simp add: untouched_def)

lemma sends_after: "untouched s u \<Longrightarrow> sends u bs s' \<Longrightarrow> sends s bs s'"
  by (simp add: sends_def untouched_def)

lemma broadcast_sends:
  assumes "world_ok w"
  shows "wp (broadcastVaultTransaction w cluster d bs url) (\<lambda>_. sends s bs) s"
proof -
  have sent: "es_broadcasts (snd (send_bytes w url bs u)) = es_broadcasts u @ [bs]" for u
    using untouched_wire[OF staysD[OF world_calls(5)[OF assms], where s = "u\<lparr>es_broadcasts := es_broadcasts u @ [bs]\<rparr>"]]
    by (simp add: send_bytes_def io_bind_def io_modify_def)
  have delivered: "sends u bs (snd (deadline_run d ''Broadcasting the vault transaction'' (send_bytes w url bs) u))" for u
    by (rule deadline_outcome[where R = "\<lambda>u. sends u bs"]) (simp_all add: sends_def sent untouched_wire)
  have "wp (deadline_run d ''Broadcasting the vault transaction'' (send_bytes w url bs)) (\<lambda>_. sends s bs) u" if "untouched s u" for u
    using sends_after[OF that delivered] by (simp add: wp_def)
  then show ?thesis
    unfolding broadcastVaultTransaction_def
    by (intro wp_bind wp_stays[OF outside_endpoint(2)[OF assms]] result_case_I) (auto simp: sends_def untouched_wire)
qed

lemma run_wire:
  assumes "boundary_ok run" "stays same_wire m" "run m s = (r, s')"
  shows "es_broadcasts s' = es_broadcasts s"
  using assms(1,3)
proof (cases rule: boundary_cases)
  case (ran u r' v)
  then show ?thesis using staysD2[OF assms(2)] untouched_wire unfolding same_wire_def by metis
qed (simp add: untouched_wire)

text \<open>What one call does to the wire: nothing, or one transaction; then the result, if there is one, is not a replay.\<close>

definition one_send :: "earn_session \<Rightarrow> (api_error, intent_result) result \<Rightarrow> earn_session \<Rightarrow> bool" where
  "one_send s r s' \<longleftrightarrow> es_broadcasts s' = es_broadcasts s \<or>
     (\<exists>bs. es_broadcasts s' = es_broadcasts s @ [bs] \<and> (\<forall>a. r = Inr a \<longrightarrow> \<not> ir_replayed a))"

lemma execute_sends:
  assumes "world_ok w" "boundary_ok (exi_run input)" "persists (exi_persist input)"
  shows "wp (executeSignedVaultIntent w input) (one_send s) s"
  unfolding executeSignedVaultIntent_def
proof (intro wp_bind wp_stays[OF outside_sign(2)[OF assms(1)]] result_case_I wpI[of "exi_run input _"], goal_cases)
  case (2 r s1 stx r2 s2 e)
  then show ?case
    using run_wire[OF assms(2) _ 2(3)] assms(3) untouched_wire[OF 2(1)] by (auto simp: one_send_def persists_def)
next
  case (3 r s1 stx r2 s2 result)
  have s2: "es_broadcasts s2 = es_broadcasts s"
    using run_wire[OF assms(2) _ 3(3)] assms(3) untouched_wire[OF 3(1)] by (auto simp: persists_def)
  have sent: "wp (try_broadcast w (exi_scope input) (svt_bytes stx)) (\<lambda>_. sends s (svt_bytes stx)) s2"
    using broadcast_sends[OF assms(1), of _ _ "svt_bytes stx" _ s2] s2 by (simp add: wp_def try_broadcast_state sends_def)
  show ?case
  proof (intro wp_if wp_return wp_bind wp_mono[OF sent] result_case_I, goal_cases)
    case (3 r3 s3 b)
    have "es_broadcasts (snd (mark_broadcast input stx result s3)) = es_broadcasts s3"
      using staysD[OF mark_keeps(2), where s = s3] unfolding same_wire_def by blast
    then show ?case
      using 3 mark_result[of input stx result s3 _ "snd (mark_broadcast input stx result s3)"]
      by (auto simp: wp_def one_send_def sends_def prod_eq_iff)
  qed (auto simp: one_send_def sends_def s2)
qed (simp add: one_send_def untouched_wire)

lemma one_send_after: "untouched s u \<Longrightarrow> one_send u r s' \<Longrightarrow> one_send s r s'"
  by (simp add: one_send_def untouched_def)

lemma one_send_untouched: "untouched s s' \<Longrightarrow> one_send s r s'"
  by (simp add: one_send_def untouched_def)

lemma wp_outside:
  assumes "stays untouched m" "untouched s u" "\<And>e v. untouched s v \<Longrightarrow> Q (Inl e) v" "\<And>a v. untouched s v \<Longrightarrow> wp (f a) Q v"
  shows "wp (io_bind m f) Q u"
  by (intro wp_bind wp_stays[OF assms(1)] result_case_I) (use assms(2-4) outside.trans in blast)+

lemma wp_execute_sends:
  assumes "world_ok w" "boundary_ok (exi_run input)" "persists (exi_persist input)" "untouched s u"
  shows "wp (executeSignedVaultIntent w input) (one_send s) u"
  by (rule wp_mono[OF execute_sends[OF assms(1-3)]]) (rule one_send_after[OF assms(4)])

lemma wp_outside_end: "stays untouched m \<Longrightarrow> untouched s u \<Longrightarrow> wp m (one_send s) u"
  by (rule wp_stays[where R = untouched]) (auto intro: one_send_untouched outside.trans)

lemmas outside_reads_only = outside.stays_reads[OF find_replay_reads] outside.stays_reads[OF replay_result_reads(1)]
  outside.stays_reads[OF replay_result_reads(2)] outside.stays_reads[OF earn_reads_only(3)]

lemma deposit_sends:
  assumes "world_ok w" "boundary_ok run"
  shows "wp (depositIntoVault w input run) (one_send s) s"
  unfolding depositIntoVault_def start_deposit_def createVaultDeadline_def Let_def
  by (intro wp_outside[where s = s] wp_option wp_if wp_execute_sends wp_outside_end outside_reads_only outside.stays_intros
      outside_fee outside_built world_calls one_send_untouched outside.refl assms)
    (simp_all add: assms persists_deposit)

lemma withdrawal_sends:
  assumes "world_ok w" "boundary_ok run"
  shows "wp (withdrawFromVault w input run) (one_send s) s"
  unfolding withdrawFromVault_def start_withdrawal_def createVaultDeadline_def Let_def
  by (intro wp_outside[where s = s] wp_option wp_if wp_execute_sends wp_outside_end outside_reads_only outside.stays_intros
      outside_fee outside_built world_calls one_send_untouched outside.refl assms)
    (simp_all add: assms persists_withdrawal)

text \<open>C9. One request, at most one transaction. Whatever fails on the way, a call of \<^verbatim>\<open>depositIntoVault\<close> or
  \<^verbatim>\<open>withdrawFromVault\<close> puts at most one transaction on the wire; a call whose result is marked as a replay puts none
  there, also when it lost a race and signed bytes of its own before it found the winner's movement.\<close>

theorem one_broadcast_per_request:
  assumes "world_ok w" and "boundary_ok run"
    and "service = depositIntoVault w di run \<or> service = withdrawFromVault w wi run" and "service s = (r, s')"
  shows "\<exists>sent. es_broadcasts s' = es_broadcasts s @ sent \<and> length sent \<le> 1 \<and>
    (\<forall>a. r = Inr a \<and> ir_replayed a \<longrightarrow> sent = [])"
proof -
  have "one_send s r s'"
    using assms(3,4) wpD[OF deposit_sends[OF assms(1,2)]] wpD[OF withdrawal_sends[OF assms(1,2)]] by blast
  then show ?thesis unfolding one_send_def by (elim disjE exE) (auto intro: exI[of _ "[]"] exI[of _ "[_]"])
qed

theorem one_broadcast_per_request_witness:
  "\<exists>sent. es_broadcasts (sample_sent None) = es_broadcasts sample_session @ sent \<and> length sent \<le> 1"
  using one_broadcast_per_request[OF sample_world_ok[of None None] boundary_identity disjI1[OF refl], of sample_request sample_session]
  by (metis prod.collapse sample_sent_def)

section \<open>Requests the ledger already holds\<close>

lemma held_lookup:
  assumes "ledger_ok s" "sess_faults s = []" "m \<in> set (es_movements s)" "holds_request org rid fp m"
  shows "find_replay org rid fp s = (Inr (Some m), s)"
  using held_request[OF assms(1,3)] assms(2,4)
  by (simp add: find_replay_def resolveIdempotencyReplay_def findVaultMovementByRequestId_def findVaultMovementByRequest_def
      holds_request_def sql_def io_get_def io_bind_def io_return_def)

text \<open>A request the ledger already holds is answered from the ledger. On every state a run of the services reaches, if a
  movement holds the key of a deposit (its organization, request id and fingerprint) in the same environment, then repeating the deposit
  asks nothing of the chain, the signer or the paymaster, whatever they would do, signs nothing, broadcasts nothing and changes
  nothing: it returns that movement marked as a replay, or a conflict when the movement belongs to another project.\<close>

theorem held_deposit_replays:
  assumes "quiet_start s\<^sub>0" and "service_step\<^sup>*\<^sup>* s\<^sub>0 s" and "sess_faults s = []" and "m \<in> set (es_movements s)"
    and "holds_request (vdp_organizationId input) (vdp_requestId input) (deposit_fingerprint w input) m"
    and "em_environment m = vdp_environment input"
  shows "\<exists>p. depositIntoVault w input run s =
    (if em_project_id m = Some (vdp_projectId input)
     then (Inr \<lparr>ir_position = p, ir_movement = m, ir_replayed = True\<rparr>, s) else (Inl replay_conflict, s))"
proof -
  have ok: "ledger_ok s" using service_run_ok[OF assms(2,1)] by (simp add: wire_ok_def)
  have org: "em_organization_id m = vdp_organizationId input" "em_idempotency_fingerprint m = deposit_fingerprint w input"
    using assms(5) by (simp_all add: holds_request_def)
  obtain p where p: "find (\<lambda>p. ep_id p = em_position_id m \<and> ep_organization_id p = vdp_organizationId input \<and>
      ep_environment p = vdp_environment input) (es_positions s) = Some p"
    using held_position[OF ok assms(4)] org(1) assms(6) by auto
  show ?thesis
    using held_lookup[OF ok assms(3-5)] p assms(3) org(2)
    by (intro exI[of _ p]) (simp add: depositIntoVault_def io_bind_def assertMovementIsOwnReplay_def io_lift_def deposit_replayResult_def
        getPositionById_def sql_def io_get_def io_return_def)
qed

theorem held_deposit_replays_witness:
  "\<exists>m p. depositIntoVault (sample_world None None) sample_request (\<lambda>m. m) (sample_sent None) =
     (Inr \<lparr>ir_position = p, ir_movement = m, ir_replayed = True\<rparr>, sample_sent None)"
proof -
  obtain m where m: "es_movements (sample_sent None) = [m]" "sess_faults (sample_sent None) = []"
    "holds_request ''org'' ''req'' (deposit_fingerprint (sample_world None None) sample_request) m"
    "em_environment m = EnvSandbox" "em_project_id m = Some ''prj''"
    using sample_sent_view by (auto simp: sample_view_def sample_row_def holds_request_def)
  have "\<exists>p. depositIntoVault (sample_world None None) sample_request (\<lambda>m. m) (sample_sent None) =
    (if em_project_id m = Some (vdp_projectId sample_request)
     then (Inr \<lparr>ir_position = p, ir_movement = m, ir_replayed = True\<rparr>, sample_sent None) else (Inl replay_conflict, sample_sent None))"
    by (rule held_deposit_replays[OF sample_quiet sample_sent_run]) (use m in \<open>simp_all add: sample_request_def\<close>)
  then show ?thesis using m(5) by (auto simp: sample_request_def)
qed

end
