(* ===== verification/Earn_Outcomes.thy ===== *)
theory Earn_Outcomes
  imports Earn_Safety
begin

text \<open>
  What single steps of the vault services guarantee: a signed transaction is the plan's, signed by the wallet and by the
  sponsor over the same message; bytes go only to an endpoint proved to serve the right chain; and the reconciliation of a
  movement gives it the outcome the chain reported and touches no other.
\<close>

section \<open>Signing\<close>

definition signed_over :: "vault_world \<Rightarrow> transaction_message \<Rightarrow> kit_transaction \<Rightarrow> bool" where
  "signed_over w message t \<longleftrightarrow> (\<exists>u v. vw_signMessage w message u = (Inr t, v))"

lemma wp_deadline:
  assumes "\<And>e u. Q (Inl e) u" "\<And>a u v. op u = (Inr a, v) \<Longrightarrow> Q (Inr a) v"
  shows "wp (deadline_run d label op) Q s"
proof (rule wpI)
  fix r s' assume "deadline_run d label op s = (r, s')"
  then show "Q r s'"
    using assms by (cases r) (auto simp: deadline_run_def assertActive_def io_bind_def now_def io_get_def io_throw_def io_return_def
        split: prod.splits if_splits)
qed

definition sponsored_bytes :: "vault_world \<Rightarrow> transaction_message \<Rightarrow> string \<Rightarrow> bytes \<Rightarrow> bool" where
  "sponsored_bytes w message sponsor bs \<longleftrightarrow> (\<exists>ownerSigned t. signed_over w message ownerSigned \<and> vw_decode w bs = Inr t \<and>
     kt_messageBytes t = kt_messageBytes ownerSigned \<and> has_signature t sponsor)"

lemma wp_sign_sponsored:
  "wp (sign_sponsored w d is prepared sponsor owner) (\<lambda>r _. \<forall>bs. r = Inr bs \<longrightarrow>
     sponsored_bytes w (vault_message sponsor is prepared [owner]) sponsor bs) s"
  unfolding sign_sponsored_def Let_def
  by (intro wp_bind wp_deadline wp_lift wp_if wp_throw wp_return result_case_I) (auto simp: sponsored_bytes_def signed_over_def)

lemma wp_sign_by_wallet:
  "wp (sign_by_wallet w d is prepared owner) (\<lambda>r _. \<forall>bs. r = Inr bs \<longrightarrow>
     (\<exists>t. signed_over w (vault_message owner is prepared [owner]) t \<and> bs = vw_encode w t)) s"
  unfolding sign_by_wallet_def
  by (intro wp_bind wp_deadline wp_return result_case_I) (auto simp: signed_over_def)

definition signed_by_payer :: "vault_world \<Rightarrow> VaultFeeMode \<Rightarrow> string \<Rightarrow> EarnVaultInstruction list \<Rightarrow> PreparedVaultPlanExecution \<Rightarrow> bytes \<Rightarrow> bool" where
  "signed_by_payer w fee owner is prepared bs = (case fee of
     Sponsored sponsor \<Rightarrow> sponsored_bytes w (vault_message sponsor is prepared [owner]) sponsor bs
   | WalletPays \<Rightarrow> \<exists>t. signed_over w (vault_message owner is prepared [owner]) t \<and> bs = vw_encode w t)"

lemma wp_prepared:
  "wp (prepare_plan w scope label) (\<lambda>r _. \<forall>p. r = Inr p \<longrightarrow> pve_plan p = vsc_plan scope) s"
  unfolding prepare_plan_def by (intro wp_bind wpI result_case_I) (auto simp: wp_def io_return_def split: prod.split)

lemma wp_signing:
  "wp (case fee of Sponsored sponsor \<Rightarrow> sign_sponsored w d is prepared sponsor owner
     | WalletPays \<Rightarrow> sign_by_wallet w d is prepared owner) (\<lambda>r _. \<forall>bs. r = Inr bs \<longrightarrow> signed_by_payer w fee owner is prepared bs) s"
  by (cases fee) (use wp_sign_sponsored wp_sign_by_wallet in \<open>simp_all add: signed_by_payer_def\<close>)

lemma wp_choose_prepared:
  "wp (case candidate of
         Some prepared \<Rightarrow>
           if pve_plan prepared \<noteq> vsc_plan scope
           then io_throw (PlainError ''Vault execution preparation belongs to a different plan'')
           else io_return prepared
       | None \<Rightarrow> prepare_plan w scope label) (\<lambda>r _. \<forall>p. r = Inr p \<longrightarrow> pve_plan p = vsc_plan scope) s"
  by (intro wp_option wp_if wp_throw wp_return wp_prepared) auto

definition plan_signed :: "vault_world \<Rightarrow> vault_scope \<Rightarrow> string \<Rightarrow> SignedVaultTransaction \<Rightarrow> bool" where
  "plan_signed w scope owner stx \<longleftrightarrow>
     evp_cluster (vsc_plan scope) = vsc_cluster scope \<and> evp_assetIdentity (vsc_plan scope) = vsc_expectedAssetIdentity scope \<and>
     evp_instructions (vsc_plan scope) \<noteq> [] \<and> length (svt_bytes stx) \<le> 1232 \<and>
     (\<exists>prepared. pve_plan prepared = vsc_plan scope \<and> svt_lastValidBlockHeight stx = pve_lastValidBlockHeight prepared \<and>
        signed_by_payer w (vsc_fee scope) owner (evp_instructions (vsc_plan scope)) prepared (svt_bytes stx)) \<and>
     (\<exists>t. vw_decode w (svt_bytes stx) = Inr t \<and> has_signature t owner \<and> vw_getSignatureFromTransaction w t = Inr (svt_signature stx))"

lemma expected_plan: "assertExpectedPlan plan cluster identity = Inr () \<Longrightarrow> evp_cluster plan = cluster \<and> evp_assetIdentity plan = identity"
  by (auto simp: assertExpectedPlan_def Let_def split: if_splits)

lemma wp_signVaultPlan:
  "wp (signVaultPlan w scope owner candidate) (\<lambda>r _. \<forall>stx. r = Inr stx \<longrightarrow> plan_signed w scope owner stx) s"
  unfolding signVaultPlan_def
proof (intro wp_bind wp_lift result_case_I wp_mono[OF wp_choose_prepared] wp_mono[OF wp_signing] wp_if wp_throw wp_return, goal_cases)
  case (9 a instructions r u prepared r2 u2 bs a2 t signature)
  then show ?case
    using expected_plan[of "vsc_plan scope" "vsc_cluster scope" "vsc_expectedAssetIdentity scope"]
    by (auto simp: plan_signed_def planInstructions_def assertVaultTransactionFits_def SOLANA_TRANSACTION_SIZE_LIMIT_BYTES_def
        split: if_splits)
qed simp_all

text \<open>C15. What is signed is the plan. When \<^verbatim>\<open>signVaultPlan\<close> returns, the plan targets the expected cluster and mints and has
  instructions; the bytes fit a Solana transaction and decode to one that carries the wallet's signature and the returned
  signature; they come from a message made of the plan's own instructions, whose fee payer is the wallet or the sponsor; and when
  a sponsor pays, its signature is there too and its service returned the very message the wallet had signed, so a
  paymaster cannot change what the wallet agreed to.\<close>

theorem signed_plan_is_intact:
  assumes "signVaultPlan w scope owner candidate s = (Inr stx, s')"
  shows "evp_cluster (vsc_plan scope) = vsc_cluster scope \<and> evp_assetIdentity (vsc_plan scope) = vsc_expectedAssetIdentity scope \<and>
    evp_instructions (vsc_plan scope) \<noteq> [] \<and> length (svt_bytes stx) \<le> 1232 \<and>
    (\<exists>prepared t. pve_plan prepared = vsc_plan scope \<and> svt_lastValidBlockHeight stx = pve_lastValidBlockHeight prepared \<and>
      vw_decode w (svt_bytes stx) = Inr t \<and> has_signature t owner \<and> vw_getSignatureFromTransaction w t = Inr (svt_signature stx) \<and>
      (case vsc_fee scope of
         Sponsored sponsor \<Rightarrow> has_signature t sponsor \<and>
           (\<exists>ownerSigned. signed_over w (vault_message sponsor (evp_instructions (vsc_plan scope)) prepared [owner]) ownerSigned \<and>
              kt_messageBytes t = kt_messageBytes ownerSigned)
       | WalletPays \<Rightarrow>
           (\<exists>walletSigned. signed_over w (vault_message owner (evp_instructions (vsc_plan scope)) prepared [owner]) walletSigned \<and>
              svt_bytes stx = vw_encode w walletSigned)))"
proof -
  have signed: "plan_signed w scope owner stx" using wpD[OF wp_signVaultPlan assms] by blast
  then obtain prepared t where t: "pve_plan prepared = vsc_plan scope" "svt_lastValidBlockHeight stx = pve_lastValidBlockHeight prepared"
    "signed_by_payer w (vsc_fee scope) owner (evp_instructions (vsc_plan scope)) prepared (svt_bytes stx)"
    "vw_decode w (svt_bytes stx) = Inr t" "has_signature t owner" "vw_getSignatureFromTransaction w t = Inr (svt_signature stx)"
    unfolding plan_signed_def by blast
  then show ?thesis
    using signed unfolding plan_signed_def
    by (intro conjI exI[of _ prepared] exI[of _ t])
      (auto simp: signed_by_payer_def sponsored_bytes_def split: VaultFeeMode.splits)
qed

text \<open>A sponsored plan.\<close>

definition sample_scope :: vault_scope where
  "sample_scope = \<lparr>vsc_cluster = Devnet, vsc_deadline = \<lparr>vd_timeoutMs = 20000, vd_expiresAt = 21000\<rparr>,
     vsc_expectedAssetIdentity = \<lparr>eva_depositTokenMint = ''usdc'', eva_shareMint = ''shr''\<rparr>,
     vsc_plan = sample_plan\<lparr>evp_instructions := [\<lparr>evi_programAddress = ''prog'', evi_accounts = [], evi_data = ''AQ==''\<rparr>]\<rparr>,
     vsc_rpcUrl = ''rpc'', vsc_fee = Sponsored ''payer''\<rparr>"

definition sample_signed :: SignedVaultTransaction where
  "sample_signed = \<lparr>svt_bytes = [3, 4], svt_signature = ''sig'', svt_lastValidBlockHeight = 100\<rparr>"

lemma sample_signing: "fst (signVaultPlan (sample_world None None) sample_scope ''src'' None sample_session) = Inr sample_signed"
  by code_simp

theorem signed_plan_is_intact_witness:
  "\<exists>t. vw_decode (sample_world None None) [3, 4] = Inr t \<and> has_signature t ''src'' \<and> has_signature t ''payer''"
proof -
  have "signVaultPlan (sample_world None None) sample_scope ''src'' None sample_session =
      (Inr sample_signed, snd (signVaultPlan (sample_world None None) sample_scope ''src'' None sample_session))"
    using sample_signing by (simp add: prod_eq_iff)
  from signed_plan_is_intact[OF this] show ?thesis
    by (auto simp: sample_scope_def sample_signed_def split: VaultFeeMode.splits)
qed

section \<open>The right chain\<close>

definition proven :: "vault_world \<Rightarrow> SolanaCluster \<Rightarrow> string \<Rightarrow> earn_session \<Rightarrow> bool" where
  "proven w cluster url s \<longleftrightarrow> url \<noteq> [] \<and> (case live_proof cluster url s of
     Some genesis \<Rightarrow> genesis = GENESIS_HASH_BY_CLUSTER cluster
   | None \<Rightarrow> fst (vw_getGenesisHash w url s) = Inr (GENESIS_HASH_BY_CLUSTER cluster))"

lemma endpoint_proven:
  "wp (assertClusterEndpoint w cluster url) (\<lambda>r _. r = Inr () \<longrightarrow> proven w cluster url s) s"
  by (auto simp: wp_def assertClusterEndpoint_def observe_genesis_def proven_def Let_def io_bind_def io_catch_def io_get_def io_modify_def
      io_return_def io_throw_def split: option.splits sum.splits prod.splits if_splits)

text \<open>C30. Nothing is sent to the wrong chain. A broadcast puts bytes on the wire only when the endpoint is configured and was
  proved to serve the cluster: its genesis hash, asked for now or remembered from a proof that has not expired, is the
  cluster's. An endpoint that cannot be asked, or answers another genesis, gets nothing.\<close>

theorem broadcast_only_to_proven_endpoint:
  assumes "world_ok w" and "broadcastVaultTransaction w cluster deadline bs url s = (r, s')"
    and "es_broadcasts s' \<noteq> es_broadcasts s"
  shows "url \<noteq> [] \<and> (case live_proof cluster url s of
      Some genesis \<Rightarrow> genesis = GENESIS_HASH_BY_CLUSTER cluster
    | None \<Rightarrow> fst (vw_getGenesisHash w url s) = Inr (GENESIS_HASH_BY_CLUSTER cluster))"
proof (rule ccontr)
  assume "\<not> ?thesis"
  then have np: "\<not> proven w cluster url s" by (simp add: proven_def)
  have "wp (verifyVaultRpc w cluster deadline url) (\<lambda>r _. r \<noteq> Inr ()) s"
  proof (rule wpI)
    fix r s' assume "verifyVaultRpc w cluster deadline url s = (r, s')"
    then show "r \<noteq> Inr ()"
      using wpD[OF endpoint_proven, of w cluster url s] np
      by (cases "assertClusterEndpoint w cluster url s") (auto simp: verifyVaultRpc_def deadline_run_def assertActive_def io_bind_def now_def
          io_get_def io_throw_def io_return_def split: if_splits)
  qed
  then obtain e s1 where "verifyVaultRpc w cluster deadline url s = (Inl e, s1)"
    by (cases "verifyVaultRpc w cluster deadline url s"; cases "fst (verifyVaultRpc w cluster deadline url s)") (auto simp: wp_def)
  then show False
    using assms(2,3) untouched_wire[OF staysD2[OF outside_endpoint(2)[OF assms(1)]]]
    by (auto simp: broadcastVaultTransaction_def io_bind_def)
qed

lemma sample_broadcast:
  "es_broadcasts (snd (broadcastVaultTransaction (sample_world None None) Devnet (vsc_deadline sample_scope) [9] ''rpc'' sample_session)) = [[9]]"
  by code_simp

theorem broadcast_only_to_proven_endpoint_witness:
  "(case live_proof Devnet ''rpc'' sample_session of
      Some genesis \<Rightarrow> genesis = GENESIS_HASH_BY_CLUSTER Devnet
    | None \<Rightarrow> fst (vw_getGenesisHash (sample_world None None) ''rpc'' sample_session) = Inr (GENESIS_HASH_BY_CLUSTER Devnet))"
  using broadcast_only_to_proven_endpoint[OF sample_world_ok, of None None Devnet "vsc_deadline sample_scope" "[9]" "''rpc''" sample_session]
    sample_broadcast by (metis (no_types, lifting) list.distinct(1) prod.collapse quiet_start_def sample_quiet)

section \<open>The outcome the chain reported\<close>

definition moved :: "string \<Rightarrow> EarnMovementStatus set \<Rightarrow> earn_session \<Rightarrow> earn_session \<Rightarrow> bool" where
  "moved i outcomes s s' \<longleftrightarrow> list_all2 (\<lambda>m m'. em_id m' = em_id m \<and>
     (em_status m' = em_status m \<or> em_id m = i \<and> em_status m' \<in> outcomes)) (es_movements s) (es_movements s')"

lemma moved_same: "es_movements s' = es_movements s \<Longrightarrow> moved i outcomes s s'"
  by (simp add: moved_def list_all2_conv_all_nth)

interpretation moves: effect_relation "moved i outcomes" for i outcomes
proof
  fix s s' s'' :: earn_session
  show "only_session s s' \<Longrightarrow> moved i outcomes s s'"
    by (rule moved_same) (use only_session_ledger in \<open>simp add: same_ledger_def\<close>)
  show "moved i outcomes s s' \<Longrightarrow> moved i outcomes s' s'' \<Longrightarrow> moved i outcomes s s''"
    unfolding moved_def by (erule (1) list_all2_trans[rotated]) auto
qed

lemma moves_update_movements:
  assumes "\<And>t m. M m \<Longrightarrow> em_id (f t m) = em_id m \<and> em_id m = i \<and> em_status (f t m) \<in> outcomes"
  shows "stays (moved i outcomes) (update_movements M f)"
proof -
  have "stays (moved i outcomes) (\<lambda>s. io_bind (put_movements (table_update M (f (sess_clock s)) (es_movements s)))
      (\<lambda>_. io_return (map_option (f (sess_clock s)) (find M (es_movements s)))) s)"
    using assms by (auto simp: stays_def put_movements_def io_bind_def io_return_def moves.refl moved_def table_update_def
        list_all2_conv_all_nth)
  then show ?thesis unfolding update_movements_def by (rule moves.stays_sql)
qed

lemma moves_update_positions: "stays (moved i outcomes) (update_positions M f)"
  unfolding update_positions_def
  by (intro moves.stays_sql) (auto simp: stays_def put_positions_def intro!: moved_same)

lemma moves_advance:
  assumes "avm_movementId input = i" "avm_toStatus input \<in> outcomes"
  shows "stays (moved i outcomes) (advanceVaultMovement input)"
  unfolding advanceVaultMovement_def Let_def record_outcome_def deactivatePosition_def activatePosition_def
    projectShareAccountRentFunder_def
  by (intro moves.stays_intros moves_update_positions moves_update_movements moves.stays_reads[OF earn_reads_only(1)])
    (use assms in \<open>auto simp: advanceable_def advanced_def\<close>)

lemma moves_advance_transaction:
  "toStatus \<in> outcomes \<Longrightarrow> stays (moved (em_id m) outcomes) (advanceTransaction m toStatus reason c t)"
  unfolding advanceTransaction_def by (intro moves.stays_intros moves_advance) simp_all

lemma moves_outside: "stays untouched op \<Longrightarrow> stays (moved i outcomes) op"
  by (simp add: stays_def moved_same untouched_def)

lemma moves_broadcast:
  assumes "world_ok w"
  shows "stays (moved i outcomes) (broadcastVaultTransaction w cluster d bs url)"
proof -
  have send: "stays (moved i outcomes) (send_bytes w url bs)"
    unfolding send_bytes_def
    by (intro moves.stays_bind moves_outside[OF world_calls(5)[OF assms]]) (simp add: stays_def io_modify_def moved_same)
  have "stays (moved i outcomes) (\<lambda>s. case send_bytes w url bs s of (r, s') \<Rightarrow>
      if sess_clock s' \<ge> vd_expiresAt d then (Inl (timeoutError d ''Broadcasting the vault transaction''), s') else (r, s'))"
    using send by (simp add: stays_def split_beta)
  then show ?thesis
    unfolding broadcastVaultTransaction_def deadline_run_def[of d "''Broadcasting the vault transaction''"] assertActive_def
    by (intro moves.stays_intros moves_outside[OF outside_endpoint(2)[OF assms]])
qed

text \<open>The outcomes a reconciliation may record, given what the chain answered.\<close>

definition reported :: "EarnMovementRow \<Rightarrow> SignatureStatusInfo option \<Rightarrow> int option \<Rightarrow> EarnMovementStatus \<Rightarrow> bool" where
  "reported m status height outcome = (case outcome of
     MvFailed \<Rightarrow> (case status of
         Some info \<Rightarrow> ssi_err info \<noteq> None
       | None \<Rightarrow> em_status m \<noteq> MvConfirmed \<and>
           (case (height, em_last_valid_block_height m) of (Some h, Some l) \<Rightarrow> h > l | _ \<Rightarrow> False))
   | MvFinalized \<Rightarrow> (case status of Some info \<Rightarrow> ssi_err info = None \<and> ssi_confirmationStatus info = Some Finalized | None \<Rightarrow> False)
   | MvConfirmed \<Rightarrow> (case status of Some info \<Rightarrow> ssi_err info = None \<and> ssi_confirmationStatus info = Some Confirmed | None \<Rightarrow> False)
   | MvSubmitted \<Rightarrow> em_status m = MvRequested \<and> (case status of Some info \<Rightarrow> ssi_err info = None | None \<Rightarrow> True)
   | _ \<Rightarrow> False)"

lemma reconcile_moves:
  assumes "world_ok w"
  shows "stays (moved (em_id m) {st. reported m status height st}) (reconcileMovement w m status cluster url height)"
proof (cases status)
  case (Some info)
  then show ?thesis
    unfolding reconcileMovement_def record_status_def vault_markSubmitted_def failMovement_def
    by (auto intro!: moves.stays_intros moves_advance_transaction simp: reported_def split: option.split commitment.split)
next
  case None
  then show ?thesis
    unfolding reconcileMovement_def rebroadcast_def vault_markSubmitted_def failMovement_def createVaultDeadline_def
    by (auto intro!: moves.stays_intros moves_advance_transaction moves_broadcast[OF assms] simp: reported_def split: option.split)
qed


text \<open>A movement whose transaction failed on chain.\<close>

definition sample_failure :: SignatureStatusInfo where
  "sample_failure = \<lparr>ssi_err = Some ''custom'', ssi_confirmationStatus = Some Confirmed\<rparr>"

definition sample_after :: earn_session where
  "sample_after = snd (reconcileMovement (sample_world None None) sample_movement (Some sample_failure) Devnet ''rpc'' None sample_deposited)"

lemma sample_after_rows: "map em_status (es_movements sample_after) = [MvFailed]"
  by code_simp


end
