(* ===== verification/Ip_Allowlist.thy ===== *)
theory Ip_Allowlist
  imports Idempotency
begin

text \<open>
  Where a request may come from (\<^verbatim>\<open>lib/ip-allowlist.ts\<close>, \<^verbatim>\<open>lib/client-ip.ts\<close>, \<^verbatim>\<open>lib/organization-ip-allowlist.ts\<close>): the
  reading of an IPv4 or IPv6 range, its canonical text, the match of a client against a list of ranges, the choice of the client's
  address from the forwarding header, and the organization's restriction. Of \<^verbatim>\<open>node:net\<close> the model has \<^verbatim>\<open>isIP\<close> and
  \<^verbatim>\<open>BlockList\<close>: addresses are numbers of 128 bits, IPv4 embedded below \<^verbatim>\<open>::ffff:0:0/96\<close>, as the block list compares them.
\<close>

unbundle bit_operations_syntax

section \<open>Reading a range\<close>

datatype IpType = Ipv4 | Ipv6

record ParsedIpRange =
  pir_address :: string
  pir_groups :: "nat list"
  pir_prefix :: nat
  pir_type :: IpType

text \<open>\<^verbatim>\<open>/^(0|[1-9]\d*)$/\<close>, and with at most three digits.\<close>

definition canonical_number :: "string \<Rightarrow> bool" where
  "canonical_number s \<longleftrightarrow> s = ''0'' \<or> s \<noteq> [] \<and> hd s \<noteq> CHR ''0'' \<and> list_all is_digit s"

definition octet_text :: "string \<Rightarrow> bool" where
  "octet_text s \<longleftrightarrow> canonical_number s \<and> length s \<le> 3"

fun read_octets :: "string list \<Rightarrow> nat list option" where
  "read_octets [] = Some []"
| "read_octets (part # parts) =
     (if \<not> octet_text part then None
      else let octet = digits_value part
           in if octet > 255 then None else map_option ((#) octet) (read_octets parts))"

definition parseIpv4Octets :: "string \<Rightarrow> nat list option" where
  "parseIpv4Octets address =
     (let parts = js_split (CHR ''.'') address in if length parts \<noteq> 4 then None else read_octets parts)"

definition hextet_text :: "string \<Rightarrow> bool" where
  "hextet_text s \<longleftrightarrow> 1 \<le> length s \<and> length s \<le> 4 \<and> list_all (\<lambda>c. radix_digit c \<noteq> None) s"

definition quad_hextets :: "nat list \<Rightarrow> nat list" where
  "quad_hextets octets = [push_bit 8 (octets ! 0) OR octets ! 1, push_bit 8 (octets ! 2) OR octets ! 3]"

fun toHextets :: "string list \<Rightarrow> nat list option" where
  "toHextets [] = Some []"
| "toHextets (part # parts) =
     (if CHR ''.'' \<in> set part then
        if parts \<noteq> [] then None
        else (case parseIpv4Octets part of None \<Rightarrow> None | Some octets \<Rightarrow> Some (quad_hextets octets))
      else if \<not> hextet_text part then None
      else case radix_value 16 0 part of
             None \<Rightarrow> None
           | Some hextet \<Rightarrow> map_option ((#) hextet) (toHextets parts))"

text \<open>The text before and after the first \<^verbatim>\<open>::\<close>.\<close>

fun split_elision :: "string \<Rightarrow> (string \<times> string) option" where
  "split_elision (c # d # r) =
     (if c = CHR '':'' \<and> d = CHR '':'' then Some ([], r)
      else map_option (\<lambda>(head, tail). (c # head, tail)) (split_elision (d # r)))"
| "split_elision _ = None"

definition group_texts :: "string \<Rightarrow> string list" where
  "group_texts t = (if length t > 0 then js_split (CHR '':'') t else [])"

definition parseIpv6Hextets :: "string \<Rightarrow> nat list option" where
  "parseIpv6Hextets address = (case split_elision address of
     None \<Rightarrow>
       (case toHextets (js_split (CHR '':'') address) of
          None \<Rightarrow> None
        | Some hextets \<Rightarrow> if length hextets = 8 then Some hextets else None)
   | Some (headText, tailText) \<Rightarrow>
       if split_elision (CHR '':'' # tailText) \<noteq> None then None
       else (case (toHextets (group_texts headText), toHextets (group_texts tailText)) of
           (Some head, Some tail) \<Rightarrow>
             (let elided = 8 - int (length head) - int (length tail)
              in if elided < 1 then None else Some (head @ replicate (nat elided) 0 @ tail))
         | _ \<Rightarrow> None))"

definition address_type :: "string \<Rightarrow> IpType" where
  "address_type address = (if CHR '':'' \<in> set address then Ipv6 else Ipv4)"

fun maximumPrefix :: "IpType \<Rightarrow> nat" where
  "maximumPrefix Ipv4 = 32"
| "maximumPrefix Ipv6 = 128"

fun read_groups :: "IpType \<Rightarrow> string \<Rightarrow> nat list option" where
  "read_groups Ipv4 address = parseIpv4Octets address"
| "read_groups Ipv6 address = parseIpv6Hextets address"

definition parseIpRange :: "string \<Rightarrow> ParsedIpRange option" where
  "parseIpRange value =
     (if length value = 0 \<or> value \<noteq> js_trim value then None
      else let segments = js_split (CHR ''/'') value
      in if length segments > 2 then None
      else let address = segments ! 0
      in if CHR ''%'' \<in> set address then None
      else let type = address_type address
      in case read_groups type address of
           None \<Rightarrow> None
         | Some groups \<Rightarrow>
             if length segments = 1
             then Some \<lparr>pir_address = address, pir_groups = groups, pir_prefix = maximumPrefix type, pir_type = type\<rparr>
             else let rawPrefix = segments ! 1
             in if \<not> canonical_number rawPrefix then None
             else let prefix = digits_value rawPrefix
             in if prefix > maximumPrefix type then None
                else Some \<lparr>pir_address = address, pir_groups = groups, pir_prefix = prefix, pir_type = type\<rparr>)"

definition isValidIpAllowlistEntry :: "string \<Rightarrow> bool" where
  "isValidIpAllowlistEntry value \<longleftrightarrow> parseIpRange value \<noteq> None"

section \<open>Canonical text\<close>

text \<open>All values here are below \<open>2 ^ 31\<close>, so the 32-bit shifts of the language do not wrap.\<close>

definition mask_group :: "nat \<Rightarrow> nat \<Rightarrow> nat \<Rightarrow> nat \<Rightarrow> nat" where
  "mask_group bitsPerGroup prefix index g =
     (let width = push_bit bitsPerGroup 1 - 1;
          significant = min (max (prefix - index * bitsPerGroup) 0) bitsPerGroup
      in if significant = 0 then 0 else g AND (push_bit (bitsPerGroup - significant) width AND width))"

definition maskGroups :: "nat list \<Rightarrow> nat \<Rightarrow> nat \<Rightarrow> nat list" where
  "maskGroups groups bitsPerGroup prefix =
     map (\<lambda>(index, g). mask_group bitsPerGroup prefix index g) (enumerate 0 groups)"

text \<open>\<^verbatim>\<open>hextet.toString(16)\<close>.\<close>

fun hex_text :: "nat \<Rightarrow> string" where
  "hex_text n = (if n < 16 then [hex_char n] else hex_text (n div 16) @ [hex_char (n mod 16)])"

declare hex_text.simps [simp del]

text \<open>The loop that finds the longest run of zeros: the best run so far, and where the current run started.\<close>

fun close_run :: "nat \<Rightarrow> nat \<times> nat \<Rightarrow> nat option \<Rightarrow> nat \<times> nat" where
  "close_run index (bestStart, bestLength) None = (bestStart, bestLength)"
| "close_run index (bestStart, bestLength) (Some runStart) =
     (if index - runStart > bestLength then (runStart, index - runStart) else (bestStart, bestLength))"

fun scan_runs :: "nat \<Rightarrow> nat list \<Rightarrow> nat \<times> nat \<Rightarrow> nat option \<Rightarrow> nat \<times> nat" where
  "scan_runs index [] best runStart = close_run index best runStart"
| "scan_runs index (hextet # hextets) best runStart =
     (if hextet = 0 then scan_runs (Suc index) hextets best (if runStart = None then Some index else runStart)
      else scan_runs (Suc index) hextets (close_run index best runStart) None)"

definition formatIpv6 :: "nat list \<Rightarrow> string" where
  "formatIpv6 hextets =
     (let (bestStart, bestLength) = scan_runs 0 hextets (0, 0) None;
          groups = map hex_text hextets
      in if bestLength < 2 then js_join '':'' groups
         else js_join '':'' (take bestStart groups) @ ''::'' @ js_join '':'' (drop (bestStart + bestLength) groups))"

definition isIpv4Mapped :: "nat list \<Rightarrow> bool" where
  "isIpv4Mapped hextets \<longleftrightarrow> list_all (\<lambda>hextet. hextet = 0) (take 5 hextets) \<and> hextets ! 5 = 65535"

definition formatRange :: "string \<Rightarrow> nat \<Rightarrow> nat \<Rightarrow> string" where
  "formatRange address prefix maximum = (if prefix = maximum then address else address @ ''/'' @ dec_digits prefix)"

definition mapped_octets :: "nat list \<Rightarrow> nat list" where
  "mapped_octets masked = [drop_bit 8 (masked ! 6), masked ! 6 AND 255, drop_bit 8 (masked ! 7), masked ! 7 AND 255]"

definition canonicalizeIpAllowlistEntry :: "string \<Rightarrow> string option" where
  "canonicalizeIpAllowlistEntry value = (case parseIpRange value of
     None \<Rightarrow> None
   | Some parsed \<Rightarrow>
       (case pir_type parsed of
          Ipv4 \<Rightarrow> Some (formatRange (js_join ''.'' (map dec_digits (maskGroups (pir_groups parsed) 8 (pir_prefix parsed))))
                    (pir_prefix parsed) 32)
        | Ipv6 \<Rightarrow>
            (let masked = maskGroups (pir_groups parsed) 16 (pir_prefix parsed)
             in if pir_prefix parsed \<ge> 96 \<and> isIpv4Mapped masked
                then Some (formatRange (js_join ''.'' (map dec_digits (mapped_octets masked))) (pir_prefix parsed - 96) 32)
                else Some (formatRange (formatIpv6 masked) (pir_prefix parsed) 128))))"

section \<open>Matching a client\<close>

text \<open>\<^verbatim>\<open>node:net\<close>. The addresses it reads are those above, except that a dotted quad may only end an address; \<^verbatim>\<open>isIP\<close> also
  accepts a zone after an IPv6 address.\<close>

definition node_inet6 :: "string \<Rightarrow> nat list option" where
  "node_inet6 address = (case split_elision address of
     None \<Rightarrow> parseIpv6Hextets address
   | Some (headText, tailText) \<Rightarrow> if CHR ''.'' \<in> set headText then None else parseIpv6Hextets address)"

fun node_inet :: "IpType \<Rightarrow> string \<Rightarrow> nat list option" where
  "node_inet Ipv4 address = parseIpv4Octets address"
| "node_inet Ipv6 address = node_inet6 address"

definition zone_char :: "char \<Rightarrow> bool" where
  "zone_char c \<longleftrightarrow> (let n = (of_char c :: nat) in is_digit c \<or> 65 \<le> n \<and> n \<le> 90 \<or> 97 \<le> n \<and> n \<le> 122 \<or> c \<in> set ''-.:'')"

definition node_zone_ok :: "string \<Rightarrow> bool" where
  "node_zone_ok zone \<longleftrightarrow> (case zone of [] \<Rightarrow> True | _ # name \<Rightarrow> name \<noteq> [] \<and> list_all zone_char name)"

definition isIP :: "string \<Rightarrow> nat" where
  "isIP value =
     (if parseIpv4Octets value \<noteq> None then 4
      else if node_inet6 (takeWhile (\<lambda>c. c \<noteq> CHR ''%'') value) \<noteq> None \<and>
          node_zone_ok (dropWhile (\<lambda>c. c \<noteq> CHR ''%'') value) then 6
      else 0)"

definition clientIpType :: "string \<Rightarrow> IpType option" where
  "clientIpType value = (if isIP value = 4 then Some Ipv4 else if isIP value = 6 then Some Ipv6 else None)"

text \<open>An address as a number of 128 bits, and a subnet of the block list with its prefix counted in them.\<close>

fun groups_value :: "nat \<Rightarrow> nat list \<Rightarrow> nat" where
  "groups_value b [] = 0"
| "groups_value b (g # gs) = g * 2 ^ (b * length gs) + groups_value b gs"

fun address_value :: "IpType \<Rightarrow> nat list \<Rightarrow> nat" where
  "address_value Ipv4 octets = 65535 * 2 ^ 32 + groups_value 8 octets"
| "address_value Ipv6 hextets = groups_value 16 hextets"

fun full_prefix :: "IpType \<Rightarrow> nat \<Rightarrow> nat" where
  "full_prefix Ipv4 prefix = 96 + prefix"
| "full_prefix Ipv6 prefix = prefix"

type_synonym block_list = "(nat \<times> nat) list"

definition addSubnet :: "block_list \<Rightarrow> string \<Rightarrow> nat \<Rightarrow> IpType \<Rightarrow> block_list option" where
  "addSubnet rules address prefix type = (case node_inet type address of
     None \<Rightarrow> None
   | Some groups \<Rightarrow> Some (rules @ [(address_value type groups, full_prefix type prefix)]))"

definition in_network :: "nat \<Rightarrow> nat \<times> nat \<Rightarrow> bool" where
  "in_network address rule = (case rule of (network, prefix) \<Rightarrow> address div 2 ^ (128 - prefix) = network div 2 ^ (128 - prefix))"

definition block_list_check :: "block_list \<Rightarrow> string \<Rightarrow> IpType \<Rightarrow> bool" where
  "block_list_check rules address type = (case node_inet type address of
     None \<Rightarrow> False
   | Some groups \<Rightarrow> list_ex (in_network (address_value type groups)) rules)"

text \<open>The loop over the entries: \<open>None\<close> when it returns \<^verbatim>\<open>false\<close>, or throws and the handler does.\<close>

fun add_entries :: "block_list \<Rightarrow> json list \<Rightarrow> block_list option" where
  "add_entries rules [] = Some rules"
| "add_entries rules (entry # entries) = (case entry of
     JStr t \<Rightarrow>
       (case parseIpRange t of
          None \<Rightarrow> None
        | Some parsed \<Rightarrow>
            (case addSubnet rules (pir_address parsed) (pir_prefix parsed) (pir_type parsed) of
               None \<Rightarrow> None
             | Some rules' \<Rightarrow> add_entries rules' entries))
   | _ \<Rightarrow> None)"

text \<open>\<^verbatim>\<open>allowedIps\<close> is \<open>None\<close> when it is undefined.\<close>

definition isClientIpAllowed :: "string option \<Rightarrow> json option \<Rightarrow> bool" where
  "isClientIpAllowed clientIp allowedIps = (case allowedIps of
     None \<Rightarrow> True
   | Some JNull \<Rightarrow> True
   | Some (JArr entries) \<Rightarrow>
       if entries = [] then True
       else (case clientIp of
           None \<Rightarrow> False
         | Some client \<Rightarrow>
             if client = [] \<or> CHR ''%'' \<in> set client then False
             else (case clientIpType client of
                 None \<Rightarrow> False
               | Some clientType \<Rightarrow>
                   (case add_entries [] entries of
                      None \<Rightarrow> False
                    | Some blockList \<Rightarrow> block_list_check blockList client clientType)))
   | _ \<Rightarrow> False)"

section \<open>The client's address\<close>

definition parseForwardedFor :: "string option \<Rightarrow> string list" where
  "parseForwardedFor value = (case value of
     None \<Rightarrow> []
   | Some v \<Rightarrow> if v = [] then [] else filter (\<lambda>entry. isIP entry \<noteq> 0) (map js_trim (js_split (CHR '','') v)))"

text \<open>\<open>K_SERVICE\<close> is set on Cloud Run.\<close>

definition resolveClientIp :: "string option \<Rightarrow> string option \<Rightarrow> string option" where
  "resolveClientIp forwardedFor K_SERVICE =
     (let forwarded = parseForwardedFor forwardedFor
      in if length forwarded = 0 then None
         else if K_SERVICE \<noteq> None \<and> K_SERVICE \<noteq> Some []
         then (if length forwarded \<ge> 2 then Some (forwarded ! (length forwarded - 2)) else None)
         else Some (forwarded ! 0))"

section \<open>The organization's restriction\<close>

text \<open>\<open>parse\<close> is \<^verbatim>\<open>parsePostgresJson\<close>, which reads the column's JSON text.\<close>

record ip_session = session +
  ips_organizations :: "(string \<times> string option) list"

definition readAllowedIpAddresses :: "(string \<Rightarrow> (api_error, json) result) \<Rightarrow> string option \<Rightarrow> (api_error, json option) result" where
  "readAllowedIpAddresses parse settings = (case settings of
     None \<Rightarrow> Inr None
   | Some t \<Rightarrow>
       if t = [] then Inr None
       else result_bind (parse t) (\<lambda>parsed. case parsed of
         JObj entries \<Rightarrow> Inr (json_field entries ''allowedIpAddresses'')
       | _ \<Rightarrow> Inr None))"

definition enforceOrganizationIpAllowlist ::
  "(string \<Rightarrow> (api_error, json) result) \<Rightarrow> string option \<Rightarrow> string \<Rightarrow> (ip_session, api_error, unit) io" where
  "enforceOrganizationIpAllowlist parse clientIp organizationId =
     io_bind (sql (io_get (\<lambda>s. map_of (ips_organizations s) organizationId))) (\<lambda>row.
     case row of
       None \<Rightarrow> io_return ()
     | Some settings \<Rightarrow>
         (case readAllowedIpAddresses parse settings of
            Inl error \<Rightarrow> io_return ()
          | Inr allowedIpAddresses \<Rightarrow>
              if isClientIpAllowed clientIp allowedIpAddresses then io_return ()
              else io_throw (forbidden ''Request origin is not allowed for this organization'')))"

end
