(* ===== verification/Ip_Enforcement.thy ===== *)
theory Ip_Enforcement
  imports Ip_Ranges
begin

text \<open>
  The guarantees of the IP allowlist: every parsed entry is well formed and canonicalizing it gives an entry the matcher reads;
  the printed address reads back; the canonical list admits the same clients; an enforced restriction admits only clients of
  its networks; behind the load balancer a caller's own header cannot choose the address that is judged.
\<close>

section \<open>Sample entries and clients\<close>

lemmas reading_simps = parseIpRange_def Let_def js_trim_def js_space_def address_type_def parseIpv6Hextets_def group_texts_def
  hextet_text_def radix_digit_def parseIpv4Octets_def octet_text_def canonical_number_def is_digit_def quad_hextets_def
  push_bit_eq_mult char_digit_def

lemma sample_subnet:
  "parseIpRange ''203.0.113.5/24'' =
     Some \<lparr>pir_address = ''203.0.113.5'', pir_groups = [203, 0, 113, 5], pir_prefix = 24, pir_type = Ipv4\<rparr>"
  "canonicalizeIpAllowlistEntry ''203.0.113.5/24'' = Some ''203.0.113.0/24''"
  "entry_rule ''203.0.113.5/24'' = Some (281474087547141, 120)"
  "entry_rule ''203.0.113.0/24'' = Some (281474087547136, 120)"
proof -
  show p: "parseIpRange ''203.0.113.5/24'' =
     Some \<lparr>pir_address = ''203.0.113.5'', pir_groups = [203, 0, 113, 5], pir_prefix = 24, pir_type = Ipv4\<rparr>" by code_simp
  show "canonicalizeIpAllowlistEntry ''203.0.113.5/24'' = Some ''203.0.113.0/24''" by code_simp
  have "parseIpv4Octets ''203.0.113.5'' = Some [203, 0, 113, 5]" "parseIpv4Octets ''203.0.113.0'' = Some [203, 0, 113, 0]" by code_simp+
  moreover have "parseIpRange ''203.0.113.0/24'' =
     Some \<lparr>pir_address = ''203.0.113.0'', pir_groups = [203, 0, 113, 0], pir_prefix = 24, pir_type = Ipv4\<rparr>" by code_simp
  ultimately show "entry_rule ''203.0.113.5/24'' = Some (281474087547141, 120)" "entry_rule ''203.0.113.0/24'' = Some (281474087547136, 120)"
    using p by (simp_all add: entry_rule_def)
qed

lemma sample_mapped:
  "canonicalizeIpAllowlistEntry ''::FFFF:10.1.2.3/104'' = Some ''10.0.0.0/8''"
  "entry_rule ''::FFFF:10.1.2.3/104'' = Some (281470849581571, 104)"
proof -
  have five: "replicate 5 0 = [0, 0, 0, 0, 0 :: nat]" by (simp add: numeral_eq_Suc)
  have p: "parseIpRange ''::FFFF:10.1.2.3/104'' =
      Some \<lparr>pir_address = ''::FFFF:10.1.2.3'', pir_groups = [0, 0, 0, 0, 0, 65535, 2561, 515], pir_prefix = 104, pir_type = Ipv6\<rparr>"
    by (simp add: reading_simps five)
  show "canonicalizeIpAllowlistEntry ''::FFFF:10.1.2.3/104'' = Some ''10.0.0.0/8''"
    by (simp add: canonicalizeIpAllowlistEntry_def p maskGroups_def mask_group_def Let_def push_bit_eq_mult isIpv4Mapped_def
        formatRange_def mapped_octets_def drop_bit_eq_div dec_digits.simps digit_char_def) code_simp
  have "node_inet6 ''::FFFF:10.1.2.3'' = Some [0, 0, 0, 0, 0, 65535, 2561, 515]"
    by (simp add: node_inet6_def reading_simps five)
  then show "entry_rule ''::FFFF:10.1.2.3/104'' = Some (281470849581571, 104)" by (simp add: entry_rule_def p)
qed

lemma sample_clients:
  "client_value ''10.9.9.9'' = Some 281470850107657" "client_value ''203.0.113.7'' = Some 281474087547143"
  "client_value ''203.0.114.7'' = Some 281474087547399"
proof -
  have "parseIpv4Octets ''10.9.9.9'' = Some [10, 9, 9, 9]" "parseIpv4Octets ''203.0.113.7'' = Some [203, 0, 113, 7]"
    "parseIpv4Octets ''203.0.114.7'' = Some [203, 0, 114, 7]" by code_simp+
  then show "client_value ''10.9.9.9'' = Some 281470850107657" "client_value ''203.0.113.7'' = Some 281474087547143"
    "client_value ''203.0.114.7'' = Some 281474087547399"
    by (simp_all add: client_value_def clientIpType_def isIP_def)
qed

section \<open>Entries\<close>

text \<open>C25. Every range that parses has the four octets or eight hextets of its family, each within its width, and a prefix within
  the family's bits; its canonical text exists, is again a valid entry, and is one that the block list reads.\<close>

theorem canonical_entry_is_well_formed:
  assumes "parseIpRange entry = Some r"
  shows "length (pir_groups r) = group_count (pir_type r) \<and> groups_ok (group_bits (pir_type r)) (pir_groups r) \<and>
    pir_prefix r \<le> maximumPrefix (pir_type r) \<and>
    (\<exists>c. canonicalizeIpAllowlistEntry entry = Some c \<and> isValidIpAllowlistEntry c \<and> add_entries [] [JStr c] \<noteq> None)"
proof -
  obtain c where c: "canonicalizeIpAllowlistEntry entry = Some c" "entry_rule c \<noteq> None" using canonical_valid[OF assms] .
  then have "isValidIpAllowlistEntry c" by (cases "parseIpRange c") (simp_all add: isValidIpAllowlistEntry_def entry_rule_def)
  moreover have "add_entries [] [JStr c] \<noteq> None" using c(2) by (auto simp: add_entries_step simp del: add_entries.simps(2))
  ultimately show ?thesis using c parseIpRange_ok[OF assms] read_groups_ok by blast
qed

theorem canonical_entry_is_well_formed_witness:
  "isValidIpAllowlistEntry ''203.0.113.5/24'' \<and> canonicalizeIpAllowlistEntry ''203.0.113.5/24'' = Some ''203.0.113.0/24'' \<and>
   add_entries [] [JStr ''203.0.113.0/24''] \<noteq> None"
  using canonical_entry_is_well_formed[OF sample_subnet(1)] sample_subnet(1,2) by (auto simp: isValidIpAllowlistEntry_def)

text \<open>C26. The compressed text of an IPv6 address reads back as the address it was printed from: whichever run of zeros is
  elided, the number of elided groups is recovered.\<close>

theorem ipv6_text_reads_back:
  assumes "length hs = 8" "\<forall>h\<in>set hs. h < 2 ^ 16"
  shows "parseIpv6Hextets (formatIpv6 hs) = Some hs"
  using parse_formatIpv6[of hs] assms by (simp add: groups_ok_def)

theorem ipv6_text_reads_back_witness:
  "formatIpv6 [8193, 3512, 0, 0, 1, 0, 0, 1] = ''2001:db8::1:0:0:1'' \<and>
   parseIpv6Hextets ''2001:db8::1:0:0:1'' = Some [8193, 3512, 0, 0, 1, 0, 0, 1]"
proof -
  have "formatIpv6 [8193, 3512, 0, 0, 1, 0, 0, 1] = ''2001:db8::1:0:0:1''"
    by (simp add: formatIpv6_def hex_text.simps hex_char_def) code_simp
  then show ?thesis using ipv6_text_reads_back[of "[8193, 3512, 0, 0, 1, 0, 0, 1]"] by simp
qed

section \<open>Lists\<close>

definition canonical_list :: "string list \<Rightarrow> json list" where
  "canonical_list es = map (\<lambda>e. JStr (the (canonicalizeIpAllowlistEntry e))) es"

lemma canonical_json_rule:
  assumes "entry_rule e = Some (n, q)"
  shows "json_rule (JStr (the (canonicalizeIpAllowlistEntry e))) = Some (clear_low (128 - q) n, q)"
  using canonical_rule[OF assms] by (metis json_rule_JStr option.sel)



text \<open>C27. A list that holds an entry with a dotted quad before \<^verbatim>\<open>::\<close> admits nobody, though the entry passes the validation of
  stored lists: the block list does not read such an address.\<close>

theorem quad_before_elision_denies_all:
  "isValidIpAllowlistEntry ''1.2.3.4::'' \<and>
   \<not> isClientIpAllowed client (Some (JArr (before @ JStr ''1.2.3.4::'' # after)))"
proof -
  have "parseIpRange ''1.2.3.4::'' =
      Some \<lparr>pir_address = ''1.2.3.4::'', pir_groups = [258, 772, 0, 0, 0, 0, 0, 0], pir_prefix = 128, pir_type = Ipv6\<rparr>" by code_simp
  moreover have "node_inet6 ''1.2.3.4::'' = None" by code_simp
  ultimately have "isValidIpAllowlistEntry ''1.2.3.4::''" "entry_rule ''1.2.3.4::'' = None"
    by (simp_all add: isValidIpAllowlistEntry_def entry_rule_def)
  then show ?thesis using allowed_iff[of "before @ JStr ''1.2.3.4::'' # after" client] by simp
qed

section \<open>Requests\<close>

lemma js_split_last_two:
  assumes "d \<notin> set a" "d \<notin> set b"
  shows "js_split d (p @ d # a @ d # b) = js_split d p @ [a, b]"
  using assms
proof (induction p)
  case (Cons c p)
  then show ?case by (cases "js_split d p") auto
qed (simp add: js_split_append js_split_no_sep)

text \<open>C24. Behind the load balancer the client's address is the next-to-last entry of the forwarding header, whatever the caller put
  before it: for every caller-supplied prefix the address judged is the one the balancer appended.\<close>

theorem forwarded_prefix_ignored:
  assumes "CHR '','' \<notin> set a" "CHR '','' \<notin> set b" "isIP (js_trim a) \<noteq> 0" "isIP (js_trim b) \<noteq> 0" "service \<noteq> []"
  shows "resolveClientIp (Some (prefix @ CHR '','' # a @ CHR '','' # b)) (Some service) = Some (js_trim a)"
  using assms by (simp add: resolveClientIp_def parseForwardedFor_def js_split_last_two nth_append)

theorem forwarded_prefix_ignored_witness:
  "resolveClientIp (Some ''10.0.0.1, 203.0.113.7, 35.191.0.1'') (Some ''sdp-api'') = Some ''203.0.113.7''"
proof -
  have "isIP (js_trim '' 203.0.113.7'') \<noteq> 0" "isIP (js_trim '' 35.191.0.1'') \<noteq> 0" "js_trim '' 203.0.113.7'' = ''203.0.113.7''"
    by code_simp+
  then show ?thesis
    using forwarded_prefix_ignored[of "'' 203.0.113.7''" "'' 35.191.0.1''" "''sdp-api''" "''10.0.0.1''"] by simp
qed

text \<open>C22. When the organization's settings carry a non-empty restriction, a request gets through only if every entry of it is a
  range the matcher reads and the client's address lies in the network of one of them; the check changes nothing it read.\<close>

theorem organization_restriction_enforced:
  assumes "map_of (ips_organizations s) organizationId = Some (Some settings)" "settings \<noteq> []"
    and "parse settings = Inr (JObj fs)" "json_field fs ''allowedIpAddresses'' = Some (JArr (e # es))"
    and "enforceOrganizationIpAllowlist parse clientIp organizationId s = (Inr (), s')"
  shows "ips_organizations s' = ips_organizations s \<and> (\<forall>j\<in>set (e # es). json_rule j \<noteq> None) \<and>
    (\<exists>c v j rule. clientIp = Some c \<and> client_value c = Some v \<and> CHR ''%'' \<notin> set c \<and>
      j \<in> set (e # es) \<and> json_rule j = Some rule \<and> in_network v rule)"
proof -
  have read: "readAllowedIpAddresses parse (Some settings) = Inr (Some (JArr (e # es)))"
    using assms(2-4) by (simp add: readAllowedIpAddresses_def result_bind_def)
  have "isClientIpAllowed clientIp (Some (JArr (e # es))) \<and> ips_organizations s' = ips_organizations s"
    using assms(1,5) read
    by (auto simp: enforceOrganizationIpAllowlist_def io_bind_def io_get_def io_return_def io_throw_def sql_def split: list.splits if_splits)
  then show ?thesis using allowed_iff[of "e # es" clientIp] by blast
qed

definition restricted_session :: ip_session where
  "restricted_session = \<lparr>sess_faults = [], sess_clock = 0, sess_uuid = (\<lambda>n. []), sess_uuid_next = 0,
     ips_organizations = [(''org'', Some ''json'')]\<rparr>"

definition restricted_settings :: "string \<Rightarrow> (api_error, json) result" where
  "restricted_settings t = Inr (JObj [(''allowedIpAddresses'', JArr [JStr ''203.0.113.0/24''])])"

theorem organization_restriction_enforced_witness:
  "enforceOrganizationIpAllowlist restricted_settings (Some ''203.0.113.7'') ''org'' restricted_session = (Inr (), restricted_session) \<and>
   fst (enforceOrganizationIpAllowlist restricted_settings (Some ''203.0.114.7'') ''org'' restricted_session) \<noteq> Inr () \<and>
   (\<exists>v rule. client_value ''203.0.113.7'' = Some v \<and> json_rule (JStr ''203.0.113.0/24'') = Some rule \<and> in_network v rule)"
proof -
  have org: "map_of (ips_organizations restricted_session) ''org'' = Some (Some ''json'')" by (simp add: restricted_session_def)
  have allowed: "isClientIpAllowed (Some ''203.0.113.7'') (Some (JArr [JStr ''203.0.113.0/24'']))"
    and denied: "\<not> isClientIpAllowed (Some ''203.0.114.7'') (Some (JArr [JStr ''203.0.113.0/24'']))"
    by (simp_all add: allowed_iff sample_subnet sample_clients in_network_def)
  have read: "readAllowedIpAddresses restricted_settings (Some ''json'') = Inr (Some (JArr [JStr ''203.0.113.0/24'']))" by code_simp
  have run: "enforceOrganizationIpAllowlist restricted_settings (Some ''203.0.113.7'') ''org'' restricted_session = (Inr (), restricted_session)"
    "fst (enforceOrganizationIpAllowlist restricted_settings (Some ''203.0.114.7'') ''org'' restricted_session) \<noteq> Inr ()"
    using allowed denied read org
    by (simp_all add: enforceOrganizationIpAllowlist_def io_bind_def io_get_def io_return_def io_throw_def sql_def restricted_session_def)
  show ?thesis
    using organization_restriction_enforced[OF org, of restricted_settings "[(''allowedIpAddresses'', JArr [JStr ''203.0.113.0/24''])]"
        "JStr ''203.0.113.0/24''" "[]" "Some ''203.0.113.7''" restricted_session] run
    by (simp add: restricted_settings_def json_field_def)
qed

end
