(* ===== verification/Recurring_Lifecycle.thy ===== *)
theory Recurring_Lifecycle
  imports Runtime
begin

text \<open>
  The decisions of recurring payments (\<^verbatim>\<open>packages/sdp-payments/src/recurring-payment-lifecycle.ts\<close>): when an interrupted
  operation may be taken over, which operation may start from which status, and when the next collection
  falls due. A date text is the instant it reads as, or \<open>None\<close> when it reads as no date (\<^verbatim>\<open>NaN\<close>); a computed
  instant outside the language's range of dates is no date either, and printing one throws.
\<close>

section \<open>Dates\<close>

type_synonym date_text = "timestamp option"

definition time_clip :: "timestamp \<Rightarrow> date_text" where
  "time_clip t = (if \<bar>t\<bar> \<le> 8640000000000000 then Some t else None)"

definition range_error :: api_error where
  "range_error = PlainError ''Invalid time value''"

text \<open>\<^verbatim>\<open>new Date(value).toISOString()\<close>.\<close>

definition toISOString :: "date_text \<Rightarrow> (api_error, timestamp) result" where
  "toISOString d = (case d of None \<Rightarrow> Inl range_error | Some t \<Rightarrow> Inr t)"

definition date_shift :: "date_text \<Rightarrow> int \<Rightarrow> date_text" where
  "date_shift d ms = Option.bind d (\<lambda>t. time_clip (t + ms))"

text \<open>Comparisons with \<^verbatim>\<open>NaN\<close> are false.\<close>

definition date_less :: "date_text \<Rightarrow> date_text \<Rightarrow> bool" where
  "date_less a b = (case (a, b) of (Some s, Some t) \<Rightarrow> s < t | _ \<Rightarrow> False)"

section \<open>Statuses\<close>

datatype PaymentRecurringPaymentStatus =
    PendingActivation | Activating | RpActive | Updating | Canceling | Resuming | RpPaused | RpCanceled | RpExpired

datatype RecurringPaymentLifecycleOperation = OpCancel | OpResume

datatype RecurringPaymentTransition = AlreadyFinal | Claimable | Recoverable | InProcess | InvalidTransition

datatype RecurringPaymentScheduleResolution =
    Scheduled (nextCollectionDueAt: date_text) (minimumDueAt: timestamp) (clamped: bool)
  | TooEarly (earliestDueAt: timestamp)

section \<open>Taking over an interrupted operation\<close>

definition RECURRING_PAYMENT_OPERATION_STALE_AFTER_MS :: int where
  "RECURRING_PAYMENT_OPERATION_STALE_AFTER_MS = 15 * 60 * 1000"

definition getRecurringPaymentOperationStaleBefore :: "date_text \<Rightarrow> (api_error, timestamp) result" where
  "getRecurringPaymentOperationStaleBefore nowIso =
     toISOString (date_shift nowIso (- RECURRING_PAYMENT_OPERATION_STALE_AFTER_MS))"

definition isRecurringPaymentOperationStale :: "date_text \<Rightarrow> date_text \<Rightarrow> (api_error, bool) result" where
  "isRecurringPaymentOperationStale updatedAt nowIso =
     result_bind (getRecurringPaymentOperationStaleBefore nowIso) (\<lambda>staleBefore.
       Inr (case updatedAt of None \<Rightarrow> False | Some t \<Rightarrow> t \<le> staleBefore))"

record lifecycle_statuses =
  processingStatus :: PaymentRecurringPaymentStatus
  claimableStatus :: PaymentRecurringPaymentStatus
  finalStatus :: PaymentRecurringPaymentStatus

fun getRecurringPaymentLifecycleStatuses :: "RecurringPaymentLifecycleOperation \<Rightarrow> lifecycle_statuses" where
  "getRecurringPaymentLifecycleStatuses OpCancel =
     \<lparr>processingStatus = Canceling, claimableStatus = RpActive, finalStatus = RpCanceled\<rparr>"
| "getRecurringPaymentLifecycleStatuses OpResume =
     \<lparr>processingStatus = Resuming, claimableStatus = RpCanceled, finalStatus = RpActive\<rparr>"

definition stale_transition :: "date_text \<Rightarrow> date_text \<Rightarrow> (api_error, RecurringPaymentTransition) result" where
  "stale_transition updatedAt nowIso =
     result_bind (isRecurringPaymentOperationStale updatedAt nowIso) (\<lambda>stale.
       Inr (if stale then Recoverable else InProcess))"

definition decideRecurringPaymentLifecycleTransition ::
  "RecurringPaymentLifecycleOperation \<Rightarrow> PaymentRecurringPaymentStatus \<Rightarrow> date_text \<Rightarrow> date_text \<Rightarrow>
     (api_error, RecurringPaymentTransition) result" where
  "decideRecurringPaymentLifecycleTransition operation status updatedAt nowIso =
     (let statuses = getRecurringPaymentLifecycleStatuses operation
      in if status = finalStatus statuses then Inr AlreadyFinal
         else if status = processingStatus statuses then stale_transition updatedAt nowIso
         else Inr (if status = claimableStatus statuses then Claimable else InvalidTransition))"

definition decideRecurringPaymentActivationTransition ::
  "PaymentRecurringPaymentStatus \<Rightarrow> date_text \<Rightarrow> date_text \<Rightarrow> (api_error, RecurringPaymentTransition) result" where
  "decideRecurringPaymentActivationTransition status updatedAt nowIso =
     (if status = RpActive then Inr AlreadyFinal
      else if status = Activating then stale_transition updatedAt nowIso
      else Inr (if status = PendingActivation then Claimable else InvalidTransition))"

definition decideRecurringPaymentUpdateTransition ::
  "PaymentRecurringPaymentStatus \<Rightarrow> date_text \<Rightarrow> date_text \<Rightarrow> (api_error, RecurringPaymentTransition) result" where
  "decideRecurringPaymentUpdateTransition status updatedAt nowIso =
     (if status = PendingActivation \<or> status = RpActive then Inr Claimable
      else if status = Updating then stale_transition updatedAt nowIso
      else Inr InvalidTransition)"

section \<open>The schedule\<close>

definition nextRecurringPaymentCollectionDueAt :: "date_text \<Rightarrow> int \<Rightarrow> (api_error, timestamp) result" where
  "nextRecurringPaymentCollectionDueAt dueAt periodHours = toISOString (date_shift dueAt (periodHours * 60 * 60 * 1000))"

text \<open>\<^verbatim>\<open>nextDueAt\<close> is \<open>None\<close> when the column is \<^verbatim>\<open>NULL\<close>.\<close>

definition hasRecurringPaymentAdvancedPastDueAt :: "date_text \<Rightarrow> date_text \<Rightarrow> bool" where
  "hasRecurringPaymentAdvancedPastDueAt nextDueAt dueAt = date_less dueAt nextDueAt"

definition isRecurringPaymentCollectionActive :: "PaymentRecurringPaymentStatus \<Rightarrow> bool" where
  "isRecurringPaymentCollectionActive status \<longleftrightarrow> status = RpActive"

text \<open>\<^verbatim>\<open>requested\<close> is \<open>None\<close> when it is \<^verbatim>\<open>null\<close>, and \<open>Some None\<close> for a text that is no date.\<close>

definition resolveRecurringPaymentCollectionSchedule ::
  "date_text option \<Rightarrow> date_text \<Rightarrow> int \<Rightarrow> bool \<Rightarrow> (api_error, RecurringPaymentScheduleResolution) result" where
  "resolveRecurringPaymentCollectionSchedule requested periodStartAt periodHours clampToMinimum =
     result_bind (nextRecurringPaymentCollectionDueAt periodStartAt periodHours) (\<lambda>minimum.
       let due = (case requested of None \<Rightarrow> Some minimum | Some d \<Rightarrow> d)
       in Inr (if date_less due (Some minimum)
               then (if clampToMinimum then Scheduled (Some minimum) minimum True else TooEarly minimum)
               else Scheduled due minimum False))"

section \<open>What the decisions promise\<close>

text \<open>A schedule never puts a readable due date before the end of the period that was paid for, whatever was asked for.\<close>

lemma schedule_not_before_minimum:
  assumes "resolveRecurringPaymentCollectionSchedule requested (Some start) periodHours clampToMinimum =
      Inr (Scheduled (Some due) minimum was_clamped)"
  shows "minimum = start + periodHours * 3600000 \<and> minimum \<le> due \<and> (was_clamped \<longrightarrow> due = minimum)"
  using assms
  by (auto simp: resolveRecurringPaymentCollectionSchedule_def nextRecurringPaymentCollectionDueAt_def date_shift_def
      time_clip_def toISOString_def result_bind_def date_less_def Let_def split: if_splits option.splits)

text \<open>An operation is taken over only when it has not been touched for the whole interval.\<close>

lemma recoverable_is_stale:
  assumes "stale_transition (Some updated) (Some t) = Inr Recoverable"
  shows "updated + RECURRING_PAYMENT_OPERATION_STALE_AFTER_MS \<le> t"
  using assms
  by (auto simp: stale_transition_def isRecurringPaymentOperationStale_def getRecurringPaymentOperationStaleBefore_def
      date_shift_def time_clip_def toISOString_def result_bind_def split: if_splits)

lemma stale_before_now:
  "getRecurringPaymentOperationStaleBefore (Some t) = Inr b \<Longrightarrow> b = t - RECURRING_PAYMENT_OPERATION_STALE_AFTER_MS"
  by (auto simp: getRecurringPaymentOperationStaleBefore_def date_shift_def time_clip_def toISOString_def split: if_splits)

end
