(* ===== verification/Recurring_Ledger.thy ===== *)
theory Recurring_Ledger
  imports Recurring_Lifecycle Effect_Relations "HOL-Library.Product_Lexorder" "HOL-Library.List_Lexorder" "HOL-Library.Char_ord"
begin

text \<open>
  The tables of recurring payments and the statements on them: recurring payments and the attempts to activate, cancel,
  resume and update them (\<^verbatim>\<open>db/repositories/payment-recurring-payments.repository.ts\<close>, \<^verbatim>\<open>.postgres.ts\<close>), and the plans,
  subscriptions and collection attempts behind them (\<^verbatim>\<open>payment-subscriptions.repository.ts\<close>, \<^verbatim>\<open>.postgres.ts\<close>).
  The constraints of the migrations (positive periods, unique indexes, foreign keys between these tables) are
  part of the statements that can violate them; columns that name rows of other services are plain texts. In an
  input an omitted field is \<open>None\<close>, so a nullable optional field is an option of an option.
\<close>

section \<open>Rows\<close>

record PaymentRecurringPaymentRow =
  rp_id :: string
  rp_organization_id :: string
  rp_project_id :: string
  rp_source_wallet_id :: string
  rp_source_address :: string
  rp_counterparty_id :: string
  rp_counterparty_account_id :: string
  rp_destination_address :: string
  rp_destination_token_account :: "string option"
  rp_token :: string
  rp_amount :: string
  rp_period_hours :: int
  rp_first_collection_at :: "timestamp option"
  rp_next_collection_due_at :: "timestamp option"
  rp_plan_id :: "string option"
  rp_subscription_id :: "string option"
  rp_plan_pda :: "string option"
  rp_plan_created_at :: "timestamp option"
  rp_plan_creation_signature :: "string option"
  rp_subscription_pda :: "string option"
  rp_subscription_authority_address :: "string option"
  rp_authorization_signature :: "string option"
  rp_status :: PaymentRecurringPaymentStatus
  rp_metadata_uri :: "string option"
  rp_created_by :: "string option"
  rp_created_at :: timestamp
  rp_updated_at :: timestamp

datatype attempt_status = AttProcessing | AttConfirmed | AttFailed

datatype activation_stage = ActClaim | ActCreatePlan | ActAuthorizeSubscription | ActFinalize

datatype lifecycle_stage = LifClaim | LifSubmit | LifFinalize

datatype update_mode = MetadataSchedule | Replacement

datatype update_stage =
    UpdClaim | UpdUpdatePlan | UpdCreatePlan | UpdAuthorizeSubscription | UpdCancelOldSubscription | UpdFinalize

record PaymentRecurringPaymentActivationAttemptRow =
  raa_id :: string
  raa_organization_id :: string
  raa_project_id :: string
  raa_recurring_payment_id :: string
  raa_status :: attempt_status
  raa_stage :: activation_stage
  raa_plan_creation_signature :: "string option"
  raa_authorization_signature :: "string option"
  raa_error :: "string option"
  raa_metadata :: json_object
  raa_created_at :: timestamp
  raa_updated_at :: timestamp

record PaymentRecurringPaymentLifecycleAttemptRow =
  rla_id :: string
  rla_organization_id :: string
  rla_project_id :: string
  rla_recurring_payment_id :: string
  rla_operation :: RecurringPaymentLifecycleOperation
  rla_status :: attempt_status
  rla_stage :: lifecycle_stage
  rla_signature :: "string option"
  rla_error :: "string option"
  rla_metadata :: json_object
  rla_created_at :: timestamp
  rla_updated_at :: timestamp

record PaymentRecurringPaymentUpdateAttemptRow =
  rua_id :: string
  rua_organization_id :: string
  rua_project_id :: string
  rua_recurring_payment_id :: string
  rua_mode :: update_mode
  rua_status :: attempt_status
  rua_stage :: update_stage
  rua_old_plan_id :: "string option"
  rua_old_subscription_id :: "string option"
  rua_new_plan_id :: "string option"
  rua_new_subscription_id :: "string option"
  rua_plan_update_signature :: "string option"
  rua_plan_creation_signature :: "string option"
  rua_authorization_setup_signature :: "string option"
  rua_authorization_signature :: "string option"
  rua_old_cancel_signature :: "string option"
  rua_changed_fields :: "string list"
  rua_before_values :: json_object
  rua_after_values :: json_object
  rua_error :: "string option"
  rua_created_by :: "string option"
  rua_created_at :: timestamp
  rua_updated_at :: timestamp

record PaymentRecurringPaymentUpdateEventRow =
  rue_id :: string
  rue_organization_id :: string
  rue_project_id :: string
  rue_recurring_payment_id :: string
  rue_attempt_id :: "string option"
  rue_changed_fields :: "string list"
  rue_before_values :: json_object
  rue_after_values :: json_object
  rue_created_by :: "string option"
  rue_created_at :: timestamp

datatype PaymentSubscriptionPlanStatus = PlanDraft | PlanActive | PlanArchived

datatype PaymentSubscriptionStatus =
    SubPendingAuthorization | SubActive | SubPaused | SubCanceling | SubCanceled | SubExpired

datatype PaymentSubscriptionCollectionAttemptStatus = CaPending | CaProcessing | CaConfirmed | CaFailed | CaSkipped

record PaymentSubscriptionPlanRow =
  spl_id :: string
  spl_organization_id :: string
  spl_project_id :: string
  spl_owner_wallet_id :: string
  spl_owner_address :: string
  spl_token :: string
  spl_amount :: string
  spl_period_hours :: int
  spl_program_plan_id :: string
  spl_plan_pda :: "string option"
  spl_destination_address :: "string option"
  spl_puller_wallet_id :: "string option"
  spl_puller_address :: "string option"
  spl_metadata_uri :: "string option"
  spl_status :: PaymentSubscriptionPlanStatus
  spl_created_by :: "string option"
  spl_created_at :: timestamp
  spl_updated_at :: timestamp

record PaymentSubscriptionRow =
  sub_id :: string
  sub_organization_id :: string
  sub_project_id :: string
  sub_plan_id :: string
  sub_counterparty_id :: string
  sub_subscriber_address :: string
  sub_subscriber_token_account :: "string option"
  sub_subscription_pda :: "string option"
  sub_subscription_authority_address :: "string option"
  sub_authorization_signature :: "string option"
  sub_status :: PaymentSubscriptionStatus
  sub_current_period_start_at :: "timestamp option"
  sub_next_collection_due_at :: "timestamp option"
  sub_cancel_at :: "timestamp option"
  sub_canceled_at :: "timestamp option"
  sub_created_by :: "string option"
  sub_created_at :: timestamp
  sub_updated_at :: timestamp

record PaymentSubscriptionCollectionAttemptRow =
  sca_id :: string
  sca_organization_id :: string
  sca_project_id :: string
  sca_subscription_id :: string
  sca_transfer_id :: "string option"
  sca_token :: string
  sca_amount :: string
  sca_due_at :: timestamp
  sca_attempted_at :: "timestamp option"
  sca_status :: PaymentSubscriptionCollectionAttemptStatus
  sca_signature :: "string option"
  sca_error :: "string option"
  sca_metadata :: json_object
  sca_created_at :: timestamp
  sca_updated_at :: timestamp

text \<open>Transfers (\<^verbatim>\<open>payments.repository.ts\<close>), with the columns that collections read and write.\<close>

datatype PaymentTransferStatus =
    TrPending | TrProcessing | TrConfirmed | TrFinalized | TrFailed | TrAwaitingPayment | TrSettling | TrCompleted
  | TrCanceled | TrExpired

datatype PaymentTransferDirection = Inbound | Outbound

datatype PaymentTransferType = Transfer | TransferConfidential | TransferBatch | Onramp | Offramp

record PaymentTransferRow =
  ptr_id :: string
  ptr_organization_id :: string
  ptr_project_id :: "string option"
  ptr_wallet_id :: string
  ptr_counterparty_id :: "string option"
  ptr_source_address :: "string option"
  ptr_destination_address :: "string option"
  ptr_token :: string
  ptr_amount :: "string option"
  ptr_type :: PaymentTransferType
  ptr_direction :: PaymentTransferDirection
  ptr_status :: PaymentTransferStatus
  ptr_provider_data :: json_object
  ptr_signature :: "string option"
  ptr_signed_transaction :: "string option"
  ptr_last_valid_block_height :: "string option"
  ptr_submission_started_at :: "timestamp option"
  ptr_error :: "string option"
  ptr_confirmed_at :: "timestamp option"
  ptr_updated_at :: timestamp

text \<open>The tables, and the transactions that were handed to the network.\<close>

record recurring_session = session +
  rs_payments :: "PaymentRecurringPaymentRow list"
  rs_activation_attempts :: "PaymentRecurringPaymentActivationAttemptRow list"
  rs_lifecycle_attempts :: "PaymentRecurringPaymentLifecycleAttemptRow list"
  rs_update_attempts :: "PaymentRecurringPaymentUpdateAttemptRow list"
  rs_update_events :: "PaymentRecurringPaymentUpdateEventRow list"
  rs_plans :: "PaymentSubscriptionPlanRow list"
  rs_subscriptions :: "PaymentSubscriptionRow list"
  rs_attempts :: "PaymentSubscriptionCollectionAttemptRow list"
  rs_transfers :: "PaymentTransferRow list"
  rs_sent :: "string list"

type_synonym 'a recurring_io = "(recurring_session, api_error, 'a) io"

section \<open>Constraints\<close>

definition recurring_check_violation :: api_error where
  "recurring_check_violation = SqlError ''new row violates check constraint''"

definition recurring_foreign_key_violation :: api_error where
  "recurring_foreign_key_violation = SqlError ''insert or update violates foreign key constraint''"

definition index_ok :: "('r \<Rightarrow> 'k option) \<Rightarrow> 'r list \<Rightarrow> bool" where
  "index_ok key rows \<longleftrightarrow> distinct (List.map_filter key rows)"

text \<open>A nullable column that refers to a row: \<^verbatim>\<open>NULL\<close> refers to none.\<close>

definition refers :: "string list \<Rightarrow> string option \<Rightarrow> bool" where
  "refers keys v = (case v of None \<Rightarrow> True | Some k \<Rightarrow> k \<in> set keys)"

definition payment_refs :: "recurring_session \<Rightarrow> PaymentRecurringPaymentRow \<Rightarrow> bool" where
  "payment_refs s r \<longleftrightarrow> refers (map spl_id (rs_plans s)) (rp_plan_id r) \<and>
     refers (map sub_id (rs_subscriptions s)) (rp_subscription_id r)"

definition put_payments :: "PaymentRecurringPaymentRow list \<Rightarrow> unit recurring_io" where
  "put_payments rows = (\<lambda>s.
     if \<not> list_all (\<lambda>r. 0 < rp_period_hours r) rows then (Inl recurring_check_violation, s)
     else if \<not> distinct (map rp_id rows) then (Inl UniqueViolation, s)
     else if \<not> list_all (payment_refs s) rows then (Inl recurring_foreign_key_violation, s)
     else (Inr (), s\<lparr>rs_payments := rows\<rparr>))"

definition put_activation_attempts :: "PaymentRecurringPaymentActivationAttemptRow list \<Rightarrow> unit recurring_io" where
  "put_activation_attempts rows = (\<lambda>s.
     if \<not> distinct (map raa_id rows) then (Inl UniqueViolation, s)
     else if \<not> list_all (\<lambda>r. raa_recurring_payment_id r \<in> rp_id ` set (rs_payments s)) rows
     then (Inl recurring_foreign_key_violation, s)
     else (Inr (), s\<lparr>rs_activation_attempts := rows\<rparr>))"

definition put_lifecycle_attempts :: "PaymentRecurringPaymentLifecycleAttemptRow list \<Rightarrow> unit recurring_io" where
  "put_lifecycle_attempts rows = (\<lambda>s.
     if \<not> distinct (map rla_id rows) then (Inl UniqueViolation, s)
     else if \<not> list_all (\<lambda>r. rla_recurring_payment_id r \<in> rp_id ` set (rs_payments s)) rows
     then (Inl recurring_foreign_key_violation, s)
     else (Inr (), s\<lparr>rs_lifecycle_attempts := rows\<rparr>))"

definition update_refs :: "recurring_session \<Rightarrow> PaymentRecurringPaymentUpdateAttemptRow \<Rightarrow> bool" where
  "update_refs s r \<longleftrightarrow> rua_recurring_payment_id r \<in> rp_id ` set (rs_payments s) \<and>
     refers (map spl_id (rs_plans s)) (rua_old_plan_id r) \<and> refers (map spl_id (rs_plans s)) (rua_new_plan_id r) \<and>
     refers (map sub_id (rs_subscriptions s)) (rua_old_subscription_id r) \<and>
     refers (map sub_id (rs_subscriptions s)) (rua_new_subscription_id r)"

definition put_update_attempts :: "PaymentRecurringPaymentUpdateAttemptRow list \<Rightarrow> unit recurring_io" where
  "put_update_attempts rows = (\<lambda>s.
     if \<not> distinct (map rua_id rows) then (Inl UniqueViolation, s)
     else if \<not> list_all (update_refs s) rows then (Inl recurring_foreign_key_violation, s)
     else (Inr (), s\<lparr>rs_update_attempts := rows\<rparr>))"

definition put_update_events :: "PaymentRecurringPaymentUpdateEventRow list \<Rightarrow> unit recurring_io" where
  "put_update_events rows = (\<lambda>s.
     if \<not> distinct (map rue_id rows) then (Inl UniqueViolation, s)
     else if \<not> list_all (\<lambda>r. rue_recurring_payment_id r \<in> rp_id ` set (rs_payments s) \<and>
         refers (map rua_id (rs_update_attempts s)) (rue_attempt_id r)) rows
     then (Inl recurring_foreign_key_violation, s)
     else (Inr (), s\<lparr>rs_update_events := rows\<rparr>))"

definition plans_unique :: "PaymentSubscriptionPlanRow list \<Rightarrow> bool" where
  "plans_unique rows \<longleftrightarrow> distinct (map spl_id rows) \<and>
     distinct (map (\<lambda>r. (spl_organization_id r, spl_project_id r, spl_program_plan_id r)) rows) \<and> index_ok spl_plan_pda rows"

definition put_plans :: "PaymentSubscriptionPlanRow list \<Rightarrow> unit recurring_io" where
  "put_plans rows = (\<lambda>s.
     if \<not> list_all (\<lambda>r. 0 < spl_period_hours r) rows then (Inl recurring_check_violation, s)
     else if \<not> plans_unique rows then (Inl UniqueViolation, s)
     else (Inr (), s\<lparr>rs_plans := rows\<rparr>))"

definition subscription_slot :: "PaymentSubscriptionRow \<Rightarrow> string \<times> string \<times> string \<times> string" where
  "subscription_slot r = (sub_organization_id r, sub_project_id r, sub_plan_id r, sub_counterparty_id r)"

definition subscriptions_unique :: "PaymentSubscriptionRow list \<Rightarrow> bool" where
  "subscriptions_unique rows \<longleftrightarrow> distinct (map sub_id rows) \<and> distinct (map subscription_slot rows) \<and>
     index_ok sub_subscription_pda rows"

definition put_subscriptions :: "PaymentSubscriptionRow list \<Rightarrow> unit recurring_io" where
  "put_subscriptions rows = (\<lambda>s.
     if \<not> subscriptions_unique rows then (Inl UniqueViolation, s)
     else if \<not> list_all (\<lambda>r. sub_plan_id r \<in> spl_id ` set (rs_plans s)) rows then (Inl recurring_foreign_key_violation, s)
     else (Inr (), s\<lparr>rs_subscriptions := rows\<rparr>))"

text \<open>\<^verbatim>\<open>idx_payment_subscription_attempts_active_due\<close>: one attempt per due date that is open or has collected.\<close>

definition open_or_collected :: "PaymentSubscriptionCollectionAttemptStatus \<Rightarrow> bool" where
  "open_or_collected st \<longleftrightarrow> st \<in> {CaPending, CaProcessing, CaConfirmed}"

definition active_due_key ::
  "PaymentSubscriptionCollectionAttemptRow \<Rightarrow> (string \<times> string \<times> string \<times> timestamp) option" where
  "active_due_key r = (if open_or_collected (sca_status r)
     then Some (sca_organization_id r, sca_project_id r, sca_subscription_id r, sca_due_at r) else None)"

definition attempts_unique :: "PaymentSubscriptionCollectionAttemptRow list \<Rightarrow> bool" where
  "attempts_unique rows \<longleftrightarrow> distinct (map sca_id rows) \<and> index_ok sca_signature rows \<and> index_ok active_due_key rows"

definition attempt_refs :: "recurring_session \<Rightarrow> PaymentSubscriptionCollectionAttemptRow \<Rightarrow> bool" where
  "attempt_refs s r \<longleftrightarrow> sca_subscription_id r \<in> sub_id ` set (rs_subscriptions s) \<and>
     refers (map ptr_id (rs_transfers s)) (sca_transfer_id r)"

definition put_attempts :: "PaymentSubscriptionCollectionAttemptRow list \<Rightarrow> unit recurring_io" where
  "put_attempts rows = (\<lambda>s.
     if \<not> attempts_unique rows then (Inl UniqueViolation, s)
     else if \<not> list_all (attempt_refs s) rows then (Inl recurring_foreign_key_violation, s)
     else (Inr (), s\<lparr>rs_attempts := rows\<rparr>))"

definition transfers_unique :: "PaymentTransferRow list \<Rightarrow> bool" where
  "transfers_unique rows \<longleftrightarrow> distinct (map ptr_id rows) \<and> index_ok ptr_signature rows"

text \<open>The checks of the submission outbox: bytes, height and signature come together, and before a submission starts.\<close>

definition outbox_checks :: "PaymentTransferRow \<Rightarrow> bool" where
  "outbox_checks r \<longleftrightarrow> (ptr_signed_transaction r = None \<longleftrightarrow> ptr_last_valid_block_height r = None) \<and>
     (ptr_signed_transaction r = None \<or> ptr_signature r \<noteq> None) \<and>
     (ptr_submission_started_at r = None \<or> ptr_signed_transaction r \<noteq> None)"

definition put_transfers :: "PaymentTransferRow list \<Rightarrow> unit recurring_io" where
  "put_transfers rows = (\<lambda>s.
     if \<not> list_all outbox_checks rows then (Inl recurring_check_violation, s)
     else if \<not> transfers_unique rows then (Inl UniqueViolation, s)
     else (Inr (), s\<lparr>rs_transfers := rows\<rparr>))"

section \<open>Statements\<close>

text \<open>\<^verbatim>\<open>UPDATE ... WHERE ... RETURNING *\<close> read with \<^verbatim>\<open>first\<close>, for a table given by its rows and its guarded write.\<close>

definition update_returning ::
  "(recurring_session \<Rightarrow> 'r list) \<Rightarrow> ('r list \<Rightarrow> unit recurring_io) \<Rightarrow> ('r \<Rightarrow> bool) \<Rightarrow> ('r \<Rightarrow> 'r) \<Rightarrow> 'r option recurring_io" where
  "update_returning rows put matching change = sql (\<lambda>s.
     io_bind (put (table_update matching change (rows s))) (\<lambda>_.
       io_return (map_option change (find matching (rows s)))) s)"

text \<open>\<^verbatim>\<open>INSERT\<close>, and \<^verbatim>\<open>INSERT ... ON CONFLICT DO NOTHING\<close>.\<close>

definition insert_row :: "(recurring_session \<Rightarrow> 'r list) \<Rightarrow> ('r list \<Rightarrow> unit recurring_io) \<Rightarrow> 'r \<Rightarrow> unit recurring_io" where
  "insert_row rows put row = sql (\<lambda>s. put (rows s @ [row]) s)"

definition insert_unless_conflict ::
  "(recurring_session \<Rightarrow> 'r list) \<Rightarrow> ('r list \<Rightarrow> unit recurring_io) \<Rightarrow> 'r \<Rightarrow> unit recurring_io" where
  "insert_unless_conflict rows put row = sql (\<lambda>s.
     case put (rows s @ [row]) s of
       (Inl UniqueViolation, s') \<Rightarrow> (Inr (), s')
     | outcome \<Rightarrow> outcome)"

definition select_first :: "(recurring_session \<Rightarrow> 'r list) \<Rightarrow> ('r \<Rightarrow> bool) \<Rightarrow> 'r option recurring_io" where
  "select_first rows matching = sql (io_get (\<lambda>s. find matching (rows s)))"

text \<open>\<^verbatim>\<open>ORDER BY key DESC LIMIT 1\<close>.\<close>

definition latest_by :: "('r \<Rightarrow> 'k::linorder) \<Rightarrow> 'r list \<Rightarrow> 'r option" where
  "latest_by key rows = (if rows = [] then None else Some (last (sort_key key rows)))"

definition select_latest ::
  "(recurring_session \<Rightarrow> 'r list) \<Rightarrow> ('r \<Rightarrow> bool) \<Rightarrow> ('r \<Rightarrow> 'k::linorder) \<Rightarrow> 'r option recurring_io" where
  "select_latest rows matching key = sql (io_get (\<lambda>s. latest_by key (filter matching (rows s))))"

text \<open>\<^verbatim>\<open>CASE WHEN given THEN value ELSE column END\<close> and \<^verbatim>\<open>COALESCE(value, column)\<close>.\<close>

definition assign :: "'a option \<Rightarrow> 'a \<Rightarrow> 'a" where
  "assign v column = (case v of None \<Rightarrow> column | Some x \<Rightarrow> x)"

text \<open>\<^verbatim>\<open>status IN (...)\<close> is left out when no statuses, or an empty list of them, are asked for.\<close>

definition status_wanted :: "'a list option \<Rightarrow> 'a \<Rightarrow> bool" where
  "status_wanted statuses st = (case statuses of None \<Rightarrow> True | Some sts \<Rightarrow> sts = [] \<or> st \<in> set sts)"

section \<open>Recurring payments\<close>

definition payment_at :: "string \<Rightarrow> string \<Rightarrow> string \<Rightarrow> PaymentRecurringPaymentRow \<Rightarrow> bool" where
  "payment_at recurringPaymentId organizationId projectId r \<longleftrightarrow>
     rp_id r = recurringPaymentId \<and> rp_organization_id r = organizationId \<and> rp_project_id r = projectId"

definition getRecurringPaymentByIdInternal ::
  "string \<Rightarrow> string \<Rightarrow> string \<Rightarrow> PaymentRecurringPaymentRow option recurring_io" where
  "getRecurringPaymentByIdInternal recurringPaymentId organizationId projectId =
     select_first rs_payments (payment_at recurringPaymentId organizationId projectId)"

definition update_payment ::
  "(PaymentRecurringPaymentRow \<Rightarrow> bool) \<Rightarrow> (PaymentRecurringPaymentRow \<Rightarrow> PaymentRecurringPaymentRow) \<Rightarrow>
     PaymentRecurringPaymentRow option recurring_io" where
  "update_payment matching change = update_returning rs_payments put_payments matching change"

record CreatePaymentRecurringPaymentInput =
  crp_id :: string
  crp_organizationId :: string
  crp_projectId :: string
  crp_sourceWalletId :: string
  crp_sourceAddress :: string
  crp_counterpartyId :: string
  crp_counterpartyAccountId :: string
  crp_destinationAddress :: string
  crp_token :: string
  crp_amount :: string
  crp_periodHours :: int
  crp_firstCollectionAt :: "timestamp option"
  crp_metadataUri :: "string option"
  crp_createdBy :: "string option"
  crp_createdAt :: timestamp
  crp_updatedAt :: timestamp

definition created_payment :: "CreatePaymentRecurringPaymentInput \<Rightarrow> PaymentRecurringPaymentRow" where
  "created_payment input = \<lparr>rp_id = crp_id input, rp_organization_id = crp_organizationId input,
     rp_project_id = crp_projectId input, rp_source_wallet_id = crp_sourceWalletId input,
     rp_source_address = crp_sourceAddress input, rp_counterparty_id = crp_counterpartyId input,
     rp_counterparty_account_id = crp_counterpartyAccountId input, rp_destination_address = crp_destinationAddress input,
     rp_destination_token_account = None, rp_token = crp_token input, rp_amount = crp_amount input,
     rp_period_hours = crp_periodHours input, rp_first_collection_at = crp_firstCollectionAt input,
     rp_next_collection_due_at = None, rp_plan_id = None, rp_subscription_id = None, rp_plan_pda = None,
     rp_plan_created_at = None, rp_plan_creation_signature = None, rp_subscription_pda = None,
     rp_subscription_authority_address = None, rp_authorization_signature = None, rp_status = PendingActivation,
     rp_metadata_uri = crp_metadataUri input, rp_created_by = crp_createdBy input, rp_created_at = crp_createdAt input,
     rp_updated_at = crp_updatedAt input\<rparr>"

definition createRecurringPayment :: "CreatePaymentRecurringPaymentInput \<Rightarrow> PaymentRecurringPaymentRow option recurring_io" where
  "createRecurringPayment input =
     io_bind (insert_row rs_payments put_payments (created_payment input)) (\<lambda>_.
       getRecurringPaymentByIdInternal (crp_id input) (crp_organizationId input) (crp_projectId input))"

record UpdatePaymentRecurringPaymentInput =
  urp_recurringPaymentId :: string
  urp_organizationId :: string
  urp_projectId :: string
  urp_sourceWalletId :: "string option"
  urp_sourceAddress :: "string option"
  urp_counterpartyId :: "string option"
  urp_counterpartyAccountId :: "string option"
  urp_destinationAddress :: "string option"
  urp_destinationTokenAccount :: "string option option"
  urp_token :: "string option"
  urp_amount :: "string option"
  urp_periodHours :: "int option"
  urp_firstCollectionAt :: "timestamp option option"
  urp_nextCollectionDueAt :: "timestamp option option"
  urp_planId :: "string option option"
  urp_subscriptionId :: "string option option"
  urp_planPda :: "string option option"
  urp_planCreatedAt :: "timestamp option option"
  urp_planCreationSignature :: "string option option"
  urp_subscriptionPda :: "string option option"
  urp_subscriptionAuthorityAddress :: "string option option"
  urp_authorizationSignature :: "string option option"
  urp_status :: "PaymentRecurringPaymentStatus option"
  urp_metadataUri :: "string option option"
  urp_expectedStatus :: "PaymentRecurringPaymentStatus option"
  urp_expectedUpdatedAt :: "timestamp option"
  urp_updatedAt :: timestamp

definition updated_payment ::
  "UpdatePaymentRecurringPaymentInput \<Rightarrow> PaymentRecurringPaymentRow \<Rightarrow> PaymentRecurringPaymentRow" where
  "updated_payment input r = r\<lparr>
     rp_source_wallet_id := assign (urp_sourceWalletId input) (rp_source_wallet_id r),
     rp_source_address := assign (urp_sourceAddress input) (rp_source_address r),
     rp_counterparty_id := assign (urp_counterpartyId input) (rp_counterparty_id r),
     rp_counterparty_account_id := assign (urp_counterpartyAccountId input) (rp_counterparty_account_id r),
     rp_destination_address := assign (urp_destinationAddress input) (rp_destination_address r),
     rp_destination_token_account := assign (urp_destinationTokenAccount input) (rp_destination_token_account r),
     rp_token := assign (urp_token input) (rp_token r),
     rp_amount := assign (urp_amount input) (rp_amount r),
     rp_period_hours := assign (urp_periodHours input) (rp_period_hours r),
     rp_first_collection_at := assign (urp_firstCollectionAt input) (rp_first_collection_at r),
     rp_next_collection_due_at := assign (urp_nextCollectionDueAt input) (rp_next_collection_due_at r),
     rp_plan_id := assign (urp_planId input) (rp_plan_id r),
     rp_subscription_id := assign (urp_subscriptionId input) (rp_subscription_id r),
     rp_plan_pda := assign (urp_planPda input) (rp_plan_pda r),
     rp_plan_created_at := assign (urp_planCreatedAt input) (rp_plan_created_at r),
     rp_plan_creation_signature := assign (urp_planCreationSignature input) (rp_plan_creation_signature r),
     rp_subscription_pda := assign (urp_subscriptionPda input) (rp_subscription_pda r),
     rp_subscription_authority_address := assign (urp_subscriptionAuthorityAddress input) (rp_subscription_authority_address r),
     rp_authorization_signature := assign (urp_authorizationSignature input) (rp_authorization_signature r),
     rp_status := assign (urp_status input) (rp_status r),
     rp_metadata_uri := assign (urp_metadataUri input) (rp_metadata_uri r),
     rp_updated_at := urp_updatedAt input\<rparr>"

definition updateRecurringPayment :: "UpdatePaymentRecurringPaymentInput \<Rightarrow> PaymentRecurringPaymentRow option recurring_io" where
  "updateRecurringPayment input = update_payment
     (\<lambda>r. payment_at (urp_recurringPaymentId input) (urp_organizationId input) (urp_projectId input) r \<and>
        (case urp_expectedStatus input of None \<Rightarrow> True | Some st \<Rightarrow> rp_status r = st) \<and>
        (case urp_expectedUpdatedAt input of None \<Rightarrow> True | Some t \<Rightarrow> rp_updated_at r = t))
     (updated_payment input)"

text \<open>A claim puts the row in its processing status; a row that is already there is taken over when it has not been
  touched since \<open>staleBefore\<close>.\<close>

definition claimable_row ::
  "PaymentRecurringPaymentStatus \<Rightarrow> PaymentRecurringPaymentStatus \<Rightarrow> timestamp option \<Rightarrow> PaymentRecurringPaymentRow \<Rightarrow> bool" where
  "claimable_row claimable processing staleBefore r \<longleftrightarrow> rp_status r = claimable \<or>
     rp_status r = processing \<and> (case staleBefore of None \<Rightarrow> False | Some t \<Rightarrow> rp_updated_at r \<le> t)"

definition set_status :: "PaymentRecurringPaymentStatus \<Rightarrow> timestamp \<Rightarrow> PaymentRecurringPaymentRow \<Rightarrow> PaymentRecurringPaymentRow" where
  "set_status st t r = r\<lparr>rp_status := st, rp_updated_at := t\<rparr>"

definition claimRecurringPaymentActivation ::
  "string \<Rightarrow> string \<Rightarrow> string \<Rightarrow> timestamp \<Rightarrow> timestamp option \<Rightarrow> PaymentRecurringPaymentRow option recurring_io" where
  "claimRecurringPaymentActivation recurringPaymentId organizationId projectId updatedAt staleBefore = update_payment
     (\<lambda>r. payment_at recurringPaymentId organizationId projectId r \<and> claimable_row PendingActivation Activating staleBefore r)
     (set_status Activating updatedAt)"

definition resetRecurringPaymentActivationIfNotActive ::
  "string \<Rightarrow> string \<Rightarrow> string \<Rightarrow> timestamp \<Rightarrow> PaymentRecurringPaymentRow option recurring_io" where
  "resetRecurringPaymentActivationIfNotActive recurringPaymentId organizationId projectId updatedAt = update_payment
     (\<lambda>r. payment_at recurringPaymentId organizationId projectId r \<and> rp_status r = Activating)
     (set_status PendingActivation updatedAt)"

record UpdatePaymentRecurringPaymentActivationInput =
  upa_recurringPaymentId :: string
  upa_organizationId :: string
  upa_projectId :: string
  upa_status :: "PaymentRecurringPaymentStatus option"
  upa_planId :: "string option option"
  upa_subscriptionId :: "string option option"
  upa_planPda :: "string option option"
  upa_planCreatedAt :: "timestamp option option"
  upa_planCreationSignature :: "string option option"
  upa_subscriptionPda :: "string option option"
  upa_subscriptionAuthorityAddress :: "string option option"
  upa_authorizationSignature :: "string option option"
  upa_nextCollectionDueAt :: "timestamp option option"
  upa_destinationTokenAccount :: "string option option"
  upa_updatedAt :: timestamp

definition activated_payment ::
  "UpdatePaymentRecurringPaymentActivationInput \<Rightarrow> PaymentRecurringPaymentRow \<Rightarrow> PaymentRecurringPaymentRow" where
  "activated_payment input r = r\<lparr>
     rp_status := assign (upa_status input) (rp_status r),
     rp_plan_id := assign (upa_planId input) (rp_plan_id r),
     rp_subscription_id := assign (upa_subscriptionId input) (rp_subscription_id r),
     rp_plan_pda := assign (upa_planPda input) (rp_plan_pda r),
     rp_plan_created_at := assign (upa_planCreatedAt input) (rp_plan_created_at r),
     rp_plan_creation_signature := assign (upa_planCreationSignature input) (rp_plan_creation_signature r),
     rp_subscription_pda := assign (upa_subscriptionPda input) (rp_subscription_pda r),
     rp_subscription_authority_address := assign (upa_subscriptionAuthorityAddress input) (rp_subscription_authority_address r),
     rp_authorization_signature := assign (upa_authorizationSignature input) (rp_authorization_signature r),
     rp_next_collection_due_at := assign (upa_nextCollectionDueAt input) (rp_next_collection_due_at r),
     rp_destination_token_account := assign (upa_destinationTokenAccount input) (rp_destination_token_account r),
     rp_updated_at := upa_updatedAt input\<rparr>"

definition updateRecurringPaymentActivation ::
  "UpdatePaymentRecurringPaymentActivationInput \<Rightarrow> PaymentRecurringPaymentRow option recurring_io" where
  "updateRecurringPaymentActivation input =
     (let allowActiveUpdate = (upa_status input = Some RpActive)
      in update_payment
        (\<lambda>r. payment_at (upa_recurringPaymentId input) (upa_organizationId input) (upa_projectId input) r \<and>
           (rp_status r = Activating \<or> allowActiveUpdate))
        (activated_payment input))"

record UpdatePaymentRecurringPaymentCollectionInput =
  upc_recurringPaymentId :: string
  upc_organizationId :: string
  upc_projectId :: string
  upc_currentCollectionDueAt :: timestamp
  upc_nextCollectionDueAt :: timestamp
  upc_destinationTokenAccount :: "string option option"
  upc_updatedAt :: timestamp

definition updateRecurringPaymentCollection ::
  "UpdatePaymentRecurringPaymentCollectionInput \<Rightarrow> PaymentRecurringPaymentRow option recurring_io" where
  "updateRecurringPaymentCollection input = update_payment
     (\<lambda>r. payment_at (upc_recurringPaymentId input) (upc_organizationId input) (upc_projectId input) r \<and>
        rp_next_collection_due_at r = Some (upc_currentCollectionDueAt input) \<and> rp_status r = RpActive)
     (\<lambda>r. r\<lparr>rp_next_collection_due_at := Some (upc_nextCollectionDueAt input),
        rp_destination_token_account := assign (upc_destinationTokenAccount input) (rp_destination_token_account r),
        rp_updated_at := upc_updatedAt input\<rparr>)"

definition updateRecurringPaymentDestinationTokenAccount ::
  "string \<Rightarrow> string \<Rightarrow> string \<Rightarrow> string option \<Rightarrow> timestamp \<Rightarrow> PaymentRecurringPaymentRow option recurring_io" where
  "updateRecurringPaymentDestinationTokenAccount recurringPaymentId organizationId projectId destinationTokenAccount updatedAt =
     update_payment
       (\<lambda>r. payment_at recurringPaymentId organizationId projectId r \<and> rp_status r = RpActive)
       (\<lambda>r. r\<lparr>rp_destination_token_account := destinationTokenAccount, rp_updated_at := updatedAt\<rparr>)"

definition claimRecurringPaymentLifecycle ::
  "string \<Rightarrow> string \<Rightarrow> string \<Rightarrow> RecurringPaymentLifecycleOperation \<Rightarrow> timestamp \<Rightarrow> timestamp option \<Rightarrow>
     PaymentRecurringPaymentRow option recurring_io" where
  "claimRecurringPaymentLifecycle recurringPaymentId organizationId projectId operation updatedAt staleBefore =
     (let processing = (if operation = OpCancel then Canceling else Resuming);
          claimable = (if operation = OpCancel then RpActive else RpCanceled)
      in update_payment
        (\<lambda>r. payment_at recurringPaymentId organizationId projectId r \<and> claimable_row claimable processing staleBefore r)
        (set_status processing updatedAt))"

definition claimRecurringPaymentUpdate ::
  "string \<Rightarrow> string \<Rightarrow> string \<Rightarrow> timestamp \<Rightarrow> timestamp option \<Rightarrow> PaymentRecurringPaymentRow option recurring_io" where
  "claimRecurringPaymentUpdate recurringPaymentId organizationId projectId updatedAt staleBefore = update_payment
     (\<lambda>r. payment_at recurringPaymentId organizationId projectId r \<and> claimable_row RpActive Updating staleBefore r)
     (set_status Updating updatedAt)"

definition updateRecurringPaymentLifecycle ::
  "string \<Rightarrow> string \<Rightarrow> string \<Rightarrow> PaymentRecurringPaymentStatus \<Rightarrow> PaymentRecurringPaymentStatus \<Rightarrow> timestamp \<Rightarrow>
     PaymentRecurringPaymentRow option recurring_io" where
  "updateRecurringPaymentLifecycle recurringPaymentId organizationId projectId status expectedStatus updatedAt = update_payment
     (\<lambda>r. payment_at recurringPaymentId organizationId projectId r \<and> rp_status r = expectedStatus)
     (set_status status updatedAt)"

definition getRecurringPaymentById ::
  "string \<Rightarrow> string \<Rightarrow> string \<Rightarrow> string list option \<Rightarrow> PaymentRecurringPaymentRow option recurring_io" where
  "getRecurringPaymentById recurringPaymentId organizationId projectId sourceWalletIds =
     (if sourceWalletIds = Some [] then io_return None
      else select_first rs_payments (\<lambda>r. payment_at recurringPaymentId organizationId projectId r \<and>
        (case sourceWalletIds of None \<Rightarrow> True | Some ids \<Rightarrow> rp_source_wallet_id r \<in> set ids)))"

text \<open>Rows created at the same instant come in an order the database chooses; the model's is the reverse of insertion. A
  filter with an empty text counts as omitted.\<close>

definition filter_given :: "string option \<Rightarrow> string \<Rightarrow> bool" where
  "filter_given v column = (case v of None \<Rightarrow> True | Some x \<Rightarrow> x = [] \<or> column = x)"

definition page :: "nat \<Rightarrow> nat \<Rightarrow> ('r \<Rightarrow> timestamp) \<Rightarrow> (recurring_session \<Rightarrow> 'r list) \<Rightarrow> ('r list \<times> nat) recurring_io" where
  "page limit offset created selected =
     io_bind (sql (io_get (\<lambda>s. take limit (drop offset (rev (sort_key created (selected s))))))) (\<lambda>rows.
     io_bind (sql (io_get (\<lambda>s. length (selected s)))) (\<lambda>total. io_return (rows, total)))"

record ListPaymentRecurringPaymentsInput =
  lrp_organizationId :: string
  lrp_projectId :: string
  lrp_sourceWalletIds :: "string list option"
  lrp_status :: "PaymentRecurringPaymentStatus option"
  lrp_counterpartyId :: "string option"
  lrp_limit :: nat
  lrp_offset :: nat

definition listRecurringPayments ::
  "ListPaymentRecurringPaymentsInput \<Rightarrow> (PaymentRecurringPaymentRow list \<times> nat) recurring_io" where
  "listRecurringPayments params = page (lrp_limit params) (lrp_offset params) rp_created_at (\<lambda>s. filter (\<lambda>r.
     rp_organization_id r = lrp_organizationId params \<and> rp_project_id r = lrp_projectId params \<and>
     (case lrp_status params of None \<Rightarrow> True | Some st \<Rightarrow> rp_status r = st) \<and>
     filter_given (lrp_counterpartyId params) (rp_counterparty_id r) \<and>
     status_wanted (lrp_sourceWalletIds params) (rp_source_wallet_id r)) (rs_payments s))"

section \<open>Attempts to activate\<close>

definition activation_at :: "string \<Rightarrow> string \<Rightarrow> string \<Rightarrow> PaymentRecurringPaymentActivationAttemptRow \<Rightarrow> bool" where
  "activation_at attemptId organizationId projectId r \<longleftrightarrow>
     raa_id r = attemptId \<and> raa_organization_id r = organizationId \<and> raa_project_id r = projectId"

definition getActivationAttemptByIdInternal ::
  "string \<Rightarrow> string \<Rightarrow> string \<Rightarrow> PaymentRecurringPaymentActivationAttemptRow option recurring_io" where
  "getActivationAttemptByIdInternal attemptId organizationId projectId =
     select_first rs_activation_attempts (activation_at attemptId organizationId projectId)"

text \<open>The input has the fields of the row.\<close>

definition createActivationAttempt ::
  "PaymentRecurringPaymentActivationAttemptRow \<Rightarrow> PaymentRecurringPaymentActivationAttemptRow option recurring_io" where
  "createActivationAttempt input =
     io_bind (insert_row rs_activation_attempts put_activation_attempts input) (\<lambda>_.
       getActivationAttemptByIdInternal (raa_id input) (raa_organization_id input) (raa_project_id input))"

record UpdatePaymentRecurringPaymentActivationAttemptInput =
  uaa_attemptId :: string
  uaa_organizationId :: string
  uaa_projectId :: string
  uaa_status :: "attempt_status option"
  uaa_stage :: "activation_stage option"
  uaa_planCreationSignature :: "string option option"
  uaa_authorizationSignature :: "string option option"
  uaa_error :: "string option option"
  uaa_metadata :: "json_object option"
  uaa_updatedAt :: timestamp

definition updateActivationAttempt ::
  "UpdatePaymentRecurringPaymentActivationAttemptInput \<Rightarrow> PaymentRecurringPaymentActivationAttemptRow option recurring_io" where
  "updateActivationAttempt input =
     io_bind (update_returning rs_activation_attempts put_activation_attempts
         (activation_at (uaa_attemptId input) (uaa_organizationId input) (uaa_projectId input))
         (\<lambda>r. r\<lparr>raa_status := assign (uaa_status input) (raa_status r), raa_stage := assign (uaa_stage input) (raa_stage r),
            raa_plan_creation_signature := assign (uaa_planCreationSignature input) (raa_plan_creation_signature r),
            raa_authorization_signature := assign (uaa_authorizationSignature input) (raa_authorization_signature r),
            raa_error := assign (uaa_error input) (raa_error r), raa_metadata := assign (uaa_metadata input) (raa_metadata r),
            raa_updated_at := uaa_updatedAt input\<rparr>)) (\<lambda>changed.
     if changed = None then io_throw (PlainError ''Activation attempt update did not match an existing attempt'')
     else getActivationAttemptByIdInternal (uaa_attemptId input) (uaa_organizationId input) (uaa_projectId input))"

definition getLatestActivationAttempt ::
  "string \<Rightarrow> string \<Rightarrow> string \<Rightarrow> attempt_status list option \<Rightarrow> PaymentRecurringPaymentActivationAttemptRow option recurring_io" where
  "getLatestActivationAttempt organizationId projectId recurringPaymentId statuses =
     select_latest rs_activation_attempts
       (\<lambda>r. raa_organization_id r = organizationId \<and> raa_project_id r = projectId \<and>
          raa_recurring_payment_id r = recurringPaymentId \<and> status_wanted statuses (raa_status r))
       (\<lambda>r. (raa_created_at r, raa_updated_at r, raa_id r))"

section \<open>Attempts to cancel and resume\<close>

definition lifecycle_at :: "string \<Rightarrow> string \<Rightarrow> string \<Rightarrow> PaymentRecurringPaymentLifecycleAttemptRow \<Rightarrow> bool" where
  "lifecycle_at attemptId organizationId projectId r \<longleftrightarrow>
     rla_id r = attemptId \<and> rla_organization_id r = organizationId \<and> rla_project_id r = projectId"

definition getLifecycleAttemptByIdInternal ::
  "string \<Rightarrow> string \<Rightarrow> string \<Rightarrow> PaymentRecurringPaymentLifecycleAttemptRow option recurring_io" where
  "getLifecycleAttemptByIdInternal attemptId organizationId projectId =
     select_first rs_lifecycle_attempts (lifecycle_at attemptId organizationId projectId)"

definition createLifecycleAttempt ::
  "PaymentRecurringPaymentLifecycleAttemptRow \<Rightarrow> PaymentRecurringPaymentLifecycleAttemptRow option recurring_io" where
  "createLifecycleAttempt input =
     io_bind (insert_row rs_lifecycle_attempts put_lifecycle_attempts input) (\<lambda>_.
       getLifecycleAttemptByIdInternal (rla_id input) (rla_organization_id input) (rla_project_id input))"

record UpdatePaymentRecurringPaymentLifecycleAttemptInput =
  ula_attemptId :: string
  ula_organizationId :: string
  ula_projectId :: string
  ula_status :: "attempt_status option"
  ula_stage :: "lifecycle_stage option"
  ula_signature :: "string option option"
  ula_error :: "string option option"
  ula_metadata :: "json_object option"
  ula_updatedAt :: timestamp

definition updated_lifecycle_attempt ::
  "UpdatePaymentRecurringPaymentLifecycleAttemptInput \<Rightarrow> PaymentRecurringPaymentLifecycleAttemptRow \<Rightarrow>
     PaymentRecurringPaymentLifecycleAttemptRow" where
  "updated_lifecycle_attempt input r = r\<lparr>rla_status := assign (ula_status input) (rla_status r),
     rla_stage := assign (ula_stage input) (rla_stage r), rla_signature := assign (ula_signature input) (rla_signature r),
     rla_error := assign (ula_error input) (rla_error r), rla_metadata := assign (ula_metadata input) (rla_metadata r),
     rla_updated_at := ula_updatedAt input\<rparr>"

definition updateLifecycleAttempt ::
  "UpdatePaymentRecurringPaymentLifecycleAttemptInput \<Rightarrow> PaymentRecurringPaymentLifecycleAttemptRow recurring_io" where
  "updateLifecycleAttempt input =
     io_bind (update_returning rs_lifecycle_attempts put_lifecycle_attempts
         (lifecycle_at (ula_attemptId input) (ula_organizationId input) (ula_projectId input))
         (updated_lifecycle_attempt input)) (\<lambda>changed. case changed of
       None \<Rightarrow> io_throw (PlainError ''Lifecycle attempt update did not match an existing attempt'')
     | Some r \<Rightarrow> io_return r)"

definition getLatestLifecycleAttempt ::
  "string \<Rightarrow> string \<Rightarrow> string \<Rightarrow> RecurringPaymentLifecycleOperation \<Rightarrow> attempt_status list option \<Rightarrow>
     PaymentRecurringPaymentLifecycleAttemptRow option recurring_io" where
  "getLatestLifecycleAttempt organizationId projectId recurringPaymentId operation statuses =
     select_latest rs_lifecycle_attempts
       (\<lambda>r. rla_organization_id r = organizationId \<and> rla_project_id r = projectId \<and>
          rla_recurring_payment_id r = recurringPaymentId \<and> rla_operation r = operation \<and> status_wanted statuses (rla_status r))
       (\<lambda>r. (rla_created_at r, rla_updated_at r, rla_id r))"

section \<open>Attempts to update, and the events they leave\<close>

definition update_at :: "string \<Rightarrow> string \<Rightarrow> string \<Rightarrow> PaymentRecurringPaymentUpdateAttemptRow \<Rightarrow> bool" where
  "update_at attemptId organizationId projectId r \<longleftrightarrow>
     rua_id r = attemptId \<and> rua_organization_id r = organizationId \<and> rua_project_id r = projectId"

definition getUpdateAttemptByIdInternal ::
  "string \<Rightarrow> string \<Rightarrow> string \<Rightarrow> PaymentRecurringPaymentUpdateAttemptRow option recurring_io" where
  "getUpdateAttemptByIdInternal attemptId organizationId projectId =
     select_first rs_update_attempts (update_at attemptId organizationId projectId)"

definition createUpdateAttempt ::
  "PaymentRecurringPaymentUpdateAttemptRow \<Rightarrow> PaymentRecurringPaymentUpdateAttemptRow option recurring_io" where
  "createUpdateAttempt input =
     io_bind (insert_row rs_update_attempts put_update_attempts input) (\<lambda>_.
       getUpdateAttemptByIdInternal (rua_id input) (rua_organization_id input) (rua_project_id input))"

record UpdatePaymentRecurringPaymentUpdateAttemptInput =
  uua_attemptId :: string
  uua_organizationId :: string
  uua_projectId :: string
  uua_status :: "attempt_status option"
  uua_stage :: "update_stage option"
  uua_newPlanId :: "string option option"
  uua_newSubscriptionId :: "string option option"
  uua_planUpdateSignature :: "string option option"
  uua_planCreationSignature :: "string option option"
  uua_authorizationSetupSignature :: "string option option"
  uua_authorizationSignature :: "string option option"
  uua_oldCancelSignature :: "string option option"
  uua_changedFields :: "string list option"
  uua_beforeValues :: "json_object option"
  uua_afterValues :: "json_object option"
  uua_error :: "string option option"
  uua_updatedAt :: timestamp

definition updated_update_attempt ::
  "UpdatePaymentRecurringPaymentUpdateAttemptInput \<Rightarrow> PaymentRecurringPaymentUpdateAttemptRow \<Rightarrow>
     PaymentRecurringPaymentUpdateAttemptRow" where
  "updated_update_attempt input r = r\<lparr>
     rua_status := assign (uua_status input) (rua_status r), rua_stage := assign (uua_stage input) (rua_stage r),
     rua_new_plan_id := assign (uua_newPlanId input) (rua_new_plan_id r),
     rua_new_subscription_id := assign (uua_newSubscriptionId input) (rua_new_subscription_id r),
     rua_plan_update_signature := assign (uua_planUpdateSignature input) (rua_plan_update_signature r),
     rua_plan_creation_signature := assign (uua_planCreationSignature input) (rua_plan_creation_signature r),
     rua_authorization_setup_signature := assign (uua_authorizationSetupSignature input) (rua_authorization_setup_signature r),
     rua_authorization_signature := assign (uua_authorizationSignature input) (rua_authorization_signature r),
     rua_old_cancel_signature := assign (uua_oldCancelSignature input) (rua_old_cancel_signature r),
     rua_changed_fields := assign (uua_changedFields input) (rua_changed_fields r),
     rua_before_values := assign (uua_beforeValues input) (rua_before_values r),
     rua_after_values := assign (uua_afterValues input) (rua_after_values r),
     rua_error := assign (uua_error input) (rua_error r), rua_updated_at := uua_updatedAt input\<rparr>"

definition updateUpdateAttempt ::
  "UpdatePaymentRecurringPaymentUpdateAttemptInput \<Rightarrow> PaymentRecurringPaymentUpdateAttemptRow recurring_io" where
  "updateUpdateAttempt input =
     io_bind (update_returning rs_update_attempts put_update_attempts
         (update_at (uua_attemptId input) (uua_organizationId input) (uua_projectId input))
         (updated_update_attempt input)) (\<lambda>changed. case changed of
       None \<Rightarrow> io_throw (PlainError ''Update attempt update did not match an existing attempt'')
     | Some r \<Rightarrow> io_return r)"

definition getLatestUpdateAttempt ::
  "string \<Rightarrow> string \<Rightarrow> string \<Rightarrow> attempt_status list option \<Rightarrow> PaymentRecurringPaymentUpdateAttemptRow option recurring_io" where
  "getLatestUpdateAttempt organizationId projectId recurringPaymentId statuses =
     select_latest rs_update_attempts
       (\<lambda>r. rua_organization_id r = organizationId \<and> rua_project_id r = projectId \<and>
          rua_recurring_payment_id r = recurringPaymentId \<and> status_wanted statuses (rua_status r))
       (\<lambda>r. (rua_created_at r, rua_updated_at r, rua_id r))"

definition getUpdateEventByIdInternal ::
  "string \<Rightarrow> string \<Rightarrow> string \<Rightarrow> PaymentRecurringPaymentUpdateEventRow option recurring_io" where
  "getUpdateEventByIdInternal eventId organizationId projectId = select_first rs_update_events
     (\<lambda>r. rue_id r = eventId \<and> rue_organization_id r = organizationId \<and> rue_project_id r = projectId)"

definition createUpdateEvent ::
  "PaymentRecurringPaymentUpdateEventRow \<Rightarrow> PaymentRecurringPaymentUpdateEventRow option recurring_io" where
  "createUpdateEvent input =
     io_bind (insert_row rs_update_events put_update_events input) (\<lambda>_.
       getUpdateEventByIdInternal (rue_id input) (rue_organization_id input) (rue_project_id input))"

section \<open>Plans and subscriptions\<close>

definition plan_at :: "string \<Rightarrow> string \<Rightarrow> string \<Rightarrow> PaymentSubscriptionPlanRow \<Rightarrow> bool" where
  "plan_at planId organizationId projectId r \<longleftrightarrow>
     spl_id r = planId \<and> spl_organization_id r = organizationId \<and> spl_project_id r = projectId"

definition getPlanById :: "string \<Rightarrow> string \<Rightarrow> string \<Rightarrow> PaymentSubscriptionPlanRow option recurring_io" where
  "getPlanById planId organizationId projectId = select_first rs_plans (plan_at planId organizationId projectId)"

definition createPlan :: "PaymentSubscriptionPlanRow \<Rightarrow> PaymentSubscriptionPlanRow option recurring_io" where
  "createPlan input = io_bind (insert_unless_conflict rs_plans put_plans input) (\<lambda>_.
     getPlanById (spl_id input) (spl_organization_id input) (spl_project_id input))"

record UpdatePaymentSubscriptionPlanInput =
  usp_planId :: string
  usp_organizationId :: string
  usp_projectId :: string
  usp_planPda :: "string option option"
  usp_destinationAddress :: "string option option"
  usp_pullerWalletId :: "string option option"
  usp_pullerAddress :: "string option option"
  usp_metadataUri :: "string option option"
  usp_status :: "PaymentSubscriptionPlanStatus option"
  usp_updatedAt :: timestamp

definition updated_plan :: "UpdatePaymentSubscriptionPlanInput \<Rightarrow> PaymentSubscriptionPlanRow \<Rightarrow> PaymentSubscriptionPlanRow" where
  "updated_plan input r = r\<lparr>spl_plan_pda := assign (usp_planPda input) (spl_plan_pda r),
     spl_destination_address := assign (usp_destinationAddress input) (spl_destination_address r),
     spl_puller_wallet_id := assign (usp_pullerWalletId input) (spl_puller_wallet_id r),
     spl_puller_address := assign (usp_pullerAddress input) (spl_puller_address r),
     spl_metadata_uri := assign (usp_metadataUri input) (spl_metadata_uri r),
     spl_status := assign (usp_status input) (spl_status r), spl_updated_at := usp_updatedAt input\<rparr>"

definition updatePlan :: "UpdatePaymentSubscriptionPlanInput \<Rightarrow> PaymentSubscriptionPlanRow option recurring_io" where
  "updatePlan input =
     io_bind (getPlanById (usp_planId input) (usp_organizationId input) (usp_projectId input)) (\<lambda>existing.
     if existing = None then io_return None
     else io_bind (update_returning rs_plans put_plans (plan_at (usp_planId input) (usp_organizationId input) (usp_projectId input))
         (updated_plan input)) (\<lambda>_.
       getPlanById (usp_planId input) (usp_organizationId input) (usp_projectId input)))"

record ListPaymentSubscriptionPlansInput =
  lsp_organizationId :: string
  lsp_projectId :: string
  lsp_status :: "PaymentSubscriptionPlanStatus option"
  lsp_limit :: nat
  lsp_offset :: nat

definition listPlans :: "ListPaymentSubscriptionPlansInput \<Rightarrow> (PaymentSubscriptionPlanRow list \<times> nat) recurring_io" where
  "listPlans params = page (lsp_limit params) (lsp_offset params) spl_created_at (\<lambda>s. filter (\<lambda>r.
     spl_organization_id r = lsp_organizationId params \<and> spl_project_id r = lsp_projectId params \<and>
     (case lsp_status params of None \<Rightarrow> True | Some st \<Rightarrow> spl_status r = st)) (rs_plans s))"

definition subscription_at :: "string \<Rightarrow> string \<Rightarrow> string \<Rightarrow> PaymentSubscriptionRow \<Rightarrow> bool" where
  "subscription_at subscriptionId organizationId projectId r \<longleftrightarrow>
     sub_id r = subscriptionId \<and> sub_organization_id r = organizationId \<and> sub_project_id r = projectId"

definition getSubscriptionById :: "string \<Rightarrow> string \<Rightarrow> string \<Rightarrow> PaymentSubscriptionRow option recurring_io" where
  "getSubscriptionById subscriptionId organizationId projectId =
     select_first rs_subscriptions (subscription_at subscriptionId organizationId projectId)"

text \<open>\<^verbatim>\<open>ON CONFLICT (organization_id, project_id, plan_id, counterparty_id) DO NOTHING\<close>: a conflict on another index raises.\<close>

definition insert_subscription :: "PaymentSubscriptionRow \<Rightarrow> unit recurring_io" where
  "insert_subscription row = sql (\<lambda>s.
     if subscription_slot row \<in> subscription_slot ` set (rs_subscriptions s) then (Inr (), s)
     else put_subscriptions (rs_subscriptions s @ [row]) s)"

record CreatePaymentSubscriptionInput =
  cps_id :: string
  cps_organizationId :: string
  cps_projectId :: string
  cps_planId :: string
  cps_counterpartyId :: string
  cps_subscriberAddress :: string
  cps_subscriberTokenAccount :: "string option"
  cps_subscriptionPda :: "string option"
  cps_subscriptionAuthorityAddress :: "string option"
  cps_authorizationSignature :: "string option"
  cps_status :: PaymentSubscriptionStatus
  cps_currentPeriodStartAt :: "timestamp option"
  cps_nextCollectionDueAt :: "timestamp option"
  cps_createdBy :: "string option"
  cps_createdAt :: timestamp
  cps_updatedAt :: timestamp

definition created_subscription :: "CreatePaymentSubscriptionInput \<Rightarrow> PaymentSubscriptionRow" where
  "created_subscription input = \<lparr>sub_id = cps_id input, sub_organization_id = cps_organizationId input,
     sub_project_id = cps_projectId input, sub_plan_id = cps_planId input, sub_counterparty_id = cps_counterpartyId input,
     sub_subscriber_address = cps_subscriberAddress input, sub_subscriber_token_account = cps_subscriberTokenAccount input,
     sub_subscription_pda = cps_subscriptionPda input,
     sub_subscription_authority_address = cps_subscriptionAuthorityAddress input,
     sub_authorization_signature = cps_authorizationSignature input, sub_status = cps_status input,
     sub_current_period_start_at = cps_currentPeriodStartAt input, sub_next_collection_due_at = cps_nextCollectionDueAt input,
     sub_cancel_at = None, sub_canceled_at = None, sub_created_by = cps_createdBy input,
     sub_created_at = cps_createdAt input, sub_updated_at = cps_updatedAt input\<rparr>"

definition createSubscription :: "CreatePaymentSubscriptionInput \<Rightarrow> PaymentSubscriptionRow option recurring_io" where
  "createSubscription input = io_bind (insert_subscription (created_subscription input)) (\<lambda>_.
     getSubscriptionById (cps_id input) (cps_organizationId input) (cps_projectId input))"

record UpdatePaymentSubscriptionInput =
  ups_subscriptionId :: string
  ups_organizationId :: string
  ups_projectId :: string
  ups_subscriberTokenAccount :: "string option option"
  ups_subscriptionPda :: "string option option"
  ups_subscriptionAuthorityAddress :: "string option option"
  ups_authorizationSignature :: "string option option"
  ups_status :: "PaymentSubscriptionStatus option"
  ups_currentPeriodStartAt :: "timestamp option option"
  ups_nextCollectionDueAt :: "timestamp option option"
  ups_expectedNextCollectionDueAt :: "timestamp option option"
  ups_expectedStatus :: "PaymentSubscriptionStatus option"
  ups_cancelAt :: "timestamp option option"
  ups_canceledAt :: "timestamp option option"
  ups_updatedAt :: timestamp

definition updated_subscription :: "UpdatePaymentSubscriptionInput \<Rightarrow> PaymentSubscriptionRow \<Rightarrow> PaymentSubscriptionRow" where
  "updated_subscription input r = r\<lparr>
     sub_subscriber_token_account := assign (ups_subscriberTokenAccount input) (sub_subscriber_token_account r),
     sub_subscription_pda := assign (ups_subscriptionPda input) (sub_subscription_pda r),
     sub_subscription_authority_address := assign (ups_subscriptionAuthorityAddress input) (sub_subscription_authority_address r),
     sub_authorization_signature := assign (ups_authorizationSignature input) (sub_authorization_signature r),
     sub_status := assign (ups_status input) (sub_status r),
     sub_current_period_start_at := assign (ups_currentPeriodStartAt input) (sub_current_period_start_at r),
     sub_next_collection_due_at := assign (ups_nextCollectionDueAt input) (sub_next_collection_due_at r),
     sub_cancel_at := assign (ups_cancelAt input) (sub_cancel_at r),
     sub_canceled_at := assign (ups_canceledAt input) (sub_canceled_at r), sub_updated_at := ups_updatedAt input\<rparr>"

definition updateSubscription :: "UpdatePaymentSubscriptionInput \<Rightarrow> PaymentSubscriptionRow option recurring_io" where
  "updateSubscription input =
     io_bind (getSubscriptionById (ups_subscriptionId input) (ups_organizationId input) (ups_projectId input)) (\<lambda>existing.
     if existing = None then io_return None
     else update_returning rs_subscriptions put_subscriptions
       (\<lambda>r. subscription_at (ups_subscriptionId input) (ups_organizationId input) (ups_projectId input) r \<and>
          (case ups_expectedNextCollectionDueAt input of None \<Rightarrow> True | Some t \<Rightarrow> sub_next_collection_due_at r = t) \<and>
          (case ups_expectedStatus input of None \<Rightarrow> True | Some st \<Rightarrow> sub_status r = st))
       (updated_subscription input))"

record ListPaymentSubscriptionsInput =
  lps_organizationId :: string
  lps_projectId :: string
  lps_planId :: "string option"
  lps_counterpartyId :: "string option"
  lps_subscriberAddress :: "string option"
  lps_status :: "PaymentSubscriptionStatus option"
  lps_dueBefore :: "timestamp option"
  lps_limit :: nat
  lps_offset :: nat

definition listSubscriptions :: "ListPaymentSubscriptionsInput \<Rightarrow> (PaymentSubscriptionRow list \<times> nat) recurring_io" where
  "listSubscriptions params = page (lps_limit params) (lps_offset params) sub_created_at (\<lambda>s. filter (\<lambda>r.
     sub_organization_id r = lps_organizationId params \<and> sub_project_id r = lps_projectId params \<and>
     filter_given (lps_planId params) (sub_plan_id r) \<and> filter_given (lps_counterpartyId params) (sub_counterparty_id r) \<and>
     filter_given (lps_subscriberAddress params) (sub_subscriber_address r) \<and>
     (case lps_status params of None \<Rightarrow> True | Some st \<Rightarrow> sub_status r = st) \<and>
     (case lps_dueBefore params of None \<Rightarrow> True
      | Some t \<Rightarrow> (case sub_next_collection_due_at r of None \<Rightarrow> False | Some d \<Rightarrow> d \<le> t))) (rs_subscriptions s))"

section \<open>Collection attempts\<close>

definition attempt_at :: "string \<Rightarrow> string \<Rightarrow> string \<Rightarrow> PaymentSubscriptionCollectionAttemptRow \<Rightarrow> bool" where
  "attempt_at attemptId organizationId projectId r \<longleftrightarrow>
     sca_id r = attemptId \<and> sca_organization_id r = organizationId \<and> sca_project_id r = projectId"

definition getCollectionAttemptById ::
  "string \<Rightarrow> string \<Rightarrow> string \<Rightarrow> PaymentSubscriptionCollectionAttemptRow option recurring_io" where
  "getCollectionAttemptById attemptId organizationId projectId =
     select_first rs_attempts (attempt_at attemptId organizationId projectId)"

definition getCollectionAttemptByDue ::
  "string \<Rightarrow> string \<Rightarrow> string \<Rightarrow> timestamp \<Rightarrow> PaymentSubscriptionCollectionAttemptStatus list option \<Rightarrow>
     PaymentSubscriptionCollectionAttemptRow option recurring_io" where
  "getCollectionAttemptByDue organizationId projectId subscriptionId dueAt statuses =
     select_latest rs_attempts
       (\<lambda>r. sca_organization_id r = organizationId \<and> sca_project_id r = projectId \<and> sca_subscription_id r = subscriptionId \<and>
          sca_due_at r = dueAt \<and> status_wanted statuses (sca_status r))
       sca_updated_at"

definition createCollectionAttempt ::
  "PaymentSubscriptionCollectionAttemptRow \<Rightarrow> PaymentSubscriptionCollectionAttemptRow option recurring_io" where
  "createCollectionAttempt input = io_bind (insert_unless_conflict rs_attempts put_attempts input) (\<lambda>_.
     getCollectionAttemptById (sca_id input) (sca_organization_id input) (sca_project_id input))"

record UpdatePaymentSubscriptionCollectionAttemptInput =
  uca_attemptId :: string
  uca_organizationId :: string
  uca_projectId :: string
  uca_transferId :: "string option option"
  uca_attemptedAt :: "timestamp option option"
  uca_status :: "PaymentSubscriptionCollectionAttemptStatus option"
  uca_signature :: "string option option"
  uca_error :: "string option option"
  uca_metadata :: "json_object option"
  uca_updatedAt :: timestamp

text \<open>The moves of an attempt's status that an update may make.\<close>

definition attempt_move ::
  "PaymentSubscriptionCollectionAttemptStatus option \<Rightarrow> PaymentSubscriptionCollectionAttemptStatus \<Rightarrow> bool" where
  "attempt_move target current = (case target of
     None \<Rightarrow> True
   | Some st \<Rightarrow> st = current \<or> st = CaProcessing \<and> current = CaPending \<or>
       st = CaConfirmed \<and> current \<in> {CaPending, CaProcessing} \<or> st = CaFailed \<and> current \<in> {CaPending, CaProcessing})"

definition updated_attempt ::
  "UpdatePaymentSubscriptionCollectionAttemptInput \<Rightarrow> PaymentSubscriptionCollectionAttemptRow \<Rightarrow>
     PaymentSubscriptionCollectionAttemptRow" where
  "updated_attempt input r = r\<lparr>sca_transfer_id := assign (uca_transferId input) (sca_transfer_id r),
     sca_attempted_at := assign (uca_attemptedAt input) (sca_attempted_at r),
     sca_status := assign (uca_status input) (sca_status r), sca_signature := assign (uca_signature input) (sca_signature r),
     sca_error := assign (uca_error input) (sca_error r), sca_metadata := assign (uca_metadata input) (sca_metadata r),
     sca_updated_at := uca_updatedAt input\<rparr>"

definition updateCollectionAttempt ::
  "UpdatePaymentSubscriptionCollectionAttemptInput \<Rightarrow> PaymentSubscriptionCollectionAttemptRow option recurring_io" where
  "updateCollectionAttempt input = update_returning rs_attempts put_attempts
     (\<lambda>r. attempt_at (uca_attemptId input) (uca_organizationId input) (uca_projectId input) r \<and>
        attempt_move (uca_status input) (sca_status r))
     (updated_attempt input)"

record ListPaymentSubscriptionCollectionAttemptsInput =
  lca_organizationId :: string
  lca_projectId :: string
  lca_subscriptionId :: string
  lca_status :: "PaymentSubscriptionCollectionAttemptStatus option"
  lca_limit :: nat
  lca_offset :: nat

definition listCollectionAttempts ::
  "ListPaymentSubscriptionCollectionAttemptsInput \<Rightarrow> (PaymentSubscriptionCollectionAttemptRow list \<times> nat) recurring_io" where
  "listCollectionAttempts params = page (lca_limit params) (lca_offset params) sca_created_at (\<lambda>s. filter (\<lambda>r.
     sca_organization_id r = lca_organizationId params \<and> sca_project_id r = lca_projectId params \<and>
     sca_subscription_id r = lca_subscriptionId params \<and>
     (case lca_status params of None \<Rightarrow> True | Some st \<Rightarrow> sca_status r = st)) (rs_attempts s))"

end
