(* ===== verification/Recurring_Service.thy ===== *)
theory Recurring_Service
  imports Recurring_Ledger
begin

text \<open>
  The services of recurring payments (\<^verbatim>\<open>services/payments/recurring-payments/\<close>): cancelling and resuming (\<^verbatim>\<open>lifecycle.ts\<close>, with
  \<^verbatim>\<open>shared.ts\<close>), and of collection the recovery of an interrupted attempt up to its failure or its verified settlement
  (\<^verbatim>\<open>collection.ts\<close>). Everything that leaves the process is a field of \<open>recurring_world\<close>: the RPC, the custody signer, the fee
  sponsor, the transaction and program libraries and the readers of token data. Logging is left out. A promise that is
  returned without being awaited inside \<^verbatim>\<open>try\<close> settles outside of it: the finalizations run after the handlers.
\<close>

section \<open>The outside\<close>

record CustodyWallet =
  cw_walletId :: string
  cw_publicKey :: string

record ParsedInstruction =
  pin_programId :: string
  pin_accounts :: "string list option"
  pin_data :: "string option"

record ConfirmedTransaction =
  ctx_err :: bool
  ctx_instructions :: "ParsedInstruction list"

record TransferSubscriptionInstructionData =
  tsd_discriminator :: nat
  tsd_amount :: int
  tsd_delegator :: string
  tsd_mint :: string

record WellKnownToken =
  wkt_isUsdStable :: bool
  wkt_clusters :: "string list"

record recurring_world =
  rw_iso :: "timestamp \<Rightarrow> string"
  rw_isAddress :: "string \<Rightarrow> bool"
  rw_isSignature :: "string \<Rightarrow> bool"
  rw_network :: string
  rw_isNativePaymentToken :: "string \<Rightarrow> bool"
  rw_normalizePaymentToken :: "string \<Rightarrow> (api_error, string) result"
  rw_wellKnownTokenByMint :: "string \<Rightarrow> WellKnownToken option"
  rw_tokenStatusByMint :: "string \<Rightarrow> string \<Rightarrow> string option recurring_io"
  rw_retryAfterMinutes :: "string option"
  rw_subscriptionsProgram :: string
  rw_transferDiscriminator :: nat
  rw_decodeTransfer :: "string \<Rightarrow> TransferSubscriptionInstructionData option"
  rw_findEventAuthorityPda :: "string recurring_io"
  rw_resolveMintTokenProgram :: "string \<Rightarrow> string recurring_io"
  rw_resolveMintDecimals :: "string \<Rightarrow> int recurring_io"
  rw_findAssociatedTokenPda :: "string \<Rightarrow> string \<Rightarrow> string \<Rightarrow> string recurring_io"
  rw_getTransaction :: "string \<Rightarrow> ConfirmedTransaction option recurring_io"
  rw_confirmTransaction :: "string \<Rightarrow> bool recurring_io"
  rw_createOrgSigner :: "string \<Rightarrow> string \<Rightarrow> string \<Rightarrow> string recurring_io"
  rw_fetchSubscriptionExpiry :: "string \<Rightarrow> int option recurring_io"
  rw_cancelInstruction :: "string \<Rightarrow> string \<Rightarrow> string \<Rightarrow> string recurring_io"
  rw_resumeInstruction :: "int \<Rightarrow> string \<Rightarrow> string \<Rightarrow> string \<Rightarrow> string \<Rightarrow> string recurring_io"
  rw_getRecentBlockhash :: "string recurring_io"
  rw_getFeePayer :: "string \<Rightarrow> string \<Rightarrow> string \<Rightarrow> string recurring_io"
  rw_signMessage :: "string \<Rightarrow> string \<Rightarrow> string list \<Rightarrow> string \<Rightarrow> string recurring_io"
  rw_signAndSend :: "string \<Rightarrow> string recurring_io"
  rw_emitRecurringPaymentFailed :: "PaymentSubscriptionCollectionAttemptRow \<Rightarrow> string \<Rightarrow> unit recurring_io"

text \<open>An optional text counts as present when it is neither \<^verbatim>\<open>null\<close> nor empty.\<close>

definition truthy :: "string option \<Rightarrow> bool" where
  "truthy v = (case v of None \<Rightarrow> False | Some t \<Rightarrow> t \<noteq> [])"

definition assertValidAddress :: "recurring_world \<Rightarrow> string \<Rightarrow> string \<Rightarrow> string recurring_io" where
  "assertValidAddress w value fieldName = (if rw_isAddress w value then io_return value
     else io_throw (PlainError (''Invalid Solana address for '' @ fieldName @ '': '' @ value)))"

definition transaction_failed :: "api_error \<Rightarrow> bool" where
  "transaction_failed e = (case e of AppError code _ _ \<Rightarrow> code = TRANSACTION_FAILED | _ \<Rightarrow> False)"

text \<open>\<^verbatim>\<open>signed-submission.ts\<close>.\<close>

definition isDefiniteSubmissionError :: "api_error \<Rightarrow> bool" where
  "isDefiniteSubmissionError e = (case e of AppError code _ _ \<Rightarrow> code \<in> {TRANSACTION_FAILED, ACCOUNT_FROZEN} | _ \<Rightarrow> False)"

section \<open>Shared\<close>

definition RECURRING_PAYMENT_TOKEN_ERROR :: string where
  "RECURRING_PAYMENT_TOKEN_ERROR =
     ''Recurring payments support USD stablecoins and tokens issued in this project; native SOL is not supported''"

definition assertRecurringPaymentTokenMint ::
  "recurring_world \<Rightarrow> string \<Rightarrow> string \<Rightarrow> string \<Rightarrow> string recurring_io" where
  "assertRecurringPaymentTokenMint w token organizationId projectId =
     (if rw_isNativePaymentToken w token then io_throw (badRequest RECURRING_PAYMENT_TOKEN_ERROR)
      else io_bind (io_lift (rw_normalizePaymentToken w token)) (\<lambda>normalized.
        io_bind (assertValidAddress w normalized ''token'') (\<lambda>mint.
        case rw_wellKnownTokenByMint w mint of
          Some wellKnown \<Rightarrow>
            (if wkt_isUsdStable wellKnown \<and> rw_network w \<in> set (wkt_clusters wellKnown) then io_return mint
             else io_throw (badRequest RECURRING_PAYMENT_TOKEN_ERROR))
        | None \<Rightarrow>
            io_bind (rw_tokenStatusByMint w projectId mint) (\<lambda>issuedTokenStatus.
            if issuedTokenStatus \<noteq> Some ''active'' then io_throw (badRequest RECURRING_PAYMENT_TOKEN_ERROR)
            else io_return mint))))"

text \<open>Without a submission store: signed, then handed to the fee sponsor, which sends it.\<close>

definition sendSubscriptionInstructions ::
  "recurring_world \<Rightarrow> string \<Rightarrow> string \<Rightarrow> CustodyWallet \<Rightarrow> string \<Rightarrow> string list \<Rightarrow> string recurring_io" where
  "sendSubscriptionInstructions w organizationId projectId sourceWallet signer instructions =
     (if signer \<noteq> cw_publicKey sourceWallet
      then io_throw (badRequest ''Resolved signing wallet does not match source wallet'')
      else io_bind (rw_getRecentBlockhash w) (\<lambda>blockhash.
        io_bind (rw_getFeePayer w organizationId projectId (cw_walletId sourceWallet)) (\<lambda>feePayer.
        io_bind (rw_signMessage w feePayer blockhash instructions signer) (\<lambda>txBytes.
        io_bind (io_modify (\<lambda>s. s\<lparr>rs_sent := rs_sent s @ [txBytes]\<rparr>)) (\<lambda>_.
        rw_signAndSend w txBytes)))))"

definition confirmSubscriptionSignature :: "recurring_world \<Rightarrow> string \<Rightarrow> string \<Rightarrow> unit recurring_io" where
  "confirmSubscriptionSignature w signature message =
     io_bind (rw_confirmTransaction w signature) (\<lambda>err.
       if err then io_throw (AppError TRANSACTION_FAILED message []) else io_return ())"

section \<open>Collection: evidence\<close>

record VerifiedRecurringPaymentCollection =
  vrc_attemptId :: string
  vrc_dueAt :: timestamp
  vrc_destinationTokenAccount :: string
  vrc_signature :: string
  vrc_transferId :: string

definition hasStoppedSubscriptionCollections :: "PaymentSubscriptionRow \<Rightarrow> bool" where
  "hasStoppedSubscriptionCollections row \<longleftrightarrow> sub_status row \<noteq> SubActive"

definition COLLECTION_STALE_AFTER_MS :: int where
  "COLLECTION_STALE_AFTER_MS = RECURRING_PAYMENT_OPERATION_STALE_AFTER_MS"

definition isStaleCollectionAttempt :: "timestamp \<Rightarrow> PaymentSubscriptionCollectionAttemptRow \<Rightarrow> bool" where
  "isStaleCollectionAttempt date_now row \<longleftrightarrow> sca_updated_at row \<le> date_now - COLLECTION_STALE_AFTER_MS"

definition validatedStoredCollectionSignature :: "recurring_world \<Rightarrow> string \<Rightarrow> string recurring_io" where
  "validatedStoredCollectionSignature w signature =
     (if rw_isSignature w signature then io_return signature
      else io_throw (internalError ''Recurring payment collection has an invalid stored signature''))"

fun object_set :: "string \<Rightarrow> json \<Rightarrow> json_object \<Rightarrow> json_object" where
  "object_set k v [] = [(k, v)]"
| "object_set k v ((k', v') # entries) = (if k = k' then (k, v) # entries else (k', v') # object_set k v entries)"

definition object_spread :: "json_object \<Rightarrow> json_object \<Rightarrow> json_object" where
  "object_spread extra base = fold (\<lambda>(k, v). object_set k v) extra base"

definition isRecurringCollectionSource :: "json option \<Rightarrow> bool" where
  "isRecurringCollectionSource v \<longleftrightarrow> v = Some (JStr ''manual'') \<or> v = Some (JStr ''automated'')"

text \<open>With neither a source nor a key given, which is how recovery calls it; both stay as the metadata has them.\<close>

definition recurringCollectionMetadata :: "json_object \<Rightarrow> string \<Rightarrow> string option \<Rightarrow> json_object \<Rightarrow> json_object" where
  "recurringCollectionMetadata metadata recurringPaymentId transferId extra =
     (let source = (if isRecurringCollectionSource (json_field metadata ''collectionSource'')
                    then json_field metadata ''collectionSource'' else None);
          key = (case json_field metadata ''initiatedByKeyId'' of Some (JStr k) \<Rightarrow> Some k | _ \<Rightarrow> None)
      in object_spread extra
        ((if truthy key then object_set ''initiatedByKeyId'' (JStr (the key)) else (\<lambda>m. m))
        ((case source of Some v \<Rightarrow> object_set ''collectionSource'' v | None \<Rightarrow> (\<lambda>m. m))
        ((if truthy transferId then object_set ''transferId'' (JStr (the transferId)) else (\<lambda>m. m))
        (object_set ''recurringPaymentId'' (JStr recurringPaymentId) metadata)))))"

definition resolveDestinationTokenAccount :: "recurring_world \<Rightarrow> string \<Rightarrow> string \<Rightarrow> string recurring_io" where
  "resolveDestinationTokenAccount w destinationAddress token =
     io_bind (assertValidAddress w destinationAddress ''destinationAddress'') (\<lambda>destinationOwner.
     io_bind (assertValidAddress w token ''token'') (\<lambda>mint.
     io_bind (rw_resolveMintTokenProgram w mint) (\<lambda>tokenProgram.
     rw_findAssociatedTokenPda w destinationOwner tokenProgram mint)))"

record expected_collection =
  exc_amountBaseUnits :: int
  exc_sourceAddress :: string
  exc_subscriberTokenAccount :: string
  exc_subscriptionAuthorityAddress :: string
  exc_subscriptionPda :: string
  exc_planPda :: string
  exc_destinationTokenAccount :: string
  exc_token :: string
  exc_tokenProgram :: string
  exc_eventAuthority :: string

definition matchesRecurringTransferInstruction ::
  "recurring_world \<Rightarrow> expected_collection \<Rightarrow> ParsedInstruction \<Rightarrow> bool" where
  "matchesRecurringTransferInstruction w input instruction =
     (case (pin_accounts instruction, pin_data instruction) of
        (Some accounts, Some data) \<Rightarrow>
          if pin_programId instruction \<noteq> rw_subscriptionsProgram w \<or> length accounts \<noteq> 10 \<or> data = [] then False
          else (case rw_decodeTransfer w data of
              None \<Rightarrow> False
            | Some decoded \<Rightarrow>
                tsd_discriminator decoded = rw_transferDiscriminator w \<and>
                tsd_amount decoded = exc_amountBaseUnits input \<and>
                tsd_delegator decoded = exc_sourceAddress input \<and>
                tsd_mint decoded = exc_token input \<and>
                accounts = [exc_subscriptionPda input, exc_planPda input, exc_subscriptionAuthorityAddress input,
                  exc_subscriberTokenAccount input, exc_destinationTokenAccount input, exc_sourceAddress input,
                  exc_token input, exc_tokenProgram input, exc_eventAuthority input, rw_subscriptionsProgram w])
      | _ \<Rightarrow> False)"

definition providerEvidenceMatches ::
  "recurring_world \<Rightarrow> PaymentRecurringPaymentRow \<Rightarrow> PaymentSubscriptionRow \<Rightarrow> timestamp \<Rightarrow> json_object \<Rightarrow> bool" where
  "providerEvidenceMatches w recurringPayment subscription dueAt providerData \<longleftrightarrow>
     json_field providerData ''recurringPaymentId'' = Some (JStr (rp_id recurringPayment)) \<and>
     (json_field providerData ''subscriptionId'' = Some (JStr (sub_id subscription)) \<and>
        json_field providerData ''collectionDueAt'' = Some (JStr (rw_iso w dueAt)) \<or>
      json_field providerData ''subscriptionId'' = None \<and> json_field providerData ''collectionDueAt'' = None)"

definition persistedEvidenceMatches ::
  "recurring_world \<Rightarrow> PaymentRecurringPaymentRow \<Rightarrow> PaymentSubscriptionRow \<Rightarrow> PaymentSubscriptionCollectionAttemptRow \<Rightarrow>
     PaymentTransferRow \<Rightarrow> string \<Rightarrow> timestamp \<Rightarrow> bool" where
  "persistedEvidenceMatches w recurringPayment subscription attempt transfer signature dueAt \<longleftrightarrow>
     sca_subscription_id attempt = sub_id subscription \<and> sca_transfer_id attempt = Some (ptr_id transfer) \<and>
     sca_due_at attempt = dueAt \<and> sca_token attempt = rp_token recurringPayment \<and>
     sca_amount attempt = rp_amount recurringPayment \<and>
     json_field (sca_metadata attempt) ''recurringPaymentId'' = Some (JStr (rp_id recurringPayment)) \<and>
     ptr_wallet_id transfer = rp_source_wallet_id recurringPayment \<and>
     ptr_counterparty_id transfer = Some (rp_counterparty_id recurringPayment) \<and>
     ptr_source_address transfer = Some (rp_source_address recurringPayment) \<and>
     ptr_destination_address transfer = Some (rp_destination_address recurringPayment) \<and>
     ptr_token transfer = rp_token recurringPayment \<and> ptr_amount transfer = Some (rp_amount recurringPayment) \<and>
     ptr_type transfer = Transfer \<and> ptr_direction transfer = Outbound \<and>
     providerEvidenceMatches w recurringPayment subscription dueAt (ptr_provider_data transfer) \<and>
     (sca_signature attempt = None \<or> sca_signature attempt = Some signature) \<and> ptr_signature transfer = Some signature"

definition verifyRecurringPaymentCollection ::
  "recurring_world \<Rightarrow> PaymentRecurringPaymentRow \<Rightarrow> PaymentSubscriptionRow \<Rightarrow> PaymentSubscriptionCollectionAttemptRow \<Rightarrow>
     PaymentTransferRow \<Rightarrow> string \<Rightarrow> timestamp \<Rightarrow> string \<Rightarrow> VerifiedRecurringPaymentCollection recurring_io" where
  "verifyRecurringPaymentCollection w recurringPayment subscription attempt transfer signature dueAt destinationTokenAccount =
     (if \<not> persistedEvidenceMatches w recurringPayment subscription attempt transfer signature dueAt
      then io_throw (AppError CONFLICT ''Recurring payment collection evidence does not match the due payment'' [])
      else if \<not> truthy (rp_plan_pda recurringPayment) \<or> \<not> truthy (rp_subscription_pda recurringPayment) \<or>
        \<not> truthy (sub_subscription_authority_address subscription) \<or> \<not> truthy (sub_subscriber_token_account subscription)
      then io_throw (AppError CONFLICT ''Recurring payment collection is missing verified addresses'' [])
      else io_bind (assertValidAddress w (rp_token recurringPayment) ''token'') (\<lambda>mint.
        io_bind (rw_resolveMintTokenProgram w mint) (\<lambda>tokenProgram.
        io_bind (rw_resolveMintDecimals w mint) (\<lambda>decimals.
        io_bind (io_lift (case parseDecimalAmount (rp_amount recurringPayment) decimals of
            Inl e \<Rightarrow> Inl (AmountThrown e) | Inr amount \<Rightarrow> Inr amount)) (\<lambda>amountBaseUnits.
        io_bind (rw_getTransaction w signature) (\<lambda>confirmedTransaction.
        case confirmedTransaction of
          None \<Rightarrow> io_throw (AppError SOLANA_RPC_ERROR
            ''Recurring payment collection is confirmed but not yet indexed; retry shortly'' [])
        | Some tx \<Rightarrow>
            if ctx_err tx then io_throw (AppError TRANSACTION_FAILED ''Recurring payment collection failed on-chain'' [])
            else io_bind (rw_findEventAuthorityPda w) (\<lambda>eventAuthority.
              if \<not> list_ex (matchesRecurringTransferInstruction w
                  \<lparr>exc_amountBaseUnits = amountBaseUnits, exc_sourceAddress = rp_source_address recurringPayment,
                   exc_subscriberTokenAccount = the (sub_subscriber_token_account subscription),
                   exc_subscriptionAuthorityAddress = the (sub_subscription_authority_address subscription),
                   exc_subscriptionPda = the (rp_subscription_pda recurringPayment), exc_planPda = the (rp_plan_pda recurringPayment),
                   exc_destinationTokenAccount = destinationTokenAccount, exc_token = rp_token recurringPayment,
                   exc_tokenProgram = tokenProgram, exc_eventAuthority = eventAuthority\<rparr>) (ctx_instructions tx)
              then io_throw (AppError CONFLICT ''Confirmed transaction does not prove the expected recurring payment collection'' [])
              else io_return \<lparr>vrc_attemptId = sca_id attempt, vrc_dueAt = dueAt,
                vrc_destinationTokenAccount = destinationTokenAccount, vrc_signature = signature,
                vrc_transferId = ptr_id transfer\<rparr>)))))))"

section \<open>Transfers\<close>

text \<open>The statements of \<^verbatim>\<open>payments.repository.postgres.ts\<close> that recovery uses, bound to the tenant of the call; columns that no
  caller here gives keep their values.\<close>

definition transfer_at :: "string \<Rightarrow> string \<Rightarrow> string \<Rightarrow> PaymentTransferRow \<Rightarrow> bool" where
  "transfer_at transferId organizationId projectId r \<longleftrightarrow>
     ptr_id r = transferId \<and> ptr_organization_id r = organizationId \<and> ptr_project_id r = Some projectId"

definition getTransferById :: "string \<Rightarrow> string \<Rightarrow> string \<Rightarrow> PaymentTransferRow option recurring_io" where
  "getTransferById transferId organizationId projectId = select_first rs_transfers (transfer_at transferId organizationId projectId)"

record UpdatePaymentTransferInput =
  upt_transferId :: string
  upt_organizationId :: string
  upt_projectId :: string
  upt_expectedStatus :: "PaymentTransferStatus option"
  upt_status :: "PaymentTransferStatus option"
  upt_signature :: "string option option"
  upt_error :: "string option option"
  upt_updatedAt :: timestamp

definition updated_transfer :: "UpdatePaymentTransferInput \<Rightarrow> PaymentTransferRow \<Rightarrow> PaymentTransferRow" where
  "updated_transfer input r = r\<lparr>ptr_status := assign (upt_status input) (ptr_status r),
     ptr_signature := assign (upt_signature input) (ptr_signature r), ptr_error := assign (upt_error input) (ptr_error r),
     ptr_confirmed_at := (if upt_status input \<in> {Some TrConfirmed, Some TrFinalized}
       then (case ptr_confirmed_at r of None \<Rightarrow> Some (upt_updatedAt input) | Some t \<Rightarrow> Some t) else ptr_confirmed_at r),
     ptr_updated_at := upt_updatedAt input\<rparr>"

definition updateTransfer :: "UpdatePaymentTransferInput \<Rightarrow> PaymentTransferRow option recurring_io" where
  "updateTransfer input = update_returning rs_transfers put_transfers
     (\<lambda>r. transfer_at (upt_transferId input) (upt_organizationId input) (upt_projectId input) r \<and>
        (case upt_expectedStatus input of None \<Rightarrow> True | Some st \<Rightarrow> ptr_status r = st))
     (updated_transfer input)"

section \<open>Collection: failing an attempt\<close>

text \<open>\<^verbatim>\<open>Number.parseInt(value, 10)\<close> for the texts that begin, after spaces and a sign, with digits.\<close>

definition parse_int10 :: "string \<Rightarrow> int option" where
  "parse_int10 value =
     (let body = dropWhile js_space value;
          negative = (body \<noteq> [] \<and> hd body = CHR ''-'');
          digits = takeWhile is_digit (if body \<noteq> [] \<and> hd body \<in> {CHR ''-'', CHR ''+''} then tl body else body)
      in if digits = [] then None else Some ((if negative then -1 else 1) * int (digits_value digits)))"

definition DEFAULT_RECURRING_COLLECTION_RETRY_AFTER_MINUTES :: int where
  "DEFAULT_RECURRING_COLLECTION_RETRY_AFTER_MINUTES = 30"

definition parsePositiveIntegerConfig :: "string option \<Rightarrow> int \<Rightarrow> int" where
  "parsePositiveIntegerConfig value fallback = (case value of
     None \<Rightarrow> fallback
   | Some v \<Rightarrow> if js_trim v = [] then fallback
       else (case parse_int10 v of None \<Rightarrow> fallback | Some parsed \<Rightarrow> if parsed > 0 then parsed else fallback))"

definition collectionRetryMetadata :: "recurring_world \<Rightarrow> timestamp \<Rightarrow> api_error \<Rightarrow> (api_error, json_object) result" where
  "collectionRetryMetadata w date_now error =
     (let minutes = parsePositiveIntegerConfig (rw_retryAfterMinutes w) DEFAULT_RECURRING_COLLECTION_RETRY_AFTER_MINUTES
      in result_bind (toISOString (time_clip (date_now + minutes * 60 * 1000))) (\<lambda>retryAfterAt.
        Inr [(''error'', JStr (errorMessage error)), (''retryAfterAt'', JStr (rw_iso w retryAfterAt))]))"

text \<open>The transfer's part: \<open>Some\<close> a signature when the transfer turns out to have been confirmed.\<close>

definition fail_transfer ::
  "recurring_world \<Rightarrow> string \<Rightarrow> string \<Rightarrow> timestamp \<Rightarrow> string \<Rightarrow> string option \<Rightarrow> PaymentTransferRow \<Rightarrow> string option recurring_io" where
  "fail_transfer w organizationId projectId failedAt message submittedSignature transfer =
     io_bind (update_returning rs_transfers put_transfers
         (\<lambda>r. transfer_at (ptr_id transfer) organizationId projectId r \<and> ptr_status r \<in> {TrPending, TrProcessing, TrFailed})
         (\<lambda>r. r\<lparr>ptr_status := TrFailed,
            ptr_signature := (if submittedSignature \<noteq> None then submittedSignature else ptr_signature r),
            ptr_error := Some message, ptr_updated_at := failedAt\<rparr>)) (\<lambda>changed.
     if changed \<noteq> None then io_return None
     else io_bind (getTransferById (ptr_id transfer) organizationId projectId) (\<lambda>currentTransfer. case currentTransfer of
         None \<Rightarrow> io_throw (internalError ''Failed to mark collection transfer failed'')
       | Some current \<Rightarrow>
           if ptr_status current \<noteq> TrConfirmed then io_throw (internalError ''Failed to mark collection transfer failed'')
           else let currentSignature = (if ptr_signature current \<noteq> None then ptr_signature current else submittedSignature)
             in if \<not> truthy currentSignature then io_throw (internalError ''Confirmed collection transfer is missing signature'')
             else io_bind (validatedStoredCollectionSignature w (the currentSignature)) (\<lambda>signature. io_return (Some signature))))"

definition failure_move ::
  "PaymentSubscriptionCollectionAttemptStatus \<Rightarrow> PaymentSubscriptionCollectionAttemptStatus \<Rightarrow> bool" where
  "failure_move target current \<longleftrightarrow> target = CaConfirmed \<and> current \<in> {CaPending, CaProcessing, CaConfirmed} \<or>
     target = CaFailed \<and> current \<in> {CaPending, CaProcessing, CaFailed}"

definition failed_attempt ::
  "timestamp \<Rightarrow> PaymentTransferRow option \<Rightarrow> PaymentSubscriptionCollectionAttemptStatus \<Rightarrow> string option \<Rightarrow> string option \<Rightarrow>
     json_object \<Rightarrow> PaymentSubscriptionCollectionAttemptRow \<Rightarrow> PaymentSubscriptionCollectionAttemptRow" where
  "failed_attempt failedAt transfer status signature error metadata r = r\<lparr>
     sca_transfer_id := (case transfer of None \<Rightarrow> sca_transfer_id r | Some t \<Rightarrow> Some (ptr_id t)), sca_status := status,
     sca_signature := (if signature \<noteq> None then signature else sca_signature r), sca_error := error,
     sca_metadata := metadata, sca_updated_at := failedAt\<rparr>"

definition settle_failed_attempt ::
  "string \<Rightarrow> string \<Rightarrow> string \<Rightarrow> (PaymentSubscriptionCollectionAttemptStatus) \<Rightarrow>
     (PaymentSubscriptionCollectionAttemptRow \<Rightarrow> PaymentSubscriptionCollectionAttemptRow) \<Rightarrow> unit recurring_io" where
  "settle_failed_attempt attemptId organizationId projectId status change =
     io_bind (update_returning rs_attempts put_attempts
         (\<lambda>r. attempt_at attemptId organizationId projectId r \<and> failure_move status (sca_status r)) change) (\<lambda>changed.
     if changed = None then io_throw (internalError ''Failed to mark collection attempt failed'') else io_return ())"

definition markRecurringPaymentCollectionFailedAtomically ::
  "recurring_world \<Rightarrow> string \<Rightarrow> string \<Rightarrow> string \<Rightarrow> PaymentSubscriptionCollectionAttemptRow \<Rightarrow> PaymentTransferRow option \<Rightarrow>
     string option \<Rightarrow> api_error \<Rightarrow> unit recurring_io" where
  "markRecurringPaymentCollectionFailedAtomically w organizationId projectId recurringPaymentId attempt transfer
       submittedSignature error =
     io_bind now (\<lambda>failedAt.
     io_bind (io_lift (collectionRetryMetadata w failedAt error)) (\<lambda>retryMetadata.
     io_bind (transaction (
       io_bind (case transfer of
           None \<Rightarrow> io_return None
         | Some t \<Rightarrow> fail_transfer w organizationId projectId failedAt (errorMessage error) submittedSignature t)
         (\<lambda>confirmedTransferSignature.
       settle_failed_attempt (sca_id attempt) organizationId projectId
         (if confirmedTransferSignature \<noteq> None then CaConfirmed else CaFailed)
         (failed_attempt failedAt transfer (if confirmedTransferSignature \<noteq> None then CaConfirmed else CaFailed)
           (if confirmedTransferSignature \<noteq> None then confirmedTransferSignature else submittedSignature)
           (if confirmedTransferSignature \<noteq> None then None else Some (errorMessage error))
           (if confirmedTransferSignature \<noteq> None
            then recurringCollectionMetadata (sca_metadata attempt) recurringPaymentId (map_option ptr_id transfer) []
            else recurringCollectionMetadata (sca_metadata attempt) recurringPaymentId (map_option ptr_id transfer) retryMetadata)))))
       (\<lambda>_. rw_emitRecurringPaymentFailed w attempt (errorMessage error))))"

section \<open>Collection: settling an attempt\<close>

definition finalizeRecurringPaymentCollection ::
  "string \<Rightarrow> string \<Rightarrow> PaymentRecurringPaymentRow \<Rightarrow> PaymentSubscriptionRow \<Rightarrow> PaymentSubscriptionCollectionAttemptRow \<Rightarrow>
     PaymentTransferRow \<Rightarrow> VerifiedRecurringPaymentCollection \<Rightarrow>
     (PaymentRecurringPaymentRow \<times> PaymentSubscriptionRow \<times> PaymentSubscriptionCollectionAttemptRow \<times> PaymentTransferRow) recurring_io" where
  "finalizeRecurringPaymentCollection organizationId projectId recurringPayment subscription attempt transfer proof_record =
     io_bind now (\<lambda>finalizedAt.
     io_bind (io_lift (nextRecurringPaymentCollectionDueAt (Some (vrc_dueAt proof_record)) (rp_period_hours recurringPayment)))
       (\<lambda>nextDueAt.
     transaction (
       io_bind (updateTransfer \<lparr>upt_transferId = ptr_id transfer, upt_organizationId = organizationId, upt_projectId = projectId,
           upt_expectedStatus = Some (ptr_status transfer),
           upt_status = Some (if ptr_status transfer = TrFinalized then TrFinalized else TrConfirmed),
           upt_signature = Some (Some (vrc_signature proof_record)), upt_error = Some None, upt_updatedAt = finalizedAt\<rparr>)
         (\<lambda>updatedTransfer.
       io_bind (case updatedTransfer of Some t \<Rightarrow> io_return (Some t)
           | None \<Rightarrow> getTransferById (ptr_id transfer) organizationId projectId) (\<lambda>finalizedTransfer.
       io_bind (updateCollectionAttempt \<lparr>uca_attemptId = sca_id attempt, uca_organizationId = organizationId,
           uca_projectId = projectId, uca_transferId = Some (Some (ptr_id transfer)), uca_attemptedAt = None,
           uca_status = Some CaConfirmed, uca_signature = Some (Some (vrc_signature proof_record)), uca_error = Some None,
           uca_metadata = Some (recurringCollectionMetadata (sca_metadata attempt) (rp_id recurringPayment)
             (Some (ptr_id transfer)) []), uca_updatedAt = finalizedAt\<rparr>) (\<lambda>updatedAttempt.
       io_bind (case updatedAttempt of Some a \<Rightarrow> io_return (Some a)
           | None \<Rightarrow> getCollectionAttemptById (sca_id attempt) organizationId projectId) (\<lambda>finalizedAttempt.
       io_bind (updateSubscription \<lparr>ups_subscriptionId = sub_id subscription, ups_organizationId = organizationId,
           ups_projectId = projectId, ups_subscriberTokenAccount = None, ups_subscriptionPda = None,
           ups_subscriptionAuthorityAddress = None, ups_authorizationSignature = None, ups_status = None,
           ups_currentPeriodStartAt = Some (Some (vrc_dueAt proof_record)), ups_nextCollectionDueAt = Some (Some nextDueAt),
           ups_expectedNextCollectionDueAt = Some (Some (vrc_dueAt proof_record)), ups_expectedStatus = Some SubActive,
           ups_cancelAt = None, ups_canceledAt = None, ups_updatedAt = finalizedAt\<rparr>) (\<lambda>updatedSubscription.
       io_bind (case updatedSubscription of Some u \<Rightarrow> io_return (Some u)
           | None \<Rightarrow> getSubscriptionById (sub_id subscription) organizationId projectId) (\<lambda>finalizedSubscription.
       io_bind (updateRecurringPaymentCollection \<lparr>upc_recurringPaymentId = rp_id recurringPayment,
           upc_organizationId = organizationId, upc_projectId = projectId,
           upc_currentCollectionDueAt = vrc_dueAt proof_record, upc_nextCollectionDueAt = nextDueAt,
           upc_destinationTokenAccount = Some (Some (vrc_destinationTokenAccount proof_record)), upc_updatedAt = finalizedAt\<rparr>)
         (\<lambda>updatedRecurringPayment.
       io_bind (case updatedRecurringPayment of Some r \<Rightarrow> io_return (Some r)
           | None \<Rightarrow> getRecurringPaymentById (rp_id recurringPayment) organizationId projectId None) (\<lambda>finalizedRecurringPayment.
       case (finalizedRecurringPayment, finalizedSubscription, finalizedAttempt, finalizedTransfer) of
         (Some r, Some u, Some a, Some t) \<Rightarrow>
           if updatedRecurringPayment = None \<and> isRecurringPaymentCollectionActive (rp_status r) \<and>
               \<not> hasRecurringPaymentAdvancedPastDueAt (rp_next_collection_due_at r) (Some (vrc_dueAt proof_record)) \<or>
             updatedSubscription = None \<and> \<not> hasStoppedSubscriptionCollections u \<and>
               \<not> hasRecurringPaymentAdvancedPastDueAt (sub_next_collection_due_at u) (Some (vrc_dueAt proof_record)) \<or>
             sca_status a \<noteq> CaConfirmed \<or> sca_signature a \<noteq> Some (vrc_signature proof_record) \<or>
             sca_id a \<noteq> vrc_attemptId proof_record \<or> sca_transfer_id a \<noteq> Some (vrc_transferId proof_record) \<or>
             ptr_status t \<notin> {TrConfirmed, TrFinalized} \<or> ptr_signature t \<noteq> Some (vrc_signature proof_record) \<or>
             ptr_id t \<noteq> vrc_transferId proof_record
           then io_throw (internalError ''Failed to finalize recurring payment collection'')
           else io_return (r, u, a, t)
       | _ \<Rightarrow> io_throw (internalError ''Failed to finalize recurring payment collection''))))))))))))"

section \<open>Collection: journaling an error\<close>

text \<open>\<^verbatim>\<open>Promise.allSettled\<close>: a rejection is a value.\<close>

definition settled :: "'a recurring_io \<Rightarrow> (api_error, 'a) result recurring_io" where
  "settled m = (\<lambda>s. case m s of (r, s') \<Rightarrow> (Inr r, s'))"

definition journalRecurringPaymentCollectionError ::
  "recurring_world \<Rightarrow> string \<Rightarrow> string \<Rightarrow> string \<Rightarrow> PaymentSubscriptionCollectionAttemptRow \<Rightarrow> PaymentTransferRow option \<Rightarrow>
     string option \<Rightarrow> api_error \<Rightarrow> unit recurring_io" where
  "journalRecurringPaymentCollectionError w organizationId projectId recurringPaymentId attempt transfer submittedSignature error =
     (if truthy submittedSignature \<and> \<not> isDefiniteSubmissionError error
      then io_bind now (\<lambda>updatedAt.
        io_bind (settled (updateCollectionAttempt \<lparr>uca_attemptId = sca_id attempt, uca_organizationId = organizationId,
            uca_projectId = projectId, uca_transferId = map_option (\<lambda>t. Some (ptr_id t)) transfer, uca_attemptedAt = None,
            uca_status = None, uca_signature = Some submittedSignature, uca_error = None, uca_metadata = None,
            uca_updatedAt = updatedAt\<rparr>)) (\<lambda>attemptResult.
        io_bind (settled (case transfer of
            None \<Rightarrow> io_return None
          | Some t \<Rightarrow> updateTransfer \<lparr>upt_transferId = ptr_id t, upt_organizationId = organizationId, upt_projectId = projectId,
              upt_expectedStatus = None, upt_status = None, upt_signature = Some submittedSignature, upt_error = None,
              upt_updatedAt = updatedAt\<rparr>)) (\<lambda>transferResult.
        if \<not> (case attemptResult of Inr (Some a) \<Rightarrow> sca_signature a = submittedSignature | _ \<Rightarrow> False) \<and>
           \<not> (case transferResult of Inr (Some t) \<Rightarrow> ptr_signature t = submittedSignature | _ \<Rightarrow> False)
        then io_throw (internalError ''Failed to journal submitted recurring payment collection signature'')
        else io_return ())))
      else markRecurringPaymentCollectionFailedAtomically w organizationId projectId recurringPaymentId attempt transfer
        submittedSignature error)"

definition safeJournalRecurringPaymentCollectionError ::
  "recurring_world \<Rightarrow> string \<Rightarrow> string \<Rightarrow> string \<Rightarrow> PaymentSubscriptionCollectionAttemptRow \<Rightarrow> PaymentTransferRow option \<Rightarrow>
     string option \<Rightarrow> api_error \<Rightarrow> unit recurring_io" where
  "safeJournalRecurringPaymentCollectionError w organizationId projectId recurringPaymentId attempt transfer submittedSignature error =
     io_catch (journalRecurringPaymentCollectionError w organizationId projectId recurringPaymentId attempt transfer
       submittedSignature error) (\<lambda>_. io_return ())"

section \<open>Collection: recovering an interrupted attempt\<close>

type_synonym recovered_collection =
  "PaymentRecurringPaymentRow \<times> PaymentSubscriptionRow \<times> PaymentSubscriptionCollectionAttemptRow \<times> PaymentTransferRow"

text \<open>A definite failure on chain fails the attempt; anything else it may survive.\<close>

definition confirm_recovered ::
  "recurring_world \<Rightarrow> string \<Rightarrow> string \<Rightarrow> PaymentRecurringPaymentRow \<Rightarrow> PaymentSubscriptionCollectionAttemptRow \<Rightarrow>
     PaymentTransferRow \<Rightarrow> string \<Rightarrow> bool recurring_io" where
  "confirm_recovered w organizationId projectId recurringPayment existing transfer recoveredSignature =
     io_catch (io_bind (confirmSubscriptionSignature w recoveredSignature ''Recurring payment collection failed on-chain'')
         (\<lambda>_. io_return True))
       (\<lambda>error. if transaction_failed error
          then io_bind (markRecurringPaymentCollectionFailedAtomically w organizationId projectId (rp_id recurringPayment) existing
            (Some transfer) (Some recoveredSignature) error) (\<lambda>_. io_return False)
          else io_return True)"

text \<open>The evidence of a settled collection; \<open>None\<close> when the chain reports that it failed.\<close>

definition gather_evidence ::
  "recurring_world \<Rightarrow> string \<Rightarrow> string \<Rightarrow> PaymentRecurringPaymentRow \<Rightarrow> PaymentSubscriptionRow \<Rightarrow> timestamp \<Rightarrow>
     PaymentSubscriptionCollectionAttemptRow \<Rightarrow> PaymentTransferRow \<Rightarrow> string \<Rightarrow>
     (PaymentRecurringPaymentRow \<times> PaymentSubscriptionRow \<times> VerifiedRecurringPaymentCollection) recurring_io" where
  "gather_evidence w organizationId projectId recurringPayment subscription dueAt recoveredAttempt recoveredTransfer
       recoveredSignature =
     io_bind (getRecurringPaymentById (rp_id recurringPayment) organizationId projectId None) (\<lambda>foundPayment.
     io_bind (getSubscriptionById (sub_id subscription) organizationId projectId) (\<lambda>foundSubscription.
     let currentRecurringPayment = (case foundPayment of None \<Rightarrow> recurringPayment | Some r \<Rightarrow> r);
         currentSubscription = (case foundSubscription of None \<Rightarrow> subscription | Some u \<Rightarrow> u)
     in io_bind (if truthy (rp_destination_token_account currentRecurringPayment)
           then assertValidAddress w (the (rp_destination_token_account currentRecurringPayment)) ''destinationTokenAccount''
           else resolveDestinationTokenAccount w (rp_destination_address currentRecurringPayment)
             (rp_token currentRecurringPayment)) (\<lambda>destinationTokenAccount.
        io_bind (verifyRecurringPaymentCollection w currentRecurringPayment currentSubscription recoveredAttempt recoveredTransfer
          recoveredSignature dueAt destinationTokenAccount) (\<lambda>proof_record.
        io_return (currentRecurringPayment, currentSubscription, proof_record)))))"

definition recovered_evidence ::
  "recurring_world \<Rightarrow> string \<Rightarrow> string \<Rightarrow> PaymentRecurringPaymentRow \<Rightarrow> PaymentSubscriptionRow \<Rightarrow> timestamp \<Rightarrow>
     PaymentSubscriptionCollectionAttemptRow \<Rightarrow> PaymentTransferRow \<Rightarrow> PaymentSubscriptionCollectionAttemptRow \<Rightarrow>
     PaymentTransferRow \<Rightarrow> string \<Rightarrow>
     (PaymentRecurringPaymentRow \<times> PaymentSubscriptionRow \<times> VerifiedRecurringPaymentCollection) option recurring_io" where
  "recovered_evidence w organizationId projectId recurringPayment subscription dueAt existing transfer recoveredAttempt
       recoveredTransfer recoveredSignature =
     io_catch (io_bind (gather_evidence w organizationId projectId recurringPayment subscription dueAt recoveredAttempt
         recoveredTransfer recoveredSignature) (\<lambda>evidence. io_return (Some evidence)))
       (\<lambda>error. if transaction_failed error
          then io_bind (markRecurringPaymentCollectionFailedAtomically w organizationId projectId (rp_id recurringPayment) existing
            (Some transfer) (Some recoveredSignature) error) (\<lambda>_. io_return None)
          else io_bind (safeJournalRecurringPaymentCollectionError w organizationId projectId (rp_id recurringPayment) existing
            (Some transfer) (Some recoveredSignature) error) (\<lambda>_. io_throw error))"

definition interrupted_before_broadcast :: "PaymentTransferRow \<Rightarrow> bool" where
  "interrupted_before_broadcast transfer \<longleftrightarrow> ptr_status transfer = TrFailed \<and> ptr_signed_transaction transfer \<noteq> None \<and>
     ptr_last_valid_block_height transfer \<noteq> None \<and> ptr_submission_started_at transfer = None"

definition already_processing :: api_error where
  "already_processing = AppError CONFLICT ''Recurring payment collection is already processing'' []"

text \<open>An attempt that was cut short before it reached the network may be failed, once it is stale.\<close>

definition fail_interrupted ::
  "recurring_world \<Rightarrow> string \<Rightarrow> string \<Rightarrow> PaymentRecurringPaymentRow \<Rightarrow> PaymentSubscriptionCollectionAttemptRow \<Rightarrow>
     PaymentTransferRow option \<Rightarrow> string option \<Rightarrow> string \<Rightarrow> recovered_collection option recurring_io" where
  "fail_interrupted w organizationId projectId recurringPayment existing transfer signature message =
     io_bind now (\<lambda>date_now.
     if \<not> isStaleCollectionAttempt date_now existing then io_throw already_processing
     else io_bind (markRecurringPaymentCollectionFailedAtomically w organizationId projectId (rp_id recurringPayment) existing
         transfer signature (PlainError message)) (\<lambda>_. io_return None))"

definition recover_signed ::
  "recurring_world \<Rightarrow> string \<Rightarrow> string \<Rightarrow> PaymentRecurringPaymentRow \<Rightarrow> PaymentSubscriptionRow \<Rightarrow> timestamp \<Rightarrow>
     PaymentSubscriptionCollectionAttemptRow \<Rightarrow> PaymentTransferRow \<Rightarrow> string \<Rightarrow> recovered_collection option recurring_io" where
  "recover_signed w organizationId projectId recurringPayment subscription dueAt existing transfer recoveredSignature =
     (let recoveredAttempt = (if sca_signature existing = Some recoveredSignature then existing
            else existing\<lparr>sca_signature := Some recoveredSignature\<rparr>);
          recoveredTransfer = (if ptr_signature transfer = Some recoveredSignature then transfer
            else transfer\<lparr>ptr_signature := Some recoveredSignature\<rparr>)
      in io_bind (confirm_recovered w organizationId projectId recurringPayment existing transfer recoveredSignature) (\<lambda>proceed.
        if \<not> proceed then io_return None
        else io_bind (recovered_evidence w organizationId projectId recurringPayment subscription dueAt existing transfer
            recoveredAttempt recoveredTransfer recoveredSignature) (\<lambda>evidence. case evidence of
          None \<Rightarrow> io_return None
        | Some (currentRecurringPayment, currentSubscription, proof_record) \<Rightarrow>
            io_bind (finalizeRecurringPaymentCollection organizationId projectId currentRecurringPayment currentSubscription
              recoveredAttempt recoveredTransfer proof_record) (\<lambda>r. io_return (Some r)))))"

definition recoverRecurringPaymentCollection ::
  "recurring_world \<Rightarrow> string \<Rightarrow> string \<Rightarrow> PaymentRecurringPaymentRow \<Rightarrow> PaymentSubscriptionRow \<Rightarrow> timestamp \<Rightarrow>
     recovered_collection option recurring_io" where
  "recoverRecurringPaymentCollection w organizationId projectId recurringPayment subscription dueAt =
     io_bind (getCollectionAttemptByDue organizationId projectId (sub_id subscription) dueAt (Some [CaProcessing, CaConfirmed]))
       (\<lambda>found. case found of
       None \<Rightarrow> io_return None
     | Some existing \<Rightarrow>
         if \<not> truthy (sca_transfer_id existing)
         then fail_interrupted w organizationId projectId recurringPayment existing None None
           ''Recurring payment collection was interrupted before transfer creation''
         else io_bind (getTransferById (the (sca_transfer_id existing)) organizationId projectId) (\<lambda>foundTransfer.
           case foundTransfer of
             None \<Rightarrow> io_throw (internalError ''Recurring payment collection transfer not found'')
           | Some transfer \<Rightarrow>
               if truthy (sca_signature existing) \<and> truthy (ptr_signature transfer) \<and>
                 sca_signature existing \<noteq> ptr_signature transfer
               then io_throw (AppError CONFLICT ''Recurring payment collection signatures do not match'' [])
               else let storedSignature = (if sca_signature existing \<noteq> None then sca_signature existing else ptr_signature transfer)
                 in if \<not> truthy storedSignature
                 then fail_interrupted w organizationId projectId recurringPayment existing (Some transfer) None
                   ''Recurring payment collection was interrupted before submission''
                 else io_bind (validatedStoredCollectionSignature w (the storedSignature)) (\<lambda>recoveredSignature.
                   if interrupted_before_broadcast transfer
                   then fail_interrupted w organizationId projectId recurringPayment existing (Some transfer)
                     (Some recoveredSignature) ''Recurring payment collection was interrupted before broadcast''
                   else recover_signed w organizationId projectId recurringPayment subscription dueAt existing transfer
                     recoveredSignature)))"

definition recoverOrBlockLifecycleCollection ::
  "recurring_world \<Rightarrow> string \<Rightarrow> string \<Rightarrow> PaymentRecurringPaymentRow \<Rightarrow>
     (PaymentRecurringPaymentRow \<times> PaymentSubscriptionRow option) recurring_io" where
  "recoverOrBlockLifecycleCollection w organizationId projectId recurringPayment =
     (if \<not> truthy (rp_subscription_id recurringPayment) \<or> rp_next_collection_due_at recurringPayment = None
      then io_return (recurringPayment, None)
      else io_bind (getSubscriptionById (the (rp_subscription_id recurringPayment)) organizationId projectId) (\<lambda>found.
        case found of
          None \<Rightarrow> io_return (recurringPayment, None)
        | Some subscription \<Rightarrow>
            io_bind (recoverRecurringPaymentCollection w organizationId projectId recurringPayment subscription
              (the (rp_next_collection_due_at recurringPayment))) (\<lambda>recovered. case recovered of
              Some (r, u, _) \<Rightarrow> io_return (r, Some u)
            | None \<Rightarrow> io_return (recurringPayment, Some subscription))))"

section \<open>Cancelling and resuming\<close>

fun lifecycleConfirmationMessage :: "RecurringPaymentLifecycleOperation \<Rightarrow> string" where
  "lifecycleConfirmationMessage OpCancel = ''Recurring payment cancellation failed on-chain''"
| "lifecycleConfirmationMessage OpResume = ''Recurring payment resume failed on-chain''"

fun operation_name :: "RecurringPaymentLifecycleOperation \<Rightarrow> string" where
  "operation_name OpCancel = ''cancel''"
| "operation_name OpResume = ''resume''"

fun operation_participle :: "RecurringPaymentLifecycleOperation \<Rightarrow> string" where
  "operation_participle OpCancel = ''canceled''"
| "operation_participle OpResume = ''resumed''"

definition buildLifecycleInstruction ::
  "recurring_world \<Rightarrow> RecurringPaymentLifecycleOperation \<Rightarrow> string \<Rightarrow> string \<Rightarrow> string \<Rightarrow> string \<Rightarrow> string recurring_io" where
  "buildLifecycleInstruction w operation planPda subscriber subscriptionPda tokenMint = (case operation of
     OpCancel \<Rightarrow> rw_cancelInstruction w planPda subscriber subscriptionPda
   | OpResume \<Rightarrow> io_bind (rw_fetchSubscriptionExpiry w subscriptionPda) (\<lambda>onChainSubscription. case onChainSubscription of
         None \<Rightarrow> io_throw (AppError CONFLICT ''Subscription was not found on-chain'' [])
       | Some expiresAtTs \<Rightarrow> rw_resumeInstruction w expiresAtTs planPda subscriber subscriptionPda tokenMint))"

definition assertLifecyclePreconditions ::
  "RecurringPaymentLifecycleOperation \<Rightarrow> PaymentRecurringPaymentRow \<Rightarrow> CustodyWallet \<Rightarrow> timestamp \<Rightarrow> (api_error, unit) result" where
  "assertLifecyclePreconditions operation recurringPayment sourceWallet nowIso =
     (if rp_source_wallet_id recurringPayment \<noteq> cw_walletId sourceWallet
      then Inl (badRequest ''Recurring payment source wallet does not match request'')
      else if rp_source_address recurringPayment \<noteq> cw_publicKey sourceWallet
      then Inl (badRequest ''Recurring payment source address does not match wallet'')
      else result_bind (decideRecurringPaymentLifecycleTransition operation (rp_status recurringPayment)
          (Some (rp_updated_at recurringPayment)) (Some nowIso)) (\<lambda>decision. case decision of
        AlreadyFinal \<Rightarrow> Inr ()
      | Claimable \<Rightarrow> Inr ()
      | Recoverable \<Rightarrow> Inr ()
      | InProcess \<Rightarrow> Inl (AppError CONFLICT (''Recurring payment '' @ operation_name operation @ '' is already processing'') [])
      | InvalidTransition \<Rightarrow> Inl (AppError CONFLICT
          (''Recurring payment cannot be '' @ operation_participle operation @ '' from this status'') [])))"

text \<open>Giving a claim back.\<close>

definition release_claim ::
  "RecurringPaymentLifecycleOperation \<Rightarrow> string \<Rightarrow> string \<Rightarrow> string \<Rightarrow> timestamp \<Rightarrow> PaymentRecurringPaymentRow option recurring_io" where
  "release_claim operation recurringPaymentId organizationId projectId updatedAt =
     updateRecurringPaymentLifecycle recurringPaymentId organizationId projectId
       (claimableStatus (getRecurringPaymentLifecycleStatuses operation))
       (processingStatus (getRecurringPaymentLifecycleStatuses operation)) updatedAt"

definition getOrCreateLifecycleAttempt ::
  "PaymentRecurringPaymentRow \<Rightarrow> RecurringPaymentLifecycleOperation \<Rightarrow> string \<Rightarrow> string \<Rightarrow> timestamp \<Rightarrow>
     PaymentRecurringPaymentLifecycleAttemptRow recurring_io" where
  "getOrCreateLifecycleAttempt claimed operation organizationId projectId nowIso =
     io_bind (getLatestLifecycleAttempt organizationId projectId (rp_id claimed) operation (Some [AttProcessing])) (\<lambda>existing.
     case existing of
       Some r \<Rightarrow> io_return r
     | None \<Rightarrow>
         io_bind (io_catch (io_bind randomUUID (\<lambda>uuid. createLifecycleAttempt \<lparr>rla_id = ''prpl_'' @ uuid,
               rla_organization_id = organizationId, rla_project_id = projectId, rla_recurring_payment_id = rp_id claimed,
               rla_operation = operation, rla_status = AttProcessing, rla_stage = LifClaim, rla_signature = None,
               rla_error = None, rla_metadata = [], rla_created_at = nowIso, rla_updated_at = nowIso\<rparr>))
             (\<lambda>error. io_bind now (\<lambda>t. io_bind (release_claim operation (rp_id claimed) organizationId projectId t)
               (\<lambda>_. io_throw error)))) (\<lambda>attempt. case attempt of
           Some r \<Rightarrow> io_return r
         | None \<Rightarrow> io_bind now (\<lambda>t. io_bind (release_claim operation (rp_id claimed) organizationId projectId t) (\<lambda>_.
             io_throw (internalError ''Failed to journal recurring payment lifecycle'')))))"

definition recordLifecycleFailure ::
  "PaymentRecurringPaymentLifecycleAttemptRow \<Rightarrow> RecurringPaymentLifecycleOperation \<Rightarrow> string \<Rightarrow> string \<Rightarrow> lifecycle_stage \<Rightarrow>
     api_error \<Rightarrow> timestamp \<Rightarrow> unit recurring_io" where
  "recordLifecycleFailure attempt operation organizationId projectId stage error failedAt =
     io_bind (updateLifecycleAttempt \<lparr>ula_attemptId = rla_id attempt, ula_organizationId = organizationId,
         ula_projectId = projectId, ula_status = Some AttFailed, ula_stage = Some stage, ula_signature = None,
         ula_error = Some (Some (errorMessage error)), ula_metadata = None, ula_updatedAt = failedAt\<rparr>) (\<lambda>_.
     io_bind (release_claim operation (rla_recurring_payment_id attempt) organizationId projectId failedAt) (\<lambda>_. io_return ()))"

definition preserveRecoverableLifecycleAttempt ::
  "PaymentRecurringPaymentLifecycleAttemptRow \<Rightarrow> string \<Rightarrow> string \<Rightarrow> lifecycle_stage \<Rightarrow> string \<Rightarrow> api_error \<Rightarrow> timestamp \<Rightarrow>
     unit recurring_io" where
  "preserveRecoverableLifecycleAttempt attempt organizationId projectId stage signature error failedAt =
     io_catch (io_bind (updateLifecycleAttempt \<lparr>ula_attemptId = rla_id attempt, ula_organizationId = organizationId,
         ula_projectId = projectId, ula_status = None, ula_stage = Some stage, ula_signature = Some (Some signature),
         ula_error = Some (Some (errorMessage error)), ula_metadata = None, ula_updatedAt = failedAt\<rparr>) (\<lambda>_. io_return ()))
       (\<lambda>_. io_return ())"

fun final_subscription_status :: "RecurringPaymentLifecycleOperation \<Rightarrow> PaymentSubscriptionStatus" where
  "final_subscription_status OpCancel = SubCanceled"
| "final_subscription_status OpResume = SubActive"

fun expected_subscription_status :: "RecurringPaymentLifecycleOperation \<Rightarrow> PaymentSubscriptionStatus" where
  "expected_subscription_status OpCancel = SubActive"
| "expected_subscription_status OpResume = SubCanceled"

definition finalizeRecurringPaymentLifecycle ::
  "string \<Rightarrow> string \<Rightarrow> RecurringPaymentLifecycleOperation \<Rightarrow> PaymentRecurringPaymentRow \<Rightarrow> PaymentSubscriptionRow \<Rightarrow>
     PaymentRecurringPaymentLifecycleAttemptRow \<Rightarrow> string \<Rightarrow> PaymentRecurringPaymentRow recurring_io" where
  "finalizeRecurringPaymentLifecycle organizationId projectId operation recurringPayment subscription attempt signature =
     io_bind now (\<lambda>finalizedAt.
     transaction (
       io_bind (updateSubscription \<lparr>ups_subscriptionId = sub_id subscription, ups_organizationId = organizationId,
           ups_projectId = projectId, ups_subscriberTokenAccount = None, ups_subscriptionPda = None,
           ups_subscriptionAuthorityAddress = None, ups_authorizationSignature = None,
           ups_status = Some (final_subscription_status operation), ups_currentPeriodStartAt = None,
           ups_nextCollectionDueAt = None, ups_expectedNextCollectionDueAt = None, ups_expectedStatus = None,
           ups_cancelAt = Some (if operation = OpCancel then Some finalizedAt else None),
           ups_canceledAt = Some (if operation = OpCancel then Some finalizedAt else None), ups_updatedAt = finalizedAt\<rparr>)
         (\<lambda>updatedSubscription.
       io_bind (updateRecurringPaymentLifecycle (rp_id recurringPayment) organizationId projectId
           (finalStatus (getRecurringPaymentLifecycleStatuses operation))
           (processingStatus (getRecurringPaymentLifecycleStatuses operation)) finalizedAt) (\<lambda>updatedRecurringPayment.
       io_bind (updateLifecycleAttempt \<lparr>ula_attemptId = rla_id attempt, ula_organizationId = organizationId,
           ula_projectId = projectId, ula_status = Some AttConfirmed, ula_stage = Some LifFinalize,
           ula_signature = Some (Some signature), ula_error = Some None, ula_metadata = None, ula_updatedAt = finalizedAt\<rparr>)
         (\<lambda>updatedAttempt.
       case (updatedSubscription, updatedRecurringPayment) of
         (Some u, Some r) \<Rightarrow>
           if sub_status u \<noteq> final_subscription_status operation \<or>
             rp_status r \<noteq> finalStatus (getRecurringPaymentLifecycleStatuses operation) \<or>
             rla_status updatedAttempt \<noteq> AttConfirmed \<or> rla_signature updatedAttempt \<noteq> Some signature
           then io_throw (internalError ''Failed to finalize recurring payment lifecycle'')
           else io_return r
       | _ \<Rightarrow> io_throw (internalError ''Failed to finalize recurring payment lifecycle''))))))"

text \<open>The variables the handler of \<^verbatim>\<open>runRecurringPaymentLifecycle\<close> reads, as they stood when the error was thrown.\<close>

record lifecycle_progress =
  lp_attempt :: PaymentRecurringPaymentLifecycleAttemptRow
  lp_stage :: lifecycle_stage
  lp_signature :: "string option"

definition at_progress ::
  "lifecycle_progress \<Rightarrow> (recurring_session, api_error, 'a) io \<Rightarrow> (recurring_session, lifecycle_progress \<times> api_error, 'a) io" where
  "at_progress p m = (\<lambda>s. case m s of (Inl e, s') \<Rightarrow> (Inl (p, e), s') | (Inr a, s') \<Rightarrow> (Inr a, s'))"

definition handle_progress ::
  "(recurring_session, lifecycle_progress \<times> api_error, 'a) io \<Rightarrow> (lifecycle_progress \<Rightarrow> api_error \<Rightarrow> 'a recurring_io) \<Rightarrow>
     'a recurring_io" where
  "handle_progress m h = (\<lambda>s. case m s of (Inl (p, e), s') \<Rightarrow> h p e s' | (Inr a, s') \<Rightarrow> (Inr a, s'))"

text \<open>From the claim to the point where a transaction may be built: the subscription, the signer and the two addresses.\<close>

definition prepare_lifecycle ::
  "recurring_world \<Rightarrow> string \<Rightarrow> string \<Rightarrow> CustodyWallet \<Rightarrow> RecurringPaymentLifecycleOperation \<Rightarrow> PaymentSubscriptionRow option \<Rightarrow>
     PaymentRecurringPaymentRow \<Rightarrow> (PaymentSubscriptionRow \<times> string \<times> string \<times> string \<times> string) recurring_io" where
  "prepare_lifecycle w organizationId projectId sourceWallet operation knownSubscription claimed =
     (if \<not> truthy (rp_plan_pda claimed) \<or> \<not> truthy (rp_subscription_id claimed) \<or> \<not> truthy (rp_subscription_pda claimed)
      then io_throw (AppError CONFLICT ''Recurring payment is missing on-chain subscription records'' [])
      else io_bind (if map_option sub_id knownSubscription = rp_subscription_id claimed then io_return knownSubscription
          else getSubscriptionById (the (rp_subscription_id claimed)) organizationId projectId) (\<lambda>found. case found of
        None \<Rightarrow> io_throw (AppError NOT_FOUND ''Subscription not found'' [])
      | Some subscription \<Rightarrow>
          io_bind (getPlanById (sub_plan_id subscription) organizationId projectId) (\<lambda>foundPlan. case foundPlan of
            None \<Rightarrow> io_throw (AppError NOT_FOUND ''Subscription plan not found'' [])
          | Some plan \<Rightarrow>
              io_bind (assertRecurringPaymentTokenMint w (spl_token plan) organizationId projectId) (\<lambda>mint.
              io_bind (assertValidAddress w mint ''tokenMint'') (\<lambda>tokenMint.
              if sub_status subscription \<noteq> expected_subscription_status operation \<and>
                sub_status subscription \<noteq> final_subscription_status operation
              then io_throw (AppError CONFLICT
                (''Subscription cannot be '' @ operation_participle operation @ '' from this status'') [])
              else io_bind (rw_createOrgSigner w organizationId projectId (cw_walletId sourceWallet)) (\<lambda>signer.
                if signer \<noteq> cw_publicKey sourceWallet
                then io_throw (badRequest ''Resolved signing wallet does not match source wallet'')
                else io_bind (assertValidAddress w (the (rp_plan_pda claimed)) ''planPda'') (\<lambda>planPda.
                  io_bind (assertValidAddress w (the (rp_subscription_pda claimed)) ''subscriptionPda'') (\<lambda>subscriptionPda.
                  io_return (subscription, signer, planPda, subscriptionPda, tokenMint)))))))))"

definition stage_update ::
  "PaymentRecurringPaymentLifecycleAttemptRow \<Rightarrow> string \<Rightarrow> string \<Rightarrow> string option option \<Rightarrow> string option option \<Rightarrow>
     PaymentRecurringPaymentLifecycleAttemptRow recurring_io" where
  "stage_update attempt organizationId projectId signature error =
     io_bind now (\<lambda>t. updateLifecycleAttempt \<lparr>ula_attemptId = rla_id attempt, ula_organizationId = organizationId,
       ula_projectId = projectId, ula_status = None, ula_stage = Some LifSubmit, ula_signature = signature, ula_error = error,
       ula_metadata = None, ula_updatedAt = t\<rparr>)"

definition submit_lifecycle ::
  "recurring_world \<Rightarrow> string \<Rightarrow> string \<Rightarrow> CustodyWallet \<Rightarrow> RecurringPaymentLifecycleOperation \<Rightarrow>
     PaymentRecurringPaymentLifecycleAttemptRow \<Rightarrow> string \<Rightarrow> string \<Rightarrow> string \<Rightarrow> string \<Rightarrow>
     (recurring_session, lifecycle_progress \<times> api_error, PaymentRecurringPaymentLifecycleAttemptRow \<times> string) io" where
  "submit_lifecycle w organizationId projectId sourceWallet operation attempt signer planPda subscriptionPda tokenMint =
     io_bind (at_progress \<lparr>lp_attempt = attempt, lp_stage = LifSubmit, lp_signature = rla_signature attempt\<rparr>
       (io_bind (stage_update attempt organizationId projectId None None) (\<lambda>_.
        io_bind (buildLifecycleInstruction w operation planPda signer subscriptionPda tokenMint) (\<lambda>instruction.
        sendSubscriptionInstructions w organizationId projectId sourceWallet signer [instruction])))) (\<lambda>signature.
     io_bind (at_progress \<lparr>lp_attempt = attempt, lp_stage = LifSubmit, lp_signature = Some signature\<rparr>
       (stage_update attempt organizationId projectId (Some (Some signature)) (Some None))) (\<lambda>submitted.
     io_return (submitted, signature)))"

definition lifecycle_body ::
  "recurring_world \<Rightarrow> string \<Rightarrow> string \<Rightarrow> CustodyWallet \<Rightarrow> RecurringPaymentLifecycleOperation \<Rightarrow> PaymentSubscriptionRow option \<Rightarrow>
     PaymentRecurringPaymentRow \<Rightarrow> PaymentRecurringPaymentLifecycleAttemptRow \<Rightarrow>
     (recurring_session, lifecycle_progress \<times> api_error,
        PaymentSubscriptionRow \<times> PaymentRecurringPaymentLifecycleAttemptRow \<times> string) io" where
  "lifecycle_body w organizationId projectId sourceWallet operation knownSubscription claimed attempt =
     io_bind (at_progress \<lparr>lp_attempt = attempt, lp_stage = rla_stage attempt, lp_signature = rla_signature attempt\<rparr>
       (prepare_lifecycle w organizationId projectId sourceWallet operation knownSubscription claimed))
       (\<lambda>(subscription, signer, planPda, subscriptionPda, tokenMint).
     io_bind (if \<not> truthy (rla_signature attempt)
         then submit_lifecycle w organizationId projectId sourceWallet operation attempt signer planPda subscriptionPda tokenMint
         else io_return (attempt, the (rla_signature attempt))) (\<lambda>(submitted, signature).
     io_bind (at_progress \<lparr>lp_attempt = submitted,
           lp_stage = (if truthy (rla_signature attempt) then rla_stage attempt else LifSubmit), lp_signature = Some signature\<rparr>
         (confirmSubscriptionSignature w signature (lifecycleConfirmationMessage operation))) (\<lambda>_.
     io_return (subscription, submitted, signature))))"

definition lifecycle_failed ::
  "string \<Rightarrow> string \<Rightarrow> RecurringPaymentLifecycleOperation \<Rightarrow> lifecycle_progress \<Rightarrow> api_error \<Rightarrow> 'a recurring_io" where
  "lifecycle_failed organizationId projectId operation progress error =
     io_bind now (\<lambda>failedAt.
     if truthy (lp_signature progress) \<and> \<not> transaction_failed error
     then io_bind (preserveRecoverableLifecycleAttempt (lp_attempt progress) organizationId projectId (lp_stage progress)
       (the (lp_signature progress)) error failedAt) (\<lambda>_. io_throw error)
     else io_bind (io_catch (recordLifecycleFailure (lp_attempt progress) operation organizationId projectId (lp_stage progress)
         error failedAt) (\<lambda>_. io_return ())) (\<lambda>_. io_throw error))"

definition execute_lifecycle ::
  "recurring_world \<Rightarrow> string \<Rightarrow> string \<Rightarrow> CustodyWallet \<Rightarrow> RecurringPaymentLifecycleOperation \<Rightarrow> PaymentSubscriptionRow option \<Rightarrow>
     PaymentRecurringPaymentRow \<Rightarrow> PaymentRecurringPaymentLifecycleAttemptRow \<Rightarrow> PaymentRecurringPaymentRow recurring_io" where
  "execute_lifecycle w organizationId projectId sourceWallet operation knownSubscription claimed attempt =
     io_bind (handle_progress (lifecycle_body w organizationId projectId sourceWallet operation knownSubscription claimed attempt)
       (lifecycle_failed organizationId projectId operation)) (\<lambda>(subscription, submitted, signature).
     finalizeRecurringPaymentLifecycle organizationId projectId operation claimed subscription submitted signature)"

definition runRecurringPaymentLifecycle ::
  "recurring_world \<Rightarrow> string \<Rightarrow> string \<Rightarrow> CustodyWallet \<Rightarrow> PaymentRecurringPaymentRow \<Rightarrow> RecurringPaymentLifecycleOperation \<Rightarrow>
     PaymentRecurringPaymentRow recurring_io" where
  "runRecurringPaymentLifecycle w organizationId projectId sourceWallet recurringPayment operation =
     io_bind now (\<lambda>nowIso.
     io_bind (io_lift (assertLifecyclePreconditions operation recurringPayment sourceWallet nowIso)) (\<lambda>_.
     if rp_status recurringPayment = finalStatus (getRecurringPaymentLifecycleStatuses operation) then io_return recurringPayment
     else io_bind (if operation = OpCancel then io_return (recurringPayment, None)
         else recoverOrBlockLifecycleCollection w organizationId projectId recurringPayment) (\<lambda>(current, knownSubscription).
       io_bind now (\<lambda>checkedAt.
       io_bind (io_lift (assertLifecyclePreconditions operation current sourceWallet checkedAt)) (\<lambda>_.
       if rp_status current = finalStatus (getRecurringPaymentLifecycleStatuses operation) then io_return current
       else io_bind now (\<lambda>claimedAt.
         io_bind (io_lift (getRecurringPaymentOperationStaleBefore (Some nowIso))) (\<lambda>staleBefore.
         io_bind (claimRecurringPaymentLifecycle (rp_id current) organizationId projectId operation claimedAt (Some staleBefore))
           (\<lambda>claim. case claim of
             None \<Rightarrow> io_throw (AppError CONFLICT (''Recurring payment '' @ operation_name operation @ '' is already processing'') [])
           | Some claimed \<Rightarrow>
               io_bind (getOrCreateLifecycleAttempt claimed operation organizationId projectId nowIso) (\<lambda>attempt.
               execute_lifecycle w organizationId projectId sourceWallet operation knownSubscription claimed attempt)))))))))"

definition cancelRecurringPayment ::
  "recurring_world \<Rightarrow> string \<Rightarrow> string \<Rightarrow> CustodyWallet \<Rightarrow> PaymentRecurringPaymentRow \<Rightarrow> PaymentRecurringPaymentRow recurring_io" where
  "cancelRecurringPayment w organizationId projectId sourceWallet recurringPayment =
     (if rp_status recurringPayment = PendingActivation
      then io_bind now (\<lambda>t.
        io_bind (updateRecurringPaymentLifecycle (rp_id recurringPayment) organizationId projectId RpCanceled PendingActivation t)
          (\<lambda>updated. case updated of
            None \<Rightarrow> io_throw (conflict ''Recurring payment status changed before it could be canceled'')
          | Some r \<Rightarrow> io_return r))
      else runRecurringPaymentLifecycle w organizationId projectId sourceWallet recurringPayment OpCancel)"

definition resumeRecurringPayment ::
  "recurring_world \<Rightarrow> string \<Rightarrow> string \<Rightarrow> CustodyWallet \<Rightarrow> PaymentRecurringPaymentRow \<Rightarrow> PaymentRecurringPaymentRow recurring_io" where
  "resumeRecurringPayment w organizationId projectId sourceWallet recurringPayment =
     runRecurringPaymentLifecycle w organizationId projectId sourceWallet recurringPayment OpResume"

end
