(* ===== verification/Recurring_Effects.thy ===== *)
theory Recurring_Effects
  imports Recurring_Service
begin

text \<open>
  What the statements and services of recurring payments do to the tables, whatever they return. A table is a provider of
  two operations, its rows and its guarded write; the locale \<open>recurring_table\<close> states what the statements rely on, and every
  table interprets it. The history of collection attempts is an effect relation: rows stay, their identity stays, their
  status only moves forward, and the unique indexes stay satisfied.
\<close>

section \<open>Tables\<close>

locale recurring_table =
  fixes rows :: "recurring_session \<Rightarrow> 'r list"
    and put :: "'r list \<Rightarrow> unit recurring_io"
    and valid :: "'r list \<Rightarrow> bool"
  assumes put_fails: "put rs s = (Inl e, s') \<Longrightarrow> s' = s"
    and put_writes: "put rs s = (Inr (), s') \<Longrightarrow> rows s' = rs \<and> valid rs"
    and rows_session: "only_session s s' \<Longrightarrow> rows s' = rows s"
begin

lemma wp_update:
  assumes "\<And>e s'. only_session s s' \<Longrightarrow> Q (Inl e) s'"
    and "\<And>s1 s'. only_session s s1 \<Longrightarrow> put (table_update matching change (rows s)) s1 = (Inr (), s') \<Longrightarrow>
      rows s' = table_update matching change (rows s) \<Longrightarrow> valid (rows s') \<Longrightarrow>
      Q (Inr (map_option change (find matching (rows s)))) s'"
  shows "wp (update_returning rows put matching change) Q s"
  unfolding update_returning_def
proof (rule wp_sql)
  fix fs
  let ?s = "s\<lparr>sess_faults := fs\<rparr>"
  have same: "rows ?s = rows s" by (rule rows_session) simp
  obtain r s' where put: "put (table_update matching change (rows s)) ?s = (r, s')" by fastforce
  show "wp (\<lambda>s. io_bind (put (table_update matching change (rows s))) (\<lambda>_. io_return (map_option change (find matching (rows s)))) s)
      Q ?s"
  proof (cases r)
    case (Inl e)
    then show ?thesis using put put_fails[of "table_update matching change (rows s)" ?s e s'] assms(1)[of ?s] by (simp add: wp_def io_bind_def same)
  next
    case (Inr u)
    then show ?thesis
      using put put_writes[of "table_update matching change (rows s)" ?s s'] assms(2)[of ?s s'] by (simp add: wp_def io_bind_def io_return_def same)
  qed
qed (rule assms(1), simp)

lemma wp_select:
  assumes "\<And>e s'. only_session s s' \<Longrightarrow> Q (Inl e) s'" "\<And>s'. only_session s s' \<Longrightarrow> Q (Inr (find matching (rows s))) s'"
  shows "wp (select_first rows matching) Q s"
  unfolding select_first_def
proof (rule wp_sql)
  fix fs
  have "rows (s\<lparr>sess_faults := fs\<rparr>) = rows s" by (rule rows_session) simp
  then show "wp (io_get (\<lambda>s. find matching (rows s))) Q (s\<lparr>sess_faults := fs\<rparr>)"
    using assms(2)[of "s\<lparr>sess_faults := fs\<rparr>"] by (simp add: wp_def io_get_def)
qed (rule assms(1), simp)

end

lemma session_keeps_tables:
  assumes "only_session s s'"
  shows "rs_payments s' = rs_payments s" "rs_activation_attempts s' = rs_activation_attempts s"
    "rs_lifecycle_attempts s' = rs_lifecycle_attempts s" "rs_update_attempts s' = rs_update_attempts s"
    "rs_update_events s' = rs_update_events s" "rs_plans s' = rs_plans s" "rs_subscriptions s' = rs_subscriptions s"
    "rs_attempts s' = rs_attempts s" "rs_transfers s' = rs_transfers s" "rs_sent s' = rs_sent s" "sess_clock s' = sess_clock s"
proof -
  have s': "s' = rollback s s'" using assms by (simp add: only_session_def)
  show "rs_payments s' = rs_payments s" "rs_activation_attempts s' = rs_activation_attempts s"
    "rs_lifecycle_attempts s' = rs_lifecycle_attempts s" "rs_update_attempts s' = rs_update_attempts s"
    "rs_update_events s' = rs_update_events s" "rs_plans s' = rs_plans s" "rs_subscriptions s' = rs_subscriptions s"
    "rs_attempts s' = rs_attempts s" "rs_transfers s' = rs_transfers s" "rs_sent s' = rs_sent s" "sess_clock s' = sess_clock s"
    by (subst s', simp add: rollback_def)+
qed

lemmas put_defs = put_payments_def put_activation_attempts_def put_lifecycle_attempts_def put_update_attempts_def
  put_update_events_def put_plans_def put_subscriptions_def put_attempts_def put_transfers_def

definition payments_valid :: "PaymentRecurringPaymentRow list \<Rightarrow> bool" where
  "payments_valid rows \<longleftrightarrow> distinct (map rp_id rows) \<and> (\<forall>r\<in>set rows. 0 < rp_period_hours r)"

interpretation payments: recurring_table rs_payments put_payments payments_valid
  by unfold_locales (auto simp: put_defs payments_valid_def list_all_iff session_keeps_tables split: if_splits)

interpretation lifecycles: recurring_table rs_lifecycle_attempts put_lifecycle_attempts "\<lambda>rows. distinct (map rla_id rows)"
  by unfold_locales (auto simp: put_defs session_keeps_tables split: if_splits)

interpretation activations: recurring_table rs_activation_attempts put_activation_attempts "\<lambda>rows. distinct (map raa_id rows)"
  by unfold_locales (auto simp: put_defs session_keeps_tables split: if_splits)

interpretation updates: recurring_table rs_update_attempts put_update_attempts "\<lambda>rows. distinct (map rua_id rows)"
  by unfold_locales (auto simp: put_defs session_keeps_tables split: if_splits)

interpretation events: recurring_table rs_update_events put_update_events "\<lambda>rows. distinct (map rue_id rows)"
  by unfold_locales (auto simp: put_defs session_keeps_tables split: if_splits)

interpretation plans: recurring_table rs_plans put_plans plans_unique
  by unfold_locales (auto simp: put_defs session_keeps_tables split: if_splits)

interpretation subscriptions: recurring_table rs_subscriptions put_subscriptions subscriptions_unique
  by unfold_locales (auto simp: put_defs session_keeps_tables split: if_splits)

interpretation attempts: recurring_table rs_attempts put_attempts attempts_unique
  by unfold_locales (auto simp: put_defs session_keeps_tables split: if_splits)

interpretation transfers: recurring_table rs_transfers put_transfers transfers_unique
  by unfold_locales (auto simp: put_defs session_keeps_tables split: if_splits)

section \<open>Effect relations over statements\<close>

lemma stays_statement:
  fixes R :: "recurring_session \<Rightarrow> recurring_session \<Rightarrow> bool"
  assumes "effect_relation R" "\<And>rs. stays R (put rs)"
  shows "stays R (update_returning rows put matching change)" "stays R (insert_row rows put row)"
    "stays R (insert_unless_conflict rows put row)"
proof -
  have sql: "stays R m \<Longrightarrow> stays R (sql m)" for m :: "'x recurring_io" using effect_relation.stays_sql[OF assms(1)] .
  have "stays R (\<lambda>s. io_bind (put (table_update matching change (rows s)))
      (\<lambda>_. io_return (map_option change (find matching (rows s)))) s)"
    by (rule staysI) (auto simp: io_bind_def io_return_def split: prod.splits sum.splits dest: staysD2[OF assms(2)])
  then show "stays R (update_returning rows put matching change)" unfolding update_returning_def by (rule sql)
  have "stays R (\<lambda>s. put (rows s @ [row]) s)" by (rule staysI) (rule staysD[OF assms(2)])
  then show "stays R (insert_row rows put row)" unfolding insert_row_def by (rule sql)
  have "stays R (\<lambda>s. case put (rows s @ [row]) s of (Inl UniqueViolation, s') \<Rightarrow> (Inr (), s') | outcome \<Rightarrow> outcome)"
    by (rule staysI) (auto split: prod.splits sum.splits api_error.splits dest: staysD2[OF assms(2)])
  then show "stays R (insert_unless_conflict rows put row)" unfolding insert_unless_conflict_def by (rule sql)
qed

lemma io_reads_statements [reads_intros]:
  "io_reads (select_first rows matching)" "io_reads (select_latest rows matching' key)"
  by (simp_all add: select_first_def select_latest_def io_reads_sql io_reads_get)

section \<open>The history of collection attempts\<close>

definition status_forward ::
  "PaymentSubscriptionCollectionAttemptStatus \<Rightarrow> PaymentSubscriptionCollectionAttemptStatus \<Rightarrow> bool" where
  "status_forward a b \<longleftrightarrow> a = b \<or> a = CaPending \<and> b \<in> {CaProcessing, CaConfirmed, CaFailed} \<or>
     a = CaProcessing \<and> b \<in> {CaConfirmed, CaFailed}"

definition attempt_progress ::
  "PaymentSubscriptionCollectionAttemptRow \<Rightarrow> PaymentSubscriptionCollectionAttemptRow \<Rightarrow> bool" where
  "attempt_progress a b \<longleftrightarrow> sca_id b = sca_id a \<and> sca_organization_id b = sca_organization_id a \<and>
     sca_project_id b = sca_project_id a \<and> sca_subscription_id b = sca_subscription_id a \<and> sca_due_at b = sca_due_at a \<and>
     sca_token b = sca_token a \<and> sca_amount b = sca_amount a \<and> status_forward (sca_status a) (sca_status b)"

lemma attempt_progress_refl [simp]: "attempt_progress a a"
  by (simp add: attempt_progress_def status_forward_def)

lemma attempt_progress_trans: "attempt_progress a b \<Longrightarrow> attempt_progress b c \<Longrightarrow> attempt_progress a c"
  by (auto simp: attempt_progress_def status_forward_def)

definition collection_history :: "recurring_session \<Rightarrow> recurring_session \<Rightarrow> bool" where
  "collection_history s s' \<longleftrightarrow> (attempts_unique (rs_attempts s) \<longrightarrow> attempts_unique (rs_attempts s')) \<and>
     (\<forall>a\<in>set (rs_attempts s). \<exists>a'\<in>set (rs_attempts s'). attempt_progress a a')"

lemma same_attempts_history: "rs_attempts s' = rs_attempts s \<Longrightarrow> collection_history s s'"
  unfolding collection_history_def using attempt_progress_refl by metis

interpretation history: effect_relation collection_history
proof
  fix s s' s'' :: recurring_session
  show "only_session s s' \<Longrightarrow> collection_history s s'"
    by (rule same_attempts_history) (simp add: session_keeps_tables)
  show "collection_history s s' \<Longrightarrow> collection_history s' s'' \<Longrightarrow> collection_history s s''"
    unfolding collection_history_def by (meson attempt_progress_trans)
qed

lemma history_put_other:
  "stays collection_history (put_payments a)" "stays collection_history (put_activation_attempts b)"
  "stays collection_history (put_lifecycle_attempts c)" "stays collection_history (put_update_attempts d)"
  "stays collection_history (put_update_events e)" "stays collection_history (put_plans f)"
  "stays collection_history (put_subscriptions g)" "stays collection_history (put_transfers h)"
  by (rule staysI, rule same_attempts_history, simp add: put_defs)+

lemmas history_other = history_put_other[THEN stays_statement(1)[OF history.effect_relation_axioms]]
  history_put_other[THEN stays_statement(2)[OF history.effect_relation_axioms]]
  history_put_other[THEN stays_statement(3)[OF history.effect_relation_axioms]]

lemma history_update_attempts:
  assumes "\<And>r. matching r \<Longrightarrow> attempt_progress r (change r)"
  shows "stays collection_history (update_returning rs_attempts put_attempts matching change)"
proof (rule staysI)
  fix s :: recurring_session
  have "wp (update_returning rs_attempts put_attempts matching change) (\<lambda>_ s'. collection_history s s') s"
  proof (rule attempts.wp_update)
    fix s1 s' :: recurring_session
    assume rows: "rs_attempts s' = table_update matching change (rs_attempts s)" and "attempts_unique (rs_attempts s')"
    moreover have "\<exists>a'\<in>set (rs_attempts s'). attempt_progress a a'" if "a \<in> set (rs_attempts s)" for a
      using that assms[of a] by (cases "matching a") (auto simp: rows set_table_update intro: bexI[of _ "change a"] bexI[of _ a])
    ultimately show "collection_history s s'" by (simp add: collection_history_def)
  qed (rule history.session)
  then show "collection_history s (snd (update_returning rs_attempts put_attempts matching change s))" by (simp add: wp_def)
qed

lemma history_insert_attempt: "stays collection_history (insert_unless_conflict rs_attempts put_attempts row)"
proof -
  have "stays collection_history (\<lambda>s. case put_attempts (rs_attempts s @ [row]) s of
      (Inl UniqueViolation, s') \<Rightarrow> (Inr (), s') | outcome \<Rightarrow> outcome)"
  proof (rule staysI)
    fix s
    have "collection_history s (s\<lparr>rs_attempts := rs_attempts s @ [row]\<rparr>)" if "attempts_unique (rs_attempts s @ [row])"
      using that by (auto simp: collection_history_def intro: attempt_progress_refl)
    then show "collection_history s (snd (case put_attempts (rs_attempts s @ [row]) s of
        (Inl UniqueViolation, s') \<Rightarrow> (Inr (), s') | outcome \<Rightarrow> outcome))"
      by (auto simp: put_attempts_def recurring_foreign_key_violation_def history.refl)
  qed
  then show ?thesis unfolding insert_unless_conflict_def by (rule history.stays_sql)
qed

end
