(* ===== verification/Recurring_Runs.thy ===== *)
theory Recurring_Runs
  imports Recurring_Effects
begin

text \<open>
  Runs of recurring payments: every operation of the two repositories and every service that is modelled, in any order and
  cut short anywhere. What all of them respect is proved once, in the locale \<open>recurring_effect\<close>, for any effect relation that
  allows the outside to act, writes to the other tables, and the two ways collection attempts are written.
\<close>

section \<open>The outside\<close>

text \<open>Calls that leave the process touch none of the tables; the clock may move.\<close>

definition same_tables :: "recurring_session \<Rightarrow> recurring_session \<Rightarrow> bool" where
  "same_tables s s' \<longleftrightarrow> rs_payments s' = rs_payments s \<and> rs_activation_attempts s' = rs_activation_attempts s \<and>
     rs_lifecycle_attempts s' = rs_lifecycle_attempts s \<and> rs_update_attempts s' = rs_update_attempts s \<and>
     rs_update_events s' = rs_update_events s \<and> rs_plans s' = rs_plans s \<and> rs_subscriptions s' = rs_subscriptions s \<and>
     rs_attempts s' = rs_attempts s \<and> rs_transfers s' = rs_transfers s \<and> rs_sent s' = rs_sent s"

definition leaves_tables :: "recurring_world \<Rightarrow> bool" where
  "leaves_tables w \<longleftrightarrow>
     (\<forall>p m. stays same_tables (rw_tokenStatusByMint w p m)) \<and> stays same_tables (rw_findEventAuthorityPda w) \<and>
     (\<forall>m. stays same_tables (rw_resolveMintTokenProgram w m)) \<and> (\<forall>m. stays same_tables (rw_resolveMintDecimals w m)) \<and>
     (\<forall>a b c. stays same_tables (rw_findAssociatedTokenPda w a b c)) \<and> (\<forall>g. stays same_tables (rw_getTransaction w g)) \<and>
     (\<forall>g. stays same_tables (rw_confirmTransaction w g)) \<and> (\<forall>a b c. stays same_tables (rw_createOrgSigner w a b c)) \<and>
     (\<forall>a. stays same_tables (rw_fetchSubscriptionExpiry w a)) \<and> (\<forall>a b c. stays same_tables (rw_cancelInstruction w a b c)) \<and>
     (\<forall>t a b c d. stays same_tables (rw_resumeInstruction w t a b c d)) \<and> stays same_tables (rw_getRecentBlockhash w) \<and>
     (\<forall>a b c. stays same_tables (rw_getFeePayer w a b c)) \<and> (\<forall>a b c d. stays same_tables (rw_signMessage w a b c d)) \<and>
     (\<forall>tx. stays same_tables (rw_signAndSend w tx)) \<and> (\<forall>a m. stays same_tables (rw_emitRecurringPaymentFailed w a m))"

lemma session_same_tables: "only_session s s' \<Longrightarrow> same_tables s s'"
  by (simp add: same_tables_def session_keeps_tables)

lemma stays_widen: "stays R m \<Longrightarrow> (\<And>s s'. R s s' \<Longrightarrow> R' s s') \<Longrightarrow> stays R' m"
  by (simp add: stays_def)

lemma updated_attempt_progress:
  "attempt_move (uca_status input) (sca_status r) \<Longrightarrow> attempt_progress r (updated_attempt input r)"
  by (auto simp: attempt_progress_def updated_attempt_def attempt_move_def assign_def status_forward_def split: option.splits)

lemma failed_attempt_progress:
  "failure_move st (sca_status r) \<Longrightarrow> attempt_progress r (failed_attempt t transfer st signature error metadata r)"
  by (auto simp: attempt_progress_def failed_attempt_def failure_move_def status_forward_def)

section \<open>What every operation respects\<close>

locale collection_effect = effect_relation R for R :: "recurring_session \<Rightarrow> recurring_session \<Rightarrow> bool" +
  assumes outside: "same_tables s s' \<Longrightarrow> R s s'"
    and other_puts: "stays R (put_payments ps)" "stays R (put_plans pl)" "stays R (put_subscriptions ss)" "stays R (put_transfers ts)"
    and attempt_update: "(\<And>r. matching r \<Longrightarrow> attempt_progress r (change r)) \<Longrightarrow>
      stays R (update_returning rs_attempts put_attempts matching change)"
    and attempt_insert: "stays R (insert_unless_conflict rs_attempts put_attempts row)"
begin

lemmas statement_stays = stays_statement[OF effect_relation_axioms]

lemmas update_stays = other_puts[THEN statement_stays(1)]
lemmas insert_stays = other_puts[THEN statement_stays(2)]
lemmas conflict_stays = other_puts[THEN statement_stays(3)]

lemma stays_select: "stays R (select_first rows matching)" "stays R (select_latest rows' matching' key)"
  by (intro stays_reads io_reads_statements)+

lemma stays_page: "stays R (page limit offset created selected)"
  unfolding page_def by (intro stays_reads reads_intros)

lemma payments_stay:
  "stays R (getRecurringPaymentByIdInternal a b c)" "stays R (createRecurringPayment crp)" "stays R (updateRecurringPayment urp)"
  "stays R (claimRecurringPaymentActivation a b c t sb)" "stays R (resetRecurringPaymentActivationIfNotActive a b c t)"
  "stays R (updateRecurringPaymentActivation upa)" "stays R (updateRecurringPaymentCollection upc)"
  "stays R (updateRecurringPaymentDestinationTokenAccount a b c d t)" "stays R (claimRecurringPaymentLifecycle a b c op t sb)"
  "stays R (claimRecurringPaymentUpdate a b c t sb)" "stays R (updateRecurringPaymentLifecycle a b c st st' t)"
  "stays R (getRecurringPaymentById a b c ws)" "stays R (listRecurringPayments lrp)"
  unfolding getRecurringPaymentByIdInternal_def createRecurringPayment_def updateRecurringPayment_def
    claimRecurringPaymentActivation_def resetRecurringPaymentActivationIfNotActive_def updateRecurringPaymentActivation_def
    updateRecurringPaymentCollection_def updateRecurringPaymentDestinationTokenAccount_def claimRecurringPaymentLifecycle_def
    claimRecurringPaymentUpdate_def updateRecurringPaymentLifecycle_def getRecurringPaymentById_def listRecurringPayments_def
    update_payment_def Let_def
  by (intro stays_bind stays_if stays_pure stays_select stays_page update_stays insert_stays)+

lemma insert_subscription_stays: "stays R (insert_subscription row)"
  unfolding insert_subscription_def
  by (rule stays_sql, rule staysI) (auto simp: refl intro: staysD[OF other_puts(3)])

lemma subscriptions_stay:
  "stays R (getPlanById a b c)" "stays R (createPlan pl1)" "stays R (updatePlan usp)" "stays R (listPlans lsp)"
  "stays R (getSubscriptionById a b c)" "stays R (createSubscription cps)" "stays R (updateSubscription ups)"
  "stays R (listSubscriptions lps)" "stays R (getCollectionAttemptById a b c)" "stays R (getCollectionAttemptByDue a b c t sts)"
  "stays R (createCollectionAttempt ca)" "stays R (listCollectionAttempts lca)"
  unfolding getPlanById_def createPlan_def updatePlan_def listPlans_def getSubscriptionById_def createSubscription_def
    updateSubscription_def listSubscriptions_def getCollectionAttemptById_def getCollectionAttemptByDue_def
    createCollectionAttempt_def listCollectionAttempts_def
  by (intro stays_bind stays_if stays_option stays_pure stays_select stays_page update_stays conflict_stays
      insert_subscription_stays attempt_insert)+

lemma updateCollectionAttempt_stays: "stays R (updateCollectionAttempt uca)"
  unfolding updateCollectionAttempt_def by (rule attempt_update) (simp add: updated_attempt_progress)

lemma transfers_stay: "stays R (getTransferById a b c)" "stays R (updateTransfer ut)"
  unfolding getTransferById_def updateTransfer_def by (intro stays_select update_stays)+

lemmas table_stays = payments_stay subscriptions_stay updateCollectionAttempt_stays transfers_stay

end

section \<open>What every service respects\<close>

lemma stays_settled: "stays R m \<Longrightarrow> stays R (settled m)"
  unfolding settled_def stays_def by (simp add: split_def)

lemma stays_at_progress: "stays R m \<Longrightarrow> stays R (at_progress p m)"
  unfolding at_progress_def by (rule staysI) (auto split: prod.splits sum.splits dest: staysD2)

context collection_effect
begin

lemmas service_intros = stays_pure stays_bind stays_catch stays_transaction stays_if stays_option stays_prod
  stays_settled stays_at_progress table_stays

lemma stays_handle_progress:
  assumes "stays R m" "\<And>p e. stays R (h p e)"
  shows "stays R (handle_progress m h)"
proof (rule staysI)
  fix s
  have "R s (snd (h p e s'))" if "R s s'" for p e s' using that staysD[OF assms(2)] by (rule trans)
  then show "R s (snd (handle_progress m h s))"
    using staysD2[OF assms(1), of s] by (auto simp: handle_progress_def split: prod.splits sum.splits)
qed

lemma stays_untouched: "stays same_tables m \<Longrightarrow> stays R m"
  by (erule stays_widen) (rule outside)

lemma world_stays:
  assumes "leaves_tables w"
  shows "stays R (rw_tokenStatusByMint w p m)" "stays R (rw_findEventAuthorityPda w)" "stays R (rw_resolveMintTokenProgram w m)"
    "stays R (rw_resolveMintDecimals w m)" "stays R (rw_findAssociatedTokenPda w a b c)" "stays R (rw_getTransaction w g)"
    "stays R (rw_confirmTransaction w g)" "stays R (rw_createOrgSigner w a b c)" "stays R (rw_fetchSubscriptionExpiry w a)"
    "stays R (rw_cancelInstruction w a b c)" "stays R (rw_resumeInstruction w t a b c d)" "stays R (rw_getRecentBlockhash w)"
    "stays R (rw_getFeePayer w a b c)" "stays R (rw_signMessage w a b is d)" "stays R (rw_signAndSend w tx)"
    "stays R (rw_emitRecurringPaymentFailed w attempt m)"
  using assms unfolding leaves_tables_def by (simp_all add: stays_untouched)

lemma stays_assertValidAddress: "stays R (assertValidAddress w v f)"
  unfolding assertValidAddress_def by (intro service_intros)

lemma stays_tokenMint: "leaves_tables w \<Longrightarrow> stays R (assertRecurringPaymentTokenMint w t a b)"
  unfolding assertRecurringPaymentTokenMint_def by (intro service_intros stays_assertValidAddress world_stays)

lemma stays_confirm: "leaves_tables w \<Longrightarrow> stays R (confirmSubscriptionSignature w g m)"
  unfolding confirmSubscriptionSignature_def by (intro service_intros world_stays)

lemma stays_verify: "leaves_tables w \<Longrightarrow> stays R (verifyRecurringPaymentCollection w a b c d e f g)"
  unfolding verifyRecurringPaymentCollection_def by (intro service_intros stays_assertValidAddress world_stays)

lemma stays_validated: "stays R (validatedStoredCollectionSignature w g)"
  unfolding validatedStoredCollectionSignature_def by (intro service_intros)

lemma stays_fail_transfer: "stays R (fail_transfer w a b t m g tr)"
  unfolding fail_transfer_def Let_def by (intro service_intros update_stays stays_validated)

lemma stays_settle_failed:
  assumes "\<And>r. failure_move st (sca_status r) \<Longrightarrow> attempt_progress r (change r)"
  shows "stays R (settle_failed_attempt a b c st change)"
  unfolding settle_failed_attempt_def by (intro service_intros attempt_update assms) auto

lemma stays_mark_failed: "leaves_tables w \<Longrightarrow> stays R (markRecurringPaymentCollectionFailedAtomically w a b c d e f g)"
  unfolding markRecurringPaymentCollectionFailedAtomically_def
  by (intro service_intros stays_fail_transfer stays_settle_failed failed_attempt_progress world_stays)

lemma stays_finalize_collection: "stays R (finalizeRecurringPaymentCollection a b c d e f g)"
  unfolding finalizeRecurringPaymentCollection_def by (intro service_intros)

lemma stays_journal: "leaves_tables w \<Longrightarrow> stays R (journalRecurringPaymentCollectionError w a b c d e f g)"
  unfolding journalRecurringPaymentCollectionError_def by (intro service_intros stays_mark_failed)

lemma stays_safe_journal: "leaves_tables w \<Longrightarrow> stays R (safeJournalRecurringPaymentCollectionError w a b c d e f g)"
  unfolding safeJournalRecurringPaymentCollectionError_def by (intro service_intros stays_journal)

lemma stays_gather: "leaves_tables w \<Longrightarrow> stays R (gather_evidence w a b c d e f g h)"
  unfolding gather_evidence_def resolveDestinationTokenAccount_def Let_def
  by (intro service_intros stays_assertValidAddress stays_verify world_stays)

lemma stays_confirm_recovered: "leaves_tables w \<Longrightarrow> stays R (confirm_recovered w a b c d e f)"
  unfolding confirm_recovered_def by (intro service_intros stays_confirm stays_mark_failed)

lemma stays_evidence: "leaves_tables w \<Longrightarrow> stays R (recovered_evidence w a b c d e f g h i j)"
  unfolding recovered_evidence_def by (intro service_intros stays_gather stays_mark_failed stays_safe_journal)

lemma stays_interrupted: "leaves_tables w \<Longrightarrow> stays R (fail_interrupted w a b c d e f g)"
  unfolding fail_interrupted_def by (intro service_intros stays_mark_failed)

lemma stays_recover_signed: "leaves_tables w \<Longrightarrow> stays R (recover_signed w a b c d e f g h)"
  unfolding recover_signed_def Let_def
  by (intro service_intros stays_confirm_recovered stays_evidence stays_finalize_collection)

lemma stays_recover: "leaves_tables w \<Longrightarrow> stays R (recoverRecurringPaymentCollection w a b c d e)"
  unfolding recoverRecurringPaymentCollection_def Let_def
  by (intro service_intros stays_interrupted stays_recover_signed stays_validated)

lemma stays_recover_or_block: "leaves_tables w \<Longrightarrow> stays R (recoverOrBlockLifecycleCollection w a b c)"
  unfolding recoverOrBlockLifecycleCollection_def by (intro service_intros stays_recover)

lemma stays_prepare: "leaves_tables w \<Longrightarrow> stays R (prepare_lifecycle w a b c d e f)"
  unfolding prepare_lifecycle_def by (intro service_intros stays_tokenMint stays_assertValidAddress world_stays)

lemma stays_build: "leaves_tables w \<Longrightarrow> stays R (buildLifecycleInstruction w op a b c d)"
  unfolding buildLifecycleInstruction_def 
  by (cases op; simp only: RecurringPaymentLifecycleOperation.case; intro service_intros world_stays)

lemma stays_release: "stays R (release_claim a b c d e)"
  unfolding release_claim_def by (intro service_intros)

end

locale recurring_effect = collection_effect +
  assumes lifecycle_puts: "stays R (put_activation_attempts as)" "stays R (put_lifecycle_attempts ls)"
    "stays R (put_update_attempts us)" "stays R (put_update_events es)"
begin

lemmas lifecycle_update_stays = lifecycle_puts[THEN statement_stays(1)]
lemmas lifecycle_insert_stays = lifecycle_puts[THEN statement_stays(2)]

lemma attempts_of_payments_stay:
  "stays R (getActivationAttemptByIdInternal a b c)" "stays R (createActivationAttempt ra)" "stays R (updateActivationAttempt ua)"
  "stays R (getLatestActivationAttempt a b c sts)" "stays R (getLifecycleAttemptByIdInternal a b c)"
  "stays R (createLifecycleAttempt rl)" "stays R (updateLifecycleAttempt ul)" "stays R (getLatestLifecycleAttempt a b c op sts)"
  "stays R (getUpdateAttemptByIdInternal a b c)" "stays R (createUpdateAttempt ru)" "stays R (updateUpdateAttempt uu)"
  "stays R (getLatestUpdateAttempt a b c sts)" "stays R (getUpdateEventByIdInternal a b c)" "stays R (createUpdateEvent re)"
  unfolding getActivationAttemptByIdInternal_def createActivationAttempt_def updateActivationAttempt_def
    getLatestActivationAttempt_def getLifecycleAttemptByIdInternal_def createLifecycleAttempt_def updateLifecycleAttempt_def
    getLatestLifecycleAttempt_def getUpdateAttemptByIdInternal_def createUpdateAttempt_def updateUpdateAttempt_def
    getLatestUpdateAttempt_def getUpdateEventByIdInternal_def createUpdateEvent_def
  by (intro stays_bind stays_if stays_option stays_pure stays_select lifecycle_update_stays lifecycle_insert_stays)+

lemmas repository_stays = table_stays attempts_of_payments_stay

lemma stays_attempt_row: "stays R (getOrCreateLifecycleAttempt a b c d e)"
  unfolding getOrCreateLifecycleAttempt_def by (intro service_intros attempts_of_payments_stay stays_release)

lemma stays_lifecycle_failed: "stays R (lifecycle_failed a b c d e)"
  unfolding lifecycle_failed_def preserveRecoverableLifecycleAttempt_def recordLifecycleFailure_def
  by (intro service_intros attempts_of_payments_stay stays_release)

lemma stays_stage: "stays R (stage_update a b c d e)"
  unfolding stage_update_def by (intro service_intros attempts_of_payments_stay)

lemma stays_finalize_lifecycle: "stays R (finalizeRecurringPaymentLifecycle a b c d e f g)"
  unfolding finalizeRecurringPaymentLifecycle_def by (intro service_intros attempts_of_payments_stay)

end

interpretation chronicle: recurring_effect collection_history
  by unfold_locales (auto intro: history_put_other history_update_attempts history_insert_attempt same_attempts_history
      simp: same_tables_def)

text \<open>Nothing is handed to the network.\<close>

definition sends_nothing :: "recurring_session \<Rightarrow> recurring_session \<Rightarrow> bool" where
  "sends_nothing s s' \<longleftrightarrow> rs_sent s' = rs_sent s"

interpretation silent_statements: effect_relation sends_nothing
  by unfold_locales (simp_all add: sends_nothing_def session_keeps_tables)

lemma silent_put:
  "stays sends_nothing (put_payments a)" "stays sends_nothing (put_activation_attempts b)"
  "stays sends_nothing (put_lifecycle_attempts c)" "stays sends_nothing (put_update_attempts d)"
  "stays sends_nothing (put_update_events e)" "stays sends_nothing (put_plans f)"
  "stays sends_nothing (put_subscriptions g)" "stays sends_nothing (put_transfers h)" "stays sends_nothing (put_attempts i)"
  by (rule staysI, simp add: put_defs sends_nothing_def)+

interpretation silent: recurring_effect sends_nothing
  by unfold_locales (simp_all add: silent_put stays_statement[OF silent_statements.effect_relation_axioms],
      simp add: same_tables_def sends_nothing_def)

section \<open>Services that send\<close>

locale recurring_sender = recurring_effect +
  assumes sends: "stays R (io_modify (\<lambda>s. s\<lparr>rs_sent := rs_sent s @ [tx]\<rparr>) :: unit recurring_io)"
begin

lemma stays_send: "leaves_tables w \<Longrightarrow> stays R (sendSubscriptionInstructions w a b c d e)"
  unfolding sendSubscriptionInstructions_def by (intro service_intros sends world_stays)

lemma stays_submit: "leaves_tables w \<Longrightarrow> stays R (submit_lifecycle w a b c d e f g h i)"
  unfolding submit_lifecycle_def by (intro service_intros stays_stage stays_build stays_send)

lemma stays_body: "leaves_tables w \<Longrightarrow> stays R (lifecycle_body w a b c d e f g)"
  unfolding lifecycle_body_def by (intro service_intros stays_prepare stays_submit stays_confirm)

lemma stays_run: "leaves_tables w \<Longrightarrow> stays R (runRecurringPaymentLifecycle w a b c d op)"
  unfolding runRecurringPaymentLifecycle_def execute_lifecycle_def
  by (intro service_intros stays_recover_or_block stays_attempt_row stays_handle_progress stays_body stays_lifecycle_failed
      stays_finalize_lifecycle)

lemma stays_lifecycle:
  assumes "leaves_tables w"
  shows "stays R (cancelRecurringPayment w a b c d)" "stays R (resumeRecurringPayment w a b c d)"
  unfolding cancelRecurringPayment_def resumeRecurringPayment_def by (intro service_intros stays_run assms)+

end

interpretation chronicle: recurring_sender collection_history
  by unfold_locales (rule staysI, simp add: io_modify_def same_attempts_history)

section \<open>Runs\<close>

text \<open>Requests and jobs interleave: a step is one operation of a repository or one service call, from start to end or up to where
  it failed, by any caller with any arguments; or the outside acting on what is not in these tables.\<close>

inductive recurring_step :: "recurring_world \<Rightarrow> recurring_session \<Rightarrow> recurring_session \<Rightarrow> bool" for w where
  outside_acts: "same_tables s s' \<Longrightarrow> recurring_step w s s'"
| create_payment: "recurring_step w s (snd (createRecurringPayment crp s))"
| update_payment: "recurring_step w s (snd (updateRecurringPayment urp s))"
| claim_activation: "recurring_step w s (snd (claimRecurringPaymentActivation a b c t sb s))"
| reset_activation: "recurring_step w s (snd (resetRecurringPaymentActivationIfNotActive a b c t s))"
| update_activation: "recurring_step w s (snd (updateRecurringPaymentActivation ua s))"
| update_collection: "recurring_step w s (snd (updateRecurringPaymentCollection uc s))"
| update_destination: "recurring_step w s (snd (updateRecurringPaymentDestinationTokenAccount a b c d t s))"
| claim_lifecycle: "recurring_step w s (snd (claimRecurringPaymentLifecycle a b c op t sb s))"
| claim_update: "recurring_step w s (snd (claimRecurringPaymentUpdate a b c t sb s))"
| update_lifecycle: "recurring_step w s (snd (updateRecurringPaymentLifecycle a b c st st' t s))"
| create_activation_attempt: "recurring_step w s (snd (createActivationAttempt ra s))"
| update_activation_attempt: "recurring_step w s (snd (updateActivationAttempt uaa s))"
| create_lifecycle_attempt: "recurring_step w s (snd (createLifecycleAttempt rl s))"
| update_lifecycle_attempt: "recurring_step w s (snd (updateLifecycleAttempt ul s))"
| create_update_attempt: "recurring_step w s (snd (createUpdateAttempt ru s))"
| update_update_attempt: "recurring_step w s (snd (updateUpdateAttempt uu s))"
| create_update_event: "recurring_step w s (snd (createUpdateEvent ev s))"
| create_plan: "recurring_step w s (snd (createPlan plan s))"
| update_plan: "recurring_step w s (snd (updatePlan usp s))"
| create_subscription: "recurring_step w s (snd (createSubscription cps s))"
| update_subscription: "recurring_step w s (snd (updateSubscription ups s))"
| create_collection_attempt: "recurring_step w s (snd (createCollectionAttempt ca s))"
| update_collection_attempt: "recurring_step w s (snd (updateCollectionAttempt uca s))"
| update_transfer: "recurring_step w s (snd (updateTransfer ut s))"
| mark_failed: "recurring_step w s (snd (markRecurringPaymentCollectionFailedAtomically w a b c d e f g s))"
| finalize_collection: "recurring_step w s (snd (finalizeRecurringPaymentCollection a b rp sub att tr pr s))"
| journal_error: "recurring_step w s (snd (safeJournalRecurringPaymentCollectionError w a b c d e f g s))"
| recover_collection: "recurring_step w s (snd (recoverRecurringPaymentCollection w a b rp sub due s))"
| cancel: "recurring_step w s (snd (cancelRecurringPayment w a b wallet rp s))"
| resume: "recurring_step w s (snd (resumeRecurringPayment w a b wallet rp s))"

lemma step_history:
  assumes "leaves_tables w" "recurring_step w s s'"
  shows "collection_history s s'"
  using assms(2)
  by (cases rule: recurring_step.cases)
    (auto intro!: staysD[where R = collection_history] chronicle.repository_stays chronicle.stays_mark_failed
      chronicle.stays_finalize_collection chronicle.stays_safe_journal chronicle.stays_recover chronicle.stays_lifecycle assms(1)
      intro: chronicle.outside)

lemma run_history:
  assumes "leaves_tables w" "(recurring_step w)\<^sup>*\<^sup>* s s'"
  shows "collection_history s s'"
  using assms(2)
  by (induction rule: rtranclp_induct) (auto intro: history.refl history.trans step_history[OF assms(1)])

text \<open>The due date an attempt collects for.\<close>

definition same_due ::
  "PaymentSubscriptionCollectionAttemptRow \<Rightarrow> PaymentSubscriptionCollectionAttemptRow \<Rightarrow> bool" where
  "same_due a b \<longleftrightarrow> sca_organization_id b = sca_organization_id a \<and> sca_project_id b = sca_project_id a \<and>
     sca_subscription_id b = sca_subscription_id a \<and> sca_due_at b = sca_due_at a"

lemma map_filter_unique:
  assumes "distinct (List.map_filter key rows)" "a \<in> set rows" "b \<in> set rows" "key a = Some k" "key b = Some k"
  shows "a = b"
  using assms
proof (induction rows)
  case (Cons r rows)
  have "k \<in> set (List.map_filter key rows)" if "x \<in> set rows" "key x = Some k" for x
    using that by (force simp: List.map_filter_def)
  with Cons show ?case by (auto simp: map_filter_simps split: option.splits)
qed simp

lemma one_open_attempt:
  assumes "attempts_unique rows" "a \<in> set rows" "b \<in> set rows" "same_due a b"
    "open_or_collected (sca_status a)" "open_or_collected (sca_status b)"
  shows "a = b"
  using assms by (intro map_filter_unique[of active_due_key rows]) (auto simp: attempts_unique_def index_ok_def same_due_def active_due_key_def)

end
