(* ===== verification/Recurring_Samples.thy ===== *)
theory Recurring_Samples
  imports Recurring_Runs
begin

text \<open>
  A small tenant with one active recurring payment whose collection was interrupted after it was sent, and an outside whose
  chain either executed the transfer or reports that it failed.
\<close>

definition sample_payment :: PaymentRecurringPaymentRow where
  "sample_payment = \<lparr>rp_id = ''rp'', rp_organization_id = ''o'', rp_project_id = ''p'', rp_source_wallet_id = ''w'',
     rp_source_address = ''src'', rp_counterparty_id = ''cp'', rp_counterparty_account_id = ''ca'',
     rp_destination_address = ''dst'', rp_destination_token_account = Some ''ata'', rp_token = ''mint'', rp_amount = ''5'',
     rp_period_hours = 24, rp_first_collection_at = None, rp_next_collection_due_at = Some 1000000, rp_plan_id = Some ''pl'',
     rp_subscription_id = Some ''su'', rp_plan_pda = Some ''ppda'', rp_plan_created_at = None, rp_plan_creation_signature = None,
     rp_subscription_pda = Some ''spda'', rp_subscription_authority_address = Some ''auth'', rp_authorization_signature = None,
     rp_status = RpActive, rp_metadata_uri = None, rp_created_by = None, rp_created_at = 0, rp_updated_at = 0\<rparr>"

definition sample_subscription :: PaymentSubscriptionRow where
  "sample_subscription = \<lparr>sub_id = ''su'', sub_organization_id = ''o'', sub_project_id = ''p'', sub_plan_id = ''pl'',
     sub_counterparty_id = ''cp'', sub_subscriber_address = ''src'', sub_subscriber_token_account = Some ''sta'',
     sub_subscription_pda = Some ''spda'', sub_subscription_authority_address = Some ''auth'',
     sub_authorization_signature = None, sub_status = SubActive, sub_current_period_start_at = None,
     sub_next_collection_due_at = Some 1000000, sub_cancel_at = None, sub_canceled_at = None, sub_created_by = None,
     sub_created_at = 0, sub_updated_at = 0\<rparr>"

definition sample_plan_row :: PaymentSubscriptionPlanRow where
  "sample_plan_row = \<lparr>spl_id = ''pl'', spl_organization_id = ''o'', spl_project_id = ''p'', spl_owner_wallet_id = ''w'',
     spl_owner_address = ''src'', spl_token = ''mint'', spl_amount = ''5'', spl_period_hours = 24, spl_program_plan_id = ''1'',
     spl_plan_pda = Some ''ppda'', spl_destination_address = None, spl_puller_wallet_id = None, spl_puller_address = None,
     spl_metadata_uri = None, spl_status = PlanActive, spl_created_by = None, spl_created_at = 0, spl_updated_at = 0\<rparr>"

definition sample_attempt :: PaymentSubscriptionCollectionAttemptRow where
  "sample_attempt = \<lparr>sca_id = ''at'', sca_organization_id = ''o'', sca_project_id = ''p'', sca_subscription_id = ''su'',
     sca_transfer_id = Some ''tr'', sca_token = ''mint'', sca_amount = ''5'', sca_due_at = 1000000, sca_attempted_at = None,
     sca_status = CaProcessing, sca_signature = Some ''sig'', sca_error = None,
     sca_metadata = [(''recurringPaymentId'', JStr ''rp'')], sca_created_at = 0, sca_updated_at = 0\<rparr>"

definition sample_transfer :: PaymentTransferRow where
  "sample_transfer = \<lparr>ptr_id = ''tr'', ptr_organization_id = ''o'', ptr_project_id = Some ''p'', ptr_wallet_id = ''w'',
     ptr_counterparty_id = Some ''cp'', ptr_source_address = Some ''src'', ptr_destination_address = Some ''dst'',
     ptr_token = ''mint'', ptr_amount = Some ''5'', ptr_type = Transfer, ptr_direction = Outbound, ptr_status = TrProcessing,
     ptr_provider_data = [(''recurringPaymentId'', JStr ''rp'')], ptr_signature = Some ''sig'',
     ptr_signed_transaction = Some ''tx'', ptr_last_valid_block_height = Some ''9'', ptr_submission_started_at = Some 0,
     ptr_error = None, ptr_confirmed_at = None, ptr_updated_at = 0\<rparr>"

definition sample_tables :: recurring_session where
  "sample_tables = \<lparr>sess_faults = [], sess_clock = 2000000, sess_uuid = (\<lambda>n. [char_of n]), sess_uuid_next = 65,
     rs_payments = [sample_payment], rs_activation_attempts = [], rs_lifecycle_attempts = [], rs_update_attempts = [],
     rs_update_events = [], rs_plans = [sample_plan_row], rs_subscriptions = [sample_subscription],
     rs_attempts = [sample_attempt], rs_transfers = [sample_transfer], rs_sent = []\<rparr>"

text \<open>The outside; \<open>failed\<close> says what the chain reports of every transaction.\<close>

definition sample_outside :: "bool \<Rightarrow> recurring_world" where
  "sample_outside failed = \<lparr>rw_iso = (\<lambda>_. ''t''), rw_isAddress = (\<lambda>_. True), rw_isSignature = (\<lambda>_. True),
     rw_network = ''devnet'', rw_isNativePaymentToken = (\<lambda>_. False), rw_normalizePaymentToken = (\<lambda>t. Inr t),
     rw_wellKnownTokenByMint = (\<lambda>_. None), rw_tokenStatusByMint = (\<lambda>_ _. io_return (Some ''active'')),
     rw_retryAfterMinutes = None, rw_subscriptionsProgram = ''subs'', rw_transferDiscriminator = 2,
     rw_decodeTransfer = (\<lambda>_. Some \<lparr>tsd_discriminator = 2, tsd_amount = 500, tsd_delegator = ''src'', tsd_mint = ''mint''\<rparr>),
     rw_findEventAuthorityPda = io_return ''ev'', rw_resolveMintTokenProgram = (\<lambda>_. io_return ''tok''),
     rw_resolveMintDecimals = (\<lambda>_. io_return 2), rw_findAssociatedTokenPda = (\<lambda>_ _ _. io_return ''ata''),
     rw_getTransaction = (\<lambda>_. io_return (Some \<lparr>ctx_err = failed, ctx_instructions =
        [\<lparr>pin_programId = ''subs'', pin_accounts = Some [''spda'', ''ppda'', ''auth'', ''sta'', ''ata'', ''src'', ''mint'', ''tok'',
           ''ev'', ''subs''], pin_data = Some ''d''\<rparr>]\<rparr>)),
     rw_confirmTransaction = (\<lambda>_. io_return failed), rw_createOrgSigner = (\<lambda>_ _ _. io_return ''src''),
     rw_fetchSubscriptionExpiry = (\<lambda>_. io_return (Some 0)), rw_cancelInstruction = (\<lambda>_ _ _. io_return ''cancel''),
     rw_resumeInstruction = (\<lambda>_ _ _ _ _. io_return ''resume''), rw_getRecentBlockhash = io_return ''hash'',
     rw_getFeePayer = (\<lambda>_ _ _. io_return ''fee''), rw_signMessage = (\<lambda>_ _ _ _. io_return ''bytes''),
     rw_signAndSend = (\<lambda>_. io_return ''sent''), rw_emitRecurringPaymentFailed = (\<lambda>_ _. io_return ())\<rparr>"

lemma sample_outside_leaves_tables: "leaves_tables (sample_outside failed)"
  by (simp add: leaves_tables_def sample_outside_def stays_def io_return_def same_tables_def)

lemmas sample_rows = sample_payment_def sample_subscription_def sample_plan_row_def sample_attempt_def sample_transfer_def
  sample_tables_def

end
