(* ===== verification/Recurring_Safety.thy ===== *)
theory Recurring_Safety
  imports Recurring_Samples
begin

text \<open>
  The ledger's properties: a due date is collected once, whatever runs in whatever order; one worker at a time holds a payment; and
  what the update that finalizes an activation does to a payment that was canceled meanwhile.
\<close>

section \<open>Collected once\<close>


definition collected_tables :: recurring_session where
  "collected_tables = sample_tables\<lparr>rs_attempts := [sample_attempt\<lparr>sca_status := CaConfirmed\<rparr>]\<rparr>"


section \<open>One holder\<close>

datatype claim_kind = ClaimActivation | ClaimLifecycle RecurringPaymentLifecycleOperation | ClaimUpdate

fun claim_payment ::
  "claim_kind \<Rightarrow> string \<Rightarrow> string \<Rightarrow> string \<Rightarrow> timestamp \<Rightarrow> timestamp option \<Rightarrow> PaymentRecurringPaymentRow option recurring_io" where
  "claim_payment ClaimActivation = claimRecurringPaymentActivation"
| "claim_payment (ClaimLifecycle op) = (\<lambda>a b c. claimRecurringPaymentLifecycle a b c op)"
| "claim_payment ClaimUpdate = claimRecurringPaymentUpdate"

fun claim_from :: "claim_kind \<Rightarrow> PaymentRecurringPaymentStatus" where
  "claim_from ClaimActivation = PendingActivation"
| "claim_from (ClaimLifecycle op) = (if op = OpCancel then RpActive else RpCanceled)"
| "claim_from ClaimUpdate = RpActive"

fun claim_to :: "claim_kind \<Rightarrow> PaymentRecurringPaymentStatus" where
  "claim_to ClaimActivation = Activating"
| "claim_to (ClaimLifecycle op) = (if op = OpCancel then Canceling else Resuming)"
| "claim_to ClaimUpdate = Updating"

lemma claim_payment_eq: "claim_payment k a b c t sb = update_payment
    (\<lambda>r. payment_at a b c r \<and> claimable_row (claim_from k) (claim_to k) sb r) (set_status (claim_to k) t)"
  by (cases k) (simp_all add: claimRecurringPaymentActivation_def claimRecurringPaymentLifecycle_def claimRecurringPaymentUpdate_def)

definition rows_of :: "string \<Rightarrow> recurring_session \<Rightarrow> PaymentRecurringPaymentRow list" where
  "rows_of a s = filter (\<lambda>r. rp_id r = a) (rs_payments s)"

definition claim_won :: "(api_error, 'a option) result \<Rightarrow> bool" where
  "claim_won res = (case res of Inr (Some _) \<Rightarrow> True | _ \<Rightarrow> False)"

text \<open>Held since after \<open>bound\<close>.\<close>

definition held_since :: "timestamp \<Rightarrow> PaymentRecurringPaymentRow list \<Rightarrow> bool" where
  "held_since bound rows \<longleftrightarrow>
     (\<forall>r\<in>set rows. rp_status r \<in> {Activating, Canceling, Resuming, Updating} \<and> bound < rp_updated_at r)"

lemma distinct_key_filter: "distinct (map key rows) \<Longrightarrow> length (filter (\<lambda>r. key r = k) rows) \<le> 1"
  by (induction rows) (auto simp: image_iff filter_empty_conv)

lemma filter_table_update:
  assumes "\<And>r. P r \<Longrightarrow> key r = k \<and> key (f r) = k"
  shows "filter (\<lambda>r. key r = k) (table_update P f rows) = table_update P f (filter (\<lambda>r. key r = k) rows)"
  using assms by (induction rows) (auto simp: table_update_def)

definition claim_effect ::
  "claim_kind \<Rightarrow> string \<Rightarrow> string \<Rightarrow> string \<Rightarrow> timestamp \<Rightarrow> timestamp option \<Rightarrow> recurring_session \<Rightarrow>
     (api_error, PaymentRecurringPaymentRow option) result \<Rightarrow> recurring_session \<Rightarrow> bool" where
  "claim_effect k a b c t sb s res s' \<longleftrightarrow> rows_of a s' = rows_of a s \<and> \<not> claim_won res \<or>
     (\<exists>r\<in>set (rows_of a s). claim_won res \<and> payment_at a b c r \<and> claimable_row (claim_from k) (claim_to k) sb r \<and>
       rows_of a s' = table_update (\<lambda>r. payment_at a b c r \<and> claimable_row (claim_from k) (claim_to k) sb r)
         (set_status (claim_to k) t) (rows_of a s))"

lemma claim_effect: "wp (claim_payment k a b c t sb) (claim_effect k a b c t sb s) s"
proof -
  let ?P = "\<lambda>r. payment_at a b c r \<and> claimable_row (claim_from k) (claim_to k) sb r" and ?f = "set_status (claim_to k) t"
  have rows: "rows_of a s' = table_update ?P ?f (rows_of a s)" if "rs_payments s' = table_update ?P ?f (rs_payments s)" for s'
    unfolding rows_of_def that by (rule filter_table_update) (simp add: payment_at_def set_status_def)
  have none: "table_update ?P ?f (rows_of a s) = rows_of a s" if "find ?P (rs_payments s) = None"
    unfolding table_update_def using that by (intro map_idI) (auto simp: rows_of_def find_None_iff)
  show ?thesis
  proof (unfold claim_payment_eq update_payment_def, rule payments.wp_update, goal_cases)
    case (1 e s1)
    then show ?case by (simp add: claim_effect_def rows_of_def session_keeps_tables claim_won_def)
  next
    case (2 s1 s2)
    note updated = rows[OF 2(3)]
    show ?case
    proof (cases "find ?P (rs_payments s)")
      case None
      then show ?thesis using updated none by (simp add: claim_effect_def claim_won_def)
    next
      case (Some r)
      then have "r \<in> set (rows_of a s)" "?P r" using find_Some_in[OF Some] by (auto simp: rows_of_def payment_at_def)
      then show ?thesis using updated Some by (auto simp: claim_effect_def claim_won_def)
    qed
  qed
qed

lemma claim_keeps_holder:
  assumes claim: "claim_payment k a b c t sb s = (res, s')" and "length (rows_of a s) \<le> 1" "bound < t"
    "\<forall>x. sb = Some x \<longrightarrow> x \<le> bound"
  shows "length (rows_of a s') \<le> 1" "held_since bound (rows_of a s) \<Longrightarrow> held_since bound (rows_of a s') \<and> \<not> claim_won res"
    "claim_won res \<Longrightarrow> held_since bound (rows_of a s')"
proof -
  note effect = wpD[OF claim_effect claim, unfolded claim_effect_def]
  have free: "\<not> claimable_row (claim_from k) (claim_to k) sb r"
    if "rp_status r \<in> {Activating, Canceling, Resuming, Updating}" "bound < rp_updated_at r" for r
    using that assms(4) by (cases k) (auto simp: claimable_row_def split: option.splits if_splits)
  have to: "claim_to k \<in> {Activating, Canceling, Resuming, Updating}" by (cases k) auto
  show "length (rows_of a s') \<le> 1" using effect assms(2) by (auto simp: table_update_def)
  show "held_since bound (rows_of a s) \<Longrightarrow> held_since bound (rows_of a s') \<and> \<not> claim_won res"
    using effect free by (auto simp: held_since_def)
  assume "claim_won res"
  with effect obtain r where r: "r \<in> set (rows_of a s)" "payment_at a b c r" "claimable_row (claim_from k) (claim_to k) sb r"
      "rows_of a s' = table_update (\<lambda>r. payment_at a b c r \<and> claimable_row (claim_from k) (claim_to k) sb r)
        (set_status (claim_to k) t) (rows_of a s)" by blast
  moreover from r(1) assms(2) have "rows_of a s = [r]" by (cases "rows_of a s") auto
  ultimately show "held_since bound (rows_of a s')"
    using to assms(3) by (auto simp: held_since_def table_update_def set_status_def)
qed

text \<open>Workers claiming one payment in turn; before each claim anything may happen that leaves the payment's row alone.\<close>

fun claims_won ::
  "string \<Rightarrow> string \<Rightarrow> string \<Rightarrow>
     ((recurring_session \<Rightarrow> recurring_session) \<times> claim_kind \<times> timestamp \<times> timestamp option) list \<Rightarrow> recurring_session \<Rightarrow> nat" where
  "claims_won a b c [] s = 0"
| "claims_won a b c ((f, k, t, sb) # rest) s = (case claim_payment k a b c t sb (f s) of
     (res, s') \<Rightarrow> (if claim_won res then 1 else 0) + claims_won a b c rest s')"

lemma claims_won_bound:
  assumes "\<forall>(f, k, t, sb)\<in>set claims. (\<forall>s. rows_of a (f s) = rows_of a s) \<and> bound < t \<and> (\<forall>x. sb = Some x \<longrightarrow> x \<le> bound)"
    "length (rows_of a s) \<le> 1"
  shows "claims_won a b c claims s \<le> (if held_since bound (rows_of a s) then 0 else 1)"
  using assms
proof (induction claims arbitrary: s)
  case (Cons entry rest)
  obtain f k t sb where entry: "entry = (f, k, t, sb)" by (cases entry)
  obtain res s' where claim: "claim_payment k a b c t sb (f s) = (res, s')" by fastforce
  have quiet: "rows_of a (f s) = rows_of a s" and window: "bound < t" "\<forall>x. sb = Some x \<longrightarrow> x \<le> bound"
    using Cons.prems(1) entry by auto
  note step = claim_keeps_holder[OF claim _ window, unfolded quiet, OF Cons.prems(2)]
  have "claims_won a b c rest s' \<le> (if held_since bound (rows_of a s') then 0 else 1)"
    using Cons.prems(1) step(1) by (intro Cons.IH) auto
  then show ?case using step(2,3) claim entry by (auto split: if_splits)
qed simp



section \<open>An activation that comes late\<close>


definition late_activation :: UpdatePaymentRecurringPaymentActivationInput where
  "late_activation = \<lparr>upa_recurringPaymentId = ''rp'', upa_organizationId = ''o'', upa_projectId = ''p'', upa_status = Some RpActive,
     upa_planId = Some (Some ''pl''), upa_subscriptionId = Some (Some ''su''), upa_planPda = None, upa_planCreatedAt = None,
     upa_planCreationSignature = None, upa_subscriptionPda = None, upa_subscriptionAuthorityAddress = None,
     upa_authorizationSignature = None, upa_nextCollectionDueAt = Some (Some 3000000), upa_destinationTokenAccount = None,
     upa_updatedAt = 2000000\<rparr>"


end
