(* ===== verification/Recurring_Recovery.thy ===== *)
theory Recurring_Recovery
  imports Recurring_Safety
begin

text \<open>
  The recovery of interrupted collections: an attempt is failed only when its money cannot have moved, and settled only on proof
  from the chain. Three views of a computation carry the proofs: which attempts it may fail, what it may throw, and what it may
  return.
\<close>

section \<open>Failed only when dead\<close>

text \<open>Only attempts of \<open>K\<close> become failed.\<close>

definition only_fails :: "string set \<Rightarrow> recurring_session \<Rightarrow> recurring_session \<Rightarrow> bool" where
  "only_fails K s s' \<longleftrightarrow> (\<forall>b\<in>set (rs_attempts s'). sca_status b = CaFailed \<longrightarrow>
     sca_id b \<in> K \<or> (\<exists>a\<in>set (rs_attempts s). sca_id a = sca_id b \<and> sca_status a = CaFailed))"

lemma same_attempts_only_fails: "rs_attempts s' = rs_attempts s \<Longrightarrow> only_fails K s s'"
  by (auto simp: only_fails_def)

interpretation fails: effect_relation "only_fails K"
proof
  fix s s' s'' :: recurring_session
  show "only_session s s' \<Longrightarrow> only_fails K s s'" by (rule same_attempts_only_fails) (simp add: session_keeps_tables)
  show "only_fails K s s' \<Longrightarrow> only_fails K s' s'' \<Longrightarrow> only_fails K s s''" unfolding only_fails_def by metis
qed

lemma only_fails_mono: "only_fails K s s' \<Longrightarrow> K \<subseteq> K' \<Longrightarrow> only_fails K' s s'"
  by (auto simp: only_fails_def)

lemma fails_puts: "stays (only_fails K) (put_payments a)" "stays (only_fails K) (put_subscriptions b)" "stays (only_fails K) (put_transfers c)"
  by (rule staysI, rule same_attempts_only_fails, simp add: put_defs)+

lemmas fails_updates = fails_puts[THEN stays_statement(1)[OF fails.effect_relation_axioms]]

lemma fails_select: "stays (only_fails K) (select_first rows matching)" "stays (only_fails K) (select_latest rows' matching' key)"
  by (intro fails.stays_reads io_reads_statements)+

lemma fails_update_attempts:
  assumes "\<And>r. matching r \<Longrightarrow> sca_id (change r) = sca_id r \<and> (sca_status (change r) = CaFailed \<longrightarrow> sca_id r \<in> K \<or> sca_status r = CaFailed)"
  shows "stays (only_fails K) (update_returning rs_attempts put_attempts matching change)"
proof (rule staysI)
  fix s :: recurring_session
  have "wp (update_returning rs_attempts put_attempts matching change) (\<lambda>_ s'. only_fails K s s') s"
  proof (rule attempts.wp_update)
    fix s1 s' :: recurring_session
    assume "rs_attempts s' = table_update matching change (rs_attempts s)"
    then show "only_fails K s s'" using assms by (fastforce simp: only_fails_def set_table_update)
  qed (rule fails.session)
  then show "only_fails K s (snd (update_returning rs_attempts put_attempts matching change s))" by (simp add: wp_def)
qed

lemma fails_outside:
  assumes "leaves_tables w"
  shows "stays (only_fails K) (rw_findEventAuthorityPda w)" "stays (only_fails K) (rw_resolveMintTokenProgram w m)"
    "stays (only_fails K) (rw_resolveMintDecimals w m)" "stays (only_fails K) (rw_findAssociatedTokenPda w a b c)"
    "stays (only_fails K) (rw_getTransaction w g)" "stays (only_fails K) (rw_confirmTransaction w g)"
    "stays (only_fails K) (rw_emitRecurringPaymentFailed w attempt m)"
  using assms unfolding leaves_tables_def
  by (auto intro!: stays_widen[of same_tables _ "only_fails K"] same_attempts_only_fails simp: same_tables_def)

lemmas fails_intros = fails.stays_pure fails.stays_bind fails.stays_catch fails.stays_transaction fails.stays_if fails.stays_option
  fails.stays_prod stays_settled fails_updates fails_select

lemma fails_statements:
  "stays (only_fails K) (getTransferById a b c)" "stays (only_fails K) (updateTransfer ut)"
  "stays (only_fails K) (getRecurringPaymentById a b c ws)" "stays (only_fails K) (getSubscriptionById a b c)"
  "stays (only_fails K) (updateSubscription us)" "stays (only_fails K) (updateRecurringPaymentCollection uc)"
  "stays (only_fails K) (getCollectionAttemptById a b c)" "stays (only_fails K) (getCollectionAttemptByDue a b c t sts)"
  unfolding getTransferById_def updateTransfer_def getRecurringPaymentById_def getSubscriptionById_def updateSubscription_def
    updateRecurringPaymentCollection_def getCollectionAttemptById_def getCollectionAttemptByDue_def update_payment_def
  by (intro fails_intros)+

lemma fails_update_attempt:
  "uca_status uca \<noteq> Some CaFailed \<Longrightarrow> stays (only_fails K) (updateCollectionAttempt uca)"
  unfolding updateCollectionAttempt_def
  by (rule fails_update_attempts) (auto simp: updated_attempt_def assign_def split: option.splits)

lemma fails_validated: "stays (only_fails K) (validatedStoredCollectionSignature w g)"
  unfolding validatedStoredCollectionSignature_def by (intro fails_intros)

lemma fails_mark: "leaves_tables w \<Longrightarrow>
    stays (only_fails {sca_id attempt}) (markRecurringPaymentCollectionFailedAtomically w a b c attempt tr sg e)"
  unfolding markRecurringPaymentCollectionFailedAtomically_def fail_transfer_def settle_failed_attempt_def Let_def
  by (intro fails_intros fails_statements fails_validated fails_outside fails_update_attempts)
    (auto simp: failed_attempt_def attempt_at_def)

lemma fails_finalize: "stays (only_fails K) (finalizeRecurringPaymentCollection a b c d e f g)"
  unfolding finalizeRecurringPaymentCollection_def
  by (intro fails_intros fails_statements fails_update_attempt) simp_all

lemma fails_confirm: "leaves_tables w \<Longrightarrow> stays (only_fails K) (confirmSubscriptionSignature w g m)"
  unfolding confirmSubscriptionSignature_def by (intro fails_intros fails_outside)

lemma fails_gather: "leaves_tables w \<Longrightarrow> stays (only_fails K) (gather_evidence w a b c d e f g h)"
  unfolding gather_evidence_def resolveDestinationTokenAccount_def verifyRecurringPaymentCollection_def assertValidAddress_def Let_def
  by (intro fails_intros fails_statements fails_outside)

text \<open>What a computation may throw.\<close>

definition throws_only :: "('e \<Rightarrow> bool) \<Rightarrow> ('s, 'e, 'a) io \<Rightarrow> bool" where
  "throws_only P m \<longleftrightarrow> (\<forall>s e s'. m s = (Inl e, s') \<longrightarrow> P e)"

lemma throws_pure: "throws_only P (io_return a)" "throws_only P (io_get f)" "P e \<Longrightarrow> throws_only P (io_throw e)"
  "(\<And>e. r = Inl e \<Longrightarrow> P e) \<Longrightarrow> throws_only P (io_lift r)"
  by (simp_all add: throws_only_def io_return_def io_get_def io_throw_def io_lift_def)

lemma throws_bind:
  assumes "throws_only P m" "\<And>a s s'. m s = (Inr a, s') \<Longrightarrow> throws_only P (f a)"
  shows "throws_only P (io_bind m f)"
  using assms unfolding throws_only_def by (fastforce simp: io_bind_def split: prod.splits sum.splits)

lemma throws_if: "(c \<Longrightarrow> throws_only P m) \<Longrightarrow> (\<not> c \<Longrightarrow> throws_only P n) \<Longrightarrow> throws_only P (if c then m else n)"
  by simp

lemma throws_option:
  "(v = None \<Longrightarrow> throws_only P m) \<Longrightarrow> (\<And>x. v = Some x \<Longrightarrow> throws_only P (f x)) \<Longrightarrow>
     throws_only P (case v of None \<Rightarrow> m | Some x \<Rightarrow> f x)"
  by (cases v) auto

lemma throws_select: "P (SqlError ''connection terminated'') \<Longrightarrow> throws_only P (select_first rows matching)"
  unfolding select_first_def throws_only_def by (auto simp: sql_def io_get_def split: list.splits if_splits)

lemmas throws_intros = throws_pure throws_bind throws_if throws_option throws_select

lemma catch_only_fails:
  assumes "stays (only_fails K) m" "throws_only P m" "\<And>e. P e \<Longrightarrow> stays (only_fails K) (h e)"
  shows "stays (only_fails K) (io_catch m h)"
proof (rule staysI)
  fix s
  obtain r s1 where m: "m s = (r, s1)" by fastforce
  have first: "only_fails K s s1" using staysD2[OF assms(1) m] .
  show "only_fails K s (snd (io_catch m h s))"
  proof (cases r)
    case (Inl e)
    then have "P e" using assms(2) m by (auto simp: throws_only_def)
    then show ?thesis using fails.trans[OF first staysD[OF assms(3)]] m Inl by (simp add: io_catch_def)
  qed (use first m in \<open>simp add: io_catch_def\<close>)
qed

text \<open>The chain reports that the transaction of a signature failed. Reading from the chain and the program libraries raises no error of
  the kinds that mean a submission has definitely failed; those are thrown for what a reading returned.\<close>

definition chain_reports_failure :: "recurring_world \<Rightarrow> string \<Rightarrow> bool" where
  "chain_reports_failure w signature \<longleftrightarrow> (\<exists>v. fst (rw_confirmTransaction w signature v) = Inr True \<or>
     (\<exists>tx. fst (rw_getTransaction w signature v) = Inr (Some tx) \<and> ctx_err tx))"

lemma chain_reported:
  "rw_confirmTransaction w g v = (Inr True, v') \<Longrightarrow> chain_reports_failure w g"
  "rw_getTransaction w g v = (Inr (Some tx), v') \<Longrightarrow> ctx_err tx \<Longrightarrow> chain_reports_failure w g"
  unfolding chain_reports_failure_def by (metis fst_conv)+

definition reads_indefinite :: "recurring_world \<Rightarrow> bool" where
  "reads_indefinite w \<longleftrightarrow>
     throws_only (\<lambda>e. \<not> isDefiniteSubmissionError e) (rw_findEventAuthorityPda w) \<and>
     (\<forall>m. throws_only (\<lambda>e. \<not> isDefiniteSubmissionError e) (rw_resolveMintTokenProgram w m)) \<and>
     (\<forall>m. throws_only (\<lambda>e. \<not> isDefiniteSubmissionError e) (rw_resolveMintDecimals w m)) \<and>
     (\<forall>a b c. throws_only (\<lambda>e. \<not> isDefiniteSubmissionError e) (rw_findAssociatedTokenPda w a b c)) \<and>
     (\<forall>g. throws_only (\<lambda>e. \<not> isDefiniteSubmissionError e) (rw_getTransaction w g)) \<and>
     (\<forall>g. throws_only (\<lambda>e. \<not> isDefiniteSubmissionError e) (rw_confirmTransaction w g))"

definition as_reported :: "recurring_world \<Rightarrow> string \<Rightarrow> api_error \<Rightarrow> bool" where
  "as_reported w signature e \<longleftrightarrow> (isDefiniteSubmissionError e \<longrightarrow> chain_reports_failure w signature)"

lemma indefinite_as_reported: "throws_only (\<lambda>e. \<not> isDefiniteSubmissionError e) m \<Longrightarrow> throws_only (as_reported w g) m"
  by (simp add: throws_only_def as_reported_def)

lemma outside_as_reported:
  assumes "reads_indefinite w"
  shows "throws_only (as_reported w g) (rw_findEventAuthorityPda w)" "throws_only (as_reported w g) (rw_resolveMintTokenProgram w m)"
    "throws_only (as_reported w g) (rw_resolveMintDecimals w m)" "throws_only (as_reported w g) (rw_findAssociatedTokenPda w a b c)"
    "throws_only (as_reported w g) (rw_getTransaction w g')" "throws_only (as_reported w g) (rw_confirmTransaction w g')"
  using assms unfolding reads_indefinite_def by (simp_all add: indefinite_as_reported)

lemma indefinite_errors [simp]:
  "as_reported w g (SqlError m)" "as_reported w g (PlainError m)" "as_reported w g (AmountThrown e)"
  "as_reported w g (AppError CONFLICT m d)" "as_reported w g (AppError SOLANA_RPC_ERROR m d)"
  by (simp_all add: as_reported_def isDefiniteSubmissionError_def)

lemma throws_confirm:
  "reads_indefinite w \<Longrightarrow> throws_only (as_reported w g) (confirmSubscriptionSignature w g m)"
  unfolding confirmSubscriptionSignature_def
  by (intro throws_intros outside_as_reported) (auto simp: as_reported_def intro: chain_reported)

lemma throws_address: "throws_only (as_reported w g) (assertValidAddress w v f)"
  unfolding assertValidAddress_def by (intro throws_intros) simp

lemma throws_verify:
  assumes "reads_indefinite w"
  shows "throws_only (as_reported w g) (verifyRecurringPaymentCollection w a b c d g e f)"
  unfolding verifyRecurringPaymentCollection_def
  by (intro throws_intros outside_as_reported[OF assms] throws_address)
    (auto simp: as_reported_def isDefiniteSubmissionError_def split: sum.splits intro: chain_reported)

lemma throws_gather:
  assumes "reads_indefinite w"
  shows "throws_only (as_reported w g) (gather_evidence w a b c d e f h g)"
  unfolding gather_evidence_def getRecurringPaymentById_def getSubscriptionById_def resolveDestinationTokenAccount_def Let_def
  by (intro throws_intros outside_as_reported[OF assms] throws_address throws_verify[OF assms] indefinite_errors)

text \<open>The attempts that recovery may fail when it finds a stored signature.\<close>

definition reported_dead :: "recurring_world \<Rightarrow> string \<Rightarrow> string \<Rightarrow> string set" where
  "reported_dead w signature attemptId = (if chain_reports_failure w signature then {attemptId} else {})"

lemma fails_mark_reported:
  assumes "leaves_tables w" "chain_reports_failure w g"
  shows "stays (only_fails (reported_dead w g (sca_id attempt))) (markRecurringPaymentCollectionFailedAtomically w a b c attempt tr sg e)"
  using fails_mark[OF assms(1)] assms(2) by (simp add: reported_dead_def)

lemma transaction_failed_definite: "transaction_failed e \<Longrightarrow> isDefiniteSubmissionError e"
  by (simp add: transaction_failed_def isDefiniteSubmissionError_def split: api_error.splits)

lemma fails_safe_journal:
  assumes "leaves_tables w" "as_reported w g e" "g \<noteq> []"
  shows "stays (only_fails (reported_dead w g (sca_id attempt)))
    (safeJournalRecurringPaymentCollectionError w a b c attempt tr (Some g) e)"
  unfolding safeJournalRecurringPaymentCollectionError_def journalRecurringPaymentCollectionError_def
  by (intro fails_intros fails_statements fails_update_attempt fails_mark_reported assms(1))
    (use assms(2,3) in \<open>auto simp: as_reported_def truthy_def\<close>)

lemma fails_recover_signed:
  assumes "leaves_tables w" "reads_indefinite w" "g \<noteq> []"
  shows "stays (only_fails (reported_dead w g (sca_id existing))) (recover_signed w a b c d due existing tr g)"
proof -
  let ?K = "reported_dead w g (sca_id existing)"
  have report: "stays (only_fails ?K) (markRecurringPaymentCollectionFailedAtomically w a b c' existing tr' sg e)"
    if "as_reported w g e" "transaction_failed e" for c' tr' sg e
    using that transaction_failed_definite assms(1) by (intro fails_mark_reported) (auto simp: as_reported_def)
  have confirm: "stays (only_fails ?K) (confirm_recovered w a b c existing tr g)"
    unfolding confirm_recovered_def
    by (rule catch_only_fails[where P = "as_reported w g"])
      (intro fails_intros fails_confirm throws_intros throws_confirm report assms | simp)+
  have evidence: "stays (only_fails ?K) (recovered_evidence w a b c d due existing tr ra rt g)" for ra rt
    unfolding recovered_evidence_def
    by (rule catch_only_fails[where P = "as_reported w g"])
      (intro fails_intros fails_gather throws_intros throws_gather report fails_safe_journal assms | simp)+
  show ?thesis
    unfolding recover_signed_def Let_def by (intro fails_intros confirm evidence fails_finalize)
qed

lemma latest_by_in:
  assumes "latest_by key rows = Some a"
  shows "a \<in> set rows"
proof -
  have a: "rows \<noteq> []" "a = last (sort_key key rows)" using assms by (auto simp: latest_by_def split: if_splits)
  then have "sort_key key rows \<noteq> []" by (metis set_empty set_sort)
  then show ?thesis using a(2) last_in_set[of "sort_key key rows"] by simp
qed

lemma wp_attempt_by_due:
  assumes "\<And>e s'. only_session s s' \<Longrightarrow> Q (Inl e) s'"
    "\<And>s' found. only_session s s' \<Longrightarrow> (\<And>a. found = Some a \<Longrightarrow> a \<in> set (rs_attempts s) \<and> sca_organization_id a = b \<and>
      sca_project_id a = c \<and> sca_subscription_id a = d \<and> sca_due_at a = due \<and> status_wanted sts (sca_status a)) \<Longrightarrow> Q (Inr found) s'"
  shows "wp (getCollectionAttemptByDue b c d due sts) Q s"
  unfolding getCollectionAttemptByDue_def select_latest_def
proof (rule wp_sql, rule wp_get, rule assms(2))
  fix fs a
  assume "latest_by sca_updated_at (filter (\<lambda>r. sca_organization_id r = b \<and> sca_project_id r = c \<and> sca_subscription_id r = d \<and>
      sca_due_at r = due \<and> status_wanted sts (sca_status r)) (rs_attempts (s\<lparr>sess_faults := fs\<rparr>))) = Some a"
  from latest_by_in[OF this]
  show "a \<in> set (rs_attempts s) \<and> sca_organization_id a = b \<and> sca_project_id a = c \<and> sca_subscription_id a = d \<and>
      sca_due_at a = due \<and> status_wanted sts (sca_status a)" by simp
qed (simp_all add: assms(1))

text \<open>An attempt whose money cannot have moved: stale without ever having had a transfer, a signature or a broadcast, or reported failed
  by the chain.\<close>

definition stored_signature :: "PaymentSubscriptionCollectionAttemptRow \<Rightarrow> PaymentTransferRow \<Rightarrow> string option" where
  "stored_signature a tr = (if sca_signature a \<noteq> None then sca_signature a else ptr_signature tr)"

definition dead_attempt :: "recurring_world \<Rightarrow> recurring_session \<Rightarrow> PaymentSubscriptionCollectionAttemptRow \<Rightarrow> bool" where
  "dead_attempt w s a \<longleftrightarrow>
     isStaleCollectionAttempt (sess_clock s) a \<and> \<not> truthy (sca_transfer_id a) \<or>
     (\<exists>tr\<in>set (rs_transfers s). sca_transfer_id a = Some (ptr_id tr) \<and>
       (isStaleCollectionAttempt (sess_clock s) a \<and> (\<not> truthy (stored_signature a tr) \<or> ptr_submission_started_at tr = None) \<or>
        (\<exists>g. stored_signature a tr = Some g \<and> chain_reports_failure w g)))"

definition fails_only_dead :: "recurring_world \<Rightarrow> recurring_session \<Rightarrow> recurring_session \<Rightarrow> bool" where
  "fails_only_dead w s s' \<longleftrightarrow> only_fails {} s s' \<or>
     (\<exists>a\<in>set (rs_attempts s). sca_status a \<in> {CaProcessing, CaConfirmed} \<and> dead_attempt w s a \<and> only_fails {sca_id a} s s')"

lemma wp_fail_interrupted:
  assumes "leaves_tables w"
    "\<And>r s'. only_fails (if isStaleCollectionAttempt (sess_clock s) existing then {sca_id existing} else {}) s s' \<Longrightarrow> Q r s'"
  shows "wp (fail_interrupted w a b c existing tr sg msg) Q s"
  unfolding fail_interrupted_def
proof (intro wp_bind wp_now, simp only: sum.case, intro wp_if wp_throw)
  assume stale: "\<not> \<not> isStaleCollectionAttempt (sess_clock s) existing"
  have mark: "stays (only_fails {sca_id existing}) (io_bind (markRecurringPaymentCollectionFailedAtomically w a b (rp_id c)
      existing tr sg (PlainError msg)) (\<lambda>_. io_return None))"
    by (intro fails_intros fails_mark assms(1))
  show "wp (io_bind (markRecurringPaymentCollectionFailedAtomically w a b (rp_id c) existing tr sg (PlainError msg))
      (\<lambda>_. io_return None)) Q s"
    by (rule wp_stays[OF mark]) (use stale in \<open>simp add: assms(2)\<close>)
qed (use assms(2) fails.refl in auto)

lemma fails_only_dead_quiet: "only_session s s' \<Longrightarrow> fails_only_dead w s s'"
  using fails.session by (simp add: fails_only_dead_def)

lemma fails_only_dead_attempt:
  assumes "only_session s s1" "only_fails K s1 s'" "K \<subseteq> {sca_id a}" "K = {} \<or> dead_attempt w s a" "a \<in> set (rs_attempts s)"
    "sca_status a \<in> {CaProcessing, CaConfirmed}"
  shows "fails_only_dead w s s'"
proof -
  have "only_fails K s s'" using fails.trans[OF fails.session[OF assms(1)] assms(2)] .
  then show ?thesis using assms(3-6) unfolding fails_only_dead_def by (metis subset_singletonD)
qed

lemma wp_interrupted_dead:
  assumes "leaves_tables w" "only_session s s2" "existing \<in> set (rs_attempts s)" "sca_status existing \<in> {CaProcessing, CaConfirmed}"
    "isStaleCollectionAttempt (sess_clock s) existing \<Longrightarrow> dead_attempt w s existing"
  shows "wp (fail_interrupted w a b c existing tr sg msg) (\<lambda>_ s'. fails_only_dead w s s') s2"
  by (rule wp_fail_interrupted[OF assms(1)], rule fails_only_dead_attempt[OF assms(2) _ _ _ assms(3,4)])
    (use assms(5) session_keeps_tables(11)[OF assms(2)] in \<open>auto split: if_splits\<close>)

lemma wp_signed_dead:
  assumes "leaves_tables w" "reads_indefinite w" "only_session s s2" "existing \<in> set (rs_attempts s)"
    "sca_status existing \<in> {CaProcessing, CaConfirmed}" "g \<noteq> []" "chain_reports_failure w g \<Longrightarrow> dead_attempt w s existing"
  shows "wp (recover_signed w a b c d due existing tr g) (\<lambda>_ s'. fails_only_dead w s s') s2"
  by (rule wp_stays[OF fails_recover_signed[OF assms(1,2,6)]], rule fails_only_dead_attempt[OF assms(3) _ _ _ assms(4,5)])
    (use assms(7) in \<open>auto simp: reported_dead_def split: if_splits\<close>)

lemma wp_result: "P e \<Longrightarrow> (case Inl e of Inl e \<Rightarrow> P e | Inr a \<Rightarrow> Q a)" "Q a \<Longrightarrow> (case Inr a of Inl e \<Rightarrow> P e | Inr a \<Rightarrow> Q a)"
  by simp_all

lemma found_transfer:
  assumes "find (transfer_at (the (sca_transfer_id a)) b c) (rs_transfers s1) = Some tr" "only_session s s1" "truthy (sca_transfer_id a)"
  shows "tr \<in> set (rs_transfers s)" "sca_transfer_id a = Some (ptr_id tr)"
  using find_Some_in[OF assms(1)] assms(2,3) by (auto simp: session_keeps_tables transfer_at_def truthy_def split: option.splits)

lemma truthy_text: "truthy v \<Longrightarrow> the v \<noteq> []"
  by (auto simp: truthy_def split: option.splits)

lemma dead_untransferred:
  "isStaleCollectionAttempt (sess_clock s) a \<Longrightarrow> \<not> truthy (sca_transfer_id a) \<Longrightarrow> dead_attempt w s a"
  by (simp add: dead_attempt_def)

lemma dead_interrupted:
  assumes "find (transfer_at (the (sca_transfer_id a)) b c) (rs_transfers s1) = Some tr" "only_session s s1" "truthy (sca_transfer_id a)"
    "isStaleCollectionAttempt (sess_clock s) a" "\<not> truthy (stored_signature a tr) \<or> interrupted_before_broadcast tr"
  shows "dead_attempt w s a"
  using found_transfer[OF assms(1-3)] assms(4,5) unfolding dead_attempt_def interrupted_before_broadcast_def by blast

lemma dead_reported:
  assumes "find (transfer_at (the (sca_transfer_id a)) b c) (rs_transfers s1) = Some tr" "only_session s s1" "truthy (sca_transfer_id a)"
    "truthy (stored_signature a tr)" "chain_reports_failure w (the (stored_signature a tr))"
  shows "dead_attempt w s a"
  using found_transfer[OF assms(1-3)] assms(4,5) unfolding dead_attempt_def by (auto simp: truthy_def split: option.splits)

lemma recovery_fails_only_dead:
  assumes "leaves_tables w" "reads_indefinite w"
  shows "wp (recoverRecurringPaymentCollection w organizationId projectId recurringPayment subscription dueAt)
    (\<lambda>_ s'. fails_only_dead w s s') s"
  unfolding recoverRecurringPaymentCollection_def getTransferById_def Let_def validatedStoredCollectionSignature_def
    stored_signature_def[symmetric]
  by (intro wp_bind wp_attempt_by_due wp_option wp_if transfers.wp_select wp_return wp_throw wp_interrupted_dead wp_signed_dead
      assms wp_result)
    (auto simp: status_wanted_def truthy_text
      intro: fails_only_dead_quiet only_session_trans dead_untransferred dead_interrupted dead_reported)


lemma sample_outside_reads: "reads_indefinite (sample_outside failed)"
  by (simp add: reads_indefinite_def sample_outside_def throws_pure)


section \<open>Settled only on proof\<close>

text \<open>What a computation may return.\<close>

definition yields :: "('a \<Rightarrow> bool) \<Rightarrow> ('s, 'e, 'a) io \<Rightarrow> bool" where
  "yields P m \<longleftrightarrow> (\<forall>s a s'. m s = (Inr a, s') \<longrightarrow> P a)"

lemma yieldsD: "yields P m \<Longrightarrow> m s = (Inr a, s') \<Longrightarrow> P a"
  by (auto simp: yields_def)

lemma yields_pure: "P a \<Longrightarrow> yields P (io_return a)" "yields P (io_throw e)" "(\<And>a. r = Inr a \<Longrightarrow> P a) \<Longrightarrow> yields P (io_lift r)"
  by (simp_all add: yields_def io_return_def io_throw_def io_lift_def)

lemma yields_bind: "(\<And>a s s'. m s = (Inr a, s') \<Longrightarrow> yields P (f a)) \<Longrightarrow> yields P (io_bind m f)"
  unfolding yields_def by (fastforce simp: io_bind_def split: prod.splits sum.splits)

lemma yields_bind_any: "(\<And>a. yields P (f a)) \<Longrightarrow> yields P (io_bind m f)"
  by (rule yields_bind)

lemma yields_if: "(c \<Longrightarrow> yields P m) \<Longrightarrow> (\<not> c \<Longrightarrow> yields P n) \<Longrightarrow> yields P (if c then m else n)"
  by simp

lemma yields_option:
  "(v = None \<Longrightarrow> yields P m) \<Longrightarrow> (\<And>x. v = Some x \<Longrightarrow> yields P (f x)) \<Longrightarrow> yields P (case v of None \<Rightarrow> m | Some x \<Rightarrow> f x)"
  by (cases v) auto

lemma yields_prod: "(\<And>a b. v = (a, b) \<Longrightarrow> yields P (f a b)) \<Longrightarrow> yields P (case v of (a, b) \<Rightarrow> f a b)"
  by (cases v) auto

lemma yields_catch: "yields P m \<Longrightarrow> (\<And>e. yields P (h e)) \<Longrightarrow> yields P (io_catch m h)"
  unfolding yields_def by (fastforce simp: io_catch_def split: prod.splits sum.splits)

lemma yields_sql: "yields P m \<Longrightarrow> yields P (sql m)"
  unfolding yields_def using sql_Inr[of m] by metis

lemma yields_transaction: "yields P m \<Longrightarrow> yields P (transaction m)"
  unfolding yields_def by (metis Inl_Inr_False prod.inject sum.inject(2) transaction_cases)

lemma yields_select: "yields (\<lambda>r. \<forall>x. r = Some x \<longrightarrow> matching x) (select_first rows matching)"
  unfolding select_first_def by (rule yields_sql) (auto simp: yields_def io_get_def dest: find_Some_in)

lemma yields_update: "yields (\<lambda>r. \<forall>x. r = Some x \<longrightarrow> (\<exists>y. matching y \<and> x = change y)) (update_returning rows put matching change)"
  unfolding update_returning_def
proof (rule yields_sql)
  show "yields (\<lambda>r. \<forall>x. r = Some x \<longrightarrow> (\<exists>y. matching y \<and> x = change y))
      (\<lambda>s. io_bind (put (table_update matching change (rows s))) (\<lambda>_. io_return (map_option change (find matching (rows s)))) s)"
    unfolding yields_def by (auto simp: io_bind_def io_return_def split: prod.splits sum.splits dest!: find_Some_in)
qed

lemmas yields_intros = yields_pure yields_bind yields_if yields_option yields_prod yields_transaction

text \<open>The chain holds a successful transaction with an instruction of the subscriptions program that moves the payment's amount of its
  token from its source to the destination account, through its plan and subscription.\<close>

definition proving_instruction ::
  "recurring_world \<Rightarrow> PaymentRecurringPaymentRow \<Rightarrow> PaymentSubscriptionRow \<Rightarrow> string \<Rightarrow> int \<Rightarrow> ParsedInstruction \<Rightarrow> bool" where
  "proving_instruction w payment sub destinationTokenAccount amount i \<longleftrightarrow>
     pin_programId i = rw_subscriptionsProgram w \<and>
     (\<exists>data transfer tokenProgram eventAuthority. pin_data i = Some data \<and> rw_decodeTransfer w data = Some transfer \<and>
       tsd_discriminator transfer = rw_transferDiscriminator w \<and> tsd_amount transfer = amount \<and>
       tsd_delegator transfer = rp_source_address payment \<and> tsd_mint transfer = rp_token payment \<and>
       pin_accounts i = Some [the (rp_subscription_pda payment), the (rp_plan_pda payment),
         the (sub_subscription_authority_address sub), the (sub_subscriber_token_account sub), destinationTokenAccount,
         rp_source_address payment, rp_token payment, tokenProgram, eventAuthority, rw_subscriptionsProgram w])"

definition collection_proof ::
  "recurring_world \<Rightarrow> PaymentRecurringPaymentRow \<Rightarrow> PaymentSubscriptionRow \<Rightarrow> string \<Rightarrow> string \<Rightarrow> bool" where
  "collection_proof w payment sub signature destinationTokenAccount \<longleftrightarrow>
     (\<exists>v v' tx u u' decimals amount. rw_getTransaction w signature v = (Inr (Some tx), v') \<and> \<not> ctx_err tx \<and>
       rw_resolveMintDecimals w (rp_token payment) u = (Inr decimals, u') \<and> parseDecimalAmount (rp_amount payment) decimals = Inr amount \<and>
       list_ex (proving_instruction w payment sub destinationTokenAccount amount) (ctx_instructions tx))"

lemma matching_instruction_proves:
  assumes "matchesRecurringTransferInstruction w
      \<lparr>exc_amountBaseUnits = amount, exc_sourceAddress = rp_source_address payment,
       exc_subscriberTokenAccount = the (sub_subscriber_token_account sub),
       exc_subscriptionAuthorityAddress = the (sub_subscription_authority_address sub),
       exc_subscriptionPda = the (rp_subscription_pda payment), exc_planPda = the (rp_plan_pda payment),
       exc_destinationTokenAccount = dest, exc_token = rp_token payment,
       exc_tokenProgram = tokenProgram, exc_eventAuthority = eventAuthority\<rparr> i"
  shows "proving_instruction w payment sub dest amount i"
  using assms by (auto simp: matchesRecurringTransferInstruction_def proving_instruction_def split: option.splits if_splits)

lemma collection_proofI:
  assumes "rw_getTransaction w g v = (Inr (Some tx), v')" "\<not> ctx_err tx" "rw_resolveMintDecimals w (rp_token payment) u = (Inr decimals, u')"
    "parseDecimalAmount (rp_amount payment) decimals = Inr amount"
    "list_ex (matchesRecurringTransferInstruction w
      \<lparr>exc_amountBaseUnits = amount, exc_sourceAddress = rp_source_address payment,
       exc_subscriberTokenAccount = the (sub_subscriber_token_account sub),
       exc_subscriptionAuthorityAddress = the (sub_subscription_authority_address sub),
       exc_subscriptionPda = the (rp_subscription_pda payment), exc_planPda = the (rp_plan_pda payment),
       exc_destinationTokenAccount = dest, exc_token = rp_token payment,
       exc_tokenProgram = tokenProgram, exc_eventAuthority = eventAuthority\<rparr>) (ctx_instructions tx)"
  shows "collection_proof w payment sub g dest"
proof -
  have "list_ex (proving_instruction w payment sub dest amount) (ctx_instructions tx)"
    using assms(5) matching_instruction_proves by (fastforce simp: list_ex_iff)
  then show ?thesis unfolding collection_proof_def using assms(1-4) by blast
qed

definition verified_collection ::
  "recurring_world \<Rightarrow> PaymentRecurringPaymentRow \<Rightarrow> PaymentSubscriptionRow \<Rightarrow> string \<Rightarrow> timestamp \<Rightarrow>
     VerifiedRecurringPaymentCollection \<Rightarrow> bool" where
  "verified_collection w payment sub signature dueAt pr \<longleftrightarrow>
     collection_proof w payment sub signature (vrc_destinationTokenAccount pr) \<and> vrc_signature pr = signature \<and> vrc_dueAt pr = dueAt"

lemma address_kept: "assertValidAddress w v f s = (Inr a, s') \<Longrightarrow> a = v"
  by (auto simp: assertValidAddress_def io_return_def io_throw_def split: if_splits)

lemma lifted: "io_lift r s = (Inr a, s') \<Longrightarrow> r = Inr a"
  by (simp add: io_lift_def)

lemma yields_verify:
  "yields (verified_collection w payment sub signature dueAt) (verifyRecurringPaymentCollection w payment sub a tr signature dueAt dest)"
  unfolding verifyRecurringPaymentCollection_def
  by (intro yields_intros)
    (auto simp: verified_collection_def dest!: address_kept lifted split: sum.splits intro: collection_proofI)

lemma yields_gather:
  "yields (\<lambda>(payment, sub, pr). rp_id payment = rp_id recurringPayment \<and> sub_id sub = sub_id subscription \<and>
      verified_collection w payment sub g dueAt pr)
    (gather_evidence w b c recurringPayment subscription dueAt ra rt g)"
  unfolding gather_evidence_def getRecurringPaymentById_def getSubscriptionById_def Let_def
  by (intro yields_intros)
    (auto dest!: yieldsD[OF yields_verify] yieldsD[OF yields_select] simp: payment_at_def subscription_at_def split: option.splits)

definition settled_on_proof ::
  "recurring_world \<Rightarrow> PaymentRecurringPaymentRow \<Rightarrow> PaymentSubscriptionRow \<Rightarrow> timestamp \<Rightarrow> recovered_collection \<Rightarrow> bool" where
  "settled_on_proof w recurringPayment subscription dueAt = (\<lambda>(r, u, a, t). \<exists>payment sub signature destinationTokenAccount.
     rp_id r = rp_id recurringPayment \<and> rp_id payment = rp_id recurringPayment \<and> sub_id sub = sub_id subscription \<and>
     collection_proof w payment sub signature destinationTokenAccount \<and>
     sca_status a = CaConfirmed \<and> sca_signature a = Some signature \<and> sca_transfer_id a = Some (ptr_id t) \<and>
     ptr_status t \<in> {TrConfirmed, TrFinalized} \<and> ptr_signature t = Some signature \<and>
     (isRecurringPaymentCollectionActive (rp_status r) \<longrightarrow>
        (\<exists>next. nextRecurringPaymentCollectionDueAt (Some dueAt) (rp_period_hours payment) = Inr next \<and>
           rp_next_collection_due_at r = Some next) \<or>
        hasRecurringPaymentAdvancedPastDueAt (rp_next_collection_due_at r) (Some dueAt)))"

lemma settled_on_proofI:
  assumes "rp_id payment = rp_id recurringPayment" "sub_id sub = sub_id subscription" "collection_proof w payment sub g dest"
    "rp_id r = rp_id payment" "sca_status a = CaConfirmed" "sca_signature a = Some g" "sca_transfer_id a = Some (ptr_id t)"
    "ptr_status t \<in> {TrConfirmed, TrFinalized}" "ptr_signature t = Some g"
    "isRecurringPaymentCollectionActive (rp_status r) \<Longrightarrow>
      (\<exists>next. nextRecurringPaymentCollectionDueAt (Some dueAt) (rp_period_hours payment) = Inr next \<and>
         rp_next_collection_due_at r = Some next) \<or>
      hasRecurringPaymentAdvancedPastDueAt (rp_next_collection_due_at r) (Some dueAt)"
  shows "settled_on_proof w recurringPayment subscription dueAt (r, u, a, t)"
  unfolding settled_on_proof_def prod.case using assms by metis

lemma updated_due:
  "updateRecurringPaymentCollection input s = (Inr (Some r), s') \<Longrightarrow>
     rp_id r = upc_recurringPaymentId input \<and> rp_next_collection_due_at r = Some (upc_nextCollectionDueAt input)"
  unfolding updateRecurringPaymentCollection_def update_payment_def
  by (drule yieldsD[OF yields_update]) (auto simp: payment_at_def)

lemma found_payment: "getRecurringPaymentById i b c None s = (Inr (Some r), s') \<Longrightarrow> rp_id r = i"
  unfolding getRecurringPaymentById_def by (simp, drule yieldsD[OF yields_select]) (simp add: payment_at_def)

lemma yields_finalize:
  assumes "rp_id payment = rp_id recurringPayment" "sub_id sub = sub_id subscription" "verified_collection w payment sub g dueAt pr"
  shows "yields (settled_on_proof w recurringPayment subscription dueAt) (finalizeRecurringPaymentCollection b c payment sub a tr pr)"
proof -
  have proof': "collection_proof w payment sub g (vrc_destinationTokenAccount pr)" "vrc_signature pr = g" "vrc_dueAt pr = dueAt"
    using assms(3) by (simp_all add: verified_collection_def)
  show ?thesis
    unfolding finalizeRecurringPaymentCollection_def
    by (rule yields_bind_any, rule yields_bind, rule yields_transaction, rule yields_bind_any, rule yields_bind_any,
        rule yields_bind_any, rule yields_bind_any, rule yields_bind_any, rule yields_bind_any, rule yields_bind, rule yields_bind,
        intro yields_prod yields_option yields_if yields_pure)
      (auto intro!: settled_on_proofI[OF assms(1,2) proof'(1)] simp: proof'(2,3) io_return_def dest!: updated_due found_payment lifted
        split: option.splits)
qed

lemma yields_recover:
  "yields (\<lambda>found. \<forall>x. found = Some x \<longrightarrow> settled_on_proof w recurringPayment subscription dueAt x)
    (recoverRecurringPaymentCollection w b c recurringPayment subscription dueAt)"
proof -
  let ?P = "\<lambda>found. \<forall>x. found = Some x \<longrightarrow> settled_on_proof w recurringPayment subscription dueAt x"
  have interrupted: "yields ?P (fail_interrupted w b c recurringPayment existing tr sg msg)" for existing tr sg msg
    unfolding fail_interrupted_def by (intro yields_intros) simp
  have evidence: "yields (\<lambda>found. \<forall>payment sub pr. found = Some (payment, sub, pr) \<longrightarrow> rp_id payment = rp_id recurringPayment \<and>
      sub_id sub = sub_id subscription \<and> verified_collection w payment sub g dueAt pr)
      (recovered_evidence w b c recurringPayment subscription dueAt existing tr ra rt g)" for existing tr ra rt g
    unfolding recovered_evidence_def by (intro yields_catch yields_intros) (auto dest!: yieldsD[OF yields_gather])
  have "yields ?P (recover_signed w b c recurringPayment subscription dueAt existing tr g)" for existing tr g
    unfolding recover_signed_def Let_def
    by (intro yields_intros) (auto dest!: yieldsD[OF evidence] dest: yieldsD[OF yields_finalize])
  then show ?thesis
    unfolding recoverRecurringPaymentCollection_def Let_def by (intro yields_intros interrupted) auto
qed


lemma sample_recovered:
  "\<exists>r u a t s'. recoverRecurringPaymentCollection (sample_outside False) ''o'' ''p'' sample_payment sample_subscription 1000000
     sample_tables = (Inr (Some (r, u, a, t)), s')"
proof -
  have "(case fst (recoverRecurringPaymentCollection (sample_outside False) ''o'' ''p'' sample_payment sample_subscription 1000000
      sample_tables) of Inr (Some _) \<Rightarrow> True | _ \<Rightarrow> False)" by code_simp
  then show ?thesis by (auto simp: prod_eq_iff split: sum.splits option.splits)
qed


end
