(* ===== verification/Recurring_Requests.thy ===== *)
theory Recurring_Requests
  imports Recurring_Recovery
begin

text \<open>
  Requests to cancel and to resume: how many transactions they hand to the network, and that a request which finds a transaction
  already sent only follows up on it.
\<close>

section \<open>One transaction per operation\<close>

definition sends_upto :: "nat \<Rightarrow> recurring_session \<Rightarrow> recurring_session \<Rightarrow> bool" where
  "sends_upto n s s' \<longleftrightarrow> (\<exists>sent. rs_sent s' = rs_sent s @ sent \<and> length sent \<le> n)"

lemma silent_upto: "sends_nothing s s' \<Longrightarrow> sends_upto n s s'"
  by (auto simp: sends_nothing_def sends_upto_def)

lemma stays_silent_upto: "stays sends_nothing m \<Longrightarrow> stays (sends_upto n) m"
  by (erule stays_widen) (rule silent_upto)

lemma upto_after: "sends_nothing s s1 \<Longrightarrow> sends_upto n s1 s' \<Longrightarrow> sends_upto n s s'"
  and upto_before: "sends_upto n s s1 \<Longrightarrow> sends_nothing s1 s' \<Longrightarrow> sends_upto n s s'"
  by (auto simp: sends_nothing_def sends_upto_def)

lemma upto_bind_after:
  assumes "stays sends_nothing m" "\<And>a. stays (sends_upto n) (f a)"
  shows "stays (sends_upto n) (io_bind m f)"
proof (rule staysI)
  fix s
  show "sends_upto n s (snd (io_bind m f s))"
    using staysD2[OF assms(1), of s] upto_after[OF _ staysD[OF assms(2)]] silent_upto
    by (cases rule: io_bind_cases[of m s f]) auto
qed

lemma upto_bind_before:
  assumes "stays (sends_upto n) m" "\<And>a. stays sends_nothing (f a)"
  shows "stays (sends_upto n) (io_bind m f)"
proof (rule staysI)
  fix s
  show "sends_upto n s (snd (io_bind m f s))"
    using staysD2[OF assms(1), of s] upto_before[OF _ staysD[OF assms(2)]]
    by (cases rule: io_bind_cases[of m s f]) auto
qed

lemma upto_prod: "(\<And>a b. v = (a, b) \<Longrightarrow> stays (sends_upto n) (f a b)) \<Longrightarrow> stays (sends_upto n) (case v of (a, b) \<Rightarrow> f a b)"
  by (cases v) auto

lemma upto_handle:
  assumes "stays (sends_upto n) m" "\<And>p e. stays sends_nothing (h p e)"
  shows "stays (sends_upto n) (handle_progress m h)"
proof (rule staysI)
  fix s
  have "sends_upto n s (snd (h p e s'))" if "sends_upto n s s'" for p e s' using that staysD[OF assms(2)] by (rule upto_before)
  then show "sends_upto n s (snd (handle_progress m h s))"
    using staysD2[OF assms(1), of s] by (auto simp: handle_progress_def split: prod.splits sum.splits)
qed

lemma upto_send: "leaves_tables w \<Longrightarrow> stays (sends_upto (Suc 0)) (sendSubscriptionInstructions w a b c d is)"
proof -
  assume w: "leaves_tables w"
  have "stays (sends_upto (Suc 0)) (io_modify (\<lambda>s. s\<lparr>rs_sent := rs_sent s @ [tx]\<rparr>) :: unit recurring_io)" for tx
    by (rule staysI) (simp add: io_modify_def sends_upto_def)
  then have sent: "stays (sends_upto (Suc 0)) (io_bind (io_modify (\<lambda>s. s\<lparr>rs_sent := rs_sent s @ [tx]\<rparr>)) (\<lambda>_. rw_signAndSend w tx))" for tx
    by (intro upto_bind_before silent.world_stays w)
  have mismatch: "stays (sends_upto (Suc 0)) (io_throw e :: string recurring_io)" for e
    by (intro stays_silent_upto silent_statements.stays_pure)
  show ?thesis
    unfolding sendSubscriptionInstructions_def
    by (simp only: if_split, intro conjI impI mismatch upto_bind_after sent silent.world_stays w)
qed

lemmas silent_intros = silent.service_intros silent.attempts_of_payments_stay

lemma upto_submit:
  assumes "leaves_tables w"
  shows "stays (sends_upto (Suc 0)) (submit_lifecycle w a b c op att d e f g)"
proof -
  have stage: "stays sends_nothing (at_progress p (stage_update att a b sg er))" for p sg er
    by (intro stays_at_progress silent.stays_stage)
  show ?thesis
    unfolding submit_lifecycle_def
    by (intro upto_bind_before stays_at_progress upto_bind_after silent.stays_stage silent.stays_build upto_send assms
        silent_intros stage)
qed

lemma upto_execute:
  assumes "leaves_tables w"
  shows "stays (sends_upto (Suc 0)) (execute_lifecycle w a b c op sub claimed att)"
proof -
  have submit: "stays (sends_upto (Suc 0)) (if \<not> truthy (rla_signature att)
      then submit_lifecycle w a b c op att signer planPda subscriptionPda tokenMint
      else io_return (att, the (rla_signature att)))" for signer planPda subscriptionPda tokenMint
    by (auto intro: upto_submit[OF assms] stays_silent_upto silent_statements.stays_pure)
  have "stays (sends_upto (Suc 0)) (lifecycle_body w a b c op sub claimed att)"
    unfolding lifecycle_body_def
  proof (rule upto_bind_after)
    show "stays sends_nothing (at_progress \<lparr>lp_attempt = att, lp_stage = rla_stage att, lp_signature = rla_signature att\<rparr>
        (prepare_lifecycle w a b c op sub claimed))"
      by (intro stays_at_progress silent.stays_prepare assms)
  qed (intro upto_prod upto_bind_before submit silent_intros silent.stays_confirm assms)
  then show ?thesis
    unfolding execute_lifecycle_def
    by (intro upto_bind_before upto_handle silent.stays_lifecycle_failed silent_statements.stays_prod silent.stays_finalize_lifecycle)
qed

lemma silent_execute:
  assumes "leaves_tables w" "truthy (rla_signature att)"
  shows "stays sends_nothing (execute_lifecycle w a b c op sub claimed att)"
proof -
  have "stays sends_nothing (lifecycle_body w a b c op sub claimed att)"
    unfolding lifecycle_body_def using assms(2)
    by (simp, intro silent_intros silent.stays_prepare silent.stays_confirm assms(1))
  then show ?thesis
    unfolding execute_lifecycle_def
    by (intro silent_intros silent.stays_handle_progress silent.stays_lifecycle_failed silent.stays_finalize_lifecycle)
qed

text \<open>Up to the claim neither the journal of cancellations and resumptions nor the network is touched.\<close>

definition lifecycle_untouched :: "recurring_session \<Rightarrow> recurring_session \<Rightarrow> bool" where
  "lifecycle_untouched s s' \<longleftrightarrow> rs_sent s' = rs_sent s \<and> rs_lifecycle_attempts s' = rs_lifecycle_attempts s"

interpretation untouched_statements: effect_relation lifecycle_untouched
  by unfold_locales (simp_all add: lifecycle_untouched_def session_keeps_tables)

lemma untouched_put:
  "stays lifecycle_untouched (put_payments a)" "stays lifecycle_untouched (put_plans b)" "stays lifecycle_untouched (put_subscriptions c)"
  "stays lifecycle_untouched (put_transfers d)" "stays lifecycle_untouched (put_attempts e)"
  by (rule staysI, simp add: put_defs lifecycle_untouched_def)+

interpretation untouched: collection_effect lifecycle_untouched
  by unfold_locales (simp_all add: untouched_put stays_statement[OF untouched_statements.effect_relation_axioms],
      simp add: same_tables_def lifecycle_untouched_def)

text \<open>The attempt at an operation that is in progress, as \<^verbatim>\<open>getLatestLifecycleAttempt\<close> finds it.\<close>

definition open_lifecycle_attempt ::
  "string \<Rightarrow> string \<Rightarrow> string \<Rightarrow> RecurringPaymentLifecycleOperation \<Rightarrow> recurring_session \<Rightarrow>
     PaymentRecurringPaymentLifecycleAttemptRow option" where
  "open_lifecycle_attempt organizationId projectId recurringPaymentId operation s =
     latest_by (\<lambda>r. (rla_created_at r, rla_updated_at r, rla_id r))
       (filter (\<lambda>r. rla_organization_id r = organizationId \<and> rla_project_id r = projectId \<and>
          rla_recurring_payment_id r = recurringPaymentId \<and> rla_operation r = operation \<and> status_wanted (Some [AttProcessing]) (rla_status r))
         (rs_lifecycle_attempts s))"

lemma wp_open_attempt:
  assumes "open_lifecycle_attempt b c (rp_id claimed) op s = Some att" "\<And>e s'. only_session s s' \<Longrightarrow> Q (Inl e) s'"
    "\<And>s'. only_session s s' \<Longrightarrow> Q (Inr att) s'"
  shows "wp (getOrCreateLifecycleAttempt claimed op b c t) Q s"
  unfolding getOrCreateLifecycleAttempt_def getLatestLifecycleAttempt_def select_latest_def
proof (intro wp_bind wp_sql wp_get wp_result, goal_cases)
  case (1 fs)
  have "latest_by (\<lambda>r. (rla_created_at r, rla_updated_at r, rla_id r))
     (filter (\<lambda>r. rla_organization_id r = b \<and> rla_project_id r = c \<and> rla_recurring_payment_id r = rp_id claimed \<and>
        rla_operation r = op \<and> status_wanted (Some [AttProcessing]) (rla_status r)) (rs_lifecycle_attempts (s\<lparr>sess_faults := fs\<rparr>))) = Some att"
    using assms(1) by (simp add: open_lifecycle_attempt_def)
  then show ?case by (simp add: wp_def io_return_def assms(3))
qed (simp add: assms(2))

lemma upto_if: "(c \<Longrightarrow> stays (sends_upto n) m) \<Longrightarrow> (\<not> c \<Longrightarrow> stays (sends_upto n) m') \<Longrightarrow> stays (sends_upto n) (if c then m else m')"
  and upto_option: "(v = None \<Longrightarrow> stays (sends_upto n) m) \<Longrightarrow> (\<And>x. v = Some x \<Longrightarrow> stays (sends_upto n) (f x)) \<Longrightarrow>
    stays (sends_upto n) (case v of None \<Rightarrow> m | Some x \<Rightarrow> f x)"
  by (auto split: option.split)

lemma upto_pure: "stays (sends_upto n) (io_return a)" "stays (sends_upto n) (io_throw e)"
  by (intro stays_silent_upto silent_statements.stays_pure)+

lemma upto_run:
  assumes "leaves_tables w"
  shows "stays (sends_upto (Suc 0)) (runRecurringPaymentLifecycle w a b c rp op)"
  unfolding runRecurringPaymentLifecycle_def
  by (intro upto_bind_after upto_prod upto_if upto_option upto_pure upto_execute silent_intros silent.stays_recover_or_block
      silent.stays_attempt_row assms)

lemma wp_stays_yields:
  assumes "stays R m" "yields P m" "\<And>e s'. R s s' \<Longrightarrow> Q (Inl e) s'" "\<And>a s'. R s s' \<Longrightarrow> P a \<Longrightarrow> Q (Inr a) s'"
  shows "wp m Q s"
proof (rule wpI)
  fix r s' assume m: "m s = (r, s')"
  then show "Q r s'" using assms(3,4) staysD2[OF assms(1) m] yieldsD[OF assms(2)] by (cases r) auto
qed

lemma yields_recover_or_block:
  "yields (\<lambda>(current, _). rp_id current = rp_id rp) (recoverOrBlockLifecycleCollection w b c rp)"
  unfolding recoverOrBlockLifecycleCollection_def
  by (intro yields_intros) (auto dest!: yieldsD[OF yields_recover] simp: settled_on_proof_def)

lemma yields_claim:
  "yields (\<lambda>claim. \<forall>r. claim = Some r \<longrightarrow> rp_id r = i) (claimRecurringPaymentLifecycle i b c op t sb)"
  unfolding claimRecurringPaymentLifecycle_def Let_def update_payment_def
  by (auto simp: yields_def payment_at_def set_status_def dest!: yieldsD[OF yields_update])

lemma open_attempt_untouched:
  "lifecycle_untouched s s' \<Longrightarrow> open_lifecycle_attempt b c i op s' = open_lifecycle_attempt b c i op s"
  by (simp add: lifecycle_untouched_def open_lifecycle_attempt_def)

lemma signed_claim_silent:
  assumes "leaves_tables w" "lifecycle_untouched s s1" "open_lifecycle_attempt b c (rp_id claimed) op s = Some att"
    "truthy (rla_signature att)"
  shows "wp (io_bind (getOrCreateLifecycleAttempt claimed op b c t) (execute_lifecycle w b c wallet op sub claimed))
    (\<lambda>_ s'. sends_nothing s s') s1"
proof -
  have session: "sends_nothing s s2" if "only_session s1 s2" for s2
    using that assms(2) by (simp add: sends_nothing_def lifecycle_untouched_def session_keeps_tables)
  have execute: "stays sends_nothing (execute_lifecycle w b c wallet op sub claimed att)" by (rule silent_execute) fact+
  show ?thesis
  proof (intro wp_bind wp_open_attempt[where att = att] wp_result)
    show "open_lifecycle_attempt b c (rp_id claimed) op s1 = Some att" using open_attempt_untouched[OF assms(2)] assms(3) by simp
    show "wp (execute_lifecycle w b c wallet op sub claimed att) (\<lambda>_ s'. sends_nothing s s') s2" if "only_session s1 s2" for s2
      by (rule wp_stays[OF execute]) (use session[OF that] in \<open>simp add: sends_nothing_def\<close>)
  qed (rule session)
qed

lemma untouched_sends: "lifecycle_untouched s s' \<Longrightarrow> sends_nothing s s'"
  by (simp add: lifecycle_untouched_def sends_nothing_def)

lemma signed_run_silent:
  assumes "leaves_tables w" "open_lifecycle_attempt b c (rp_id rp) op s = Some att" "truthy (rla_signature att)"
  shows "wp (runRecurringPaymentLifecycle w b c wallet rp op) (\<lambda>_ s'. sends_nothing s s') s"
proof -
  have current: "wp (if op = OpCancel then io_return (rp, None) else recoverOrBlockLifecycleCollection w b c rp) Q s"
    if "\<And>e s'. lifecycle_untouched s s' \<Longrightarrow> Q (Inl e) s'"
      "\<And>cur sub s'. lifecycle_untouched s s' \<Longrightarrow> rp_id cur = rp_id rp \<Longrightarrow> Q (Inr (cur, sub)) s'" for Q
    by (rule wp_stays_yields[where R = lifecycle_untouched and P = "\<lambda>(cur, _). rp_id cur = rp_id rp"])
      (auto intro: untouched_statements.stays_pure untouched.stays_recover_or_block[OF assms(1)] yields_pure yields_recover_or_block that)
  have claim: "wp (claimRecurringPaymentLifecycle (rp_id rp) b c op t sb) Q s1"
    if "lifecycle_untouched s s1" "\<And>e s'. lifecycle_untouched s s' \<Longrightarrow> Q (Inl e) s'"
      "\<And>found s'. lifecycle_untouched s s' \<Longrightarrow> (\<forall>r. found = Some r \<longrightarrow> rp_id r = rp_id rp) \<Longrightarrow> Q (Inr found) s'" for Q t sb s1
    by (rule wp_stays_yields[OF untouched.payments_stay(9) yields_claim])
      (auto intro!: that(2,3) untouched_statements.trans[OF that(1)])
  have tail: "wp (io_bind (getOrCreateLifecycleAttempt claimed op b c t) (execute_lifecycle w b c wallet op sub claimed))
      (\<lambda>_ s'. sends_nothing s s') s1" if "lifecycle_untouched s s1" "rp_id claimed = rp_id rp" for claimed t sub s1
    by (rule signed_claim_silent[OF assms(1) that(1) _ assms(3)]) (simp add: that(2) assms(2))
  have silent: "lifecycle_untouched s s" by (simp add: lifecycle_untouched_def)
  show ?thesis
    unfolding runRecurringPaymentLifecycle_def
    by (rule wp_bind, rule wp_now, rule wp_result, rule wp_bind, rule wp_lift, rule result_case_I,
        rule untouched_sends[OF silent], rule wp_if, rule wp_return, rule untouched_sends[OF silent], rule wp_bind, rule current,
        simp add: untouched_sends, simp only: sum.case prod.case, rule wp_bind, rule wp_now, rule wp_result,
        rule wp_bind, rule wp_lift, rule result_case_I, erule untouched_sends, rule wp_if, rule wp_return, erule untouched_sends,
        rule wp_bind, rule wp_now, rule wp_result, rule wp_bind, rule wp_lift, rule result_case_I, erule untouched_sends,
        rule wp_bind, rule claim, assumption, simp add: untouched_sends, rule wp_result, rule wp_option, rule wp_throw,
        erule untouched_sends, rule tail, assumption, blast)
qed

fun lifecycle_request ::
  "RecurringPaymentLifecycleOperation \<Rightarrow> recurring_world \<Rightarrow> string \<Rightarrow> string \<Rightarrow> CustodyWallet \<Rightarrow> PaymentRecurringPaymentRow \<Rightarrow>
     PaymentRecurringPaymentRow recurring_io" where
  "lifecycle_request OpCancel = cancelRecurringPayment"
| "lifecycle_request OpResume = resumeRecurringPayment"

lemma pending_cancel_silent:
  assumes "rp_status rp = PendingActivation"
  shows "stays sends_nothing (cancelRecurringPayment w b c wallet rp)"
  unfolding cancelRecurringPayment_def using assms by (simp, intro silent_intros)

lemma lifecycle_request_runs:
  "\<not> (op = OpCancel \<and> rp_status rp = PendingActivation) \<Longrightarrow>
     lifecycle_request op w b c wallet rp = runRecurringPaymentLifecycle w b c wallet rp op"
  by (cases op) (simp_all add: cancelRecurringPayment_def resumeRecurringPayment_def)

lemma upto_request: "leaves_tables w \<Longrightarrow> stays (sends_upto (Suc 0)) (lifecycle_request op w b c wallet rp)"
  by (cases "op = OpCancel \<and> rp_status rp = PendingActivation")
    (simp_all add: upto_run lifecycle_request_runs stays_silent_upto pending_cancel_silent)

lemma signed_request_silent:
  assumes "leaves_tables w" "open_lifecycle_attempt b c (rp_id rp) op s = Some att" "truthy (rla_signature att)"
  shows "sends_nothing s (snd (lifecycle_request op w b c wallet rp s))"
proof (cases "op = OpCancel \<and> rp_status rp = PendingActivation")
  case True
  then show ?thesis using staysD[OF pending_cancel_silent] by simp
next
  case False
  then show ?thesis using signed_run_silent[OF assms, of wallet] by (simp add: wp_def lifecycle_request_runs)
qed

text \<open>C14. Cancelling and resuming send at most one transaction. Whatever a request to cancel or to resume a payment returns, and
  wherever it is cut short, it hands at most one transaction to the network; and when the attempt in progress has a signature stored,
  because an earlier request sent its transaction and could not finish, it hands over none: the request only follows up on what was
  sent.\<close>

theorem lifecycle_sends_once:
  assumes "leaves_tables w"
  shows "(\<exists>sent. rs_sent (snd (lifecycle_request operation w organizationId projectId sourceWallet recurringPayment s)) =
      rs_sent s @ sent \<and> length sent \<le> 1) \<and>
    (\<forall>attempt. open_lifecycle_attempt organizationId projectId (rp_id recurringPayment) operation s = Some attempt \<and>
      truthy (rla_signature attempt) \<longrightarrow>
      rs_sent (snd (lifecycle_request operation w organizationId projectId sourceWallet recurringPayment s)) = rs_sent s)"
  using staysD[OF upto_request[OF assms], of s operation organizationId projectId sourceWallet recurringPayment]
    signed_request_silent[OF assms]
  by (auto simp: sends_upto_def sends_nothing_def)

definition interrupted_cancel :: recurring_session where
  "interrupted_cancel = sample_tables\<lparr>rs_payments := [sample_payment\<lparr>rp_status := Canceling\<rparr>],
     rs_lifecycle_attempts := [\<lparr>rla_id = ''la'', rla_organization_id = ''o'', rla_project_id = ''p'', rla_recurring_payment_id = ''rp'',
       rla_operation = OpCancel, rla_status = AttProcessing, rla_stage = LifSubmit, rla_signature = Some ''csig'', rla_error = None,
       rla_metadata = [], rla_created_at = 0, rla_updated_at = 0\<rparr>]\<rparr>"

theorem lifecycle_sends_once_witness:
  "rs_sent (snd (lifecycle_request OpCancel (sample_outside False) ''o'' ''p'' \<lparr>cw_walletId = ''w'', cw_publicKey = ''src''\<rparr>
     (sample_payment\<lparr>rp_status := Canceling\<rparr>) interrupted_cancel)) = []"
proof -
  obtain attempt where "open_lifecycle_attempt ''o'' ''p'' (rp_id (sample_payment\<lparr>rp_status := Canceling\<rparr>)) OpCancel interrupted_cancel =
      Some attempt" "truthy (rla_signature attempt)"
    by (simp add: open_lifecycle_attempt_def interrupted_cancel_def sample_payment_def status_wanted_def latest_by_def truthy_def)
  then have "rs_sent (snd (lifecycle_request OpCancel (sample_outside False) ''o'' ''p'' \<lparr>cw_walletId = ''w'', cw_publicKey = ''src''\<rparr>
      (sample_payment\<lparr>rp_status := Canceling\<rparr>) interrupted_cancel)) = rs_sent interrupted_cancel"
    using lifecycle_sends_once[OF sample_outside_leaves_tables] by blast
  then show ?thesis by (simp add: interrupted_cancel_def sample_tables_def)
qed

end
