(* ===== verification/Spec2Isabelle.thy ===== *)
theory Spec2Isabelle
  imports Enforcement_Service Sponsorship_Reconcile Earn_Outcomes Ip_Enforcement Recurring_Requests
begin

text \<open>
  A verification development for the Solana Developer Platform: the policy system that decides which
  wallet operations may run, the budget that bounds what the platform pays for its customers'
  transactions, the ledger and the services that move money into and out of yield vaults, the ledger of
  recurring payments with the services that recover, cancel and resume them, and the
  allowlist that decides where requests may come from. These are the platform's own money-path logic;
  most of the rest of the repository calls them, presents them or adapts third-party services to them.

  \<^bold>\<open>The program.\<close> A route of the API (\<^verbatim>\<open>src/apps/sdp-api\<close>) that is about to use a wallet describes the operation
  and asks the enforcement service. The service records the operation, resolves the active policy of
  the wallet and of the API key, evaluates the rules of both, stores the evaluation and answers with a
  decision; an operation that needs approval gets an approval request and is resumed later under a
  lease, and the lease is fenced before the effect. A transaction whose fees the platform sponsors goes
  through the budgeted fee payment service: it reserves the full ceiling in a durable ledger and in
  Redis before the provider is asked to sign, and a reconciliation job later compares every
  reservation with the chain. A vault deposit or withdrawal is planned by the vault's provider, signed by
  the custody wallet (and the sponsor), recorded with its signed bytes in the Earn ledger, and only then
  broadcast; a job brings every recorded movement to the outcome the chain reports. A recurring payment is
  activated into an on-chain subscription, collected when it falls due, and canceled, resumed or updated; every such operation
  claims the payment's row first and journals its attempt, so that a later request can take over one that was cut short, and a
  collection that was interrupted is recovered from the chain's own record of it. Before any of it, a
  request's address is checked against the allowlist of its organization.

  \<^bold>\<open>The theories.\<close>
    \<^item> \<^verbatim>\<open>Sdp_Prelude\<close>: results, effects as functions on a state, the JavaScript string and number functions the
      sources call, JSON values, list lemmas. \<^verbatim>\<open>Runtime\<close>: the errors of the API (\<^verbatim>\<open>lib/errors.ts\<close>,
      \<^verbatim>\<open>fee-payment/port.ts\<close>), sessions with a clock, random ids and a fault schedule, SQL statements,
      transactions and their weakest-precondition rules. \<^verbatim>\<open>Effect_Relations\<close>: the locale of effect relations,
      closed once under every combinator.
    \<^item> \<^verbatim>\<open>Decimal_Amount\<close> (\<^verbatim>\<open>sdp-solana/src/amount.ts\<close>): reading a decimal string at a number of decimals is exact,
      the comparison is the order of the numbers, printing and reading round-trip.
    \<^item> \<^verbatim>\<open>Policy_Types\<close>, \<^verbatim>\<open>Policy_Rules\<close>, \<^verbatim>\<open>Policy_Evaluate\<close> (\<^verbatim>\<open>sdp-types/src/policy.ts\<close>, \<^verbatim>\<open>sdp-policy/src\<close>): the
      rule evaluators and the engine. An API key's policy can only restrict the wallet's, destination
      and amount limits hold for everything that is allowed, the order of rules does not matter, a dry
      run explains the decision the engine takes, the engine always returns.
    \<^item> \<^verbatim>\<open>Policy_Enforce\<close> (\<^verbatim>\<open>sdp-policy/src/ports.ts\<close>, \<^verbatim>\<open>enforce.ts\<close>): the enforcement flow over its ports, a locale for the
      contract between them. \<^verbatim>\<open>Tenant_Scope\<close>, \<^verbatim>\<open>Policy_Repository\<close>, \<^verbatim>\<open>Wallet_Operations\<close>
      (\<^verbatim>\<open>lib/tenant-scope.ts\<close>, \<^verbatim>\<open>policy.repository.ts\<close>, \<^verbatim>\<open>policy.repository.postgres.ts\<close>): the tables as lists of row
      records, one definition per statement or transaction. \<^verbatim>\<open>Policy_Resolution\<close> (\<^verbatim>\<open>wallet-policy.store.ts\<close>,
      \<^verbatim>\<open>api-key-policy.store.ts\<close>), \<^verbatim>\<open>Enforcement_Store\<close>, \<^verbatim>\<open>Enforcement_Service\<close>: the stores and the service.
      Enforcement returns only allowed operations and a failure leaves no executable one; at most one
      holder passes the effect fence of a lease; what executes was allowed or approved; decided
      approvals never change; resuming needs the lease, the approval and the very operation that was
      approved; revisions are only appended and the activated one is what resolution uses.
    \<^item> \<^verbatim>\<open>Sponsorship_Redis\<close> (\<^verbatim>\<open>runtime/sponsorship-budget-redis.ts\<close>): the Lua scripts as functions on the Redis
      state. An admission respects every limit, the counters of a window cover what is outstanding on
      every reachable state, so no script can report a broken invariant; settling is idempotent and
      cancelling undoes an admission.
    \<^item> \<^verbatim>\<open>Sponsorship_Ledger\<close> (\<^verbatim>\<open>sponsorship-budget.repository.ts\<close>): reservations, policies and revisions with
      their constraints. Outcomes are final per attempt, every policy change is audited without gaps,
      the window snapshot refines the sum of live reservations, automatic recovery never lifts an
      operator's stop.
    \<^item> \<^verbatim>\<open>Sponsorship_Budget\<close> (\<^verbatim>\<open>sponsorship-budget.service.ts\<close>): the provider is asked only for an admitted
      reservation, never twice for a transaction, and a spend that may have happened stays charged.
    \<^item> \<^verbatim>\<open>Sponsorship_Reconcile\<close> (\<^verbatim>\<open>jobs/reconcile-sponsorship-budgets.ts\<close>): the job processes every reservation
      of its batch, never refunds one, a reported commit has reached the ledger and Redis, and a short
      outage of the provider disables nothing.
    \<^item> \<^verbatim>\<open>Base64\<close>, \<^verbatim>\<open>Idempotency\<close> (\<^verbatim>\<open>lib/idempotency.ts\<close>): bytes and their codecs; the fingerprints that tell a repeated
      request from another one under the same key, equal exactly for the same intent.
    \<^item> \<^verbatim>\<open>Earn_Ledger\<close> (\<^verbatim>\<open>earn-movements.repository.ts\<close>, \<^verbatim>\<open>sdp-types/src/earn.ts\<close>): positions and movements with their constraints,
      one definition per statement or transaction. \<^verbatim>\<open>Earn_Invariants\<close>, \<^verbatim>\<open>Earn_Runs\<close>, \<^verbatim>\<open>Earn_Queue\<close>: over every run of the
      repository a movement only follows the transition matrix, an active position has a live movement, the
      position carries the rent funder its movements imply, and a reconciliation batch is full and fair.
      \<^verbatim>\<open>Earn_Samples\<close> holds the small ledger the theorems are applied to.
    \<^item> \<^verbatim>\<open>Earn_Vault\<close>, \<^verbatim>\<open>Earn_Services\<close> (\<^verbatim>\<open>services/earn/\<close>, \<^verbatim>\<open>jobs/reconcile-earn-vault-movements.ts\<close>): deadlines, endpoint proofs,
      sponsorship, signing, simulation, broadcasting, deposits, withdrawals and the reconciliation job.
      \<^verbatim>\<open>Earn_Wire\<close>, \<^verbatim>\<open>Earn_Safety\<close>, \<^verbatim>\<open>Earn_Outcomes\<close>: only bytes the ledger holds reach the wire, at most one transaction per
      request and none on a replay, what is signed is what was planned, bytes go only to an endpoint proved to
      serve the right chain, and reconciliation gives a movement the outcome the chain reported.
      \<^verbatim>\<open>Earn_World\<close> is the sample outside world of the witnesses.
    \<^item> \<^verbatim>\<open>Ip_Allowlist\<close>, \<^verbatim>\<open>Ip_Ranges\<close>, \<^verbatim>\<open>Ip_Enforcement\<close> (\<^verbatim>\<open>lib/ip-allowlist.ts\<close>, \<^verbatim>\<open>lib/client-ip.ts\<close>,
      \<^verbatim>\<open>lib/organization-ip-allowlist.ts\<close>): ranges, their canonical text, the match of a client, the client's address
      behind the proxy. Parsing and printing round-trip, the canonical list admits the same clients, a
      restriction admits only its networks, a caller's own forwarding header is ignored.
    \<^item> \<^verbatim>\<open>Recurring_Lifecycle\<close> (\<^verbatim>\<open>sdp-payments/src/recurring-payment-lifecycle.ts\<close>): statuses, transitions and schedules.
      \<^verbatim>\<open>Recurring_Ledger\<close> (\<^verbatim>\<open>payment-recurring-payments.repository.ts\<close>, \<^verbatim>\<open>payment-subscriptions.repository.ts\<close> and their Postgres
      versions): nine tables with the constraints of the migrations, one definition per statement. \<^verbatim>\<open>Recurring_Service\<close>
      (\<^verbatim>\<open>services/payments/recurring-payments/\<close>): the verification, failure, settlement and recovery of a collection, and
      cancelling and resuming. \<^verbatim>\<open>Recurring_Effects\<close>: a locale for a table and its guarded write, interpreted for every table, and
      the history of collection attempts. \<^verbatim>\<open>Recurring_Runs\<close>: locales for what every operation and service respects, and runs as
      a step relation. \<^verbatim>\<open>Recurring_Safety\<close>, \<^verbatim>\<open>Recurring_Recovery\<close>, \<^verbatim>\<open>Recurring_Requests\<close>: a due date is collected at most once,
      at most one worker holds a payment, an attempt is failed only when its money cannot have moved and settled only on proof
      from the chain, a request to cancel or resume sends at most one transaction; an activation that finishes late overrides
      a cancellation. \<^verbatim>\<open>Recurring_Samples\<close> holds the small tenant the theorems are applied to.

  \<^bold>\<open>Effects.\<close> A computation is a function from a session to a result (\<open>Inl\<close> the thrown error) and the session it
  leaves. A session carries a schedule of faults: each SQL statement, commit and Redis command takes
  the next entry and fails when it says so, before its effect; a transaction that throws is rolled
  back. The theorems quantify over the session, hence over every schedule, clock value and stream of
  random ids. Requests interleave between statements only where a theorem says so, as a reachability
  relation over the repository's operations or over the Redis scripts.

  \<^bold>\<open>Parameters.\<close> Providers, the RPC, codecs, hashes and the host's collation order are arguments of the
  definitions that use them, gathered in records of dependencies; nothing is assumed of them beyond
  the hypotheses a theorem states. Redis keys and hash fields are constructors, one per key template.
  The vault services take the record \<open>vault_world\<close>: the RPC, the custody signer, the paymaster, the providers'
  clients and the transaction library; \<open>world_ok\<close> and \<open>boundary_ok\<close> say that such a call does not write the
  platform's ledger, and the sample world satisfies both. The block list of \<^verbatim>\<open>node:net\<close> is defined by its documented
  behaviour, the JSON reader of the database driver is a parameter. The services of recurring payments take the record
  \<open>recurring_world\<close>; \<open>leaves_tables\<close> says that its calls do not write the tables (the clock may move), and \<open>reads_indefinite\<close> that
  reading from the chain does not raise the errors that stand for a failed submission.

  \<^bold>\<open>Loops.\<close> The admission of the service retries on a changed policy: its two rounds are the source's constant,
  and so are the three reads of the provider's configuration. All recursion is structural or over
  these counters, so every definition is total; the loops of the amount code end by a measure.

  \<^bold>\<open>Not modelled.\<close> The HTTP routes, the web dashboard, the OpenAPI description and the documentation present what
  is modelled here. Token issuance, custody, ramps, private channels and the RPC relay drive
  third-party SDKs and services. Of vault execution, the construction of the providers' clients, the validity
  check of addresses inside the transaction library, and concurrent callers that share one endpoint proof
  are left out; of the Earn ledger and of recurring payments, the cascades of a deleted organization; of recurring payments, the services
  that activate, update and newly collect a payment, which build subscription-program instructions through the generated
  client and submit through the outbox, and the job that runs due collections (their statements are modelled, and the
  theorems on runs and claims hold for any order of them); of idempotency, the
  fingerprint of custodial withdrawals, which prints a floating-point number. Of the policy repository, the listings for the dashboard are left out; of
  approved operations, the replay of a stored request body into its route. Conversions to IEEE doubles
  are not modelled. Statements of one computation are not interleaved with another request's inside
  the service theorems; the database's row locks are what the step relations of the repository stand for.
\<close>

end
